(* ===== verification/Prelude.thy ===== *)
theory Prelude
  imports Main "HOL-Library.Sublist" "HOL-Library.Multiset"
begin

text \<open>
  The layer every component shares: Python exceptions as values of a sum type,
  sequencing of fallible calls, and the generic facts on lists the component
  proofs use. A Python function that may raise returns \<open>'a res\<close>: \<open>Inl e\<close> is the
  exception, \<open>Inr x\<close> the returned value. A loop that calls such a function stops
  at the first exception, as the source does.
\<close>

named_theorems res_simps "how sequenced fallible calls succeed"

subsection \<open>Exceptions\<close>

datatype py_error =
    ValueError string
  | KeyError string
  | TypeError
  | AttributeError
  | IndexError
  | ZeroDivisionError
  | FileNotFoundError string
  | RuntimeError string
  | OSError
  | StopIteration
  | EOFError

type_synonym 'a res = "py_error + 'a"

fun bindE :: "'a res \<Rightarrow> ('a \<Rightarrow> 'b res) \<Rightarrow> 'b res" where
  "bindE (Inl e) f = Inl e"
| "bindE (Inr x) f = f x"

fun mapE :: "('a \<Rightarrow> 'b res) \<Rightarrow> 'a list \<Rightarrow> 'b list res" where
  "mapE f [] = Inr []"
| "mapE f (x # xs) = bindE (f x) (\<lambda>y. bindE (mapE f xs) (\<lambda>ys. Inr (y # ys)))"

fun foldE :: "('a \<Rightarrow> 's \<Rightarrow> 's res) \<Rightarrow> 'a list \<Rightarrow> 's \<Rightarrow> 's res" where
  "foldE f [] s = Inr s"
| "foldE f (x # xs) s = bindE (f x s) (foldE f xs)"

definition guardE :: "bool \<Rightarrow> py_error \<Rightarrow> unit res" where
  "guardE b e = (if b then Inr () else Inl e)"

definition is_ok :: "'a res \<Rightarrow> bool" where
  "is_ok r = (case r of Inl _ \<Rightarrow> False | Inr _ \<Rightarrow> True)"

definition noneE :: "py_error \<Rightarrow> 'a option \<Rightarrow> 'a res" where
  "noneE e v = (case v of None \<Rightarrow> Inl e | Some x \<Rightarrow> Inr x)"

lemma bindE_Inr_iff [res_simps]: "bindE m f = Inr y \<longleftrightarrow> (\<exists>x. m = Inr x \<and> f x = Inr y)"
  by (cases m) auto

lemma bindE_assoc: "bindE (bindE m f) g = bindE m (\<lambda>x. bindE (f x) g)"
  by (cases m) auto

lemma guardE_Inr_iff [res_simps]: "guardE b e = Inr u \<longleftrightarrow> b"
  by (simp add: guardE_def)

lemma guardE_True [simp]: "guardE True e = Inr ()"
  and guardE_False [simp]: "guardE False e = Inl e"
  by (simp_all add: guardE_def)

lemma noneE_Inr_iff [res_simps]: "noneE e v = Inr x \<longleftrightarrow> v = Some x"
  by (cases v) (auto simp: noneE_def)

lemma noneE_simps [simp]: "noneE e None = Inl e" "noneE e (Some x) = Inr x"
  by (simp_all add: noneE_def)

lemma is_ok_simps [simp]: "is_ok (Inr x)" "\<not> is_ok (Inl e)"
  by (simp_all add: is_ok_def)

lemma is_ok_iff: "is_ok r \<longleftrightarrow> (\<exists>x. r = Inr x)"
  by (cases r) auto

lemma mapE_Inr_iff: "mapE f xs = Inr ys \<longleftrightarrow> list_all2 (\<lambda>x y. f x = Inr y) xs ys"
proof (induction xs arbitrary: ys)
  case Nil
  then show ?case by auto
next
  case (Cons x xs)
  then show ?case by (auto simp: bindE_Inr_iff list_all2_Cons1)
qed

lemma mapE_total: "(\<And>x. x \<in> set xs \<Longrightarrow> f x = Inr (g x)) \<Longrightarrow> mapE f xs = Inr (map g xs)"
  by (induction xs) auto

lemma mapE_length: "mapE f xs = Inr ys \<Longrightarrow> length ys = length xs"
  by (auto simp: mapE_Inr_iff dest: list_all2_lengthD)

lemma mapE_member: "mapE f xs = Inr ys \<Longrightarrow> y \<in> set ys \<Longrightarrow> \<exists>x \<in> set xs. f x = Inr y"
  unfolding mapE_Inr_iff by (induction rule: list_all2_induct) auto

lemma mapE_is_ok: "is_ok (mapE f xs) \<longleftrightarrow> (\<forall>x \<in> set xs. is_ok (f x))"
  by (induction xs) (auto simp: is_ok_iff bindE_Inr_iff)

lemma mapE_append:
  "mapE f (xs @ ys) = bindE (mapE f xs) (\<lambda>us. bindE (mapE f ys) (\<lambda>vs. Inr (us @ vs)))"
proof (induction xs)
  case Nil
  show ?case by (cases "mapE f ys") auto
next
  case (Cons x xs)
  then show ?case by (cases "f x"; cases "mapE f xs"; cases "mapE f ys") auto
qed

lemma foldE_append: "foldE f (xs @ ys) s = bindE (foldE f xs s) (foldE f ys)"
proof (induction xs arbitrary: s)
  case (Cons x xs)
  then show ?case by (cases "f x s") auto
qed simp

lemma foldE_invariant:
  assumes "foldE f xs s = Inr t" and "I s"
    and "\<And>x u v. x \<in> set xs \<Longrightarrow> f x u = Inr v \<Longrightarrow> I u \<Longrightarrow> I v"
  shows "I t"
  using assms
proof (induction xs arbitrary: s)
  case Nil
  then show ?case by simp
next
  case (Cons x xs)
  then obtain u where "f x s = Inr u" and "foldE f xs u = Inr t"
    by (auto simp: bindE_Inr_iff)
  with Cons show ?case by (meson list.set_intros)
qed

subsection \<open>Lists\<close>

definition enumerate1 :: "'a list \<Rightarrow> (nat \<times> 'a) list" where
  "enumerate1 xs = zip [1..<Suc (length xs)] xs"

fun find_first :: "('a \<Rightarrow> bool) \<Rightarrow> 'a list \<Rightarrow> 'a option" where
  "find_first p [] = None"
| "find_first p (x # xs) = (if p x then Some x else find_first p xs)"

lemma find_first_None: "find_first p xs = None \<longleftrightarrow> (\<forall>x \<in> set xs. \<not> p x)"
  by (induction xs) auto

lemma find_first_Some: "find_first p xs = Some x \<Longrightarrow> x \<in> set xs \<and> p x"
  by (induction xs) (auto split: if_splits)

lemma find_first_append:
  "find_first p (xs @ ys) = (case find_first p xs of None \<Rightarrow> find_first p ys | Some x \<Rightarrow> Some x)"
  by (induction xs) auto

definition last_opt :: "'a list \<Rightarrow> 'a option" where
  "last_opt xs = (if xs = [] then None else Some (last xs))"

definition filter_count :: "('a \<Rightarrow> bool) \<Rightarrow> 'a list \<Rightarrow> nat" where
  "filter_count p xs = length (List.filter p xs)"

lemma filter_count_simps [simp]:
  "filter_count p [] = 0"
  "filter_count p (x # xs) = (if p x then Suc (filter_count p xs) else filter_count p xs)"
  by (simp_all add: filter_count_def)

lemma filter_count_append [simp]:
  "filter_count p (xs @ ys) = filter_count p xs + filter_count p ys"
  by (simp add: filter_count_def)

lemma filter_count_le: "filter_count p xs \<le> length xs"
  by (simp add: filter_count_def)

lemma filter_count_all: "filter_count p xs = length xs \<longleftrightarrow> (\<forall>x \<in> set xs. p x)"
proof (induction xs)
  case (Cons x xs)
  then show ?case using filter_count_le [of p xs] by auto
qed simp

lemma dropWhile_length_le: "length (dropWhile p xs) \<le> length xs"
  by (induction xs) auto

text \<open>Python's \<open>Counter\<close>, read as the multiset of its elements: \<open>a - b\<close> on counters keeps
  the positive differences, which is multiset difference.\<close>

definition counter_missing :: "'a list \<Rightarrow> 'a list \<Rightarrow> nat" where
  "counter_missing xs ys = size (mset xs - mset ys)"

lemma counter_missing_balance:
  "counter_missing xs ys + length ys = counter_missing ys xs + length xs"
proof -
  have "(mset xs - mset ys) + mset ys = (mset ys - mset xs) + mset xs"
    by (rule multiset_eqI) simp
  then have "size (mset xs - mset ys) + size (mset ys) = size (mset ys - mset xs) + size (mset xs)"
    by (metis size_union)
  then show ?thesis by (simp add: counter_missing_def)
qed

subsection \<open>The first difference of two lists\<close>

fun first_difference :: "'a list \<Rightarrow> 'a list \<Rightarrow> nat \<Rightarrow> nat option" where
  "first_difference (x # xs) (y # ys) i = (if x \<noteq> y then Some i else first_difference xs ys (Suc i))"
| "first_difference [] ys i = None"
| "first_difference (x # xs) [] i = None"

lemma first_difference_None_iff:
  "first_difference xs ys i = None \<longleftrightarrow> (\<forall>j < min (length xs) (length ys). xs ! j = ys ! j)"
proof (induction xs ys i rule: first_difference.induct)
  case (1 x xs y ys i)
  have "(\<forall>j < min (length (x # xs)) (length (y # ys)). (x # xs) ! j = (y # ys) ! j) \<longleftrightarrow>
      x = y \<and> (\<forall>j < min (length xs) (length ys). xs ! j = ys ! j)"
    by (simp add: All_less_Suc2)
  with 1 show ?case by simp
qed simp_all

lemma first_difference_Some:
  "first_difference xs ys i = Some n \<Longrightarrow>
     \<exists>j. n = i + j \<and> j < length xs \<and> j < length ys \<and> take j xs = take j ys \<and> xs ! j \<noteq> ys ! j"
proof (induction xs ys i rule: first_difference.induct)
  case (1 x xs y ys i)
  show ?case
  proof (cases "x = y")
    case True
    with 1 obtain j where "n = Suc i + j" "j < length xs" "j < length ys"
      "take j xs = take j ys" "xs ! j \<noteq> ys ! j" by auto
    with True show ?thesis by (intro exI [of _ "Suc j"]) simp
  next
    case False
    with 1 show ?thesis by (intro exI [of _ 0]) simp
  qed
qed simp_all

lemma first_index_lcp:
  "xs \<noteq> ys \<Longrightarrow>
   (case first_difference xs ys k of Some i \<Rightarrow> Some i
    | None \<Rightarrow> if length xs \<noteq> length ys then Some (k + min (length xs) (length ys)) else None)
   = Some (k + length (longest_common_prefix xs ys))"
proof (induction xs ys k rule: first_difference.induct)
  case (1 x xs y ys i)
  then show ?case by (cases "x = y") (auto split: option.splits)
next
  case (2 ys i)
  then show ?case by (cases ys) auto
next
  case (3 x xs i)
  then show ?case by auto
qed

lemma first_difference_lcp:
  "xs \<noteq> ys \<Longrightarrow> (case first_difference xs ys k of Some i \<Rightarrow> i | None \<Rightarrow> k + min (length xs) (length ys))
     = k + length (longest_common_prefix xs ys)"
  using first_index_lcp [of xs ys k] first_difference_None_iff [of xs ys k]
  by (auto split: option.splits if_splits simp: list_eq_iff_nth_eq)

end
