(* ===== verification/PyStr.thy ===== *)
theory PyStr
  imports Prelude "HOL-Library.Char_ord" "HOL-Library.List_Lexorder"
begin

text \<open>
  The part of Python's \<open>str\<close> and \<open>int\<close> that the tools use: white space, \<open>split\<close>,
  \<open>splitlines\<close>, \<open>strip\<close>, \<open>in\<close>, \<open>join\<close>, \<open>replace\<close>, \<open>isdigit\<close>, \<open>int(text)\<close>, \<open>int(text, 16)\<close>
  and the formats \<open>{n}\<close>, \<open>{n:x}\<close> and \<open>{n:08x}\<close>. A \<open>string\<close> is a list of code points below
  256; case conversion is the ASCII one, which is all that hexadecimal digests, register
  names and log markers need.
\<close>

subsection \<open>Characters\<close>

definition code :: "char \<Rightarrow> int" where
  "code c = of_char c"

definition is_space :: "char \<Rightarrow> bool" where
  "is_space c = (let n = code c in n = 32 \<or> (9 \<le> n \<and> n \<le> 13) \<or> (28 \<le> n \<and> n \<le> 31) \<or> n = 133 \<or> n = 160)"

definition is_dec :: "char \<Rightarrow> bool" where
  "is_dec c = (let n = code c in 48 \<le> n \<and> n \<le> 57)"

text \<open>\<open>str.isdigit\<close> also accepts the superscripts two, three and one, which \<open>int\<close> rejects.\<close>

definition is_digit_char :: "char \<Rightarrow> bool" where
  "is_digit_char c = (is_dec c \<or> code c \<in> {178, 179, 185})"

definition is_upper :: "char \<Rightarrow> bool" where
  "is_upper c = (let n = code c in 65 \<le> n \<and> n \<le> 90)"

definition is_lower :: "char \<Rightarrow> bool" where
  "is_lower c = (let n = code c in 97 \<le> n \<and> n \<le> 122)"

definition is_alpha :: "char \<Rightarrow> bool" where
  "is_alpha c = (is_upper c \<or> is_lower c)"

definition is_hex :: "char \<Rightarrow> bool" where
  "is_hex c = (let n = code c in (48 \<le> n \<and> n \<le> 57) \<or> (65 \<le> n \<and> n \<le> 70) \<or> (97 \<le> n \<and> n \<le> 102))"

text \<open>The class \<open>\\w\<close>: letters, digits and underscore, with the letters above 127.\<close>

definition is_word :: "char \<Rightarrow> bool" where
  "is_word c = (let n = code c in is_alpha c \<or> is_dec c \<or> n = 95 \<or>
     n \<in> {170, 178, 179, 181, 185, 186, 188, 189, 190} \<or> (192 \<le> n \<and> n \<noteq> 215 \<and> n \<noteq> 247))"

definition to_lower :: "char \<Rightarrow> char" where
  "to_lower c = (if is_upper c then char_of (code c + 32) else c)"

definition to_upper :: "char \<Rightarrow> char" where
  "to_upper c = (if is_lower c then char_of (code c - 32) else c)"

definition lower :: "string \<Rightarrow> string" where
  "lower s = map to_lower s"

definition upper :: "string \<Rightarrow> string" where
  "upper s = map to_upper s"

definition NL :: char where
  "NL = CHR 0x0A"

definition CR :: char where
  "CR = CHR 0x0D"

definition DQ :: char where
  "DQ = CHR 0x22"

definition BS :: char where
  "BS = CHR 0x5C"

definition SQ :: char where
  "SQ = CHR 0x27"

definition is_linebreak :: "char \<Rightarrow> bool" where
  "is_linebreak c = (let n = code c in (10 \<le> n \<and> n \<le> 13) \<or> (28 \<le> n \<and> n \<le> 30) \<or> n = 133)"

lemmas char_classes = code_def is_space_def is_dec_def is_upper_def is_lower_def is_alpha_def
  is_hex_def is_word_def is_linebreak_def Let_def

subsection \<open>Splitting and joining\<close>

definition lstrip :: "string \<Rightarrow> string" where
  "lstrip s = dropWhile is_space s"

definition rstrip :: "string \<Rightarrow> string" where
  "rstrip s = rev (dropWhile is_space (rev s))"

definition strip :: "string \<Rightarrow> string" where
  "strip s = lstrip (rstrip s)"

definition lstrip_chars :: "string \<Rightarrow> string \<Rightarrow> string" where
  "lstrip_chars cs s = dropWhile (\<lambda>c. c \<in> set cs) s"

function split_ws :: "string \<Rightarrow> string list" where
  "split_ws s = (let t = dropWhile is_space s in
     if t = [] then []
     else takeWhile (Not \<circ> is_space) t # split_ws (dropWhile (Not \<circ> is_space) t))"
  by pat_completeness auto
termination
proof (relation "measure length")
  fix s t :: string
  assume t: "t = dropWhile is_space s" and ne: "t \<noteq> []"
  then have "\<not> is_space (hd t)" by (metis hd_dropWhile)
  with ne have "length (dropWhile (Not \<circ> is_space) t) < length t"
    by (cases t) (auto simp: le_imp_less_Suc dropWhile_length_le)
  also have "length t \<le> length s" by (simp add: t dropWhile_length_le)
  finally show "(dropWhile (Not \<circ> is_space) t, s) \<in> measure length" by simp
qed simp

declare split_ws.simps [simp del]

fun splitlines_aux :: "string \<Rightarrow> bool \<Rightarrow> string \<Rightarrow> string list" where
  "splitlines_aux acc cr [] = (if acc = [] then [] else [rev acc])"
| "splitlines_aux acc cr (c # s) =
     (if cr \<and> c = NL then splitlines_aux acc False s
      else if is_linebreak c then rev acc # splitlines_aux [] (c = CR) s
      else splitlines_aux (c # acc) False s)"

definition splitlines :: "string \<Rightarrow> string list" where
  "splitlines s = splitlines_aux [] False s"

text \<open>Iterating over a text file: lines keep their line feed.\<close>

fun file_lines_aux :: "string \<Rightarrow> string \<Rightarrow> string list" where
  "file_lines_aux acc [] = (if acc = [] then [] else [rev acc])"
| "file_lines_aux acc (c # s) =
     (if c = NL then rev (c # acc) # file_lines_aux [] s else file_lines_aux (c # acc) s)"

definition file_lines :: "string \<Rightarrow> string list" where
  "file_lines s = file_lines_aux [] s"

lemma file_lines_concat:
  "list_all (\<lambda>l. NL \<notin> set l) ls \<Longrightarrow> file_lines (concat (map (\<lambda>l. l @ [NL]) ls)) = map (\<lambda>l. l @ [NL]) ls"
proof -
  have line: "NL \<notin> set l \<Longrightarrow> file_lines_aux acc (l @ NL # r) = (rev acc @ l @ [NL]) # file_lines_aux [] r" for l acc r
    by (induction l arbitrary: acc) auto
  assume "list_all (\<lambda>l. NL \<notin> set l) ls"
  then show ?thesis unfolding file_lines_def
    by (induction ls) (simp_all add: line)
qed

text \<open>\<open>s.split(c, 1)\<close> where \<open>c\<close> occurs in \<open>s\<close>: the part before and the part after the first \<open>c\<close>.\<close>

definition split_first :: "char \<Rightarrow> string \<Rightarrow> string \<times> string" where
  "split_first c s = (takeWhile (\<lambda>x. x \<noteq> c) s, tl (dropWhile (\<lambda>x. x \<noteq> c) s))"

fun split_on_aux :: "char \<Rightarrow> string \<Rightarrow> string \<Rightarrow> string list" where
  "split_on_aux c acc [] = [rev acc]"
| "split_on_aux c acc (x # s) =
     (if x = c then rev acc # split_on_aux c [] s else split_on_aux c (x # acc) s)"

definition split_on :: "char \<Rightarrow> string \<Rightarrow> string list" where
  "split_on c s = split_on_aux c [] s"

fun join :: "string \<Rightarrow> string list \<Rightarrow> string" where
  "join sep [] = []"
| "join sep [x] = x"
| "join sep (x # y # xs) = x @ sep @ join sep (y # xs)"

fun contains :: "string \<Rightarrow> string \<Rightarrow> bool" where
  "contains p [] = (p = [])"
| "contains p (c # s) = (prefix p (c # s) \<or> contains p s)"

definition ends_with :: "string \<Rightarrow> string \<Rightarrow> bool" where
  "ends_with s p = suffix p s"

definition starts_with :: "string \<Rightarrow> string \<Rightarrow> bool" where
  "starts_with s p = prefix p s"

definition remove_suffix :: "string \<Rightarrow> string \<Rightarrow> string" where
  "remove_suffix s p = (if p \<noteq> [] \<and> suffix p s then take (length s - length p) s else s)"

definition remove_prefix :: "string \<Rightarrow> string \<Rightarrow> string" where
  "remove_prefix s p = (if prefix p s then drop (length p) s else s)"

fun crlf_to_lf :: "string \<Rightarrow> string" where
  "crlf_to_lf [] = []"
| "crlf_to_lf [c] = [c]"
| "crlf_to_lf (c # d # s) = (if c = CR \<and> d = NL then NL # crlf_to_lf s else c # crlf_to_lf (d # s))"

definition is_digit :: "string \<Rightarrow> bool" where
  "is_digit s = (s \<noteq> [] \<and> list_all is_digit_char s)"

lemma contains_iff: "contains p s \<longleftrightarrow> (\<exists>u v. s = u @ p @ v)"
proof (induction s)
  case (Cons c s)
  have "(\<exists>u v. c # s = u @ p @ v) \<longleftrightarrow> prefix p (c # s) \<or> (\<exists>u v. s = u @ p @ v)"
    by (auto simp: prefix_def Cons_eq_append_conv)
  with Cons show ?case by simp
qed simp

lemma contains_append: "contains p s \<Longrightarrow> contains p (u @ s @ v)"
  unfolding contains_iff by (metis append_assoc)

lemma split_ws_no_space: "w \<in> set (split_ws s) \<Longrightarrow> w \<noteq> [] \<and> (\<forall>c \<in> set w. \<not> is_space c)"
proof (induction s rule: split_ws.induct)
  case (1 s)
  let ?t = "dropWhile is_space s"
  from "1.prems" have ne: "?t \<noteq> []"
    by (subst (asm) split_ws.simps) (auto simp: Let_def split: if_splits)
  with "1.prems" consider "w = takeWhile (Not \<circ> is_space) ?t"
    | "w \<in> set (split_ws (dropWhile (Not \<circ> is_space) ?t))"
    by (subst (asm) split_ws.simps) (auto simp: Let_def split: if_splits)
  then show ?case
  proof cases
    case 1
    from ne have "\<not> is_space (hd ?t)" by (rule hd_dropWhile)
    with ne 1 show ?thesis by (cases ?t) (auto dest: set_takeWhileD)
  next
    case 2
    with "1.IH" ne show ?thesis by simp
  qed
qed

subsection \<open>Numbers from text\<close>

definition digit_val :: "char \<Rightarrow> int option" where
  "digit_val c = (if is_dec c then Some (code c - 48)
     else if is_lower c then Some (code c - 87)
     else if is_upper c then Some (code c - 55) else None)"

text \<open>Digits of a base, single underscores allowed between two digits; the flag says that
  the last character was a digit, so the number may end here.\<close>

fun py_digits :: "int \<Rightarrow> int \<Rightarrow> bool \<Rightarrow> string \<Rightarrow> int option" where
  "py_digits b a ok [] = (if ok then Some a else None)"
| "py_digits b a ok (c # s) =
     (if c = CHR ''_'' then (if ok then py_digits b a False s else None)
      else case digit_val c of None \<Rightarrow> None
        | Some d \<Rightarrow> if d < b then py_digits b (a * b + d) True s else None)"

definition py_signed :: "(string \<Rightarrow> int option) \<Rightarrow> string \<Rightarrow> int option" where
  "py_signed f s = (case strip s of
       [] \<Rightarrow> None
     | c # t \<Rightarrow> if c = CHR ''-'' then map_option uminus (f t)
                else if c = CHR ''+'' then f t else f (c # t))"

definition py_int :: "string \<Rightarrow> int option" where
  "py_int s = py_signed (py_digits 10 0 False) s"

definition strip_underscore :: "string \<Rightarrow> string" where
  "strip_underscore s = (case s of [] \<Rightarrow> [] | c # t \<Rightarrow> if c = CHR ''_'' then t else s)"

definition has_base_prefix :: "string \<Rightarrow> string \<Rightarrow> bool" where
  "has_base_prefix p s = (lower (take 2 s) = p)"

definition py_int16 :: "string \<Rightarrow> int option" where
  "py_int16 s = py_signed (\<lambda>t. if has_base_prefix ''0x'' t
       then py_digits 16 0 False (strip_underscore (drop 2 t)) else py_digits 16 0 False t) s"

text \<open>\<open>int(text, 0)\<close>: the base is read from the prefix; a decimal number has no leading zero.\<close>

definition py_int0 :: "string \<Rightarrow> int option" where
  "py_int0 s = py_signed (\<lambda>t.
       if has_base_prefix ''0x'' t then py_digits 16 0 False (strip_underscore (drop 2 t))
       else if has_base_prefix ''0o'' t then py_digits 8 0 False (strip_underscore (drop 2 t))
       else if has_base_prefix ''0b'' t then py_digits 2 0 False (strip_underscore (drop 2 t))
       else case py_digits 10 0 False t of None \<Rightarrow> None
         | Some v \<Rightarrow> if take 1 t = ''0'' \<and> v \<noteq> 0 then None else Some v) s"

subsection \<open>Numbers as text\<close>

definition digit_char :: "int \<Rightarrow> char" where
  "digit_char d = (if d < 10 then char_of (48 + d) else char_of (87 + d))"

function show_base :: "int \<Rightarrow> int \<Rightarrow> string" where
  "show_base b n = (if b < 2 \<or> n < b then [digit_char n] else show_base b (n div b) @ [digit_char (n mod b)])"
  by pat_completeness auto
termination
proof (relation "measure (\<lambda>(b, n). nat n)")
  fix b n :: int
  assume "\<not> (b < 2 \<or> n < b)"
  then have "n div b < n" and "0 < n" by (auto intro: int_div_less_self)
  then show "((b, n div b), b, n) \<in> measure (\<lambda>(b, n). nat n)" by simp
qed simp

declare show_base.simps [simp del]

definition show_int :: "int \<Rightarrow> string" where
  "show_int i = (if i < 0 then CHR ''-'' # show_base 10 (- i) else show_base 10 i)"

definition show_nat :: "nat \<Rightarrow> string" where
  "show_nat n = show_int (int n)"

definition pad_left :: "nat \<Rightarrow> string \<Rightarrow> string" where
  "pad_left k s = replicate (k - length s) (CHR ''0'') @ s"

text \<open>The format \<open>0x{n:08x}\<close>; the sign counts towards the width.\<close>

definition hex8 :: "int \<Rightarrow> string" where
  "hex8 i = ''0x'' @ (if i < 0 then CHR ''-'' # pad_left 7 (show_base 16 (- i))
                      else pad_left 8 (show_base 16 i))"

definition show_list_int :: "int list \<Rightarrow> string" where
  "show_list_int xs = ''['' @ join '', '' (map show_int xs) @ '']''"

subsection \<open>Whole texts\<close>

text \<open>In the templates a back quote stands for a double quote.\<close>

definition dq :: "string \<Rightarrow> string" where
  "dq s = map (\<lambda>c. if c = CHR 0x60 then DQ else c) s"

definition lines_of :: "string list \<Rightarrow> string" where
  "lines_of ls = concat (map (\<lambda>l. l @ [NL]) ls)"

end
