(* ===== verification/PyDict.thy ===== *)
theory PyDict
  imports PyStr
begin

text \<open>
  Python dictionaries as association lists in insertion order: assignment keeps the
  position of an existing key, \<open>setdefault\<close> keeps its value. The locale
  \<open>assoc_store\<close> is the interface the parsers of \<open>key=value\<close> files rely on: what a lookup
  returns after an assignment. Its client facts say that a run of assignments is read
  back with the last value of each key (for \<open>setdefault\<close>, the first).
  Python's \<open>Counter\<close> is a multiset; \<open>counter_items\<close> is \<open>dict(sorted(c.items()))\<close>.
\<close>

type_synonym ('k, 'v) dict = "('k \<times> 'v) list"

definition dict_get :: "('k, 'v) dict \<Rightarrow> 'k \<Rightarrow> 'v option" where
  "dict_get d k = map_of d k"

fun dict_set :: "'k \<Rightarrow> 'v \<Rightarrow> ('k, 'v) dict \<Rightarrow> ('k, 'v) dict" where
  "dict_set k v [] = [(k, v)]"
| "dict_set k v ((k', v') # d) = (if k' = k then (k, v) # d else (k', v') # dict_set k v d)"

definition dict_setdefault :: "'k \<Rightarrow> 'v \<Rightarrow> ('k, 'v) dict \<Rightarrow> ('k, 'v) dict" where
  "dict_setdefault k v d = (case dict_get d k of None \<Rightarrow> d @ [(k, v)] | Some _ \<Rightarrow> d)"

definition dict_keys :: "('k, 'v) dict \<Rightarrow> 'k list" where
  "dict_keys d = map fst d"

definition dict_get_or :: "('k, 'v) dict \<Rightarrow> 'k \<Rightarrow> 'v \<Rightarrow> 'v" where
  "dict_get_or d k v = (case dict_get d k of None \<Rightarrow> v | Some w \<Rightarrow> w)"

definition counter_items :: "'a::linorder multiset \<Rightarrow> ('a \<times> nat) list" where
  "counter_items m = map (\<lambda>k. (k, count m k)) (sorted_list_of_set (set_mset m))"

lemma dict_get_Nil [simp]: "dict_get [] k = None"
  by (simp add: dict_get_def)

lemma dict_get_set [simp]: "dict_get (dict_set k v d) j = (if j = k then Some v else dict_get d j)"
  by (induction d) (auto simp: dict_get_def)

lemma dict_keys_set: "set (dict_keys (dict_set k v d)) = insert k (set (dict_keys d))"
proof (induction d)
  case (Cons a d)
  then show ?case by (cases a) (auto simp: dict_keys_def)
qed (simp add: dict_keys_def)

lemma dict_set_distinct: "distinct (dict_keys d) \<Longrightarrow> distinct (dict_keys (dict_set k v d))"
proof (induction d)
  case (Cons a d)
  then show ?case
    using dict_keys_set [of k v d] by (cases a) (auto simp: dict_keys_def)
qed (simp add: dict_keys_def)

lemma dict_get_setdefault:
  "dict_get (dict_setdefault k v d) j =
     (if j = k \<and> dict_get d k = None then Some v else dict_get d j)"
  by (auto simp: dict_setdefault_def dict_get_def map_add_def split: option.splits)

lemma counter_items_get: "dict_get (counter_items m) k = (if k \<in># m then Some (count m k) else None)"
proof -
  have "map_of (map (\<lambda>k. (k, count m k)) xs) k = (if k \<in> set xs then Some (count m k) else None)" for xs
    by (induction xs) auto
  then show ?thesis by (simp add: dict_get_def counter_items_def)
qed

subsection \<open>The interface of a store of assignments\<close>

locale assoc_store =
  fixes get :: "'d \<Rightarrow> 'k \<Rightarrow> 'v option"
    and put :: "'k \<Rightarrow> 'v \<Rightarrow> 'd \<Rightarrow> 'd"
  assumes get_put_same: "get (put k v d) k = Some v"
    and get_put_other: "j \<noteq> k \<Longrightarrow> get (put k v d) j = get d j"
begin

lemma get_put: "get (put k v d) j = (if j = k then Some v else get d j)"
  using get_put_same get_put_other by simp

text \<open>A run of assignments: a key is read back with its last value.\<close>

lemma get_fold:
  "get (fold (\<lambda>(k, v). put k v) kvs d) j = (case map_of (rev kvs) j of None \<Rightarrow> get d j | Some v \<Rightarrow> Some v)"
proof (induction kvs arbitrary: d)
  case (Cons a kvs)
  then show ?case by (cases a) (simp add: get_put map_add_def split: option.splits)
qed simp

lemma get_fold_distinct:
  assumes "distinct (map fst kvs)" and "(k, v) \<in> set kvs"
  shows "get (fold (\<lambda>(k, v). put k v) kvs d) k = Some v"
proof -
  have "map_of (rev kvs) k = Some v"
    using assms by (simp add: distinct_rev rev_map [symmetric])
  then show ?thesis by (simp add: get_fold)
qed

end

interpretation pd: assoc_store dict_get dict_set
  by unfold_locales simp_all

end
