(* ===== verification/PyVal.thy ===== *)
theory PyVal
  imports Complex_Main PyDict
begin

text \<open>
  The values a JSON document holds once Python has loaded it, and the operations the tools
  apply to them: \<open>d[k]\<close>, \<open>d.get(k)\<close>, truth values, \<open>a or b\<close>, \<open>==\<close>, \<open>len\<close>, iteration,
  \<open>isinstance\<close> and \<open>int()\<close>. A dictionary keeps its items in insertion order. A float is the
  rational number it stands for: rounding is not modelled. \<open>==\<close> follows Python: numbers and
  booleans compare by value, dictionaries as sets of items.
\<close>

datatype json =
    JNull
  | JBool bool
  | JInt int
  | JFloat rat
  | JStr string
  | JList "json list"
  | JDict "(string \<times> json) list"

subsection \<open>Equality and truth\<close>

fun jnorm :: "json \<Rightarrow> json" where
  "jnorm JNull = JNull"
| "jnorm (JBool b) = JFloat (if b then 1 else 0)"
| "jnorm (JInt n) = JFloat (of_int n)"
| "jnorm (JFloat r) = JFloat r"
| "jnorm (JStr s) = JStr s"
| "jnorm (JList xs) = JList (map jnorm xs)"
| "jnorm (JDict kvs) = JDict (sort_key fst (map (\<lambda>(k, v). (k, jnorm v)) kvs))"

definition jeq :: "json \<Rightarrow> json \<Rightarrow> bool" where
  "jeq a b = (jnorm a = jnorm b)"

fun truthy :: "json \<Rightarrow> bool" where
  "truthy JNull = False"
| "truthy (JBool b) = b"
| "truthy (JInt n) = (n \<noteq> 0)"
| "truthy (JFloat r) = (r \<noteq> 0)"
| "truthy (JStr s) = (s \<noteq> [])"
| "truthy (JList xs) = (xs \<noteq> [])"
| "truthy (JDict kvs) = (kvs \<noteq> [])"

definition jor :: "json \<Rightarrow> json \<Rightarrow> json" where
  "jor a b = (if truthy a then a else b)"

subsection \<open>Access\<close>

definition jlookup :: "(string \<times> json) list \<Rightarrow> string \<Rightarrow> json" where
  "jlookup kvs k = (case map_of kvs k of None \<Rightarrow> JNull | Some v \<Rightarrow> v)"

text \<open>\<open>d.get(k, default)\<close>, \<open>d.get(k)\<close> and \<open>d[k]\<close>.\<close>

fun jget_or :: "json \<Rightarrow> json \<Rightarrow> string \<Rightarrow> json res" where
  "jget_or (JDict kvs) dflt k = Inr (case map_of kvs k of None \<Rightarrow> dflt | Some v \<Rightarrow> v)"
| "jget_or _ dflt k = Inl AttributeError"

definition jget :: "json \<Rightarrow> string \<Rightarrow> json res" where
  "jget d k = jget_or d JNull k"

fun jat :: "json \<Rightarrow> string \<Rightarrow> json res" where
  "jat (JDict kvs) k = noneE (KeyError k) (map_of kvs k)"
| "jat _ k = Inl TypeError"

text \<open>\<open>d[k1][k2]...\<close>, and \<open>d.get(k1, {}).get(k2, {})...get(k)\<close>.\<close>

fun jpath :: "json \<Rightarrow> string list \<Rightarrow> json res" where
  "jpath d [] = Inr d"
| "jpath d (k # ks) = bindE (jat d k) (\<lambda>e. jpath e ks)"

fun jchain :: "json \<Rightarrow> string list \<Rightarrow> json res" where
  "jchain d [] = Inr d"
| "jchain d [k] = jget d k"
| "jchain d (k # ks) = bindE (jget_or d (JDict []) k) (\<lambda>e. jchain e ks)"

fun jlist :: "json \<Rightarrow> json list res" where
  "jlist (JList xs) = Inr xs"
| "jlist (JDict kvs) = Inr (map (\<lambda>(k, v). JStr k) kvs)"
| "jlist (JStr s) = Inr (map (\<lambda>c. JStr [c]) s)"
| "jlist _ = Inl TypeError"

fun jitems :: "json \<Rightarrow> (string \<times> json) list res" where
  "jitems (JDict kvs) = Inr kvs"
| "jitems _ = Inl AttributeError"

fun jlen :: "json \<Rightarrow> nat res" where
  "jlen (JList xs) = Inr (length xs)"
| "jlen (JDict kvs) = Inr (length kvs)"
| "jlen (JStr s) = Inr (length s)"
| "jlen _ = Inl TypeError"

fun is_jdict :: "json \<Rightarrow> bool" where
  "is_jdict (JDict kvs) = True"
| "is_jdict _ = False"

fun is_jlist :: "json \<Rightarrow> bool" where
  "is_jlist (JList xs) = True"
| "is_jlist _ = False"

fun is_jstr :: "json \<Rightarrow> bool" where
  "is_jstr (JStr s) = True"
| "is_jstr _ = False"

text \<open>\<open>isinstance(v, int)\<close> holds for booleans too.\<close>

fun is_jint :: "json \<Rightarrow> bool" where
  "is_jint (JInt n) = True"
| "is_jint (JBool b) = True"
| "is_jint _ = False"

text \<open>A value used as a number, as \<open>int(v)\<close>, as a string, and the text of \<open>str(v)\<close> for the
  values the tools format.\<close>

fun jnum :: "json \<Rightarrow> rat res" where
  "jnum (JInt n) = Inr (of_int n)"
| "jnum (JBool b) = Inr (if b then 1 else 0)"
| "jnum (JFloat r) = Inr r"
| "jnum _ = Inl TypeError"

definition trunc_rat :: "rat \<Rightarrow> int" where
  "trunc_rat r = (if r < 0 then - \<lfloor>- r\<rfloor> else \<lfloor>r\<rfloor>)"

fun jstr :: "json \<Rightarrow> string res" where
  "jstr (JStr s) = Inr s"
| "jstr _ = Inl TypeError"

end
