(* ===== verification/Json.thy ===== *)
theory Json
  imports PyVal PyStr
begin

text \<open>
  The text form of JSON documents, as the json module reads it (\<open>json.loads\<close>) and as
  \<open>json.dumps\<close> writes the values of a trace (strings, integers, booleans, null, lists and
  dictionaries, in the order given). The reader is by recursion on a bound on the nesting and the
  number of items; the length of the text is always enough, since every step consumes a character.
  Code points above 255 and the constants NaN and Infinity are not read.
\<close>

definition jws :: "char \<Rightarrow> bool" where
  "jws c = (c = CHR '' '' \<or> c = CHR 0x09 \<or> c = NL \<or> c = CR)"

definition skip_ws :: "string \<Rightarrow> string" where
  "skip_ws s = dropWhile jws s"

subsection \<open>Strings\<close>

definition hex_value :: "string \<Rightarrow> int option" where
  "hex_value s = (if length s = 4 \<and> list_all is_hex s then py_digits 16 0 False s else None)"

definition unescape :: "char \<Rightarrow> char option" where
  "unescape c = (if c = DQ \<or> c = BS \<or> c = CHR ''/'' then Some c
     else if c = CHR ''n'' then Some NL else if c = CHR ''r'' then Some CR
     else if c = CHR ''t'' then Some (CHR 0x09) else if c = CHR ''b'' then Some (CHR 0x08)
     else if c = CHR ''f'' then Some (CHR 0x0C) else None)"

text \<open>The characters of a string after its opening quote.\<close>

function jchars :: "string \<Rightarrow> (string \<times> string) option" where
  "jchars [] = None"
| "jchars (c # s) =
     (if c = DQ then Some ([], s)
      else if code c < 32 then None
      else if c = BS then (case s of [] \<Rightarrow> None
        | e # t \<Rightarrow>
            if e = CHR ''u'' then (case hex_value (take 4 t) of
                None \<Rightarrow> None
              | Some n \<Rightarrow> if 255 < n then None
                  else map_option (\<lambda>(u, r). (char_of n # u, r)) (jchars (drop 4 t)))
            else (case unescape e of None \<Rightarrow> None
              | Some d \<Rightarrow> map_option (\<lambda>(u, r). (d # u, r)) (jchars t)))
      else map_option (\<lambda>(u, r). (c # u, r)) (jchars s))"
  by pat_completeness auto
termination by (relation "measure length") auto

declare jchars.simps [simp del]

subsection \<open>Numbers\<close>

definition digits_of :: "string \<Rightarrow> string" where
  "digits_of s = takeWhile is_dec s"

definition dec_nat :: "string \<Rightarrow> int" where
  "dec_nat s = foldl (\<lambda>a c. a * 10 + (code c - 48)) 0 s"

definition pow10 :: "int \<Rightarrow> rat" where
  "pow10 e = (if 0 \<le> e then 10 ^ nat e else 1 / 10 ^ nat (- e))"

text \<open>\<open>(0|[1-9]\\d*)(\\.\\d+)?([eE][-+]?\\d+)?\<close> with its sign.\<close>

definition jmagnitude :: "bool \<Rightarrow> string \<Rightarrow> (json \<times> string) option" where
  "jmagnitude neg t =
     (let i0 = digits_of t; i = (if take 1 i0 = ''0'' then ''0'' else i0); r1 = drop (length i) t;
          f = (if take 1 r1 = ''.'' then digits_of (drop 1 r1) else []);
          r2 = (if f = [] then r1 else drop (length f + 1) r1);
          has_e = (take 1 r2 = ''e'' \<or> take 1 r2 = ''E'');
          esign = (if has_e \<and> (take 1 (drop 1 r2) = ''-'' \<or> take 1 (drop 1 r2) = ''+'') then take 1 (drop 1 r2) else []);
          e = (if has_e then digits_of (drop (1 + length esign) r2) else []);
          r3 = (if e = [] then r2 else drop (1 + length esign + length e) r2)
      in if i = [] then None
         else if f = [] \<and> e = [] then Some (JInt (if neg then - dec_nat i else dec_nat i), r1)
         else let m = (of_int (dec_nat (i @ f)) :: rat) * pow10 ((if esign = ''-'' then - dec_nat e else dec_nat e) - int (length f))
              in Some (JFloat (if neg then - m else m), r3))"

definition jnumber :: "string \<Rightarrow> (json \<times> string) option" where
  "jnumber s = (if take 1 s = ''-'' then jmagnitude True (drop 1 s) else jmagnitude False s)"

subsection \<open>Documents\<close>

definition literal :: "string \<Rightarrow> json \<Rightarrow> string \<Rightarrow> (json \<times> string) option" where
  "literal p v s = (if prefix p s then Some (v, drop (length p) s) else None)"

text \<open>A value; the elements of a list after its bracket; the members of an object after its brace.\<close>

fun jvalue :: "nat \<Rightarrow> string \<Rightarrow> (json \<times> string) option"
and jelements :: "nat \<Rightarrow> string \<Rightarrow> (json list \<times> string) option"
and jmembers :: "nat \<Rightarrow> string \<Rightarrow> ((string \<times> json) list \<times> string) option" where
  "jvalue 0 s = None"
| "jvalue (Suc n) s = (case s of
       [] \<Rightarrow> None
     | c # t \<Rightarrow>
         if c = DQ then map_option (\<lambda>(u, r). (JStr u, r)) (jchars t)
         else if c = CHR ''['' then
           (if take 1 (skip_ws t) = '']'' then Some (JList [], drop 1 (skip_ws t))
            else map_option (\<lambda>(xs, r). (JList xs, r)) (jelements n (skip_ws t)))
         else if c = CHR ''{'' then
           (if take 1 (skip_ws t) = ''}'' then Some (JDict [], drop 1 (skip_ws t))
            else map_option (\<lambda>(kvs, r). (JDict (fold (\<lambda>(k, v). dict_set k v) kvs []), r)) (jmembers n (skip_ws t)))
         else if c = CHR ''n'' then literal ''null'' JNull s
         else if c = CHR ''t'' then literal ''true'' (JBool True) s
         else if c = CHR ''f'' then literal ''false'' (JBool False) s
         else jnumber s)"
| "jelements 0 s = None"
| "jelements (Suc n) s = (case jvalue n s of
       None \<Rightarrow> None
     | Some (x, r) \<Rightarrow> (let r' = skip_ws r in
         if take 1 r' = '']'' then Some ([x], drop 1 r')
         else if take 1 r' = '','' then map_option (\<lambda>(xs, q). (x # xs, q)) (jelements n (skip_ws (drop 1 r')))
         else None))"
| "jmembers 0 s = None"
| "jmembers (Suc n) s =
     (if take 1 s \<noteq> [DQ] then None
      else case jchars (drop 1 s) of
        None \<Rightarrow> None
      | Some (k, r) \<Rightarrow> (let r' = skip_ws r in
          if take 1 r' \<noteq> '':'' then None
          else case jvalue n (skip_ws (drop 1 r')) of
            None \<Rightarrow> None
          | Some (v, q) \<Rightarrow> (let q' = skip_ws q in
              if take 1 q' = ''}'' then Some ([(k, v)], drop 1 q')
              else if take 1 q' = '','' then map_option (\<lambda>(kvs, z). ((k, v) # kvs, z)) (jmembers n (skip_ws (drop 1 q')))
              else None)))"

definition bad_json :: py_error where
  "bad_json = ValueError ''invalid JSON''"

definition json_loads :: "string \<Rightarrow> json res" where
  "json_loads s = (case jvalue (Suc (length s)) (skip_ws s) of
       Some (v, r) \<Rightarrow> if skip_ws r = [] then Inr v else Inl bad_json
     | None \<Rightarrow> Inl bad_json)"

subsection \<open>Writing\<close>

definition escape_char :: "char \<Rightarrow> string" where
  "escape_char c =
     (if c = DQ \<or> c = BS then [BS, c]
      else if c = NL then [BS, CHR ''n''] else if c = CR then [BS, CHR ''r'']
      else if c = CHR 0x09 then [BS, CHR ''t''] else if c = CHR 0x08 then [BS, CHR ''b'']
      else if c = CHR 0x0C then [BS, CHR ''f'']
      else if code c < 32 \<or> 126 < code c then BS # CHR ''u'' # pad_left 4 (show_base 16 (code c))
      else [c])"

definition dump_string :: "string \<Rightarrow> string" where
  "dump_string s = DQ # concat (map escape_char s) @ [DQ]"

text \<open>The values of a trace event: strings, integers and null.\<close>

fun dump_scalar :: "json \<Rightarrow> string" where
  "dump_scalar (JStr s) = dump_string s"
| "dump_scalar (JInt n) = show_int n"
| "dump_scalar (JBool b) = (if b then ''true'' else ''false'')"
| "dump_scalar _ = ''null''"

definition dump_member :: "string \<times> json \<Rightarrow> string" where
  "dump_member = (\<lambda>(k, v). dump_string k @ '': '' @ dump_scalar v)"

definition dump_object :: "(string \<times> json) list \<Rightarrow> string" where
  "dump_object kvs = ''{'' @ join '', '' (map dump_member kvs) @ ''}''"

subsection \<open>Decimal text\<close>

lemma digit_char_0 [simp]: "digit_char 0 = CHR ''0''"
  by code_simp

lemma code_digit_char: "0 \<le> d \<Longrightarrow> d < 10 \<Longrightarrow> code (digit_char d) = 48 + d"
  by (simp add: code_def digit_char_def)

lemma is_dec_digit_char: "0 \<le> d \<Longrightarrow> d < 10 \<Longrightarrow> is_dec (digit_char d)"
  by (simp add: is_dec_def code_digit_char Let_def)

lemma dec_nat_snoc: "dec_nat (s @ [c]) = dec_nat s * 10 + (code c - 48)"
  by (simp add: dec_nat_def)

lemma show_base10:
  "0 \<le> n \<Longrightarrow> list_all is_dec (show_base 10 n) \<and> show_base 10 n \<noteq> [] \<and> dec_nat (show_base 10 n) = n \<and>
     (hd (show_base 10 n) = CHR ''0'' \<longrightarrow> n = 0 \<and> show_base 10 n = ''0'')"
proof (induction "10 :: int" n rule: show_base.induct)
  case (1 n)
  show ?case
  proof (cases "n < 10")
    case True
    have z: "digit_char n = CHR ''0'' \<longleftrightarrow> n = 0"
    proof
      assume "digit_char n = CHR ''0''"
      then have "code (digit_char n) = 48" by (simp add: code_def)
      with 1 True show "n = 0" by (simp add: code_digit_char)
    qed simp
    from True have "show_base 10 n = [digit_char n]" by (subst show_base.simps) simp
    moreover have "dec_nat [digit_char n] = n"
      using 1 True by (simp add: dec_nat_def code_digit_char)
    ultimately show ?thesis using 1 True z by (auto simp: is_dec_digit_char)
  next
    case False
    with 1 have IH: "list_all is_dec (show_base 10 (n div 10))" "show_base 10 (n div 10) \<noteq> []"
      "dec_nat (show_base 10 (n div 10)) = n div 10"
      "hd (show_base 10 (n div 10)) = CHR ''0'' \<longrightarrow> n div 10 = 0" by auto
    from False have "show_base 10 n = show_base 10 (n div 10) @ [digit_char (n mod 10)]"
      by (subst show_base.simps) simp
    with IH False show ?thesis
      by (auto simp: is_dec_digit_char dec_nat_snoc code_digit_char)
  qed
qed

lemma py_digits_dec: "list_all is_dec s \<Longrightarrow> s \<noteq> [] \<or> ok \<Longrightarrow> py_digits 10 a ok s = Some (foldl (\<lambda>a c. a * 10 + (code c - 48)) a s)"
proof (induction s arbitrary: a ok)
  case (Cons c s)
  then have d: "is_dec c" by simp
  then have "c \<noteq> CHR ''_''" by (auto simp: is_dec_def code_def Let_def)
  moreover have "digit_val c = Some (code c - 48)" "code c - 48 < 10"
    using d by (simp_all add: digit_val_def is_dec_def Let_def)
  ultimately show ?case using Cons by simp
qed simp

lemma is_dec_not: "is_dec c \<Longrightarrow> \<not> is_space c \<and> c \<noteq> CHR ''-'' \<and> c \<noteq> CHR ''+'' \<and> c \<noteq> NL"
  by (auto simp: is_dec_def is_space_def code_def Let_def NL_def)

lemma strip_none: "list_all (Not \<circ> is_space) s \<Longrightarrow> strip s = s"
proof -
  assume a: "list_all (Not \<circ> is_space) s"
  then have "dropWhile is_space (rev s) = rev s" by (cases s rule: rev_cases) auto
  with a show ?thesis by (cases s) (auto simp: strip_def rstrip_def lstrip_def)
qed

lemma py_int_dec: "list_all is_dec s \<Longrightarrow> s \<noteq> [] \<Longrightarrow> py_int s = Some (dec_nat s)"
proof -
  assume a: "list_all is_dec s" and ne: "s \<noteq> []"
  then have "strip s = s" by (intro strip_none) (auto simp: list_all_iff is_dec_not)
  moreover from a ne have "hd s \<noteq> CHR ''-''" "hd s \<noteq> CHR ''+''" by (cases s; simp add: is_dec_not)+
  moreover have "py_digits 10 0 False s = Some (dec_nat s)"
    using a ne by (simp add: py_digits_dec dec_nat_def)
  ultimately show ?thesis using ne by (cases s) (auto simp: py_int_def py_signed_def)
qed

lemma py_int_show_nat: "py_int (show_nat n) = Some (int n)"
  using show_base10 [of "int n"] by (simp add: show_nat_def show_int_def py_int_dec)

lemma show_nat_dec: "list_all is_dec (show_nat n)"
  using show_base10 [of "int n"] by (simp add: show_nat_def show_int_def)

subsection \<open>Reading back what was written\<close>

lemma hex_value_escape: "hex_value (pad_left 4 (show_base 16 (code c))) = Some (code c) \<and>
    length (pad_left 4 (show_base 16 (code c))) = 4"
proof -
  have *: "list_all (\<lambda>n. hex_value (pad_left 4 (show_base 16 n)) = Some n \<and>
      length (pad_left 4 (show_base 16 n)) = 4) [0..255]" by code_simp
  have "code c \<in> set [0..255]" 
    using pos_mod_bound [of 256 "code c"] pos_mod_sign [of 256 "code c"] by (simp add: code_def)
  with * show ?thesis by (auto simp only: list_all_iff)
qed

lemma jchars_plain: "c \<noteq> DQ \<Longrightarrow> c \<noteq> BS \<Longrightarrow> 32 \<le> code c \<Longrightarrow>
    jchars (c # r) = map_option (\<lambda>(u, q). (c # u, q)) (jchars r)"
  by (subst jchars.simps) simp

lemma code_BS: "code BS = 92" "BS \<noteq> DQ"
  by (simp_all add: BS_def DQ_def code_def)

lemma jchars_short: "unescape e = Some d \<Longrightarrow>
    jchars (BS # e # r) = map_option (\<lambda>(u, q). (d # u, q)) (jchars r)"
proof -
  have "unescape (CHR ''u'') = None" by code_simp
  then show "unescape e = Some d \<Longrightarrow>
    jchars (BS # e # r) = map_option (\<lambda>(u, q). (d # u, q)) (jchars r)"
    by (subst jchars.simps) (auto simp: code_BS)
qed

lemma jchars_code: "jchars (BS # CHR ''u'' # pad_left 4 (show_base 16 (code c)) @ r)
    = map_option (\<lambda>(u, q). (c # u, q)) (jchars r)"
proof -
  have "code c \<le> 255" using pos_mod_bound [of 256 "code c"] by (simp add: code_def)
  then show ?thesis using hex_value_escape [of c]
    by (subst jchars.simps) (simp add: code_BS, simp add: code_def)
qed

lemma jchars_escape: "jchars (escape_char c @ r) = map_option (\<lambda>(u, q). (c # u, q)) (jchars r)"
proof -
  have u: "unescape DQ = Some DQ" "unescape BS = Some BS" "unescape (CHR ''n'') = Some NL"
    "unescape (CHR ''r'') = Some CR" "unescape (CHR ''t'') = Some (CHR 0x09)"
    "unescape (CHR ''b'') = Some (CHR 0x08)" "unescape (CHR ''f'') = Some (CHR 0x0C)" by code_simp+
  show ?thesis unfolding escape_char_def using jchars_code [of c r]
    by (auto simp: jchars_short u jchars_plain)
qed

lemma jchars_string: "jchars (concat (map escape_char s) @ DQ # r) = Some (s, r)"
proof (induction s)
  case Nil
  show ?case by (subst list.map, subst concat.simps, subst append_Nil, subst jchars.simps) simp
qed (simp add: jchars_escape)


text \<open>What may follow a number without being read as part of it.\<close>

definition ends_number :: "string \<Rightarrow> bool" where
  "ends_number r = (r = [] \<or> (\<not> is_dec (hd r) \<and> hd r \<noteq> CHR ''.'' \<and> hd r \<noteq> CHR ''e'' \<and> hd r \<noteq> CHR ''E''))"

lemma digits_of_append: "list_all is_dec s \<Longrightarrow> ends_number r \<Longrightarrow> digits_of (s @ r) = s"
proof (induction s)
  case Nil
  then show ?case by (cases r) (auto simp: digits_of_def ends_number_def)
qed (simp add: digits_of_def)

lemma take_1_hd: "take 1 r = [c] \<longleftrightarrow> r \<noteq> [] \<and> hd r = c"
  by (cases r) auto

lemma jnumber_digits:
  assumes "0 \<le> n" and "ends_number r"
  shows "jnumber (show_base 10 n @ r) = Some (JInt n, r)"
    and "jnumber (CHR ''-'' # show_base 10 n @ r) = Some (JInt (- n), r)"
proof -
  let ?s = "show_base 10 n"
  from show_base10 [OF assms(1)] have d: "list_all is_dec ?s" and ne: "?s \<noteq> []"
    and v: "dec_nat ?s = n" and z: "hd ?s = CHR ''0'' \<Longrightarrow> ?s = ''0''" by auto
  have "take 1 (?s @ r) \<noteq> ''-''" using d ne by (cases ?s) (auto simp: is_dec_not)
  moreover have "(if take 1 (digits_of (?s @ r)) = ''0'' then ''0'' else digits_of (?s @ r)) = ?s"
    using digits_of_append [OF d assms(2)] z ne by (cases ?s) auto
  moreover have "take 1 r \<noteq> ''.''" "take 1 r \<noteq> ''e''" "take 1 r \<noteq> ''E''"
    using assms(2) by (cases r; simp add: ends_number_def)+
  ultimately have "take 1 (?s @ r) \<noteq> ''-''"
    and m: "jmagnitude neg (?s @ r) = Some (JInt (if neg then - n else n), r)" for neg
    using ne v by (simp_all add: jmagnitude_def Let_def)
  then show "jnumber (?s @ r) = Some (JInt n, r)"
    and "jnumber (CHR ''-'' # ?s @ r) = Some (JInt (- n), r)"
    unfolding jnumber_def using m [of False] m [of True] by simp_all
qed

lemma jnumber_show: "ends_number r \<Longrightarrow> jnumber (show_int n @ r) = Some (JInt n, r)"
  using jnumber_digits [of n r] jnumber_digits [of "- n" r] by (simp add: show_int_def)

lemma show_int_start: "\<exists>c t. show_int n = c # t \<and> (is_dec c \<or> c = CHR ''-'')"
proof (cases "n < 0")
  case False
  with show_base10 [of n] show ?thesis by (cases "show_base 10 n") (auto simp: show_int_def)
qed (simp add: show_int_def)

lemma dec_not_syntax: "is_dec c \<or> c = CHR ''-'' \<Longrightarrow> c \<noteq> DQ \<and> c \<noteq> CHR ''['' \<and> c \<noteq> CHR ''{'' \<and>
    c \<noteq> CHR ''n'' \<and> c \<noteq> CHR ''t'' \<and> c \<noteq> CHR ''f'' \<and> \<not> jws c"
  by (auto simp: is_dec_def code_def Let_def DQ_def jws_def NL_def CR_def)

fun is_scalar :: "json \<Rightarrow> bool" where
  "is_scalar (JStr s) = True"
| "is_scalar (JInt n) = True"
| "is_scalar (JBool b) = True"
| "is_scalar JNull = True"
| "is_scalar _ = False"

lemma jvalue_dump: "is_scalar v \<Longrightarrow> ends_number r \<Longrightarrow> jvalue (Suc k) (dump_scalar v @ r) = Some (v, r)"
proof (cases v)
  case (JStr s)
  then show ?thesis by (simp add: dump_string_def jchars_string)
next
  case (JInt n)
  moreover assume "ends_number r"
  moreover obtain c t where "show_int n = c # t" "is_dec c \<or> c = CHR ''-''"
    using show_int_start [of n] by blast
  ultimately show ?thesis using jnumber_show [of r n] dec_not_syntax [of c] by simp
qed (auto simp: DQ_def literal_def)

lemma dump_scalar_start: "is_scalar v \<Longrightarrow> skip_ws (dump_scalar v @ r) = dump_scalar v @ r"
proof (cases v)
  case (JInt n)
  obtain c t where "show_int n = c # t" "is_dec c \<or> c = CHR ''-''"
    using show_int_start [of n] by blast
  with JInt dec_not_syntax [of c] show ?thesis by (simp add: skip_ws_def)
qed (auto simp: dump_string_def skip_ws_def jws_def DQ_def NL_def CR_def)

lemma jmembers_dump:
  assumes "list_all (is_scalar \<circ> snd) kvs" and "kvs \<noteq> []" and "length kvs < k"
  shows "jmembers k (join '', '' (map dump_member kvs) @ CHR ''}'' # r) = Some (kvs, r)"
  using assms
proof (induction kvs arbitrary: k)
  case (Cons a kvs)
  obtain key v where a: "a = (key, v)" by (cases a)
  obtain k' where k: "k = Suc (Suc k')" using Cons.prems by (cases k; cases "k - 1") auto
  have sep: "ends_number (CHR '','' # q)" "ends_number (CHR ''}'' # q)" for q
    by (simp_all add: ends_number_def is_dec_def code_def Let_def)
  have skip: "skip_ws (CHR '','' # q) = CHR '','' # q" "skip_ws (CHR ''}'' # q) = CHR ''}'' # q"
    "skip_ws (CHR '':'' # q) = CHR '':'' # q" "skip_ws (CHR '' '' # q) = skip_ws q"
    "skip_ws (DQ # q) = DQ # q" for q
    by (simp_all add: skip_ws_def jws_def NL_def CR_def DQ_def)
  from Cons.prems a have v: "is_scalar v" by simp
  show ?case
  proof (cases kvs)
    case Nil
    with a k v show ?thesis
      by (simp add: dump_member_def dump_string_def jchars_string skip dump_scalar_start
          jvalue_dump sep Let_def del: jvalue.simps)
  next
    case (Cons b kvs')
    have "jmembers (Suc k') (join '', '' (map dump_member kvs) @ CHR ''}'' # r) = Some (kvs, r)"
      using Cons.IH [of "Suc k'"] Cons.prems k Cons by simp
    moreover have "skip_ws (join '', '' (map dump_member kvs) @ q) = join '', '' (map dump_member kvs) @ q" for q
      using Cons by (cases kvs') (auto simp: dump_member_def dump_string_def skip split: prod.split)
    ultimately show ?thesis using a k v Cons
      by (simp add: dump_member_def dump_string_def jchars_string skip dump_scalar_start
          jvalue_dump sep Let_def del: jvalue.simps)
  qed
qed simp


lemma dict_set_new: "k \<notin> set (map fst d) \<Longrightarrow> dict_set k v d = d @ [(k, v)]"
  by (induction d) auto

lemma fold_dict_set: "distinct (map fst (d @ kvs)) \<Longrightarrow> fold (\<lambda>(k, v). dict_set k v) kvs d = d @ kvs"
proof (induction kvs arbitrary: d)
  case (Cons a kvs)
  then show ?case by (cases a) (auto simp: dict_set_new)
qed simp

lemma dump_member_length: "2 \<le> length (dump_member m)"
  by (cases m) (simp add: dump_member_def dump_string_def)

lemma join_length: "2 * length ms \<le> length (join '', '' (map dump_member ms))"
proof (induction ms)
  case (Cons m ms)
  then show ?case using dump_member_length [of m] by (cases ms) auto
qed simp

text \<open>The reader gives back an object of scalars with distinct keys, as \<open>json.dumps\<close> wrote it.\<close>

lemma json_loads_dump:
  assumes "list_all (is_scalar \<circ> snd) kvs" and "distinct (map fst kvs)" and "skip_ws w = []"
  shows "json_loads (dump_object kvs @ w) = Inr (JDict kvs)"
proof (cases "kvs = []")
  case True
  with assms(3) show ?thesis
    by (simp add: json_loads_def dump_object_def skip_ws_def jws_def NL_def CR_def DQ_def)
next
  case False
  let ?m = "join '', '' (map dump_member kvs)"
  obtain q where q: "?m = DQ # q"
    using False by (cases kvs; cases "tl kvs") (auto simp: dump_member_def dump_string_def split: prod.splits)
  have skip: "skip_ws (CHR ''{'' # z) = CHR ''{'' # z" "skip_ws (DQ # z) = DQ # z" for z
    by (simp_all add: skip_ws_def jws_def NL_def CR_def DQ_def)
  have braces: "CHR ''{'' \<noteq> DQ" "DQ \<noteq> CHR ''}''" by (simp_all add: DQ_def)
  have "jmembers (length ?m + length w + 2) (?m @ CHR ''}'' # w) = Some (kvs, w)"
    using jmembers_dump [OF assms(1) False, of "length ?m + length w + 2" w] join_length [of kvs] by simp
  then have "jvalue (length ?m + length w + 3) (CHR ''{'' # ?m @ CHR ''}'' # w) = Some (JDict kvs, w)"
    using q fold_dict_set [of "[]" kvs] assms(2) braces
    by (simp add: skip numeral_3_eq_3 del: jmembers.simps)
  then show ?thesis using assms(3) by (simp add: json_loads_def dump_object_def skip numeral_3_eq_3 del: jvalue.simps)
qed

subsection \<open>Hexadecimal text\<close>

lemma digit_char_cases:
  assumes "0 \<le> d" and "d < 16"
  shows "digit_val (digit_char d) = Some d \<and> digit_char d \<noteq> CHR ''_'' \<and> \<not> is_space (digit_char d)"
proof -
  have "list_all (\<lambda>d. digit_val (digit_char d) = Some d \<and> digit_char d \<noteq> CHR ''_'' \<and> \<not> is_space (digit_char d)) [0..15]"
    by code_simp
  with assms show ?thesis by (auto simp: list_all_iff)
qed

lemma py_digits_show_base:
  "2 \<le> b \<Longrightarrow> b \<le> 16 \<Longrightarrow> 0 \<le> n \<Longrightarrow>
     py_digits b a ok (show_base b n @ s) = py_digits b (a * b ^ length (show_base b n) + n) True s"
proof (induction b n arbitrary: a ok s rule: show_base.induct)
  case (1 b n)
  show ?case
  proof (cases "n < b")
    case True
    then show ?thesis using 1 digit_char_cases [of n] by (subst (1 2) show_base.simps) simp
  next
    case False
    have m: "0 \<le> n mod b" "n mod b < b" using 1 by simp_all
    have "py_digits b a ok (show_base b n @ s)
        = py_digits b (a * b ^ length (show_base b (n div b)) + n div b) True (digit_char (n mod b) # s)"
      using False 1 by (subst show_base.simps) (simp add: pos_imp_zdiv_nonneg_iff)
    also have "\<dots> = py_digits b ((a * b ^ length (show_base b (n div b)) + n div b) * b + n mod b) True s"
      using digit_char_cases [of "n mod b"] m 1 by simp
    also have "(a * b ^ length (show_base b (n div b)) + n div b) * b + n mod b = a * b ^ length (show_base b n) + n"
      using False 1 by (subst (2) show_base.simps) (simp add: algebra_simps)
    finally show ?thesis .
  qed
qed

lemma show_base16_chars: "0 \<le> n \<Longrightarrow> c \<in> set (show_base 16 n) \<Longrightarrow> c \<noteq> CHR ''_'' \<and> \<not> is_space c"
proof (induction "16 :: int" n rule: show_base.induct)
  case (1 n)
  show ?case
  proof (cases "n < 16")
    case True
    then have "show_base 16 n = [digit_char n]" by (subst show_base.simps) simp
    with 1 True show ?thesis using digit_char_cases [of n] by simp
  next
    case False
    then have "show_base 16 n = show_base 16 (n div 16) @ [digit_char (n mod 16)]" by (subst show_base.simps) simp
    moreover have "0 \<le> n div 16" using 1 by (simp add: pos_imp_zdiv_nonneg_iff)
    ultimately show ?thesis using 1 False digit_char_cases [of "n mod 16"] by auto
  qed
qed

lemma show_base_ne: "show_base b n \<noteq> []"
  by (subst show_base.simps) simp

lemma py_digits_zeros: "py_digits 16 0 ok (replicate k (CHR ''0'') @ s) = py_digits 16 0 (ok \<or> 0 < k) s"
proof (induction k arbitrary: ok)
  case (Suc k)
  have "digit_val (CHR ''0'') = Some 0" by code_simp
  with Suc show ?case by simp
qed simp

lemma strip_underscore_id: "CHR ''_'' \<notin> set s \<Longrightarrow> strip_underscore s = s"
  by (cases s) (auto simp: strip_underscore_def)

text \<open>An address or data word printed with \<open>0x{n:08x}\<close> reads back.\<close>

lemma py_int16_hex8: "0 \<le> n \<Longrightarrow> py_int16 (hex8 n) = Some n"
proof -
  assume n: "0 \<le> n"
  let ?p = "pad_left 8 (show_base 16 n)"
  have h: "hex8 n = CHR ''0'' # CHR ''x'' # ?p" using n by (simp add: hex8_def)
  have zero: "\<not> is_space (CHR ''0'')" "\<not> is_space (CHR ''x'')" "lower ''0x'' = ''0x''" by code_simp+
  then have "strip (hex8 n) = hex8 n"
    using show_base16_chars [OF n] by (intro strip_none) (auto simp: h list_all_iff pad_left_def)
  moreover have "strip_underscore ?p = ?p"
    using show_base16_chars [OF n]
    by (intro strip_underscore_id) (auto simp: pad_left_def)
  moreover have "py_digits 16 0 False ?p = Some n"
    using py_digits_show_base [of 16 n 0 _ "[]"] n by (simp add: pad_left_def py_digits_zeros)
  ultimately show ?thesis using zero by (simp add: py_int16_def py_signed_def h has_base_prefix_def)
qed

end
