(* ===== verification/Files.thy ===== *)
theory Files
  imports Json
begin

text \<open>
  The files the tools read and write. A path is the list of its components; the content of a file
  is its text after decoding (for a binary file, its bytes as characters). Directories are those
  that hold a file: creating an empty directory changes nothing the tools read. The SHA-256 of a
  content is a parameter \<open>sha\<close>, the function \<open>hashlib\<close> computes; chunked reading feeds it the
  whole content (tools/nvdla_test_framework/common.py).
\<close>

type_synonym path = "string list"
type_synonym fs = "(path, string) dict"

definition is_file :: "fs \<Rightarrow> path \<Rightarrow> bool" where
  "is_file fs p = (dict_get fs p \<noteq> None)"

definition is_dir :: "fs \<Rightarrow> path \<Rightarrow> bool" where
  "is_dir fs p = list_ex (\<lambda>q. strict_prefix p q) (dict_keys fs)"

definition path_exists :: "fs \<Rightarrow> path \<Rightarrow> bool" where
  "path_exists fs p = (is_file fs p \<or> is_dir fs p)"

definition path_str :: "path \<Rightarrow> string" where
  "path_str p = join ''/'' p"

definition rel_path :: "string \<Rightarrow> path" where
  "rel_path s = List.filter (\<lambda>c. c \<noteq> [] \<and> c \<noteq> ''.'') (split_on (CHR ''/'') s)"

text \<open>\<open>p / s\<close>: an absolute \<open>s\<close> replaces \<open>p\<close>.\<close>

definition path_div :: "path \<Rightarrow> string \<Rightarrow> path" where
  "path_div p s = (if starts_with s ''/'' then rel_path s else p @ rel_path s)"

definition path_name :: "path \<Rightarrow> string" where
  "path_name p = (if p = [] then [] else last p)"

text \<open>\<open>Path(p).stem\<close>.\<close>

definition path_stem :: "string \<Rightarrow> string" where
  "path_stem p = (let name = path_name (rel_path p); ext = rev (takeWhile (\<lambda>c. c \<noteq> CHR ''.'') (rev name)); i = length name - length ext - 1 in
     if CHR ''.'' \<in> set name \<and> ext \<noteq> [] \<and> 0 < i then take i name else name)"

definition read_text :: "fs \<Rightarrow> path \<Rightarrow> string res" where
  "read_text fs p = noneE (FileNotFoundError (path_str p)) (dict_get fs p)"

definition write_file :: "path \<Rightarrow> string \<Rightarrow> fs \<Rightarrow> fs" where
  "write_file p c fs = dict_set p c fs"

definition copy_file :: "path \<Rightarrow> path \<Rightarrow> fs \<Rightarrow> fs res" where
  "copy_file src dst fs = bindE (read_text fs src) (\<lambda>c. Inr (write_file dst c fs))"

definition read_json :: "fs \<Rightarrow> path \<Rightarrow> json res" where
  "read_json fs p = bindE (read_text fs p) json_loads"

definition files_under :: "fs \<Rightarrow> path \<Rightarrow> path list" where
  "files_under fs d = sort (List.filter (\<lambda>q. strict_prefix d q) (dict_keys fs))"

definition sha256_file :: "(string \<Rightarrow> string) \<Rightarrow> fs \<Rightarrow> path \<Rightarrow> string res" where
  "sha256_file sha fs p = bindE (read_text fs p) (\<lambda>c. Inr (upper (sha c)))"

definition file_size :: "fs \<Rightarrow> path \<Rightarrow> nat res" where
  "file_size fs p = bindE (read_text fs p) (\<lambda>c. Inr (length c))"

lemma read_write [simp]: "read_text (write_file p c fs) q = (if q = p then Inr c else read_text fs q)"
  by (simp add: read_text_def write_file_def)

lemma is_file_write [simp]: "is_file (write_file p c fs) q \<longleftrightarrow> q = p \<or> is_file fs q"
  by (simp add: is_file_def write_file_def)

lemma is_file_read: "is_file fs p \<longleftrightarrow> (\<exists>c. read_text fs p = Inr c)"
  by (auto simp: is_file_def read_text_def noneE_def split: option.splits)

lemma copy_file_iff [res_simps]:
  "copy_file src dst fs = Inr fs' \<longleftrightarrow> (\<exists>c. read_text fs src = Inr c \<and> fs' = write_file dst c fs)"
  by (auto simp: copy_file_def bindE_Inr_iff)

subsection \<open>The interface of a file store\<close>

text \<open>What the copying and verifying tools rely on: a file reads back as written, and the other
  files are left alone.\<close>

locale file_store =
  fixes rd :: "'f \<Rightarrow> 'p \<Rightarrow> 'c res"
    and wr :: "'p \<Rightarrow> 'c \<Rightarrow> 'f \<Rightarrow> 'f"
  assumes rd_wr_same: "rd (wr p c f) p = Inr c"
    and rd_wr_other: "q \<noteq> p \<Longrightarrow> rd (wr p c f) q = rd f q"
begin

definition copies :: "('p \<times> 'p) list \<Rightarrow> 'f \<Rightarrow> 'f res" where
  "copies = foldE (\<lambda>(src, dst) f. bindE (rd f src) (\<lambda>c. Inr (wr dst c f)))"

lemma copies_other:
  "copies ps f = Inr f' \<Longrightarrow> q \<notin> snd ` set ps \<Longrightarrow> rd f' q = rd f q"
proof (induction ps arbitrary: f)
  case (Cons a ps)
  then show ?case by (cases a) (auto simp: copies_def bindE_Inr_iff rd_wr_other)
qed (simp add: copies_def)

text \<open>A batch of copies whose targets are distinct and none of its sources gives every target the
  content its source had before.\<close>

lemma copies_content:
  assumes "copies ps f = Inr f'" and "distinct (map snd ps)" and "fst ` set ps \<inter> snd ` set ps = {}"
    and "(src, dst) \<in> set ps"
  shows "rd f' dst = rd f src"
  using assms
proof (induction ps arbitrary: f)
  case (Cons a ps)
  obtain s d where a: "a = (s, d)" by (cases a)
  with Cons.prems obtain c where c: "rd f s = Inr c" and rest: "copies ps (wr d c f) = Inr f'"
    by (auto simp: copies_def bindE_Inr_iff)
  show ?case
  proof (cases "(src, dst) = (s, d)")
    case True
    with copies_other [OF rest, of d] Cons.prems a c show ?thesis
      by (auto simp: rd_wr_same image_iff)
  next
    case False
    with Cons.prems a have m: "(src, dst) \<in> set ps" "src \<noteq> d" by (auto simp: image_iff)
    from Cons.prems(2,3) a have "distinct (map snd ps)" "fst ` set ps \<inter> snd ` set ps = {}" by auto
    from Cons.IH [OF rest this m(1)] m(2) show ?thesis by (simp add: rd_wr_other)
  qed
qed simp

end

interpretation disk: file_store read_text write_file
  by unfold_locales simp_all

end
