(* ===== verification/BenchRunner.thy ===== *)
theory BenchRunner
  imports Files
begin

text \<open>
  The campaign runner (scripts/run_benchmark_campaign.py): the questions asked on the terminal, the options of
  one benchmark, the directory of its output, the queue of fresh-boot sessions and the loop that runs them.
  The terminal is the list of lines typed, and a question without a line left raises \<open>EOFError\<close>. The process
  that runs one benchmark is a parameter: a function of its command and of the files, which gives its status
  and the files it leaves. What is printed, asked, run and waited for is a trace of events. Facts: the
  questions answer with what was offered, and the sessions run in the order of the queue, with one
  confirmed restart and one wait between two of them, until the first that fails.
\<close>

datatype bench_event = Printed string | Asked string | Ran "string list" int | Sounded "string list" | Bell | Slept int

record bench =
  typed :: "string list"
  trace :: "bench_event list"
  files :: fs

record bench_env =
  be_root :: path
  be_pid :: nat
  be_powershell :: "string option"
  be_sound :: "string list \<Rightarrow> int"
  be_run :: "string list \<Rightarrow> fs \<Rightarrow> int \<times> fs"

definition log_event :: "bench_event \<Rightarrow> bench \<Rightarrow> bench" where
  "log_event e b = b\<lparr>trace := trace b @ [e]\<rparr>"

definition log_line :: "string \<Rightarrow> bench \<Rightarrow> bench" where
  "log_line s = log_event (Printed s)"

text \<open>\<open>input(prompt)\<close>.\<close>

definition ask :: "string \<Rightarrow> bench \<Rightarrow> (string \<times> bench) res" where
  "ask prompt b = (case typed b of [] \<Rightarrow> Inl (EOFError)
     | a # rest \<Rightarrow> Inr (a, (log_event (Asked prompt) b)\<lparr>typed := rest\<rparr>))"

subsection \<open>Questions\<close>

text \<open>\<open>choose\<close> and \<open>positive_int\<close> ask until the answer fits; every question takes one typed line.\<close>

function choose_loop :: "string list \<Rightarrow> bench \<Rightarrow> (string \<times> bench) res" where
  "choose_loop options b = (case ask ''> '' b of
       Inl e \<Rightarrow> Inl e
     | Inr (line, b1) \<Rightarrow>
         (let answer = strip line; again = log_line ''Choose one of the listed numbers.'' b1 in
          if is_digit answer then
            (case py_int answer of None \<Rightarrow> Inl (ValueError ''invalid literal for int()'')
             | Some n \<Rightarrow> if 1 \<le> n \<and> n \<le> int (length options) then Inr (options ! nat (n - 1), b1) else choose_loop options again)
          else choose_loop options again))"
  by pat_completeness auto
termination
  by (relation "measure (\<lambda>(_, b). length (typed b))") (auto simp: ask_def log_line_def log_event_def split: list.splits)

declare choose_loop.simps [simp del]

definition choose_option :: "string \<Rightarrow> string list \<Rightarrow> bench \<Rightarrow> (string \<times> bench) res" where
  "choose_option prompt options b = choose_loop options
     (fold (\<lambda>(i, option). log_line (''  '' @ show_nat i @ ''. '' @ option)) (enumerate1 options) (log_line (NL # prompt) b))"

function positive_loop :: "string \<Rightarrow> int \<Rightarrow> bench \<Rightarrow> (int \<times> bench) res" where
  "positive_loop prompt d b = (case ask (prompt @ '' ['' @ show_int d @ '']: '') b of
       Inl e \<Rightarrow> Inl e
     | Inr (line, b1) \<Rightarrow>
         (let answer = strip line; again = log_line ''Enter a positive integer.'' b1 in
          if answer = [] then Inr (d, b1)
          else if is_digit answer then
            (case py_int answer of None \<Rightarrow> Inl (ValueError ''invalid literal for int()'')
             | Some n \<Rightarrow> if 0 < n then Inr (n, b1) else positive_loop prompt d again)
          else positive_loop prompt d again))"
  by pat_completeness auto
termination
  by (relation "measure (\<lambda>(_, _, b). length (typed b))") (auto simp: ask_def log_line_def log_event_def split: list.splits)

declare positive_loop.simps [simp del]

subsection \<open>One benchmark\<close>

definition benchmark_options :: "string \<Rightarrow> string \<Rightarrow> string \<Rightarrow> int \<Rightarrow> string \<Rightarrow> string list" where
  "benchmark_options kind model phase threads precision =
     (let lenet = (model = ''lenet''); nvdla = (kind = ''nvdla'');
          options = (if phase = ''latency'' then
              [''--regime'', ''all'', ''--cold-starts'', if lenet then ''10'' else ''5'', ''--warm-starts'', if lenet then ''30'' else ''10'']
              @ (if nvdla then [''--warmups'', if lenet then ''20'' else ''5''] else [])
              @ [''--steady-samples'', if lenet then ''200'' else ''30'']
            else [''--regime'', ''steady''] @ (if nvdla then [''--warmups'', ''1''] else [])
              @ [''--steady-samples'', if lenet then ''200'' else ''30'', ''--power'', ''--power-idle-seconds'', ''10'',
                 ''--power-interval-ms'', ''50'', ''--power-sampler-cpu'', ''3'']) @ [''--settle-seconds'', ''30'']
      in if nvdla then options @ [''--benchmark-cpu'', ''2''] else [''--precision'', precision, ''--threads'', show_int threads] @ options)"

definition output_directory :: "path \<Rightarrow> string \<Rightarrow> string \<Rightarrow> string \<Rightarrow> int \<Rightarrow> string \<Rightarrow> path" where
  "output_directory rt kind model phase threads precision =
     (let final = rt @ [''artifacts'', ''final''] in
      if kind = ''nvdla'' then final @ [''nvdla'', model, phase]
      else if threads = 4 then final @ [if precision = ''int8'' then ''cpu-int8'' else ''cpu'', model, phase]
      else final @ [''cpu-scaling'', show_int threads @ ''t'', precision, model, phase])"

definition sound_command :: "string \<Rightarrow> string list" where
  "sound_command powershell = [powershell, ''-NoProfile'', ''-Command'',
     ''[System.Media.SystemSounds]::Asterisk.Play(); Start-Sleep -Milliseconds 500'']"

definition notify :: "bench_env \<Rightarrow> bench \<Rightarrow> bench" where
  "notify E b = (case be_powershell E of
       None \<Rightarrow> log_event Bell b
     | Some p \<Rightarrow> (let b1 = log_event (Sounded (sound_command p)) b in if be_sound E (sound_command p) = 0 then b1 else log_event Bell b1))"

subsection \<open>The campaign\<close>

record campaign_plan =
  cp_kind :: string
  cp_models :: "string list"
  cp_phases :: "string list"
  cp_threads :: int
  cp_precision :: string
  cp_sessions :: int
  cp_delay :: int

definition read_cpu :: "string \<Rightarrow> bench \<Rightarrow> (int \<times> string \<times> bench) res" where
  "read_cpu kind b = (if kind = ''cpu'' then
              bindE (choose_option ''CPU threads/cores'' [''1'', ''2'', ''4''] b) (\<lambda>(t, b).
              bindE (noneE (ValueError ''invalid literal for int()'') (py_int t)) (\<lambda>threads.
              bindE (choose_option ''Precision'' [''fp32'', ''int8''] b) (\<lambda>(precision, b). Inr (threads, precision, b))))
            else Inr (4, ''fp32'', b))"

definition read_plan :: "bench \<Rightarrow> (campaign_plan \<times> bench) res" where
  "read_plan b =
     bindE (choose_option ''Implementation'' [''cpu'', ''nvdla''] b) (\<lambda>(kind, b).
     bindE (choose_option ''Model'' [''lenet'', ''resnet50'', ''both''] b) (\<lambda>(models, b).
     bindE (choose_option ''Measurements'' [''latency'', ''power'', ''both''] b) (\<lambda>(phases, b).
     bindE (read_cpu kind b) (\<lambda>(threads, precision, b).
     bindE (positive_loop ''Fresh-boot sessions per test'' 5 b) (\<lambda>(sessions, b).
     bindE (positive_loop ''Seconds to wait after restart confirmation'' 10 b) (\<lambda>(delay, b).
     Inr (\<lparr>cp_kind = kind, cp_models = (if models = ''both'' then [''lenet'', ''resnet50''] else [models]),
            cp_phases = (if phases = ''both'' then [''latency'', ''power''] else [phases]),
            cp_threads = threads, cp_precision = precision, cp_sessions = sessions, cp_delay = delay\<rparr>, b)))))))"

type_synonym job = "string \<times> string \<times> int"

definition jobs_of :: "campaign_plan \<Rightarrow> job list" where
  "jobs_of c = concat (map (\<lambda>model. concat (map (\<lambda>phase. map (\<lambda>session. (model, phase, session)) [1..cp_sessions c]) (cp_phases c))) (cp_models c))"

definition job_command :: "bench_env \<Rightarrow> path \<Rightarrow> campaign_plan \<Rightarrow> job \<Rightarrow> string list" where
  "job_command E runner c = (\<lambda>(model, phase, session).
     [path_str runner, cp_kind c, model] @ benchmark_options (cp_kind c) model phase (cp_threads c) (cp_precision c)
     @ [''--output'', path_str (output_directory (be_root E) (cp_kind c) model phase (cp_threads c) (cp_precision c))])"

definition start_line :: "campaign_plan \<Rightarrow> nat \<Rightarrow> nat \<Rightarrow> job \<Rightarrow> string" where
  "start_line c number amount = (\<lambda>(model, phase, session).
     NL # ''['' @ show_nat number @ ''/'' @ show_nat amount @ ''] '' @ cp_kind c @ '' '' @ model @ '' '' @ phase @ '', session '' @ show_int session)"

definition run_job :: "bench_env \<Rightarrow> path \<Rightarrow> campaign_plan \<Rightarrow> nat \<Rightarrow> nat \<Rightarrow> job \<Rightarrow> bench \<Rightarrow> int \<times> bench" where
  "run_job E runner c number amount j b =
     (let command = job_command E runner c j; b1 = log_line (start_line c number amount j) b; (status, fs) = be_run E command (files b1)
      in (status, notify E ((log_event (Ran command status) b1)\<lparr>files := fs\<rparr>)))"

definition restart_prompt :: string where
  "restart_prompt = ''Power-cycle the board; press Enter when it has been restarted. ''"

definition wait_restart :: "campaign_plan \<Rightarrow> bench \<Rightarrow> bench res" where
  "wait_restart c b = bindE (ask restart_prompt b) (\<lambda>(_, b).
     Inr (log_event (Slept (cp_delay c)) (log_line (''Waiting '' @ show_int (cp_delay c) @ '' seconds before checking the board...'') b)))"

fun run_jobs :: "bench_env \<Rightarrow> path \<Rightarrow> campaign_plan \<Rightarrow> nat \<Rightarrow> nat \<Rightarrow> job list \<Rightarrow> bench \<Rightarrow> (int \<times> bench) res" where
  "run_jobs E runner c number amount [] b = Inr (0, log_line (NL # ''Campaign complete.'') b)"
| "run_jobs E runner c number amount (j # js) b = (case run_job E runner c number amount j b of (status, b) \<Rightarrow>
     if status \<noteq> 0 then Inr (status, log_line (''Benchmark failed with status '' @ show_int status @ ''; campaign stopped.'') b)
     else bindE (if number < amount then wait_restart c b else Inr b) (run_jobs E runner c (Suc number) amount js))"

definition runner_copy :: "bench_env \<Rightarrow> path" where
  "runner_copy E = be_root E @ [''.work'', ''run_board_benchmark-'' @ show_nat (be_pid E) @ ''.sh'']"

text \<open>\<open>main\<close> up to its return, and the program: the copied script is unlinked when the interpreter exits.\<close>

definition campaign_main :: "bench_env \<Rightarrow> bench \<Rightarrow> (int \<times> bench) res" where
  "campaign_main E b =
     bindE (copy_file (be_root E @ [''scripts'', ''run_board_benchmark.sh'']) (runner_copy E) (files b)) (\<lambda>fs.
     bindE (read_plan (b\<lparr>files := fs\<rparr>)) (\<lambda>(c, b). let jobs = jobs_of c in
     bindE (ask ''Ensure the board is freshly booted, then press Enter to start. ''
              (log_line (NL # ''Queued '' @ show_nat (length jobs) @ '' fresh-boot benchmark sessions.'') b)) (\<lambda>(_, b).
     run_jobs E (runner_copy E) c 1 (length jobs) jobs b)))"

definition unlink_runner :: "bench_env \<Rightarrow> bench \<Rightarrow> bench" where
  "unlink_runner E b = b\<lparr>files := List.filter (\<lambda>(p, _). p \<noteq> runner_copy E) (files b)\<rparr>"

definition run_campaign :: "bench_env \<Rightarrow> bench \<Rightarrow> (int \<times> bench) res" where
  "run_campaign E b = bindE (campaign_main E b) (\<lambda>(status, b). Inr (status, unlink_runner E b))"

subsection \<open>What is asked\<close>

fun board_event :: "bench_event \<Rightarrow> bool" where
  "board_event (Ran _ _) = True"
| "board_event (Slept _) = True"
| "board_event (Asked p) = (p = restart_prompt)"
| "board_event _ = False"

definition board_events :: "bench \<Rightarrow> bench_event list" where
  "board_events b = List.filter board_event (trace b)"

lemma board_log [simp]: "board_events (log_event e b) = board_events b @ (if board_event e then [e] else [])"
  by (simp add: board_events_def log_event_def)

lemma board_line [simp]: "board_events (log_line s b) = board_events b"
  by (simp add: log_line_def)

lemma board_update [simp]: "board_events (b\<lparr>files := fs\<rparr>) = board_events b" "board_events (b\<lparr>typed := t\<rparr>) = board_events b"
  by (simp_all add: board_events_def)

lemma board_ask: "ask p b = Inr (a, b') \<Longrightarrow> board_events b' = board_events b @ (if p = restart_prompt then [Asked p] else [])"
  by (auto simp: ask_def split: list.splits)

lemma choose_loop_offered: "choose_loop options b = Inr (x, b') \<Longrightarrow> x \<in> set options \<and> board_events b' = board_events b"
proof (induction options b rule: choose_loop.induct)
  case (1 options b)
  from "1.prems" obtain line b1 where a: "ask ''> '' b = Inr (line, b1)"
    unfolding choose_loop.simps [of options b] by (auto split: sum.splits)
  have b1: "board_events b1 = board_events b" using board_ask [OF a] by (simp add: restart_prompt_def)
  let ?again = "log_line ''Choose one of the listed numbers.'' b1"
  consider (chosen) n where "is_digit (strip line)" "py_int (strip line) = Some n" "1 \<le> n" "n \<le> int (length options)" "x = options ! nat (n - 1)" "b' = b1"
    | (number) n where "is_digit (strip line)" "py_int (strip line) = Some n" "\<not> (1 \<le> n \<and> n \<le> int (length options))" "choose_loop options ?again = Inr (x, b')"
    | (other) "\<not> is_digit (strip line)" "choose_loop options ?again = Inr (x, b')"
    using "1.prems" unfolding choose_loop.simps [of options b] by (auto simp: a Let_def split: option.splits if_splits)
  then show ?case
  proof cases
    case chosen
    then show ?thesis using b1 by (auto intro!: nth_mem)
  next
    case number
    from "1.IH"(1) [OF a refl refl refl number(1) number(2) number(3) number(4)] b1 show ?thesis by simp
  next
    case other
    from "1.IH"(2) [OF a refl refl refl other(1) other(2)] b1 show ?thesis by simp
  qed
qed

lemma choose_offered:
  assumes "choose_option prompt options b = Inr (x, b')"
  shows "x \<in> set options" and "board_events b' = board_events b"
proof -
  have "board_events (fold (\<lambda>(i, option). log_line (''  '' @ show_nat i @ ''. '' @ option)) xs b0) = board_events b0" for xs b0
    by (induction xs arbitrary: b0) auto
  with choose_loop_offered [OF assms [unfolded choose_option_def]] show "x \<in> set options" "board_events b' = board_events b" by auto
qed

lemma positive_loop_positive:
  "positive_loop prompt d b = Inr (n, b') \<Longrightarrow> 0 < d \<Longrightarrow> prompt @ '' ['' @ show_int d @ '']: '' \<noteq> restart_prompt \<Longrightarrow> 0 < n \<and> board_events b' = board_events b"
proof (induction prompt d b rule: positive_loop.induct)
  case (1 prompt d b)
  from "1.prems"(1) obtain line b1 where a: "ask (prompt @ '' ['' @ show_int d @ '']: '') b = Inr (line, b1)"
    unfolding positive_loop.simps [of prompt d b] by (auto split: sum.splits)
  have b1: "board_events b1 = board_events b" using board_ask [OF a] "1.prems"(3) by simp
  let ?again = "log_line ''Enter a positive integer.'' b1"
  consider (default) "n = d" "b' = b1" | (typed) "0 < n" "b' = b1"
    | (number) m where "strip line \<noteq> []" "is_digit (strip line)" "py_int (strip line) = Some m" "\<not> 0 < m" "positive_loop prompt d ?again = Inr (n, b')"
    | (other) "strip line \<noteq> []" "\<not> is_digit (strip line)" "positive_loop prompt d ?again = Inr (n, b')"
    using "1.prems"(1) unfolding positive_loop.simps [of prompt d b] a sum.case prod.case Let_def by (auto split: option.splits if_splits)
  then show ?case
  proof cases
    case number
    from "1.IH"(1) [OF a refl refl refl number(1,2,3,4,5) "1.prems"(2,3)] b1 show ?thesis by simp
  next
    case other
    from "1.IH"(2) [OF a refl refl refl other(1,2,3) "1.prems"(2,3)] b1 show ?thesis by simp
  qed (use "1.prems" b1 in auto)
qed

subsection \<open>What is run\<close>

definition plan_ok :: "campaign_plan \<Rightarrow> bool" where
  "plan_ok c \<longleftrightarrow> cp_kind c \<in> {''cpu'', ''nvdla''} \<and> set (cp_models c) \<subseteq> {''lenet'', ''resnet50''} \<and> cp_models c \<noteq> []
     \<and> set (cp_phases c) \<subseteq> {''latency'', ''power''} \<and> cp_phases c \<noteq> [] \<and> cp_threads c \<in> {1, 2, 4}
     \<and> cp_precision c \<in> {''fp32'', ''int8''} \<and> 0 < cp_sessions c \<and> 0 < cp_delay c"

lemma thread_numbers: "t \<in> set [''1'', ''2'', ''4''] \<Longrightarrow> py_int t = Some n \<Longrightarrow> n \<in> {1, 2, 4}"
proof -
  have "py_int ''1'' = Some 1" "py_int ''2'' = Some 2" "py_int ''4'' = Some 4" by code_simp+
  then show "t \<in> set [''1'', ''2'', ''4''] \<Longrightarrow> py_int t = Some n \<Longrightarrow> n \<in> {1, 2, 4}" by auto
qed

lemma read_cpu_ok: "read_cpu kind b = Inr (threads, precision, b') \<Longrightarrow>
    threads \<in> {1, 2, 4} \<and> precision \<in> {''fp32'', ''int8''} \<and> board_events b' = board_events b"
proof (cases "kind = ''cpu''")
  case True
  assume "read_cpu kind b = Inr (threads, precision, b')"
  with True obtain t b1 where t: "choose_option ''CPU threads/cores'' [''1'', ''2'', ''4''] b = Inr (t, b1)"
    and n: "py_int t = Some threads" and p: "choose_option ''Precision'' [''fp32'', ''int8''] b1 = Inr (precision, b')"
    by (auto simp: read_cpu_def bindE_Inr_iff noneE_def split: option.splits)
  from thread_numbers [OF choose_offered(1) [OF t] n] choose_offered(2) [OF t] choose_offered [OF p] show ?thesis by simp
qed (simp add: read_cpu_def)

lemma read_plan_ok:
  assumes "read_plan b = Inr (c, b')"
  shows "plan_ok c \<and> board_events b' = board_events b"
proof -
  from assms [unfolded read_plan_def] obtain kind b1 models b2 phases b3 threads precision b4 sessions b5 delay where
    k: "choose_option ''Implementation'' [''cpu'', ''nvdla''] b = Inr (kind, b1)"
    and m: "choose_option ''Model'' [''lenet'', ''resnet50'', ''both''] b1 = Inr (models, b2)"
    and p: "choose_option ''Measurements'' [''latency'', ''power'', ''both''] b2 = Inr (phases, b3)"
    and r: "read_cpu kind b3 = Inr (threads, precision, b4)"
    and s: "positive_loop ''Fresh-boot sessions per test'' 5 b4 = Inr (sessions, b5)"
    and d: "positive_loop ''Seconds to wait after restart confirmation'' 10 b5 = Inr (delay, b')"
    and c: "c = \<lparr>cp_kind = kind, cp_models = (if models = ''both'' then [''lenet'', ''resnet50''] else [models]),
            cp_phases = (if phases = ''both'' then [''latency'', ''power''] else [phases]),
            cp_threads = threads, cp_precision = precision, cp_sessions = sessions, cp_delay = delay\<rparr>"
    by (auto simp: bindE_Inr_iff)
  have "0 < sessions \<and> board_events b5 = board_events b4" by (rule positive_loop_positive [OF s]) (simp_all add: restart_prompt_def)
  moreover have "0 < delay \<and> board_events b' = board_events b5" by (rule positive_loop_positive [OF d]) (simp_all add: restart_prompt_def)
  ultimately show ?thesis using choose_offered [OF k] choose_offered [OF m] choose_offered [OF p] read_cpu_ok [OF r]
    by (auto simp: plan_ok_def c)
qed

fun session_trace :: "int \<Rightarrow> (string list \<times> int) list \<Rightarrow> bench_event list" where
  "session_trace d [] = []"
| "session_trace d [r] = [Ran (fst r) (snd r)]"
| "session_trace d (r # rs) = [Ran (fst r) (snd r), Asked restart_prompt, Slept d] @ session_trace d rs"

lemma board_notify [simp]: "board_events (notify E b) = board_events b"
  by (simp add: notify_def Let_def split: option.splits)

lemma board_run_job: "run_job E runner c number amount j b = (status, b') \<Longrightarrow>
    board_events b' = board_events b @ [Ran (job_command E runner c j) status]"
  by (auto simp: run_job_def Let_def split: prod.splits)

lemma board_wait: "wait_restart c b = Inr b' \<Longrightarrow> board_events b' = board_events b @ [Asked restart_prompt, Slept (cp_delay c)]"
  by (auto simp: wait_restart_def bindE_Inr_iff dest: board_ask)

definition ran_through :: "string list list \<Rightarrow> (string list \<times> int) list \<Rightarrow> int \<Rightarrow> bool" where
  "ran_through commands rs status \<longleftrightarrow> rs \<noteq> [] \<and> prefix (map fst rs) commands \<and> (\<forall>r \<in> set (butlast rs). snd r = 0) \<and> snd (last rs) = status
     \<and> (status = 0 \<longrightarrow> map fst rs = commands)"

lemma ran_through_Cons: "ran_through cs rs status \<Longrightarrow> ran_through (c # cs) ((c, 0) # rs) status"
  by (auto simp: ran_through_def)

lemma run_jobs_trace:
  "run_jobs E runner c number amount js b = Inr (status, b') \<Longrightarrow> number + length js = Suc amount \<Longrightarrow> js \<noteq> [] \<Longrightarrow>
     \<exists>rs. ran_through (map (job_command E runner c) js) rs status \<and> board_events b' = board_events b @ session_trace (cp_delay c) rs"
proof (induction js arbitrary: number b)
  case (Cons j js)
  let ?j = "job_command E runner c j"
  obtain s b1 where s: "run_job E runner c number amount j b = (s, b1)" by (cases "run_job E runner c number amount j b") auto
  note b1 = board_run_job [OF s]
  show ?case
  proof (cases "s = 0 \<and> js \<noteq> []")
    case True
    with Cons.prems(2) have "number < amount" by (cases js) auto
    with Cons.prems(1) s True obtain b2 where w: "wait_restart c b1 = Inr b2" and r: "run_jobs E runner c (Suc number) amount js b2 = Inr (status, b')"
      by (auto simp: bindE_Inr_iff)
    from Cons.IH [OF r] Cons.prems(2) True obtain rs where rs: "ran_through (map (job_command E runner c) js) rs status"
      and e: "board_events b' = board_events b2 @ session_trace (cp_delay c) rs" by auto
    from rs have "rs \<noteq> []" by (simp add: ran_through_def)
    then have "board_events b' = board_events b @ session_trace (cp_delay c) ((?j, 0) # rs)"
      using e board_wait [OF w] b1 True by (cases rs) auto
    with ran_through_Cons [OF rs, of ?j] show ?thesis by (metis list.simps(9))
  next
    case False
    then have "status = s \<and> board_events b' = board_events b @ session_trace (cp_delay c) [(?j, s)]"
      using Cons.prems s b1 by (cases js) (auto simp: bindE_Inr_iff split: if_splits)
    moreover from this False have "ran_through (map (job_command E runner c) (j # js)) [(?j, s)] status" by (auto simp: ran_through_def)
    ultimately show ?thesis by blast
  qed
qed simp

lemma jobs_exist: "plan_ok c \<Longrightarrow> jobs_of c \<noteq> []"
  by (cases "cp_models c"; cases "cp_phases c") (auto simp: plan_ok_def jobs_of_def)

text \<open>C31: A campaign that returns was planned from the offered choices, and the benchmarks it ran are an initial
  part of the planned queue, in its order: every one before the last succeeded, the status of the last one is
  the status of the campaign, and the campaign succeeds only after the whole queue. Two runs are
  separated by one confirmed restart of the board and then one wait of the chosen length, and neither
  follows the last run.\<close>

theorem campaign_in_order:
  assumes "run_campaign E b = Inr (status, b')" and "trace b = []"
  shows "\<exists>c rs. plan_ok c \<and> ran_through (map (job_command E (runner_copy E) c) (jobs_of c)) rs status
           \<and> board_events b' = session_trace (cp_delay c) rs"
proof -
  from assms(1) obtain b2 fs c b3 line b4 where fs: "read_plan (b\<lparr>files := fs\<rparr>) = Inr (c, b3)"
    and a: "ask ''Ensure the board is freshly booted, then press Enter to start. ''
              (log_line (NL # ''Queued '' @ show_nat (length (jobs_of c)) @ '' fresh-boot benchmark sessions.'') b3) = Inr (line, b4)"
    and r: "run_jobs E (runner_copy E) c 1 (length (jobs_of c)) (jobs_of c) b4 = Inr (status, b2)" and b': "b' = unlink_runner E b2"
    by (auto simp: run_campaign_def campaign_main_def bindE_Inr_iff Let_def)
  note p = read_plan_ok [OF fs]
  have "board_events b = []" using assms(2) by (simp add: board_events_def)
  then have e: "board_events b4 = []" using p board_ask [OF a] by (simp add: restart_prompt_def)
  from run_jobs_trace [OF r] jobs_exist p e show ?thesis by (auto simp: b' unlink_runner_def)
qed

definition wit_bench_env :: bench_env where
  "wit_bench_env = \<lparr>be_root = [''repo''], be_pid = 7, be_powershell = None, be_sound = (\<lambda>_. 0), be_run = (\<lambda>_ fs. (0, fs))\<rparr>"

definition wit_bench :: bench where
  "wit_bench = \<lparr>typed = [''2'', ''1'', ''x'', ''1'', ''2'', [], [], []], trace = [],
     files = [([''repo'', ''scripts'', ''run_board_benchmark.sh''], ''#!'')]\<rparr>"

lemma campaign_in_order_witness:
  "\<exists>b' c rs. run_campaign wit_bench_env wit_bench = Inr (0, b') \<and> plan_ok c \<and>
     ran_through (map (job_command wit_bench_env (runner_copy wit_bench_env) c) (jobs_of c)) rs 0 \<and> board_events b' = session_trace (cp_delay c) rs"
proof -
  have "case run_campaign wit_bench_env wit_bench of Inr (s, b') \<Rightarrow> s = 0 | Inl _ \<Rightarrow> False" by code_simp
  then obtain b' where r: "run_campaign wit_bench_env wit_bench = Inr (0, b')" by (auto split: sum.splits)
  from campaign_in_order [OF r] show ?thesis using r by (auto simp: wit_bench_def)
qed

text \<open>A superscript digit passes \<open>isdigit\<close> but not \<open>int\<close>: the question raises instead of asking again.\<close>

lemma superscript_answer: "choose_loop options \<lparr>typed = [[char_of (178 :: nat)]], trace = [], files = fs\<rparr> = Inl (ValueError ''invalid literal for int()'')"
proof -
  have "is_digit (strip [char_of (178 :: nat)]) \<and> py_int (strip [char_of (178 :: nat)]) = None" by code_simp
  then show ?thesis by (subst choose_loop.simps) (simp add: ask_def log_event_def Let_def)
qed

end
