(* ===== verification/Env.thy ===== *)
theory Env
  imports Files
begin

text \<open>
  What the tools take from outside the repository, as one record of functions: the SHA-256 of a
  content (lower-case digest), the text of a float, the installed Pillow and its JPEG encoder, the
  compressed tar archive of a list of members, and the current time. The documents the tools write
  with \<open>write_json\<close> (common.py) are files here: \<open>json_text\<close> is \<open>json.dump\<close> with an indentation of two
  and sorted keys.
\<close>

record env =
  env_sha :: "string \<Rightarrow> string"
  env_float :: "rat \<Rightarrow> string"
  env_pillow :: "string option"
  env_jpeg :: "string \<Rightarrow> string"
  env_targz :: "(string \<times> string) list \<Rightarrow> string"
  env_now :: string

definition indentation :: "nat \<Rightarrow> string" where
  "indentation n = NL # replicate (2 * n) (CHR '' '')"

fun json_text :: "(rat \<Rightarrow> string) \<Rightarrow> nat \<Rightarrow> json \<Rightarrow> string" where
  "json_text fr n JNull = ''null''"
| "json_text fr n (JBool b) = (if b then ''true'' else ''false'')"
| "json_text fr n (JInt i) = show_int i"
| "json_text fr n (JFloat r) = fr r"
| "json_text fr n (JStr s) = dump_string s"
| "json_text fr n (JList xs) = (if xs = [] then ''[]''
     else ''['' @ indentation (Suc n) @ join ('','' @ indentation (Suc n)) (map (json_text fr (Suc n)) xs) @ indentation n @ '']'')"
| "json_text fr n (JDict kvs) = (if kvs = [] then ''{}''
     else ''{'' @ indentation (Suc n)
       @ join ('','' @ indentation (Suc n)) (map snd (sort_key fst (map (\<lambda>(k, v). (k, dump_string k @ '': '' @ json_text fr (Suc n) v)) kvs)))
       @ indentation n @ ''}'')"

definition write_json :: "env \<Rightarrow> path \<Rightarrow> json \<Rightarrow> fs \<Rightarrow> fs" where
  "write_json env p v fs = write_file p (json_text (env_float env) 0 v @ [NL]) fs"

definition sha_file :: "env \<Rightarrow> fs \<Rightarrow> path \<Rightarrow> string res" where
  "sha_file env fs p = sha256_file (env_sha env) fs p"

lemma sha_file_iff: "sha_file env fs p = Inr h \<longleftrightarrow> (\<exists>c. read_text fs p = Inr c \<and> h = upper (env_sha env c))"
  by (auto simp: sha_file_def sha256_file_def bindE_Inr_iff)

text \<open>\<open>**a\<close> followed by the members of \<open>b\<close> in a dictionary display.\<close>

definition jmerge :: "json \<Rightarrow> (string \<times> json) list \<Rightarrow> json res" where
  "jmerge a b = bindE (jitems a) (\<lambda>kvs. Inr (JDict (fold (\<lambda>(k, v). dict_set k v) b kvs)))"

text \<open>\<open>path / value\<close> for a value of a document.\<close>

definition path_at :: "path \<Rightarrow> json \<Rightarrow> path res" where
  "path_at p v = bindE (jstr v) (\<lambda>s. Inr (path_div p s))"

text \<open>The files below a directory, in order, by their path relative to it.\<close>

definition tree_files :: "fs \<Rightarrow> path \<Rightarrow> (path \<times> string) list" where
  "tree_files fs d = map (\<lambda>p. (drop (length d) p, case dict_get fs p of None \<Rightarrow> [] | Some c \<Rightarrow> c)) (files_under fs d)"

text \<open>An environment for the concrete inputs of the witnesses.\<close>

definition wit_env :: env where
  "wit_env = \<lparr>env_sha = id, env_float = (\<lambda>_. ''0.0''), env_pillow = None, env_jpeg = id,
     env_targz = (\<lambda>ms. concat (map snd ms)), env_now = []\<rparr>"

end
