(* ===== verification/BoardPayload.thy ===== *)
theory BoardPayload
  imports Env
begin

text \<open>
  The payload of workloads put on the SD card (tools/nvdla_test_framework/board_payload.py): copying
  with verified hashes, the gate on workload complexity, the input sets and streams, the CPU
  workloads, and the assembly of the payload with its checksums and archive. Reading the source
  directories of an input set happens before anything is copied from it.
\<close>

definition EXPECTED_LENET_OUTPUT :: string where
  "EXPECTED_LENET_OUTPUT = ''0 2 0 0 0 0 0 124 0 0''"

record operation =
  op_processor :: string
  op_index :: int

definition EXPECTED_LENET_OPERATIONS :: "operation list" where
  "EXPECTED_LENET_OPERATIONS = map (\<lambda>(p, i). \<lparr>op_processor = p, op_index = i\<rparr>)
     [(''Convolution'', 0), (''SDP'', 1), (''PDP'', 2), (''Convolution'', 3), (''SDP'', 4), (''PDP'', 5),
      (''Convolution'', 6), (''SDP'', 7), (''Convolution'', 8), (''SDP'', 9)]"

definition operation_json :: "operation \<Rightarrow> json" where
  "operation_json o' = JDict [(''processor'', JStr (op_processor o')), (''index'', JInt (op_index o'))]"

definition EXPECTED_ENGINES :: "string list" where
  "EXPECTED_ENGINES = [''Convolution'', ''SDP'', ''PDP'', ''CDP'', ''Rubik'', ''BDMA'']"

subsection \<open>Verified copies\<close>

definition verify :: "env \<Rightarrow> fs \<Rightarrow> path \<Rightarrow> json \<Rightarrow> unit res" where
  "verify env fs p expected =
     (if \<not> is_file fs p then Inl (FileNotFoundError (path_str p))
      else bindE (sha_file env fs p) (\<lambda>actual.
        case expected of
          JStr e \<Rightarrow> guardE (upper actual = upper e) (ValueError ''sha256 mismatch'')
        | _ \<Rightarrow> Inl AttributeError))"

definition file_record :: "env \<Rightarrow> fs \<Rightarrow> path \<Rightarrow> json res" where
  "file_record env fs p = bindE (sha_file env fs p) (\<lambda>h. bindE (file_size fs p) (\<lambda>n.
     Inr (JDict [(''path'', JStr (path_str p)), (''sha256'', JStr h), (''size_bytes'', JInt (int n))])))"

definition copy_verified :: "env \<Rightarrow> path \<Rightarrow> path \<Rightarrow> json \<Rightarrow> fs \<Rightarrow> (json \<times> fs) res" where
  "copy_verified env source destination expected fs =
     bindE (verify env fs source expected) (\<lambda>_.
     bindE (copy_file source destination fs) (\<lambda>fs'.
     bindE (file_record env fs' destination) (\<lambda>r. Inr (r, fs'))))"

subsection \<open>The complexity gate\<close>

fun sum_nums :: "json list \<Rightarrow> rat \<Rightarrow> rat res" where
  "sum_nums [] a = Inr a"
| "sum_nums (v # vs) a = bindE (jnum v) (\<lambda>n. sum_nums vs (a + n))"

definition validated_complexity :: "json \<Rightarrow> json \<Rightarrow> json \<Rightarrow> json res" where
  "validated_complexity manifest expected_shape expected_output_elements =
     bindE (jget manifest ''complexity'') (\<lambda>complexity.
     bindE (guardE (is_jdict complexity) (ValueError ''no workload complexity metadata'')) (\<lambda>_.
     bindE (jget complexity ''operation_counts'') (\<lambda>counts.
     bindE (guardE (is_jdict counts) (ValueError ''incomplete operation-count metadata'')) (\<lambda>_.
     bindE (jitems counts) (\<lambda>items.
     bindE (guardE (set (map fst items) = set EXPECTED_ENGINES) (ValueError ''incomplete operation-count metadata'')) (\<lambda>_.
     bindE (jget complexity ''hwl_count'') (\<lambda>hwl.
     bindE (guardE (is_jint hwl) (ValueError ''invalid HWL count'')) (\<lambda>_.
     bindE (jnum hwl) (\<lambda>n.
     bindE (guardE (0 < n) (ValueError ''invalid HWL count'')) (\<lambda>_.
     bindE (sum_nums (map snd items) 0) (\<lambda>total.
     bindE (guardE (total = n) (ValueError ''operation counts do not equal its HWL count'')) (\<lambda>_.
     bindE (jget complexity ''input_shape_nchw'') (\<lambda>shape.
     bindE (guardE (jeq shape expected_shape) (ValueError ''unexpected input dimensions'')) (\<lambda>_.
     bindE (jget complexity ''output_elements'') (\<lambda>elements.
     bindE (guardE (jeq elements expected_output_elements) (ValueError ''unexpected output size'')) (\<lambda>_.
     bindE (jget complexity ''loadable_size_bytes'') (\<lambda>size_c.
     bindE (bindE (jat manifest ''loadable'') (\<lambda>l. jget l ''size_bytes'')) (\<lambda>size_l.
     bindE (guardE (jeq size_c size_l) (ValueError ''inconsistent loadable size'')) (\<lambda>_.
     Inr complexity)))))))))))))))))))"

subsection \<open>Trees\<close>

text \<open>The members of the deterministic archive: name below the parent of the tree, and content;
  owners, times and modes are fixed.\<close>

definition archive_members :: "fs \<Rightarrow> path \<Rightarrow> (string \<times> string) list" where
  "archive_members fs source = map (\<lambda>(q, c). (path_str (path_name source # q), c)) (tree_files fs source)"

definition write_deterministic_tree :: "env \<Rightarrow> path \<Rightarrow> path \<Rightarrow> fs \<Rightarrow> fs" where
  "write_deterministic_tree env source archive_path fs =
     write_file archive_path (env_targz env (archive_members fs source)) fs"

definition relative_file_records :: "env \<Rightarrow> fs \<Rightarrow> path \<Rightarrow> json list" where
  "relative_file_records env fs d = map (\<lambda>(q, c). JDict [(''path'', JStr (path_str q)),
     (''sha256'', JStr (upper (env_sha env c))), (''size_bytes'', JInt (int (length c)))]) (tree_files fs d)"

subsection \<open>Input sets and streams\<close>

definition copy_item :: "env \<Rightarrow> path \<Rightarrow> path \<Rightarrow> json \<Rightarrow> fs \<Rightarrow> fs res" where
  "copy_item env source destination d fs =
     bindE (jat d ''path'') (\<lambda>p. bindE (path_at source p) (\<lambda>src. bindE (path_at destination p) (\<lambda>dst.
     bindE (jat d ''sha256'') (\<lambda>h. bindE (copy_verified env src dst h fs) (\<lambda>(r, fs'). Inr fs')))))"

definition copy_image_input_set :: "env \<Rightarrow> path \<Rightarrow> path \<Rightarrow> fs \<Rightarrow> (json \<times> fs) res" where
  "copy_image_input_set env source destination fs =
     bindE (read_json fs (source @ [''manifest.json''])) (\<lambda>manifest.
     bindE (jget manifest ''images'') (\<lambda>images.
     bindE (jget manifest ''expected_indices'') (\<lambda>expected.
     bindE (jget manifest ''count'') (\<lambda>count.
     bindE (guardE (jeq count (JInt 20) \<and> is_jlist images) (ValueError ''input set is incomplete'')) (\<lambda>_.
     bindE (jlist images) (\<lambda>imgs.
     bindE (guardE (length imgs = 20) (ValueError ''input set is incomplete'')) (\<lambda>_.
     bindE (guardE (is_jdict expected) (ValueError ''input set has no expected indices'')) (\<lambda>_.
     bindE (jat manifest ''image_list_sha256'') (\<lambda>list_sha.
     bindE (copy_verified env (source @ [''images.txt'']) (destination @ [''images.txt'']) list_sha fs) (\<lambda>(_, fs1).
     bindE (copy_item env source destination expected fs1) (\<lambda>fs2.
     bindE (foldE (copy_item env source destination) imgs fs2) (\<lambda>fs3.
     bindE (copy_file (source @ [''manifest.json'']) (destination @ [''manifest.json'']) fs3) (\<lambda>fs4.
     bindE (sha_file env fs4 (destination @ [''manifest.json''])) (\<lambda>mh.
     bindE (sha_file env fs4 (destination @ [''images.txt''])) (\<lambda>lh.
     bindE (bindE (jat expected ''path'') (path_at destination)) (\<lambda>ep.
     bindE (sha_file env fs4 ep) (\<lambda>eh.
     Inr (JDict [(''path'', JStr (path_name destination)), (''count'', JInt 20), (''manifest_sha256'', JStr mh),
            (''image_list_sha256'', JStr lh), (''expected_indices_sha256'', JStr eh)], fs4))))))))))))))))))"

text \<open>The loop over the images of a stream: the bytes written so far and the frames.\<close>

definition mjpeg_frame :: "env \<Rightarrow> fs \<Rightarrow> path \<Rightarrow> string \<Rightarrow> json \<Rightarrow> string \<times> json list \<Rightarrow> (string \<times> json list) res" where
  "mjpeg_frame env fs source model img = (\<lambda>(stream, frames).
     bindE (bindE (jat img ''path'') (path_at source)) (\<lambda>p.
     bindE (read_text fs p) (\<lambda>c.
     let encoded = (if model = ''resnet50'' then c else env_jpeg env c) in
     bindE (jat img ''sequence'') (\<lambda>s. bindE (jat img ''sha256'') (\<lambda>h.
     Inr (stream @ encoded, frames @ [JDict [(''index'', s), (''source_sha256'', h),
            (''encoded_size_bytes'', JInt (int (length encoded)))]]))))))"

definition build_mjpeg_stream :: "env \<Rightarrow> path \<Rightarrow> path \<Rightarrow> string \<Rightarrow> json \<Rightarrow> fs \<Rightarrow> (json \<times> fs) res" where
  "build_mjpeg_stream env source destination model pillow_expected fs =
     bindE (noneE (RuntimeError ''Pillow is required to build the video test stream'') (env_pillow env)) (\<lambda>pillow.
     bindE (guardE (jeq (JStr pillow) pillow_expected) (RuntimeError ''Pillow version'')) (\<lambda>_.
     bindE (read_json fs (source @ [''manifest.json''])) (\<lambda>manifest.
     bindE (bindE (jat manifest ''images'') jlist) (\<lambda>images.
     bindE (foldE (mjpeg_frame env fs source model) images ([], [])) (\<lambda>(stream, frames).
     let stream_path = destination @ [''stream.mjpeg'']; fs1 = write_file stream_path stream fs in
     bindE (jat manifest ''expected_indices'') (\<lambda>expected.
     bindE (copy_item env source destination expected fs1) (\<lambda>fs2.
     bindE (sha_file env fs2 stream_path) (\<lambda>sh. bindE (file_size fs2 stream_path) (\<lambda>sn.
     let (width, height, decoded) = (if model = ''lenet'' then (28, 28, ''GRAY8'') else (224, 224, ''BGR''));
         doc = JDict [(''schema_version'', JInt 1), (''name'', JStr ''stream20''), (''model'', JStr model),
           (''kind'', JStr ''looped-mjpeg-stream''), (''frame_period'', JInt 20), (''encoded_format'', JStr ''MJPEG''),
           (''decoded_format'', JStr decoded), (''width'', JInt width), (''height'', JInt height),
           (''pillow_version'', if model = ''lenet'' then JStr pillow else JNull),
           (''stream'', JDict [(''path'', JStr ''stream.mjpeg''), (''sha256'', JStr sh), (''size_bytes'', JInt (int sn))]),
           (''expected_indices'', expected), (''frames'', JList frames)];
         fs3 = write_json env (destination @ [''manifest.json'']) doc fs2 in
     bindE (sha_file env fs3 (destination @ [''manifest.json''])) (\<lambda>mh.
     bindE (sha_file env fs3 stream_path) (\<lambda>sh'.
     bindE (bindE (jat expected ''path'') (path_at destination)) (\<lambda>ep.
     bindE (sha_file env fs3 ep) (\<lambda>eh.
     Inr (JDict [(''path'', JStr (path_name destination)), (''frame_period'', JInt 20), (''manifest_sha256'', JStr mh),
            (''stream_sha256'', JStr sh'), (''expected_indices_sha256'', JStr eh)], fs3))))))))))))))"

subsection \<open>CPU workloads\<close>

definition copy_tensor :: "env \<Rightarrow> path \<Rightarrow> path \<Rightarrow> json \<Rightarrow> string \<Rightarrow> fs \<Rightarrow> fs res" where
  "copy_tensor env source_dir destination_dir test_data tensor fs =
     bindE (jget test_data tensor) (\<lambda>r.
     bindE (guardE (is_jdict r) (ValueError ''missing tensor metadata'')) (\<lambda>_.
     bindE (bindE (jat test_data ''path'') (path_at source_dir)) (\<lambda>d.
     bindE (jat r ''path'') (\<lambda>p. bindE (path_at d p) (\<lambda>src. bindE (path_at (destination_dir @ [''test_data_set_0'']) p) (\<lambda>dst.
     bindE (jat r ''sha256'') (\<lambda>h. bindE (copy_verified env src dst h fs) (\<lambda>(_, fs'). Inr fs'))))))))"

definition copy_precision :: "env \<Rightarrow> path \<Rightarrow> path \<Rightarrow> string \<Rightarrow> string \<Rightarrow> json \<Rightarrow> string \<Rightarrow> fs \<Rightarrow> fs res" where
  "copy_precision env source destination model_format name variants precision fs =
     bindE (jget variants precision) (\<lambda>variant.
     bindE (guardE (is_jdict variant) (ValueError ''CPU ONNX workload is missing a variant'')) (\<lambda>_.
     bindE (jget variant ''test_data'') (\<lambda>test_data.
     bindE (guardE (is_jdict test_data) (ValueError ''CPU ONNX workload has unpinned test data'')) (\<lambda>_.
     let source_dir = path_div source name @ [precision]; destination_dir = path_div destination name @ [precision] in
     bindE (if model_format = ''onnx'' then Inr variant else jget variant ''ort'') (\<lambda>model_record.
     bindE (guardE (is_jdict model_record) (ValueError ''CPU workload is missing model metadata'')) (\<lambda>_.
     bindE (bindE (jat model_record ''path'') (path_at source_dir)) (\<lambda>src.
     bindE (jat model_record ''sha256'') (\<lambda>h.
     bindE (copy_verified env src (destination_dir @ [''model.'' @ model_format]) h fs) (\<lambda>(_, fs1).
     foldE (copy_tensor env source_dir destination_dir test_data) [''input'', ''output''] fs1)))))))))"

definition copy_model :: "env \<Rightarrow> path \<Rightarrow> path \<Rightarrow> string \<Rightarrow> json \<Rightarrow> fs \<Rightarrow> fs res" where
  "copy_model env source destination model_format model fs =
     bindE (jget model ''name'') (\<lambda>name.
     bindE (jget model ''models'') (\<lambda>variants.
     bindE (guardE (is_jstr name \<and> is_jdict variants) (ValueError ''invalid model entry'')) (\<lambda>_.
     bindE (jstr name) (\<lambda>n.
     foldE (copy_precision env source destination model_format n variants)
       (if model_format = ''onnx'' then [''fp32'', ''int8''] else [''fp32'']) fs))))"

definition copy_cpu_workloads :: "env \<Rightarrow> path \<Rightarrow> path \<Rightarrow> string \<Rightarrow> fs \<Rightarrow> (json \<times> fs) res" where
  "copy_cpu_workloads env source destination model_format fs =
     bindE (guardE (model_format = ''onnx'' \<or> model_format = ''ort'') (ValueError ''unsupported CPU model format'')) (\<lambda>_.
     bindE (read_json fs (source @ [''manifest.json''])) (\<lambda>manifest.
     bindE (jget manifest ''status'') (\<lambda>status.
     bindE (guardE (jeq status (JStr ''pass'')) (ValueError ''CPU workload manifest is not passing'')) (\<lambda>_.
     bindE (jget manifest ''models'') (\<lambda>models.
     bindE (guardE (is_jlist models \<and> truthy models) (ValueError ''CPU ONNX workload manifest has no models'')) (\<lambda>_.
     bindE (jlist models) (\<lambda>ms.
     bindE (foldE (copy_model env source destination model_format) ms fs) (\<lambda>fs1.
     bindE (copy_file (source @ [''manifest.json'']) (destination @ [''manifest.json'']) fs1) (\<lambda>fs2.
     bindE (sha_file env fs2 (destination @ [''manifest.json''])) (\<lambda>mh.
     bindE (mapE (\<lambda>m. jat m ''name'') ms) (\<lambda>names.
     Inr (JDict [(''path'', JStr (path_name destination)), (''manifest_sha256'', JStr mh), (''models'', JList names),
            (''precisions'', JList (map JStr (if model_format = ''onnx'' then [''fp32'', ''int8''] else [''fp32'']))),
            (''format'', JStr model_format)], fs2))))))))))))"

subsection \<open>The payload\<close>

definition require_nv_small :: "json \<Rightarrow> string \<Rightarrow> unit res" where
  "require_nv_small manifest what =
     bindE (jchain manifest [''target'', ''config'']) (\<lambda>c. guardE (jeq c (JStr ''nv_small'')) (ValueError (what @ '' workload is not tagged nv_small'')))"

definition vector_text :: "json \<Rightarrow> string option" where
  "vector_text v = (case v of JStr s \<Rightarrow> Some (join '' '' (split_ws s)) | _ \<Rightarrow> None)"

definition COMPILER_KEYS :: "string list" where
  "COMPILER_KEYS = [''docker_image'', ''docker_image_id'', ''path'', ''profile'', ''cprecision'', ''configtarget'',
     ''quantizationMode'', ''informat'']"

definition compiler_record :: "json \<Rightarrow> json res" where
  "compiler_record manifest = bindE (jget_or manifest (JDict []) ''compiler'') (\<lambda>c.
     bindE (mapE (\<lambda>k. bindE (jget c k) (\<lambda>v. Inr (k, v))) COMPILER_KEYS) (\<lambda>kvs. Inr (JDict kvs)))"

text \<open>Copying the file a manifest entry names; the record of the copy under its payload name.\<close>

definition copy_entry :: "env \<Rightarrow> path \<Rightarrow> path \<Rightarrow> json \<Rightarrow> string \<Rightarrow> fs \<Rightarrow> (json \<times> fs) res" where
  "copy_entry env source dest entry name fs =
     bindE (bindE (jat entry ''path'') (path_at source)) (\<lambda>src.
     bindE (jat entry ''sha256'') (\<lambda>h.
     bindE (copy_verified env src (dest @ [name]) h fs) (\<lambda>(r, fs').
     bindE (jmerge r [(''path'', JStr name)]) (\<lambda>r'. Inr (r', fs')))))"

definition payload_sdp :: "env \<Rightarrow> path \<Rightarrow> path \<Rightarrow> json \<Rightarrow> fs \<Rightarrow> fs res" where
  "payload_sdp env source dest m fs =
     bindE (jat m ''loadable'') (\<lambda>loadable.
     bindE (bindE (bindE (jat m ''golden_outputs'') jlist) (\<lambda>gs. case gs of [] \<Rightarrow> Inl IndexError | g # _ \<Rightarrow> Inr g)) (\<lambda>golden.
     bindE (copy_entry env source dest loadable ''loadable.fbuf'' fs) (\<lambda>(l, fs1).
     bindE (copy_entry env source dest golden ''golden.dimg'' fs1) (\<lambda>(g, fs2).
     bindE (jat m ''kind'') (\<lambda>kind. bindE (jat m ''target'') (\<lambda>target. bindE (jat m ''upstream_base_sha'') (\<lambda>base.
     bindE (jchain m [''source'', ''loadable'']) (\<lambda>sl. bindE (jchain m [''source'', ''golden'']) (\<lambda>sg.
     Inr (write_json env (dest @ [''manifest.json'']) (JDict [(''schema_version'', JInt 1),
       (''name'', JStr ''sdp_regression_small''), (''kind'', kind), (''target'', target), (''upstream_base_sha'', base),
       (''source'', JDict [(''nvdla_sw_base_sha'', base), (''loadable'', sl), (''golden'', sg)]),
       (''loadable'', l), (''golden'', g), (''tolerance'', JDict [(''type'', JStr ''exact'')]),
       (''known_inconclusive_output'', JStr ''all-zero dimg payload'')]) fs2))))))))))"

definition payload_lenet :: "env \<Rightarrow> path \<Rightarrow> path \<Rightarrow> path \<Rightarrow> json \<Rightarrow> json \<Rightarrow> string \<Rightarrow> json \<Rightarrow> fs \<Rightarrow> fs res" where
  "payload_lenet env source sets dest m complexity expected_output pillow fs =
     bindE (jat m ''loadable'') (\<lambda>loadable. bindE (jat m ''image'') (\<lambda>img.
     bindE (copy_entry env source dest loadable ''loadable.nvdla'' fs) (\<lambda>(l, fs1).
     bindE (copy_entry env source dest img ''input.pgm'' fs1) (\<lambda>(i, fs2).
     let fs3 = write_file (dest @ [''expected-output.txt'']) (expected_output @ [NL]) fs2 in
     bindE (jat m ''kind'') (\<lambda>kind. bindE (jat m ''target'') (\<lambda>target.
     bindE (bindE (jget_or m (JDict []) ''source'') (\<lambda>s. jget_or s (JList []) ''files'')) (\<lambda>files.
     bindE (compiler_record m) (\<lambda>compiler.
     bindE (copy_image_input_set env (sets @ [''lenet'', ''multi20'']) (dest @ [''multi20'']) fs3) (\<lambda>(multi, fs4).
     bindE (build_mjpeg_stream env (dest @ [''multi20'']) (dest @ [''stream20'']) ''lenet'' pillow fs4) (\<lambda>(stream, fs5).
     Inr (write_json env (dest @ [''manifest.json'']) (JDict [(''schema_version'', JInt 1), (''name'', JStr ''lenet_small''),
       (''kind'', kind), (''target'', target), (''source'', JDict [(''files'', files)]), (''compiler'', compiler),
       (''loadable'', l), (''image'', i), (''expected_output'', JStr expected_output),
       (''expected_operations'', JList (map operation_json EXPECTED_LENET_OPERATIONS)), (''complexity'', complexity),
       (''tolerance'', JDict [(''type'', JStr ''exact'')]),
       (''input_sets'', JDict [(''multi20'', multi), (''stream20'', stream)])]) fs5)))))))))))"

definition payload_resnet :: "env \<Rightarrow> path \<Rightarrow> path \<Rightarrow> path \<Rightarrow> json \<Rightarrow> json \<Rightarrow> json \<Rightarrow> fs \<Rightarrow> fs res" where
  "payload_resnet env source sets dest m complexity pillow fs =
     bindE (jat m ''loadable'') (\<lambda>loadable. bindE (jat m ''image'') (\<lambda>img.
     bindE (copy_entry env source dest loadable ''loadable.nvdla'' fs) (\<lambda>(l, fs1).
     bindE (copy_entry env source dest img ''input.jpg'' fs1) (\<lambda>(i, fs2).
     bindE (bindE (jget_or m (JDict []) ''oracle'') (\<lambda>d. jget_or d (JDict []) ''nvdla_exact'')) (\<lambda>oracle.
     bindE (jget oracle ''status'') (\<lambda>st.
     bindE (guardE (jeq st (JStr ''verified'')) (ValueError ''ResNet-50 nv_small VP golden has not been promoted'')) (\<lambda>_.
     bindE (jget_or oracle (JDict []) ''output'') (\<lambda>golden.
     bindE (copy_entry env source dest golden ''golden-output.dimg'' fs2) (\<lambda>(g, fs3).
     bindE (jat m ''kind'') (\<lambda>kind. bindE (jat m ''target'') (\<lambda>target. bindE (jat m ''model_revision'') (\<lambda>revision.
     bindE (bindE (jget_or m (JDict []) ''source'') (\<lambda>s. jget_or s (JList []) ''files'')) (\<lambda>files.
     bindE (jchain m [''source'', ''calibration'']) (\<lambda>calibration.
     bindE (compiler_record m) (\<lambda>compiler.
     bindE (bindE (jget img ''preprocess'') (\<lambda>p. jmerge i [(''preprocess'', p)])) (\<lambda>i'.
     bindE (jat m ''output_elements'') (\<lambda>elements.
     bindE (jmerge g [(''elements'', elements)]) (\<lambda>g'.
     bindE (jmerge oracle [(''output'', g')]) (\<lambda>exact.
     bindE (bindE (jat m ''oracle'') (\<lambda>d. jmerge d [(''nvdla_exact'', exact)])) (\<lambda>oracles.
     bindE (copy_image_input_set env (sets @ [''resnet50'', ''multi20'']) (dest @ [''multi20'']) fs3) (\<lambda>(multi, fs4).
     bindE (build_mjpeg_stream env (dest @ [''multi20'']) (dest @ [''stream20'']) ''resnet50'' pillow fs4) (\<lambda>(stream, fs5).
     Inr (write_json env (dest @ [''manifest.json'']) (JDict [(''schema_version'', JInt 1), (''name'', JStr ''resnet50_small''),
       (''kind'', kind), (''target'', target), (''model_revision'', revision),
       (''source'', JDict [(''files'', files), (''calibration'', calibration)]), (''compiler'', compiler),
       (''loadable'', l), (''image'', i'), (''output_elements'', elements), (''complexity'', complexity), (''oracle'', oracles),
       (''pass_policy'', JDict [(''execution'', JStr ''runtime exit zero, positive IRQ delta, all reported HWLs complete, and exactly 1000 integer output elements''),
          (''tensor_correctness'', JStr ''exact DIMG match to source-built nv_small VP golden'')]),
       (''input_sets'', JDict [(''multi20'', multi), (''stream20'', stream)])]) fs5)))))))))))))))))))))))"

definition sums_text :: "json list \<Rightarrow> string res" where
  "sums_text records = bindE (mapE (\<lambda>r. bindE (bindE (jat r ''sha256'') jstr) (\<lambda>h. bindE (bindE (jat r ''path'') jstr) (\<lambda>p.
     Inr (lower h @ ''  '' @ p @ [NL])))) records) (\<lambda>ls. Inr (concat ls))"

definition shape_json :: "int list \<Rightarrow> json" where
  "shape_json xs = JList (map JInt xs)"

text \<open>The checks before anything is written: the documents, the tags, the expected output and the
  complexity of both networks.\<close>

record payload_inputs =
  pi_sdp :: json
  pi_lenet :: json
  pi_resnet :: json
  pi_lock :: json
  pi_pillow :: json
  pi_lenet_complexity :: json
  pi_resnet_complexity :: json

definition payload_checks :: "path \<Rightarrow> path \<Rightarrow> path \<Rightarrow> fs \<Rightarrow> payload_inputs res" where
  "payload_checks workloads out_dir lock_path fs =
     bindE (guardE (\<not> path_exists fs out_dir) (ValueError ''payload output directory is not empty'')) (\<lambda>_.
     bindE (read_json fs (workloads @ [''sdp_regression_small'', ''generated-manifest.json''])) (\<lambda>sdp.
     bindE (read_json fs (workloads @ [''lenet_small'', ''generated-manifest.json''])) (\<lambda>lenet.
     bindE (read_json fs (workloads @ [''resnet50_small'', ''generated-manifest.json''])) (\<lambda>resnet.
     bindE (read_json fs lock_path) (\<lambda>lock.
     bindE (jpath lock [''hardware'', ''xsa'', ''expected'']) (\<lambda>_.
     bindE (jpath lock [''workloads'', ''resnet50_imagenet'', ''preprocess'', ''pillow_version'']) (\<lambda>pillow.
     bindE (require_nv_small sdp ''SDP'') (\<lambda>_.
     bindE (require_nv_small lenet ''LeNet'') (\<lambda>_.
     bindE (require_nv_small resnet ''ResNet-50'') (\<lambda>_.
     bindE (jget_or lenet (JStr []) ''expected_output'') (\<lambda>vec.
     bindE (guardE (vector_text vec = Some EXPECTED_LENET_OUTPUT) (ValueError ''unexpected LeNet output vector'')) (\<lambda>_.
     bindE (validated_complexity lenet (shape_json [1, 1, 28, 28]) (JInt 10)) (\<lambda>lc.
     bindE (validated_complexity resnet (shape_json [1, 3, 224, 224]) (JInt 1000)) (\<lambda>rc.
     Inr \<lparr>pi_sdp = sdp, pi_lenet = lenet, pi_resnet = resnet, pi_lock = lock, pi_pillow = pillow,
          pi_lenet_complexity = lc, pi_resnet_complexity = rc\<rparr>))))))))))))))"

definition workload_entry :: "env \<Rightarrow> path \<Rightarrow> string \<Rightarrow> fs \<Rightarrow> json res" where
  "workload_entry env out_dir name fs = bindE (sha_file env fs (out_dir @ [name, ''manifest.json''])) (\<lambda>h.
     Inr (JDict [(''path'', JStr name), (''manifest_sha256'', JStr h)]))"

definition payload_document :: "env \<Rightarrow> path \<Rightarrow> json \<Rightarrow> json \<Rightarrow> json \<Rightarrow> fs \<Rightarrow> json res" where
  "payload_document env out_dir lock onnx ort fs =
     bindE (jpath lock [''hardware'', ''xsa'']) (\<lambda>xsa.
     bindE (jat xsa ''sha256'') (\<lambda>xh.
     bindE (jpath xsa [''expected'', ''clock_ports'']) (\<lambda>ports.
     bindE (jpath xsa [''expected'', ''clock_hz'']) (\<lambda>hz.
     bindE (jpath xsa [''expected'', ''linux_clock_tolerance_hz'']) (\<lambda>tolerance.
     bindE (workload_entry env out_dir ''sdp_regression_small'' fs) (\<lambda>sdp.
     bindE (workload_entry env out_dir ''lenet_small'' fs) (\<lambda>lenet.
     bindE (workload_entry env out_dir ''resnet50_small'' fs) (\<lambda>resnet.
     Inr (JDict [(''schema_version'', JInt 5), (''board'', JStr ''zcu102''), (''hardware_config'', JStr ''nv_small''),
       (''delivery'', JStr ''sd-fat-read-only''),
       (''hardware'', JDict [(''xsa_sha256'', xh),
          (''clock'', JDict [(''ports'', ports), (''expected_hz'', hz), (''linux_tolerance_hz'', tolerance)])]),
       (''workloads'', JDict [(''sdp'', sdp), (''lenet'', lenet), (''resnet50'', resnet), (''cpu_onnx'', onnx), (''cpu_ort'', ort)])])))))))))"

text \<open>The document of the payload and the file system with the payload, its checksums, its archive
  and its manifest.\<close>

definition build_board_payload :: "env \<Rightarrow> path \<Rightarrow> path \<Rightarrow> path \<Rightarrow> path \<Rightarrow> path \<Rightarrow> fs \<Rightarrow> (json \<times> fs) res" where
  "build_board_payload env workloads out_dir archive_path manifest_path lock_path fs =
     bindE (payload_checks workloads out_dir lock_path fs) (\<lambda>p.
     let sets = workloads @ [''input_sets''] in
     bindE (payload_sdp env (workloads @ [''sdp_regression_small'']) (out_dir @ [''sdp_regression_small'']) (pi_sdp p) fs) (\<lambda>fs1.
     bindE (payload_lenet env (workloads @ [''lenet_small'']) sets (out_dir @ [''lenet_small'']) (pi_lenet p)
       (pi_lenet_complexity p) EXPECTED_LENET_OUTPUT (pi_pillow p) fs1) (\<lambda>fs2.
     bindE (payload_resnet env (workloads @ [''resnet50_small'']) sets (out_dir @ [''resnet50_small'']) (pi_resnet p)
       (pi_resnet_complexity p) (pi_pillow p) fs2) (\<lambda>fs3.
     bindE (copy_cpu_workloads env (workloads @ [''cpu_onnx'']) (out_dir @ [''cpu_onnx'']) ''onnx'' fs3) (\<lambda>(onnx, fs4).
     bindE (copy_cpu_workloads env (workloads @ [''cpu_onnx'']) (out_dir @ [''cpu_ort'']) ''ort'' fs4) (\<lambda>(ort, fs5).
     bindE (payload_document env out_dir (pi_lock p) onnx ort fs5) (\<lambda>document.
     let fs6 = write_json env (out_dir @ [''PAYLOAD.json'']) document fs5 in
     bindE (sums_text (relative_file_records env fs6 out_dir)) (\<lambda>checksums.
     let fs7 = write_file (out_dir @ [''SHA256SUMS'']) checksums fs6;
         fs8 = write_deterministic_tree env out_dir archive_path fs7 in
     bindE (sha_file env fs8 lock_path) (\<lambda>lh.
     bindE (sha_file env fs8 archive_path) (\<lambda>ah.
     bindE (jmerge document [(''status'', JStr ''pass''),
       (''source'', JDict [(''workloads_dir'', JStr (path_str workloads)), (''repro_lock'', JStr (path_str lock_path)),
          (''repro_lock_sha256'', JStr lh),
          (''sdp_manifest'', JStr (path_str (workloads @ [''sdp_regression_small'', ''generated-manifest.json'']))),
          (''lenet_manifest'', JStr (path_str (workloads @ [''lenet_small'', ''generated-manifest.json'']))),
          (''resnet50_manifest'', JStr (path_str (workloads @ [''resnet50_small'', ''generated-manifest.json'']))),
          (''cpu_onnx_manifest'', JStr (path_str (workloads @ [''cpu_onnx'', ''manifest.json'']))),
          (''cpu_ort_manifest'', JStr (path_str (workloads @ [''cpu_onnx'', ''manifest.json''])))]),
       (''payload_dir'', JStr (path_str out_dir)), (''files'', JList (relative_file_records env fs8 out_dir)),
       (''archive'', JDict [(''path'', JStr (path_str archive_path)), (''sha256'', JStr ah)])]) (\<lambda>result.
     Inr (result, write_json env manifest_path result fs8))))))))))))"

definition run_board_payload :: "env \<Rightarrow> path \<Rightarrow> path \<Rightarrow> path \<Rightarrow> path \<Rightarrow> path \<Rightarrow> fs \<Rightarrow> int" where
  "run_board_payload env workloads out_dir archive_path manifest_path lock_path fs =
     (case build_board_payload env workloads out_dir archive_path manifest_path lock_path fs of Inl e \<Rightarrow> 1 | Inr r \<Rightarrow> 0)"

subsection \<open>Facts\<close>

lemma verify_iff:
  "verify env fs p expected = Inr u \<longleftrightarrow>
     (\<exists>c x. read_text fs p = Inr c \<and> expected = JStr x \<and> upper (upper (env_sha env c)) = upper x)"
proof (cases "read_text fs p")
  case (Inl e)
  then have "\<not> is_file fs p" by (simp add: is_file_read)
  with Inl show ?thesis by (simp add: verify_def)
next
  case (Inr c)
  then have "is_file fs p" by (simp add: is_file_read)
  with Inr show ?thesis
    by (cases expected) (auto simp: verify_def sha_file_def sha256_file_def guardE_def)
qed

lemma copy_verified_iff:
  "copy_verified env s d e fs = Inr (r, fs') \<longleftrightarrow>
     (\<exists>c x. read_text fs s = Inr c \<and> e = JStr x \<and> upper (upper (env_sha env c)) = upper x \<and>
        fs' = write_file d c fs \<and>
        r = JDict [(''path'', JStr (path_str d)), (''sha256'', JStr (upper (env_sha env c))), (''size_bytes'', JInt (int (length c)))])"
  by (auto simp: copy_verified_def bindE_Inr_iff verify_iff copy_file_iff file_record_def sha_file_iff file_size_def)

lemma upper_upper [simp]: "upper (upper s) = upper s"
proof -
  have "is_lower c \<Longrightarrow> \<not> is_lower (char_of (code c - 32) :: char)" for c
    by (simp add: is_lower_def code_def Let_def)
  then have "to_upper (to_upper c) = to_upper c" for c by (simp add: to_upper_def)
  then show ?thesis by (simp add: upper_def)
qed

text \<open>A verified copy succeeds exactly when the source exists with the expected hash, and then the
  destination has its content, every other file is unchanged, and the record names its hash and size.\<close>

theorem copy_verified_exact:
  assumes "copy_verified env source destination expected fs = Inr (r, fs')"
  shows "\<exists>c x. read_text fs source = Inr c \<and> expected = JStr x \<and> upper (env_sha env c) = upper x \<and>
    read_text fs' q = (if q = destination then Inr c else read_text fs q) \<and>
    jget r ''sha256'' = Inr (JStr (upper x)) \<and> jget r ''size_bytes'' = Inr (JInt (int (length c)))"
  using assms by (auto simp: copy_verified_iff jget_def)

lemma copy_verified_exact_witness:
  "\<exists>r fs'. copy_verified wit_env [''a''] [''b''] (JStr ''ab'') [([''a''], ''aB'')] = Inr (r, fs') \<and>
     read_text fs' [''b''] = Inr ''aB'' \<and> jget r ''sha256'' = Inr (JStr ''AB'')"
proof -
  have "is_ok (copy_verified wit_env [''a''] [''b''] (JStr ''ab'') [([''a''], ''aB'')])" by code_simp
  then obtain r fs' where c: "copy_verified wit_env [''a''] [''b''] (JStr ''ab'') [([''a''], ''aB'')] = Inr (r, fs')"
    by (auto simp: is_ok_iff)
  have "read_text [([''a''], ''aB'')] [''a''] = Inr ''aB''" "upper ''ab'' = ''AB''" by code_simp+
  with copy_verified_exact [OF c, of "[''b'']"] c show ?thesis by auto
qed



definition wit_complexity :: json where
  "wit_complexity = JDict [(''complexity'', JDict [(''operation_counts'', JDict [(''Convolution'', JInt 4), (''SDP'', JInt 4),
       (''PDP'', JInt 2), (''CDP'', JInt 0), (''Rubik'', JInt 0), (''BDMA'', JInt 0)]), (''hwl_count'', JInt 10),
     (''input_shape_nchw'', shape_json [1, 1, 28, 28]), (''output_elements'', JInt 10), (''loadable_size_bytes'', JInt 7)]),
     (''loadable'', JDict [(''size_bytes'', JInt 7)])]"


text \<open>No payload is built unless the golden output of ResNet-50 has been promoted: the manifest the
  payload reads marks the exact oracle as verified.\<close>

theorem payload_needs_golden:
  "case build_board_payload env workloads out_dir archive manifest lock fs of
     Inl _ \<Rightarrow> True
   | Inr _ \<Rightarrow> (\<exists>m oracle st. read_json fs (workloads @ [''resnet50_small'', ''generated-manifest.json'']) = Inr m \<and>
       bindE (jget_or m (JDict []) ''oracle'') (\<lambda>d. jget_or d (JDict []) ''nvdla_exact'') = Inr oracle \<and>
       jget oracle ''status'' = Inr st \<and> jeq st (JStr ''verified''))"
proof (cases "build_board_payload env workloads out_dir archive manifest lock fs")
  case (Inr r)
  obtain doc fs' where "r = (doc, fs')" by (cases r)
  with Inr have "build_board_payload env workloads out_dir archive manifest lock fs = Inr (doc, fs')" by simp
  from this [unfolded build_board_payload_def bindE_Inr_iff Let_def split_paired_Ex prod.case]
  obtain p fs2 fs3 where p: "payload_checks workloads out_dir lock fs = Inr p"
    and r: "payload_resnet env (workloads @ [''resnet50_small'']) (workloads @ [''input_sets'']) (out_dir @ [''resnet50_small''])
        (pi_resnet p) (pi_resnet_complexity p) (pi_pillow p) fs2 = Inr fs3"
    by (elim exE conjE) (rule that; assumption)
  from p [unfolded payload_checks_def bindE_Inr_iff guardE_Inr_iff sum.inject]
  have m: "read_json fs (workloads @ [''resnet50_small'', ''generated-manifest.json'']) = Inr (pi_resnet p)"
    by clarify (simp only: payload_inputs.select_convs)
  from r [unfolded payload_resnet_def bindE_Inr_iff guardE_Inr_iff split_paired_Ex prod.case]
  obtain orc st d where "jget_or (pi_resnet p) (JDict []) ''oracle'' = Inr d" "jget_or d (JDict []) ''nvdla_exact'' = Inr orc"
    "jget orc ''status'' = Inr st" "jeq st (JStr ''verified'')"
    by (elim exE conjE) (rule that; assumption)
  with m Inr show ?thesis by auto
qed simp

end
