(* ===== verification/Regex.thy ===== *)
theory Regex
  imports PyStr
begin

text \<open>
  A model of the regular expressions of Python's \<open>re\<close> that the tools compile, with the
  backtracking semantics of that module: \<open>rmatch r st\<close> lists the ways \<open>r\<close> matches at a
  position, in the order the engine tries them, so the first entry is the match it
  reports. A position is the character before it, the text after it and the groups
  captured so far. Repetition tries the longest run first (\<open>Star\<close>) or the shortest
  first (\<open>LStar\<close>) and every iteration consumes a character, so the length of the text
  bounds the iterations. The second half proves the maximal-munch facts by which the
  component theories compute matches on symbolic text.
\<close>

datatype rx =
    Eps
  | Sym "char \<Rightarrow> bool"
  | Cat rx rx
  | Alt rx rx
  | Star rx
  | LStar rx
  | Opt rx
  | Cap nat rx
  | Bol
  | MBol
  | Eol
  | MEol
  | WordB
  | NotBehind "char \<Rightarrow> bool"
  | NotAhead "char \<Rightarrow> bool"

type_synonym rst = "char option \<times> string \<times> (nat \<times> string) list"

fun greedy_iter :: "nat \<Rightarrow> (rst \<Rightarrow> rst list) \<Rightarrow> rst \<Rightarrow> rst list" where
  "greedy_iter 0 f st = [st]"
| "greedy_iter (Suc n) f st =
     concat (map (\<lambda>st'. if length (fst (snd st')) < length (fst (snd st)) then greedy_iter n f st' else []) (f st)) @ [st]"

fun lazy_iter :: "nat \<Rightarrow> (rst \<Rightarrow> rst list) \<Rightarrow> rst \<Rightarrow> rst list" where
  "lazy_iter 0 f st = [st]"
| "lazy_iter (Suc n) f st =
     st # concat (map (\<lambda>st'. if length (fst (snd st')) < length (fst (snd st)) then lazy_iter n f st' else []) (f st))"

definition opt_word :: "char option \<Rightarrow> bool" where
  "opt_word c = (case c of None \<Rightarrow> False | Some d \<Rightarrow> is_word d)"

definition opt_in :: "(char \<Rightarrow> bool) \<Rightarrow> char option \<Rightarrow> bool" where
  "opt_in p c = (case c of None \<Rightarrow> False | Some d \<Rightarrow> p d)"

definition head_opt :: "string \<Rightarrow> char option" where
  "head_opt s = (case s of [] \<Rightarrow> None | c # _ \<Rightarrow> Some c)"

primrec rmatch :: "rx \<Rightarrow> rst \<Rightarrow> rst list" where
  "rmatch Eps = (\<lambda>st. [st])"
| "rmatch (Sym p) = (\<lambda>(pr, s, k). case s of [] \<Rightarrow> [] | c # t \<Rightarrow> if p c then [(Some c, t, k)] else [])"
| "rmatch (Cat r1 r2) = (\<lambda>st. concat (map (rmatch r2) (rmatch r1 st)))"
| "rmatch (Alt r1 r2) = (\<lambda>st. rmatch r1 st @ rmatch r2 st)"
| "rmatch (Star r) = (\<lambda>st. greedy_iter (length (fst (snd st))) (rmatch r) st)"
| "rmatch (LStar r) = (\<lambda>st. lazy_iter (length (fst (snd st))) (rmatch r) st)"
| "rmatch (Opt r) = (\<lambda>st. rmatch r st @ [st])"
| "rmatch (Cap n r) = (\<lambda>(pr, s, k). map (\<lambda>(pr', s', k'). (pr', s', (n, take (length s - length s') s) # k'))
     (rmatch r (pr, s, k)))"
| "rmatch Bol = (\<lambda>(pr, s, k). if pr = None then [(pr, s, k)] else [])"
| "rmatch MBol = (\<lambda>(pr, s, k). if pr = None \<or> pr = Some NL then [(pr, s, k)] else [])"
| "rmatch Eol = (\<lambda>(pr, s, k). if s = [] \<or> s = [NL] then [(pr, s, k)] else [])"
| "rmatch MEol = (\<lambda>(pr, s, k). if s = [] \<or> head_opt s = Some NL then [(pr, s, k)] else [])"
| "rmatch WordB = (\<lambda>(pr, s, k). if opt_word pr \<noteq> opt_word (head_opt s) then [(pr, s, k)] else [])"
| "rmatch (NotBehind p) = (\<lambda>(pr, s, k). if opt_in p pr then [] else [(pr, s, k)])"
| "rmatch (NotAhead p) = (\<lambda>(pr, s, k). if opt_in p (head_opt s) then [] else [(pr, s, k)])"

subsection \<open>Building expressions\<close>

definition ch :: "char \<Rightarrow> rx" where
  "ch c = Sym (\<lambda>x. x = c)"

fun lit :: "string \<Rightarrow> rx" where
  "lit [] = Eps"
| "lit (c # s) = Cat (ch c) (lit s)"

text \<open>A literal under \<open>re.IGNORECASE\<close>.\<close>

fun ilit :: "string \<Rightarrow> rx" where
  "ilit [] = Eps"
| "ilit (c # s) = Cat (Sym (\<lambda>x. to_lower x = to_lower c)) (ilit s)"

definition plus :: "rx \<Rightarrow> rx" where
  "plus r = Cat r (Star r)"

definition lplus :: "rx \<Rightarrow> rx" where
  "lplus r = Cat r (LStar r)"

fun repeat :: "nat \<Rightarrow> rx \<Rightarrow> rx" where
  "repeat 0 r = Eps"
| "repeat (Suc n) r = Cat r (repeat n r)"

fun seq :: "rx list \<Rightarrow> rx" where
  "seq [] = Eps"
| "seq [r] = r"
| "seq (r # q # rs) = Cat r (seq (q # rs))"

text \<open>The dot: any character but a line feed; \<open>dot_all\<close> is the dot under \<open>re.DOTALL\<close>.\<close>

definition dot :: rx where
  "dot = Sym (\<lambda>c. c \<noteq> NL)"

definition dot_all :: rx where
  "dot_all = Sym (\<lambda>c. True)"

subsection \<open>match, fullmatch, search, finditer\<close>

definition group :: "nat \<Rightarrow> (nat \<times> string) list \<Rightarrow> string" where
  "group n k = (case map_of k n of None \<Rightarrow> [] | Some s \<Rightarrow> s)"

definition re_match :: "rx \<Rightarrow> string \<Rightarrow> (nat \<times> string) list option" where
  "re_match r s = (case rmatch r (None, s, []) of [] \<Rightarrow> None | (pr, t, k) # _ \<Rightarrow> Some k)"

definition re_fullmatch :: "rx \<Rightarrow> string \<Rightarrow> (nat \<times> string) list option" where
  "re_fullmatch r s = map_option (\<lambda>(pr, t, k). k) (find_first (\<lambda>(pr, t, k). t = []) (rmatch r (None, s, [])))"

fun search_from :: "rx \<Rightarrow> char option \<Rightarrow> string \<Rightarrow> rst option" where
  "search_from r pr [] = (case rmatch r (pr, [], []) of [] \<Rightarrow> None | st # _ \<Rightarrow> Some st)"
| "search_from r pr (c # s) = (case rmatch r (pr, c # s, []) of
      [] \<Rightarrow> search_from r (Some c) s | st # _ \<Rightarrow> Some st)"

definition re_search :: "rx \<Rightarrow> string \<Rightarrow> (nat \<times> string) list option" where
  "re_search r s = map_option (\<lambda>(pr, t, k). k) (search_from r None s)"

text \<open>\<open>re.finditer\<close> for expressions that consume text: the next search starts where the
  last match ended. The length of the text bounds the number of matches.\<close>

fun find_iter :: "nat \<Rightarrow> rx \<Rightarrow> char option \<Rightarrow> string \<Rightarrow> (nat \<times> string) list list" where
  "find_iter 0 r pr s = []"
| "find_iter (Suc n) r pr s = (case search_from r pr s of
      None \<Rightarrow> []
    | Some (pr', t, k) \<Rightarrow> k # (if length t < length s then find_iter n r pr' t else []))"

definition re_finditer :: "rx \<Rightarrow> string \<Rightarrow> (nat \<times> string) list list" where
  "re_finditer r s = find_iter (Suc (length s)) r None s"

text \<open>\<open>re.sub\<close> for expressions that consume text: the texts before the matches with the groups of each
  match, and the text after the last one.\<close>

function sub_pieces :: "rx \<Rightarrow> char option \<Rightarrow> string \<Rightarrow> string \<Rightarrow> (string \<times> (nat \<times> string) list) list \<times> string" where
  "sub_pieces r pr acc [] = ([], rev acc)"
| "sub_pieces r pr acc (c # s) = (case rmatch r (pr, c # s, []) of
      [] \<Rightarrow> sub_pieces r (Some c) (c # acc) s
    | (pr', t, k) # _ \<Rightarrow>
        if length t < length (c # s) then (let (ps, u) = sub_pieces r pr' [] t in ((rev acc, k) # ps, u))
        else sub_pieces r (Some c) (c # acc) s)"
  by pat_completeness auto
termination by (relation "measure (\<lambda>(r, pr, acc, s). length s)") auto

definition re_sub :: "rx \<Rightarrow> ((nat \<times> string) list \<Rightarrow> string) \<Rightarrow> string \<Rightarrow> string" where
  "re_sub r f s = (let (ps, u) = sub_pieces r None [] s in concat (map (\<lambda>(t, k). t @ f k) ps) @ u)"

subsection \<open>Computing matches on symbolic text\<close>

text \<open>\<open>stops p r\<close>: \<open>r\<close> cannot match where the next character is in the class \<open>p\<close>.\<close>

definition stops :: "(char \<Rightarrow> bool) \<Rightarrow> rx \<Rightarrow> bool" where
  "stops p r \<longleftrightarrow> (\<forall>pr c s k. p c \<longrightarrow> rmatch r (pr, c # s, k) = [])"

fun last_char :: "char option \<Rightarrow> string \<Rightarrow> char option" where
  "last_char pr [] = pr"
| "last_char pr (c # s) = last_char (Some c) s"

lemma last_char_append [simp]: "last_char pr (u @ v) = last_char (last_char pr u) v"
  by (induction u arbitrary: pr) auto

lemma rmatch_ch_Cons [simp]: "rmatch (ch c) (pr, d # s, k) = (if d = c then [(Some d, s, k)] else [])"
  and rmatch_ch_Nil [simp]: "rmatch (ch c) (pr, [], k) = []"
  by (simp_all add: ch_def)

lemma rmatch_lit: "rmatch (lit p) (pr, p @ s, k) = [(last_char pr p, s, k)]"
  by (induction p arbitrary: pr) simp_all

lemma rmatch_lit_no: "\<not> prefix p s \<Longrightarrow> rmatch (lit p) (pr, s, k) = []"
proof (induction p arbitrary: pr s)
  case (Cons c p)
  then show ?case by (cases s) auto
qed simp

lemma rmatch_lit_iff:
  "rmatch (lit p) (pr, s, k) = (if prefix p s then [(last_char pr p, drop (length p) s, k)] else [])"
  by (auto simp: rmatch_lit rmatch_lit_no prefix_def)

lemma greedy_Sym:
  assumes "stops p r" and "length u \<le> n" and "\<forall>c \<in> set u. p c" and "\<And>c t. s = c # t \<Longrightarrow> \<not> p c"
  shows "concat (map (rmatch r) (greedy_iter n (rmatch (Sym p)) (pr, u @ s, k)))
       = rmatch r (last_char pr u, s, k)"
  using assms(2,3)
proof (induction u arbitrary: n pr)
  case Nil
  then show ?case using assms(4) by (cases n; cases s) auto
next
  case (Cons c u)
  then obtain m where n: "n = Suc m" and "length u \<le> m" by (cases n) auto
  with Cons have "concat (map (rmatch r) (greedy_iter m (rmatch (Sym p)) (Some c, u @ s, k)))
      = rmatch r (last_char (Some c) u, s, k)" by simp
  moreover from Cons.prems assms(1) have "rmatch r (pr, c # u @ s, k) = []"
    by (simp add: stops_def)
  ultimately show ?case using Cons.prems n by simp
qed

text \<open>Maximal munch: a greedy run over a class, before an expression that cannot start in
  that class, takes exactly the run.\<close>

lemma rmatch_star_munch:
  assumes "stops p r" and "\<forall>c \<in> set u. p c" and "\<And>c t. s = c # t \<Longrightarrow> \<not> p c"
  shows "rmatch (Cat (Star (Sym p)) r) (pr, u @ s, k) = rmatch r (last_char pr u, s, k)"
  using greedy_Sym [OF assms(1) _ assms(2) assms(3), where n = "length (u @ s)" and pr = pr and k = k] by simp

lemma rmatch_plus_munch:
  assumes "stops p r" and "u \<noteq> []" and "\<forall>c \<in> set u. p c" and "\<And>c t. s = c # t \<Longrightarrow> \<not> p c"
  shows "rmatch (Cat (plus (Sym p)) r) (pr, u @ s, k) = rmatch r (last_char pr u, s, k)"
proof -
  from assms(2) obtain c v where u: "u = c # v" by (cases u) auto
  have "concat (map (rmatch r) (greedy_iter (length (v @ s)) (rmatch (Sym p)) (Some c, v @ s, k)))
      = rmatch r (last_char (Some c) v, s, k)"
    using assms u by (intro greedy_Sym) auto
  with u assms(3) show ?thesis by (simp add: plus_def)
qed

subsection \<open>What a match consumes\<close>

text \<open>\<open>avoids p r\<close>: no character \<open>r\<close> consumes is in the class \<open>p\<close>.\<close>

fun avoids :: "(char \<Rightarrow> bool) \<Rightarrow> rx \<Rightarrow> bool" where
  "avoids p (Sym q) \<longleftrightarrow> (\<forall>c. q c \<longrightarrow> \<not> p c)"
| "avoids p (Cat r1 r2) \<longleftrightarrow> avoids p r1 \<and> avoids p r2"
| "avoids p (Alt r1 r2) \<longleftrightarrow> avoids p r1 \<and> avoids p r2"
| "avoids p (Star r) \<longleftrightarrow> avoids p r"
| "avoids p (LStar r) \<longleftrightarrow> avoids p r"
| "avoids p (Opt r) \<longleftrightarrow> avoids p r"
| "avoids p (Cap n r) \<longleftrightarrow> avoids p r"
| "avoids p r \<longleftrightarrow> True"

lemma greedy_step: "st' \<in> set (greedy_iter (Suc n) f st) \<Longrightarrow> st' = st \<or> (\<exists>u \<in> set (f st). st' \<in> set (greedy_iter n f u))"
  and lazy_step: "st' \<in> set (lazy_iter (Suc n) f st) \<Longrightarrow> st' = st \<or> (\<exists>u \<in> set (f st). st' \<in> set (lazy_iter n f u))"
  by (auto split: if_splits)

lemma iter_keeps:
  assumes "\<And>st' st. st' \<in> set (f st) \<Longrightarrow> g (fst (snd st')) = g (fst (snd st))"
  shows "st' \<in> set (greedy_iter n f st) \<Longrightarrow> g (fst (snd st')) = g (fst (snd st))"
    and "st' \<in> set (lazy_iter n f st) \<Longrightarrow> g (fst (snd st')) = g (fst (snd st))"
proof -
  have g: "g (fst (snd st')) = g (fst (snd st))" if "st' \<in> set (greedy_iter n f st)" for n st st'
    using that
  proof (induction n arbitrary: st)
    case (Suc n)
    from greedy_step [OF Suc.prems] show ?case
    proof
      assume "\<exists>u \<in> set (f st). st' \<in> set (greedy_iter n f u)"
      then obtain u where "u \<in> set (f st)" and "st' \<in> set (greedy_iter n f u)" by blast
      then show ?thesis using assms [of u st] Suc.IH [of u] by (simp)
    qed simp
  qed simp
  have l: "g (fst (snd st')) = g (fst (snd st))" if "st' \<in> set (lazy_iter n f st)" for n st st'
    using that
  proof (induction n arbitrary: st)
    case (Suc n)
    from lazy_step [OF Suc.prems] show ?case
    proof
      assume "\<exists>u \<in> set (f st). st' \<in> set (lazy_iter n f u)"
      then obtain u where "u \<in> set (f st)" and "st' \<in> set (lazy_iter n f u)" by blast
      then show ?thesis using assms [of u st] Suc.IH [of u] by (simp)
    qed simp
  qed simp
  show "st' \<in> set (greedy_iter n f st) \<Longrightarrow> g (fst (snd st')) = g (fst (snd st))" by (rule g)
  show "st' \<in> set (lazy_iter n f st) \<Longrightarrow> g (fst (snd st')) = g (fst (snd st))" by (rule l)
qed

lemma match_filter: "avoids p r \<Longrightarrow> st' \<in> set (rmatch r st) \<Longrightarrow> List.filter p (fst (snd st')) = List.filter p (fst (snd st))"
proof (induction r arbitrary: st st')
  case (Sym q)
  then show ?case by (auto split: prod.splits list.splits if_splits)
next
  case (Cat r1 r2)
  from Cat.prems(2) obtain u where u: "u \<in> set (rmatch r1 st)" "st' \<in> set (rmatch r2 u)" by auto
  then show ?case using Cat.IH(1) [OF _ u(1)] Cat.IH(2) [OF _ u(2)] Cat.prems(1) by simp
next
  case (Star r)
  show ?case by (rule iter_keeps(1) [where f = "rmatch r"]) (use Star in auto)
next
  case (LStar r)
  show ?case by (rule iter_keeps(2) [where f = "rmatch r"]) (use LStar in auto)
qed (auto split: prod.splits if_splits)

text \<open>A match leaves a suffix of the text.\<close>

lemma iter_suffix:
  assumes "\<And>st' st. st' \<in> set (f st) \<Longrightarrow> suffix (fst (snd st')) (fst (snd st))"
  shows "st' \<in> set (greedy_iter n f st) \<Longrightarrow> suffix (fst (snd st')) (fst (snd st))"
    and "st' \<in> set (lazy_iter n f st) \<Longrightarrow> suffix (fst (snd st')) (fst (snd st))"
proof -
  have g: "suffix (fst (snd st')) (fst (snd st))" if "st' \<in> set (greedy_iter n f st)" for n st st'
    using that
  proof (induction n arbitrary: st)
    case (Suc n)
    from greedy_step [OF Suc.prems] show ?case
    proof
      assume "\<exists>u \<in> set (f st). st' \<in> set (greedy_iter n f u)"
      then obtain u where "u \<in> set (f st)" and "st' \<in> set (greedy_iter n f u)" by blast
      then show ?thesis using assms [of u st] Suc.IH [of u] by (blast intro: suffix_order.trans)
    qed simp
  qed simp
  have l: "suffix (fst (snd st')) (fst (snd st))" if "st' \<in> set (lazy_iter n f st)" for n st st'
    using that
  proof (induction n arbitrary: st)
    case (Suc n)
    from lazy_step [OF Suc.prems] show ?case
    proof
      assume "\<exists>u \<in> set (f st). st' \<in> set (lazy_iter n f u)"
      then obtain u where "u \<in> set (f st)" and "st' \<in> set (lazy_iter n f u)" by blast
      then show ?thesis using assms [of u st] Suc.IH [of u] by (blast intro: suffix_order.trans)
    qed simp
  qed simp
  show "st' \<in> set (greedy_iter n f st) \<Longrightarrow> suffix (fst (snd st')) (fst (snd st))" by (rule g)
  show "st' \<in> set (lazy_iter n f st) \<Longrightarrow> suffix (fst (snd st')) (fst (snd st))" by (rule l)
qed

lemma match_suffix: "st' \<in> set (rmatch r st) \<Longrightarrow> suffix (fst (snd st')) (fst (snd st))"
proof (induction r arbitrary: st st')
  case (Sym q)
  then show ?case by (auto split: prod.splits list.splits if_splits intro: suffix_ConsI)
next
  case (Cat r1 r2)
  from Cat.prems obtain u where u: "u \<in> set (rmatch r1 st)" "st' \<in> set (rmatch r2 u)" by auto
  show ?case using suffix_order.trans [OF Cat.IH(2) [OF u(2)] Cat.IH(1) [OF u(1)]] .
next
  case (Star r)
  show ?case by (rule iter_suffix(1) [where f = "rmatch r"]) (use Star in auto)
next
  case (LStar r)
  show ?case by (rule iter_suffix(2) [where f = "rmatch r"]) (use LStar in auto)
next
  case (Opt r)
  from Opt.prems have "st' = st \<or> st' \<in> set (rmatch r st)" by auto
  then show ?case using Opt.IH by blast
next
  case (Alt r1 r2)
  from Alt.prems have "st' \<in> set (rmatch r1 st) \<or> st' \<in> set (rmatch r2 st)" by simp
  then show ?case using Alt.IH by blast
next
  case (Cap n r)
  from Cap.prems obtain u where "u \<in> set (rmatch r st)" "fst (snd st') = fst (snd u)" by (cases st) auto
  then show ?case using Cap.IH by simp
qed (auto split: prod.splits if_splits)

end
