(* ===== verification/Builders.thy ===== *)
theory Builders
  imports BoardPayload Regex
begin

text \<open>
  What the workload builders share (tools/nvdla_test_framework/common.py, lenet.py, resnet50.py):
  \<open>str\<close> and \<open>int\<close> of a loaded value, the choice of the Docker command and the path of a mount, and
  fetching the pinned source files. The commands that run, the downloads, SHA-1, Pillow, OpenCV and
  NumPy are parameters, the fields of \<open>build_env\<close>: a command that cannot start and a download that
  fails are \<open>None\<close>. Paths are taken as resolved, and an exception ends the operation: what it had
  written by then is not part of the result.
\<close>

record build_env = env +
  bd_sha1 :: "string \<Rightarrow> string"
  bd_url :: "string \<Rightarrow> string option"
  bd_run :: "string list \<Rightarrow> fs \<Rightarrow> (int \<times> string \<times> fs) option"
  bd_wsl :: bool
  bd_root :: path
  bd_image_size :: "string \<Rightarrow> (int \<times> int) option"
  bd_render :: "string \<Rightarrow> int \<times> int \<Rightarrow> int \<times> int \<times> int \<times> int \<Rightarrow> json \<Rightarrow> int \<Rightarrow> int \<Rightarrow> string"
  bd_opencv :: "string option"
  bd_forward :: "string \<Rightarrow> string \<Rightarrow> string \<Rightarrow> rat list option"
  bd_argsort :: "rat list \<Rightarrow> nat list"

subsection \<open>str and int of a value\<close>

text \<open>The \<open>repr\<close> of a string of printable characters and of the other values.\<close>

definition repr_char :: "char \<Rightarrow> char \<Rightarrow> string" where
  "repr_char q c = (if c = q \<or> c = BS then [BS, c] else if c = NL then [BS, CHR ''n''] else if c = CR then [BS, CHR ''r'']
     else if c = CHR 0x09 then [BS, CHR ''t''] else [c])"

definition repr_string :: "string \<Rightarrow> string" where
  "repr_string s = (let q = (if SQ \<in> set s \<and> DQ \<notin> set s then DQ else SQ) in q # concat (map (repr_char q) s) @ [q])"

fun py_repr :: "(rat \<Rightarrow> string) \<Rightarrow> json \<Rightarrow> string" where
  "py_repr fr JNull = ''None''"
| "py_repr fr (JBool b) = (if b then ''True'' else ''False'')"
| "py_repr fr (JInt n) = show_int n"
| "py_repr fr (JFloat r) = fr r"
| "py_repr fr (JStr s) = repr_string s"
| "py_repr fr (JList xs) = ''['' @ join '', '' (map (py_repr fr) xs) @ '']''"
| "py_repr fr (JDict kvs) = ''{'' @ join '', '' (map (\<lambda>(k, v). repr_string k @ '': '' @ py_repr fr v) kvs) @ ''}''"

definition py_str :: "(rat \<Rightarrow> string) \<Rightarrow> json \<Rightarrow> string" where
  "py_str fr v = (case v of JStr s \<Rightarrow> s | _ \<Rightarrow> py_repr fr v)"

fun jint :: "json \<Rightarrow> int res" where
  "jint (JInt n) = Inr n"
| "jint (JBool b) = Inr (if b then 1 else 0)"
| "jint (JFloat r) = Inr (trunc_rat r)"
| "jint (JStr s) = noneE (ValueError ''invalid literal for int()'') (py_int s)"
| "jint _ = Inl TypeError"

text \<open>The built-in \<open>round\<close>: to the nearest integer, halves to the even one.\<close>

definition round_half_even :: "rat \<Rightarrow> int" where
  "round_half_even r = (let f = \<lfloor>r\<rfloor>; d = r - of_int f in
     if d < 1 / 2 then f else if 1 / 2 < d then f + 1 else if even f then f else f + 1)"

text \<open>\<open>d[k] = v\<close> and \<open>d[k1][k2] = v\<close>.\<close>

fun jset :: "json \<Rightarrow> string \<Rightarrow> json \<Rightarrow> json res" where
  "jset (JDict kvs) k v = Inr (JDict (dict_set k v kvs))"
| "jset _ k v = Inl TypeError"

definition jset2 :: "json \<Rightarrow> string \<Rightarrow> string \<Rightarrow> json \<Rightarrow> json res" where
  "jset2 d k1 k2 v = bindE (jat d k1) (\<lambda>e. bindE (jset e k2 v) (\<lambda>e'. jset d k1 e'))"

subsection \<open>Docker\<close>

text \<open>The candidates that answer with an image identifier, tried in order.\<close>

fun try_backends :: "build_env \<Rightarrow> string \<Rightarrow> (string list \<times> string) list \<Rightarrow> fs \<Rightarrow> (string list \<times> string \<times> string) res" where
  "try_backends b img [] fs = Inl (RuntimeError ''Docker image is unavailable or cannot be inspected'')"
| "try_backends b img ((pre, name) # cs) fs =
     (case bd_run b (pre @ [''image'', ''inspect'', img, ''--format'', ''{{.Id}}'']) fs of
        None \<Rightarrow> try_backends b img cs fs
      | Some (status, out, _) \<Rightarrow> (if status = 0 \<and> strip out \<noteq> [] then Inr (pre, name, strip out)
          else try_backends b img cs fs))"

definition WSL_BACKEND :: string where
  "WSL_BACKEND = ''windows-docker-from-wsl''"

definition docker_candidates :: "bool \<Rightarrow> (string list \<times> string) list" where
  "docker_candidates wsl = ([''docker''], ''native'') #
     (if wsl then [([''docker.exe''], WSL_BACKEND), ([''cmd.exe'', ''/c'', ''docker''], WSL_BACKEND)] else [])"

definition docker_backend :: "build_env \<Rightarrow> string \<Rightarrow> fs \<Rightarrow> (string list \<times> string \<times> string) res" where
  "docker_backend b img fs = try_backends b img (docker_candidates (bd_wsl b)) fs"

definition docker_mount_path :: "build_env \<Rightarrow> path \<Rightarrow> string \<Rightarrow> fs \<Rightarrow> string res" where
  "docker_mount_path b p backend fs =
     (if backend \<noteq> WSL_BACKEND then Inr (path_str p)
      else bindE (noneE OSError (bd_run b [''wslpath'', ''-w'', path_str p] fs)) (\<lambda>(status, out, _).
        bindE (guardE (status = 0 \<and> strip out \<noteq> []) (RuntimeError ''could not convert WSL path for Docker''))
          (\<lambda>_. Inr (strip out))))"

text \<open>The path the compiler reports.\<close>

definition compiler_re :: rx where
  "compiler_re = seq [MBol, lit ''__NVDLA_COMPILER__='', Cap 1 (plus dot), MEol]"

definition compiler_path :: "string \<Rightarrow> json" where
  "compiler_path out = (case re_search compiler_re out of None \<Rightarrow> JNull | Some k \<Rightarrow> JStr (strip (group 1 k)))"

definition docker_compile :: "string list \<Rightarrow> string \<Rightarrow> string \<Rightarrow> string \<Rightarrow> string \<Rightarrow> string list" where
  "docker_compile pre stage out img command = pre @ [''run'', ''--rm'', ''-e'', ''HOME=/tmp'', ''-v'', stage @ '':/src:ro'',
     ''-v'', out @ '':/work'', ''-w'', ''/work'', img, ''bash'', ''-lc'', command]"

subsection \<open>Fetching pinned files\<close>

definition remove_file :: "path \<Rightarrow> fs \<Rightarrow> fs" where
  "remove_file p fs = List.filter (\<lambda>(q, c). q \<noteq> p) fs"

definition catch_value :: "'a res \<Rightarrow> 'a option res" where
  "catch_value r = (case r of Inr x \<Rightarrow> Inr (Some x) | Inl (ValueError s) \<Rightarrow> Inr None | Inl e \<Rightarrow> Inl e)"

definition download :: "build_env \<Rightarrow> json \<Rightarrow> path \<Rightarrow> fs \<Rightarrow> fs res" where
  "download b url p fs = bindE (jstr url) (\<lambda>u. bindE (noneE OSError (bd_url b u)) (\<lambda>c. Inr (write_file p c fs)))"

text \<open>One file of the lock: kept when it verifies (\<open>chk\<close>), removed and downloaded otherwise; the record
  (\<open>rec\<close>) goes to the manifest.\<close>

definition fetch_item ::
    "build_env \<Rightarrow> (fs \<Rightarrow> path \<Rightarrow> json \<Rightarrow> json res) \<Rightarrow> (json \<Rightarrow> json \<Rightarrow> string \<Rightarrow> json res) \<Rightarrow> path \<Rightarrow> json \<Rightarrow>
       json list \<times> fs \<Rightarrow> (json list \<times> fs) res" where
  "fetch_item b chk rec destination item = (\<lambda>(records, fs).
     bindE (bindE (jat item ''name'') (path_at destination)) (\<lambda>p.
     bindE (if is_file fs p then catch_value (chk fs p item) else Inr None) (\<lambda>cached.
     case cached of
       Some actual \<Rightarrow> bindE (rec item actual ''cached'') (\<lambda>r. Inr (records @ [r], fs))
     | None \<Rightarrow>
         bindE (jat item ''url'') (\<lambda>url.
         bindE (download b url p (remove_file p fs)) (\<lambda>fs1.
         bindE (chk fs1 p item) (\<lambda>actual.
         bindE (rec item actual ''downloaded'') (\<lambda>r. Inr (records @ [r], fs1))))))))"

lemma read_remove [simp]: "read_text (remove_file p fs) q = (if q = p then Inl (FileNotFoundError (path_str p)) else read_text fs q)"
proof -
  have "dict_get (remove_file p fs) q = (if q = p then None else dict_get fs q)"
    by (induction fs) (auto simp: remove_file_def dict_get_def)
  then show ?thesis by (simp add: read_text_def)
qed

subsection \<open>Facts\<close>

text \<open>What fetching relies on: the check of a file only reads that file.\<close>

definition item_path :: "path \<Rightarrow> json \<Rightarrow> path res" where
  "item_path destination item = bindE (jat item ''name'') (path_at destination)"

lemma catch_value_Inr: "catch_value r = Inr (Some x) \<longleftrightarrow> r = Inr x"
  by (cases r) (auto simp: catch_value_def split: py_error.splits)

lemma fetch_item_post:
  assumes "fetch_item b chk rec destination item (rs, fs) = Inr (rs', fs')"
  shows "\<exists>p. item_path destination item = Inr p \<and> is_ok (chk fs' p item) \<and> (\<forall>q. q \<noteq> p \<longrightarrow> read_text fs' q = read_text fs q)"
proof -
  from assms obtain p cached where p: "item_path destination item = Inr p"
    and c: "(if is_file fs p then catch_value (chk fs p item) else Inr None) = Inr cached"
    and r: "(case cached of
       Some actual \<Rightarrow> bindE (rec item actual ''cached'') (\<lambda>r. Inr (rs @ [r], fs))
     | None \<Rightarrow> bindE (jat item ''url'') (\<lambda>url. bindE (download b url p (remove_file p fs)) (\<lambda>fs1.
         bindE (chk fs1 p item) (\<lambda>actual. bindE (rec item actual ''downloaded'') (\<lambda>r. Inr (rs @ [r], fs1)))))) = Inr (rs', fs')"
    unfolding fetch_item_def item_path_def by (auto simp: bindE_Inr_iff)
  show ?thesis
  proof (cases cached)
    case None
    with r have "is_ok (chk fs' p item)" "\<forall>q. q \<noteq> p \<longrightarrow> read_text fs' q = read_text fs q"
      by (auto simp: bindE_Inr_iff download_def is_ok_iff)
    with p show ?thesis by blast
  next
    case (Some actual)
    with c have "chk fs p item = Inr actual" by (auto simp: catch_value_Inr split: if_splits)
    with r Some p show ?thesis by (auto simp: bindE_Inr_iff is_ok_iff)
  qed
qed

definition local_check :: "(fs \<Rightarrow> path \<Rightarrow> json \<Rightarrow> json res) \<Rightarrow> bool" where
  "local_check chk \<longleftrightarrow> (\<forall>fs fs' p item. read_text fs p = read_text fs' p \<longrightarrow> chk fs p item = chk fs' p item)"

lemma fetch_items_pinned:
  assumes "local_check chk" and "foldE (fetch_item b chk rec destination) items (rs, fs) = Inr (rs', fs')"
    and "distinct (map (item_path destination) items)" and "item \<in> set items"
  shows "\<exists>p. item_path destination item = Inr p \<and> is_ok (chk fs' p item)"
proof -
  have "(\<forall>q. Inr q \<notin> item_path destination ` set items \<longrightarrow> read_text fs' q = read_text fs q) \<and>
      (\<forall>i \<in> set items. \<exists>p. item_path destination i = Inr p \<and> is_ok (chk fs' p i))"
    using assms(2,3)
  proof (induction items arbitrary: rs fs)
    case (Cons i items)
    obtain rs1 fs1 where i: "fetch_item b chk rec destination i (rs, fs) = Inr (rs1, fs1)"
      and rest: "foldE (fetch_item b chk rec destination) items (rs1, fs1) = Inr (rs', fs')"
      using Cons.prems(1) unfolding foldE.simps bindE_Inr_iff split_paired_Ex by blast
    obtain p where p: "item_path destination i = Inr p" "is_ok (chk fs1 p i)" "\<forall>q. q \<noteq> p \<longrightarrow> read_text fs1 q = read_text fs q"
      using fetch_item_post [OF i] by blast
    have IH: "\<forall>q. Inr q \<notin> item_path destination ` set items \<longrightarrow> read_text fs' q = read_text fs1 q"
      "\<forall>j \<in> set items. \<exists>q. item_path destination j = Inr q \<and> is_ok (chk fs' q j)"
      using Cons.IH [OF rest] Cons.prems(2) by simp_all
    have "Inr p \<notin> item_path destination ` set items" using Cons.prems p by force
    with IH(1) have rd: "read_text fs' p = read_text fs1 p" by blast
    from assms(1) [unfolded local_check_def, rule_format, OF rd, of i] p(2) have ok: "is_ok (chk fs' p i)" by simp
    have "read_text fs' q = read_text fs q" if "Inr q \<notin> item_path destination ` set (i # items)" for q
    proof -
      from that p(1) have "q \<noteq> p" "Inr q \<notin> item_path destination ` set items" by auto
      with IH(1) p(3) show ?thesis by metis
    qed
    moreover have "\<exists>r. item_path destination j = Inr r \<and> is_ok (chk fs' r j)" if "j \<in> set (i # items)" for j
      using that IH(2) p(1) ok by (cases "j = i") auto
    ultimately show ?case by blast
  qed simp
  with assms(4) show ?thesis by blast
qed

lemma verify_local: "read_text fs p = read_text fs' p \<Longrightarrow> verify env fs p x = verify env fs' p x"
  by (simp add: verify_def sha_file_def sha256_file_def is_file_read)

end
