(* ===== verification/BoardArtifact.thy ===== *)
theory BoardArtifact
  imports BoardPayload Regex "HOL-Library.Product_Lexorder"
begin

text \<open>
  The import of a run archive from the board (tools/nvdla_test_framework/board_artifact.py): parsing
  of the environment files, interrupt counters and kernel log, the classification of LeNet, SDP and
  ResNet-50 runs, the safe extraction of the archive, and the verdict of the import. The members of
  the archive are given as a list; sets of output hashes are sorted lists without duplicates.
\<close>

subsection \<open>Parsing\<close>

fun env_lines :: "string list \<Rightarrow> (string, string) dict \<Rightarrow> (string, string) dict" where
  "env_lines [] d = d"
| "env_lines (line # ls) d =
     (if CHR ''='' \<notin> set line then env_lines ls d
      else let (k, v) = split_first (CHR ''='') line in env_lines ls (dict_set k v d))"

definition parse_env :: "string \<Rightarrow> (string, string) dict" where
  "parse_env txt = env_lines (splitlines txt) []"

definition read_opt :: "fs \<Rightarrow> path \<Rightarrow> string" where
  "read_opt fs p = (case dict_get fs p of None \<Rightarrow> [] | Some c \<Rightarrow> c)"

definition read_int :: "fs \<Rightarrow> path \<Rightarrow> int option" where
  "read_int fs p = py_int (strip (read_opt fs p))"

fun add_fields :: "string list \<Rightarrow> int \<Rightarrow> int res" where
  "add_fields [] acc = Inr acc"
| "add_fields (f # rest) acc =
     (if \<not> is_digit f then Inr acc
      else bindE (noneE (ValueError ''invalid literal for int()'') (py_int f)) (\<lambda>n. add_fields rest (acc + n)))"

definition interrupt_line :: "string \<Rightarrow> string \<Rightarrow> bool" where
  "interrupt_line device line = (contains (lower device) (lower line) \<and> CHR '':'' \<in> set line)"

definition parse_interrupt_total :: "string \<Rightarrow> string \<Rightarrow> int option res" where
  "parse_interrupt_total device txt =
     (let ls = List.filter (interrupt_line device) (splitlines txt) in
      if ls = [] then Inr None
      else bindE (foldE (\<lambda>line. add_fields (split_ws (snd (split_first (CHR '':'') line)))) ls 0) (\<lambda>t. Inr (Some t)))"

definition completed_re :: rx where
  "completed_re = seq [lit ''Completed'', plus (Sym is_space), Cap 1 (plus (Sym is_alpha)), plus (Sym is_space),
     lit ''operation index'', plus (Sym is_space), Cap 2 (plus (Sym is_dec)), plus (Sym is_space), lit ''ROI'']"

definition dec_value :: "string \<Rightarrow> int" where
  "dec_value s = (case py_int s of None \<Rightarrow> 0 | Some n \<Rightarrow> n)"

definition parse_completed_operations :: "string \<Rightarrow> operation list" where
  "parse_completed_operations txt = map (\<lambda>k. \<lparr>op_processor = group 1 k, op_index = dec_value (group 2 k)\<rparr>)
     (re_finditer completed_re txt)"

definition hwl_re :: rx where
  "hwl_re = seq [Cap 1 (plus (Sym is_dec)), plus (Sym is_space), lit ''HWLs done,'', plus (Sym is_space),
     lit ''totally'', plus (Sym is_space), Cap 2 (plus (Sym is_dec)), plus (Sym is_space), lit ''layers'']"

text \<open>Completed and total hardware layers.\<close>

definition parse_hwl_progress :: "string \<Rightarrow> (int \<times> int) option" where
  "parse_hwl_progress txt = map_option (\<lambda>k. (dec_value (group 1 k), dec_value (group 2 k))) (last_opt (re_finditer hwl_re txt))"

datatype csb_action = Begin int | Finish int

definition csb_read_re :: rx where
  "csb_read_re = seq [lit ''nvdla-trace csb-read '', Cap 1 (Alt (lit ''begin'') (lit ''end'')), lit '' offset=0x'',
     Cap 2 (repeat 8 (Sym is_hex))]"

definition csb_actions :: "string \<Rightarrow> csb_action list" where
  "csb_actions txt = map (\<lambda>k. let offset = (case py_int16 (group 2 k) of None \<Rightarrow> 0 | Some n \<Rightarrow> n) in
     if group 1 k = ''begin'' then Begin offset else Finish offset) (re_finditer csb_read_re txt)"

text \<open>The pending reads, the most recent first: an end that does not match it is ignored.\<close>

definition csb_step :: "csb_action \<Rightarrow> int list \<Rightarrow> int list" where
  "csb_step a pending = (case a of
       Begin offset \<Rightarrow> offset # pending
     | Finish offset \<Rightarrow> (case pending of [] \<Rightarrow> [] | p # ps \<Rightarrow> if p = offset then ps else pending))"

definition NVDLA_CSB_REGISTERS :: "(int, string) dict" where
  "NVDLA_CSB_REGISTERS = [(0x8004, ''SDP_RDMA_S_POINTER''), (0x9004, ''SDP_S_POINTER'')]"

record csb_read =
  cr_offset :: string
  cr_physical :: string
  cr_register :: string

definition parse_unreturned_csb_read :: "string \<Rightarrow> csb_read option" where
  "parse_unreturned_csb_read txt = (case fold csb_step (csb_actions txt) [] of
       [] \<Rightarrow> None
     | offset # _ \<Rightarrow> Some \<lparr>cr_offset = hex8 offset, cr_physical = hex8 (0xA0000000 + offset),
         cr_register = dict_get_or NVDLA_CSB_REGISTERS offset ''unknown''\<rparr>)"

definition normal_output :: "string \<Rightarrow> string" where
  "normal_output txt = join '' '' (split_ws txt)"

record irq_evidence =
  ie_before :: "int option"
  ie_after :: "int option"
  ie_delta :: "int option"

definition irq_evidence :: "fs \<Rightarrow> path \<Rightarrow> string \<Rightarrow> string \<Rightarrow> irq_evidence res" where
  "irq_evidence fs d before_name after_name =
     bindE (parse_interrupt_total ''nvdla'' (read_opt fs (d @ [before_name]))) (\<lambda>b.
     bindE (parse_interrupt_total ''nvdla'' (read_opt fs (d @ [after_name]))) (\<lambda>a.
     Inr \<lparr>ie_before = b, ie_after = a,
          ie_delta = (case (b, a) of (Some x, Some y) \<Rightarrow> Some (y - x) | _ \<Rightarrow> None)\<rparr>))"

subsection \<open>LeNet\<close>

definition INITIATED :: string where
  "INITIATED = ''Exit: dla_initiate_processors status=0''"

text \<open>The decision chain of one LeNet repeat.\<close>

definition no_irq :: "int option \<Rightarrow> bool" where
  "no_irq d = (case d of None \<Rightarrow> True | Some n \<Rightarrow> n \<le> 0)"

definition lenet_class :: "bool \<Rightarrow> int option \<Rightarrow> bool \<Rightarrow> int option \<Rightarrow> operation list \<Rightarrow> string \<Rightarrow> string" where
  "lenet_class timed_out runtime_status initiated irq_delta operations actual_output =
     (if timed_out then ''runtime-timeout''
      else if runtime_status \<in> {Some 126, Some 127} then ''runtime-start-failure''
      else if runtime_status \<notin> {Some 0, None} \<and> \<not> initiated then ''task-initiation-failure''
      else if no_irq irq_delta then (if initiated then ''initiated-without-irq'' else ''task-initiation-failure'')
      else if operations = [] then ''irq-without-completion''
      else if operations \<noteq> EXPECTED_LENET_OPERATIONS then ''partial-operation-sequence''
      else if actual_output = [] then ''missing-output''
      else if actual_output \<noteq> EXPECTED_LENET_OUTPUT then ''output-mismatch''
      else if runtime_status \<noteq> Some 0 then ''runtime-failure''
      else ''pass'')"

record repeat_result =
  rr_index :: nat
  rr_status :: string
  rr_classification :: string
  rr_correctness :: "string option"
  rr_operations :: "operation list"
  rr_last_completed :: "operation option"
  rr_next_expected :: "operation option"
  rr_output :: "string option"
  rr_output_sha :: "string option"

definition file_sha :: "env \<Rightarrow> fs \<Rightarrow> path \<Rightarrow> string option" where
  "file_sha env fs p = map_option (\<lambda>c. upper (env_sha env c)) (dict_get fs p)"

definition run_timed_out :: "fs \<Rightarrow> path \<Rightarrow> int option \<Rightarrow> bool" where
  "run_timed_out fs d status = (is_file fs (d @ [''runtime-timeout.txt'']) \<or> status = Some 124)"

definition classify_lenet_repeat :: "env \<Rightarrow> fs \<Rightarrow> path \<Rightarrow> nat \<Rightarrow> repeat_result" where
  "classify_lenet_repeat env fs d index =
     (let runtime_status = read_int fs (d @ [''runtime.exit-status'']);
          dmesg = read_opt fs (d @ [''dmesg-delta.log'']);
          operations = parse_completed_operations dmesg;
          actual_output = normal_output (read_opt fs (d @ [''output.txt'']));
          c = lenet_class (run_timed_out fs d runtime_status) runtime_status (contains INITIATED dmesg)
                (read_int fs (d @ [''irq-delta.txt''])) operations actual_output
      in \<lparr>rr_index = index, rr_status = (if c = ''pass'' then ''pass'' else ''fail''), rr_classification = c,
          rr_correctness = None, rr_operations = operations, rr_last_completed = last_opt operations,
          rr_next_expected = (if length operations < length EXPECTED_LENET_OPERATIONS
             then Some (EXPECTED_LENET_OPERATIONS ! length operations) else None),
          rr_output = (if actual_output = [] then None else Some actual_output),
          rr_output_sha = file_sha env fs (d @ [''output.dimg''])\<rparr>)"

definition missing_repeat :: "nat \<Rightarrow> string option \<Rightarrow> repeat_result" where
  "missing_repeat index correctness = \<lparr>rr_index = index, rr_status = ''fail'',
     rr_classification = ''missing-repeat-evidence'', rr_correctness = correctness, rr_operations = [],
     rr_last_completed = None, rr_next_expected = None, rr_output = None, rr_output_sha = None\<rparr>"

record analysis =
  an_kind :: string
  an_status :: string
  an_classification :: string
  an_correctness :: "string option"
  an_requested :: "int option"
  an_pass_count :: nat
  an_first_failure :: "repeat_result option"
  an_repeats :: "repeat_result list"
  an_hashes :: "string list"

definition output_hashes :: "repeat_result list \<Rightarrow> string list" where
  "output_hashes rs = sort (remdups (concat (map (\<lambda>r. case rr_output_sha r of None \<Rightarrow> [] | Some h \<Rightarrow> [h]) rs)))"

definition repeat_failed :: "repeat_result \<Rightarrow> bool" where
  "repeat_failed r = (rr_status r \<noteq> ''pass'')"

text \<open>The directories below \<open>root\<close> named \<open>repeat-<digits>\<close>, by number; a later directory replaces an
  earlier one of the same number.\<close>

definition repeat_re :: rx where
  "repeat_re = seq [lit ''repeat-'', Cap 1 (plus (Sym is_dec))]"

definition child_dirs :: "fs \<Rightarrow> path \<Rightarrow> string list" where
  "child_dirs fs d = remdups (map (\<lambda>q. q ! length d)
     (List.filter (\<lambda>q. prefix d q \<and> length d + 1 < length q) (dict_keys fs)))"

definition repeat_paths :: "fs \<Rightarrow> path \<Rightarrow> (int, path) dict" where
  "repeat_paths fs d = fold (\<lambda>n m. case re_fullmatch repeat_re n of
       None \<Rightarrow> m | Some k \<Rightarrow> dict_set (dec_value (group 1 k)) (d @ [n]) m) (child_dirs fs d) []"

definition requested_repeats :: "(string, string) dict \<Rightarrow> int res" where
  "requested_repeats result = noneE (ValueError ''invalid literal for int()'') (py_int (dict_get_or result ''repeat_requested'' ''1''))"

definition analyze_lenet :: "env \<Rightarrow> fs \<Rightarrow> path \<Rightarrow> (string, string) dict \<Rightarrow> analysis res" where
  "analyze_lenet env fs d result = bindE (requested_repeats result) (\<lambda>requested.
     let repeats = map (\<lambda>i. case dict_get (repeat_paths fs d) (int i) of
             None \<Rightarrow> missing_repeat i None | Some p \<Rightarrow> classify_lenet_repeat env fs p i) [1..<Suc (nat requested)];
         first_failure = find_first repeat_failed repeats
     in Inr \<lparr>an_kind = ''lenet'', an_status = (if first_failure = None then ''pass'' else ''fail''),
          an_classification = (case first_failure of Some r \<Rightarrow> rr_classification r
             | None \<Rightarrow> if requested = 1 then ''exact-pass'' else ''stability-pass''),
          an_correctness = None, an_requested = Some requested,
          an_pass_count = filter_count (\<lambda>r. \<not> repeat_failed r) repeats, an_first_failure = first_failure,
          an_repeats = repeats, an_hashes = output_hashes repeats\<rparr>)"

subsection \<open>SDP\<close>

definition sdp_class :: "bool \<Rightarrow> int option \<Rightarrow> bool \<Rightarrow> int option \<Rightarrow> bool \<Rightarrow> bool \<Rightarrow> string option \<Rightarrow> int option \<Rightarrow> bool \<Rightarrow> string" where
  "sdp_class timed_out client_status initiated irq_delta completed output_exists compare_status payload_nonzero protocol_passed =
     (if timed_out then ''runtime-timeout''
      else if client_status \<in> {Some 126, Some 127} then ''runtime-start-failure''
      else if client_status \<noteq> Some 0 \<and> \<not> initiated then ''task-initiation-failure''
      else if no_irq irq_delta then (if initiated then ''initiated-without-irq'' else ''task-initiation-failure'')
      else if \<not> completed then ''irq-without-completion''
      else if \<not> output_exists then ''missing-output''
      else if compare_status = Some ''exact'' then ''exact-pass''
      else if compare_status = Some ''mismatch'' \<and> payload_nonzero = Some 0 \<and> protocol_passed
        then ''diagnostic-pass-oracle-inconclusive''
      else ''unexpected-output-mismatch'')"

definition progress_stage :: "string \<Rightarrow> string" where
  "progress_stage dmesg =
     (if contains ''Completed SDP operation'' dmesg then ''sdp-completed''
      else if contains INITIATED dmesg then ''processors-initiated''
      else if contains ''Exit: dla_prepare_operation'' dmesg then ''sdp-operation-prepared''
      else if contains ''Enter: dla_prepare_operation'' dmesg then ''sdp-prepare-no-return''
      else if contains ''Prepare SDP operation'' dmesg then ''sdp-submit-entered''
      else if contains ''Enter: dla_initiate_processors'' dmesg then ''processor-initiation-entered''
      else ''no-kernel-submission-marker'')"

record sdp_analysis =
  sd_status :: string
  sd_classification :: string
  sd_correctness :: string
  sd_stage :: string
  sd_boundary :: "string option"
  sd_unreturned :: "csb_read option"
  sd_output_sha :: "string option"

definition analyze_sdp :: "env \<Rightarrow> fs \<Rightarrow> path \<Rightarrow> sdp_analysis" where
  "analyze_sdp env fs d =
     (let client_status = read_int fs (d @ [''runtime-client.exit-status'']);
          own = read_opt fs (d @ [''sdp-dmesg-delta.log'']);
          dmesg = (if own = [] then read_opt fs (d @ [''dmesg-delta.log'']) else own);
          client = read_opt fs (d @ [''runtime-client.stdout.log'']);
          output = d @ [''runtime-output'', ''o_000000.dimg''];
          cs = strip (read_opt fs (d @ [''sdp-compare-status.txt'']));
          c = sdp_class (run_timed_out fs d client_status) client_status (contains INITIATED dmesg)
                (read_int fs (d @ [''sdp-irq-delta.txt''])) (contains ''Completed SDP operation'' dmesg)
                (is_file fs output) (if cs = [] then None else Some cs)
                (read_int fs (d @ [''sdp-payload-nonzero-bytes.txt''])) (contains ''[OK] Test PASSED!'' client);
          unreturned = parse_unreturned_csb_read dmesg
      in \<lparr>sd_status = (if c \<in> {''exact-pass'', ''diagnostic-pass-oracle-inconclusive''} then ''pass'' else ''fail''),
          sd_classification = c,
          sd_correctness = (if c = ''exact-pass'' then ''pass''
             else if c = ''diagnostic-pass-oracle-inconclusive'' then ''inconclusive'' else ''fail''),
          sd_stage = progress_stage dmesg,
          sd_boundary = (case unreturned of Some r \<Rightarrow> Some (cr_register r @ '' CSB read'')
             | None \<Rightarrow> if progress_stage dmesg = ''sdp-prepare-no-return''
                 then Some ''SDP S_POINTER or SDP_RDMA S_POINTER CSB read'' else None),
          sd_unreturned = unreturned, sd_output_sha = file_sha env fs output\<rparr>)"

subsection \<open>ResNet-50\<close>

definition int_token_re :: rx where
  "int_token_re = Cat (Opt (lit ''-'')) (plus (Sym is_dec))"

definition is_int_token :: "string \<Rightarrow> bool" where
  "is_int_token s = (re_fullmatch int_token_re s \<noteq> None)"

record top_entry =
  te_rank :: int
  te_index :: int
  te_value :: int

definition top5_lines :: "string \<Rightarrow> top_entry list" where
  "top5_lines txt = concat (map (\<lambda>line. let fs = split_ws line in
     if length fs = 3 \<and> list_all is_int_token fs
     then [\<lparr>te_rank = dec_value (fs ! 0), te_index = dec_value (fs ! 1), te_value = dec_value (fs ! 2)\<rparr>] else [])
     (splitlines txt))"

text \<open>The indices ranked by falling value, ties by rising index.\<close>

definition ranked :: "int list \<Rightarrow> (nat \<times> int) list" where
  "ranked values = sort_key (\<lambda>(i, v). (- v, i)) (zip [0..<length values] values)"

definition top5_of :: "int list \<Rightarrow> top_entry list" where
  "top5_of values = map (\<lambda>(rank, (i, v)). \<lparr>te_rank = int rank, te_index = int i, te_value = v\<rparr>) (enumerate1 (take 5 (ranked values)))"

definition resnet_class :: "bool \<Rightarrow> int option \<Rightarrow> bool \<Rightarrow> int option \<Rightarrow> operation list \<Rightarrow> (int \<times> int) option \<Rightarrow> bool \<Rightarrow>
    bool \<Rightarrow> int \<Rightarrow> int \<Rightarrow> string option \<Rightarrow> string" where
  "resnet_class timed_out runtime_status initiated irq_delta operations hwl output_exists integer_output
      n_tokens expected_elements target =
     (if timed_out then ''runtime-timeout''
      else if runtime_status \<in> {Some 126, Some 127} then ''runtime-start-failure''
      else if runtime_status \<notin> {Some 0, None} \<and> \<not> initiated then ''task-initiation-failure''
      else if no_irq irq_delta then (if initiated then ''initiated-without-irq'' else ''task-initiation-failure'')
      else if operations = [] then ''irq-without-completion''
      else if (case hwl of None \<Rightarrow> True | Some (c, t) \<Rightarrow> c \<noteq> t) then ''partial-hwl-sequence''
      else if \<not> output_exists then ''missing-output''
      else if \<not> integer_output then ''invalid-output-format''
      else if n_tokens \<noteq> expected_elements then ''output-shape-mismatch''
      else if target = Some ''output-mismatch'' then ''output-mismatch''
      else if target \<in> {Some ''execution-pass-oracle-pending'', Some ''pass''} then ''execution-pass-oracle-pending''
      else (case target of None \<Rightarrow> ''execution-pass-oracle-pending''
             | Some t \<Rightarrow> if t = [] then ''execution-pass-oracle-pending'' else t))"

record resnet_repeat =
  rn_result :: repeat_result
  rn_hwl :: "(int \<times> int) option"
  rn_elements :: nat
  rn_top5 :: "top_entry list"

definition resnet_correctness :: "string \<Rightarrow> string" where
  "resnet_correctness c = (if c = ''exact-pass'' then ''pass''
     else if c = ''execution-pass-oracle-pending'' then ''inconclusive'' else ''fail'')"

definition classify_resnet50_repeat :: "env \<Rightarrow> fs \<Rightarrow> path \<Rightarrow> nat \<Rightarrow> resnet_repeat res" where
  "classify_resnet50_repeat env fs d index =
     (let result_env = parse_env (read_opt fs (d @ [''result.env'']));
          runtime_status = read_int fs (d @ [''runtime.exit-status'']);
          dmesg = read_opt fs (d @ [''dmesg-delta.log'']);
          operations = parse_completed_operations dmesg; hwl = parse_hwl_progress dmesg;
          tokens = split_ws (read_opt fs (d @ [''output.txt'']));
          integer_output = (tokens \<noteq> [] \<and> list_all is_int_token tokens);
          listed = top5_lines (read_opt fs (d @ [''top5.txt'']));
          top5 = (if listed = [] \<and> integer_output then top5_of (map dec_value tokens) else listed);
          initiated = (contains INITIATED dmesg \<or> operations \<noteq> [] \<or> hwl \<noteq> None)
      in bindE (noneE (ValueError ''invalid literal for int()'') (py_int (dict_get_or result_env ''expected_elements'' ''1000''))) (\<lambda>expected.
         let c = resnet_class (run_timed_out fs d runtime_status) runtime_status initiated (read_int fs (d @ [''irq-delta.txt'']))
                  operations hwl (is_file fs (d @ [''output.dimg''])) integer_output (int (length tokens)) expected
                  (dict_get result_env ''classification'')
         in Inr \<lparr>rn_result = \<lparr>rr_index = index,
              rr_status = (if c \<in> {''exact-pass'', ''execution-pass-oracle-pending''} then ''pass'' else ''fail''),
              rr_classification = c, rr_correctness = Some (resnet_correctness c), rr_operations = operations,
              rr_last_completed = last_opt operations, rr_next_expected = None, rr_output = None,
              rr_output_sha = file_sha env fs (d @ [''output.dimg''])\<rparr>,
            rn_hwl = hwl, rn_elements = length tokens, rn_top5 = top5\<rparr>))"

definition resnet_repeat_at :: "env \<Rightarrow> fs \<Rightarrow> path \<Rightarrow> nat \<Rightarrow> repeat_result res" where
  "resnet_repeat_at env fs d i = (let p = d @ [''repeat-'' @ show_nat i] in
     if is_dir fs p then bindE (classify_resnet50_repeat env fs p i) (\<lambda>r. Inr (rn_result r))
     else Inr (missing_repeat i (Some ''fail'')))"

definition analyze_resnet50 :: "env \<Rightarrow> fs \<Rightarrow> path \<Rightarrow> (string, string) dict \<Rightarrow> analysis res" where
  "analyze_resnet50 env fs d result = bindE (requested_repeats result) (\<lambda>requested.
     bindE (mapE (resnet_repeat_at env fs d) [1..<Suc (nat requested)]) (\<lambda>repeats.
     let first_failure = find_first repeat_failed repeats;
         exact = (first_failure = None \<and> set (map rr_classification repeats) = {''exact-pass''})
     in Inr \<lparr>an_kind = ''resnet50'', an_status = (if first_failure = None then ''pass'' else ''fail''),
          an_classification = (case first_failure of Some r \<Rightarrow> rr_classification r
             | None \<Rightarrow> if exact \<and> requested = 1 then ''exact-pass'' else if exact then ''stability-pass''
                 else if requested = 1 then ''execution-pass-oracle-pending'' else ''execution-stability-pass-oracle-pending''),
          an_correctness = Some (if exact then ''pass'' else if first_failure = None then ''inconclusive'' else ''fail''),
          an_requested = Some requested, an_pass_count = filter_count (\<lambda>r. \<not> repeat_failed r) repeats,
          an_first_failure = first_failure, an_repeats = repeats, an_hashes = output_hashes repeats\<rparr>))"

subsection \<open>The verdict on a run\<close>

record verdict =
  vd_status :: string
  vd_classification :: string
  vd_progress :: string
  vd_irq :: irq_evidence
  vd_target_status :: int

text \<open>The status and classification of the workload of a mode, as far as the verdict needs them.\<close>

definition mode_analysis :: "env \<Rightarrow> fs \<Rightarrow> path \<Rightarrow> (string, string) dict \<Rightarrow> (string \<times> string) option res" where
  "mode_analysis env fs d result =
     (let mode = dict_get result ''mode'' in
      if mode = Some ''runtime-sdp'' then Inr (Some (sd_status (analyze_sdp env fs d), sd_classification (analyze_sdp env fs d)))
      else if mode = Some ''lenet'' then bindE (analyze_lenet env fs d result) (\<lambda>a. Inr (Some (an_status a, an_classification a)))
      else if mode = Some ''resnet50'' then bindE (analyze_resnet50 env fs d result) (\<lambda>a. Inr (Some (an_status a, an_classification a)))
      else Inr None)"

definition analyze_board_workload :: "env \<Rightarrow> fs \<Rightarrow> path \<Rightarrow> (string, string) dict \<Rightarrow> string list \<Rightarrow> verdict option res" where
  "analyze_board_workload env fs d result bad_patterns =
     bindE (mode_analysis env fs d result) (\<lambda>a. case a of
         None \<Rightarrow> Inr None
       | Some (status, classification) \<Rightarrow>
           bindE (irq_evidence fs d ''interrupts-before.txt'' ''interrupts-after.txt'') (\<lambda>irq.
           bindE (noneE (ValueError ''invalid literal for int()'') (py_int (dict_get_or result ''status'' ''1''))) (\<lambda>target.
           Inr (Some \<lparr>vd_status = (if target \<noteq> 0 \<or> bad_patterns \<noteq> [] then ''fail'' else status),
                vd_classification = (if bad_patterns \<noteq> [] then ''kernel-log-failure'' else classification),
                vd_progress = classification, vd_irq = irq, vd_target_status = target\<rparr>))))"

subsection \<open>The archive\<close>

datatype member_kind = Regular string | Directory | SymLink | HardLink | Special

record member =
  mb_name :: string
  mb_kind :: member_kind

definition pure_parts :: "string \<Rightarrow> path" where
  "pure_parts s = rel_path s"

text \<open>One member: absolute names, parent references and links are refused; a directory writes nothing.\<close>

definition extract_member :: "path \<Rightarrow> member \<Rightarrow> fs \<times> string list \<Rightarrow> (fs \<times> string list) res" where
  "extract_member destination m = (\<lambda>(fs, extracted).
     let parts = pure_parts (mb_name m) in
     if starts_with (mb_name m) ''/'' \<or> ''..'' \<in> set parts then Inl (ValueError ''unsafe board artifact path'')
     else (case mb_kind m of
         SymLink \<Rightarrow> Inl (ValueError ''links are not allowed in board artifacts'')
       | HardLink \<Rightarrow> Inl (ValueError ''links are not allowed in board artifacts'')
       | Directory \<Rightarrow> Inr (fs, extracted)
       | Special \<Rightarrow> Inl (ValueError ''unsupported board artifact member'')
       | Regular c \<Rightarrow> Inr (write_file (destination @ parts) c fs, extracted @ [mb_name m])))"

definition safe_extract :: "member list \<Rightarrow> path \<Rightarrow> fs \<Rightarrow> (fs \<times> string list) res" where
  "safe_extract members destination fs =
     bindE (foldE (extract_member destination) members (fs, [])) (\<lambda>(fs', extracted). Inr (fs', sort extracted))"

definition rglob :: "fs \<Rightarrow> path \<Rightarrow> string \<Rightarrow> path list" where
  "rglob fs d name = List.filter (\<lambda>q. strict_prefix d q \<and> last q = name) (dict_keys fs)"

definition depth_below :: "path \<Rightarrow> path \<Rightarrow> nat" where
  "depth_below d p = length p - length d"

text \<open>The one result file at the least depth.\<close>

definition run_level_result :: "fs \<Rightarrow> path \<Rightarrow> path res" where
  "run_level_result fs d =
     (let files = rglob fs d ''result.env'' in
      if files = [] then Inl (ValueError ''board artifact does not contain result.env'')
      else let least = Min (set (map (depth_below d) files)); rs = List.filter (\<lambda>p. depth_below d p = least) files in
        case rs of [p] \<Rightarrow> Inr p | _ \<Rightarrow> Inl (ValueError ''expected one run-level result.env in board artifact''))"

definition bad_kernel_lines :: "fs \<Rightarrow> path \<Rightarrow> string list" where
  "bad_kernel_lines fs d = (case rglob fs d ''bad-kernel-patterns.txt'' of
       [p] \<Rightarrow> List.filter (\<lambda>l. strip l \<noteq> []) (splitlines (read_opt fs p)) | _ \<Rightarrow> [])"

record import_result =
  im_mode :: string
  im_status :: string
  im_board_status :: int
  im_members :: "string list"
  im_bad :: "string list"
  im_verdict :: "verdict option"

definition import_board_artifact :: "env \<Rightarrow> (string \<Rightarrow> member list) \<Rightarrow> path \<Rightarrow> path \<Rightarrow> path option \<Rightarrow> fs \<Rightarrow> (import_result \<times> fs) res" where
  "import_board_artifact env untar archive_path out_dir serial_log fs =
     bindE (read_text fs archive_path) (\<lambda>archive.
     let extract_dir = out_dir @ [''board''] in
     bindE (safe_extract (untar archive) extract_dir fs) (\<lambda>(fs1, members).
     bindE (run_level_result fs1 extract_dir) (\<lambda>run_result.
     bindE (read_text fs1 run_result) (\<lambda>txt.
     let result = parse_env txt; mode = dict_get_or result ''mode'' ''unknown'' in
     bindE (noneE (ValueError ''invalid literal for int()'') (py_int (dict_get_or result ''status'' ''1''))) (\<lambda>board_status.
     let bad = bad_kernel_lines fs1 extract_dir; stored = out_dir @ [''board-artifact.tar.gz''] in
     bindE (if archive_path = stored then Inr fs1 else copy_file archive_path stored fs1) (\<lambda>fs2.
     bindE (case serial_log of None \<Rightarrow> Inr fs2 | Some s \<Rightarrow> copy_file s (out_dir @ [''serial.log'']) fs2) (\<lambda>fs3.
     bindE (analyze_board_workload env fs3 (butlast run_result) result bad) (\<lambda>v.
     Inr (\<lparr>im_mode = mode,
           im_status = (case v of None \<Rightarrow> if board_status = 0 \<and> bad = [] then ''pass'' else ''fail'' | Some w \<Rightarrow> vd_status w),
           im_board_status = board_status, im_members = members, im_bad = bad, im_verdict = v\<rparr>, fs3)))))))))"

definition run_board_artifact_import :: "env \<Rightarrow> (string \<Rightarrow> member list) \<Rightarrow> path \<Rightarrow> path \<Rightarrow> path option \<Rightarrow> fs \<Rightarrow> int" where
  "run_board_artifact_import env untar archive_path out_dir serial_log fs =
     (case import_board_artifact env untar archive_path out_dir serial_log fs of
        Inl e \<Rightarrow> 1 | Inr (r, _) \<Rightarrow> if im_status r = ''pass'' then 0 else 1)"

subsection \<open>Facts\<close>

lemma extract_member_iff:
  "extract_member dest m (fs, ex) = Inr (fs', ex') \<longleftrightarrow>
     \<not> starts_with (mb_name m) ''/'' \<and> ''..'' \<notin> set (pure_parts (mb_name m)) \<and>
     (case mb_kind m of Directory \<Rightarrow> fs' = fs \<and> ex' = ex
      | Regular c \<Rightarrow> fs' = write_file (dest @ pure_parts (mb_name m)) c fs \<and> ex' = ex @ [mb_name m]
      | _ \<Rightarrow> False)"
  by (auto simp: extract_member_def Let_def split: member_kind.splits if_splits)

definition safe_member :: "member \<Rightarrow> bool" where
  "safe_member m = (\<not> starts_with (mb_name m) ''/'' \<and> ''..'' \<notin> set (pure_parts (mb_name m)) \<and>
     (case mb_kind m of Regular _ \<Rightarrow> True | Directory \<Rightarrow> True | _ \<Rightarrow> False))"

lemma extract_fold:
  "foldE (extract_member dest) ms (fs, ex) = Inr (fs', ex') \<Longrightarrow>
     list_all safe_member ms \<and> (\<not> prefix dest q \<longrightarrow> read_text fs' q = read_text fs q)"
proof (induction ms arbitrary: fs ex)
  case (Cons m ms)
  then obtain fs1 ex1 where m: "extract_member dest m (fs, ex) = Inr (fs1, ex1)"
    and rest: "foldE (extract_member dest) ms (fs1, ex1) = Inr (fs', ex')"
    by (auto simp: bindE_Inr_iff)
  from m have "safe_member m" "\<not> prefix dest q \<longrightarrow> read_text fs1 q = read_text fs q"
    by (auto simp: extract_member_iff safe_member_def split: member_kind.splits)
  with Cons.IH [OF rest] show ?case by auto
qed simp



text \<open>A LeNet repeat is classified as a pass exactly when the runtime ended with status 0 without
  timing out, interrupts arrived, the completed operations are the expected sequence, and the output
  vector is the expected one.\<close>

theorem lenet_pass:
  "lenet_class timeout status initiated irq operations output = ''pass'' \<longleftrightarrow>
     \<not> timeout \<and> status = Some 0 \<and> (\<exists>n. irq = Some n \<and> 0 < n) \<and>
     operations = EXPECTED_LENET_OPERATIONS \<and> output = EXPECTED_LENET_OUTPUT"
proof -
  have "EXPECTED_LENET_OPERATIONS \<noteq> []" "EXPECTED_LENET_OUTPUT \<noteq> []"
    by (simp_all add: EXPECTED_LENET_OPERATIONS_def EXPECTED_LENET_OUTPUT_def)
  then show ?thesis
    by (auto simp: lenet_class_def no_irq_def not_le split: option.splits)
qed

text \<open>A kernel trace whose reads are properly nested, each end matching its begin.\<close>

inductive nested :: "csb_action list \<Rightarrow> bool" where
  nested_nil: "nested []"
| nested_cons: "nested xs \<Longrightarrow> nested ys \<Longrightarrow> nested (Begin o' # xs @ Finish o' # ys)"

lemma nested_fold: "nested xs \<Longrightarrow> fold csb_step xs pending = pending"
  by (induction arbitrary: pending rule: nested.induct) (simp_all add: csb_step_def)

lemma unreturned_fold:
  assumes "nested ys"
  shows "fold csb_step (xs @ Begin o' # ys) [] = o' # fold csb_step xs []"
  using assms by (simp add: nested_fold) (simp add: csb_step_def)

text \<open>In a kernel log whose traced CSB reads all return the import reports no unreturned read, and
  where the properly nested reads after a begin never include its end, it reports that very read with
  its physical address.\<close>

theorem unreturned_read:
  "(nested (csb_actions txt) \<longrightarrow> parse_unreturned_csb_read txt = None) \<and>
   (\<forall>xs ys offset. csb_actions txt = xs @ Begin offset # ys \<and> nested ys \<longrightarrow>
      (\<exists>r. parse_unreturned_csb_read txt = Some r \<and> cr_offset r = hex8 offset \<and>
        cr_physical r = hex8 (0xA0000000 + offset)))"
proof -
  have "\<exists>r. parse_unreturned_csb_read txt = Some r \<and> cr_offset r = hex8 offset \<and> cr_physical r = hex8 (0xA0000000 + offset)"
    if "csb_actions txt = xs @ Begin offset # ys" "nested ys" for xs ys offset
    using unreturned_fold [OF that(2), of xs offset] that(1) by (simp add: parse_unreturned_csb_read_def)
  then show ?thesis by (auto simp: parse_unreturned_csb_read_def nested_fold)
qed

definition wit_csb_log :: string where
  "wit_csb_log = ''nvdla-trace csb-read begin offset=0x00008004 nvdla-trace csb-read end offset=0x00008004 nvdla-trace csb-read begin offset=0x00009004''"

lemma unreturned_read_witness:
  "\<exists>r. parse_unreturned_csb_read wit_csb_log = Some r \<and> cr_offset r = ''0x00009004'' \<and> cr_physical r = ''0xa0009004''"
proof -
  have a: "csb_actions wit_csb_log = [Begin 0x8004, Finish 0x8004] @ Begin 0x9004 # []" by code_simp
  have h: "hex8 0x9004 = ''0x00009004''" "hex8 (0xA0000000 + 0x9004) = ''0xa0009004''" by code_simp+
  from unreturned_read [of wit_csb_log] a nested_nil show ?thesis unfolding h [symmetric] by blast
qed


lemma ranked_sorted:
  "sorted_wrt (\<lambda>(i, v) (j, w). w < v \<or> (v = w \<and> i < j)) (ranked values)"
proof -
  let ?k = "\<lambda>(i, v). (- v, i)"
  have d: "distinct (map ?k (ranked values))"
  proof -
    have "distinct (zip [0..<length values] values)" by (simp add: distinct_zipI1)
    then have "distinct (ranked values)" by (simp add: ranked_def)
    moreover have "inj_on ?k (set (ranked values))" by (auto simp: inj_on_def)
    ultimately show ?thesis by (simp add: distinct_map)
  qed
  have "sorted (map ?k (ranked values))" by (simp add: ranked_def)
  with d have "sorted_wrt (<) (map ?k (ranked values))" by (simp add: strict_sorted_iff)
  then show ?thesis by (auto simp: sorted_wrt_map less_prod_def' elim: sorted_wrt_mono_rel [rotated])
qed

text \<open>When the target listed no top five, the import ranks the integer outputs itself: the five first
  of all classes ordered by falling value and, among equal values, by rising class index.\<close>

theorem top5_ranking:
  "\<exists>L. mset L = mset (zip [0..<length xs] xs) \<and>
     sorted_wrt (\<lambda>(i, v) (j, w). w < v \<or> (v = w \<and> i < j)) L \<and>
     top5_of xs = map (\<lambda>(rank, (i, v)). \<lparr>te_rank = int rank, te_index = int i, te_value = v\<rparr>) (enumerate1 (take 5 L))"
  using ranked_sorted [of xs] by (intro exI [of _ "ranked xs"]) (simp add: top5_of_def ranked_def)

lemma verdict_pass:
  assumes "analyze_board_workload env fs d result bad = Inr (Some v)" and "vd_status v = ''pass''"
  shows "bad = [] \<and> py_int (dict_get_or result ''status'' ''1'') = Some 0"
proof -
  from assms(1) [unfolded analyze_board_workload_def bindE_Inr_iff]
  obtain a where a: "(case a of None \<Rightarrow> Inr None | Some (status, classification) \<Rightarrow>
      bindE (irq_evidence fs d ''interrupts-before.txt'' ''interrupts-after.txt'') (\<lambda>irq.
      bindE (noneE (ValueError ''invalid literal for int()'') (py_int (dict_get_or result ''status'' ''1''))) (\<lambda>target.
      Inr (Some \<lparr>vd_status = (if target \<noteq> 0 \<or> bad \<noteq> [] then ''fail'' else status),
           vd_classification = (if bad \<noteq> [] then ''kernel-log-failure'' else classification),
           vd_progress = classification, vd_irq = irq, vd_target_status = target\<rparr>)))) = Inr (Some v)"
    by (elim exE conjE)
  then obtain irq target status classification where t: "py_int (dict_get_or result ''status'' ''1'') = Some target"
    and v: "v = \<lparr>vd_status = (if target \<noteq> 0 \<or> bad \<noteq> [] then ''fail'' else status),
           vd_classification = (if bad \<noteq> [] then ''kernel-log-failure'' else classification),
           vd_progress = classification, vd_irq = irq, vd_target_status = target\<rparr>"
    by (cases a) (auto simp only: option.case prod.case bindE_Inr_iff noneE_Inr_iff sum.inject option.inject
        option.distinct split: prod.splits)
  from v assms(2) have "target = 0 \<and> bad = []" by (cases "target \<noteq> 0 \<or> bad \<noteq> []") auto
  with t show ?thesis by simp
qed

text \<open>An import passes only when the target reported status 0 and the archive lists no bad kernel
  message, whatever the classification of the workload.\<close>

theorem import_pass_clean:
  assumes "import_board_artifact env untar archive_path out_dir serial_log fs = Inr (r, fs')"
    and "im_status r = ''pass''"
  shows "im_board_status r = 0 \<and> im_bad r = []"
proof -
  from assms(1) [unfolded import_board_artifact_def bindE_Inr_iff noneE_Inr_iff Let_def split_paired_Ex prod.case sum.inject prod.inject]
  obtain d result status v where
    s: "py_int (dict_get_or result ''status'' ''1'') = Some status" and r: "im_board_status r = status"
    and v: "\<exists>fs3. analyze_board_workload env fs3 d result (im_bad r) = Inr v"
    and st: "im_status r = (case v of None \<Rightarrow> if status = 0 \<and> im_bad r = [] then ''pass'' else ''fail'' | Some w \<Rightarrow> vd_status w)"
    by (elim exE conjE) (rule that, assumption, hypsubst, simp only: import_result.select_convs,
      hypsubst, simp only: import_result.select_convs, rule exI, assumption, hypsubst, simp only: import_result.select_convs)
  show ?thesis
  proof (cases v)
    case None
    with st assms(2) r show ?thesis by (auto split: if_splits)
  next
    case (Some w)
    with v st assms(2) s r verdict_pass show ?thesis by fastforce
  qed
qed


lemma import_pass_clean_witness:
  "\<exists>r fs'. import_board_artifact wit_env (\<lambda>c. [\<lparr>mb_name = ''run/result.env'', mb_kind = Regular c\<rparr>])
      [''a.tar.gz''] [''out''] None [([''a.tar.gz''], ''mode=shell'' @ [NL] @ ''status=0'')] = Inr (r, fs') \<and>
    im_mode r = ''shell'' \<and> im_board_status r = 0"
proof -
  have "(case import_board_artifact wit_env (\<lambda>c. [\<lparr>mb_name = ''run/result.env'', mb_kind = Regular c\<rparr>])
      [''a.tar.gz''] [''out''] None [([''a.tar.gz''], ''mode=shell'' @ [NL] @ ''status=0'')] of
      Inl _ \<Rightarrow> False | Inr (r, _) \<Rightarrow> im_mode r = ''shell'' \<and> im_status r = ''pass'')" by code_simp
  then obtain r fs' where i: "import_board_artifact wit_env (\<lambda>c. [\<lparr>mb_name = ''run/result.env'', mb_kind = Regular c\<rparr>])
      [''a.tar.gz''] [''out''] None [([''a.tar.gz''], ''mode=shell'' @ [NL] @ ''status=0'')] = Inr (r, fs')"
    and r: "im_mode r = ''shell''" "im_status r = ''pass''" by (auto split: sum.splits)
  from import_pass_clean [OF i r(2)] i r show ?thesis by blast
qed

end
