(* ===== verification/Stats.thy ===== *)
theory Stats
  imports PyVal
begin

text \<open>
  The statistics of the performance reports (tools/nvdla_test_framework/performance.py): percentiles by
  linear interpolation, the summary of a series of durations, scalar summaries, and the bootstrap of
  session medians. Numbers are rational: rounding is not modelled. The square root of the standard
  deviation and the generator behind the bootstrap's samples are parameters: \<open>root\<close> and the lists of
  drawn positions.
\<close>

text \<open>\<open>xs[i]\<close> with Python's negative positions.\<close>

definition py_nth :: "'a list \<Rightarrow> int \<Rightarrow> 'a res" where
  "py_nth xs i = (if 0 \<le> i \<and> i < int (length xs) then Inr (xs ! nat i)
     else if i < 0 \<and> 0 \<le> i + int (length xs) then Inr (xs ! nat (i + int (length xs)))
     else Inl IndexError)"

definition percentile :: "rat list \<Rightarrow> rat \<Rightarrow> rat res" where
  "percentile vs quantile =
     (let ordered = sort vs in
      bindE (guardE (ordered \<noteq> []) (ValueError ''percentile requires at least one value'')) (\<lambda>_.
      let position = of_int (int (length ordered) - 1) * quantile; lower_index = \<lfloor>position\<rfloor>; upper_index = \<lceil>position\<rceil> in
      if lower_index = upper_index then py_nth ordered lower_index
      else let fraction = position - of_int lower_index in
        bindE (py_nth ordered lower_index) (\<lambda>l. bindE (py_nth ordered upper_index) (\<lambda>u.
        Inr (l * (1 - fraction) + u * fraction)))))"

definition fmean :: "rat list \<Rightarrow> rat res" where
  "fmean vs = (if vs = [] then Inl (ValueError ''fmean requires at least one data point'') else Inr (sum_list vs / of_nat (length vs)))"

definition median :: "rat list \<Rightarrow> rat res" where
  "median vs = (let s = sort vs; n = length s in
     if n = 0 then Inl (ValueError ''no median for empty data'')
     else if odd n then Inr (s ! (n div 2)) else Inr ((s ! (n div 2 - 1) + s ! (n div 2)) / 2))"

text \<open>The sample variance, whose root is the standard deviation.\<close>

definition variance :: "rat list \<Rightarrow> rat" where
  "variance vs = (let m = sum_list vs / of_nat (length vs) in
     sum_list (map (\<lambda>v. (v - m) * (v - m)) vs) / of_nat (length vs - 1))"

record summary =
  sm_count :: nat
  sm_mean :: rat
  sm_median :: rat
  sm_deviation :: rat
  sm_variation :: rat
  sm_minimum :: rat
  sm_maximum :: rat
  sm_q1 :: rat
  sm_q3 :: rat
  sm_iqr :: rat
  sm_p5 :: rat
  sm_p95 :: rat
  sm_throughput :: "rat option"
  sm_outliers :: nat
  sm_fences :: "rat \<times> rat"

definition summarize_values :: "(rat \<Rightarrow> rat) \<Rightarrow> rat list \<Rightarrow> summary res" where
  "summarize_values rt data =
     bindE (guardE (data \<noteq> []) (ValueError ''summary requires at least one value'')) (\<lambda>_.
     bindE (fmean data) (\<lambda>m.
     bindE (percentile data (1 / 4)) (\<lambda>q1. bindE (percentile data (3 / 4)) (\<lambda>q3.
     let iqr = q3 - q1; low_fence = q1 - 3 / 2 * iqr; high_fence = q3 + 3 / 2 * iqr;
         deviation = (if 1 < length data then rt (variance data) else 0) in
     bindE (median data) (\<lambda>md. bindE (percentile data (5 / 100)) (\<lambda>p5. bindE (percentile data (95 / 100)) (\<lambda>p95.
     Inr \<lparr>sm_count = length data, sm_mean = m, sm_median = md, sm_deviation = deviation,
          sm_variation = (if 1 < length data \<and> m \<noteq> 0 then deviation / m else 0),
          sm_minimum = Min (set data), sm_maximum = Max (set data), sm_q1 = q1, sm_q3 = q3, sm_iqr = iqr, sm_p5 = p5, sm_p95 = p95,
          sm_throughput = (if m \<noteq> 0 then Some (1000000000 / m) else None),
          sm_outliers = filter_count (\<lambda>v. v < low_fence \<or> high_fence < v) data, sm_fences = (low_fence, high_fence)\<rparr>)))))))"

definition opt_float :: "rat option \<Rightarrow> json" where
  "opt_float v = (case v of None \<Rightarrow> JNull | Some r \<Rightarrow> JFloat r)"

definition duration_fields :: "summary \<Rightarrow> (string \<times> json) list" where
  "duration_fields s = [(''count'', JInt (int (sm_count s))), (''mean_ns'', JFloat (sm_mean s)), (''median_ns'', JFloat (sm_median s)),
     (''standard_deviation_ns'', JFloat (sm_deviation s)), (''coefficient_of_variation'', JFloat (sm_variation s)),
     (''minimum_ns'', JFloat (sm_minimum s)), (''maximum_ns'', JFloat (sm_maximum s)), (''q1_ns'', JFloat (sm_q1 s)), (''q3_ns'', JFloat (sm_q3 s)),
     (''iqr_ns'', JFloat (sm_iqr s)), (''p5_ns'', JFloat (sm_p5 s)), (''p95_ns'', JFloat (sm_p95 s)),
     (''outlier_count'', JInt (int (sm_outliers s))), (''outlier_fences_ns'', JList [JFloat (fst (sm_fences s)), JFloat (snd (sm_fences s))])]"

definition summary_json :: "summary \<Rightarrow> json" where
  "summary_json s = JDict (duration_fields s @ [(''throughput_images_per_second'', opt_float (sm_throughput s))])"

definition duration_summary :: "(rat \<Rightarrow> rat) \<Rightarrow> rat list \<Rightarrow> json res" where
  "duration_summary rt vs = bindE (summarize_values rt vs) (\<lambda>s. Inr (JDict (duration_fields s)))"

definition scalar_fields :: "rat list \<Rightarrow> (string \<times> json) list res" where
  "scalar_fields data =
     bindE (guardE (data \<noteq> []) (ValueError ''scalar summary requires at least one value'')) (\<lambda>_.
     bindE (fmean data) (\<lambda>m. bindE (median data) (\<lambda>md. bindE (percentile data (5 / 100)) (\<lambda>p5. bindE (percentile data (95 / 100)) (\<lambda>p95.
     Inr [(''count'', JInt (int (length data))), (''mean'', JFloat m), (''median'', JFloat md), (''minimum'', JFloat (Min (set data))),
       (''maximum'', JFloat (Max (set data))), (''p5'', JFloat p5), (''p95'', JFloat p95)])))))"

definition scalar_summary :: "rat list \<Rightarrow> json res" where
  "scalar_summary data = bindE (scalar_fields data) (\<lambda>f. Inr (JDict f))"

text \<open>The estimates of the bootstrap: one per list of drawn positions.\<close>

definition bootstrap_estimate :: "rat list \<Rightarrow> nat list \<Rightarrow> rat res" where
  "bootstrap_estimate medians draw = bindE (mapE (\<lambda>i. py_nth medians (int i)) draw) median"

record bootstrap =
  bs_count :: nat
  bs_estimate :: rat
  bs_lower :: rat
  bs_upper :: rat

definition bootstrap_session_medians :: "nat list list \<Rightarrow> rat list \<Rightarrow> bootstrap res" where
  "bootstrap_session_medians draws medians =
     bindE (guardE (medians \<noteq> []) (ValueError ''bootstrap requires session medians'')) (\<lambda>_.
     bindE (mapE (bootstrap_estimate medians) draws) (\<lambda>estimates.
     bindE (median medians) (\<lambda>m. bindE (percentile estimates (25 / 1000)) (\<lambda>l. bindE (percentile estimates (975 / 1000)) (\<lambda>u.
     Inr \<lparr>bs_count = length medians, bs_estimate = m, bs_lower = l, bs_upper = u\<rparr>)))))"

definition bootstrap_json :: "nat \<Rightarrow> bootstrap \<Rightarrow> json" where
  "bootstrap_json iterations b = JDict [(''method'', JStr ''deterministic percentile bootstrap of independent session medians''),
     (''confidence'', JFloat (95 / 100)), (''iterations'', JInt (int iterations)), (''seed'', JInt 0), (''session_count'', JInt (int (bs_count b))),
     (''estimate_ns'', JFloat (bs_estimate b)), (''lower_ns'', JFloat (bs_lower b)), (''upper_ns'', JFloat (bs_upper b))]"

subsection \<open>Facts\<close>

lemma sort_Nil_iff [simp]: "sort xs = [] \<longleftrightarrow> xs = []"
  by (metis length_0_conv length_sort)

text \<open>Linear interpolation in a sorted list.\<close>

definition interpolated :: "rat list \<Rightarrow> rat \<Rightarrow> rat" where
  "interpolated s x = s ! nat \<lfloor>x\<rfloor> * (1 - (x - of_int \<lfloor>x\<rfloor>)) + s ! nat \<lceil>x\<rceil> * (x - of_int \<lfloor>x\<rfloor>)"

lemma percentile_interpolated:
  assumes "vs \<noteq> []" and "0 \<le> q" and "q \<le> 1"
  shows "percentile vs q = Inr (interpolated (sort vs) (of_int (int (length vs) - 1) * q))"
proof -
  let ?s = "sort vs" and ?n = "int (length vs) - 1"
  let ?x = "of_int ?n * q :: rat"
  have n: "0 \<le> ?n" using assms(1) by (cases vs) auto
  then have n': "0 \<le> (of_int ?n :: rat)" by (simp only: of_int_0_le_iff)
  have x: "0 \<le> ?x" by (rule mult_nonneg_nonneg [OF n' assms(2)])
  have x': "?x \<le> of_int ?n" using mult_left_mono [OF assms(3) n'] by (simp only: mult_1_right)
  from x have l0: "0 \<le> \<lfloor>?x\<rfloor>" by (simp only: zero_le_floor)
  from x' have u: "\<lceil>?x\<rceil> \<le> ?n" by (simp only: ceiling_le_iff)
  have lu: "\<lfloor>?x\<rfloor> \<le> \<lceil>?x\<rceil>" by (rule floor_le_ceiling)
  note l = l0 order_trans [OF lu u] and u = order_trans [OF l0 lu] u
  have nth: "py_nth ?s i = Inr (?s ! nat i)" if "0 \<le> i" "i \<le> ?n" for i
    using that by (simp add: py_nth_def)
  have ne: "?s \<noteq> []" using assms(1) by (metis length_0_conv length_sort)
  show ?thesis
  proof (cases "\<lfloor>?x\<rfloor> = \<lceil>?x\<rceil>")
    case True
    then have "?x = of_int \<lfloor>?x\<rfloor>" using of_int_floor_le [of ?x] le_of_int_ceiling [of ?x] by (simp only: order_antisym_conv)
    then have "interpolated ?s ?x = ?s ! nat \<lfloor>?x\<rfloor>" by (simp add: interpolated_def)
    with True ne nth [OF u] show ?thesis by (simp add: percentile_def Let_def)
  next
    case False
    with ne nth [OF l] nth [OF u] show ?thesis by (simp add: percentile_def Let_def interpolated_def)
  qed
qed

lemma ceiling_index:
  assumes "x \<le> (of_int (int (length s) - 1) :: rat)" and "s \<noteq> []"
  shows "nat \<lceil>x\<rceil> < length s"
proof -
  have "\<lceil>x\<rceil> \<le> int (length s) - 1" using assms(1) by (simp only: ceiling_le_iff)
  moreover have "0 < length s" using assms(2) by simp
  ultimately show ?thesis by linarith
qed

lemma interpolated_between:
  assumes "sorted s" and "0 \<le> x" and "x \<le> of_int (int (length s) - 1)" and "s \<noteq> []"
  shows "s ! nat \<lfloor>x\<rfloor> \<le> interpolated s x" and "interpolated s x \<le> s ! nat \<lceil>x\<rceil>"
proof -
  let ?l = "s ! nat \<lfloor>x\<rfloor>" and ?u = "s ! nat \<lceil>x\<rceil>" and ?f = "x - of_int \<lfloor>x\<rfloor>"
  from ceiling_index [OF assms(3,4)] have lu: "?l \<le> ?u" using assms(1) by (intro sorted_nth_mono) (auto simp: nat_mono floor_le_ceiling)
  have f: "0 \<le> ?f" "?f \<le> 1" by linarith+
  have e: "interpolated s x = ?l + ?f * (?u - ?l)" by (simp add: interpolated_def algebra_simps)
  have "0 \<le> ?f * (?u - ?l)" using lu f(1) by simp
  then show "?l \<le> interpolated s x" unfolding e by simp
  have "?f * (?u - ?l) \<le> 1 * (?u - ?l)" using lu f(2) by (intro mult_right_mono) simp_all
  then have "?l + ?f * (?u - ?l) \<le> ?l + (?u - ?l)" by (simp only: mult_1_left add_le_cancel_left)
  then show "interpolated s x \<le> ?u" unfolding e by simp
qed

lemma interpolated_mono:
  assumes s: "sorted s" "s \<noteq> []" and x: "0 \<le> x" "x \<le> y" "y \<le> of_int (int (length s) - 1)"
  shows "interpolated s x \<le> interpolated s y"
proof (cases "\<lfloor>x\<rfloor> = \<lfloor>y\<rfloor>")
  case False
  with x have "\<lceil>x\<rceil> \<le> \<lfloor>y\<rfloor>" by linarith
  moreover have "nat \<lfloor>y\<rfloor> < length s" using ceiling_index [OF x(3) s(2)] floor_le_ceiling [of y] by linarith
  ultimately have "s ! nat \<lceil>x\<rceil> \<le> s ! nat \<lfloor>y\<rfloor>" using s(1) by (intro sorted_nth_mono) (auto simp: nat_mono)
  with interpolated_between(2) [OF s(1), of x] interpolated_between(1) [OF s(1), of y] x s show ?thesis by linarith
next
  case True
  let ?f = "\<lambda>z. z - of_int \<lfloor>y\<rfloor> :: rat"
  from ceiling_index [OF x(3) s(2)] have lu: "s ! nat \<lfloor>y\<rfloor> \<le> s ! nat \<lceil>y\<rceil>" using s(1) by (intro sorted_nth_mono) (auto simp: nat_mono floor_le_ceiling)
  have "interpolated s x = s ! nat \<lfloor>y\<rfloor> + ?f x * (s ! nat \<lceil>y\<rceil> - s ! nat \<lfloor>y\<rfloor>)"
  proof (cases "?f x = 0")
    case False
    then have "\<lceil>x\<rceil> = \<lceil>y\<rceil>" using True x(2) by (metis add_diff_cancel_left' ceiling_altdef diff_zero eq_iff_diff_eq_0 le_less order.antisym of_int_floor_le)
    then show ?thesis by (simp add: interpolated_def True algebra_simps)
  qed (simp add: interpolated_def True)
  moreover have "interpolated s y = s ! nat \<lfloor>y\<rfloor> + ?f y * (s ! nat \<lceil>y\<rceil> - s ! nat \<lfloor>y\<rfloor>)"
    by (simp add: interpolated_def algebra_simps)
  moreover have "?f x * (s ! nat \<lceil>y\<rceil> - s ! nat \<lfloor>y\<rfloor>) \<le> ?f y * (s ! nat \<lceil>y\<rceil> - s ! nat \<lfloor>y\<rfloor>)"
    using lu x(2) by (intro mult_right_mono) auto
  ultimately show ?thesis by linarith
qed


lemma position_bounds:
  assumes "vs \<noteq> []" and "0 \<le> q" and "q \<le> (1::rat)"
  shows "0 \<le> of_int (int (length (sort vs)) - 1) * q" and "of_int (int (length (sort vs)) - 1) * q \<le> of_int (int (length (sort vs)) - 1)"
    and "sort vs \<noteq> []"
proof -
  have n: "0 \<le> (of_int (int (length (sort vs)) - 1) :: rat)" using assms(1) by (cases vs) (simp_all only: of_int_0_le_iff length_sort, simp_all)
  show "0 \<le> of_int (int (length (sort vs)) - 1) * q" by (rule mult_nonneg_nonneg [OF n assms(2)])
  show "of_int (int (length (sort vs)) - 1) * q \<le> of_int (int (length (sort vs)) - 1)"
    using mult_left_mono [OF assms(3) n] by (simp only: mult_1_right)
  show "sort vs \<noteq> []" using assms(1) by (metis length_0_conv length_sort)
qed

text \<open>A percentile exists, grows with the quantile, and lies between the extreme values.\<close>

lemma percentile_monotone:
  assumes "vs \<noteq> []" and "0 \<le> q" and "q \<le> r" and "r \<le> 1"
  obtains p p' where "percentile vs q = Inr p" and "percentile vs r = Inr p'" and "p \<le> p'"
    and "Min (set vs) \<le> p" and "p' \<le> Max (set vs)"
proof -
  let ?s = "sort vs" and ?k = "of_int (int (length (sort vs)) - 1) :: rat"
  have q1: "q \<le> 1" and r0: "0 \<le> r" using assms by linarith+
  note bq = position_bounds [OF assms(1,2) q1] and br = position_bounds [OF assms(1) r0 assms(4)]
  have eqs: "percentile vs q = Inr (interpolated ?s (?k * q))" "percentile vs r = Inr (interpolated ?s (?k * r))"
    using percentile_interpolated [OF assms(1,2) q1] percentile_interpolated [OF assms(1) r0 assms(4)] by simp_all
  have k: "0 \<le> ?k" using bq by linarith
  have le: "?k * q \<le> ?k * r" by (rule mult_left_mono [OF assms(3) k])
  have m: "interpolated ?s (?k * q) \<le> interpolated ?s (?k * r)"
    by (rule interpolated_mono [OF sorted_sort bq(3) bq(1) le br(2)])
  have inside: "?s ! nat i \<in> set vs" if "nat i < length ?s" for i using nth_mem [OF that] by simp
  have "nat \<lfloor>?k * q\<rfloor> < length ?s" using ceiling_index [OF bq(2,3)] floor_le_ceiling [of "?k * q"] by linarith
  from inside [OF this] have lo: "Min (set vs) \<le> interpolated ?s (?k * q)"
    using interpolated_between(1) [OF sorted_sort bq] by (meson List.finite_set Min_le order_trans)
  from inside [OF ceiling_index [OF br(2,3)]] have hi: "interpolated ?s (?k * r) \<le> Max (set vs)"
    using interpolated_between(2) [OF sorted_sort br] by (meson List.finite_set Max_ge order_trans)
  show thesis by (rule that [OF eqs m lo hi])
qed


text \<open>The median is the percentile at one half.\<close>

lemma median_percentile:
  assumes "vs \<noteq> []"
  shows "median vs = percentile vs (1 / 2)"
proof (cases "odd (length vs)")
  case True
  then obtain k where k: "length vs = 2 * k + 1" by (elim oddE)
  then have "(of_int (int (length vs) - 1) * (1 / 2) :: rat) = of_int (int k)" by simp
  with assms k show ?thesis by (simp add: percentile_interpolated [OF assms] interpolated_def median_def Let_def)
next
  case False
  then obtain k where k: "length vs = 2 * k" by (auto elim: evenE)
  with assms have k0: "0 < k" by (cases k) auto
  have x: "(of_int (int (length vs) - 1) * (1 / 2) :: rat) = of_int (int k) - 1 / 2" by (simp add: k)
  have f: "\<lfloor>(of_int (int k) - 1 / 2 :: rat)\<rfloor> = int k - 1" by linarith
  have c: "\<lceil>(of_int (int k) - 1 / 2 :: rat)\<rceil> = int k" by linarith
  have "percentile vs (1 / 2) = Inr (interpolated (sort vs) (of_int (int k) - 1 / 2))"
    using percentile_interpolated [OF assms, of "1 / 2"] unfolding x by simp
  also have "interpolated (sort vs) (of_int (int k) - 1 / 2) = (sort vs ! (k - 1) + sort vs ! k) / 2"
    unfolding interpolated_def f c using k0 by (simp add: nat_diff_distrib field_simps)
  finally show ?thesis using k k0 assms by (simp add: median_def Let_def)
qed


definition summary_ordered :: "rat list \<Rightarrow> summary \<Rightarrow> bool" where
  "summary_ordered data s \<longleftrightarrow> sm_minimum s = Min (set data) \<and> sm_minimum s \<le> sm_p5 s \<and> sm_p5 s \<le> sm_q1 s \<and> sm_q1 s \<le> sm_median s \<and>
     sm_median s \<le> sm_q3 s \<and> sm_q3 s \<le> sm_p95 s \<and> sm_p95 s \<le> sm_maximum s \<and> sm_maximum s = Max (set data) \<and>
     sm_iqr s = sm_q3 s - sm_q1 s \<and> 0 \<le> sm_iqr s \<and> sm_count s = length data"

lemma mean_between:
  assumes "data \<noteq> []"
  shows "Min (set data) \<le> sum_list data / of_nat (length data)" and "sum_list data / of_nat (length data) \<le> (Max (set data) :: rat)"
proof -
  have "of_nat (length data) * Min (set data) \<le> sum_list data"
    using sum_list_mono [of data "\<lambda>_. Min (set data)" "\<lambda>x. x"] by (simp add: sum_list_triv)
  then show "Min (set data) \<le> sum_list data / of_nat (length data)" using assms by (simp add: le_divide_eq mult.commute)
  have "sum_list data \<le> of_nat (length data) * Max (set data)"
    using sum_list_mono [of data "\<lambda>x. x" "\<lambda>_. Max (set data)"] by (simp add: sum_list_triv)
  then show "sum_list data / of_nat (length data) \<le> Max (set data)" using assms by (simp add: divide_le_eq mult.commute)
qed

text \<open>The summary of a nonempty series exists; its quartiles, median and tail percentiles are
  ordered between the least and the greatest value, its mean lies between them, and the reported
  median is the percentile at one half.\<close>

theorem summary_is_ordered:
  "case summarize_values rt data of
     Inl e \<Rightarrow> data = [] \<and> e = ValueError ''summary requires at least one value''
   | Inr s \<Rightarrow> data \<noteq> [] \<and> summary_ordered data s \<and> sm_minimum s \<le> sm_mean s \<and> sm_mean s \<le> sm_maximum s \<and>
       percentile data (1 / 2) = Inr (sm_median s)"
proof (cases "data = []")
  case False
  note mono = percentile_monotone [OF False]
  obtain a b where 1: "percentile data (5 / 100) = Inr a" "percentile data (1 / 4) = Inr b" "a \<le> b" "Min (set data) \<le> a"
    by (rule mono [of "5 / 100" "1 / 4"]) simp_all
  obtain c where 2: "percentile data (1 / 2) = Inr c" "b \<le> c" by (rule mono [of "1 / 4" "1 / 2"]) (simp_all add: 1)
  obtain d where 3: "percentile data (3 / 4) = Inr d" "c \<le> d" by (rule mono [of "1 / 2" "3 / 4"]) (simp_all add: 2)
  obtain e where 4: "percentile data (95 / 100) = Inr e" "d \<le> e" "e \<le> Max (set data)"
    by (rule mono [of "3 / 4" "95 / 100"]) (simp_all add: 3)
  from False 1 2 3 4 mean_between [OF False] show ?thesis
    by (simp add: summarize_values_def Let_def fmean_def median_percentile summary_ordered_def)
qed (simp add: summarize_values_def)


lemma median_between:
  assumes "vs \<noteq> []"
  obtains m where "median vs = Inr m" and "Min (set vs) \<le> m" and "m \<le> Max (set vs)"
  by (rule percentile_monotone [OF assms, of "1 / 2" "1 / 2"]) (auto simp: median_percentile [OF assms] intro: that)

text \<open>A list of draws is the one the code makes when it draws one position for every median.\<close>

definition draw_ok :: "rat list \<Rightarrow> nat list \<Rightarrow> bool" where
  "draw_ok medians draw \<longleftrightarrow> length draw = length medians \<and> list_all (\<lambda>i. i < length medians) draw"

lemma estimate_between:
  assumes "draw_ok medians draw" and "medians \<noteq> []"
  obtains e where "bootstrap_estimate medians draw = Inr e" and "Min (set medians) \<le> e" and "e \<le> Max (set medians)"
proof -
  let ?sample = "map (\<lambda>i. medians ! i) draw"
  have "mapE (\<lambda>i. py_nth medians (int i)) draw = Inr ?sample"
    using assms(1) by (intro mapE_total) (auto simp: py_nth_def draw_ok_def list_all_iff)
  then have eq: "bootstrap_estimate medians draw = median ?sample" by (simp add: bootstrap_estimate_def)
  have ne: "?sample \<noteq> []" using assms by (auto simp: draw_ok_def)
  have sub: "set ?sample \<subseteq> set medians" using assms(1) by (auto simp: draw_ok_def list_all_iff)
  obtain m where m: "median ?sample = Inr m" "Min (set ?sample) \<le> m" "m \<le> Max (set ?sample)" by (rule median_between [OF ne])
  moreover have "Min (set medians) \<le> Min (set ?sample)" "Max (set ?sample) \<le> Max (set medians)"
    using ne sub by (auto intro!: Min_antimono Max_mono simp del: set_map)
  ultimately show thesis by (intro that [of m]) (auto simp: eq)
qed

lemma estimates_between:
  assumes "list_all (draw_ok medians) draws" and "medians \<noteq> []"
  obtains es where "mapE (bootstrap_estimate medians) draws = Inr es" and "length es = length draws"
    and "\<forall>e \<in> set es. Min (set medians) \<le> e \<and> e \<le> Max (set medians)"
proof -
  define f where "f d = (case bootstrap_estimate medians d of Inr e \<Rightarrow> e | Inl _ \<Rightarrow> 0)" for d
  have each: "bootstrap_estimate medians d = Inr (f d) \<and> Min (set medians) \<le> f d \<and> f d \<le> Max (set medians)" if d: "d \<in> set draws" for d
  proof -
    from assms(1) d have "draw_ok medians d" by (simp add: list_all_iff)
    then obtain e where "bootstrap_estimate medians d = Inr e" "Min (set medians) \<le> e" "e \<le> Max (set medians)"
      by (rule estimate_between [OF _ assms(2)])
    then show ?thesis by (simp add: f_def)
  qed
  have "mapE (bootstrap_estimate medians) draws = Inr (map f draws)" by (rule mapE_total) (simp only: each)
  then show thesis by (rule that) (simp_all add: each)
qed

text \<open>The bootstrap interval of session medians exists for every nonempty series of draws, each
  with one position per median; its ends are in order and it lies, like the estimate, between the least
  and the greatest session median.\<close>

theorem bootstrap_interval:
  assumes "medians \<noteq> []" and "draws \<noteq> []" and "list_all (draw_ok medians) draws"
  shows "\<exists>b. bootstrap_session_medians draws medians = Inr b \<and> Min (set medians) \<le> bs_lower b \<and> bs_lower b \<le> bs_upper b \<and>
    bs_upper b \<le> Max (set medians) \<and> Min (set medians) \<le> bs_estimate b \<and> bs_estimate b \<le> Max (set medians)"
proof -
  obtain es where es: "mapE (bootstrap_estimate medians) draws = Inr es" "length es = length draws"
    "\<forall>e \<in> set es. Min (set medians) \<le> e \<and> e \<le> Max (set medians)" by (rule estimates_between [OF assms(3,1)])
  have ne: "es \<noteq> []" using es(2) assms(2) by auto
  obtain l u where lu: "percentile es (25 / 1000) = Inr l" "percentile es (975 / 1000) = Inr u" "l \<le> u" "Min (set es) \<le> l" "u \<le> Max (set es)"
    by (rule percentile_monotone [OF ne, of "25 / 1000" "975 / 1000"]) simp_all
  obtain m where m: "median medians = Inr m" "Min (set medians) \<le> m" "m \<le> Max (set medians)" by (rule median_between [OF assms(1)])
  have "Min (set medians) \<le> Min (set es)" "Max (set es) \<le> Max (set medians)" using ne es(3) by simp_all
  with lu m es(1) assms(1) show ?thesis by (auto simp: bootstrap_session_medians_def)
qed

lemma bootstrap_interval_witness:
  "\<exists>b. bootstrap_session_medians [[0, 0, 2], [1, 2, 2]] [3, 5, 4] = Inr b \<and> 3 \<le> bs_lower b \<and> bs_lower b \<le> bs_upper b \<and> bs_upper b \<le> 5"
  using bootstrap_interval [of "[3, 5, 4]" "[[0, 0, 2], [1, 2, 2]]"] by (auto simp: draw_ok_def)

end
