(* ===== verification/Workloads.thy ===== *)
theory Workloads
  imports Files Regex "HOL-Library.Word"
begin

text \<open>
  The generated workloads and the exact file comparison
  (tools/nvdla_test_framework/workloads.py). Documents written as JSON are results here, not
  files; the SHA-256 (\<open>sha\<close>) and the git revision of the source tree (\<open>git_sha\<close>) are parameters.
\<close>

subsection \<open>Bytes\<close>

definition write_bytes :: "path \<Rightarrow> int list \<Rightarrow> fs \<Rightarrow> fs" where
  "write_bytes p vs fs = write_file p (map (\<lambda>v. char_of (v mod 256)) vs) fs"

definition int8 :: "int \<Rightarrow> int" where
  "int8 v = (let c = max (- 128) (min 127 v) in if 0 \<le> c then c else c + 256)"

subsection \<open>Exact comparison\<close>

definition CHUNK :: nat where
  "CHUNK = 1048576"

text \<open>The loop of \<open>_first_mismatch\<close>, on what is left of both files.\<close>

function compare_chunks :: "nat \<Rightarrow> string \<Rightarrow> string \<Rightarrow> nat \<Rightarrow> nat option" where
  "compare_chunks c ex ac offset =
     (let lhs = take c ex; rhs = take c ac in
      if lhs = rhs then
        (if lhs = [] then None else compare_chunks c (drop c ex) (drop c ac) (offset + length lhs))
      else case first_difference lhs rhs 0 of
        Some i \<Rightarrow> Some (offset + i)
      | None \<Rightarrow> Some (offset + min (length lhs) (length rhs)))"
  by pat_completeness auto
termination
proof (relation "measure (\<lambda>(c, ex, ac, offset). length ex)")
  fix c offset :: nat and ex ac lhs rhs :: string
  assume "lhs = take c ex" and "lhs \<noteq> []"
  then have "0 < c" and "ex \<noteq> []" by auto
  then show "((c, drop c ex, drop c ac, offset + length lhs), c, ex, ac, offset)
    \<in> measure (\<lambda>(c, ex, ac, offset). length ex)" by simp
qed simp

declare compare_chunks.simps [simp del]

definition first_mismatch :: "string \<Rightarrow> string \<Rightarrow> nat option" where
  "first_mismatch expected actual = compare_chunks CHUNK expected actual 0"

record comparison =
  cm_expected_sha :: "string option"
  cm_actual_sha :: "string option"
  cm_expected_size :: "nat option"
  cm_actual_size :: "nat option"
  cm_status :: string
  cm_reason :: "string option"
  cm_first_mismatch :: "nat option"

definition compare_exact_files :: "(string \<Rightarrow> string) \<Rightarrow> fs \<Rightarrow> path \<Rightarrow> path \<Rightarrow> comparison" where
  "compare_exact_files sha fs expected actual =
     (let e = dict_get fs expected; a = dict_get fs actual;
          base = \<lparr>cm_expected_sha = map_option (\<lambda>c. upper (sha c)) e,
                  cm_actual_sha = map_option (\<lambda>c. upper (sha c)) a,
                  cm_expected_size = map_option length e, cm_actual_size = map_option length a,
                  cm_status = ''fail'', cm_reason = Some ''missing expected or actual file'',
                  cm_first_mismatch = None\<rparr>
      in case (e, a) of
           (Some x, Some y) \<Rightarrow> (let m = first_mismatch x y in
              base\<lparr>cm_status := (if m = None then ''pass'' else ''fail''),
                   cm_reason := (if m = None then None else Some ''files differ''),
                   cm_first_mismatch := m\<rparr>)
         | _ \<Rightarrow> base)"

subsection \<open>Generated workloads\<close>

definition sha_at :: "(string \<Rightarrow> string) \<Rightarrow> fs \<Rightarrow> path \<Rightarrow> json res" where
  "sha_at sha fs p = bindE (sha256_file sha fs p) (\<lambda>h. Inr (JStr h))"

definition exact_tolerance :: json where
  "exact_tolerance = JDict [(''type'', JStr ''exact'')]"

definition generate_sdp_passthrough :: "(string \<Rightarrow> string) \<Rightarrow> path \<Rightarrow> fs \<Rightarrow> (json \<times> fs) res" where
  "generate_sdp_passthrough sha dest fs =
     (let out = dest @ [''sdp_passthrough''];
          values = [0, 1, 2, 3, 4, 5, 6, 7, 120, 127, 128, 129, 250, 251, 252, 255];
          fs1 = write_bytes (out @ [''golden.bin'']) values (write_bytes (out @ [''input.bin'']) values fs)
      in bindE (sha_at sha fs1 (out @ [''input.bin''])) (\<lambda>i.
         bindE (sha_at sha fs1 (out @ [''golden.bin''])) (\<lambda>g.
         Inr (JDict [(''schema_version'', JInt 1), (''name'', JStr ''sdp_passthrough''),
                (''input_sha256'', i), (''golden_sha256'', g), (''tolerance'', exact_tolerance)], fs1))))"

definition INPUT_SIGNED :: "int list" where
  "INPUT_SIGNED = [-8, -7, -6, -5, -1, 0, 1, 2, 3, 4, 5, 6, 10, 11, 12, 13]"

definition conv_point :: "int \<Rightarrow> int \<Rightarrow> int \<Rightarrow> int" where
  "conv_point weight bias x = max (- 128) (min 127 (x * weight + bias))"

definition prototxt :: string where
  "prototxt = concat (map (\<lambda>l. l @ [NL]) [
     ''name: '' @ [DQ] @ ''tiny_conv_int8'' @ [DQ], ''input: '' @ [DQ] @ ''data'' @ [DQ],
     ''input_shape {'', ''  dim: 1'', ''  dim: 1'', ''  dim: 4'', ''  dim: 4'', ''}'',
     ''layer {'', ''  name: '' @ [DQ] @ ''conv'' @ [DQ], ''  type: '' @ [DQ] @ ''Convolution'' @ [DQ],
     ''  bottom: '' @ [DQ] @ ''data'' @ [DQ], ''  top: '' @ [DQ] @ ''conv'' @ [DQ],
     ''  convolution_param {'', ''    num_output: 1'', ''    kernel_size: 1'', ''    stride: 1'',
     ''    bias_term: true'', ''  }'', ''}''])"

definition generate_tiny_conv :: "(string \<Rightarrow> string) \<Rightarrow> path \<Rightarrow> fs \<Rightarrow> (json \<times> fs) res" where
  "generate_tiny_conv sha dest fs =
     (let out = dest @ [''tiny_conv_int8'']; weight = 2; bias = - 3;
          golden = map (conv_point weight bias) INPUT_SIGNED;
          fs1 = write_bytes (out @ [''input.bin'']) (map int8 INPUT_SIGNED) fs;
          fs2 = write_bytes (out @ [''golden.bin'']) (map int8 golden) fs1;
          fs3 = write_file (out @ [''model.prototxt'']) prototxt fs2
      in bindE (sha_at sha fs3 (out @ [''input.bin''])) (\<lambda>i.
         bindE (sha_at sha fs3 (out @ [''golden.bin''])) (\<lambda>g.
         bindE (sha_at sha fs3 (out @ [''model.prototxt''])) (\<lambda>p.
         Inr (JDict [(''schema_version'', JInt 1), (''name'', JStr ''tiny_conv_int8''),
                (''precision'', JStr ''int8''), (''input_shape_nchw'', JList [JInt 1, JInt 1, JInt 4, JInt 4]),
                (''operation'', JDict [(''kind'', JStr ''conv2d''), (''kernel'', JList [JInt weight]), (''bias'', JList [JInt bias])]),
                (''input_sha256'', i), (''golden_sha256'', g), (''prototxt_sha256'', p),
                (''tolerance'', JDict [(''type'', JStr ''absolute''), (''max_difference'', JInt 1)]),
                (''loadable_status'', JStr ''not_generated''),
                (''loadable_note'', JStr ''Generate caffemodel and NVDLA loadable with the pinned compiler before runtime execution.'')], fs3)))))"

record sdp_spec =
  sp_loadable :: path
  sp_golden_re :: rx
  sp_target :: json

definition lower_hex :: "char \<Rightarrow> bool" where
  "lower_hex c = (is_hex c \<and> \<not> is_upper c)"

definition SDP_REGRESSION_SPECS :: "(string, sdp_spec) dict" where
  "SDP_REGRESSION_SPECS = [
     (''sdp_regression_full'', \<lparr>sp_loadable = [''regression'', ''flatbufs'', ''kmd'', ''SDP'', ''SDP_X1_L0_0_fbuf''],
        sp_golden_re = seq [Bol, lit ''SDP_X1_L0_0_'', plus (Sym lower_hex), Eol],
        sp_target = JDict [(''config'', JStr ''nv_full''),
          (''compatible'', JList [JStr ''nvidia,nvdla_os_initial'', JStr ''nvidia,nv_full''])]\<rparr>),
     (''sdp_regression_small'', \<lparr>sp_loadable = [''regression'', ''flatbufs'', ''kmd'', ''SDP'', ''SDP_X1_L0_0_small_fbuf''],
        sp_golden_re = seq [Bol, lit ''SDP_X1_L0_0_small_'', plus (Sym lower_hex), Eol],
        sp_target = JDict [(''config'', JStr ''nv_small''), (''compatible'', JList [JStr ''nvidia,nv_small''])]\<rparr>)]"

text \<open>The directories right below a directory.\<close>

definition subdirs :: "fs \<Rightarrow> path \<Rightarrow> string list" where
  "subdirs fs d = remdups (map (\<lambda>q. q ! length d)
     (List.filter (\<lambda>q. prefix d q \<and> length d + 1 < length q) (dict_keys fs)))"

definition find_sdp_golden :: "fs \<Rightarrow> path \<Rightarrow> rx \<Rightarrow> path res" where
  "find_sdp_golden fs source pattern =
     (let golden_root = source @ [''regression'', ''golden''];
          matches = sort (map (\<lambda>n. golden_root @ [n, ''dla'', ''o_000000.dimg''])
            (List.filter (\<lambda>n. re_fullmatch pattern n \<noteq> None) (subdirs fs golden_root)))
      in if matches = [] then Inl (FileNotFoundError ''missing upstream SDP golden'') else Inr (hd matches))"

definition generate_sdp_regression ::
    "(string \<Rightarrow> string) \<Rightarrow> (path \<Rightarrow> string option) \<Rightarrow> path \<Rightarrow> string \<Rightarrow> path \<Rightarrow> fs \<Rightarrow> (json \<times> fs) res" where
  "generate_sdp_regression sha git_sha dest name source fs =
     bindE (noneE (KeyError (''unknown SDP regression workload: '' @ name)) (dict_get SDP_REGRESSION_SPECS name)) (\<lambda>spec.
     let loadable_src = source @ sp_loadable spec in
     bindE (guardE (is_file fs loadable_src) (FileNotFoundError ''missing upstream SDP loadable'')) (\<lambda>_.
     bindE (find_sdp_golden fs source (sp_golden_re spec)) (\<lambda>golden_src.
     let out = dest @ [name]; loadable = out @ [''loadable.fbuf'']; golden = out @ [''golden'', ''o_000000.dimg''] in
     bindE (copy_file loadable_src loadable fs) (\<lambda>fs1.
     bindE (copy_file golden_src golden fs1) (\<lambda>fs2.
     bindE (sha_at sha fs2 loadable) (\<lambda>lh. bindE (file_size fs2 loadable) (\<lambda>ls.
     bindE (sha_at sha fs2 golden) (\<lambda>gh. bindE (file_size fs2 golden) (\<lambda>gs.
     Inr (JDict [(''schema_version'', JInt 1), (''name'', JStr name),
            (''kind'', JStr ''upstream_nvdla_flatbuffer_regression''),
            (''upstream_base_sha'', JStr ''79538ba1b52b040a4a4645f630e457fa01839e90''),
            (''target'', sp_target spec),
            (''source'', JDict [(''nvdla_sw'', JStr (path_str source)),
               (''nvdla_sw_sha'', case git_sha source of None \<Rightarrow> JNull | Some h \<Rightarrow> JStr h),
               (''loadable'', JStr (path_str (sp_loadable spec))),
               (''golden'', JStr (path_str (drop (length source) golden_src)))]),
            (''loadable'', JDict [(''path'', JStr ''loadable.fbuf''), (''sha256'', lh), (''size_bytes'', JInt (int ls))]),
            (''golden_outputs'', JList [JDict [(''name'', JStr ''o_000000.dimg''),
               (''path'', JStr ''golden/o_000000.dimg''), (''sha256'', gh), (''size_bytes'', JInt (int gs))]]),
            (''tolerance'', exact_tolerance)], fs2))))))))))"

definition generate_workloads ::
    "(string \<Rightarrow> string) \<Rightarrow> (path \<Rightarrow> string option) \<Rightarrow> path \<Rightarrow> path \<Rightarrow> fs \<Rightarrow> (json \<times> fs) res" where
  "generate_workloads sha git_sha source out_dir fs =
     bindE (generate_sdp_passthrough sha out_dir fs) (\<lambda>(a, fs1).
     bindE (generate_tiny_conv sha out_dir fs1) (\<lambda>(b, fs2).
     bindE (generate_sdp_regression sha git_sha out_dir ''sdp_regression_full'' source fs2) (\<lambda>(c, fs3).
     bindE (generate_sdp_regression sha git_sha out_dir ''sdp_regression_small'' source fs3) (\<lambda>(d, fs4).
     Inr (JDict [(''schema_version'', JInt 1), (''workloads'', JList [a, b, c, d])], fs4)))))"

subsection \<open>Facts\<close>

lemma lcp_append: "longest_common_prefix (zs @ xs) (zs @ ys) = zs @ longest_common_prefix xs ys"
  by (induction zs) auto

lemma lcp_take:
  "take c xs \<noteq> take c ys \<Longrightarrow> length (longest_common_prefix (take c xs) (take c ys)) = length (longest_common_prefix xs ys)"
proof (induction xs ys arbitrary: c rule: longest_common_prefix.induct)
  case (1 x xs y ys)
  then show ?case by (cases c) auto
qed (cases c; auto)+

lemma compare_chunks_spec:
  "0 < c \<Longrightarrow> compare_chunks c xs ys k = (if xs = ys then None else Some (k + length (longest_common_prefix xs ys)))"
proof (induction c xs ys k rule: compare_chunks.induct)
  case (1 c xs ys k)
  let ?l = "take c xs" and ?r = "take c ys"
  show ?case
  proof (cases "?l = ?r")
    case True
    show ?thesis
    proof (cases "?l = []")
      case True
      with \<open>?l = ?r\<close> 1 show ?thesis by (subst compare_chunks.simps) auto
    next
      case False
      have "xs = ?l @ drop c xs" "ys = ?l @ drop c ys" by simp (metis \<open>?l = ?r\<close> append_take_drop_id)
      then have "xs = ys \<longleftrightarrow> drop c xs = drop c ys"
        and "length (longest_common_prefix xs ys) = length ?l + length (longest_common_prefix (drop c xs) (drop c ys))"
        by (metis, metis lcp_append length_append)
      with 1 True False show ?thesis by (subst compare_chunks.simps) simp
    qed
  next
    case False
    then have "xs \<noteq> ys" by auto
    with False first_difference_lcp [OF False, of 0] lcp_take [OF False] show ?thesis
      by (subst compare_chunks.simps) (auto split: option.splits)
  qed
qed

lemma first_mismatch_spec:
  "first_mismatch xs ys = (if xs = ys then None else Some (length (longest_common_prefix xs ys)))"
  by (simp add: first_mismatch_def CHUNK_def compare_chunks_spec)

text \<open>C33: The exact comparison passes exactly when both files exist with the same content; for two
  existing files that differ it reports the end of their longest common prefix, although the files
  are read in chunks.\<close>

theorem compare_exact:
  "(let r = compare_exact_files sha fs expected actual in
    (cm_status r = ''pass'' \<longleftrightarrow> is_file fs expected \<and> dict_get fs expected = dict_get fs actual) \<and>
    (case (dict_get fs expected, dict_get fs actual) of
       (Some x, Some y) \<Rightarrow> cm_first_mismatch r = (if x = y then None else Some (length (longest_common_prefix x y)))
     | _ \<Rightarrow> cm_first_mismatch r = None))"
  by (cases "dict_get fs expected"; cases "dict_get fs actual")
     (auto simp: compare_exact_files_def first_mismatch_spec is_file_def Let_def)

text \<open>A value stored as a byte reads back in two's complement as the value saturated to the signed
  8-bit range.\<close>

theorem int8_saturates:
  "sint (word_of_int (int8 v) :: 8 word) = max (- 128) (min 127 v) \<and> 0 \<le> int8 v \<and> int8 v < 256"
proof -
  define c where "c = max (- 128) (min 127 v)"
  have r: "- 128 \<le> c" "c \<le> 127" by (simp_all add: c_def)
  have "c + 256 = c mod 256" if "c < 0"
    using that r mod_pos_pos_trivial [of "c + 256" 256] by (simp only: mod_add_self2)
  then have "(word_of_int (int8 v) :: 8 word) = word_of_int c"
    using r by (auto simp: int8_def c_def [symmetric] Let_def word_of_int_eq_iff take_bit_eq_mod)
  moreover have "sint (word_of_int c :: 8 word) = c"
    using r by (simp add: int_word_sint)
  ultimately show ?thesis using r by (auto simp: c_def [symmetric] int8_def Let_def)
qed

lemma regression_files:
  assumes "generate_sdp_regression sha git_sha dest name source fs = Inr (m, fs')"
  shows "\<exists>spec golden. dict_get SDP_REGRESSION_SPECS name = Some spec \<and> find_sdp_golden fs source (sp_golden_re spec) = Inr golden \<and>
    disk.copies [(source @ sp_loadable spec, dest @ [name, ''loadable.fbuf'']),
                 (golden, dest @ [name, ''golden'', ''o_000000.dimg''])] fs = Inr fs'"
proof -
  from assms obtain spec golden fs1 where "dict_get SDP_REGRESSION_SPECS name = Some spec"
    "find_sdp_golden fs source (sp_golden_re spec) = Inr golden"
    "copy_file (source @ sp_loadable spec) (dest @ [name, ''loadable.fbuf'']) fs = Inr fs1"
    "copy_file golden (dest @ [name, ''golden'', ''o_000000.dimg'']) fs1 = Inr fs'"
    by (auto simp: generate_sdp_regression_def bindE_Inr_iff noneE_Inr_iff Let_def)
  then show ?thesis by (auto simp: disk.copies_def copy_file_def)
qed

lemma golden_below: "find_sdp_golden fs source pattern = Inr golden \<Longrightarrow> prefix source golden"
proof -
  assume g: "find_sdp_golden fs source pattern = Inr golden"
  let ?ms = "map (\<lambda>n. source @ [''regression'', ''golden'', n, ''dla'', ''o_000000.dimg''])
     (List.filter (\<lambda>n. re_fullmatch pattern n \<noteq> None) (subdirs fs (source @ [''regression'', ''golden''])))"
  from g have "sort ?ms \<noteq> []" "golden = hd (sort ?ms)"
    by (auto simp: find_sdp_golden_def Let_def split: if_splits)
  then have "golden \<in> set ?ms" by (metis hd_in_set set_sort)
  then show ?thesis by auto
qed

text \<open>Generating an upstream regression workload outside the source tree copies the loadable and the
  golden output unchanged: comparing the copies with the upstream files passes.\<close>

theorem regression_copies:
  assumes "generate_sdp_regression sha git_sha dest name source fs = Inr (m, fs')"
    and "\<not> prefix source (dest @ [name])" and "\<not> prefix (dest @ [name]) source"
  shows "\<exists>spec golden. dict_get SDP_REGRESSION_SPECS name = Some spec \<and>
    find_sdp_golden fs source (sp_golden_re spec) = Inr golden \<and>
    read_text fs' (dest @ [name, ''loadable.fbuf'']) = read_text fs (source @ sp_loadable spec) \<and>
    read_text fs' (dest @ [name, ''golden'', ''o_000000.dimg'']) = read_text fs golden"
proof -
  from regression_files [OF assms(1)] obtain spec golden where
    s: "dict_get SDP_REGRESSION_SPECS name = Some spec" and g: "find_sdp_golden fs source (sp_golden_re spec) = Inr golden"
    and c: "disk.copies [(source @ sp_loadable spec, dest @ [name, ''loadable.fbuf'']),
                 (golden, dest @ [name, ''golden'', ''o_000000.dimg''])] fs = Inr fs'" by blast
  have apart: "x \<noteq> y" if "prefix source x" "prefix (dest @ [name]) y" for x y :: path
    using that assms(2,3) prefix_same_cases by blast
  have out: "prefix (dest @ [name]) (dest @ name # q)" for q by (simp add: prefix_def)
  have "fst ` set [(source @ sp_loadable spec, dest @ [name, ''loadable.fbuf'']), (golden, dest @ [name, ''golden'', ''o_000000.dimg''])]
      \<inter> snd ` set [(source @ sp_loadable spec, dest @ [name, ''loadable.fbuf'']), (golden, dest @ [name, ''golden'', ''o_000000.dimg''])] = {}"
    using apart [OF golden_below [OF g] out] apart [OF prefixI [OF refl] out] by auto
  from disk.copies_content [OF c _ this] s g show ?thesis by auto
qed

definition wit_tree :: fs where
  "wit_tree = [([''sw'', ''regression'', ''flatbufs'', ''kmd'', ''SDP'', ''SDP_X1_L0_0_small_fbuf''], ''FB''),
     ([''sw'', ''regression'', ''golden'', ''SDP_X1_L0_0_fe'', ''dla'', ''o_000000.dimg''], ''full''),
     ([''sw'', ''regression'', ''golden'', ''SDP_X1_L0_0_small_0a'', ''dla'', ''o_000000.dimg''], ''small'')]"

lemma regression_copies_witness:
  "\<exists>m fs'. generate_sdp_regression id (\<lambda>_. None) [''out''] ''sdp_regression_small'' [''sw''] wit_tree = Inr (m, fs') \<and>
     read_text fs' [''out'', ''sdp_regression_small'', ''golden'', ''o_000000.dimg''] = Inr ''small''"
proof -
  have "is_ok (generate_sdp_regression id (\<lambda>_. None) [''out''] ''sdp_regression_small'' [''sw''] wit_tree)"
    by code_simp
  then obtain m fs' where ok: "generate_sdp_regression id (\<lambda>_. None) [''out''] ''sdp_regression_small'' [''sw''] wit_tree = Inr (m, fs')"
    by (auto simp: is_ok_iff)
  have g: "map_option (\<lambda>spec. find_sdp_golden wit_tree [''sw''] (sp_golden_re spec)) (dict_get SDP_REGRESSION_SPECS ''sdp_regression_small'')
      = Some (Inr [''sw'', ''regression'', ''golden'', ''SDP_X1_L0_0_small_0a'', ''dla'', ''o_000000.dimg''])" by code_simp
  have "read_text wit_tree [''sw'', ''regression'', ''golden'', ''SDP_X1_L0_0_small_0a'', ''dla'', ''o_000000.dimg''] = Inr ''small''"
    by code_simp
  with regression_copies [OF ok] g ok show ?thesis by auto
qed

end
