(* ===== verification/PerfEvidence.thy ===== *)
theory PerfEvidence
  imports Builders BoardArtifact Stats Workloads
begin

text \<open>
  The evidence a benchmark session must carry before its numbers count
  (tools/nvdla_test_framework/performance.py): the extraction of the archive, the provenance of the
  session, its boot and environment records, the profile of each run, and the rows of measurements. Text files are read
  without translating line ends: \<open>splitlines\<close>, \<open>split\<close> and \<open>strip\<close> treat the translated ends alike.
  The text of an exception is its fixed part.
\<close>

subsection \<open>Files of a session\<close>

definition parse_env_file :: "fs \<Rightarrow> path \<Rightarrow> (string, string) dict res" where
  "parse_env_file fs p = bindE (read_text fs p) (\<lambda>t. Inr (parse_env t))"

definition archive_member :: "member \<Rightarrow> unit \<Rightarrow> unit res" where
  "archive_member m = (\<lambda>_.
     if starts_with (mb_name m) ''/'' \<or> ''..'' \<in> set (pure_parts (mb_name m)) then Inl (ValueError ''unsafe archive member'')
     else if mb_kind m = SymLink \<or> mb_kind m = HardLink then Inl (ValueError ''links are not accepted in benchmark archives'')
     else Inr ())"

text \<open>\<open>extractall\<close> of checked members with the filter \<open>data\<close>: devices are refused.\<close>

definition extract_checked :: "path \<Rightarrow> member \<Rightarrow> fs \<Rightarrow> fs res" where
  "extract_checked destination m fs = (case mb_kind m of
       Regular c \<Rightarrow> Inr (write_file (destination @ pure_parts (mb_name m)) c fs)
     | Directory \<Rightarrow> Inr fs
     | _ \<Rightarrow> Inl (RuntimeError ''special file''))"

definition perf_extract :: "member list \<Rightarrow> path \<Rightarrow> fs \<Rightarrow> fs res" where
  "perf_extract members destination fs =
     bindE (foldE archive_member members ()) (\<lambda>_. foldE (extract_checked destination) members fs)"

text \<open>\<open>line.split(maxsplit=1)\<close>: the first word and the rest, or \<open>None\<close> when there are not two parts.\<close>

definition split_once :: "string \<Rightarrow> (string \<times> string) option" where
  "split_once line =
     (let s = lstrip line; rest = lstrip (dropWhile (Not \<circ> is_space) s) in
      if s = [] \<or> rest = [] then None else Some (takeWhile (Not \<circ> is_space) s, rest))"

definition hash_line :: "string \<Rightarrow> (string, string) dict \<Rightarrow> (string, string) dict" where
  "hash_line line d = (case split_once line of None \<Rightarrow> d
     | Some (digest, name) \<Rightarrow> dict_set (path_name (rel_path (lstrip_chars ''*'' name))) (lower digest) d)"

definition hash_records :: "fs \<Rightarrow> path \<Rightarrow> (string, string) dict" where
  "hash_records fs p = (case dict_get fs p of None \<Rightarrow> [] | Some t \<Rightarrow> fold hash_line (splitlines t) [])"

definition load_session_root :: "member list \<Rightarrow> path \<Rightarrow> fs \<Rightarrow> (path \<times> fs) res" where
  "load_session_root members extraction fs =
     bindE (perf_extract members extraction fs) (\<lambda>fs'.
     let candidates = rglob fs' extraction ''benchmark.env'' in
     bindE (guardE (length candidates = 1) (ValueError ''archive must contain exactly one benchmark.env'')) (\<lambda>_.
     Inr (butlast (hd candidates), fs')))"

subsection \<open>Provenance\<close>

definition ENGINES :: "string list" where
  "ENGINES = [''Convolution'', ''SDP'', ''PDP'', ''CDP'', ''Rubik'', ''BDMA'']"

definition PROVENANCE_KEYS :: "string list" where
  "PROVENANCE_KEYS = [''benchmark_interface'', ''model'', ''input_sha256'', ''loadable_sha256'', ''module_sha256'', ''runtime_sha256'',
     ''runtime_library_sha256'', ''kernel_release'', ''nvdla_clock_hz'', ''nvdla_clock_expected_hz'', ''nvdla_clock_tolerance_hz'',
     ''payload_sha256'', ''firmware_log'', ''benchmark_cpu'', ''power_sample'', ''power_sampler_sha256'', ''power_interval_ms'',
     ''power_phase'', ''power_sampler_cpu'']"

text \<open>\<open>int(d.get(k, default))\<close> of a dictionary of texts.\<close>

definition env_int :: "(string, string) dict \<Rightarrow> string \<Rightarrow> string \<Rightarrow> int res" where
  "env_int d k dflt = noneE (ValueError ''invalid literal for int()'') (py_int (dict_get_or d k dflt))"

definition opt_text :: "string option \<Rightarrow> json" where
  "opt_text v = (case v of None \<Rightarrow> JNull | Some s \<Rightarrow> JStr s)"

definition operations_invalid :: "json \<Rightarrow> json \<Rightarrow> json \<Rightarrow> bool res" where
  "operations_invalid counts complexity loadable = (case counts of
       JDict kvs \<Rightarrow>
         (if set (dict_keys kvs) \<noteq> set ENGINES then Inr True
          else bindE (mapE jnum (map snd kvs)) (\<lambda>ns. bindE (jget complexity ''hwl_count'') (\<lambda>hwl.
            if \<not> jeq (JFloat (sum_list ns)) hwl then Inr True
            else bindE (jget complexity ''loadable_size_bytes'') (\<lambda>a. bindE (jget loadable ''size_bytes'') (\<lambda>b. Inr (\<not> jeq a b))))))
     | _ \<Rightarrow> Inr True)"

record clock_evidence =
  ck_rate :: int
  ck_expected :: int
  ck_tolerance :: int

definition clock_rates :: "(string, string) dict \<Rightarrow> clock_evidence res" where
  "clock_rates env =
     bindE (guardE (dict_get env ''nvdla_clock_status'' = Some ''verified-xsa-rate'') (ValueError ''benchmark did not verify the XSA-derived NVDLA clock'')) (\<lambda>_.
     bindE (env_int env ''nvdla_clock_actual_hz'' ''0'') (\<lambda>rate.
     bindE (env_int env ''nvdla_clock_expected_hz'' ''0'') (\<lambda>expected_rate.
     bindE (env_int env ''nvdla_clock_tolerance_hz'' ''-1'') (\<lambda>tolerance.
     bindE (guardE (\<not> (rate \<le> 0 \<or> expected_rate \<le> 0 \<or> tolerance < 0 \<or> tolerance < \<bar>rate - expected_rate\<bar>)) (ValueError ''invalid NVDLA clock evidence'')) (\<lambda>_.
     Inr \<lparr>ck_rate = rate, ck_expected = expected_rate, ck_tolerance = tolerance\<rparr>)))))"

definition sha_field :: "(rat \<Rightarrow> string) \<Rightarrow> json \<Rightarrow> json res" where
  "sha_field fr d = bindE (jget_or d (JStr []) ''sha256'') (\<lambda>v.
     let s = lower (py_str fr v) in Inr (if s = [] then JNull else JStr s))"

definition when_sampled :: "(string, string) dict \<Rightarrow> string option \<Rightarrow> json" where
  "when_sampled env v = (if dict_get_or env ''power_sample'' ''0'' = ''1'' then opt_text v else JStr ''disabled'')"

definition provenance_fields :: "(string, string) dict \<Rightarrow> (string, string) dict \<Rightarrow> (string, string) dict \<Rightarrow> string list \<Rightarrow>
    clock_evidence \<Rightarrow> json \<Rightarrow> json \<Rightarrow> json \<Rightarrow> (string \<times> json) list" where
  "provenance_fields env software modules uname ck input_sha loadable_sha complexity =
     [(''benchmark_interface'', opt_text (dict_get env ''benchmark_interface'')), (''model'', opt_text (dict_get env ''model'')),
      (''input_sha256'', input_sha), (''loadable_sha256'', loadable_sha),
      (''module_sha256'', case modules of [] \<Rightarrow> JNull | (k, v) # _ \<Rightarrow> JStr v),
      (''runtime_sha256'', opt_text (dict_get software ''nvdla_runtime'')),
      (''runtime_library_sha256'', opt_text (dict_get software ''libnvdla_runtime.so'')),
      (''kernel_release'', if 3 \<le> length uname then JStr (uname ! 2) else JNull),
      (''nvdla_clock_hz'', JInt (ck_rate ck)), (''nvdla_clock_expected_hz'', JInt (ck_expected ck)), (''nvdla_clock_tolerance_hz'', JInt (ck_tolerance ck)),
      (''payload_sha256'', opt_text (dict_get software ''SHA256SUMS'')), (''firmware_log'', opt_text (dict_get env ''firmware_log'')),
      (''benchmark_cpu'', opt_text (dict_get env ''benchmark_cpu'')), (''power_sample'', JStr (dict_get_or env ''power_sample'' ''0'')),
      (''power_sampler_sha256'', when_sampled env (dict_get software ''nvdla-power-sampler'')),
      (''power_interval_ms'', when_sampled env (dict_get env ''power_interval_ms'')),
      (''power_phase'', when_sampled env (dict_get env ''power_phase'')),
      (''power_sampler_cpu'', when_sampled env (dict_get env ''power_sampler_cpu'')),
      (''workload_complexity'', complexity)]"

definition missing_provenance :: "(string \<times> json) list \<Rightarrow> string list" where
  "missing_provenance entries = List.filter (\<lambda>k. jlookup entries k \<in> {JNull, JStr []}) PROVENANCE_KEYS"

definition provenance :: "(rat \<Rightarrow> string) \<Rightarrow> fs \<Rightarrow> path \<Rightarrow> (string, string) dict \<Rightarrow> (string \<times> json) list res" where
  "provenance fr fs base env =
     bindE (read_json fs (base @ [''workload-manifest.json''])) (\<lambda>workload.
     let software = hash_records fs (base @ [''software-hashes.txt'']); modules = hash_records fs (base @ [''module-hash.txt'']) in
     bindE (read_text fs (base @ [''uname.txt''])) (\<lambda>uname_text.
     bindE (jget_or workload (JDict []) ''image'') (\<lambda>image. bindE (jget_or workload (JDict []) ''loadable'') (\<lambda>loadable.
     bindE (jget_or workload (JDict []) ''complexity'') (\<lambda>complexity. bindE (jget_or complexity (JDict []) ''operation_counts'') (\<lambda>counts.
     bindE (operations_invalid counts complexity loadable) (\<lambda>invalid.
     bindE (guardE (\<not> invalid) (ValueError ''invalid workload complexity evidence'')) (\<lambda>_.
     bindE (clock_rates env) (\<lambda>ck.
     bindE (sha_field fr image) (\<lambda>input_sha. bindE (sha_field fr loadable) (\<lambda>loadable_sha.
     let entries = provenance_fields env software modules (split_ws uname_text) ck input_sha loadable_sha complexity in
     bindE (guardE (missing_provenance entries = []) (ValueError ''incomplete benchmark provenance'')) (\<lambda>_.
     Inr entries))))))))))))"

subsection \<open>Boot and environment\<close>

record environment =
  ee_boot_id :: string
  ee_ntp :: string
  ee_timestamp :: string
  ee_before :: string
  ee_after :: string
  ee_before_count :: int
  ee_after_count :: int

definition text_of :: "(string, string) dict \<Rightarrow> string \<Rightarrow> string" where
  "text_of env k = dict_get_or env k []"

definition temperature_check :: "fs \<Rightarrow> path \<Rightarrow> string \<times> string \<times> int \<Rightarrow> unit \<Rightarrow> unit res" where
  "temperature_check fs base = (\<lambda>(phase, status, count) _.
     bindE (guardE (status = ''available'' \<or> status = ''unavailable'') (ValueError ''temperature availability was not recorded'')) (\<lambda>_.
     bindE (parse_env_file fs (base @ [''temperature-'' @ phase @ ''.env''])) (\<lambda>recorded.
     bindE (if dict_get recorded ''status'' \<noteq> Some status then Inr True
            else bindE (env_int recorded ''sensor_count'' ''-1'') (\<lambda>n. Inr (n \<noteq> count))) (\<lambda>inconsistent.
     bindE (guardE (\<not> inconsistent) (ValueError ''inconsistent temperature evidence'')) (\<lambda>_.
     guardE (\<not> (status = ''available'' \<and> count \<le> 0 \<or> status = ''unavailable'' \<and> count \<noteq> 0)) (ValueError ''invalid temperature sensor count''))))))"

definition environment_evidence :: "fs \<Rightarrow> path \<Rightarrow> (string, string) dict \<Rightarrow> environment res" where
  "environment_evidence fs base env =
     bindE (guardE (dict_get env ''schema_version'' = Some ''2'') (ValueError ''unsupported benchmark environment schema'')) (\<lambda>_.
     let boot_id = text_of env ''boot_id''; ntp = text_of env ''ntp_synchronized'';
         before = text_of env ''temperature_before_status''; after = text_of env ''temperature_after_status'' in
     bindE (env_int env ''temperature_before_sensor_count'' ''-1'') (\<lambda>before_count.
     bindE (env_int env ''temperature_after_sensor_count'' ''-1'') (\<lambda>after_count.
     let timestamp = text_of env ''timestamp_utc'' in
     bindE (read_text fs (base @ [''boot-id.txt''])) (\<lambda>boot_text.
     bindE (parse_env_file fs (base @ [''time-sync.env''])) (\<lambda>time_sync.
     bindE (guardE (\<not> (boot_id = [] \<or> boot_id \<noteq> strip boot_text)) (ValueError ''missing or inconsistent Linux boot ID evidence'')) (\<lambda>_.
     bindE (guardE (dict_get time_sync ''boot_id'' = Some boot_id) (ValueError ''time synchronization evidence has a different boot ID'')) (\<lambda>_.
     bindE (guardE (\<not> (ntp = [] \<or> dict_get time_sync ''ntp_synchronized'' \<noteq> Some ntp)) (ValueError ''missing or inconsistent NTP status evidence'')) (\<lambda>_.
     bindE (foldE (temperature_check fs base) [(''before'', before, before_count), (''after'', after, after_count)] ()) (\<lambda>_.
     bindE (guardE (timestamp \<noteq> []) (ValueError ''benchmark UTC timestamp is missing'')) (\<lambda>_.
     Inr \<lparr>ee_boot_id = boot_id, ee_ntp = ntp, ee_timestamp = timestamp, ee_before = before, ee_after = after,
          ee_before_count = before_count, ee_after_count = after_count\<rparr>))))))))))"

definition environment_json :: "environment \<Rightarrow> json" where
  "environment_json e = JDict [(''boot_id'', JStr (ee_boot_id e)), (''ntp_synchronized'', JStr (ee_ntp e)), (''timestamp_utc'', JStr (ee_timestamp e)),
     (''temperature_before_status'', JStr (ee_before e)), (''temperature_after_status'', JStr (ee_after e)),
     (''temperature_before_sensor_count'', JInt (ee_before_count e)), (''temperature_after_sensor_count'', JInt (ee_after_count e))]"

subsection \<open>Profiles\<close>

definition int_default :: "json \<Rightarrow> string \<Rightarrow> int \<Rightarrow> int res" where
  "int_default d k dflt = bindE (jget_or d (JInt dflt) k) jint"

definition int_at :: "json \<Rightarrow> string \<Rightarrow> int res" where
  "int_at d k = bindE (jat d k) jint"

definition check_profile :: "json \<Rightarrow> unit res" where
  "check_profile profile =
     bindE (int_default profile ''schema_version'' 0) (\<lambda>schema.
     bindE (guardE (schema \<in> {2, 3, 4}) (ValueError ''unsupported performance profile schema'')) (\<lambda>_.
     bindE (jget profile ''clock'') (\<lambda>clock.
     bindE (guardE (jeq clock (JStr ''CLOCK_MONOTONIC_RAW'')) (ValueError ''unsupported clock'')) (\<lambda>_.
     bindE (int_default profile ''clock_resolution_ns'' 0) (\<lambda>resolution.
     bindE (guardE (0 < resolution) (ValueError ''invalid clock resolution'')) (\<lambda>_.
     bindE (int_default profile ''clock_pair_overhead_ns'' (-1)) (\<lambda>overhead.
     bindE (guardE (0 \<le> overhead) (ValueError ''missing clock-pair overhead'')) (\<lambda>_.
     bindE (jget profile ''outputs_consistent'') (\<lambda>consistent.
     bindE (guardE (consistent = JBool True) (ValueError ''repeated outputs were not identical'')) (\<lambda>_.
     bindE (int_default profile ''status'' (-1)) (\<lambda>status.
     guardE (status = 0) (ValueError ''runtime status was not successful''))))))))))))"

definition read_profile :: "fs \<Rightarrow> path \<Rightarrow> json res" where
  "read_profile fs p = bindE (read_json fs p) (\<lambda>profile. bindE (check_profile profile) (\<lambda>_. Inr profile))"

subsection \<open>Rows\<close>

definition PHASES :: "string list" where
  "PHASES = [''runtime_create'', ''loadable_read'', ''runtime_load'', ''emu_init'', ''input_setup'', ''output_setup'', ''output_write'',
     ''buffer_cleanup'', ''emu_stop'', ''runtime_unload'', ''runtime_destroy'']"

definition scheduling_names :: "string list" where
  "scheduling_names = [''user_time_ns'', ''system_time_ns'', ''minor_page_faults'', ''major_page_faults'', ''voluntary_context_switches'', ''involuntary_context_switches'']"

record perf_row =
  pr_session :: string
  pr_model :: string
  pr_regime :: string
  pr_run :: string
  pr_sample_index :: int
  pr_input_index :: int
  pr_input_update :: int
  pr_latency :: int
  pr_runtime :: int
  pr_extract :: int
  pr_launch :: "int option"
  pr_process_total :: int
  pr_resolution :: int
  pr_overhead :: int
  pr_fraction :: rat
  pr_profile_path :: string
  pr_total :: nat
  pr_measured :: int
  pr_warmups :: int
  pr_affinity :: string
  pr_scheduling :: "(string \<times> int) list"
  pr_migrations :: string
  pr_phases :: "(string \<times> int) list"
  pr_outside :: int

text \<open>What the loop over the samples takes from the run.\<close>

record run_evidence =
  re_session :: string
  re_model :: string
  re_regime :: string
  re_run :: string
  re_profile :: json
  re_phases :: json
  re_overhead :: int
  re_launch :: "int option"
  re_rusage :: "(string, string) dict"

definition sample_row :: "run_evidence \<Rightarrow> json \<Rightarrow> perf_row res" where
  "sample_row r sample =
     bindE (int_at sample ''runtime_execution_ns'') (\<lambda>runtime.
     bindE (guardE (0 < runtime) (ValueError ''invalid runtime execution latency'')) (\<lambda>_.
     let fraction = of_int (re_overhead r) / of_int runtime in
     bindE (guardE (fraction \<le> 1 / 100) (ValueError ''clock measurement overhead exceeds 1% of runtime execution latency'')) (\<lambda>_.
     let latency = (if re_regime r = ''cold'' \<or> re_regime r = ''warm'' then re_launch r else Some runtime) in
     bindE (int_at sample ''index'') (\<lambda>index. bindE (int_default sample ''input_index'' 0) (\<lambda>input_index.
     bindE (int_default sample ''input_update_ns'' 0) (\<lambda>input_update. bindE (int_at sample ''output_extract_ns'') (\<lambda>extract.
     bindE (int_at (re_phases r) ''process_total'') (\<lambda>process_total. bindE (int_at (re_profile r) ''clock_resolution_ns'') (\<lambda>resolution.
     bindE (bindE (jat (re_profile r) ''samples'') jlen) (\<lambda>iterations. bindE (int_at (re_profile r) ''measured_iterations'') (\<lambda>measured.
     bindE (int_at (re_profile r) ''warmup_iterations'') (\<lambda>warmups.
     bindE (noneE (KeyError ''cpu_affinity'') (dict_get (re_rusage r) ''cpu_affinity'')) (\<lambda>affinity.
     bindE (mapE (\<lambda>k. bindE (noneE (KeyError k) (dict_get (re_rusage r) k)) (\<lambda>t.
       bindE (noneE (ValueError ''invalid literal for int()'') (py_int t)) (\<lambda>n. Inr (k, n)))) scheduling_names) (\<lambda>scheduling.
     bindE (mapE (\<lambda>phase. bindE (int_default (re_phases r) phase 0) (\<lambda>n. Inr (phase, n))) PHASES) (\<lambda>phases.
     bindE (noneE TypeError latency) (\<lambda>l.
     Inr \<lparr>pr_session = re_session r, pr_model = re_model r, pr_regime = re_regime r, pr_run = re_run r, pr_sample_index = index,
          pr_input_index = input_index, pr_input_update = input_update, pr_latency = l, pr_runtime = runtime, pr_extract = extract,
          pr_launch = re_launch r, pr_process_total = process_total, pr_resolution = resolution, pr_overhead = re_overhead r,
          pr_fraction = fraction, pr_profile_path = re_run r @ ''/profile.json'', pr_total = iterations, pr_measured = measured,
          pr_warmups = warmups, pr_affinity = affinity, pr_scheduling = scheduling,
          pr_migrations = dict_get_or (re_rusage r) ''cpu_migrations'' ''unavailable'', pr_phases = phases,
          pr_outside = max 0 (l - runtime)\<rparr>))))))))))))))))"

definition sample_rows :: "run_evidence \<Rightarrow> json list \<Rightarrow> perf_row list res" where
  "sample_rows r samples = bindE (mapE (\<lambda>s. bindE (jget s ''warmup'') (\<lambda>w.
     if truthy w then Inr [] else bindE (sample_row r s) (\<lambda>row. Inr [row]))) samples) (\<lambda>rows. Inr (concat rows))"

definition run_rows :: "fs \<Rightarrow> path \<Rightarrow> string \<Rightarrow> string \<Rightarrow> string \<Rightarrow> string \<Rightarrow> string \<Rightarrow> perf_row list res" where
  "run_rows fs base session model benchmark_cpu regime run =
     (let run_dir = base @ [run] in
      bindE (read_text fs (run_dir @ [''verification.txt''])) (\<lambda>verification.
      bindE (guardE (strip verification = ''exact-pass'') (ValueError ''output verification did not pass'')) (\<lambda>_.
      bindE (parse_env_file fs (run_dir @ [''run.env''])) (\<lambda>run_env. bindE (env_int run_env ''irq_delta'' ''0'') (\<lambda>irq_delta.
      bindE (guardE (0 < irq_delta) (ValueError ''NVDLA IRQ count did not increase'')) (\<lambda>_.
      bindE (read_profile fs (run_dir @ [''profile.json''])) (\<lambda>profile.
      bindE (parse_env_file fs (run_dir @ [''rusage.env''])) (\<lambda>rusage.
      bindE (guardE (dict_get rusage ''cpu_affinity'' = Some benchmark_cpu) (ValueError ''runtime CPU affinity does not match session'')) (\<lambda>_.
      bindE (guardE (list_all (\<lambda>k. k \<in> set (dict_keys rusage)) scheduling_names) (ValueError ''incomplete process scheduling evidence'')) (\<lambda>_.
      bindE (jat profile ''phases_ns'') (\<lambda>phases. bindE (int_at profile ''clock_pair_overhead_ns'') (\<lambda>overhead.
      bindE (case dict_get fs (run_dir @ [''launch-elapsed-ns.txt'']) of None \<Rightarrow> Inr None
        | Some t \<Rightarrow> bindE (noneE (ValueError ''invalid literal for int()'') (py_int (strip t))) (\<lambda>n. Inr (Some n))) (\<lambda>launch.
      bindE (bindE (jat profile ''samples'') jlist) (\<lambda>samples.
      sample_rows \<lparr>re_session = session, re_model = model, re_regime = regime, re_run = run, re_profile = profile, re_phases = phases,
        re_overhead = overhead, re_launch = launch, re_rusage = rusage\<rparr> samples))))))))))))))"

definition REGIMES :: "string list" where
  "REGIMES = [''cold'', ''warm'', ''steady'']"

text \<open>The run directories of a session, regime by regime, each in order.\<close>

definition run_dirs :: "fs \<Rightarrow> path \<Rightarrow> (string \<times> string) list" where
  "run_dirs fs base = concat (map (\<lambda>regime. map (Pair regime)
     (List.filter (\<lambda>n. starts_with n (regime @ ''-'')) (sort (subdirs fs base)))) REGIMES)"

definition profile_rows :: "fs \<Rightarrow> path \<Rightarrow> string \<Rightarrow> string \<Rightarrow> string \<Rightarrow> perf_row list res" where
  "profile_rows fs base session model benchmark_cpu =
     bindE (mapE (\<lambda>(regime, run). run_rows fs base session model benchmark_cpu regime run) (run_dirs fs base)) (\<lambda>rows.
     bindE (guardE (concat rows \<noteq> []) (ValueError ''no cold, warm, or steady measurements found'')) (\<lambda>_. Inr (concat rows)))"

subsection \<open>Facts on rows\<close>

text \<open>What a run directory must hold: an exact output, a growing interrupt count, a good profile, the
  pinned processor.\<close>

definition run_qualified :: "fs \<Rightarrow> path \<Rightarrow> string \<Rightarrow> string \<Rightarrow> bool" where
  "run_qualified fs base cpu run \<longleftrightarrow>
     (case read_text fs (base @ [run, ''verification.txt'']) of Inr t \<Rightarrow> strip t = ''exact-pass'' | Inl _ \<Rightarrow> False) \<and>
     (case bindE (parse_env_file fs (base @ [run, ''run.env''])) (\<lambda>e. env_int e ''irq_delta'' ''0'') of Inr n \<Rightarrow> 0 < n | Inl _ \<Rightarrow> False) \<and>
     is_ok (read_profile fs (base @ [run, ''profile.json''])) \<and>
     (case parse_env_file fs (base @ [run, ''rusage.env'']) of Inr e \<Rightarrow> dict_get e ''cpu_affinity'' = Some cpu | Inl _ \<Rightarrow> False)"

definition row_qualified :: "fs \<Rightarrow> path \<Rightarrow> string \<Rightarrow> string \<Rightarrow> perf_row \<Rightarrow> bool" where
  "row_qualified fs base session cpu r \<longleftrightarrow> run_qualified fs base cpu (pr_run r) \<and> pr_session r = session \<and> pr_affinity r = cpu \<and>
     0 < pr_runtime r \<and> 100 * pr_overhead r \<le> pr_runtime r \<and> 0 \<le> pr_outside r \<and>
     (pr_regime r = ''steady'' \<longrightarrow> pr_latency r = pr_runtime r) \<and> (pr_regime r \<noteq> ''steady'' \<longrightarrow> pr_launch r = Some (pr_latency r))"

lemma sample_row_facts:
  assumes "sample_row r s = Inr row" and "re_regime r \<in> set REGIMES"
  shows "pr_run row = re_run r \<and> pr_session row = re_session r \<and> dict_get (re_rusage r) ''cpu_affinity'' = Some (pr_affinity row) \<and>
     0 < pr_runtime row \<and> 100 * pr_overhead row \<le> pr_runtime row \<and> 0 \<le> pr_outside row \<and> pr_regime row = re_regime r \<and>
     (pr_regime row = ''steady'' \<longrightarrow> pr_latency row = pr_runtime row) \<and> (pr_regime row \<noteq> ''steady'' \<longrightarrow> pr_launch row = Some (pr_latency row))"
proof -
  from assms(1) obtain runtime affinity l where rt: "0 < runtime" "of_int (re_overhead r) / of_int runtime \<le> (1 / 100 :: rat)"
    and af: "noneE (KeyError ''cpu_affinity'') (dict_get (re_rusage r) ''cpu_affinity'') = Inr affinity"
    and l: "noneE TypeError (if re_regime r = ''cold'' \<or> re_regime r = ''warm'' then re_launch r else Some runtime) = Inr l"
    and row: "pr_run row = re_run r" "pr_session row = re_session r" "pr_affinity row = affinity" "pr_runtime row = runtime"
      "pr_overhead row = re_overhead r" "pr_outside row = max 0 (l - runtime)" "pr_regime row = re_regime r" "pr_latency row = l" "pr_launch row = re_launch r"
    unfolding sample_row_def Let_def bindE_Inr_iff guardE_Inr_iff sum.inject by (elim exE conjE) (rule that; (assumption | (hypsubst, simp)))
  have "of_int (re_overhead r) \<le> (1 / 100 * of_int runtime :: rat)" using rt by (simp add: pos_divide_le_eq)
  then have "100 * re_overhead r \<le> runtime" by linarith
  with rt(1) af l row assms(2) show ?thesis by (auto simp: noneE_def REGIMES_def split: option.splits)
qed


lemma sample_rows_facts:
  assumes "sample_rows r ss = Inr rows" and "row \<in> set rows"
  obtains s where "sample_row r s = Inr row"
proof -
  from assms(1) obtain rss where m: "mapE (\<lambda>s. bindE (jget s ''warmup'') (\<lambda>w. if truthy w then Inr [] else bindE (sample_row r s) (\<lambda>row. Inr [row]))) ss = Inr rss"
    and rows: "rows = concat rss" by (auto simp: sample_rows_def bindE_Inr_iff)
  from assms(2) rows obtain rs where rs: "rs \<in> set rss" "row \<in> set rs" by auto
  with mapE_member [OF m] obtain s where "bindE (jget s ''warmup'') (\<lambda>w. if truthy w then Inr [] else bindE (sample_row r s) (\<lambda>row. Inr [row])) = Inr rs"
    by blast
  with rs(2) have "sample_row r s = Inr row" by (auto simp: bindE_Inr_iff split: if_splits)
  then show thesis by (rule that)
qed

lemma run_rows_facts:
  assumes "run_rows fs base session model cpu regime run = Inr rows" and "regime \<in> set REGIMES" and "row \<in> set rows"
  shows "row_qualified fs base session cpu row"
proof -
  let ?d = "base @ [run]"
  from assms(1) obtain v run_env irq profile rusage re samples
    where v: "read_text fs (?d @ [''verification.txt'']) = Inr v" "strip v = ''exact-pass''"
      and irq: "parse_env_file fs (?d @ [''run.env'']) = Inr run_env" "env_int run_env ''irq_delta'' ''0'' = Inr irq" "0 < irq"
      and pf: "read_profile fs (?d @ [''profile.json'']) = Inr profile"
      and ru: "parse_env_file fs (?d @ [''rusage.env'']) = Inr rusage" "dict_get rusage ''cpu_affinity'' = Some cpu"
      and re: "re_session re = session" "re_regime re = regime" "re_run re = run" "re_rusage re = rusage"
      and rows: "sample_rows re samples = Inr rows"
    unfolding run_rows_def Let_def bindE_Inr_iff guardE_Inr_iff by (elim exE conjE) (rule that; (assumption | simp))
  obtain s where "sample_row re s = Inr row" by (rule sample_rows_facts [OF rows assms(3)])
  from sample_row_facts [OF this] assms(2) re v irq pf ru show ?thesis
    by (auto simp: row_qualified_def run_qualified_def is_ok_def)
qed

lemma profile_rows_facts:
  assumes "profile_rows fs base session model cpu = Inr rows"
  shows "rows \<noteq> []" and "list_all (row_qualified fs base session cpu) rows"
proof -
  from assms obtain rss where m: "mapE (\<lambda>(regime, run). run_rows fs base session model cpu regime run) (run_dirs fs base) = Inr rss"
    and ne: "rows \<noteq> []" and rows: "rows = concat rss" by (auto simp: profile_rows_def bindE_Inr_iff guardE_Inr_iff)
  have "row_qualified fs base session cpu row" if row: "row \<in> set rows" for row
  proof -
    from row rows obtain rs where rs: "rs \<in> set rss" "row \<in> set rs" by auto
    with mapE_member [OF m] obtain regime run where d: "(regime, run) \<in> set (run_dirs fs base)"
      and ok: "run_rows fs base session model cpu regime run = Inr rs" by fastforce
    from d have "regime \<in> set REGIMES" by (auto simp: run_dirs_def)
    from run_rows_facts [OF ok this rs(2)] show ?thesis .
  qed
  then show "list_all (row_qualified fs base session cpu) rows" by (simp add: list_all_iff)
  show "rows \<noteq> []" by (rule ne)
qed

text \<open>C17: the measurements of a session are accepted only when there are some, and every row comes from a
  run with an exact output, new interrupts, a good profile and the pinned processor, with a positive
  runtime whose clock overhead is at most one percent; a steady row's latency is its runtime, the
  others' the time from launch to exit.\<close>

theorem rows_are_qualified:
  "case profile_rows fs base session model cpu of
     Inl e \<Rightarrow> True
   | Inr rows \<Rightarrow> rows \<noteq> [] \<and> list_all (row_qualified fs base session cpu) rows"
proof (cases "profile_rows fs base session model cpu")
  case (Inr rows)
  with profile_rows_facts [OF Inr] show ?thesis by simp
qed simp

end
