(* ===== verification/PerfSummary.thy ===== *)
theory PerfSummary
  imports PerfEvidence
begin

text \<open>
  The summaries of the accepted measurements (tools/nvdla_test_framework/performance.py): the breakdown
  of the latency by phase, scheduling, clock-equivalent intervals, software overhead, the checks of a pilot run
  and the throughput definitions. Dictionaries that collect lists are dictionaries in the order of the first
  key. Facts: the rows are distributed over the groups without loss, and the parts of the latency add up
  to the whole.
\<close>

definition dict_append :: "'k \<Rightarrow> 'v \<Rightarrow> ('k, 'v list) dict \<Rightarrow> ('k, 'v list) dict" where
  "dict_append k v d = dict_set k (dict_get_or d k [] @ [v]) d"

definition group_by :: "('v \<Rightarrow> 'k) \<Rightarrow> 'v list \<Rightarrow> ('k, 'v list) dict" where
  "group_by key vs = fold (\<lambda>v. dict_append (key v) v) vs []"

definition profile_groups :: "perf_row list \<Rightarrow> (string \<times> string, perf_row list) dict" where
  "profile_groups rows = group_by (\<lambda>r. (pr_session r, pr_profile_path r)) rows"

definition mean_of :: "(perf_row \<Rightarrow> int) \<Rightarrow> perf_row list \<Rightarrow> rat res" where
  "mean_of f rows = fmean (map (\<lambda>r. of_int (f r)) rows)"

definition phase_ns :: "string \<Rightarrow> perf_row \<Rightarrow> int" where
  "phase_ns phase r = dict_get_or (pr_phases r) phase 0"

subsection \<open>Phases\<close>

record phase_report =
  ph_detailed :: "(string \<times> rat) list"
  ph_aggregates :: "(string \<times> rat) list"
  ph_whole :: rat
  ph_percentages :: "(string \<times> rat) list"

definition AGGREGATES :: "string list" where
  "AGGREGATES = [''runtime_initialization'', ''model_loading'', ''buffer_preparation'', ''runtime_execution'', ''result_handling'', ''teardown'', ''unprofiled_process_and_launch'']"

text \<open>The parts of the latency of a fresh process, named and in nanoseconds.\<close>

definition profiled_parts :: "perf_row \<Rightarrow> (string \<times> int) list" where
  "profiled_parts r = [(''runtime_initialization'', phase_ns ''runtime_create'' r + phase_ns ''emu_init'' r),
     (''model_loading'', phase_ns ''loadable_read'' r + phase_ns ''runtime_load'' r),
     (''buffer_preparation'', phase_ns ''input_setup'' r + phase_ns ''output_setup'' r), (''runtime_execution'', pr_runtime r),
     (''result_handling'', pr_extract r + phase_ns ''output_write'' r),
     (''teardown'', phase_ns ''buffer_cleanup'' r + phase_ns ''emu_stop'' r + phase_ns ''runtime_unload'' r + phase_ns ''runtime_destroy'' r)]"

definition latency_parts :: "perf_row \<Rightarrow> (string \<times> int) list res" where
  "latency_parts r =
     (let parts = profiled_parts r; accounted = sum_list (map snd parts) in
      bindE (guardE (accounted \<le> pr_latency r) (ValueError ''profiled phases exceed external end-to-end latency'')) (\<lambda>_.
      Inr (parts @ [(''unprofiled_process_and_launch'', max 0 (pr_latency r - accounted))])))"

definition group_parts :: "perf_row list \<Rightarrow> (string \<times> int) list res" where
  "group_parts rows = (case rows of [r] \<Rightarrow> latency_parts r
     | _ \<Rightarrow> Inl (ValueError ''profiles must contain exactly one measured inference''))"

definition percent :: "rat \<Rightarrow> rat \<Rightarrow> rat res" where
  "percent v whole = (if whole = 0 then Inl ZeroDivisionError else Inr (v * 100 / whole))"

definition detailed_means :: "perf_row list \<Rightarrow> (string \<times> rat) list res" where
  "detailed_means representatives = mapE (\<lambda>phase. bindE (mean_of (phase_ns phase) representatives) (\<lambda>m. Inr (phase, m))) PHASES"

definition steady_phases :: "perf_row list \<Rightarrow> (string \<times> rat) list \<Rightarrow> phase_report res" where
  "steady_phases rows detailed =
     bindE (mean_of pr_runtime rows) (\<lambda>runtime. bindE (mean_of pr_extract rows) (\<lambda>extraction.
     let observed = runtime + extraction in
     bindE (percent runtime observed) (\<lambda>p. bindE (percent extraction observed) (\<lambda>q.
     Inr \<lparr>ph_detailed = detailed, ph_aggregates = [(''runtime_execution'', runtime), (''result_handling'', extraction)],
          ph_whole = observed, ph_percentages = [(''runtime_execution'', p), (''result_handling'', q)]\<rparr>))))"

definition part_mean :: "(string \<times> int) list list \<Rightarrow> string \<Rightarrow> rat res" where
  "part_mean items name = bindE (mapE (\<lambda>item. noneE (KeyError name) (dict_get item name)) items) (\<lambda>ns. fmean (map of_int ns))"

definition deployment_phases :: "perf_row list list \<Rightarrow> perf_row list \<Rightarrow> (string \<times> rat) list \<Rightarrow> phase_report res" where
  "deployment_phases groups rows detailed =
     bindE (mapE group_parts groups) (\<lambda>items.
     bindE (case items of [] \<Rightarrow> Inl IndexError | item # _ \<Rightarrow> Inr (dict_keys item)) (\<lambda>names.
     bindE (mapE (\<lambda>name. bindE (part_mean items name) (\<lambda>m. Inr (name, m))) names) (\<lambda>means.
     bindE (mean_of pr_latency rows) (\<lambda>end_to_end.
     Inr \<lparr>ph_detailed = detailed, ph_aggregates = means, ph_whole = end_to_end,
          ph_percentages = map (\<lambda>(name, v). (name, if end_to_end \<noteq> 0 then v * 100 / end_to_end else 0)) means\<rparr>))))"

definition phase_summary :: "perf_row list \<Rightarrow> string \<Rightarrow> phase_report res" where
  "phase_summary rows regime =
     (let groups = map snd (profile_groups rows) in
      bindE (detailed_means (map hd groups)) (\<lambda>detailed.
      if regime = ''steady'' then steady_phases rows detailed else deployment_phases groups rows detailed))"

definition float_dict :: "(string \<times> rat) list \<Rightarrow> json" where
  "float_dict kvs = JDict (map (\<lambda>(k, v). (k, JFloat v)) kvs)"

definition phase_json :: "string \<Rightarrow> phase_report \<Rightarrow> json" where
  "phase_json regime p = JDict
     (if regime = ''steady'' then
        [(''scope'', JStr ''per measured inference in one loaded context''), (''detailed_context_one_time_mean_ns'', float_dict (ph_detailed p)),
         (''aggregates_mean_ns'', float_dict (ph_aggregates p)), (''observed_iteration_mean_ns'', JFloat (ph_whole p)),
         (''percentages'', float_dict (ph_percentages p)),
         (''note'', JStr ''Context setup, model loading, buffer binding, final DIMG writing, and teardown occur once per steady profile and are reported separately.'')]
      else
        [(''scope'', JStr ''one fresh process and one measured inference''), (''detailed_profile_mean_ns'', float_dict (ph_detailed p)),
         (''aggregates_mean_ns'', float_dict (ph_aggregates p)), (''end_to_end_mean_ns'', JFloat (ph_whole p)), (''percentages'', float_dict (ph_percentages p))])"

subsection \<open>Clock and scheduling\<close>

definition clock_equivalent_summary :: "perf_row list \<Rightarrow> int \<Rightarrow> json res" where
  "clock_equivalent_summary rows clock_hz =
     bindE (scalar_fields (map (\<lambda>r. of_int (pr_runtime r * clock_hz) / 1000000000) rows)) (\<lambda>f.
     Inr (JDict ([(''label'', JStr ''host-observed NVDLA-clock-equivalent runtime execution intervals''), (''clock_hz'', JInt clock_hz),
       (''includes_software_overhead'', JBool True)] @ f)))"

definition scheduled :: "string \<Rightarrow> perf_row \<Rightarrow> int" where
  "scheduled name r = dict_get_or (pr_scheduling r) name 0"

definition per_iteration :: "string \<Rightarrow> perf_row list \<Rightarrow> rat list res" where
  "per_iteration name profiles = mapE (\<lambda>r. if pr_total r = 0 then Inl ZeroDivisionError else Inr (of_int (scheduled name r) / of_nat (pr_total r))) profiles"

definition sorted_texts :: "string list \<Rightarrow> json" where
  "sorted_texts ss = JList (map JStr (sort (remdups ss)))"

definition scheduling_summary :: "(rat \<Rightarrow> rat) \<Rightarrow> perf_row list \<Rightarrow> json res" where
  "scheduling_summary rt rows =
     (let profiles = map (hd \<circ> snd) (profile_groups rows); all = (\<lambda>name. map (\<lambda>r. of_int (scheduled name r)) profiles) in
      bindE (per_iteration ''user_time_ns'' profiles) (\<lambda>user. bindE (per_iteration ''system_time_ns'' profiles) (\<lambda>system.
      bindE (per_iteration ''voluntary_context_switches'' profiles) (\<lambda>voluntary. bindE (per_iteration ''involuntary_context_switches'' profiles) (\<lambda>involuntary.
      bindE (duration_summary rt (all ''user_time_ns'')) (\<lambda>a. bindE (duration_summary rt (all ''system_time_ns'')) (\<lambda>b.
      bindE (scalar_summary (all ''minor_page_faults'')) (\<lambda>c. bindE (scalar_summary (all ''major_page_faults'')) (\<lambda>d.
      bindE (scalar_summary (all ''voluntary_context_switches'')) (\<lambda>e. bindE (scalar_summary (all ''involuntary_context_switches'')) (\<lambda>f.
      bindE (duration_summary rt user) (\<lambda>g. bindE (duration_summary rt system) (\<lambda>h. bindE (scalar_summary voluntary) (\<lambda>i. bindE (scalar_summary involuntary) (\<lambda>j.
      Inr (JDict [(''cpu_affinity'', sorted_texts (map pr_affinity profiles)), (''process_user_time_ns'', a), (''process_system_time_ns'', b),
        (''minor_page_faults'', c), (''major_page_faults'', d), (''voluntary_context_switches'', e), (''involuntary_context_switches'', f),
        (''per_executed_inference_including_warmups'', JDict [(''user_time_ns'', g), (''system_time_ns'', h), (''voluntary_context_switches'', i), (''involuntary_context_switches'', j)]),
        (''cpu_migrations'', JStr ''unavailable'')]))))))))))))))))"

subsection \<open>Sessions and regimes\<close>

type_synonym regime_rows = "(string, perf_row list) dict"

definition session_regime_values :: "regime_rows \<Rightarrow> (string, (string, rat list) dict) dict" where
  "session_regime_values grouped = fold (\<lambda>(regime, rows). fold (\<lambda>r d.
     dict_set (pr_session r) (dict_append regime (of_int (pr_latency r)) (dict_get_or d (pr_session r) [])) d) rows) grouped []"

definition percent_of :: "rat \<Rightarrow> rat \<Rightarrow> rat option" where
  "percent_of v whole = (if whole \<noteq> 0 then Some (v * 100 / whole) else None)"

text \<open>Two medians of a session and their difference.\<close>

record median_comparison =
  cp_session :: string
  cp_first :: rat
  cp_second :: rat
  cp_difference :: rat
  cp_percentage :: "rat option"

definition compare_medians :: "string \<Rightarrow> string \<Rightarrow> string \<times> (string, rat list) dict \<Rightarrow> median_comparison list res" where
  "compare_medians first second = (\<lambda>(session, regimes).
     (case (dict_get regimes first, dict_get regimes second) of
        (Some xs, Some ys) \<Rightarrow> bindE (median xs) (\<lambda>a. bindE (median ys) (\<lambda>b.
          Inr [\<lparr>cp_session = session, cp_first = a, cp_second = b, cp_difference = a - b, cp_percentage = None\<rparr>]))
      | _ \<Rightarrow> Inr []))"

definition overhead_sessions :: "regime_rows \<Rightarrow> median_comparison list res" where
  "overhead_sessions grouped =
     bindE (mapE (compare_medians ''warm'' ''steady'') (sort_key fst (session_regime_values grouped))) (\<lambda>css.
     Inr (map (\<lambda>c. c\<lparr>cp_percentage := percent_of (cp_difference c) (cp_first c)\<rparr>) (concat css)))"

definition overhead_json :: "median_comparison \<Rightarrow> json" where
  "overhead_json c = JDict [(''session'', JStr (cp_session c)), (''warm_end_to_end_median_ns'', JFloat (cp_first c)),
     (''runtime_execution_median_ns'', JFloat (cp_second c)), (''overhead_ns'', JFloat (cp_difference c)),
     (''overhead_percentage_of_warm_end_to_end'', opt_float (cp_percentage c))]"

definition software_overhead :: "(rat \<Rightarrow> rat) \<Rightarrow> regime_rows \<Rightarrow> json res" where
  "software_overhead rt grouped =
     bindE (overhead_sessions grouped) (\<lambda>sessions.
     if sessions = [] then Inr (JDict [(''status'', JStr ''unavailable''), (''reason'', JStr ''warm and steady regimes required'')])
     else bindE (duration_summary rt (map cp_difference sessions)) (\<lambda>d.
       bindE (mapE (\<lambda>c. noneE TypeError (cp_percentage c)) sessions) (\<lambda>ps. bindE (scalar_summary ps) (\<lambda>p.
       Inr (JDict [(''status'', JStr ''available''),
         (''definition'', JStr ''per-session warm end-to-end median minus steady runtime execution latency median''),
         (''sessions'', JList (map overhead_json sessions)), (''overhead_ns'', d), (''overhead_percentage'', p)])))))"

definition cache_effect :: "regime_rows \<Rightarrow> median_comparison list res" where
  "cache_effect grouped =
     bindE (mapE (compare_medians ''cold'' ''warm'') (sort_key fst (session_regime_values grouped))) (\<lambda>css.
     Inr (map (\<lambda>c. c\<lparr>cp_percentage := percent_of (cp_difference c) (cp_second c)\<rparr>) (concat css)))"

definition cache_json :: "median_comparison \<Rightarrow> json" where
  "cache_json c = JDict [(''session'', JStr (cp_session c)), (''cold_median_ns'', JFloat (cp_first c)), (''warm_median_ns'', JFloat (cp_second c)),
     (''cold_minus_warm_ns'', JFloat (cp_difference c)), (''cold_penalty_percentage_of_warm'', opt_float (cp_percentage c))]"

definition first_later :: "string \<times> perf_row list \<Rightarrow> median_comparison list res" where
  "first_later = (\<lambda>(session, rows). (case sort_key pr_sample_index rows of
       r # s # rest \<Rightarrow> bindE (median (map (\<lambda>q. of_int (pr_runtime q)) (s # rest))) (\<lambda>later.
         let first = of_int (pr_runtime r) in
         Inr [\<lparr>cp_session = session, cp_first = first, cp_second = later, cp_difference = first - later,
           cp_percentage = percent_of (first - later) later\<rparr>])
     | _ \<Rightarrow> Inr []))"

definition first_json :: "median_comparison \<Rightarrow> json" where
  "first_json c = JDict [(''session'', JStr (cp_session c)), (''first_runtime_execution_ns'', JFloat (cp_first c)),
     (''later_runtime_execution_median_ns'', JFloat (cp_second c)), (''first_minus_later_ns'', JFloat (cp_difference c)),
     (''first_penalty_percentage_of_later'', opt_float (cp_percentage c))]"

definition pilot_sanity :: "regime_rows \<Rightarrow> json res" where
  "pilot_sanity grouped =
     bindE (cache_effect grouped) (\<lambda>cache.
     bindE (mapE first_later (sort_key fst (group_by pr_session (dict_get_or grouped ''steady'' [])))) (\<lambda>firsts.
     Inr (JDict [(''cold_vs_cached'', JList (map cache_json cache)), (''first_vs_later_steady_inference'', JList (map first_json (concat firsts))),
       (''external_ab_controls'', JDict [(''quiet_vs_verbose'', JStr ''analyze as separate firmware_log=0 and firmware_log=1 pilot reports''),
         (''profiled_vs_legacy'', JStr ''run as a separate short control; do not mix with primary archives'')])])))"

subsection \<open>Regimes\<close>

text \<open>The summary of a regime: what its document holds.\<close>

record regime_summary =
  rg_latency :: summary
  rg_execution :: summary
  rg_clock :: json
  rg_phases :: phase_report
  rg_scheduling :: json
  rg_overhead_fraction :: rat
  rg_sessions :: "(string \<times> summary) list"
  rg_bootstrap :: bootstrap

definition latencies :: "perf_row list \<Rightarrow> rat list" where
  "latencies rows = map (\<lambda>r. of_int (pr_latency r)) rows"

definition regime_summary_of :: "(rat \<Rightarrow> rat) \<Rightarrow> (nat \<Rightarrow> nat list list) \<Rightarrow> int \<Rightarrow> string \<Rightarrow> perf_row list \<Rightarrow> regime_summary res" where
  "regime_summary_of rt draws clock_hz regime rows =
     bindE (mapE (\<lambda>(session, rs). bindE (summarize_values rt (latencies rs)) (\<lambda>s. Inr (session, s))) (sort_key fst (group_by pr_session rows))) (\<lambda>sessions.
     bindE (summarize_values rt (latencies rows)) (\<lambda>latency.
     bindE (summarize_values rt (map (\<lambda>r. of_int (pr_runtime r)) rows)) (\<lambda>execution.
     bindE (clock_equivalent_summary rows clock_hz) (\<lambda>clock. bindE (phase_summary rows regime) (\<lambda>phases.
     bindE (scheduling_summary rt rows) (\<lambda>scheduling.
     bindE (guardE (rows \<noteq> []) (ValueError ''max() arg is an empty sequence'')) (\<lambda>_.
     bindE (bootstrap_session_medians (draws (length sessions)) (map (sm_median \<circ> snd) sessions)) (\<lambda>b.
     Inr \<lparr>rg_latency = latency, rg_execution = execution, rg_clock = clock, rg_phases = phases, rg_scheduling = scheduling,
          rg_overhead_fraction = Max (set (map pr_fraction rows)), rg_sessions = sessions, rg_bootstrap = b\<rparr>))))))))"

definition regime_json :: "string \<Rightarrow> regime_summary \<Rightarrow> json" where
  "regime_json regime s = JDict [(''latency'', summary_json (rg_latency s)), (''runtime_execution'', summary_json (rg_execution s)),
     (''runtime_execution_clock_equivalent_intervals'', rg_clock s), (''phases'', phase_json regime (rg_phases s)), (''scheduling'', rg_scheduling s),
     (''maximum_clock_overhead_fraction'', JFloat (rg_overhead_fraction s)),
     (''sessions'', JDict (map (\<lambda>(k, v). (k, summary_json v)) (rg_sessions s))), (''session_median_bootstrap_95ci'', bootstrap_json 10000 (rg_bootstrap s))]"

definition throughput_labels :: "(string \<times> string) list" where
  "throughput_labels = [(''cold'', ''cold_deployment_images_per_second''), (''warm'', ''warm_end_to_end_images_per_second''),
     (''steady'', ''steady_runtime_execution_images_per_second'')]"

definition throughput_definitions :: "(string, regime_summary) dict \<Rightarrow> json res" where
  "throughput_definitions summaries =
     (let rates = List.map_filter (\<lambda>(regime, label). map_option (\<lambda>s. (label, opt_float (sm_throughput (rg_latency s)))) (dict_get summaries regime)) throughput_labels in
      case (dict_get summaries ''warm'', dict_get summaries ''steady'') of
        (Some w, Some s) \<Rightarrow>
          bindE (noneE (KeyError ''input_setup'') (dict_get (ph_detailed (rg_phases w)) ''input_setup'')) (\<lambda>input_preparation.
          let runtime_execution = sm_mean (rg_latency s); bottleneck = max input_preparation runtime_execution in
          Inr (JDict (rates @ [(''theoretical_stage_bottleneck_upper_bound_images_per_second'', if bottleneck \<noteq> 0 then JFloat (1000000000 / bottleneck) else JNull),
            (''theoretical_stage_bottleneck_basis'', JDict [(''warm_input_preparation_mean_ns'', JFloat input_preparation),
               (''steady_runtime_execution_mean_ns'', JFloat runtime_execution), (''formula'', JStr ''1 / max(input preparation, runtime execution)''),
               (''qualification'', JStr ''Analytical upper bound only. The current blocking runtime does not demonstrate overlap, and steady tests reuse one prepared input.'')])])))
      | _ \<Rightarrow> Inr (JDict rates))"

subsection \<open>Facts\<close>

lemma group_by_mset: "mset (concat (map snd (group_by key vs))) = mset vs"
proof -
  have set_total: "distinct (dict_keys d) \<Longrightarrow> mset (concat (map snd (dict_append k v d))) = add_mset v (mset (concat (map snd d)))" for k v and d :: "('b, 'a list) dict"
    unfolding dict_append_def
  proof (induction d)
    case (Cons a d)
    have "k \<notin> set (dict_keys d) \<Longrightarrow> dict_get_or d k [] = []"
      by (simp add: dict_get_or_def dict_get_def dict_keys_def map_of_eq_None_iff [THEN iffD2])
    with Cons show ?case by (cases a) (auto simp: dict_get_or_def dict_get_def dict_keys_def)
  qed (simp add: dict_get_or_def dict_get_def)
  have "distinct (dict_keys d) \<Longrightarrow> mset (concat (map snd (fold (\<lambda>v. dict_append (key v) v) vs d))) = mset (concat (map snd d)) + mset vs" for d
  proof (induction vs arbitrary: d)
    case (Cons v vs)
    moreover have "distinct (dict_keys (dict_append (key v) v d))" using Cons.prems by (simp add: dict_append_def dict_set_distinct)
    ultimately show ?case by (simp add: set_total)
  qed simp
  then show ?thesis by (simp add: group_by_def dict_keys_def)
qed

lemma sum_list_swap: "sum_list (map (\<lambda>n. sum_list (map (f n) rs)) ns) = sum_list (map (\<lambda>r. sum_list (map (\<lambda>n. f n r) ns)) rs)"
  for f :: "'a \<Rightarrow> 'b \<Rightarrow> rat"
  by (induction ns) (simp_all add: sum_list_addf)

definition parts_of :: "perf_row \<Rightarrow> (string \<times> int) list" where
  "parts_of r = profiled_parts r @ [(''unprofiled_process_and_launch'', pr_latency r - sum_list (map snd (profiled_parts r)))]"

lemma parts_keys: "dict_keys (parts_of r) = AGGREGATES"
  by (simp add: parts_of_def profiled_parts_def AGGREGATES_def dict_keys_def)

lemma latency_parts_eq: "latency_parts r = Inr item \<Longrightarrow> item = parts_of r"
  by (auto simp: latency_parts_def parts_of_def Let_def bindE_Inr_iff guardE_Inr_iff)

lemma parts_get: "name \<in> set AGGREGATES \<Longrightarrow> dict_get (parts_of r) name = Some (dict_get_or (parts_of r) name 0)"
proof -
  assume "name \<in> set AGGREGATES"
  then have "name \<in> fst ` set (parts_of r)" by (metis parts_keys dict_keys_def list.set_map)
  then obtain v where "map_of (parts_of r) name = Some v" by (metis map_of_eq_None_iff not_Some_eq)
  then show ?thesis by (simp add: dict_get_or_def dict_get_def)
qed

lemma parts_total: "sum_list (map (\<lambda>n. dict_get_or (parts_of r) n 0) AGGREGATES) = pr_latency r"
  by (simp add: AGGREGATES_def parts_of_def profiled_parts_def dict_get_or_def dict_get_def)

lemma part_mean_eq:
  assumes "name \<in> set AGGREGATES"
  shows "part_mean (map parts_of rs) name = fmean (map (\<lambda>r. of_int (dict_get_or (parts_of r) name 0)) rs)"
proof -
  have "mapE (\<lambda>item. noneE (KeyError name) (dict_get item name)) (map parts_of rs) = Inr (map (\<lambda>r. dict_get_or (parts_of r) name 0) rs)"
    using parts_get [OF assms] by (induction rs) (simp_all add: noneE_def)
  then show ?thesis by (simp add: part_mean_def comp_def)
qed

lemma singleton_groups:
  assumes "mapE group_parts groups = Inr items"
  obtains rs where "groups = map (\<lambda>r. [r]) rs" and "items = map parts_of rs"
proof -
  have "list_all2 (\<lambda>g item. group_parts g = Inr item) groups items" using assms by (simp add: mapE_Inr_iff)
  then have "\<exists>rs. groups = map (\<lambda>r. [r]) rs \<and> items = map parts_of rs"
  proof (induction rule: list_all2_induct)
    case (Cons g gs item items)
    then obtain r rs where "g = [r]" "item = parts_of r" "gs = map (\<lambda>r. [r]) rs" "items = map parts_of rs"
      by (auto simp: group_parts_def dest: latency_parts_eq split: list.splits)
    then show ?case by (intro exI [of _ "r # rs"]) simp
  qed simp
  then show thesis using that by blast
qed

lemma means_total:
  assumes "rs \<noteq> []" and "mapE (\<lambda>name. bindE (part_mean (map parts_of rs) name) (\<lambda>m. Inr (name, m))) AGGREGATES = Inr means"
  shows "sum_list (map snd means) = sum_list (map (\<lambda>r. of_int (pr_latency r)) rs) / of_nat (length rs)"
proof -
  let ?f = "\<lambda>n r. of_int (dict_get_or (parts_of r) n 0) :: rat" and ?n = "of_nat (length rs) :: rat"
  have "mapE (\<lambda>name. bindE (part_mean (map parts_of rs) name) (\<lambda>m. Inr (name, m))) AGGREGATES
      = Inr (map (\<lambda>name. (name, sum_list (map (?f name) rs) / ?n)) AGGREGATES)"
    by (rule mapE_total) (simp add: part_mean_eq fmean_def assms(1))
  then have "means = map (\<lambda>name. (name, sum_list (map (?f name) rs) / ?n)) AGGREGATES" using assms(2) by (simp only: sum.inject)
  then have "map snd means = map (\<lambda>name. sum_list (map (?f name) rs) / ?n) AGGREGATES" by (simp only: map_map comp_def snd_conv)
  then have "sum_list (map snd means) = sum_list (map (\<lambda>name. sum_list (map (?f name) rs) / ?n) AGGREGATES)" by (simp only:)
  also have "\<dots> = sum_list (map (\<lambda>name. sum_list (map (?f name) rs)) AGGREGATES) / ?n"
    by (simp only: sum_list_mult_const divide_inverse)
  also have "sum_list (map (\<lambda>name. sum_list (map (?f name) rs)) AGGREGATES) = sum_list (map (\<lambda>r. of_int (sum_list (map (\<lambda>n. dict_get_or (parts_of r) n 0) AGGREGATES))) rs)"
    by (subst sum_list_swap) (simp add: AGGREGATES_def)
  finally show ?thesis unfolding parts_total .
qed


lemma deployment_adds_up:
  assumes "deployment_phases (map snd (profile_groups rows)) rows detailed = Inr p"
  shows "sum_list (map snd (ph_aggregates p)) = ph_whole p"
    and "ph_percentages p = map (\<lambda>(name, v). (name, if ph_whole p \<noteq> 0 then v * 100 / ph_whole p else 0)) (ph_aggregates p)"
proof -
  from assms obtain items names means whole where items: "mapE group_parts (map snd (profile_groups rows)) = Inr items"
    and names: "(case items of [] \<Rightarrow> Inl IndexError | item # _ \<Rightarrow> Inr (dict_keys item)) = Inr names"
    and means: "mapE (\<lambda>name. bindE (part_mean items name) (\<lambda>m. Inr (name, m))) names = Inr means"
    and whole: "mean_of pr_latency rows = Inr whole"
    and p: "ph_aggregates p = means" "ph_whole p = whole" "ph_percentages p = map (\<lambda>(name, v). (name, if whole \<noteq> 0 then v * 100 / whole else 0)) means"
    unfolding deployment_phases_def bindE_Inr_iff sum.inject by (elim exE conjE) (rule that; (assumption | (hypsubst, simp)))
  obtain rs where rs: "map snd (profile_groups rows) = map (\<lambda>r. [r]) rs" "items = map parts_of rs" by (rule singleton_groups [OF items])
  have ms: "mset rs = mset rows" using group_by_mset [of "\<lambda>r. (pr_session r, pr_profile_path r)" rows]
    unfolding profile_groups_def [symmetric] rs(1) by simp
  have names': "names = AGGREGATES" "rs \<noteq> []" using names rs(2) by (cases rs; simp add: parts_keys)+
  have "mset (map (\<lambda>r. of_int (pr_latency r) :: rat) rs) = mset (map (\<lambda>r. of_int (pr_latency r)) rows)" by (simp add: ms)
  then have "sum_list (map (\<lambda>r. of_int (pr_latency r) :: rat) rs) = sum_list (map (\<lambda>r. of_int (pr_latency r)) rows)" by (metis sum_mset_sum_list)
  moreover have "length rs = length rows" using ms by (metis size_mset)
  ultimately have "sum_list (map snd means) = whole"
    using means_total [OF names'(2) means [unfolded rs(2) names'(1)]] whole by (simp add: mean_of_def fmean_def split: if_splits)
  then show "sum_list (map snd (ph_aggregates p)) = ph_whole p" by (simp add: p)
  show "ph_percentages p = map (\<lambda>(name, v). (name, if ph_whole p \<noteq> 0 then v * 100 / ph_whole p else 0)) (ph_aggregates p)" unfolding p ..
qed

lemma steady_adds_up:
  assumes "steady_phases rows detailed = Inr p"
  shows "sum_list (map snd (ph_aggregates p)) = ph_whole p" and "sum_list (map snd (ph_percentages p)) = 100"
proof -
  from assms obtain x y where "x + y \<noteq> 0" and p: "ph_aggregates p = [(''runtime_execution'', x), (''result_handling'', y)]" "ph_whole p = x + y"
      "ph_percentages p = [(''runtime_execution'', x * 100 / (x + y)), (''result_handling'', y * 100 / (x + y))]"
    by (auto simp: steady_phases_def Let_def bindE_Inr_iff percent_def split: if_splits)
  then show "sum_list (map snd (ph_aggregates p)) = ph_whole p" by simp
  have "sum_list (map snd (ph_percentages p)) = (x + y) * 100 / (x + y)" by (simp add: p add_divide_distrib distrib_right)
  also have "\<dots> = 100" using \<open>x + y \<noteq> 0\<close> by (rule nonzero_mult_div_cancel_left)
  finally show "sum_list (map snd (ph_percentages p)) = 100" .
qed

text \<open>In the phase breakdown of every regime the mean parts add up to the mean latency they break down,
  and, unless that is zero, the percentages add up to a hundred.\<close>

theorem phases_add_up:
  "case phase_summary rows regime of
     Inl e \<Rightarrow> True
   | Inr p \<Rightarrow> sum_list (map snd (ph_aggregates p)) = ph_whole p \<and> (ph_whole p = 0 \<or> sum_list (map snd (ph_percentages p)) = 100)"
proof (cases "phase_summary rows regime")
  case (Inr p)
  then obtain detailed where d: "(if regime = ''steady'' then steady_phases rows detailed else deployment_phases (map snd (profile_groups rows)) rows detailed) = Inr p"
    by (auto simp: phase_summary_def Let_def bindE_Inr_iff)
  show ?thesis
  proof (cases "regime = ''steady''")
    case True
    with d have "steady_phases rows detailed = Inr p" by simp
    from steady_adds_up [OF this] show ?thesis by (simp add: Inr)
  next
    case False
    with d have "deployment_phases (map snd (profile_groups rows)) rows detailed = Inr p" by simp
    note f = deployment_adds_up [OF this]
    have "sum_list (map snd (ph_percentages p)) = 100" if "ph_whole p \<noteq> 0"
    proof -
      have "map snd (ph_percentages p) = map (\<lambda>kv. snd kv * (100 / ph_whole p)) (ph_aggregates p)"
        using that unfolding f(2) by (simp add: split_def)
      then have "sum_list (map snd (ph_percentages p)) = sum_list (map snd (ph_aggregates p)) * (100 / ph_whole p)"
        by (simp only: sum_list_mult_const)
      with that show ?thesis by (simp add: f(1))
    qed
    then show ?thesis unfolding Inr sum.case f(1) by blast
  qed
qed simp

end
