(* ===== verification/Campaign.thy ===== *)
theory Campaign
  imports PerfSummary
begin

text \<open>
  The comparison of the final campaign (tools/nvdla_test_framework/campaign.py): the checks on the eight
  cohorts, the selection of their archives, and the latency, power and comparison values of its summary. Paths are
  taken as resolved against the working directory; the figures and the Markdown report are in the theory CampaignReport. Facts:
  an accepted campaign rests on forty different archives in cohorts of five different boots, and the ratio of
  two latencies lies within the bounds reported for it.
\<close>

definition IMPLEMENTATIONS :: "string list" where
  "IMPLEMENTATIONS = [''nvdla'', ''cpu'']"

definition MODELS :: "string list" where
  "MODELS = [''lenet'', ''resnet50'']"

definition KINDS :: "string list" where
  "KINDS = [''latency'', ''power'']"

subsection \<open>Cohorts\<close>

definition summary_path :: "path \<Rightarrow> string \<Rightarrow> string \<Rightarrow> string \<Rightarrow> path" where
  "summary_path reports implementation model kind = reports @ [implementation @ ''-'' @ model @ ''-'' @ kind,
     if implementation = ''nvdla'' then ''performance-summary.json'' else ''cpu-performance-summary.json'']"

definition session_boot :: "json \<Rightarrow> json res" where
  "session_boot session = bindE (jget session ''boot_id'') (\<lambda>b.
     if truthy b then Inr b else bindE (jget_or session (JDict []) ''environment'') (\<lambda>e. jget e ''boot_id''))"

text \<open>The number of different values; lists and dictionaries have no hash.\<close>

definition hashable :: "json \<Rightarrow> bool" where
  "hashable v = (\<not> is_jlist v \<and> \<not> is_jdict v)"

definition count_distinct :: "json list \<Rightarrow> nat res" where
  "count_distinct vs = bindE (guardE (list_all hashable vs) TypeError) (\<lambda>_. Inr (length (remdups (map jnorm vs))))"

definition qualified_status :: "string \<Rightarrow> json \<Rightarrow> bool res" where
  "qualified_status implementation data =
     (if implementation = ''nvdla''
      then bindE (jget_or data (JDict []) ''correctness_qualification'') (\<lambda>q. bindE (jget q ''status'') (\<lambda>s. Inr (jeq s (JStr ''qualified''))))
      else bindE (jget data ''status'') (\<lambda>s. Inr (jeq s (JStr ''pass''))))"

definition power_available :: "json \<Rightarrow> unit \<Rightarrow> unit res" where
  "power_available session = (\<lambda>_. bindE (jget_or session (JDict []) ''power'') (\<lambda>p. bindE (jget p ''status'') (\<lambda>s.
     guardE (jeq s (JStr ''available'')) (ValueError ''missing power evidence''))))"

definition check_cohort :: "(rat \<Rightarrow> string) \<Rightarrow> string \<Rightarrow> string \<Rightarrow> string \<Rightarrow> json \<Rightarrow> json list res" where
  "check_cohort fr implementation model kind data =
     bindE (jget_or data (JList []) ''sessions'') (\<lambda>sessions_value. bindE (jget data ''session_count'') (\<lambda>n.
     bindE (if jeq n (JInt 5) then jlen sessions_value else Inr 0) (\<lambda>len.
     bindE (guardE (len = 5) (ValueError ''final cohort must contain exactly five sessions'')) (\<lambda>_.
     bindE (jget_or data (JDict []) ''provenance'') (\<lambda>prov. bindE (jget prov ''model'') (\<lambda>m.
     bindE (guardE (jeq m (JStr model)) (ValueError ''model provenance mismatch'')) (\<lambda>_.
     bindE (jget prov ''power_sample'') (\<lambda>sample.
     bindE (guardE (py_str fr sample = (if kind = ''power'' then ''1'' else ''0'')) (ValueError ''unexpected power_sample'')) (\<lambda>_.
     bindE (jlist sessions_value) (\<lambda>sessions. bindE (mapE session_boot sessions) (\<lambda>boot_ids.
     bindE (if JNull \<in> set boot_ids then Inr 0 else count_distinct boot_ids) (\<lambda>boots.
     bindE (guardE (boots = 5) (ValueError ''sessions must have five unique boot IDs'')) (\<lambda>_.
     bindE (qualified_status implementation data) (\<lambda>qualified.
     bindE (guardE qualified (ValueError ''samples are not correctness-qualified'')) (\<lambda>_.
     bindE (if kind = ''power'' then foldE power_available sessions () else Inr ()) (\<lambda>_.
     Inr sessions))))))))))))))))"

record cohort =
  co_implementation :: string
  co_model :: string
  co_kind :: string
  co_data :: json
  co_sessions :: "json list"

definition load_cohort :: "(rat \<Rightarrow> string) \<Rightarrow> fs \<Rightarrow> path \<Rightarrow> string \<times> string \<times> string \<Rightarrow> cohort res" where
  "load_cohort fr fs reports = (\<lambda>(implementation, model, kind).
     bindE (read_json fs (summary_path reports implementation model kind)) (\<lambda>data.
     bindE (check_cohort fr implementation model kind data) (\<lambda>sessions.
     Inr \<lparr>co_implementation = implementation, co_model = model, co_kind = kind, co_data = data, co_sessions = sessions\<rparr>)))"

definition COHORTS :: "(string \<times> string \<times> string) list" where
  "COHORTS = concat (map (\<lambda>implementation. concat (map (\<lambda>model. map (\<lambda>kind. (implementation, model, kind)) KINDS) MODELS)) IMPLEMENTATIONS)"

subsection \<open>Values\<close>

definition num_at :: "json \<Rightarrow> string \<Rightarrow> rat res" where
  "num_at d k = bindE (jat d k) jnum"

record cohort_latency =
  cl_median :: rat
  cl_mean :: rat
  cl_p5 :: rat
  cl_p95 :: rat
  cl_session_median :: rat
  cl_lower :: rat
  cl_upper :: rat
  cl_samples :: json
  cl_outliers :: json

definition cohort_latency_of :: "json \<Rightarrow> string \<Rightarrow> string \<Rightarrow> cohort_latency res" where
  "cohort_latency_of data implementation regime =
     bindE (bindE (jat data ''regimes'') (\<lambda>rs. jat rs regime)) (\<lambda>vs.
     bindE (if implementation = ''nvdla'' then jat vs ''latency'' else Inr vs) (\<lambda>latency.
     bindE (jat vs ''session_median_bootstrap_95ci'') (\<lambda>confidence.
     bindE (num_at latency ''median_ns'') (\<lambda>a. bindE (num_at latency ''mean_ns'') (\<lambda>b. bindE (num_at latency ''p5_ns'') (\<lambda>c. bindE (num_at latency ''p95_ns'') (\<lambda>d.
     bindE (num_at confidence ''estimate_ns'') (\<lambda>e. bindE (num_at confidence ''lower_ns'') (\<lambda>f. bindE (num_at confidence ''upper_ns'') (\<lambda>g.
     bindE (jat latency ''count'') (\<lambda>n. bindE (jat latency ''outlier_count'') (\<lambda>out.
     Inr \<lparr>cl_median = a / 1000000, cl_mean = b / 1000000, cl_p5 = c / 1000000, cl_p95 = d / 1000000, cl_session_median = e / 1000000,
          cl_lower = f / 1000000, cl_upper = g / 1000000, cl_samples = n, cl_outliers = out\<rparr>))))))))))))"

record mean_values =
  mv_count :: nat
  mv_mean :: rat
  mv_median :: rat
  mv_deviation :: rat
  mv_minimum :: rat
  mv_maximum :: rat

definition mean_summary :: "(rat \<Rightarrow> rat) \<Rightarrow> rat list \<Rightarrow> mean_values res" where
  "mean_summary rt vs =
     bindE (fmean vs) (\<lambda>m. bindE (median vs) (\<lambda>md.
     Inr \<lparr>mv_count = length vs, mv_mean = m, mv_median = md, mv_deviation = (if 1 < length vs then rt (variance vs) else 0),
          mv_minimum = Min (set vs), mv_maximum = Max (set vs)\<rparr>))"

definition divided :: "rat \<Rightarrow> rat \<Rightarrow> rat res" where
  "divided a b = (if b = 0 then Inl ZeroDivisionError else Inr (a / b))"

definition change_percentage :: "rat \<Rightarrow> rat \<Rightarrow> rat res" where
  "change_percentage candidate reference = bindE (divided candidate reference) (\<lambda>q. Inr ((q - 1) * 100))"

text \<open>What one session contributes to the power values: the executed inferences, active, idle and
  incremental watts, and both energies per inference.\<close>

definition session_power :: "string \<Rightarrow> json \<Rightarrow> (int \<times> rat \<times> rat \<times> rat \<times> rat \<times> rat) res" where
  "session_power implementation session =
     bindE (jat session ''power'') (\<lambda>power_value. bindE (bindE (jat power_value ''domains'') (\<lambda>ds. jat ds ''MONITORED'')) (\<lambda>domain.
     bindE (bindE (jat power_value (if implementation = ''nvdla'' then ''executed_iterations'' else ''executed_inferences'')) jint) (\<lambda>n.
     bindE (num_at domain ''active_mean_watts'') (\<lambda>active. bindE (num_at domain ''idle_mean_watts'') (\<lambda>idle. bindE (num_at domain ''incremental_mean_watts'') (\<lambda>incremental.
     bindE (if implementation = ''nvdla'' then num_at domain ''active_energy_joules_per_inference''
            else bindE (num_at domain ''active_energy_joules'') (\<lambda>e. divided e (of_int n))) (\<lambda>active_energy.
     bindE (num_at domain (if implementation = ''nvdla'' then ''incremental_energy_joules_per_inference'' else ''incremental_energy_per_executed_inference_joules'')) (\<lambda>incremental_energy.
     Inr (n, active, idle, incremental, active_energy, incremental_energy)))))))))"

record cohort_power =
  cw_executed :: int
  cw_active :: mean_values
  cw_idle :: mean_values
  cw_incremental :: mean_values
  cw_active_energy :: mean_values
  cw_incremental_energy :: mean_values

definition cohort_power_of :: "(rat \<Rightarrow> rat) \<Rightarrow> cohort \<Rightarrow> cohort_power res" where
  "cohort_power_of rt c =
     bindE (mapE (session_power (co_implementation c)) (co_sessions c)) (\<lambda>ps.
     let executed = map fst ps in
     bindE (guardE (length (remdups executed) = 1) (ValueError ''power sessions have inconsistent executed inference counts'')) (\<lambda>_.
     bindE (mean_summary rt (map (\<lambda>(n, a, i, d, e, f). a) ps)) (\<lambda>active. bindE (mean_summary rt (map (\<lambda>(n, a, i, d, e, f). i) ps)) (\<lambda>idle.
     bindE (mean_summary rt (map (\<lambda>(n, a, i, d, e, f). d) ps)) (\<lambda>incremental. bindE (mean_summary rt (map (\<lambda>(n, a, i, d, e, f). e) ps)) (\<lambda>energy.
     bindE (mean_summary rt (map (\<lambda>(n, a, i, d, e, f). f) ps)) (\<lambda>incremental_energy.
     Inr \<lparr>cw_executed = hd executed, cw_active = active, cw_idle = idle, cw_incremental = incremental, cw_active_energy = energy,
          cw_incremental_energy = incremental_energy\<rparr>)))))))"

subsection \<open>The selection\<close>

text \<open>\<open>Path(session[archive]).resolve()\<close>, against the working directory.\<close>

definition session_archive :: "path \<Rightarrow> json \<Rightarrow> path res" where
  "session_archive cwd session = bindE (jat session ''archive'') (\<lambda>v. path_at cwd v)"

definition selected_paths :: "path \<Rightarrow> cohort list \<Rightarrow> path list res" where
  "selected_paths cwd cohorts = bindE (mapE (session_archive cwd) (concat (map co_sessions cohorts))) (\<lambda>ps. Inr (remdups ps))"

definition available_paths :: "fs \<Rightarrow> path \<Rightarrow> path list" where
  "available_paths fs campaign_root = List.filter (\<lambda>q. strict_prefix campaign_root q \<and> ends_with (last q) ''.tar.gz'') (dict_keys fs)"

text \<open>An entry: the path relative to the working directory and the digest.\<close>

definition archive_entry :: "env \<Rightarrow> fs \<Rightarrow> path \<Rightarrow> (string \<times> json) list \<Rightarrow> path \<Rightarrow> json res" where
  "archive_entry e fs cwd extra p =
     bindE (guardE (prefix cwd p) (ValueError ''path is not in the subpath'')) (\<lambda>_. bindE (sha_file e fs p) (\<lambda>h.
     Inr (JDict ([(''path'', JStr (path_str (drop (length cwd) p))), (''sha256'', JStr h)] @ extra))))"

definition exclusion_reason :: string where
  "exclusion_reason = ''unintended additional LeNet runs; excluded before final aggregation to preserve balanced five-session cohorts''"

record campaign_selection =
  sl_selected :: "path list"
  sl_excluded :: "path list"
  sl_document :: json

definition select_archives :: "env \<Rightarrow> fs \<Rightarrow> path \<Rightarrow> path \<Rightarrow> cohort list \<Rightarrow> campaign_selection res" where
  "select_archives e fs cwd campaign_root cohorts =
     bindE (selected_paths cwd cohorts) (\<lambda>selected.
     let available = available_paths fs campaign_root in
     bindE (guardE (set selected \<subseteq> set available) (ValueError ''selected campaign archives are missing'')) (\<lambda>_.
     let excluded = sort (List.filter (\<lambda>p. p \<notin> set selected) available) in
     bindE (mapE (archive_entry e fs cwd []) (sort selected)) (\<lambda>included.
     bindE (mapE (archive_entry e fs cwd [(''reason'', JStr exclusion_reason)]) excluded) (\<lambda>others.
     bindE (guardE (length selected = 40) (ValueError ''expected 40 selected archives'')) (\<lambda>_.
     Inr \<lparr>sl_selected = selected, sl_excluded = excluded,
          sl_document = JDict [(''schema_version'', JInt 1),
            (''selection_rule'', JStr ''five correctness-qualified fresh-boot sessions per implementation/model/measurement cohort''),
            (''included_count'', JInt (int (length selected))), (''included'', JList included),
            (''excluded_count'', JInt (int (length excluded))), (''excluded'', JList others)]\<rparr>)))))"

subsection \<open>The comparison\<close>

record regime_comparison =
  rc_ratio :: rat
  rc_lower :: rat
  rc_upper :: rat

definition compare_latency :: "cohort_latency \<Rightarrow> cohort_latency \<Rightarrow> regime_comparison res" where
  "compare_latency nvdla cpu =
     bindE (divided (cl_session_median cpu) (cl_session_median nvdla)) (\<lambda>q.
     bindE (divided (cl_lower cpu) (cl_upper nvdla)) (\<lambda>l. bindE (divided (cl_upper cpu) (cl_lower nvdla)) (\<lambda>u.
     Inr \<lparr>rc_ratio = q, rc_lower = l, rc_upper = u\<rparr>)))"

record power_comparison =
  pw_power :: rat
  pw_energy :: rat
  pw_incremental :: rat

definition compare_power :: "cohort_power \<Rightarrow> cohort_power \<Rightarrow> power_comparison res" where
  "compare_power nvdla cpu =
     bindE (change_percentage (mv_mean (cw_active nvdla)) (mv_mean (cw_active cpu))) (\<lambda>a.
     bindE (change_percentage (mv_mean (cw_active_energy nvdla)) (mv_mean (cw_active_energy cpu))) (\<lambda>b.
     bindE (change_percentage (mv_mean (cw_incremental_energy nvdla)) (mv_mean (cw_incremental_energy cpu))) (\<lambda>c.
     Inr \<lparr>pw_power = a, pw_energy = b, pw_incremental = c\<rparr>)))"

record implementation_result =
  ir_latency :: "(string \<times> cohort_latency) list"
  ir_power :: cohort_power
  ir_latency_provenance :: json
  ir_power_provenance :: json

definition find_cohort :: "cohort list \<Rightarrow> string \<Rightarrow> string \<Rightarrow> string \<Rightarrow> cohort res" where
  "find_cohort cohorts implementation model kind = noneE (KeyError implementation)
     (find_first (\<lambda>c. co_implementation c = implementation \<and> co_model c = model \<and> co_kind c = kind) cohorts)"

definition implementation_result_of :: "(rat \<Rightarrow> rat) \<Rightarrow> cohort list \<Rightarrow> string \<Rightarrow> string \<Rightarrow> implementation_result res" where
  "implementation_result_of rt cohorts model implementation =
     bindE (find_cohort cohorts implementation model ''latency'') (\<lambda>lc. bindE (find_cohort cohorts implementation model ''power'') (\<lambda>pc.
     bindE (mapE (\<lambda>regime. bindE (cohort_latency_of (co_data lc) implementation regime) (\<lambda>l. Inr (regime, l))) REGIMES) (\<lambda>latency.
     bindE (cohort_power_of rt pc) (\<lambda>p. bindE (jat (co_data lc) ''provenance'') (\<lambda>lp. bindE (jat (co_data pc) ''provenance'') (\<lambda>pp.
     Inr \<lparr>ir_latency = latency, ir_power = p, ir_latency_provenance = lp, ir_power_provenance = pp\<rparr>))))))"

record model_result =
  mr_nvdla :: implementation_result
  mr_cpu :: implementation_result
  mr_comparison :: "(string \<times> regime_comparison) list"
  mr_power :: power_comparison

definition model_result_of :: "(rat \<Rightarrow> rat) \<Rightarrow> cohort list \<Rightarrow> string \<Rightarrow> model_result res" where
  "model_result_of rt cohorts model =
     bindE (implementation_result_of rt cohorts model ''nvdla'') (\<lambda>n. bindE (implementation_result_of rt cohorts model ''cpu'') (\<lambda>c.
     bindE (mapE (\<lambda>regime. bindE (noneE (KeyError regime) (dict_get (ir_latency n) regime)) (\<lambda>a. bindE (noneE (KeyError regime) (dict_get (ir_latency c) regime)) (\<lambda>b.
       bindE (compare_latency a b) (\<lambda>q. Inr (regime, q))))) REGIMES) (\<lambda>comparisons.
     bindE (compare_power (ir_power n) (ir_power c)) (\<lambda>p.
     Inr \<lparr>mr_nvdla = n, mr_cpu = c, mr_comparison = comparisons, mr_power = p\<rparr>))))"

subsection \<open>The documents\<close>

definition latency_json :: "cohort_latency \<Rightarrow> json" where
  "latency_json l = JDict [(''median_ms'', JFloat (cl_median l)), (''mean_ms'', JFloat (cl_mean l)), (''p5_ms'', JFloat (cl_p5 l)), (''p95_ms'', JFloat (cl_p95 l)),
     (''session_median_ms'', JFloat (cl_session_median l)), (''ci_lower_ms'', JFloat (cl_lower l)), (''ci_upper_ms'', JFloat (cl_upper l)),
     (''samples'', cl_samples l), (''outliers_retained'', cl_outliers l)]"

definition mean_json :: "mean_values \<Rightarrow> json" where
  "mean_json m = JDict [(''session_count'', JInt (int (mv_count m))), (''mean'', JFloat (mv_mean m)), (''median'', JFloat (mv_median m)),
     (''standard_deviation'', JFloat (mv_deviation m)), (''minimum'', JFloat (mv_minimum m)), (''maximum'', JFloat (mv_maximum m))]"

definition power_json :: "cohort_power \<Rightarrow> json" where
  "power_json p = JDict [(''scope'', JStr ''sum of monitored PS and PL rails during the steady process interval''),
     (''executed_inferences_per_session'', JInt (cw_executed p)), (''active_watts'', mean_json (cw_active p)), (''idle_watts'', mean_json (cw_idle p)),
     (''incremental_watts'', mean_json (cw_incremental p)), (''active_joules_per_inference'', mean_json (cw_active_energy p)),
     (''incremental_joules_per_inference'', mean_json (cw_incremental_energy p))]"

definition implementation_json :: "implementation_result \<Rightarrow> json" where
  "implementation_json r = JDict [(''latency'', JDict (map (\<lambda>(k, l). (k, latency_json l)) (ir_latency r))), (''power'', power_json (ir_power r)),
     (''latency_provenance'', ir_latency_provenance r), (''power_provenance'', ir_power_provenance r)]"

definition regime_comparison_json :: "regime_comparison \<Rightarrow> json" where
  "regime_comparison_json c = JDict [(''cpu_time_divided_by_nvdla_time'', JFloat (rc_ratio c)), (''lower_bound_from_independent_95ci_limits'', JFloat (rc_lower c)),
     (''upper_bound_from_independent_95ci_limits'', JFloat (rc_upper c))]"

definition model_json :: "model_result \<Rightarrow> json" where
  "model_json r = JDict [(''comparison'', JDict (map (\<lambda>(k, c). (k, regime_comparison_json c)) (mr_comparison r))),
     (''nvdla'', implementation_json (mr_nvdla r)), (''cpu'', implementation_json (mr_cpu r)),
     (''power_comparison'', JDict [(''active_power_change_percentage'', JFloat (pw_power (mr_power r))),
        (''active_energy_change_percentage'', JFloat (pw_energy (mr_power r))), (''incremental_energy_change_percentage'', JFloat (pw_incremental (mr_power r)))])]"

definition campaign_summary :: "nat \<Rightarrow> (string \<times> model_result) list \<Rightarrow> json" where
  "campaign_summary excluded models = JDict [(''schema_version'', JInt 1), (''qualification'', JStr ''all selected sessions correctness-qualified''),
     (''comparison_scope'', JStr ''system-level INT8 NVDLA versus FP32 four-thread ARM CPU''), (''primary_latency_source'', JStr ''non-power cohorts''),
     (''power_scope'', JStr ''sum of exposed PS and PL rails''), (''selected_sessions'', JInt 40), (''excluded_sessions'', JInt (int excluded)),
     (''models'', JDict (map (\<lambda>(k, r). (k, model_json r)) models))]"

record campaign =
  ca_cohorts :: "cohort list"
  ca_selection :: campaign_selection
  ca_models :: "(string \<times> model_result) list"

definition build_campaign :: "env \<Rightarrow> (rat \<Rightarrow> rat) \<Rightarrow> path \<Rightarrow> fs \<Rightarrow> path \<Rightarrow> path \<Rightarrow> campaign res" where
  "build_campaign e rt cwd fs reports campaign_root =
     bindE (mapE (load_cohort (env_float e) fs reports) COHORTS) (\<lambda>cohorts.
     bindE (select_archives e fs cwd campaign_root cohorts) (\<lambda>selection.
     bindE (mapE (\<lambda>model. bindE (model_result_of rt cohorts model) (\<lambda>r. Inr (model, r))) MODELS) (\<lambda>models.
     Inr \<lparr>ca_cohorts = cohorts, ca_selection = selection, ca_models = models\<rparr>)))"

definition write_campaign_documents :: "env \<Rightarrow> campaign \<Rightarrow> path \<Rightarrow> fs \<Rightarrow> fs" where
  "write_campaign_documents e c out_dir fs =
     write_json e (out_dir @ [''campaign-summary.json'']) (campaign_summary (length (sl_excluded (ca_selection c))) (ca_models c))
       (write_json e (out_dir @ [''campaign-selection.json'']) (sl_document (ca_selection c)) fs)"

subsection \<open>Facts\<close>

text \<open>When both confidence intervals are positive and hold their estimates, the reported ratio of the
  latencies lies within the reported bounds.\<close>

theorem ratio_within_bounds:
  assumes "0 < cl_lower n" and "cl_lower n \<le> cl_session_median n" and "cl_session_median n \<le> cl_upper n"
    and "0 < cl_lower c" and "cl_lower c \<le> cl_session_median c" and "cl_session_median c \<le> cl_upper c"
  shows "\<exists>r. compare_latency n c = Inr r \<and> 0 < rc_lower r \<and> rc_lower r \<le> rc_ratio r \<and> rc_ratio r \<le> rc_upper r"
proof -
  let ?r = "\<lparr>rc_ratio = cl_session_median c / cl_session_median n, rc_lower = cl_lower c / cl_upper n, rc_upper = cl_upper c / cl_lower n\<rparr>"
  have "compare_latency n c = Inr ?r" using assms by (simp add: compare_latency_def divided_def)
  moreover have "0 < rc_lower ?r" using assms by simp
  moreover have "rc_lower ?r \<le> rc_ratio ?r" using assms by (simp add: frac_le)
  moreover have "rc_ratio ?r \<le> rc_upper ?r" using assms by (simp add: frac_le)
  ultimately show ?thesis by blast
qed


lemma ratio_within_bounds_witness:
  "\<exists>r. compare_latency \<lparr>cl_median = 2, cl_mean = 2, cl_p5 = 1, cl_p95 = 3, cl_session_median = 2, cl_lower = 1, cl_upper = 3, cl_samples = JInt 5, cl_outliers = JInt 0\<rparr>
      \<lparr>cl_median = 8, cl_mean = 8, cl_p5 = 6, cl_p95 = 9, cl_session_median = 8, cl_lower = 6, cl_upper = 9, cl_samples = JInt 5, cl_outliers = JInt 0\<rparr> = Inr r \<and>
     0 < rc_lower r \<and> rc_lower r \<le> rc_ratio r \<and> rc_ratio r \<le> rc_upper r"
  by (rule ratio_within_bounds) simp_all

lemma jlen_jlist: "jlen v = Inr n \<Longrightarrow> jlist v = Inr xs \<Longrightarrow> length xs = n"
  by (cases v) auto

text \<open>Five sessions with five different boots.\<close>

definition cohort_ok :: "cohort \<Rightarrow> bool" where
  "cohort_ok c \<longleftrightarrow> length (co_sessions c) = 5 \<and>
     (case mapE session_boot (co_sessions c) of Inl _ \<Rightarrow> False | Inr ids \<Rightarrow> JNull \<notin> set ids \<and> distinct (map jnorm ids))"

lemma check_cohort_facts:
  assumes "check_cohort fr implementation model kind data = Inr sessions"
  shows "length sessions = 5" and "\<exists>ids. mapE session_boot sessions = Inr ids \<and> JNull \<notin> set ids \<and> distinct (map jnorm ids)"
proof -
  from assms obtain v n ids boots where n: "(if jeq n (JInt 5) then jlen v else Inr 0) = Inr (5::nat)" and s: "jlist v = Inr sessions"
    and ids: "mapE session_boot sessions = Inr ids" and boots: "(if JNull \<in> set ids then Inr 0 else count_distinct ids) = Inr (boots::nat)" "boots = 5"
    unfolding check_cohort_def Let_def bindE_Inr_iff guardE_Inr_iff sum.inject by (elim exE conjE) (rule that; (assumption | (hypsubst, assumption) | simp))
  from n s show len: "length sessions = 5" by (auto simp: jlen_jlist split: if_splits)
  then have "length ids = 5" using mapE_length [OF ids] by simp
  with boots have "JNull \<notin> set ids" "length (remdups (map jnorm ids)) = length (map jnorm ids)"
    by (auto simp: count_distinct_def bindE_Inr_iff split: if_splits)
  with ids show "\<exists>ids. mapE session_boot sessions = Inr ids \<and> JNull \<notin> set ids \<and> distinct (map jnorm ids)"
    by (metis length_remdups_eq remdups_id_iff_distinct)
qed

text \<open>C14: an accepted campaign rests on eight cohorts of five sessions from five different boots, and
  its forty sessions have forty different archives, all present in the campaign's directory.\<close>

theorem campaign_qualified:
  "case build_campaign e rt cwd fs reports campaign_root of
     Inl err \<Rightarrow> True
   | Inr c \<Rightarrow> length (ca_cohorts c) = 8 \<and> list_all cohort_ok (ca_cohorts c) \<and>
       (case mapE (session_archive cwd) (concat (map co_sessions (ca_cohorts c))) of
          Inl err \<Rightarrow> False
        | Inr ps \<Rightarrow> length ps = 40 \<and> distinct ps \<and> list_all (\<lambda>p. p \<in> set (available_paths fs campaign_root)) ps)"
proof (cases "build_campaign e rt cwd fs reports campaign_root")
  case (Inr c)
  then obtain cohorts selection where m: "mapE (load_cohort (env_float e) fs reports) COHORTS = Inr cohorts"
    and sel: "select_archives e fs cwd campaign_root cohorts = Inr selection" and c: "ca_cohorts c = cohorts"
    unfolding build_campaign_def bindE_Inr_iff sum.inject by (elim exE conjE) (rule that; (assumption | (hypsubst, simp)))
  have len: "length cohorts = 8" using mapE_length [OF m] by (simp add: COHORTS_def IMPLEMENTATIONS_def MODELS_def KINDS_def)
  have one: "cohort_ok co" if "load_cohort (env_float e) fs reports k = Inr co" for k co
  proof -
    from that obtain data implementation model kind where "check_cohort (env_float e) implementation model kind data = Inr (co_sessions co)"
      by (cases k) (auto simp: load_cohort_def bindE_Inr_iff)
    from check_cohort_facts [OF this] show ?thesis by (auto simp: cohort_ok_def)
  qed
  have ok: "list_all cohort_ok cohorts" unfolding list_all_iff using mapE_member [OF m] one by blast
  from sel obtain ps where ps: "mapE (session_archive cwd) (concat (map co_sessions cohorts)) = Inr ps"
    and sub: "set ps \<subseteq> set (available_paths fs campaign_root)" and forty: "length (remdups ps) = 40"
    by (auto simp: select_archives_def selected_paths_def Let_def bindE_Inr_iff guardE_Inr_iff)
  have "sum_list (map (length \<circ> co_sessions) cohorts) = sum_list (map (\<lambda>_. 5) cohorts)"
    using ok by (intro arg_cong [where f = sum_list] map_cong) (auto simp: list_all_iff cohort_ok_def)
  then have "length ps = 40" using mapE_length [OF ps] len by (simp add: length_concat comp_def sum_list_triv)
  moreover from this forty have "distinct ps" by (metis length_remdups_eq remdups_id_iff_distinct)
  ultimately show ?thesis using len ok sub by (auto simp: Inr c ps list_all_iff)
qed simp

end
