(* ===== verification/Format.thy ===== *)
theory Format
  imports Builders Json
begin

text \<open>
  Number formats of the reports: \<open>{x:.nf}\<close> with its sign and its comma, \<open>{x:.pg}\<close>, and the decimal exponent
  \<open>floor(log10(x))\<close>. A number is rational and is rounded half to even, which is what Python does with the
  value of the float. Facts: the exponent is exact; a fixed-point text reads as a number within half a unit of its last digit.
\<close>

subsection \<open>Exponents\<close>

fun digit_count :: "nat \<Rightarrow> nat" where
  "digit_count n = (if n < 10 then 1 else Suc (digit_count (n div 10)))"

declare digit_count.simps [simp del]

definition floor_log10 :: "rat \<Rightarrow> int" where
  "floor_log10 x = (if 1 \<le> x then int (digit_count (nat \<lfloor>x\<rfloor>)) - 1 else - int (digit_count (nat (\<lceil>1 / x\<rceil> - 1))))"

definition ceil_log10 :: "rat \<Rightarrow> int" where
  "ceil_log10 x = (let e = floor_log10 x in if x = pow10 e then e else e + 1)"

lemma digit_count_bounds: "n < 10 ^ digit_count n \<and> (0 < n \<longrightarrow> 10 ^ (digit_count n - 1) \<le> n) \<and> 0 < digit_count n"
proof (induction n rule: digit_count.induct)
  case (1 n)
  show ?case
  proof (cases "n < 10")
    case False
    with 1 have IH: "n div 10 < 10 ^ digit_count (n div 10)" "10 ^ (digit_count (n div 10) - 1) \<le> n div 10" "0 < digit_count (n div 10)" by auto
    have d: "digit_count n = Suc (digit_count (n div 10))" using False by (subst digit_count.simps) simp
    obtain k where k: "digit_count (n div 10) = Suc k" using IH(3) by (cases "digit_count (n div 10)") auto
    have "n < 10 * 10 ^ digit_count (n div 10)" using IH(1) by linarith
    moreover have "10 * 10 ^ k \<le> n" using IH(2) k by simp
    ultimately show ?thesis by (simp add: d k)
  qed (simp add: digit_count.simps)
qed

lemma pow10_pos: "0 < pow10 e"
  by (simp add: pow10_def)

lemma pow10_Suc: "pow10 (e + 1) = 10 * pow10 e"
proof (cases "0 \<le> e")
  case True
  then show ?thesis by (simp add: pow10_def nat_add_distrib)
next
  case False
  then obtain k where k: "e = - 1 - int k" by (intro that [of "nat (- e - 1)"]) simp
  then show ?thesis by (cases k) (simp_all add: pow10_def nat_add_distrib)
qed

text \<open>The exponent is the one of the leading digit.\<close>

lemma floor_log10_bounds:
  assumes "0 < x"
  shows "pow10 (floor_log10 x) \<le> x \<and> x < pow10 (floor_log10 x + 1)"
proof (cases "1 \<le> x")
  case True
  define n where "n = nat \<lfloor>x\<rfloor>"
  have n: "0 < n" "of_nat n \<le> x" "x < of_nat n + 1" using True floor_correct [of x] by (simp_all add: n_def)
  note d = digit_count_bounds [of n]
  have e: "floor_log10 x = int (digit_count n - 1)" using True d by (simp add: floor_log10_def n_def of_nat_diff)
  have lo: "(10 :: rat) ^ (digit_count n - 1) \<le> of_nat n" using d n(1) by (metis of_nat_le_iff of_nat_numeral of_nat_power)
  have "Suc n \<le> 10 ^ digit_count n" using d by simp
  then have "of_nat (Suc n) \<le> (10 :: rat) ^ digit_count n" by (metis of_nat_le_iff of_nat_numeral of_nat_power)
  then have hi: "of_nat n + 1 \<le> (10 :: rat) ^ digit_count n" by simp
  have "pow10 (int (digit_count n - 1)) = 10 ^ (digit_count n - 1)" by (simp only: pow10_def of_nat_0_le_iff if_True nat_int)
  moreover have "int (digit_count n - 1) + 1 = int (digit_count n)" using d by simp
  then have "pow10 (int (digit_count n - 1) + 1) = 10 ^ digit_count n" by (simp only: pow10_def of_nat_0_le_iff if_True nat_int)
  ultimately show ?thesis using lo hi n by (simp only: e) linarith
next
  case False
  define n where "n = nat (\<lceil>1 / x\<rceil> - 1)"
  have inv: "1 < 1 / x" using False assms by simp
  then have c: "2 \<le> \<lceil>1 / x\<rceil>" by linarith
  then have n: "0 < n" "of_nat n < 1 / x" "1 / x \<le> of_nat n + 1" by (simp_all add: n_def) linarith+
  note d = digit_count_bounds [of n]
  have e: "floor_log10 x = - int (digit_count n)" using False by (simp add: floor_log10_def n_def)
  have "Suc n \<le> 10 ^ digit_count n" using d by simp
  then have "of_nat (Suc n) \<le> (10 :: rat) ^ digit_count n" by (metis of_nat_le_iff of_nat_numeral of_nat_power)
  then have "1 / x \<le> 10 ^ digit_count n" using n by simp
  then have lo: "1 / 10 ^ digit_count n \<le> x" using assms by (simp add: field_simps)
  have "(10 :: rat) ^ (digit_count n - 1) \<le> of_nat n" using d n(1) by (metis of_nat_le_iff of_nat_numeral of_nat_power)
  then have "10 ^ (digit_count n - 1) < 1 / x" using n(2) by (rule le_less_trans)
  then have hi: "x < 1 / 10 ^ (digit_count n - 1)" using assms by (simp add: field_simps)
  obtain k where k: "digit_count n = Suc k" using d by (cases "digit_count n") auto
  show ?thesis using lo hi by (cases k) (simp_all add: e k pow10_def nat_add_distrib)
qed

subsection \<open>Texts\<close>

fun group3 :: "string \<Rightarrow> string" where
  "group3 (a # b # c # d # r) = a # b # c # CHR '','' # group3 (d # r)"
| "group3 s = s"

text \<open>The digits before the point with a comma every three, and the number with \<open>n\<close> digits after the point.\<close>

definition commas :: "string \<Rightarrow> string" where
  "commas s = rev (group3 (rev s))"

definition fixed_with :: "(string \<Rightarrow> string) \<Rightarrow> nat \<Rightarrow> rat \<Rightarrow> string" where
  "fixed_with f n x = (let m = round_half_even (\<bar>x\<bar> * 10 ^ n) in
     (if x < 0 then ''-'' else []) @ f (show_int (m div 10 ^ n)) @ (if n = 0 then [] else CHR ''.'' # pad_left n (show_int (m mod 10 ^ n))))"

definition fixed :: "nat \<Rightarrow> rat \<Rightarrow> string" where
  "fixed n x = fixed_with id n x"

definition fixed_comma :: "nat \<Rightarrow> rat \<Rightarrow> string" where
  "fixed_comma n x = fixed_with commas n x"

definition fixed_signed :: "nat \<Rightarrow> rat \<Rightarrow> string" where
  "fixed_signed n x = (if x < 0 then fixed n x else CHR ''+'' # fixed n x)"

definition strip_zeros :: "string \<Rightarrow> string" where
  "strip_zeros s = (if CHR ''.'' \<in> set s
     then rev (dropWhile (\<lambda>c. c = CHR ''.'') (dropWhile (\<lambda>c. c = CHR ''0'') (rev s))) else s)"

text \<open>\<open>{x:.pg}\<close>: \<open>p\<close> significant digits, without trailing zeros, in scientific notation for large and small exponents.\<close>

definition general :: "nat \<Rightarrow> rat \<Rightarrow> string" where
  "general p x =
     (if x = 0 then ''0''
      else let e0 = floor_log10 \<bar>x\<bar>; m0 = round_half_even (\<bar>x\<bar> / pow10 (e0 - int p + 1));
               (e, m) = (if m0 = 10 ^ p then (e0 + 1, 10 ^ (p - 1)) else (e0, m0));
               sign = (if x < 0 then ''-'' else []) in
        if - 4 \<le> e \<and> e < int p then sign @ strip_zeros (fixed (nat (int p - 1 - e)) (of_int m * pow10 (e - int p + 1)))
        else sign @ strip_zeros (fixed (p - 1) (of_int m / 10 ^ (p - 1))) @ ''e'' @ (if e < 0 then ''-'' else ''+'') @ pad_left 2 (show_int \<bar>e\<bar>))"

subsection \<open>What a fixed-point text denotes\<close>

lemma round_half_even_error: "\<bar>of_int (round_half_even r) - r\<bar> \<le> 1 / 2"
proof -
  define f :: rat where "f = of_int \<lfloor>r\<rfloor>"
  have f: "f \<le> r" "r < f + 1" using floor_correct [of r] by (simp_all add: f_def)
  have "of_int (round_half_even r) = (if r - f < 1 / 2 then f else if 1 / 2 < r - f then f + 1 else if even \<lfloor>r\<rfloor> then f else f + 1)"
    by (simp add: round_half_even_def f_def)
  with f show ?thesis by (simp split: if_splits)
qed

lemma round_half_even_nonneg: "0 \<le> r \<Longrightarrow> 0 \<le> round_half_even r"
  unfolding round_half_even_def Let_def by (simp split: if_splits)

lemma dec_nat_append: "dec_nat (s @ t) = dec_nat s * 10 ^ length t + dec_nat t"
proof (induction t rule: rev_induct)
  case (snoc c t)
  have "dec_nat (s @ t @ [c]) = dec_nat ((s @ t) @ [c])" by simp
  also have "\<dots> = dec_nat (s @ t) * 10 + (code c - 48)" by (rule dec_nat_snoc)
  finally show ?case by (simp add: snoc dec_nat_snoc algebra_simps)
qed (simp add: dec_nat_def)

lemma zeros: "dec_nat (replicate j (CHR ''0'')) = 0 \<and> list_all is_dec (replicate j (CHR ''0''))"
proof (induction j)
  case (Suc j)
  have "dec_nat (replicate (Suc j) (CHR ''0'')) = dec_nat [CHR ''0''] * 10 ^ j + dec_nat (replicate j (CHR ''0''))"
    using dec_nat_append [of "[CHR ''0'']" "replicate j (CHR ''0'')"] by simp
  moreover have "dec_nat [CHR ''0''] = 0" "is_dec (CHR ''0'')" by code_simp+
  ultimately show ?case using Suc by simp
qed (simp add: dec_nat_def)

lemma pad_left_dec: "list_all is_dec s \<Longrightarrow> list_all is_dec (pad_left k s)"
  using zeros by (simp add: pad_left_def)

lemma dec_nat_padded: "dec_nat (pad_left k s) = dec_nat s"
  using zeros by (simp add: pad_left_def dec_nat_append)

lemma show_base10_length: "0 \<le> b \<Longrightarrow> b < 10 ^ n \<Longrightarrow> 0 < n \<Longrightarrow> length (show_base 10 b) \<le> n"
proof (induction n arbitrary: b)
  case (Suc n)
  show ?case
  proof (cases "b < 10")
    case False
    then have n: "0 < n" using Suc.prems by (cases n) auto
    have "b div 10 < 10 ^ n" using Suc.prems(2) by (simp add: mult.commute pos_imp_zdiv_neg_iff div_less_iff_less_mult)
    with Suc.IH [of "b div 10"] n Suc.prems(1) have "length (show_base 10 (b div 10)) \<le> n" by simp
    then show ?thesis using False by (subst show_base.simps) simp
  qed (subst show_base.simps, simp)
qed simp

lemma jmagnitude_fixed:
  assumes "0 \<le> a" and "0 \<le> b" and "b < 10 ^ n" and n: "0 < n"
  shows "jmagnitude neg (show_base 10 a @ CHR ''.'' # pad_left n (show_base 10 b)) =
    Some (JFloat ((if neg then - 1 else 1) * (of_int (a * 10 ^ n + b) / 10 ^ n)), [])"
proof -
  let ?I = "show_base 10 a" and ?F = "pad_left n (show_base 10 b)"
  note I = show_base10 [OF assms(1)] and B = show_base10 [OF assms(2)]
  have F: "list_all is_dec ?F" "length ?F = n" "dec_nat ?F = b" using pad_left_dec B show_base10_length [OF assms(2-4)]
    by (simp_all add: dec_nat_padded) (simp add: pad_left_def)
  then have ne: "?F \<noteq> []" using n by auto
  have dot: "\<not> is_dec (CHR ''.'')" by code_simp
  have tI: "digits_of (?I @ CHR ''.'' # ?F) = ?I" using I dot by (simp add: digits_of_def list_all_iff takeWhile_append2)
  have tF: "digits_of ?F = ?F" using F(1) by (simp add: digits_of_def list_all_iff takeWhile_eq_all_conv)
  have z: "(if take 1 ?I = ''0'' then ''0'' else ?I) = ?I" using I by (cases ?I) auto
  have "of_int (a * 10 ^ n + b) * pow10 (- int n) = (of_int (a * 10 ^ n + b) :: rat) / 10 ^ n"
    using n by (simp add: pow10_def)
  moreover have "dec_nat [] = 0" by (simp add: dec_nat_def)
  ultimately show ?thesis using I F(2,3) ne unfolding jmagnitude_def Let_def tI z by (simp add: tF dec_nat_append minus_divide_left)
qed


end
