(* ===== verification/Figures.thy ===== *)
theory Figures
  imports PerfSummary Format
begin

text \<open>
  The figures of a performance report (tools/nvdla_test_framework/performance.py): four SVG texts drawn from
  the measurements and their summaries, with the geometry they rest on (ticks, panels, stacked bars, dots) as
  functions of their own. The logarithm of the throughput scale is a parameter. In the texts a back quote
  stands for a double quote. Facts: the axis covers the data with few round ticks, and the marks lie in their frames.
\<close>

definition svg_text :: "string list \<Rightarrow> string" where
  "svg_text body = join [NL] body @ [NL]"

subsection \<open>Colours and labels\<close>

definition text_in :: "(string \<times> string) list \<Rightarrow> string \<Rightarrow> string" where
  "text_in d k = dict_get_or d k []"

definition REGIME_ORDER :: "string list" where
  "REGIME_ORDER = [''cold'', ''warm'', ''steady'']"

definition REGIME_COLORS :: "(string \<times> string) list" where
  "REGIME_COLORS = [(''cold'', ''#C44E52''), (''warm'', ''#2A7F62''), (''steady'', ''#2B6EA6'')]"

definition REGIME_TITLES :: "(string \<times> string) list" where
  "REGIME_TITLES = [(''cold'', ''Cold deployment''), (''warm'', ''Warm deployment''), (''steady'', ''Repeated inference'')]"

definition REGIME_SUBTITLES :: "(string \<times> string) list" where
  "REGIME_SUBTITLES = [(''cold'', ''new process; files read from storage''), (''warm'', ''new process; files already cached''),
     (''steady'', ''model and buffers remain resident'')]"

definition PHASE_COLORS :: "(string \<times> string) list" where
  "PHASE_COLORS = [(''runtime_initialization'', ''#6F4E7C''), (''model_loading'', ''#D55E00''), (''buffer_preparation'', ''#009E73''),
     (''runtime_execution'', ''#0072B2''), (''result_handling'', ''#E69F00''), (''teardown'', ''#5B6770''), (''unprofiled_process_and_launch'', ''#B8BEC5'')]"

definition PHASE_LABELS :: "(string \<times> string) list" where
  "PHASE_LABELS = [(''runtime_initialization'', ''Create runtime and emulator''), (''model_loading'', ''Read and prepare model''),
     (''buffer_preparation'', ''Prepare input/output buffers''), (''runtime_execution'', ''Execute accelerator workload''),
     (''result_handling'', ''Extract and write result''), (''teardown'', ''Unload and clean up''), (''unprofiled_process_and_launch'', ''Process launch and other overhead'')]"

definition regime_color :: "string \<Rightarrow> string" where
  "regime_color regime = text_in REGIME_COLORS regime"

definition phase_color :: "string \<Rightarrow> string" where
  "phase_color name = text_in PHASE_COLORS name"

definition phase_label :: "string \<Rightarrow> string" where
  "phase_label name = text_in PHASE_LABELS name"

definition SVG_FONT :: string where
  "SVG_FONT = ''Arial, Helvetica, sans-serif''"

definition SVG_TEXT :: string where
  "SVG_TEXT = ''#17212B''"

definition SVG_MUTED :: string where
  "SVG_MUTED = ''#5F6B76''"

definition SVG_GRID :: string where
  "SVG_GRID = ''#D9DEE3''"

subsection \<open>Ticks and numbers\<close>

definition log_ticks :: "rat \<Rightarrow> rat \<Rightarrow> rat list" where
  "log_ticks low high =
     (if low \<le> 0 \<or> high \<le> 0 then []
      else List.filter (\<lambda>tick. low \<le> tick \<and> tick \<le> high)
        (concat (map (\<lambda>exponent. map (\<lambda>multiplier. multiplier * pow10 exponent) [1, 2, 5]) [floor_log10 low - 1 .. ceil_log10 high + 1])))"

definition format_ms :: "rat \<Rightarrow> string" where
  "format_ms v = (if 1 \<le> v then fixed_comma 3 v else fixed 4 v)"

definition axis_decimals :: "rat \<Rightarrow> int" where
  "axis_decimals step =
     (if 1 \<le> step then 0
      else let decimals = max 0 (min 4 (- floor_log10 step)); scaled = step * 10 ^ nat decimals in
        if \<bar>scaled - of_int (round_half_even scaled)\<bar> \<le> 1 / 1000000000 then decimals else min (decimals + 1) 4)"

definition format_axis_ms :: "rat \<Rightarrow> rat \<Rightarrow> string" where
  "format_axis_ms v step = (if axis_decimals step = 0 then fixed_comma 0 v else fixed (nat (axis_decimals step)) v)"

definition format_rate :: "rat \<Rightarrow> string" where
  "format_rate v = (if 1000 \<le> v then fixed_comma 0 v else if 100 \<le> v then fixed 1 v else if 10 \<le> v then fixed 2 v else fixed 3 v)"

definition linear_step :: "rat \<Rightarrow> rat" where
  "linear_step rough_step =
     (let magnitude = pow10 (floor_log10 rough_step); normalized = rough_step / magnitude in
      if normalized \<le> 1 then magnitude else if normalized \<le> 2 then 2 * magnitude else if normalized \<le> 5 then 5 * magnitude else 10 * magnitude)"

definition linear_ticks :: "rat \<Rightarrow> rat list" where
  "linear_ticks maximum =
     (if maximum \<le> 0 then [0, 1]
      else let step = linear_step (maximum / 5); axis_maximum = of_int \<lceil>maximum / step\<rceil> * step in
        map (\<lambda>index. of_nat index * step) [0..<nat (round_half_even (axis_maximum / step) + 1)])"

definition tick_step :: "rat list \<Rightarrow> rat" where
  "tick_step ticks = ticks ! 1 - ticks ! 0"

subsection \<open>The latency figure\<close>

definition panel_width :: rat where
  "panel_width = 340"

definition plot_top :: rat where
  "plot_top = 145"

definition plot_bottom :: rat where
  "plot_bottom = 430"

text \<open>The geometry of a panel: its position, its values in milliseconds, and its scale.\<close>

record panel =
  pn_regime :: string
  pn_left :: rat
  pn_values :: "rat list"
  pn_min :: rat
  pn_max :: rat
  pn_median :: rat
  pn_q1 :: rat
  pn_q3 :: rat
  pn_p5 :: rat
  pn_p95 :: rat
  pn_lower :: rat
  pn_span :: rat

definition panel_padding :: "nat \<Rightarrow> rat \<Rightarrow> rat \<Rightarrow> rat" where
  "panel_padding n observed_span md =
     (if n = 1 then max (\<bar>md\<bar> * (5 / 100)) (1 / 1000)
      else max (max (observed_span * (35 / 100)) (\<bar>md\<bar> * (5 / 1000))) (1 / 1000))"

definition latency_panel :: "nat \<times> string \<times> rat list \<Rightarrow> panel res" where
  "latency_panel = (\<lambda>(index, regime, latencies).
     let vs = sort (map (\<lambda>ns. ns / 1000000) latencies); observed_min = Min (set vs); observed_max = Max (set vs) in
     bindE (percentile vs (1 / 2)) (\<lambda>md.
     let padding = panel_padding (length vs) (observed_max - observed_min) md;
         lower = max 0 (observed_min - padding); upper = observed_max + padding in
     bindE (percentile vs (1 / 4)) (\<lambda>q1. bindE (percentile vs (3 / 4)) (\<lambda>q3. bindE (percentile vs (5 / 100)) (\<lambda>p5. bindE (percentile vs (95 / 100)) (\<lambda>p95.
     Inr \<lparr>pn_regime = regime, pn_left = 36 + of_nat index * (panel_width + 24), pn_values = vs, pn_min = observed_min, pn_max = observed_max,
          pn_median = md, pn_q1 = q1, pn_q3 = q3, pn_p5 = p5, pn_p95 = p95, pn_lower = lower, pn_span = max (upper - lower) (1 / 1000000000)\<rparr>))))))"

definition panel_y :: "panel \<Rightarrow> rat \<Rightarrow> rat" where
  "panel_y p v = plot_bottom - (v - pn_lower p) / pn_span p * (plot_bottom - plot_top)"

definition plot_left :: "panel \<Rightarrow> rat" where
  "plot_left p = pn_left p + 62"

definition plot_right :: "panel \<Rightarrow> rat" where
  "plot_right p = pn_left p + panel_width - 18"

definition plot_center :: "panel \<Rightarrow> rat" where
  "plot_center p = (plot_left p + plot_right p) / 2"

definition point_jitter :: "nat \<Rightarrow> rat" where
  "point_jitter point = of_int (int (point * 47) mod 101 - 50) * (9 / 10)"

definition panel_frame :: "panel \<Rightarrow> string list" where
  "panel_frame p = (let title = text_in REGIME_TITLES (pn_regime p); subtitle = text_in REGIME_SUBTITLES (pn_regime p) in
     map dq [''<rect x=`'' @ fixed 1 (pn_left p) @ ''` y=`96` width=`'' @ fixed 1 panel_width @ ''` height=`420` fill=`#FAFBFC` stroke=`#E5E9EC`/>'',
       ''<text x=`'' @ fixed 1 (pn_left p + (panel_width / 2)) @ ''` y=`120` text-anchor=`middle` font-family=`'' @ SVG_FONT @ ''` font-size=`15` font-weight=`700` fill=`'' @ SVG_TEXT @ ''`>'' @ title @ ''</text>'',
       ''<text x=`'' @ fixed 1 (pn_left p + (panel_width / 2)) @ ''` y=`138` text-anchor=`middle` font-family=`'' @ SVG_FONT @ ''` font-size=`10.5` fill=`'' @ SVG_MUTED @ ''`>'' @ subtitle @ ''</text>''])"

definition panel_tick :: "panel \<Rightarrow> nat \<Rightarrow> string list" where
  "panel_tick p tick_index = (let tick = pn_lower p + pn_span p * of_nat tick_index / 4; y = panel_y p tick in
     map dq [''<line x1=`'' @ fixed 1 (plot_left p) @ ''` y1=`'' @ fixed 1 y @ ''` x2=`'' @ fixed 1 (plot_right p) @ ''` y2=`'' @ fixed 1 y @ ''` stroke=`'' @ SVG_GRID @ ''` stroke-width=`1`/>'',
       ''<text x=`'' @ fixed 1 (plot_left p - 8) @ ''` y=`'' @ fixed 1 (y + 4) @ ''` text-anchor=`end` font-family=`'' @ SVG_FONT @ ''` font-size=`10` fill=`'' @ SVG_MUTED @ ''`>'' @ (format_axis_ms tick (pn_span p / 4)) @ ''</text>''])"

definition panel_axis :: "panel \<Rightarrow> string list" where
  "panel_axis p = map dq [''<text x=`'' @ fixed 1 (pn_left p + 13) @ ''` y=`'' @ fixed 1 ((plot_top + plot_bottom) / 2) @ ''` transform=`rotate(-90 '' @ fixed 1 (pn_left p + 13) @ '' '' @ fixed 1 ((plot_top + plot_bottom) / 2) @ '')` text-anchor=`middle` font-family=`'' @ SVG_FONT @ ''` font-size=`10` fill=`'' @ SVG_TEXT @ ''`>Latency (ms)</text>'']"

definition panel_point :: "panel \<Rightarrow> nat \<times> rat \<Rightarrow> string list" where
  "panel_point p = (\<lambda>(point, value). let jitter = point_jitter point; color = regime_color (pn_regime p) in
     map dq [''<circle cx=`'' @ fixed 1 (plot_center p + jitter) @ ''` cy=`'' @ fixed 1 (panel_y p value) @ ''` r=`3.5` fill=`'' @ color @ ''` fill-opacity=`0.50`/>''])"

definition panel_box :: "panel \<Rightarrow> string list" where
  "panel_box p = (let color = regime_color (pn_regime p); box_left = plot_center p - 45; box_top = panel_y p (pn_q3 p); box_bottom = panel_y p (pn_q1 p) in
     map dq [''<line x1=`'' @ fixed 1 (plot_center p) @ ''` y1=`'' @ fixed 1 (panel_y p (pn_p95 p)) @ ''` x2=`'' @ fixed 1 (plot_center p) @ ''` y2=`'' @ fixed 1 (panel_y p (pn_p5 p)) @ ''` stroke=`'' @ color @ ''` stroke-width=`2`/>'',
       ''<line x1=`'' @ fixed 1 (plot_center p - 22) @ ''` y1=`'' @ fixed 1 (panel_y p (pn_p95 p)) @ ''` x2=`'' @ fixed 1 (plot_center p + 22) @ ''` y2=`'' @ fixed 1 (panel_y p (pn_p95 p)) @ ''` stroke=`'' @ color @ ''` stroke-width=`2`/>'',
       ''<line x1=`'' @ fixed 1 (plot_center p - 22) @ ''` y1=`'' @ fixed 1 (panel_y p (pn_p5 p)) @ ''` x2=`'' @ fixed 1 (plot_center p + 22) @ ''` y2=`'' @ fixed 1 (panel_y p (pn_p5 p)) @ ''` stroke=`'' @ color @ ''` stroke-width=`2`/>'',
       ''<rect x=`'' @ fixed 1 box_left @ ''` y=`'' @ fixed 1 box_top @ ''` width=`90` height=`'' @ fixed 1 (max (box_bottom - box_top) 2) @ ''` fill=`#FFFFFF` fill-opacity=`0.88` stroke=`'' @ color @ ''` stroke-width=`2`/>'',
       ''<line x1=`'' @ fixed 1 box_left @ ''` y1=`'' @ fixed 1 (panel_y p (pn_median p)) @ ''` x2=`'' @ fixed 1 (box_left + 90) @ ''` y2=`'' @ fixed 1 (panel_y p (pn_median p)) @ ''` stroke=`'' @ color @ ''` stroke-width=`3`/>''])"

definition panel_caption :: "panel \<Rightarrow> string list" where
  "panel_caption p = (let color = regime_color (pn_regime p);
       spread_percentage = (if pn_median p \<noteq> 0 then (pn_max p - pn_min p) * 100 / pn_median p else 0) in
     map dq [''<text x=`'' @ fixed 1 (pn_left p + (panel_width / 2)) @ ''` y=`458` text-anchor=`middle` font-family=`'' @ SVG_FONT @ ''` font-size=`13` font-weight=`700` fill=`'' @ color @ ''`>Median: '' @ (format_ms (pn_median p)) @ '' ms</text>'',
       ''<text x=`'' @ fixed 1 (pn_left p + (panel_width / 2)) @ ''` y=`480` text-anchor=`middle` font-family=`'' @ SVG_FONT @ ''` font-size=`11` fill=`'' @ SVG_TEXT @ ''`>Observed: '' @ (format_ms (pn_min p)) @ '' to '' @ (format_ms (pn_max p)) @ '' ms</text>'',
       (if 1 < length (pn_values p) then ''<text x=`'' @ fixed 1 (pn_left p + (panel_width / 2)) @ ''` y=`500` text-anchor=`middle` font-family=`'' @ SVG_FONT @ ''` font-size=`10.5` fill=`'' @ SVG_MUTED @ ''`>Spread: '' @ (format_ms (pn_max p - pn_min p)) @ '' ms ('' @ fixed 3 spread_percentage @ ''%) | '' @ show_nat (length (pn_values p)) @ '' observations</text>'' else ''<text x=`'' @ fixed 1 (pn_left p + (panel_width / 2)) @ ''` y=`500` text-anchor=`middle` font-family=`'' @ SVG_FONT @ ''` font-size=`10.5` fill=`'' @ SVG_MUTED @ ''`>Only one observation; no distribution can be estimated</text>'')])"

definition panel_lines :: "panel \<Rightarrow> string list" where
  "panel_lines p = panel_frame p @ concat (map (panel_tick p) [0..<5]) @ panel_axis p
     @ concat (map (panel_point p) (zip [0..<length (pn_values p)] (pn_values p)))
     @ (if 1 < length (pn_values p) then panel_box p else []) @ panel_caption p"

definition latency_header :: "string list" where
  "latency_header = map dq [''<svg xmlns=`http://www.w3.org/2000/svg` width=`1120` height=`610` viewBox=`0 0 1120 610` role=`img` aria-labelledby=`title description`>'',
       ''<title id=`title`>How repeatable is each latency measurement?</title>'',
       ''<desc id=`description`>Three independently scaled panels show every observation, the median, the interquartile range, and the fifth to ninety-fifth percentile range.</desc>'',
       ''<rect width=`100%` height=`100%` fill=`#FFFFFF`/>'',
       ''<text x=`40` y=`42` font-family=`'' @ SVG_FONT @ ''` font-size=`24` font-weight=`700` fill=`'' @ SVG_TEXT @ ''`>How repeatable is each latency measurement?</text>'',
       ''<text x=`40` y=`70` font-family=`'' @ SVG_FONT @ ''` font-size=`13` fill=`'' @ SVG_MUTED @ ''`>Each panel expands its own observed range so small run-to-run differences remain visible.</text>'']"

definition latency_footer :: "string list" where
  "latency_footer = map dq [''<text x=`40` y=`550` font-family=`'' @ SVG_FONT @ ''` font-size=`11` fill=`'' @ SVG_TEXT @ ''`>How to read: dots are runs; boxes cover the middle 50%; whiskers cover p5-p95; the dark line is the median.</text>'',
       ''<text x=`40` y=`574` font-family=`'' @ SVG_FONT @ ''` font-size=`11` font-weight=`700` fill=`'' @ SVG_MUTED @ ''`>Panels use different linear scales. Compare printed medians for speed and each panel&apos;s spread for repeatability.</text>'',
       ''</svg>'']"

text \<open>The panels of the regimes that have measurements, in order.\<close>

definition latency_panels :: "(string \<times> rat list) list \<Rightarrow> panel list res" where
  "latency_panels grouped =
     (let regimes = List.filter (\<lambda>name. dict_get_or grouped name [] \<noteq> []) REGIME_ORDER in
      mapE latency_panel (zip [0..<length regimes] (map (\<lambda>name. (name, dict_get_or grouped name [])) regimes)))"

definition latency_svg :: "(string \<times> rat list) list \<Rightarrow> string res" where
  "latency_svg grouped = bindE (latency_panels grouped) (\<lambda>panels.
     Inr (svg_text (latency_header @ concat (map panel_lines panels) @ latency_footer)))"

subsection \<open>The phase figure\<close>

definition bar_left :: rat where
  "bar_left = 300"

definition bar_right :: rat where
  "bar_right = 960"

text \<open>The parts of a bar: their position and width, and where the bar ends.\<close>

definition bar_segment :: "rat \<Rightarrow> (string \<times> rat) list \<Rightarrow> string \<Rightarrow> rat" where
  "bar_segment axis_maximum parts name = (bar_right - bar_left) * (dict_get_or parts name 0 / 1000000) / axis_maximum"

fun bar_segments :: "(string \<Rightarrow> rat) \<Rightarrow> string list \<Rightarrow> rat \<Rightarrow> (string \<times> rat \<times> rat) list \<times> rat" where
  "bar_segments width [] x = ([], x)"
| "bar_segments width (name # names) x =
     (if width name \<le> 0 then bar_segments width names x
      else let (segments, e) = bar_segments width names (x + width name) in ((name, x, width name) # segments, e))"

definition segment_lines :: "(string \<times> rat) list \<Rightarrow> rat \<Rightarrow> string \<times> rat \<times> rat \<Rightarrow> string list" where
  "segment_lines parts y = (\<lambda>(name, x, segment).
     let value_ms = dict_get_or parts name 0 / 1000000;
         text_color = (if name = ''result_handling'' \<or> name = ''unprofiled_process_and_launch'' then SVG_TEXT else ''#FFFFFF'') in
     (if 1 / 2 \<le> segment then
        map dq [''<rect x=`'' @ fixed 1 x @ ''` y=`'' @ fixed 1 y @ ''` width=`'' @ fixed 1 segment @ ''` height=`48` fill=`'' @ phase_color name @ ''`/>'']
        @ (if 62 \<le> segment then
        map dq [''<text x=`'' @ fixed 1 (x + (segment / 2)) @ ''` y=`'' @ fixed 1 (y + 29) @ ''` text-anchor=`middle` font-family=`'' @ SVG_FONT @ ''` font-size=`10.5` font-weight=`700` fill=`'' @ text_color @ ''`>'' @ (format_ms value_ms) @ '' ms</text>''] else [])
      else []))"

definition total_ms_of :: "(string \<times> rat) list \<Rightarrow> rat" where
  "total_ms_of parts = sum_list (map snd parts) / 1000000"

definition bar_lines :: "rat \<Rightarrow> nat \<times> string \<times> (string \<times> rat) list \<Rightarrow> string list" where
  "bar_lines axis_maximum = (\<lambda>(index, regime, parts).
     let total_ms = total_ms_of parts; y = 140 + of_nat index * 92;
         title = text_in REGIME_TITLES regime; subtitle = text_in REGIME_SUBTITLES regime;
         (segments, x) = bar_segments (bar_segment axis_maximum parts) (map fst PHASE_COLORS) bar_left in
     map dq [''<text x=`'' @ fixed 0 (bar_left - 20) @ ''` y=`'' @ fixed 1 (y + 17) @ ''` text-anchor=`end` font-family=`'' @ SVG_FONT @ ''` font-size=`14` font-weight=`700` fill=`'' @ SVG_TEXT @ ''`>'' @ title @ ''</text>'',
       ''<text x=`'' @ fixed 0 (bar_left - 20) @ ''` y=`'' @ fixed 1 (y + 36) @ ''` text-anchor=`end` font-family=`'' @ SVG_FONT @ ''` font-size=`10.5` fill=`'' @ SVG_MUTED @ ''`>'' @ subtitle @ ''</text>'']
     @ concat (map (segment_lines parts y) segments)
     @ map dq [''<text x=`'' @ fixed 1 (x + 12) @ ''` y=`'' @ fixed 1 (y + 29) @ ''` font-family=`'' @ SVG_FONT @ ''` font-size=`12` font-weight=`700` fill=`'' @ SVG_TEXT @ ''`>'' @ (format_ms total_ms) @ '' ms total</text>''])"

definition axis_lines :: "rat list \<Rightarrow> rat \<Rightarrow> string list" where
  "axis_lines ticks tick = (let axis_maximum = last ticks; x = bar_left + (bar_right - bar_left) * tick / axis_maximum in
     map dq [''<line x1=`'' @ fixed 1 x @ ''` y1=`108` x2=`'' @ fixed 1 x @ ''` y2=`395` stroke=`'' @ SVG_GRID @ ''` stroke-width=`1`/>'',
       ''<text x=`'' @ fixed 1 x @ ''` y=`100` text-anchor=`middle` font-family=`'' @ SVG_FONT @ ''` font-size=`11` fill=`'' @ SVG_MUTED @ ''`>'' @ (format_axis_ms tick (tick_step ticks)) @ ''</text>''])"

definition legend_lines :: "nat \<times> string \<Rightarrow> string list" where
  "legend_lines = (\<lambda>(index, name). let column = int (index mod 4); row = int (index div 4); x = 48 + column * 268; y = 475 + row * 36 in
     map dq [''<rect x=`'' @ show_int x @ ''` y=`'' @ show_int (y - 13) @ ''` width=`16` height=`16` fill=`'' @ phase_color name @ ''`/>'',
       ''<text x=`'' @ show_int (x + 24) @ ''` y=`'' @ show_int y @ ''` font-family=`'' @ SVG_FONT @ ''` font-size=`11` fill=`'' @ SVG_TEXT @ ''`>'' @ phase_label name @ ''</text>''])"

definition phase_header :: "string list" where
  "phase_header = map dq [''<svg xmlns=`http://www.w3.org/2000/svg` width=`1120` height=`610` viewBox=`0 0 1120 610` role=`img` aria-labelledby=`title description`>'',
       ''<title id=`title`>Where does the measured time go?</title>'',
       ''<desc id=`description`>Absolute-time stacked bars compare deployment and repeated-inference latency while colours identify runtime phases.</desc>'',
       ''<rect width=`100%` height=`100%` fill=`#FFFFFF`/>'',
       ''<text x=`40` y=`42` font-family=`'' @ SVG_FONT @ ''` font-size=`24` font-weight=`700` fill=`'' @ SVG_TEXT @ ''`>Where does the measured time go?</text>'',
       ''<text x=`40` y=`70` font-family=`'' @ SVG_FONT @ ''` font-size=`13` fill=`'' @ SVG_MUTED @ ''`>Bar length is proportional to mean elapsed time; colour shows how that time is spent.</text>'']"

definition phase_axis_label :: "string list" where
  "phase_axis_label = map dq [''<text x=`'' @ fixed 1 ((bar_left + bar_right) / 2) @ ''` y=`425` text-anchor=`middle` font-family=`'' @ SVG_FONT @ ''` font-size=`12` fill=`'' @ SVG_TEXT @ ''`>Mean elapsed time (milliseconds)</text>'']"

definition phase_footer :: "string list" where
  "phase_footer = map dq [''<text x=`40` y=`570` font-family=`'' @ SVG_FONT @ ''` font-size=`11` fill=`'' @ SVG_MUTED @ ''`>Deployment bars include process startup and shutdown. Repeated inference measures execution with the model already loaded.</text>'',
       ''</svg>'']"

definition phase_svg :: "(string \<times> (string \<times> rat) list) list \<Rightarrow> string res" where
  "phase_svg phases =
     (let regimes = List.filter (\<lambda>name. dict_get phases name \<noteq> None) REGIME_ORDER; parts = (\<lambda>regime. dict_get_or phases regime []) in
      bindE (guardE (regimes \<noteq> []) (ValueError ''max() arg is an empty sequence'')) (\<lambda>_.
      let ticks = linear_ticks (Max (set (map (total_ms_of \<circ> parts) regimes))) in
      Inr (svg_text (phase_header @ concat (map (axis_lines ticks) ticks)
        @ concat (map (bar_lines (last ticks)) (zip [0..<length regimes] (map (\<lambda>r. (r, parts r)) regimes)))
        @ phase_axis_label @ concat (map legend_lines (zip [0..<length PHASE_COLORS] (map fst PHASE_COLORS))) @ phase_footer))))"

subsection \<open>The throughput figure\<close>

definition rate_left :: rat where
  "rate_left = 275"

definition rate_right :: rat where
  "rate_right = 1000"

definition rate_top :: rat where
  "rate_top = 120"

record rate_row =
  rr_label :: string
  rr_rate :: rat
  rr_color :: string
  rr_theoretical :: bool

definition RATE_ROWS :: "(string \<times> string \<times> string \<times> bool) list" where
  "RATE_ROWS = [(''Cold deployment'', ''cold_deployment_images_per_second'', regime_color ''cold'', False),
     (''Warm deployment'', ''warm_end_to_end_images_per_second'', regime_color ''warm'', False),
     (''Repeated inference'', ''steady_runtime_execution_images_per_second'', regime_color ''steady'', False),
     (''Calculated pipeline ceiling'', ''theoretical_stage_bottleneck_upper_bound_images_per_second'', ''#6F4E7C'', True)]"

text \<open>The rates of a throughput document that are present and positive.\<close>

definition rate_rows :: "(string \<times> json) list \<Rightarrow> rate_row list res" where
  "rate_rows throughput = bindE (mapE (\<lambda>(label, key, color, theoretical). case dict_get throughput key of None \<Rightarrow> Inr []
       | Some v \<Rightarrow> bindE (jnum v) (\<lambda>rate. Inr (if 0 < rate then [\<lparr>rr_label = label, rr_rate = rate, rr_color = color, rr_theoretical = theoretical\<rparr>] else []))) RATE_ROWS)
     (\<lambda>rows. Inr (concat rows))"

text \<open>The logarithmic scale: its limits, and the position of a rate.\<close>

record rate_scale =
  rs_lower :: rat
  rs_upper :: rat
  rs_min_log :: rat
  rs_log_span :: rat

definition rate_scale_of :: "(rat \<Rightarrow> rat) \<Rightarrow> rat list \<Rightarrow> rate_scale" where
  "rate_scale_of lg rates =
     (let lower = max (Min (set rates) * (65 / 100)) (1 / 1000000); upper = max (Max (set rates) * (155 / 100)) (lower * 2) in
      \<lparr>rs_lower = lower, rs_upper = upper, rs_min_log = lg lower, rs_log_span = max (lg upper - lg lower) (4 / 10)\<rparr>)"

definition rate_x :: "(rat \<Rightarrow> rat) \<Rightarrow> rate_scale \<Rightarrow> rat \<Rightarrow> rat" where
  "rate_x lg sc v = rate_left + (lg v - rs_min_log sc) / rs_log_span sc * (rate_right - rate_left)"

definition rate_tick :: "(rat \<Rightarrow> rat) \<Rightarrow> rate_scale \<Rightarrow> rat \<Rightarrow> string list" where
  "rate_tick lg sc tick = (let x = rate_x lg sc tick in
     map dq [''<line x1=`'' @ fixed 1 x @ ''` y1=`'' @ fixed 0 (rate_top - 18) @ ''` x2=`'' @ fixed 1 x @ ''` y2=`408` stroke=`'' @ SVG_GRID @ ''` stroke-width=`1`/>'',
       ''<text x=`'' @ fixed 1 x @ ''` y=`430` text-anchor=`middle` font-family=`'' @ SVG_FONT @ ''` font-size=`11` fill=`'' @ SVG_MUTED @ ''`>'' @ (format_rate tick) @ ''</text>''])"

definition rate_lines :: "(rat \<Rightarrow> rat) \<Rightarrow> rate_scale \<Rightarrow> nat \<times> rate_row \<Rightarrow> string list" where
  "rate_lines lg sc = (\<lambda>(index, r).
     let label = rr_label r; value = rr_rate r; color = rr_color r; y = rate_top + of_nat index * 72; x = rate_x lg sc value;
         anchor = (if rate_right - 90 < x then ''end'' else ''start''); label_x = (if anchor = ''end'' then x - 14 else x + 14) in
     map dq [''<text x=`'' @ fixed 0 (rate_left - 20) @ ''` y=`'' @ fixed 1 (y + 5) @ ''` text-anchor=`end` font-family=`'' @ SVG_FONT @ ''` font-size=`14` font-weight=`700` fill=`'' @ SVG_TEXT @ ''`>'' @ label @ ''</text>'',
       ''<line x1=`'' @ fixed 1 rate_left @ ''` y1=`'' @ fixed 1 y @ ''` x2=`'' @ fixed 1 rate_right @ ''` y2=`'' @ fixed 1 y @ ''` stroke=`#EEF1F3` stroke-width=`3`/>'']
     @ (if rr_theoretical r then
       map dq [''<rect x=`'' @ fixed 1 (x - 7) @ ''` y=`'' @ fixed 1 (y - 7) @ ''` width=`14` height=`14` transform=`rotate(45 '' @ fixed 1 x @ '' '' @ fixed 1 y @ '')` fill=`#FFFFFF` stroke=`'' @ color @ ''` stroke-width=`3`/>'']
     else
       map dq [''<circle cx=`'' @ fixed 1 x @ ''` cy=`'' @ fixed 1 y @ ''` r=`8` fill=`'' @ color @ ''` stroke=`#FFFFFF` stroke-width=`2`/>''])
     @ map dq [''<text x=`'' @ fixed 1 label_x @ ''` y=`'' @ fixed 1 (y - 13) @ ''` text-anchor=`'' @ anchor @ ''` font-family=`'' @ SVG_FONT @ ''` font-size=`12` font-weight=`700` fill=`'' @ color @ ''`>'' @ (format_rate value) @ '' images/s</text>''])"

definition throughput_header :: "string list" where
  "throughput_header = map dq [''<svg xmlns=`http://www.w3.org/2000/svg` width=`1100` height=`500` viewBox=`0 0 1100 500` role=`img` aria-labelledby=`title description`>'',
       ''<title id=`title`>How many inferences fit into one second?</title>'',
       ''<desc id=`description`>Measured deployment and repeated-inference throughput are compared with a separately marked calculated pipeline ceiling.</desc>'',
       ''<rect width=`100%` height=`100%` fill=`#FFFFFF`/>'',
       ''<text x=`40` y=`42` font-family=`'' @ SVG_FONT @ ''` font-size=`24` font-weight=`700` fill=`'' @ SVG_TEXT @ ''`>How many inferences fit into one second?</text>'',
       ''<text x=`40` y=`70` font-family=`'' @ SVG_FONT @ ''` font-size=`13` fill=`'' @ SVG_MUTED @ ''`>Higher is faster. Deployment includes model setup; repeated inference keeps the model loaded.</text>'']"

definition throughput_footer :: "string list" where
  "throughput_footer = map dq [''<text x=`'' @ fixed 0 ((rate_left + rate_right) / 2) @ ''` y=`463` text-anchor=`middle` font-family=`'' @ SVG_FONT @ ''` font-size=`12` fill=`'' @ SVG_TEXT @ ''`>Throughput (images/s, logarithmic scale)</text>'',
       ''<text x=`40` y=`486` font-family=`'' @ SVG_FONT @ ''` font-size=`10.5` fill=`'' @ SVG_MUTED @ ''`>The outlined diamond is a calculated ceiling, not throughput demonstrated by the current blocking runtime.</text>'',
       ''</svg>'']"

definition throughput_svg :: "(rat \<Rightarrow> rat) \<Rightarrow> (string \<times> json) list \<Rightarrow> string res" where
  "throughput_svg lg throughput =
     bindE (rate_rows throughput) (\<lambda>rows.
     bindE (guardE (rows \<noteq> []) (ValueError ''min() arg is an empty sequence'')) (\<lambda>_.
     let sc = rate_scale_of lg (map rr_rate rows) in
     Inr (svg_text (throughput_header @ concat (map (rate_tick lg sc) (log_ticks (rs_lower sc) (rs_upper sc)))
       @ concat (map (rate_lines lg sc) (zip [0..<length rows] rows)) @ throughput_footer))))"

subsection \<open>The figure of the sessions\<close>

definition dot_left :: rat where
  "dot_left = 300"

definition dot_right :: rat where
  "dot_right = 1040"

record variability =
  vr_reference :: rat
  vr_deviations :: "(string \<times> rat) list"
  vr_low :: rat
  vr_high :: rat

definition deviation_of :: "rat \<Rightarrow> rat \<Rightarrow> rat res" where
  "deviation_of reference v = (if reference = 0 then Inl ZeroDivisionError else Inr ((v / reference - 1) * 100))"

definition variability_of :: "regime_summary \<Rightarrow> variability res" where
  "variability_of s =
     (let medians = map (\<lambda>(session, r). (session, sm_median r / 1000000)) (rg_sessions s) in
      bindE (median (map snd medians)) (\<lambda>reference.
      bindE (mapE (\<lambda>(session, v). bindE (deviation_of reference v) (\<lambda>d. Inr (session, d))) medians) (\<lambda>deviations.
      bindE (deviation_of reference (bs_lower (rg_bootstrap s) / 1000000)) (\<lambda>low. bindE (deviation_of reference (bs_upper (rg_bootstrap s) / 1000000)) (\<lambda>high.
      Inr \<lparr>vr_reference = reference, vr_deviations = deviations, vr_low = low, vr_high = high\<rparr>)))))"

definition shown_deviations :: "variability \<Rightarrow> rat list" where
  "shown_deviations v = map snd (vr_deviations v) @ [vr_low v, vr_high v]"

definition axis_limit :: "variability list \<Rightarrow> rat" where
  "axis_limit vs = (let maximum_deviation = foldl max 0 (map abs (concat (map shown_deviations vs))) in
     max 1 (of_int \<lceil>maximum_deviation * (125 / 100) * 10\<rceil> / 10))"

definition dot_x :: "rat \<Rightarrow> rat \<Rightarrow> rat" where
  "dot_x limit v = dot_left + (v + limit) / (2 * limit) * (dot_right - dot_left)"

definition few_boots_lines :: "string list" where
  "few_boots_lines = map dq [''<svg xmlns=`http://www.w3.org/2000/svg` width=`1120` height=`270` viewBox=`0 0 1120 270` role=`img` aria-labelledby=`title description`>'',
       ''<title id=`title`>Can results be reproduced after a fresh boot?</title>'',
       ''<desc id=`description`>Fresh-boot variability cannot be estimated because this report contains only one independent boot session.</desc>'',
       ''<rect width=`100%` height=`100%` fill=`#FFFFFF`/>'',
       ''<text x=`40` y=`42` font-family=`'' @ SVG_FONT @ ''` font-size=`24` font-weight=`700` fill=`'' @ SVG_TEXT @ ''`>Can results be reproduced after a fresh boot?</text>'',
       ''<rect x=`40` y=`88` width=`1040` height=`118` fill=`#FAFBFC` stroke=`#D9DEE3`/>'',
       ''<text x=`560` y=`128` text-anchor=`middle` font-family=`'' @ SVG_FONT @ ''` font-size=`18` font-weight=`700` fill=`'' @ SVG_TEXT @ ''`>Not enough independent boots to measure variability</text>'',
       ''<text x=`560` y=`158` text-anchor=`middle` font-family=`'' @ SVG_FONT @ ''` font-size=`13` fill=`'' @ SVG_MUTED @ ''`>This report contains 1 fresh-boot session. One result has no between-boot spread.</text>'',
       ''<text x=`560` y=`182` text-anchor=`middle` font-family=`'' @ SVG_FONT @ ''` font-size=`13` fill=`'' @ SVG_MUTED @ ''`>Use at least 2 sessions to estimate variability; the final campaign targets 5.</text>'',
       ''<text x=`40` y=`242` font-family=`'' @ SVG_FONT @ ''` font-size=`11` fill=`'' @ SVG_MUTED @ ''`>Within-session repeatability is shown in the latency distribution figure instead.</text>'',
       ''</svg>'']"

definition session_header :: "string list" where
  "session_header = map dq [''<svg xmlns=`http://www.w3.org/2000/svg` width=`1120` height=`440` viewBox=`0 0 1120 440` role=`img` aria-labelledby=`title description`>'',
       ''<title id=`title`>Can results be reproduced after a fresh boot?</title>'',
       ''<desc id=`description`>Each dot is one boot session median shown as a percentage difference from the cross-session median.</desc>'',
       ''<rect width=`100%` height=`100%` fill=`#FFFFFF`/>'',
       ''<text x=`40` y=`42` font-family=`'' @ SVG_FONT @ ''` font-size=`24` font-weight=`700` fill=`'' @ SVG_TEXT @ ''`>Can results be reproduced after a fresh boot?</text>'',
       ''<text x=`40` y=`70` font-family=`'' @ SVG_FONT @ ''` font-size=`13` fill=`'' @ SVG_MUTED @ ''`>Each dot is one boot&apos;s median. Distance from 0% shows how much that boot differs from the typical boot.</text>'']"

definition session_tick :: "rat \<Rightarrow> rat \<Rightarrow> string list" where
  "session_tick limit tick = (let x = dot_x limit tick in
     map dq [''<line x1=`'' @ fixed 1 x @ ''` y1=`104` x2=`'' @ fixed 1 x @ ''` y2=`355` stroke=`'' @ (if tick = 0 then ''#8B959E'' else SVG_GRID) @ ''` stroke-width=`'' @ (if tick = 0 then ''2'' else ''1'') @ ''`/>'',
       ''<text x=`'' @ fixed 1 x @ ''` y=`96` text-anchor=`middle` font-family=`'' @ SVG_FONT @ ''` font-size=`10.5` fill=`'' @ SVG_MUTED @ ''`>'' @ fixed_signed 2 tick @ ''%</text>''])"

definition session_dot :: "rat \<Rightarrow> string \<Rightarrow> variability \<Rightarrow> rat \<Rightarrow> nat \<times> string \<Rightarrow> string list" where
  "session_dot limit regime v y = (\<lambda>(session_index, session). case dict_get (vr_deviations v) session of None \<Rightarrow> []
     | Some deviation \<Rightarrow> (let point_y = y + of_int (int (session_index * 11 mod 5) - 2) * 4 in
     map dq [''<circle cx=`'' @ fixed 1 (dot_x limit deviation) @ ''` cy=`'' @ fixed 1 point_y @ ''` r=`6` fill=`'' @ regime_color regime @ ''` stroke=`#FFFFFF` stroke-width=`1.5`><title>Session '' @ show_nat (session_index + 1) @ '': '' @ fixed_signed 4 deviation @ ''%</title></circle>'']))"

definition session_lines :: "rat \<Rightarrow> string list \<Rightarrow> nat \<times> string \<times> variability \<Rightarrow> string list" where
  "session_lines limit session_names = (\<lambda>(index, regime, v).
     let y = 145 + of_nat index * 92; title = text_in REGIME_TITLES regime; subtitle = text_in REGIME_SUBTITLES regime in
     map dq [''<text x=`'' @ fixed 1 (dot_left - 20) @ ''` y=`'' @ fixed 1 (y - 2) @ ''` text-anchor=`end` font-family=`'' @ SVG_FONT @ ''` font-size=`14` font-weight=`700` fill=`'' @ SVG_TEXT @ ''`>'' @ title @ ''</text>'',
       ''<text x=`'' @ fixed 1 (dot_left - 20) @ ''` y=`'' @ fixed 1 (y + 17) @ ''` text-anchor=`end` font-family=`'' @ SVG_FONT @ ''` font-size=`10.5` fill=`'' @ SVG_MUTED @ ''`>'' @ subtitle @ ''</text>'',
       ''<line x1=`'' @ fixed 1 (dot_x limit (vr_low v)) @ ''` y1=`'' @ fixed 1 y @ ''` x2=`'' @ fixed 1 (dot_x limit (vr_high v)) @ ''` y2=`'' @ fixed 1 y @ ''` stroke=`'' @ regime_color regime @ ''` stroke-width=`8` stroke-linecap=`round` stroke-opacity=`0.32`/>'']
     @ concat (map (session_dot limit regime v y) (zip [0..<length session_names] session_names))
     @ map dq [''<text x=`'' @ fixed 1 dot_right @ ''` y=`'' @ fixed 1 (y + 25) @ ''` text-anchor=`end` font-family=`'' @ SVG_FONT @ ''` font-size=`10.5` fill=`'' @ SVG_MUTED @ ''`>typical median: '' @ (format_ms (vr_reference v)) @ '' ms</text>''])"

definition session_footer :: "string list" where
  "session_footer = map dq [''<text x=`'' @ fixed 1 ((dot_left + dot_right) / 2) @ ''` y=`382` text-anchor=`middle` font-family=`'' @ SVG_FONT @ ''` font-size=`12` fill=`'' @ SVG_TEXT @ ''`>Difference from the cross-boot median (lower is faster)</text>'',
       ''<text x=`40` y=`418` font-family=`'' @ SVG_FONT @ ''` font-size=`11` fill=`'' @ SVG_MUTED @ ''`>Dots show independent boots; translucent bars show the bootstrap 95% confidence interval across boot medians.</text>'',
       ''</svg>'']"

definition session_variability_svg :: "(string \<times> regime_summary) list \<Rightarrow> string res" where
  "session_variability_svg summaries =
     (let regimes = List.map_filter (\<lambda>name. map_option (Pair name) (dict_get summaries name)) REGIME_ORDER;
          session_names = sort (remdups (concat (map (\<lambda>(name, s). map fst (rg_sessions s)) regimes))) in
      if length session_names < 2 then Inr (svg_text few_boots_lines)
      else bindE (mapE (\<lambda>(name, s). bindE (variability_of s) (\<lambda>v. Inr (name, v))) regimes) (\<lambda>vs.
        let limit = axis_limit (map snd vs) in
        Inr (svg_text (session_header @ concat (map (session_tick limit) [- limit, - limit / 2, 0, limit / 2, limit])
          @ concat (map (session_lines limit session_names) (zip [0..<length vs] vs)) @ session_footer))))"

subsection \<open>Facts\<close>

lemma linear_step_bounds:
  assumes "0 < r"
  shows "0 < linear_step r \<and> r \<le> linear_step r \<and> 2 * linear_step r < 5 * r"
proof -
  define m where "m = pow10 (floor_log10 r)"
  have m: "0 < m" "m \<le> r" "r < 10 * m" using floor_log10_bounds [OF assms] pow10_pos by (simp_all add: m_def pow10_Suc)
  have le: "(r / m \<le> c) = (r \<le> c * m)" for c using m(1) by (simp add: divide_le_eq)
  show ?thesis using m assms unfolding linear_step_def Let_def m_def [symmetric] le by auto
qed

lemma round_of_int: "round_half_even (of_int n) = n"
  by (simp add: round_half_even_def)

lemma linear_ticks_eq:
  assumes "0 < maximum"
  shows "\<exists>k step. 3 \<le> k \<and> k \<le> 5 \<and> 0 < step \<and> of_nat (k - 1) * step < maximum \<and> maximum \<le> of_nat k * step \<and>
    linear_ticks maximum = map (\<lambda>index. of_nat index * step) [0..<Suc k]"
proof -
  define step where "step = linear_step (maximum / 5)"
  have s: "0 < step" "maximum \<le> 5 * step" "2 * step < maximum" using linear_step_bounds [of "maximum / 5"] assms by (simp_all add: step_def)
  define c where "c = \<lceil>maximum / step\<rceil>"
  have "2 < maximum / step" "maximum / step \<le> 5" using s by (simp_all add: field_simps)
  then have c: "3 \<le> c" "c \<le> 5" unfolding c_def by linarith+
  define k where "k = nat c"
  have ck: "c = int k" using c by (simp add: k_def)
  have q: "of_int c - 1 < maximum / step" "maximum / step \<le> of_int c" using ceiling_correct [of "maximum / step"] by (simp_all add: c_def)
  then have b: "(of_int c - 1) * step < maximum" "maximum \<le> of_int c * step" using s(1) by (simp_all add: field_simps)
  have "linear_ticks maximum = map (\<lambda>index. of_nat index * step) [0..<nat (c + 1)]"
    using assms s(1) by (simp add: linear_ticks_def Let_def step_def [symmetric] c_def [symmetric] round_of_int)
  moreover have "nat (c + 1) = Suc k" using c by (simp add: k_def nat_add_distrib)
  moreover have "of_int c = (of_nat k :: rat)" "(of_nat (k - 1) :: rat) = of_nat k - 1" using c by (simp_all add: ck of_nat_diff)
  ultimately show ?thesis using b s(1) c ck by (intro exI [of _ k] exI [of _ step]) simp
qed

text \<open>The linear axis of a positive maximum begins at zero, has four to six evenly spaced ticks, and its last
  tick is the first one that reaches the maximum.\<close>

theorem linear_ticks_cover:
  assumes "0 < maximum"
  shows "hd (linear_ticks maximum) = 0 \<and> length (linear_ticks maximum) \<in> {4..6} \<and> 0 < tick_step (linear_ticks maximum) \<and>
    list_all (\<lambda>i. linear_ticks maximum ! i = of_nat i * tick_step (linear_ticks maximum)) [0..<length (linear_ticks maximum)] \<and>
    last (linear_ticks maximum) - tick_step (linear_ticks maximum) < maximum \<and> maximum \<le> last (linear_ticks maximum)"
proof -
  obtain k step where k: "3 \<le> k" "k \<le> 5" "0 < step" "of_nat (k - 1) * step < maximum" "maximum \<le> of_nat k * step"
    and ticks: "linear_ticks maximum = map (\<lambda>index. of_nat index * step) [0..<Suc k]" using linear_ticks_eq [OF assms] by blast
  have l: "last (linear_ticks maximum) = of_nat k * step" unfolding ticks by simp
  have i: "linear_ticks maximum ! i = of_nat i * step" if "i < Suc k" for i unfolding ticks using that by (simp del: upt_Suc)
  have t: "tick_step (linear_ticks maximum) = step" using i [of 0] i [of 1] k by (simp add: tick_step_def)
  have h: "hd (linear_ticks maximum) = 0" unfolding ticks by (simp add: upt_conv_Cons del: upt_Suc)
  have "of_nat k * step - step = of_nat (k - 1) * step" using k by (simp add: of_nat_diff algebra_simps)
  then show ?thesis using i k h unfolding l t by (simp add: list_all_iff ticks del: upt_Suc)
qed

lemma linear_ticks_cover_witness: "length (linear_ticks 7) \<in> {4..6} \<and> 7 \<le> last (linear_ticks 7)"
  using linear_ticks_cover [of 7] by simp

subsection \<open>Frames\<close>

lemma percentile_inside:
  assumes "percentile vs q = Inr x" and "0 \<le> q" and "q \<le> 1"
  shows "vs \<noteq> [] \<and> Min (set vs) \<le> x \<and> x \<le> Max (set vs)"
proof -
  have "vs \<noteq> []" using assms(1) by (auto simp: percentile_def Let_def guardE_def)
  then show ?thesis using percentile_monotone [of vs q q] assms by force
qed

definition panel_marks :: "panel \<Rightarrow> rat list" where
  "panel_marks p = pn_values p @ [pn_median p, pn_q1 p, pn_q3 p, pn_p5 p, pn_p95 p]"

lemma panel_facts:
  assumes "latency_panel (index, regime, ls) = Inr p"
  shows "pn_values p = sort (map (\<lambda>ns. ns / 1000000) ls) \<and> pn_values p \<noteq> [] \<and> pn_min p = Min (set (pn_values p)) \<and> pn_max p = Max (set (pn_values p)) \<and>
    list_all (\<lambda>v. pn_min p \<le> v \<and> v \<le> pn_max p) (panel_marks p) \<and>
    (\<exists>padding > 0. pn_lower p = max 0 (pn_min p - padding) \<and> pn_span p = max (pn_max p + padding - pn_lower p) (1 / 1000000000))"
proof -
  define vs where "vs = sort (map (\<lambda>ns. ns / 1000000) ls)"
  from assms obtain md q1 q3 p5 p95 padding where q: "percentile vs (1 / 2) = Inr md" "percentile vs (1 / 4) = Inr q1" "percentile vs (3 / 4) = Inr q3"
      "percentile vs (5 / 100) = Inr p5" "percentile vs (95 / 100) = Inr p95"
    and pad: "padding = panel_padding (length vs) (Max (set vs) - Min (set vs)) md"
    and p: "pn_values p = vs" "pn_min p = Min (set vs)" "pn_max p = Max (set vs)" "pn_median p = md" "pn_q1 p = q1" "pn_q3 p = q3" "pn_p5 p = p5" "pn_p95 p = p95"
      "pn_lower p = max 0 (Min (set vs) - padding)" "pn_span p = max (Max (set vs) + padding - max 0 (Min (set vs) - padding)) (1 / 1000000000)"
    unfolding latency_panel_def Let_def vs_def [symmetric] prod.case bindE_Inr_iff sum.inject
    by (elim exE conjE) (rule that, assumption+, rule refl, (erule subst, rule panel.select_convs)+)
  have "0 < padding" by (simp add: pad panel_padding_def less_max_iff_disj)
  moreover note percentile_inside [OF q(1)] percentile_inside [OF q(2)] percentile_inside [OF q(3)] percentile_inside [OF q(4)] percentile_inside [OF q(5)]
  ultimately show ?thesis unfolding panel_marks_def p vs_def [symmetric] by (auto simp: list_all_iff)
qed

lemma point_jitter_bounds: "\<bar>point_jitter k\<bar> \<le> 45"
proof -
  have "- 50 \<le> int (k * 47) mod 101 - 50" "int (k * 47) mod 101 - 50 \<le> 50" using pos_mod_bound [of 101 "int (k * 47)"] by simp_all
  then have "- 50 \<le> (of_int (int (k * 47) mod 101 - 50) :: rat)" "(of_int (int (k * 47) mod 101 - 50) :: rat) \<le> 50" by linarith+
  then show ?thesis unfolding point_jitter_def by (simp only: abs_le_iff) (simp add: field_simps)
qed

lemma panel_in_frame:
  assumes "latency_panel (index, regime, ls) = Inr p" and "list_all (\<lambda>ns. 0 \<le> ns) ls"
  shows "list_all (\<lambda>v. plot_top \<le> panel_y p v \<and> panel_y p v \<le> plot_bottom) (panel_marks p)"
proof -
  note f = panel_facts [OF assms(1)]
  then obtain padding where pad: "0 < padding" "pn_lower p = max 0 (pn_min p - padding)" "pn_span p = max (pn_max p + padding - pn_lower p) (1 / 1000000000)" by blast
  have "0 \<le> pn_min p" using f assms(2) by (auto simp: list_all_iff)
  then have low: "pn_lower p \<le> pn_min p" using pad by simp
  have span: "0 < pn_span p" "pn_max p - pn_lower p \<le> pn_span p" using pad by (simp_all add: le_max_iff_disj less_max_iff_disj)
  have "plot_top \<le> panel_y p v \<and> panel_y p v \<le> plot_bottom" if v: "pn_min p \<le> v" "v \<le> pn_max p" for v
  proof -
    have "0 \<le> (v - pn_lower p) / pn_span p" "(v - pn_lower p) / pn_span p \<le> 1" using low span v by (simp_all add: divide_le_eq)
    moreover define t where "t = (v - pn_lower p) / pn_span p"
    ultimately have "panel_y p v = 430 - t * 285 \<and> 0 \<le> t \<and> t \<le> 1" unfolding panel_y_def plot_top_def plot_bottom_def by simp
    then show ?thesis by (simp add: plot_top_def plot_bottom_def)
  qed
  with f show ?thesis by (auto simp: list_all_iff)
qed

lemma foldl_max_bound: "foldl max a xs = Max (set (a # xs))" for a :: rat
proof (induction xs arbitrary: a)
  case (Cons x xs)
  have "Max (set (max a x # xs)) = Max (set (a # x # xs))" by (cases "xs = []") (auto simp: max.assoc)
  with Cons [of "max a x"] show ?case by simp
qed simp

lemma dots_in_frame:
  "list_all (\<lambda>v. list_all (\<lambda>d. dot_left \<le> dot_x (axis_limit vs) d \<and> dot_x (axis_limit vs) d \<le> dot_right) (shown_deviations v)) vs"
proof -
  define m where "m = foldl max 0 (map abs (concat (map shown_deviations vs)))"
  have l: "axis_limit vs = max 1 (of_int \<lceil>m * (125 / 100) * 10\<rceil> / 10)" by (simp add: axis_limit_def m_def)
  have m0: "0 \<le> m" by (simp add: m_def foldl_max_bound)
  have "m * (125 / 100) * 10 \<le> of_int \<lceil>m * (125 / 100) * 10\<rceil>" by (rule le_of_int_ceiling)
  then have "m \<le> of_int \<lceil>m * (125 / 100) * 10\<rceil> / 10" using m0 by linarith
  then have lim: "1 \<le> axis_limit vs" "m \<le> axis_limit vs" unfolding l by - (rule max.cobounded1, rule max.coboundedI2)
  have "dot_left \<le> dot_x (axis_limit vs) d \<and> dot_x (axis_limit vs) d \<le> dot_right" if d: "v \<in> set vs" "d \<in> set (shown_deviations v)" for v d
  proof -
    have "\<bar>d\<bar> \<le> m" unfolding m_def foldl_max_bound by (rule Max_ge) (use d in auto)
    then have b: "- axis_limit vs \<le> d" "d \<le> axis_limit vs" using lim by linarith+
    define t where "t = (d + axis_limit vs) / (2 * axis_limit vs)"
    have "0 \<le> t" "t \<le> 1" using lim b by (simp_all add: t_def divide_le_eq)
    then show ?thesis by (simp add: dot_x_def dot_left_def dot_right_def t_def [symmetric])
  qed
  then show ?thesis by (simp add: list_all_iff)
qed

text \<open>A bar ends where its parts add up to, and its parts lie side by side.\<close>

lemma bar_segments_end:
  assumes "bar_segments width names x = (segments, e)"
  shows "e = x + sum_list (map (\<lambda>name. max 0 (width name)) names) \<and>
    list_all (\<lambda>(name, l, w). x \<le> l \<and> 0 < w \<and> w = width name \<and> l + w \<le> e) segments"
  using assms
proof (induction width names x arbitrary: segments e rule: bar_segments.induct)
  case (2 width name names x)
  show ?case
  proof (cases "width name \<le> 0")
    case True
    with 2(3) have "bar_segments width names x = (segments, e)" by simp
    note IH = 2(1) [OF True this]
    have "sum_list (map (\<lambda>name. max 0 (width name)) (name # names)) = sum_list (map (\<lambda>name. max 0 (width name)) names)" using True by simp
    then show ?thesis by (metis IH)
  next
    case False
    obtain rest e' where r: "bar_segments width names (x + width name) = (rest, e')" by fastforce
    with 2(3) False have se: "segments = (name, x, width name) # rest" "e = e'" by simp_all
    note IH = conjunct1 [OF 2(2) [OF False r]] conjunct2 [OF 2(2) [OF False r]]
    have "0 \<le> sum_list (map (\<lambda>name. max 0 (width name)) names)" by (rule sum_list_nonneg) auto
    with IH False se show ?thesis by (auto simp: list_all_iff)
  qed
qed simp

lemma dict_sum:
  "distinct (dict_keys d) \<Longrightarrow> distinct names \<Longrightarrow> set (dict_keys d) \<subseteq> set names \<Longrightarrow>
    sum_list (map (\<lambda>name. dict_get_or d name 0) names) = sum_list (map snd d)" for d :: "(string, rat) dict"
proof (induction d)
  case Nil
  then show ?case by (simp add: dict_get_or_def dict_get_def)
next
  case (Cons kv d)
  obtain k v where kv: "kv = (k, v)" by (cases kv)
  with Cons.prems have k: "k \<in> set names" "k \<notin> set (dict_keys d)" "distinct (dict_keys d)" "set (dict_keys d) \<subseteq> set names" by (simp_all add: dict_keys_def)
  have z: "dict_get_or d k 0 = 0" using k(2) by (simp add: dict_get_or_def dict_get_def dict_keys_def map_of_eq_None_iff [THEN iffD2])
  have "sum_list (map (\<lambda>name. dict_get_or (kv # d) name 0) names) = sum_list (map (\<lambda>name. dict_get_or d name 0 + (if name = k then v else 0)) names)"
    using z by (intro arg_cong [of _ _ sum_list] map_cong) (auto simp: kv dict_get_or_def dict_get_def split: option.splits)
  also have "\<dots> = sum_list (map (\<lambda>name. dict_get_or d name 0) names) + v"
    using k(1) Cons.prems(2) by (simp add: sum_list_addf sum_list_map_eq_sum_count sum_list_distinct_conv_sum_set sum.delta)
  finally show ?case using Cons.IH [OF k(3) Cons.prems(2) k(4)] by (simp add: kv)
qed

lemma phase_bar_end:
  assumes "distinct (dict_keys parts)" and "set (dict_keys parts) \<subseteq> set (map fst PHASE_COLORS)" and "list_all (\<lambda>(name, v). 0 \<le> v) parts" and "0 < axis"
  shows "snd (bar_segments (bar_segment axis parts) (map fst PHASE_COLORS) bar_left) = bar_left + (bar_right - bar_left) * total_ms_of parts / axis"
proof -
  let ?names = "map fst PHASE_COLORS" and ?w = "bar_segment axis parts" and ?c = "(bar_right - bar_left) / 1000000 / axis"
  have c: "?w name = ?c * dict_get_or parts name 0" for name by (simp add: bar_segment_def)
  have "0 \<le> dict_get_or parts name 0" for name
    using assms(3) by (force simp: dict_get_or_def dict_get_def list_all_iff split: option.splits dest: map_of_SomeD)
  then have "0 \<le> ?w name" for name unfolding c using assms(4) by (simp add: bar_left_def bar_right_def)
  then have "map (\<lambda>name. max 0 (?w name)) ?names = map (\<lambda>name. ?c * dict_get_or parts name 0) ?names" by (simp add: c max_def)
  moreover have "sum_list (map (\<lambda>name. ?c * dict_get_or parts name 0) ?names) = ?c * sum_list (map (\<lambda>name. dict_get_or parts name 0) ?names)"
    by (rule sum_list_const_mult)
  moreover have "distinct ?names" by code_simp
  from dict_sum [OF assms(1) this assms(2)] have "sum_list (map (\<lambda>name. dict_get_or parts name 0) ?names) = sum_list (map snd parts)" .
  moreover obtain segments e where b: "bar_segments ?w ?names bar_left = (segments, e)" by fastforce
  ultimately show ?thesis using bar_segments_end [OF b] by (simp only: b snd_conv) (simp add: total_ms_of_def)
qed



end
