(* ===== verification/CampaignReport.thy ===== *)
theory CampaignReport
  imports Campaign Figures
begin

text \<open>
  The figures and the Markdown report of the final campaign (tools/nvdla_test_framework/campaign.py), and the whole
  command. \<open>lg\<close> stands for \<open>math.log10\<close> where its value is drawn; whole exponents are computed exactly. Fact: an
  average energy that is not positive, which the reports keep signed, stops the report.
\<close>

subsection \<open>Labels\<close>

definition color_of :: "string \<Rightarrow> string" where
  "color_of implementation = text_in [(''nvdla'', ''#0b7285''), (''cpu'', ''#c2410c'')] implementation"

definition label_of :: "string \<Rightarrow> string" where
  "label_of implementation = text_in [(''nvdla'', ''NVDLA FPGA (INT8)''), (''cpu'', ''ARM CPU (FP32, 4 threads)'')] implementation"

definition model_label :: "string \<Rightarrow> string" where
  "model_label model = text_in [(''lenet'', ''LeNet''), (''resnet50'', ''ResNet-50'')] model"

definition latency_label :: "rat \<Rightarrow> string" where
  "latency_label milliseconds = (if 1000 \<le> milliseconds then general 3 (milliseconds / 1000) @ '' s'' else general 3 milliseconds @ '' ms'')"

definition energy_label :: "rat \<Rightarrow> string" where
  "energy_label millijoules = (if 1000 \<le> millijoules then general 3 (millijoules / 1000) @ '' J'' else general 3 millijoules @ '' mJ'')"

text \<open>\<open>str.title\<close> of one word, and \<open>html.escape\<close>.\<close>

definition title_case :: "string \<Rightarrow> string" where
  "title_case s = (case s of [] \<Rightarrow> [] | c # r \<Rightarrow> to_upper c # lower r)"

definition html_escape :: "string \<Rightarrow> string" where
  "html_escape s = concat (map (\<lambda>c. if c = CHR ''&'' then ''&amp;'' else if c = CHR ''<'' then ''&lt;'' else if c = CHR ''>'' then ''&gt;''
     else if c = DQ then ''&quot;'' else if c = SQ then ''&#x27;'' else [c]) s)"

definition svg_start :: "string \<Rightarrow> string \<Rightarrow> string list" where
  "svg_start title subtitle = map dq [''<svg xmlns=`http://www.w3.org/2000/svg` width=`1100` height=`650` viewBox=`0 0 1100 650`>'',
       ''<rect width=`100%` height=`100%` fill=`#ffffff`/>'',
       ''<style>text{font-family:Arial,sans-serif;fill:#202124;letter-spacing:0}.title{font-size:25px;font-weight:700}.subtitle{font-size:14px;fill:#59636e}.axis{font-size:13px;fill:#59636e}.label{font-size:14px;font-weight:600}.value{font-size:13px;font-weight:700}.grid{stroke:#d9dee3;stroke-width:1}.baseline{stroke:#69727c;stroke-width:1.5}</style>'',
       ''<text x=`70` y=`42` class=`title`>'' @ html_escape title @ ''</text>'',
       ''<text x=`70` y=`67` class=`subtitle`>'' @ html_escape subtitle @ ''</text>'']"

definition legend :: "string list" where
  "legend = concat (map (\<lambda>(index, implementation). let x = 70 + 260 * int index; y = 92 in
     map dq [''<rect x=`'' @ show_int x @ ''` y=`'' @ show_int (y - 12) @ ''` width=`18` height=`12` fill=`'' @ color_of implementation @ ''`/>'',
       ''<text x=`'' @ show_int (x + 25) @ ''` y=`'' @ show_int y @ ''` class=`axis`>'' @ label_of implementation @ ''</text>'']) (zip [0..<length IMPLEMENTATIONS] IMPLEMENTATIONS))"

subsection \<open>Values of the summary\<close>

type_synonym campaign_models = "(string \<times> model_result) list"

definition implementation_at :: "campaign_models \<Rightarrow> string \<Rightarrow> string \<Rightarrow> implementation_result res" where
  "implementation_at models model implementation = bindE (noneE (KeyError model) (dict_get models model)) (\<lambda>r.
     Inr (if implementation = ''nvdla'' then mr_nvdla r else mr_cpu r))"

definition latency_at :: "campaign_models \<Rightarrow> string \<Rightarrow> string \<Rightarrow> string \<Rightarrow> cohort_latency res" where
  "latency_at models model implementation regime =
     bindE (implementation_at models model implementation) (\<lambda>r. noneE (KeyError regime) (dict_get (ir_latency r) regime))"

definition comparison_at :: "campaign_models \<Rightarrow> string \<Rightarrow> string \<Rightarrow> regime_comparison res" where
  "comparison_at models model regime = bindE (noneE (KeyError model) (dict_get models model)) (\<lambda>r. noneE (KeyError regime) (dict_get (mr_comparison r) regime))"

definition GROUPS :: "(string \<times> string) list" where
  "GROUPS = concat (map (\<lambda>model. map (Pair model) REGIMES) MODELS)"

subsection \<open>Decades\<close>

text \<open>A logarithmic axis over whole decades, and the ticks \<open>lo\<close>, \<open>10 * lo\<close>, ... up to a limit.\<close>

record decades =
  dc_lo :: rat
  dc_hi :: rat
  dc_log_lo :: rat
  dc_log_hi :: rat

definition decades_of :: "(rat \<Rightarrow> rat) \<Rightarrow> rat list \<Rightarrow> decades res" where
  "decades_of lg vs =
     bindE (guardE (vs \<noteq> []) (ValueError ''min() arg is an empty sequence'')) (\<lambda>_.
     bindE (guardE (0 < Min (set vs)) (ValueError ''math domain error'')) (\<lambda>_.
     let lo = pow10 (floor_log10 (Min (set vs))); hi = pow10 (ceil_log10 (Max (set vs))) in
     Inr \<lparr>dc_lo = lo, dc_hi = hi, dc_log_lo = lg lo, dc_log_hi = lg hi\<rparr>))"

function decade_ticks :: "rat \<Rightarrow> rat \<Rightarrow> rat list" where
  "decade_ticks tick limit = (if tick \<le> 0 \<or> limit < tick then [] else tick # decade_ticks (tick * 10) limit)"
  by pat_completeness auto
termination
proof (relation "measure (\<lambda>(tick, limit). nat \<lfloor>limit / tick\<rfloor>)")
  fix tick limit :: rat
  assume "\<not> (tick \<le> 0 \<or> limit < tick)"
  then have one: "1 \<le> limit / tick" by simp
  have "limit / (tick * 10) = (limit / tick) / 10" by simp
  moreover have "\<lfloor>x / 10\<rfloor> < \<lfloor>x\<rfloor>" if x: "1 \<le> x" for x :: rat
  proof -
    have "of_int \<lfloor>x / 10\<rfloor> \<le> x / 10" "x < of_int \<lfloor>x\<rfloor> + 1" using floor_correct [of x] of_int_floor_le [of "x / 10"] by simp_all
    moreover have "1 \<le> \<lfloor>x\<rfloor>" using x by linarith
    then have "(1 :: rat) \<le> of_int \<lfloor>x\<rfloor>" by simp
    ultimately have "of_int \<lfloor>x / 10\<rfloor> < (of_int \<lfloor>x\<rfloor> :: rat)" by linarith
    then show ?thesis by simp
  qed
  ultimately have "\<lfloor>limit / (tick * 10)\<rfloor> < \<lfloor>limit / tick\<rfloor>" using one by metis
  moreover have "1 \<le> \<lfloor>limit / tick\<rfloor>" using one by linarith
  ultimately show "((tick * 10, limit), tick, limit) \<in> measure (\<lambda>(tick, limit). nat \<lfloor>limit / tick\<rfloor>)" by simp
qed simp

declare decade_ticks.simps [simp del]

definition decade_part :: "(rat \<Rightarrow> rat) \<Rightarrow> decades \<Rightarrow> rat \<Rightarrow> rat res" where
  "decade_part lg sc v = bindE (guardE (0 < v) (ValueError ''math domain error'')) (\<lambda>_. divided (lg v - dc_log_lo sc) (dc_log_hi sc - dc_log_lo sc))"

subsection \<open>The latency figure\<close>

definition latency_y :: "(rat \<Rightarrow> rat) \<Rightarrow> decades \<Rightarrow> rat \<Rightarrow> rat res" where
  "latency_y lg sc v = bindE (decade_part lg sc v) (\<lambda>part. Inr (560 - part * (560 - 125)))"

definition campaign_tick :: "(rat \<Rightarrow> rat) \<Rightarrow> decades \<Rightarrow> rat \<Rightarrow> string list res" where
  "campaign_tick lg sc tick = bindE (latency_y lg sc tick) (\<lambda>yy. let label = (if tick < 1000 then general 6 tick @ '' ms'' else general 6 (tick / 1000) @ '' s'') in
     Inr (map dq [''<line x1=`100` y1=`'' @ fixed 1 yy @ ''` x2=`1050` y2=`'' @ fixed 1 yy @ ''` class=`grid`/>'',
       ''<text x=`88` y=`'' @ fixed 1 (yy + 5) @ ''` text-anchor=`end` class=`axis`>'' @ label @ ''</text>'']))"

definition group_center :: "rat \<Rightarrow> rat \<Rightarrow> nat \<Rightarrow> rat" where
  "group_center left spacing index = left + spacing * (of_nat index + 1 / 2)"

definition latency_mark :: "(rat \<Rightarrow> rat) \<Rightarrow> decades \<Rightarrow> campaign_models \<Rightarrow> string \<Rightarrow> string \<Rightarrow> rat \<Rightarrow> rat \<times> string \<Rightarrow> string list res" where
  "latency_mark lg sc models model regime center = (\<lambda>(offset, implementation).
     bindE (latency_at models model implementation regime) (\<lambda>l. let value = cl_session_median l in
     bindE (latency_y lg sc value) (\<lambda>yy. Inr (map dq
       [''<circle cx=`'' @ fixed 1 (center + offset) @ ''` cy=`'' @ fixed 1 yy @ ''` r=`8` fill=`'' @ color_of implementation @ ''`/>'',
       ''<text x=`'' @ fixed 1 (center + offset) @ ''` y=`'' @ fixed 1 (yy - 13) @ ''` text-anchor=`middle` class=`value`>'' @ latency_label value @ ''</text>'']))))"

definition latency_group :: "(rat \<Rightarrow> rat) \<Rightarrow> (rat \<Rightarrow> string) \<Rightarrow> decades \<Rightarrow> campaign_models \<Rightarrow> nat \<times> string \<times> string \<Rightarrow> string list res" where
  "latency_group lg fr sc models = (\<lambda>(index, model, regime).
     let spacing = (1050 - 100) / of_nat (length GROUPS); center = group_center 100 spacing index in
     bindE (mapE (latency_mark lg sc models model regime center) [(- 22, ''nvdla''), (22, ''cpu'')]) (\<lambda>marks.
     Inr ((if index = 3 then map dq [''<line x1=`'' @ fr (100 + spacing * 3) @ ''` y1=`125` x2=`'' @ fr (100 + spacing * 3) @ ''` y2=`605` stroke=`#9aa1a9` stroke-dasharray=`4 4`/>''] else [])
       @ concat marks @ map dq [''<text x=`'' @ fixed 1 center @ ''` y=`584` text-anchor=`middle` class=`label`>'' @ title_case regime @ ''</text>'']
       @ (if regime = ''warm'' then map dq [''<text x=`'' @ fixed 1 center @ ''` y=`606` text-anchor=`middle` class=`axis`>'' @ model_label model @ ''</text>''] else []))))"

definition campaign_latency_svg :: "(rat \<Rightarrow> rat) \<Rightarrow> (rat \<Rightarrow> string) \<Rightarrow> campaign_models \<Rightarrow> string res" where
  "campaign_latency_svg lg fr models =
     bindE (mapE (\<lambda>(model, regime, implementation). bindE (latency_at models model implementation regime) (\<lambda>l. Inr (cl_session_median l)))
       (concat (map (\<lambda>(model, regime). map (\<lambda>implementation. (model, regime, implementation)) IMPLEMENTATIONS) GROUPS))) (\<lambda>all_values.
     bindE (decades_of lg all_values) (\<lambda>sc.
     bindE (mapE (campaign_tick lg sc) (decade_ticks (dc_lo sc) (dc_hi sc * (1001 / 1000)))) (\<lambda>ticks.
     bindE (mapE (latency_group lg fr sc models) (zip [0..<length GROUPS] GROUPS)) (\<lambda>marks.
     Inr (svg_text (svg_start ''End-to-end and steady-state latency'' ''Five fresh-boot sessions per point; log scale preserves both small and large latencies.''
       @ legend @ concat ticks @ concat marks @ [''</svg>''])))))) "

subsection \<open>The figure of the ratios\<close>

definition speedup_x :: "(rat \<Rightarrow> rat) \<Rightarrow> rat \<Rightarrow> rat" where
  "speedup_x lg v = 235 + (lg v - lg (4 / 10)) / (lg 12 - lg (4 / 10)) * (1030 - 235)"

definition speedup_tick :: "(rat \<Rightarrow> rat) \<Rightarrow> rat \<Rightarrow> string list" where
  "speedup_tick lg tick = (let xx = speedup_x lg tick; css = (if tick = 1 then ''baseline'' else ''grid'') in
     map dq [''<line x1=`'' @ fixed 1 xx @ ''` y1=`125` x2=`'' @ fixed 1 xx @ ''` y2=`565` class=`'' @ css @ ''`/>'',
       ''<text x=`'' @ fixed 1 xx @ ''` y=`591` text-anchor=`middle` class=`axis`>'' @ general 6 tick @ ''x</text>''])"

definition speedup_row :: "(rat \<Rightarrow> rat) \<Rightarrow> campaign_models \<Rightarrow> nat \<times> string \<times> string \<Rightarrow> string list res" where
  "speedup_row lg models = (\<lambda>(index, model, regime). bindE (comparison_at models model regime) (\<lambda>c.
     let value = rc_ratio c; yy = 125 + 40 + int index * 66; xx = speedup_x lg value;
         anchor = (if value < 8 then ''start'' else ''end''); dx = (if anchor = ''start'' then 14 else - 14) in
     bindE (guardE (0 < value) (ValueError ''math domain error'')) (\<lambda>_. Inr (map dq
       [''<text x=`217` y=`'' @ show_int (yy + 5) @ ''` text-anchor=`end` class=`label`>'' @ model_label model @ '' '' @ regime @ ''</text>'',
       ''<line x1=`'' @ fixed 1 (speedup_x lg 1) @ ''` y1=`'' @ show_int yy @ ''` x2=`'' @ fixed 1 xx @ ''` y2=`'' @ show_int yy @ ''` stroke=`#aeb5bc` stroke-width=`3`/>'',
       ''<circle cx=`'' @ fixed 1 xx @ ''` cy=`'' @ show_int yy @ ''` r=`9` fill=`'' @ (if 1 \<le> value then color_of ''nvdla'' else color_of ''cpu'') @ ''`/>'',
       ''<text x=`'' @ fixed 1 (xx + of_int dx) @ ''` y=`'' @ show_int (yy + 5) @ ''` text-anchor=`'' @ anchor @ ''` class=`value`>'' @ fixed 2 value @ ''x</text>'']))))"

definition speedup_svg :: "(rat \<Rightarrow> rat) \<Rightarrow> campaign_models \<Rightarrow> string res" where
  "speedup_svg lg models =
     bindE (mapE (speedup_row lg models) (zip [0..<length GROUPS] GROUPS)) (\<lambda>rows.
     Inr (svg_text (svg_start ''Relative latency: CPU time divided by NVDLA time''
         ''Values above 1x favor NVDLA; values below 1x favor the ARM CPU. Ratios use session-median estimates.''
       @ concat (map (speedup_tick lg) [1 / 2, 1, 2, 5, 10]) @ concat rows @ [''</svg>''])))"

subsection \<open>The figures of power and energy\<close>

definition bar_groups :: "bool \<Rightarrow> (string \<times> string) list" where
  "bar_groups energy = concat (map (\<lambda>model. if energy then [(model, ''active''), (model, ''incremental'')] else [(model, ''active'')]) MODELS)"

text \<open>The height a bar shows: watts, or millijoules per inference.\<close>

definition bar_value :: "campaign_models \<Rightarrow> bool \<Rightarrow> string \<Rightarrow> string \<Rightarrow> string \<Rightarrow> rat res" where
  "bar_value models energy model kind implementation = bindE (implementation_at models model implementation) (\<lambda>r. let p = ir_power r in
     Inr (if \<not> energy then mv_mean (cw_active p)
       else mv_mean (if kind = ''active'' then cw_active_energy p else cw_incremental_energy p) * 1000))"

definition bar_series :: "campaign_models \<Rightarrow> bool \<Rightarrow> rat list res" where
  "bar_series models energy = mapE (\<lambda>((model, kind), implementation). bar_value models energy model kind implementation)
     (concat (map (\<lambda>g. map (Pair g) IMPLEMENTATIONS) (bar_groups energy)))"

text \<open>The scale of the bars: the height of a value, and the lines of the ticks.\<close>

definition energy_tick :: "(rat \<Rightarrow> rat) \<Rightarrow> decades \<Rightarrow> rat \<Rightarrow> string list res" where
  "energy_tick lg sc tick = bindE (decade_part lg sc tick) (\<lambda>part. let yy = 555 - part * (555 - 130) in
     Inr (map dq [''<line x1=`110` y1=`'' @ fixed 1 yy @ ''` x2=`1050` y2=`'' @ fixed 1 yy @ ''` class=`grid`/>'',
       ''<text x=`98` y=`'' @ fixed 1 (yy + 5) @ ''` text-anchor=`end` class=`axis`>'' @ general 6 tick @ '' mJ</text>'']))"

definition power_tick :: "int \<Rightarrow> int \<Rightarrow> string list" where
  "power_tick hi tick = (let yy = 555 - of_int tick / of_int hi * (555 - 130) in
     map dq [''<line x1=`110` y1=`'' @ fixed 1 yy @ ''` x2=`1050` y2=`'' @ fixed 1 yy @ ''` class=`grid`/>'',
       ''<text x=`98` y=`'' @ fixed 1 (yy + 5) @ ''` text-anchor=`end` class=`axis`>'' @ show_int tick @ '' W</text>''])"

definition bar_scale :: "(rat \<Rightarrow> rat) \<Rightarrow> bool \<Rightarrow> rat list \<Rightarrow> ((rat \<Rightarrow> rat res) \<times> string list) res" where
  "bar_scale lg energy vs =
     (if energy then bindE (decades_of lg vs) (\<lambda>sc.
        bindE (mapE (energy_tick lg sc) (decade_ticks (dc_lo sc) (dc_hi sc * (1001 / 1000)))) (\<lambda>ticks.
        Inr (\<lambda>v. bindE (decade_part lg sc v) (\<lambda>part. Inr (part * (555 - 130))), concat ticks)))
      else bindE (guardE (vs \<noteq> []) (ValueError ''max() arg is an empty sequence'')) (\<lambda>_.
        let hi = \<lceil>Max (set vs) * (125 / 100)\<rceil> in
        Inr (\<lambda>v. bindE (divided v (of_int hi)) (\<lambda>part. Inr (part * (555 - 130))), concat (map (power_tick hi) [0..hi]))))"

definition bar_mark :: "campaign_models \<Rightarrow> bool \<Rightarrow> (rat \<Rightarrow> rat res) \<Rightarrow> string \<Rightarrow> string \<Rightarrow> rat \<Rightarrow> rat \<times> string \<Rightarrow> string list res" where
  "bar_mark models energy height_of model kind center = (\<lambda>(offset, implementation).
     bindE (bar_value models energy model kind implementation) (\<lambda>value. bindE (height_of value) (\<lambda>hh.
     let shown = (if energy then energy_label value else general 3 value @ '' W'') in Inr (map dq
       [''<rect x=`'' @ fixed 1 ((center + offset) - 18) @ ''` y=`'' @ fixed 1 (of_int 555 - hh) @ ''` width=`36` height=`'' @ fixed 1 hh @ ''` fill=`'' @ color_of implementation @ ''`/>'',
       ''<text x=`'' @ fixed 1 (center + offset) @ ''` y=`'' @ fixed 1 ((of_int 555 - hh) - 8) @ ''` text-anchor=`middle` class=`value`>'' @ shown @ ''</text>'']))))"

definition bar_group :: "campaign_models \<Rightarrow> bool \<Rightarrow> (rat \<Rightarrow> rat res) \<Rightarrow> nat \<times> string \<times> string \<Rightarrow> string list res" where
  "bar_group models energy height_of = (\<lambda>(index, model, kind).
     let center = group_center 110 ((1050 - 110) / of_nat (length (bar_groups energy))) index in
     bindE (mapE (bar_mark models energy height_of model kind center) [(- 28, ''nvdla''), (28, ''cpu'')]) (\<lambda>bars.
     Inr (concat bars @ map dq [''<text x=`'' @ fixed 1 center @ ''` y=`579` text-anchor=`middle` class=`label`>'' @ model_label model @ ''</text>'']
       @ (if energy then map dq [''<text x=`'' @ fixed 1 center @ ''` y=`600` text-anchor=`middle` class=`axis`>'' @ title_case kind @ ''</text>''] else []))))"

definition bar_svg :: "(rat \<Rightarrow> rat) \<Rightarrow> campaign_models \<Rightarrow> string \<Rightarrow> string res" where
  "bar_svg lg models metric =
     (let energy = (metric = ''energy'');
          title = (if energy then ''Monitored energy per inference'' else ''Monitored board power during inference'');
          subtitle = (if energy then ''Active and idle-baseline-subtracted energy; PS + PL rails, log scale.''
            else ''Mean power across the monitored PS + PL rails during each steady process interval.'') in
      bindE (bar_series models energy) (\<lambda>series.
      bindE (bar_scale lg energy (List.filter (\<lambda>v. 0 < v) series)) (\<lambda>(height_of, ticks).
      bindE (mapE (bar_group models energy height_of) (zip [0..<length (bar_groups energy)] (bar_groups energy))) (\<lambda>bars.
      Inr (svg_text (svg_start title subtitle @ legend @ ticks @ concat bars @ [''</svg>'']))))))"

subsection \<open>The report\<close>

definition campaign_head :: "string list" where
  "campaign_head = [''# Final NVDLA FPGA and ARM CPU Benchmark Campaign'',
       [],
       ''## Qualification'',
       [],
       ''All 40 selected archives passed their implementation-specific correctness checks and provenance checks. Each cohort contains five independent fresh-boot sessions. The two additional CPU LeNet power archives are preserved but excluded by the predeclared balanced-cohort rule, not because of their outcomes.'',
       [],
       ''This is a **system-level deployed implementation comparison**: NVDLA executes an INT8 loadable, while ONNX Runtime executes FP32 with four ARM Cortex-A53 threads. It is not an equal-precision kernel comparison.'',
       [],
       ''## Latency'',
       [],
       ''Primary latency comes only from runs without power sampling. Values below are the median across the five independent session medians; parentheses show deterministic 95% bootstrap intervals.'',
       [],
       ''| Model | Regime | NVDLA latency | CPU latency | CPU time / NVDLA time |'',
       ''|---|---:|---:|---:|---:|'']"

definition campaign_latency_row :: "campaign_models \<Rightarrow> string \<times> string \<Rightarrow> string list res" where
  "campaign_latency_row models = (\<lambda>(model, regime).
     bindE (latency_at models model ''nvdla'' regime) (\<lambda>nvdla. bindE (latency_at models model ''cpu'' regime) (\<lambda>cpu.
     bindE (comparison_at models model regime) (\<lambda>ratio. Inr [''| '' @ model_label model @ '' | '' @ title_case regime @ '' | '' @ fixed 3 (cl_session_median nvdla) @ '' ms ('' @ fixed 3 (cl_lower nvdla) @ ''-'' @ fixed 3 (cl_upper nvdla) @ '') | '' @ fixed 3 (cl_session_median cpu) @ '' ms ('' @ fixed 3 (cl_lower cpu) @ ''-'' @ fixed 3 (cl_upper cpu) @ '') | '' @ fixed 2 (rc_ratio ratio) @ ''x |'']))))"

definition campaign_middle :: "string list" where
  "campaign_middle = [[],
       ''A ratio above 1 means NVDLA is faster. NVDLA reduces ResNet-50 latency in all three regimes. For LeNet, fixed deployment overhead dominates cold and warm execution, while the CPU is faster in the steady loaded-context microbenchmark.'',
       [],
       ''![Latency comparison](latency-comparison.svg)'',
       [],
       ''![Relative latency](relative-latency.svg)'',
       [],
       ''## Power And Energy'',
       [],
       ''Power results use separate correctness-qualified cohorts sampled concurrently with steady execution. The reported scope is the sum of exposed PS and PL rails, not external 12 V board-input power. Active energy includes the full sampled steady process interval amortized over all executed inferences; incremental energy subtracts the measured driver-loaded idle baseline and is therefore secondary.'',
       [],
       ''| Model | Implementation | Active power | Incremental power | Active energy/inference | Incremental energy/inference |'',
       ''|---|---|---:|---:|---:|---:|'']"

definition campaign_power_row :: "campaign_models \<Rightarrow> string \<times> string \<Rightarrow> string list res" where
  "campaign_power_row models = (\<lambda>(model, implementation). bindE (implementation_at models model implementation) (\<lambda>r. let p = ir_power r in
     Inr [''| '' @ model_label model @ '' | '' @ label_of implementation @ '' | '' @ fixed 3 (mv_mean (cw_active p)) @ '' W | '' @ fixed 3 (mv_mean (cw_incremental p)) @ '' W | '' @ fixed 3 (mv_mean (cw_active_energy p) * 1000) @ '' mJ | '' @ fixed 3 (mv_mean (cw_incremental_energy p) * 1000) @ '' mJ |'']))"

definition findings_heading :: "string list" where
  "findings_heading = [[],
       ''## Comparative Findings'',
       [],
       ''| Model | NVDLA active-power change | NVDLA active-energy change | NVDLA incremental-energy change |'',
       ''|---|---:|---:|---:|'']"

definition findings_row :: "campaign_models \<Rightarrow> string \<Rightarrow> string list res" where
  "findings_row models model = bindE (noneE (KeyError model) (dict_get models model)) (\<lambda>r. let c = mr_power r in
     Inr [''| '' @ model_label model @ '' | '' @ fixed_signed 1 (pw_power c) @ ''% | '' @ fixed_signed 1 (pw_energy c) @ ''% | '' @ fixed_signed 1 (pw_incremental c) @ ''% |''])"

definition campaign_tail :: "string list" where
  "campaign_tail = [[],
       ''Negative percentages mean NVDLA used less power or energy than the CPU implementation. Active energy is the conservative primary energy result; incremental energy is useful for isolating workload activity but depends more strongly on the idle baseline.'',
       [],
       ''![Monitored power](monitored-power.svg)'',
       [],
       ''![Monitored energy](monitored-energy.svg)'',
       [],
       ''## Interpretation Limits'',
       [],
       ''- No samples or statistical outliers were discarded from the selected cohorts.'',
       ''- Latency confidence intervals describe variability between five session medians, not uncertainty over arbitrary repeated samples.'',
       ''- Powered latency is retained in the cohort reports but is not used as the primary latency comparison.'',
       ''- CPU and NVDLA outputs were independently checked against their established goldens; numeric tensors need not be bit-identical across FP32 and INT8 implementations.'',
       ''- Monitored power excludes uninstrumented board losses and should not be compared directly with wall-plug measurements.'',
       [],
       ''## Reproducibility Files'',
       [],
       ''- `campaign-selection.json`: all included and excluded archive names and hashes.'',
       ''- `campaign-summary.json`: machine-readable comparison values.'',
       ''- The eight cohort directories contain raw CSV exports, full statistics, plots, and per-session provenance.'']"

definition campaign_report :: "campaign_models \<Rightarrow> string res" where
  "campaign_report models =
     bindE (mapE (campaign_latency_row models) GROUPS) (\<lambda>latency.
     bindE (mapE (campaign_power_row models) (concat (map (\<lambda>model. map (Pair model) IMPLEMENTATIONS) MODELS))) (\<lambda>powers.
     bindE (mapE (findings_row models) MODELS) (\<lambda>findings.
     Inr (join [NL] (campaign_head @ concat latency @ campaign_middle @ concat powers @ findings_heading @ concat findings @ campaign_tail) @ [NL]))))"

definition write_text_of :: "path \<Rightarrow> string \<Rightarrow> string res \<Rightarrow> fs \<Rightarrow> fs res" where
  "write_text_of out_dir name content fs = bindE content (\<lambda>t. Inr (write_file (out_dir @ [name]) t fs))"

definition build_campaign_report :: "env \<Rightarrow> (rat \<Rightarrow> rat) \<Rightarrow> (rat \<Rightarrow> rat) \<Rightarrow> path \<Rightarrow> path \<Rightarrow> path \<Rightarrow> path \<Rightarrow> fs \<Rightarrow> fs res" where
  "build_campaign_report e rt lg cwd reports campaign_root out_dir fs =
     bindE (build_campaign e rt cwd fs reports campaign_root) (\<lambda>c. let models = ca_models c in
     bindE (write_text_of out_dir ''latency-comparison.svg'' (campaign_latency_svg lg (env_float e) models) (write_campaign_documents e c out_dir fs)) (\<lambda>fs1.
     bindE (write_text_of out_dir ''relative-latency.svg'' (speedup_svg lg models) fs1) (\<lambda>fs2.
     bindE (write_text_of out_dir ''monitored-power.svg'' (bar_svg lg models ''power'') fs2) (\<lambda>fs3.
     bindE (write_text_of out_dir ''monitored-energy.svg'' (bar_svg lg models ''energy'') fs3) (\<lambda>fs4.
     write_text_of out_dir ''campaign-report.md'' (campaign_report models) fs4)))))"

subsection \<open>Facts\<close>

lemma decade_part_positive: "decade_part lg sc v = Inr part \<Longrightarrow> 0 < v"
  by (simp add: decade_part_def bindE_Inr_iff guardE_Inr_iff)

lemma member_ok: "mapE f xs = Inr ys \<Longrightarrow> x \<in> set xs \<Longrightarrow> \<exists>y. f x = Inr y"
  using mapE_is_ok [of f xs] by (auto simp: is_ok_iff)

text \<open>C15: the energy figure of a campaign is drawn only when the mean active and incremental energies of both
  implementations are positive for both models: one that is not, which the reports keep signed, stops the report.\<close>

theorem energy_figure_positive:
  "case bar_svg lg models ''energy'' of
     Inl e \<Rightarrow> True
   | Inr text \<Rightarrow> list_all (\<lambda>model. list_all (\<lambda>implementation. \<exists>r. implementation_at models model implementation = Inr r \<and>
       0 < mv_mean (cw_active_energy (ir_power r)) \<and> 0 < mv_mean (cw_incremental_energy (ir_power r))) IMPLEMENTATIONS) MODELS"
proof (cases "bar_svg lg models ''energy''")
  case (Inr t)
  from Inr obtain series sc ticks bars where sc: "bar_scale lg True (List.filter (\<lambda>v. 0 < v) series) = Inr (sc, ticks)"
    and bars: "mapE (bar_group models True sc) (zip [0..<length (bar_groups True)] (bar_groups True)) = Inr bars"
    unfolding bar_svg_def Let_def bindE_Inr_iff split_paired_Ex prod.case by auto
  from sc have positive: "\<And>v h. sc v = Inr h \<Longrightarrow> 0 < v" by (auto simp: bar_scale_def bindE_Inr_iff dest: decade_part_positive)
  have mark: "\<exists>v. bar_value models True model kind implementation = Inr v \<and> 0 < v"
    if g: "(model, kind) \<in> set (bar_groups True)" "implementation \<in> set IMPLEMENTATIONS" for model kind implementation
  proof -
    from g(1) obtain i where "(i, model, kind) \<in> set (zip [0..<length (bar_groups True)] (bar_groups True))"
      using in_set_impl_in_set_zip2 [of "[0..<length (bar_groups True)]" "bar_groups True" "(model, kind)"] by auto
    then obtain b where "bar_group models True sc (i, model, kind) = Inr b" using member_ok [OF bars] by blast
    then obtain center marks where marks: "mapE (bar_mark models True sc model kind center) [(- 28, ''nvdla''), (28, ''cpu'')] = Inr marks"
      by (auto simp: bar_group_def Let_def bindE_Inr_iff simp del: mapE.simps)
    obtain offset where off: "(offset, implementation) \<in> set [(- 28 :: rat, ''nvdla''), (28, ''cpu'')]" using g(2) by (auto simp: IMPLEMENTATIONS_def)
    obtain m where "bar_mark models True sc model kind center (offset, implementation) = Inr m" using member_ok [OF marks off] by (elim exE)
    with positive show ?thesis by (auto simp: bar_mark_def bindE_Inr_iff)
  qed
  have "\<exists>r. implementation_at models model implementation = Inr r \<and> 0 < mv_mean (cw_active_energy (ir_power r)) \<and> 0 < mv_mean (cw_incremental_energy (ir_power r))"
    if m: "model \<in> set MODELS" "implementation \<in> set IMPLEMENTATIONS" for model implementation
  proof -
    have "(model, ''active'') \<in> set (bar_groups True)" "(model, ''incremental'') \<in> set (bar_groups True)" using m(1) by (auto simp: bar_groups_def MODELS_def)
    from mark [OF this(1) m(2)] mark [OF this(2) m(2)] show ?thesis by (auto simp: bar_value_def bindE_Inr_iff Let_def)
  qed
  then show ?thesis by (simp add: Inr list_all_iff)
qed simp

end
