(* ===== verification/Resnet50.thy ===== *)
theory Resnet50
  imports Builders BoardArtifact
begin

text \<open>
  The ResNet-50 workload (tools/nvdla_test_framework/resnet50.py): fetching and verifying the pinned
  sources, the reproducible preprocessing of the input image, the compilation, the manifest of the
  workload, and the promotion of a virtual-platform run to the golden output. The geometry of the
  preprocessing is exact: floats are rationals.
\<close>

definition RESNET50_WORKLOAD :: string where
  "RESNET50_WORKLOAD = ''resnet50_imagenet''"

definition COMPILER_CANDIDATES :: "string list" where
  "COMPILER_CANDIDATES = [''/usr/local/nvdla/nvdla_compiler'', ''/usr/local/nvdla/sw/prebuilt/linux/nvdla_compiler'',
     ''/usr/local/nvdla/sw/prebuilt/x86/nvdla_compiler'', ''/usr/local/nvdla/sw/prebuilt/x86_64-linux/nvdla_compiler'']"

subsection \<open>The lock and the sources\<close>

definition workload_spec :: "string \<Rightarrow> json \<Rightarrow> json res" where
  "workload_spec name lock = (case jpath lock [''workloads'', name] of
       Inl (KeyError k) \<Rightarrow> Inl (KeyError (''missing workloads.'' @ name))
     | r \<Rightarrow> r)"

definition resnet_spec :: "fs \<Rightarrow> path \<Rightarrow> json res" where
  "resnet_spec fs lock_path = bindE (read_json fs lock_path) (workload_spec RESNET50_WORKLOAD)"

definition resnet_source_dir :: "fs \<Rightarrow> path \<Rightarrow> path \<Rightarrow> path res" where
  "resnet_source_dir fs lock_path sources_dir = bindE (resnet_spec fs lock_path) (\<lambda>spec.
     bindE (jget_or spec (JStr ''resnet50-msra'') ''source_dir'') (path_at sources_dir))"

definition verify_resnet :: "env \<Rightarrow> fs \<Rightarrow> path \<Rightarrow> json \<Rightarrow> json res" where
  "verify_resnet env fs p expected = bindE (verify env fs p expected) (\<lambda>_. bindE (sha_file env fs p) (\<lambda>h. Inr (JStr h)))"

definition verify_sha1 :: "build_env \<Rightarrow> fs \<Rightarrow> path \<Rightarrow> json \<Rightarrow> json res" where
  "verify_sha1 b fs p expected = bindE (read_text fs p) (\<lambda>c. case expected of
       JStr e \<Rightarrow> bindE (guardE (upper (bd_sha1 b c) = upper e) (ValueError ''sha1 mismatch'')) (\<lambda>_. Inr (JStr (upper (bd_sha1 b c))))
     | _ \<Rightarrow> Inl AttributeError)"

text \<open>The SHA-256 of an entry of the lock, and its SHA-1 where the entry has one.\<close>

definition check_source :: "build_env \<Rightarrow> fs \<Rightarrow> path \<Rightarrow> json \<Rightarrow> json res" where
  "check_source b fs p item =
     bindE (jat item ''sha256'') (\<lambda>h.
     bindE (verify_resnet (env.truncate b) fs p h) (\<lambda>actual.
     bindE (jget item ''sha1'') (\<lambda>s.
     bindE (if truthy s then verify_sha1 b fs p s else Inr JNull) (\<lambda>_. Inr actual))))"

definition resnet_record :: "json \<Rightarrow> json \<Rightarrow> string \<Rightarrow> json res" where
  "resnet_record item actual status = jmerge item [(''sha256'', actual), (''status'', JStr status)]"

definition fetch_resnet50_sources :: "build_env \<Rightarrow> path \<Rightarrow> path \<Rightarrow> fs \<Rightarrow> fs res" where
  "fetch_resnet50_sources b lock_path sources_dir fs =
     bindE (resnet_spec fs lock_path) (\<lambda>spec.
     bindE (resnet_source_dir fs lock_path sources_dir) (\<lambda>destination.
     bindE (bindE (jat spec ''files'') jlist) (\<lambda>items.
     bindE (foldE (fetch_item b (check_source b) resnet_record destination) items ([], fs)) (\<lambda>(records, fs1).
     bindE (jat spec ''model_revision'') (\<lambda>revision.
     Inr (write_json (env.truncate b) (destination @ [''manifest.json'']) (JDict [(''schema_version'', JInt 1),
       (''name'', JStr RESNET50_WORKLOAD), (''model_revision'', revision), (''files'', JList records)]) fs1))))))"

subsection \<open>Preprocessing\<close>

text \<open>The size after scaling the short side, and the box of the centred crop.\<close>

record geometry =
  ge_resized :: "int \<times> int"
  ge_box :: "int \<times> int \<times> int \<times> int"

definition preprocess_geometry :: "int \<Rightarrow> int \<Rightarrow> int \<Rightarrow> int \<Rightarrow> int \<Rightarrow> geometry res" where
  "preprocess_geometry width height short_side crop_width crop_height =
     bindE (guardE (min width height \<noteq> 0) ZeroDivisionError) (\<lambda>_.
     let scale = of_int short_side / of_int (min width height) :: rat;
         w = round_half_even (of_int width * scale);
         h = round_half_even (of_int height * scale);
         left = (w - crop_width) div 2;
         top' = (h - crop_height) div 2
     in Inr \<lparr>ge_resized = (w, h), ge_box = (left, top', left + crop_width, top' + crop_height)\<rparr>)"

definition preprocess_input :: "build_env \<Rightarrow> path \<Rightarrow> path \<Rightarrow> json \<Rightarrow> fs \<Rightarrow> (json \<times> fs) res" where
  "preprocess_input b source destination settings fs =
     bindE (noneE (RuntimeError ''Pillow is required'') (env_pillow b)) (\<lambda>pillow.
     bindE (jat settings ''pillow_version'') (\<lambda>wanted.
     bindE (guardE (pillow = py_str (env_float b) wanted) (RuntimeError ''Pillow version is required for reproducible JPEG output'')) (\<lambda>_.
     bindE (read_text fs source) (\<lambda>c.
     bindE (noneE OSError (bd_image_size b c)) (\<lambda>(width, height).
     bindE (bindE (jat settings ''resize_short_side'') jint) (\<lambda>short_side.
     bindE (guardE (min width height \<noteq> 0) ZeroDivisionError) (\<lambda>_.
     bindE (bindE (jat settings ''crop_width'') jint) (\<lambda>crop_width.
     bindE (bindE (jat settings ''crop_height'') jint) (\<lambda>crop_height.
     bindE (preprocess_geometry width height short_side crop_width crop_height) (\<lambda>g.
     bindE (jat settings ''format'') (\<lambda>fmt.
     bindE (bindE (jat settings ''quality'') jint) (\<lambda>quality.
     bindE (bindE (jat settings ''subsampling'') jint) (\<lambda>subsampling.
     let fs1 = write_file destination (bd_render b c (ge_resized g) (ge_box g) fmt quality subsampling) fs in
     bindE (sha_file (env.truncate b) fs1 destination) (\<lambda>h.
     let (l, t, r, d) = ge_box g in
     Inr (JDict [(''source_size'', shape_json [width, height]),
       (''resized_size'', shape_json [fst (ge_resized g), snd (ge_resized g)]), (''crop_box'', shape_json [l, t, r, d]),
       (''output_size'', shape_json [crop_width, crop_height]), (''pillow_version'', JStr pillow), (''sha256'', JStr h)], fs1)))))))))))))))"

text \<open>The contextual floating-point result: the network's output and NumPy's order of it are
  parameters.\<close>

definition last_n :: "nat \<Rightarrow> 'a list \<Rightarrow> 'a list" where
  "last_n n xs = drop (length xs - n) xs"

definition score_entry :: "rat list \<Rightarrow> nat \<Rightarrow> json res" where
  "score_entry output i = (if i < length output then Inr (JDict [(''index'', JInt (int i)), (''score'', JFloat (output ! i))])
     else Inl IndexError)"

definition fp32_context :: "build_env \<Rightarrow> path \<Rightarrow> path \<Rightarrow> path \<Rightarrow> fs \<Rightarrow> json res" where
  "fp32_context b prototxt model img fs = (case bd_opencv b of
       None \<Rightarrow> Inr (JDict [(''status'', JStr ''not-generated''), (''reason'', JStr ''python3-opencv and python3-numpy are not installed'')])
     | Some version \<Rightarrow>
         bindE (read_text fs prototxt) (\<lambda>p. bindE (read_text fs model) (\<lambda>m. bindE (read_text fs img) (\<lambda>i.
         bindE (noneE (RuntimeError ''OpenCV could not decode'') (bd_forward b p m i)) (\<lambda>output.
         bindE (mapE (score_entry output) (rev (last_n 5 (bd_argsort b output)))) (\<lambda>top5.
         Inr (JDict [(''status'', JStr ''context-only''), (''framework'', JStr ''OpenCV DNN''), (''opencv_version'', JStr version),
           (''preprocessing'', JDict [(''channel_order'', JStr ''BGR''),
              (''mean'', JList [JFloat (103939 / 1000), JFloat (116779 / 1000), JFloat (12368 / 100)]), (''scale'', JFloat 1)]),
           (''output_elements'', JInt (int (length output))), (''top5'', JList top5),
           (''note'', JStr ''This FP32 result is contextual only. The NVDLA INT8 runtime compresses input bytes to [0,127], so it is not an exact tensor oracle.'')])))))))"

subsection \<open>The build\<close>

definition verify_source :: "build_env \<Rightarrow> path \<Rightarrow> json \<Rightarrow> fs \<Rightarrow> unit res" where
  "verify_source b source item fs =
     bindE (bindE (jat item ''name'') (path_at source)) (\<lambda>p. bindE (check_source b fs p item) (\<lambda>_. Inr ()))"

definition compiler_option :: "build_env \<Rightarrow> json \<Rightarrow> string \<Rightarrow> string \<Rightarrow> string res" where
  "compiler_option b compiler flag key = bindE (jat compiler key) (\<lambda>v. Inr (''--'' @ flag @ '' '' @ py_str (env_float b) v))"

text \<open>The options both compiler commands pass on from the lock.\<close>

record compiler_options =
  co_profile :: string
  co_cprecision :: string
  co_configtarget :: string
  co_quantization :: string
  co_informat :: string

definition compiler_options :: "build_env \<Rightarrow> json \<Rightarrow> compiler_options res" where
  "compiler_options b compiler =
     bindE (compiler_option b compiler ''profile'' ''profile'') (\<lambda>p.
     bindE (compiler_option b compiler ''cprecision'' ''cprecision'') (\<lambda>c.
     bindE (compiler_option b compiler ''configtarget'' ''configtarget'') (\<lambda>t.
     bindE (compiler_option b compiler ''quantizationMode'' ''quantizationMode'') (\<lambda>q.
     bindE (compiler_option b compiler ''informat'' ''informat'') (\<lambda>i.
     Inr \<lparr>co_profile = p, co_cprecision = c, co_configtarget = t, co_quantization = q, co_informat = i\<rparr>)))))"

definition resnet_command :: "compiler_options \<Rightarrow> string" where
  "resnet_command o' = ''set -eu; rm -rf /work/wisdom.dir /work/fast-math.nvdla /work/output.protobuf; cd /work; compiler_bin=''
     @ [SQ, SQ] @ ''; for candidate in '' @ join '' '' COMPILER_CANDIDATES @ ''; do if [ -x '' @ [DQ] @ ''$candidate'' @ [DQ]
     @ '' ]; then compiler_bin='' @ [DQ] @ ''$candidate'' @ [DQ] @ ''; break; fi; done; if [ -z '' @ [DQ] @ ''$compiler_bin'' @ [DQ]
     @ '' ]; then echo '' @ [SQ] @ ''nvdla_compiler not found'' @ [SQ] @ '' >&2; exit 127; fi; export LD_LIBRARY_PATH=$(dirname ''
     @ [DQ] @ ''$compiler_bin'' @ [DQ] @ ''):/usr/local/nvdla:${LD_LIBRARY_PATH:-}; echo '' @ [DQ] @ ''__NVDLA_COMPILER__=$compiler_bin''
     @ [DQ] @ ''; '' @ [DQ] @ ''$compiler_bin'' @ [DQ]
     @ '' --prototxt /src/ResNet-50-deploy.prototxt --caffemodel /src/ResNet-50-model.caffemodel -o . ''
     @ co_profile o' @ '' '' @ co_cprecision o' @ '' '' @ co_configtarget o' @ '' --calibtable /src/resnet50.json ''
     @ co_quantization o' @ '' '' @ co_informat o' @ ''; mv fast-math.nvdla resnet50.nv_small.nvdla''"

definition source_record :: "env \<Rightarrow> path \<Rightarrow> json \<Rightarrow> fs \<Rightarrow> json res" where
  "source_record env source item fs =
     bindE (jat item ''name'') (\<lambda>n. bindE (jat item ''url'') (\<lambda>u. bindE (path_at source n) (\<lambda>p. bindE (sha_file env fs p) (\<lambda>h.
     Inr (JDict [(''name'', n), (''url'', u), (''sha256'', JStr h)])))))"

text \<open>The staged compilation: the inputs are copied, the command runs in the container, its output
  is kept as the log; a non-zero status stops the build.\<close>

definition resnet_image_name :: string where
  "resnet_image_name = ''cat.center-crop-224.jpg''"

definition run_compiler :: "build_env \<Rightarrow> path \<Rightarrow> string list \<Rightarrow> fs \<Rightarrow> (string \<times> fs) res" where
  "run_compiler b out_dir command fs =
     bindE (noneE OSError (bd_run b command fs)) (\<lambda>(status, out, fs1).
     bindE (guardE (status = 0) (RuntimeError ''compiler failed'')) (\<lambda>_.
     Inr (out, write_file (out_dir @ [''compiler.log'']) out fs1)))"

record compiled =
  cp_image :: json
  cp_backend :: string
  cp_image_id :: string
  cp_command :: string
  cp_out :: string

definition compile_resnet :: "build_env \<Rightarrow> json \<Rightarrow> json \<Rightarrow> path \<Rightarrow> path \<Rightarrow> path \<Rightarrow> fs \<Rightarrow> (compiled \<times> fs) res" where
  "compile_resnet b lock spec source calibration out_dir fs =
     (let stage = bd_root b @ [''.work'', ''resnet50-compiler-input''] in
     bindE (copy_file (source @ [''ResNet-50-deploy.prototxt'']) (stage @ [''ResNet-50-deploy.prototxt'']) fs) (\<lambda>fs1.
     bindE (copy_file (source @ [''ResNet-50-model.caffemodel'']) (stage @ [''ResNet-50-model.caffemodel'']) fs1) (\<lambda>fs2.
     bindE (copy_file calibration (stage @ [''resnet50.json'']) fs2) (\<lambda>fs3.
     bindE (jpath lock [''docker'', ''vp_latest'', ''image'']) (\<lambda>img.
     bindE (jstr img) (\<lambda>img_name.
     bindE (docker_backend b img_name fs3) (\<lambda>(pre, backend, image_id).
     bindE (jat spec ''compiler'') (\<lambda>compiler.
     bindE (compiler_options b compiler) (\<lambda>options.
     bindE (docker_mount_path b stage backend fs3) (\<lambda>stage_mount.
     bindE (docker_mount_path b out_dir backend fs3) (\<lambda>out_mount.
     bindE (run_compiler b out_dir (docker_compile pre stage_mount out_mount img_name (resnet_command options)) fs3) (\<lambda>(out, fs4).
     Inr (\<lparr>cp_image = img, cp_backend = backend, cp_image_id = image_id, cp_command = resnet_command options, cp_out = out\<rparr>, fs4)))))))))))))"

text \<open>What is checked before the compilation: every source, the calibration table, and the
  preprocessed image.\<close>

definition resnet_inputs :: "build_env \<Rightarrow> json \<Rightarrow> path \<Rightarrow> path \<Rightarrow> path \<Rightarrow> fs \<Rightarrow> (path \<times> json \<times> fs) res" where
  "resnet_inputs b spec source nvdla_sw out_dir fs =
     bindE (bindE (jat spec ''files'') jlist) (\<lambda>items.
     bindE (mapE (\<lambda>item. verify_source b source item fs) items) (\<lambda>_.
     bindE (bindE (jpath spec [''calibration'', ''nvdla_sw_path'']) (path_at nvdla_sw)) (\<lambda>calibration.
     bindE (jpath spec [''calibration'', ''sha256'']) (\<lambda>ch.
     bindE (verify (env.truncate b) fs calibration ch) (\<lambda>_.
     bindE (jat spec ''preprocess'') (\<lambda>settings.
     bindE (preprocess_input b (source @ [''cat.jpg'']) (out_dir @ [resnet_image_name]) settings fs) (\<lambda>(preprocess, fs1).
     bindE (jat settings ''expected_output_sha256'') (\<lambda>ih.
     bindE (verify (env.truncate b) fs1 (out_dir @ [resnet_image_name]) ih) (\<lambda>_.
     Inr (calibration, preprocess, fs1))))))))))"

text \<open>The manifest of a compiled workload, its exact oracle still pending.\<close>

definition resnet_document ::
    "build_env \<Rightarrow> json \<Rightarrow> json \<Rightarrow> path \<Rightarrow> path \<Rightarrow> path \<Rightarrow> json \<Rightarrow> compiled \<Rightarrow> string \<Rightarrow> json \<Rightarrow> fs \<Rightarrow> json res" where
  "resnet_document b lock spec source calibration out_dir preprocess c loadable_sha context' fs =
     (let env = env.truncate b; loadable = out_dir @ [''resnet50.nv_small.nvdla''] in
     bindE (jat spec ''model_revision'') (\<lambda>revision.
     bindE (bindE (jat spec ''files'') jlist) (\<lambda>items.
     bindE (mapE (\<lambda>item. source_record env source item fs) items) (\<lambda>files.
     bindE (jpath lock [''sources'', ''nvdla_sw'', ''commit'']) (\<lambda>commit.
     bindE (jpath spec [''calibration'', ''nvdla_sw_path'']) (\<lambda>cpath.
     bindE (sha_file env fs calibration) (\<lambda>csha.
     bindE (bindE (bindE (jat spec ''compiler'') jitems) (jmerge (JDict [(''docker_image'', cp_image c), (''docker_image_id'', JStr (cp_image_id c)),
       (''docker_backend'', JStr (cp_backend c)), (''path'', compiler_path (cp_out c)), (''command'', JStr (cp_command c))]))) (\<lambda>compiler.
     bindE (file_size fs loadable) (\<lambda>size_l.
     bindE (jat spec ''output_elements'') (\<lambda>elements.
     bindE (sha_file env fs (out_dir @ [''output.protobuf''])) (\<lambda>psha.
     bindE (file_size fs (out_dir @ [''output.protobuf''])) (\<lambda>psize.
     bindE (sha_file env fs (out_dir @ [resnet_image_name])) (\<lambda>isha.
     bindE (jat spec ''target'') (\<lambda>target.
     Inr (JDict [(''schema_version'', JInt 1), (''name'', JStr ''resnet50_small''), (''kind'', JStr ''compiled_caffe_resnet50_imagenet''),
       (''model_revision'', revision),
       (''source'', JDict [(''files'', JList files), (''calibration'', JDict [(''nvdla_sw_commit'', commit), (''path'', cpath), (''sha256'', JStr csha)])]),
       (''compiler'', compiler),
       (''loadable'', JDict [(''path'', JStr ''resnet50.nv_small.nvdla''), (''sha256'', JStr loadable_sha), (''size_bytes'', JInt (int size_l))]),
       (''complexity'', JDict [(''loadable_size_bytes'', JInt (int size_l)), (''input_shape_nchw'', shape_json [1, 3, 224, 224]),
          (''output_elements'', elements), (''hwl_count'', JNull), (''operation_counts'', JDict [])]),
       (''output_protobuf'', JDict [(''path'', JStr ''output.protobuf''), (''sha256'', JStr psha), (''size_bytes'', JInt (int psize))]),
       (''image'', JDict [(''path'', JStr resnet_image_name), (''sha256'', JStr isha), (''preprocess'', preprocess)]),
       (''output_elements'', elements),
       (''oracle'', JDict [(''nvdla_exact'', JDict [(''status'', JStr ''pending''), (''required_source'', JStr ''verified source-built nv_small VP'')]),
          (''fp32_context'', context')]),
       (''target'', target)])))))))))))))))"

text \<open>A golden output promoted earlier is kept only when the new loadable and image have the hashes of
  the earlier manifest and the golden file still has its own.\<close>

definition keeps_oracle :: "build_env \<Rightarrow> json \<Rightarrow> json \<Rightarrow> path \<Rightarrow> fs \<Rightarrow> bool res" where
  "keeps_oracle b previous generated out_dir fs =
     bindE (bindE (jget_or previous (JDict []) ''oracle'') (\<lambda>d. jget_or d (JDict []) ''nvdla_exact'')) (\<lambda>oracle.
     bindE (jget_or oracle (JDict []) ''output'') (\<lambda>output.
     bindE (jget_or output (JStr []) ''path'') (\<lambda>golden_name.
     let golden = path_div out_dir (py_str (env_float b) golden_name) in
     bindE (jget oracle ''status'') (\<lambda>st. if \<not> jeq st (JStr ''verified'') then Inr False else
     bindE (jchain previous [''loadable'', ''sha256'']) (\<lambda>l. bindE (jpath generated [''loadable'', ''sha256'']) (\<lambda>l'.
     if \<not> jeq l l' then Inr False else
     bindE (jchain previous [''image'', ''sha256'']) (\<lambda>i. bindE (jpath generated [''image'', ''sha256'']) (\<lambda>i'.
     if \<not> jeq i i' then Inr False else if \<not> is_file fs golden then Inr False else
     bindE (sha_file (env.truncate b) fs golden) (\<lambda>h. bindE (jget output ''sha256'') (\<lambda>g. Inr (jeq (JStr h) g)))))))))))"

definition keep_oracle :: "build_env \<Rightarrow> json \<Rightarrow> json \<Rightarrow> path \<Rightarrow> fs \<Rightarrow> json res" where
  "keep_oracle b previous generated out_dir fs =
     bindE (keeps_oracle b previous generated out_dir fs) (\<lambda>keep.
     if \<not> keep then Inr generated
     else bindE (bindE (jget_or previous (JDict []) ''oracle'') (\<lambda>d. jget_or d (JDict []) ''nvdla_exact'')) (\<lambda>oracle.
       bindE (jset2 generated ''oracle'' ''nvdla_exact'' oracle) (\<lambda>g.
       bindE (jat previous ''complexity'') (\<lambda>complexity. jset g ''complexity'' complexity))))"

definition build_resnet50_small_workload :: "build_env \<Rightarrow> path \<Rightarrow> path \<Rightarrow> path \<Rightarrow> path \<Rightarrow> fs \<Rightarrow> (json \<times> fs) res" where
  "build_resnet50_small_workload b lock_path sources_dir nvdla_sw out_dir fs =
     (let env = env.truncate b in
     bindE (read_json fs lock_path) (\<lambda>lock.
     bindE (resnet_spec fs lock_path) (\<lambda>spec.
     bindE (if is_file fs (out_dir @ [''generated-manifest.json'']) then read_json fs (out_dir @ [''generated-manifest.json'']) else Inr (JDict [])) (\<lambda>previous.
     bindE (resnet_source_dir fs lock_path sources_dir) (\<lambda>source.
     bindE (resnet_inputs b spec source nvdla_sw out_dir fs) (\<lambda>(calibration, preprocess, fs1).
     bindE (compile_resnet b lock spec source calibration out_dir fs1) (\<lambda>(c, fs2).
     bindE (jat spec ''expected_loadable_sha256'') (\<lambda>lh.
     bindE (verify env fs2 (out_dir @ [''resnet50.nv_small.nvdla'']) lh) (\<lambda>_.
     bindE (sha_file env fs2 (out_dir @ [''resnet50.nv_small.nvdla''])) (\<lambda>loadable_sha.
     bindE (jat spec ''expected_output_protobuf_sha256'') (\<lambda>ph.
     bindE (verify env fs2 (out_dir @ [''output.protobuf'']) ph) (\<lambda>_.
     bindE (copy_file (source @ [''ResNet-50-deploy.prototxt'']) (out_dir @ [''ResNet-50-deploy.prototxt'']) fs2) (\<lambda>fs3.
     bindE (copy_file (source @ [''ResNet-50-model.caffemodel'']) (out_dir @ [''ResNet-50-model.caffemodel'']) fs3) (\<lambda>fs4.
     bindE (copy_file calibration (out_dir @ [''resnet50.json'']) fs4) (\<lambda>fs5.
     bindE (fp32_context b (out_dir @ [''ResNet-50-deploy.prototxt'']) (out_dir @ [''ResNet-50-model.caffemodel''])
       (out_dir @ [resnet_image_name]) fs5) (\<lambda>context'.
     bindE (resnet_document b lock spec source calibration out_dir preprocess c loadable_sha context' fs5) (\<lambda>generated.
     bindE (keep_oracle b previous generated out_dir fs5) (\<lambda>result.
     Inr (result, write_json env (out_dir @ [''generated-manifest.json'']) result fs5)))))))))))))))))))"

subsection \<open>Promotion of the golden output\<close>

text \<open>\<open>d.get(k1, {})...get(k, '').lower() == expected.lower()\<close>.\<close>

definition hash_matches :: "json \<Rightarrow> string list \<Rightarrow> string \<Rightarrow> bool res" where
  "hash_matches d ks expected =
     bindE (foldE (\<lambda>k e. jget_or e (JDict []) k) (butlast ks) d) (\<lambda>e. bindE (jget_or e (JStr []) (last ks)) (\<lambda>h.
     case h of JStr s \<Rightarrow> Inr (lower s = lower expected) | _ \<Rightarrow> Inl AttributeError))"

definition jlower :: "json \<Rightarrow> string res" where
  "jlower v = (case v of JStr s \<Rightarrow> Inr s | _ \<Rightarrow> Inl AttributeError)"

definition promotion_checks :: "env \<Rightarrow> json \<Rightarrow> json \<Rightarrow> path \<Rightarrow> fs \<Rightarrow> (string \<times> bool) list res" where
  "promotion_checks env spec vp output_path fs =
     bindE (jat spec ''expected_loadable_sha256'') (\<lambda>loadable.
     bindE (jpath spec [''preprocess'', ''expected_output_sha256'']) (\<lambda>img.
     bindE (jat spec ''expected_nv_small_vp_output_sha256'') (\<lambda>output.
     bindE (jget vp ''status'') (\<lambda>status. bindE (jget vp ''mode'') (\<lambda>mode.
     bindE (jget vp ''vp_hw_config'') (\<lambda>config. bindE (jget vp ''vp_runner'') (\<lambda>runner.
     bindE (jchain vp [''output'', ''integer_format'']) (\<lambda>fmt. bindE (jchain vp [''output'', ''elements'']) (\<lambda>elements.
     bindE (jat spec ''output_elements'') (\<lambda>wanted.
     bindE (jchain vp [''hwl_progress'', ''completed'']) (\<lambda>completed. bindE (jchain vp [''hwl_progress'', ''total'']) (\<lambda>all_layers.
     bindE (jlower loadable) (\<lambda>l. bindE (hash_matches vp [''inputs'', ''loadable'', ''sha256''] l) (\<lambda>loadable_ok.
     bindE (jlower img) (\<lambda>i. bindE (hash_matches vp [''inputs'', ''image'', ''sha256''] i) (\<lambda>image_ok.
     bindE (sha_file env fs output_path) (\<lambda>h. bindE (jlower output) (\<lambda>o'.
     Inr [(''status'', jeq status (JStr ''pass'')), (''mode'', jeq mode (JStr ''resnet50_small_golden'')),
       (''hardware_config'', jeq config (JStr ''small'')), (''runner'', jeq runner (JStr ''source-docker'')),
       (''output_format'', fmt = JBool True), (''output_elements'', jeq elements wanted),
       (''hwl_completion'', jeq completed all_layers \<and> jeq all_layers (JInt 246)),
       (''loadable_hash'', loadable_ok), (''image_hash'', image_ok), (''output_hash'', lower h = lower o')]))))))))))))))))))"

text \<open>The processor of every operation index: a second, different processor is an error.\<close>

definition record_operation :: "operation \<Rightarrow> (int, string) dict \<Rightarrow> (int, string) dict res" where
  "record_operation o' d = (let d' = dict_setdefault (op_index o') (op_processor o') d in
     if dict_get d' (op_index o') = Some (op_processor o') then Inr d'
     else Inl (ValueError ''operation has conflicting processors''))"

definition operation_map :: "operation list \<Rightarrow> (int, string) dict res" where
  "operation_map ops = foldE record_operation ops []"

text \<open>The layer count as an argument of \<open>range\<close>.\<close>

fun jindex :: "json \<Rightarrow> int res" where
  "jindex (JInt n) = Inr n"
| "jindex (JBool b) = Inr (if b then 1 else 0)"
| "jindex _ = Inl TypeError"

definition engine_counts :: "string list \<Rightarrow> (string \<times> json) list" where
  "engine_counts processors = map (\<lambda>e. (e, JInt (int (count_list processors e)))) EXPECTED_ENGINES"

definition promoted_complexity :: "json \<Rightarrow> json \<Rightarrow> json \<Rightarrow> string list \<Rightarrow> json" where
  "promoted_complexity size_l elements hwl processors = JDict [(''loadable_size_bytes'', size_l),
     (''input_shape_nchw'', shape_json [1, 3, 224, 224]), (''output_elements'', elements), (''hwl_count'', hwl),
     (''operation_counts'', JDict (engine_counts processors))]"

definition configuration_proof :: "json \<Rightarrow> json res" where
  "configuration_proof vp =
     bindE (jat vp ''vp_hw_config'') (\<lambda>config. bindE (jat vp ''vp_runner'') (\<lambda>runner.
     bindE (jchain vp [''vp_binary'', ''sha256'']) (\<lambda>binary. bindE (jchain vp [''vp_cmod'', ''sha256'']) (\<lambda>cmod.
     bindE (jchain vp [''inputs'', ''dtb'', ''sha256'']) (\<lambda>dtb. bindE (jchain vp [''inputs'', ''module'', ''sha256'']) (\<lambda>m.
     bindE (jchain vp [''inputs'', ''runtime'', ''sha256'']) (\<lambda>r. bindE (jat vp ''hwl_progress'') (\<lambda>progress.
     Inr (JDict [(''vp_hw_config'', config), (''vp_runner'', runner), (''vp_binary_sha256'', binary), (''cmod_sha256'', cmod),
       (''dtb_sha256'', dtb), (''module_sha256'', m), (''runtime_sha256'', r), (''hwl_progress'', progress)])))))))))"

text \<open>The layers of the run: the processors of the indices 0, ..., total - 1.\<close>

definition layer_processors :: "json \<Rightarrow> string \<Rightarrow> string list res" where
  "layer_processors hwl serial =
     bindE (operation_map (parse_completed_operations serial)) (\<lambda>by_index.
     bindE (jindex hwl) (\<lambda>n.
     bindE (guardE (sort (dict_keys by_index) = [0..n - 1]) (ValueError ''operation sequence does not cover every HWL index'')) (\<lambda>_.
     Inr (map snd by_index))))"

definition promote_resnet50_small_golden :: "env \<Rightarrow> path \<Rightarrow> path \<Rightarrow> path \<Rightarrow> fs \<Rightarrow> (json \<times> fs) res" where
  "promote_resnet50_small_golden env lock_path workload_dir artifact_dir fs =
     (let vp_path = artifact_dir @ [''manifest.json'']; output_path = artifact_dir @ [''runtime-output'', ''output.dimg''];
          golden = workload_dir @ [''golden-output.dimg''] in
     bindE (resnet_spec fs lock_path) (\<lambda>spec.
     bindE (read_json fs (workload_dir @ [''generated-manifest.json''])) (\<lambda>workload.
     bindE (read_json fs vp_path) (\<lambda>vp.
     bindE (promotion_checks env spec vp output_path fs) (\<lambda>checks.
     bindE (guardE (list_all snd checks) (ValueError ''ResNet-50 VP golden promotion failed'')) (\<lambda>_.
     bindE (read_text fs (artifact_dir @ [''serial.log''])) (\<lambda>serial.
     bindE (jpath vp [''hwl_progress'', ''total'']) (\<lambda>hwl.
     bindE (layer_processors hwl serial) (\<lambda>processors.
     bindE (copy_file output_path golden fs) (\<lambda>fs1.
     bindE (jpath workload [''loadable'', ''size_bytes'']) (\<lambda>size_l.
     bindE (jat spec ''output_elements'') (\<lambda>elements.
     bindE (jset workload ''complexity'' (promoted_complexity size_l elements hwl processors)) (\<lambda>w1.
     bindE (sha_file env fs1 vp_path) (\<lambda>vh. bindE (sha_file env fs1 golden) (\<lambda>gh. bindE (file_size fs1 golden) (\<lambda>gn.
     bindE (configuration_proof vp) (\<lambda>proof'.
     bindE (jset2 w1 ''oracle'' ''nvdla_exact'' (JDict [(''status'', JStr ''verified''), (''source'', JStr ''source-built nv_small VP''),
       (''source_artifact'', JStr (path_str artifact_dir)), (''source_manifest_sha256'', JStr vh),
       (''output'', JDict [(''path'', JStr ''golden-output.dimg''), (''sha256'', JStr gh), (''size_bytes'', JInt (int gn)), (''elements'', elements)]),
       (''configuration_proof'', proof')])) (\<lambda>w2.
     Inr (w2, write_json env (workload_dir @ [''generated-manifest.json'']) w2 fs1)))))))))))))))))))"

subsection \<open>Facts\<close>

lemma check_source_ok:
  "is_ok (check_source b fs p item) \<Longrightarrow>
     \<exists>c h. read_text fs p = Inr c \<and> jat item ''sha256'' = Inr (JStr h) \<and> upper (env_sha b c) = upper h"
  by (auto simp: is_ok_iff check_source_def bindE_Inr_iff verify_resnet_def verify_iff env.truncate_def)

lemma check_source_local: "local_check (check_source b)"
  unfolding local_check_def
proof (intro allI impI)
  fix fs fs' :: fs and p item
  assume rd: "read_text fs p = read_text fs' p"
  have "verify_resnet e fs p h = verify_resnet e fs' p h" for e h
    by (simp add: verify_resnet_def verify_local [OF rd] sha_file_def sha256_file_def rd)
  moreover have "verify_sha1 b fs p s = verify_sha1 b fs' p s" for s
    by (simp add: verify_sha1_def rd)
  ultimately show "check_source b fs p item = check_source b fs' p item"
    by (simp add: check_source_def cong: if_cong)
qed

text \<open>When fetching the ResNet-50 sources succeeds, every file of the lock is in the source directory
  with the SHA-256 the lock pins for it, whether it was kept or downloaded (again); the files of the
  lock have different names, none that of the manifest written at the end.\<close>

theorem fetched_files_pinned:
  assumes "fetch_resnet50_sources b lock_path sources_dir fs = Inr fs'"
    and "resnet_spec fs lock_path = Inr spec" and "resnet_source_dir fs lock_path sources_dir = Inr d"
    and "bindE (jat spec ''files'') jlist = Inr items" and "distinct (map (item_path d) items)"
    and "Inr (d @ [''manifest.json'']) \<notin> set (map (item_path d) items)" and "item \<in> set items"
  shows "\<exists>p c h. item_path d item = Inr p \<and> read_text fs' p = Inr c \<and> jat item ''sha256'' = Inr (JStr h) \<and>
    upper (env_sha b c) = upper h"
proof -
  from assms(1-4) obtain records fs1 content where
    fold: "foldE (fetch_item b (check_source b) resnet_record d) items ([], fs) = Inr (records, fs1)"
    and fs': "fs' = write_file (d @ [''manifest.json'']) content fs1"
    unfolding fetch_resnet50_sources_def bindE_Inr_iff split_paired_Ex prod.case write_json_def by auto
  from fetch_items_pinned [OF check_source_local fold assms(5,7)]
  obtain p where p: "item_path d item = Inr p" "is_ok (check_source b fs1 p item)" by blast
  moreover have "p \<noteq> d @ [''manifest.json'']" using p(1) assms(6,7) by (auto simp: image_iff)
  ultimately show ?thesis using check_source_ok [OF p(2)] fs' by auto
qed

lemma round_exact [simp]: "round_half_even (of_int n) = n"
  by (simp add: round_half_even_def)

lemma round_ge: "of_int n \<le> r \<Longrightarrow> n \<le> round_half_even r"
proof -
  assume "of_int n \<le> r"
  then have "n \<le> \<lfloor>r\<rfloor>" by (simp add: le_floor_iff)
  then show ?thesis by (simp add: round_half_even_def Let_def)
qed

lemma centred_crop:
  fixes s c :: int
  assumes "c \<le> s"
  shows "0 \<le> (s - c) div 2" and "(s - c) div 2 + c \<le> s"
  using assms by presburger+

text \<open>For an image of positive size and a crop no larger than the short side it is scaled to, the
  short side of the resized image is exactly the requested one, and the crop box has exactly the
  requested size and lies inside the resized image.\<close>

theorem preprocess_crop:
  assumes "0 < width" and "0 < height" and "crop_width \<le> short_side" and "crop_height \<le> short_side" and "0 \<le> short_side"
  shows "case preprocess_geometry width height short_side crop_width crop_height of
      Inl _ \<Rightarrow> False
    | Inr g \<Rightarrow> (let (w, h) = ge_resized g; (left, top', right, bottom) = ge_box g in
        min w h = short_side \<and> 0 \<le> left \<and> right = left + crop_width \<and> right \<le> w \<and>
        0 \<le> top' \<and> bottom = top' + crop_height \<and> bottom \<le> h)"
proof -
  let ?m = "min width height"
  define scale :: rat where "scale = of_int short_side / of_int ?m"
  define w where "w = round_half_even (of_int width * scale)"
  define h where "h = round_half_even (of_int height * scale)"
  have m: "0 < ?m" using assms by simp
  then have exact: "of_int ?m * scale = of_int short_side" and pos: "0 \<le> scale"
    using assms by (simp_all add: scale_def)
  have "of_int short_side \<le> of_int width * scale" "of_int short_side \<le> of_int height * scale"
    unfolding exact [symmetric] using pos by (intro mult_right_mono; simp)+
  then have ge: "short_side \<le> w" "short_side \<le> h" by (simp_all add: w_def h_def round_ge)
  have "w = short_side \<or> h = short_side"
  proof (cases "width \<le> height")
    case True
    then show ?thesis using exact by (simp add: w_def min_def)
  next
    case False
    then show ?thesis using exact by (simp add: h_def min_def)
  qed
  with ge have "min w h = short_side" by auto
  moreover have "crop_width \<le> w" "crop_height \<le> h" using assms ge by auto
  moreover have "preprocess_geometry width height short_side crop_width crop_height = Inr \<lparr>ge_resized = (w, h),
      ge_box = ((w - crop_width) div 2, (h - crop_height) div 2,
        (w - crop_width) div 2 + crop_width, (h - crop_height) div 2 + crop_height)\<rparr>"
  proof -
    from m have "min width height \<noteq> 0" by (rule less_imp_neq [symmetric])
    then show ?thesis by (simp only: preprocess_geometry_def Let_def scale_def w_def h_def guardE_def if_True bindE.simps simp_thms)
  qed
  ultimately show ?thesis by (simp add: centred_crop)
qed

lemma preprocess_crop_witness:
  "preprocess_geometry 320 240 256 224 224 = Inr \<lparr>ge_resized = (341, 256), ge_box = (58, 16, 282, 240)\<rparr> \<and> 282 \<le> (341::int)"
proof -
  have g: "preprocess_geometry 320 240 256 224 224 = Inr \<lparr>ge_resized = (341, 256), ge_box = (58, 16, 282, 240)\<rparr>" by code_simp
  then show ?thesis using preprocess_crop [of 320 240 224 256 224] by simp
qed

lemma jeq_refl [simp]: "jeq v v"
  by (simp add: jeq_def)

lemma count_engines: "sum_list (map (count_list ps) EXPECTED_ENGINES) = length (List.filter (\<lambda>p. p \<in> set EXPECTED_ENGINES) ps)"
proof -
  have "distinct es \<Longrightarrow> sum_list (map (count_list ps) es) = length (List.filter (\<lambda>p. p \<in> set es) ps)" for es
  proof (induction es)
    case (Cons e es)
    then have "List.filter (\<lambda>p. p \<in> set es) ps = List.filter (\<lambda>p. p \<noteq> e \<and> p \<in> set es) ps"
      by (intro filter_cong) auto
    moreover have "length (List.filter (\<lambda>p. p = e \<or> p \<in> set es) ps) =
        count_list ps e + length (List.filter (\<lambda>p. p \<noteq> e \<and> p \<in> set es) ps)"
      by (induction ps) auto
    ultimately show ?case using Cons by simp
  qed simp
  moreover have "distinct EXPECTED_ENGINES" by (simp add: EXPECTED_ENGINES_def)
  ultimately show ?thesis by blast
qed

lemma sum_nums_counts: "sum_nums (map (\<lambda>e. JInt (int (f e))) es) a = Inr (a + of_nat (sum_list (map f es)))"
  by (induction es arbitrary: a) (simp_all add: algebra_simps)

lemma sum_engine_counts:
  "sum_nums (map snd (engine_counts ps)) 0 = Inr (of_nat (length (List.filter (\<lambda>p. p \<in> set EXPECTED_ENGINES) ps)))"
  using sum_nums_counts [of "count_list ps" EXPECTED_ENGINES 0] by (simp add: engine_counts_def comp_def count_engines)

lemma engines_all: "length (List.filter (\<lambda>p. p \<in> set EXPECTED_ENGINES) ps) = length ps \<longleftrightarrow> set ps \<subseteq> set EXPECTED_ENGINES"
  using filter_count_all [of "\<lambda>p. p \<in> set EXPECTED_ENGINES" ps] by (auto simp: filter_count_def)

text \<open>The gate of the payload, on a promoted complexity record.\<close>

lemma validated_promoted:
  assumes c: "jget w ''complexity'' = Inr (promoted_complexity size_l elements (JInt (int (length ps))) ps)"
    and l: "jpath w [''loadable'', ''size_bytes''] = Inr size_l" and "ps \<noteq> []"
  shows "is_ok (validated_complexity w (shape_json [1, 3, 224, 224]) elements) \<longleftrightarrow> set ps \<subseteq> set EXPECTED_ENGINES"
proof -
  let ?c = "promoted_complexity size_l elements (JInt (int (length ps))) ps"
  have g: "jget ?c ''operation_counts'' = Inr (JDict (engine_counts ps))" "jget ?c ''hwl_count'' = Inr (JInt (int (length ps)))"
    "jget ?c ''input_shape_nchw'' = Inr (shape_json [1, 3, 224, 224])" "jget ?c ''output_elements'' = Inr elements"
    "jget ?c ''loadable_size_bytes'' = Inr size_l" "is_jdict ?c"
    by (simp_all add: promoted_complexity_def jget_def)
  have keys: "set (map fst (engine_counts ps)) = set EXPECTED_ENGINES" by (simp add: engine_counts_def image_image)
  from l obtain d where d: "jat w ''loadable'' = Inr d" "jat d ''size_bytes'' = Inr size_l" by (auto simp: bindE_Inr_iff)
  then have d': "jget d ''size_bytes'' = Inr size_l" by (cases d) (auto simp: jget_def noneE_def split: option.splits)
  have pos: "(0::rat) < of_int (int (length ps))" using assms(3) by simp
  show ?thesis
    unfolding validated_complexity_def c g d d' bindE.simps is_jdict.simps jitems.simps is_jint.simps jnum.simps jeq_refl
      guardE_True keys sum_engine_counts
    using pos engines_all [of ps] by (auto simp: g guardE_def is_ok_def split: if_splits)
qed

lemma jget_set: "jset w k v = Inr w' \<Longrightarrow> jget w' j = (if j = k then Inr v else jget w j)"
  by (cases w) (auto simp: jget_def dict_get_def [symmetric])

lemma jat_set: "jset w k v = Inr w' \<Longrightarrow> jat w' j = (if j = k then Inr v else jat w j)"
  by (cases w) (auto simp: dict_get_def [symmetric])

lemma jget_set2: "jset2 w k k2 v = Inr w' \<Longrightarrow> j \<noteq> k \<Longrightarrow> jget w' j = jget w j \<and> jat w' j = jat w j"
  by (auto simp: jset2_def bindE_Inr_iff jget_set jat_set)

lemma jat_set2: "jset2 w k k2 v = Inr w' \<Longrightarrow> jpath w' [k, k2] = Inr v"
  by (auto simp: jset2_def bindE_Inr_iff jat_set)


lemma layer_processorsD:
  assumes "layer_processors hwl serial = Inr ps" and "jeq hwl (JInt 246)"
  shows "hwl = JInt 246 \<and> length ps = 246"
proof -
  from assms(1) obtain d n where n: "jindex hwl = Inr n" and d: "sort (dict_keys d) = [0..n - 1]" and ps: "ps = map snd d"
    by (auto simp: layer_processors_def bindE_Inr_iff guardE_Inr_iff)
  from n assms(2) have hwl: "hwl = JInt 246" "n = 246"
    by (cases hwl; auto simp: jeq_def split: if_splits)+
  have "length ps = length (sort (dict_keys d))" by (simp add: ps dict_keys_def)
  also have "\<dots> = 246" unfolding d hwl by simp
  finally show ?thesis using hwl by simp
qed

lemma jat_jget_or: "jat d k = Inr v \<Longrightarrow> jget_or d x k = Inr v"
  by (cases d) (auto simp: noneE_def split: option.splits)

lemma jpath_chain: "jpath d [a, k] = Inr v \<Longrightarrow> jchain d [a, k] = Inr v"
  by (auto simp: bindE_Inr_iff jget_def dest!: jat_jget_or)

lemma promotion_checksD:
  assumes "promotion_checks env spec vp op fs = Inr checks" and "list_all snd checks"
  shows "\<exists>n c h. jchain vp [''hwl_progress'', ''total''] = Inr n \<and> jeq n (JInt 246) \<and> read_text fs op = Inr c \<and>
    jat spec ''expected_nv_small_vp_output_sha256'' = Inr (JStr h) \<and> lower (upper (env_sha env c)) = lower h"
proof -
  have jl: "jlower v = Inr s \<longleftrightarrow> v = JStr s" for v s by (cases v) (auto simp: jlower_def)
  from assms(1) [unfolded promotion_checks_def bindE_Inr_iff sum.inject]
  obtain out_h all_layers hh o' x1 x2 x3 x4 x5 x6 x7 x8 x9 where
    "jat spec ''expected_nv_small_vp_output_sha256'' = Inr out_h" "jchain vp [''hwl_progress'', ''total''] = Inr all_layers"
    "sha_file env fs op = Inr hh" "jlower out_h = Inr o'"
    "[x1, x2, x3, x4, x5, x6, (''hwl_completion'', x7 \<and> jeq all_layers (JInt 246)), x8, x9, (''output_hash'', lower hh = lower o')] = checks"
    by (elim exE conjE) (rule that; assumption)
  with assms(2) show ?thesis by (auto simp: jl sha_file_iff)
qed

lemma promotion_facts:
  assumes "promote_resnet50_small_golden env lock_path wd ad fs = Inr (w, fs')"
  shows "\<exists>spec vp serial hwl ps elements c h.
    resnet_spec fs lock_path = Inr spec \<and> read_json fs (ad @ [''manifest.json'']) = Inr vp \<and>
    jpath vp [''hwl_progress'', ''total''] = Inr hwl \<and> read_text fs (ad @ [''serial.log'']) = Inr serial \<and>
    layer_processors hwl serial = Inr ps \<and> length ps = 246 \<and> jat spec ''output_elements'' = Inr elements \<and>
    read_text fs (ad @ [''runtime-output'', ''output.dimg'']) = Inr c \<and> read_text fs' (wd @ [''golden-output.dimg'']) = Inr c \<and>
    jat spec ''expected_nv_small_vp_output_sha256'' = Inr (JStr h) \<and> lower (upper (env_sha env c)) = lower h \<and>
    (is_ok (validated_complexity w (shape_json [1, 3, 224, 224]) elements) \<longleftrightarrow> set ps \<subseteq> set EXPECTED_ENGINES)"
proof -
  from assms [unfolded promote_resnet50_small_golden_def Let_def bindE_Inr_iff guardE_Inr_iff split_paired_Ex prod.case sum.inject prod.inject]
  obtain spec workload vp checks serial hwl ps fs1 size_l elements w1 w2 pr v where
    r: "resnet_spec fs lock_path = Inr spec" "read_json fs (ad @ [''manifest.json'']) = Inr vp"
      "promotion_checks env spec vp (ad @ [''runtime-output'', ''output.dimg'']) fs = Inr checks" "list_all snd checks"
      "read_text fs (ad @ [''serial.log'']) = Inr serial" "jpath vp [''hwl_progress'', ''total''] = Inr hwl"
      "layer_processors hwl serial = Inr ps" "jpath workload [''loadable'', ''size_bytes''] = Inr size_l"
      "jat spec ''output_elements'' = Inr elements"
      and cp: "copy_file (ad @ [''runtime-output'', ''output.dimg'']) (wd @ [''golden-output.dimg'']) fs = Inr fs1"
      and w: "jset workload ''complexity'' (promoted_complexity size_l elements hwl ps) = Inr w1"
      "jset2 w1 ''oracle'' ''nvdla_exact'' v = Inr w" and fs': "fs' = write_json env (wd @ [''generated-manifest.json'']) w fs1"
    by (elim exE conjE) (rule that, assumption+, hypsubst, assumption+, hypsubst, rule refl)
  from promotion_checksD [OF r(3,4)] jpath_chain [OF r(6)] obtain c h where
    h: "jeq hwl (JInt 246)" "read_text fs (ad @ [''runtime-output'', ''output.dimg'']) = Inr c"
      "jat spec ''expected_nv_small_vp_output_sha256'' = Inr (JStr h)" "lower (upper (env_sha env c)) = lower h" by auto
  have hwl: "hwl = JInt 246" and len: "length ps = 246" using layer_processorsD [OF r(7) h(1)] by auto
  have "jget w ''complexity'' = Inr (promoted_complexity size_l elements (JInt (int (length ps))) ps)"
    using jget_set [OF w(1), of "''complexity''"] jget_set2 [OF w(2), of "''complexity''"] by (simp add: hwl len)
  moreover have "jpath w [''loadable'', ''size_bytes''] = Inr size_l"
    using jat_set [OF w(1), of "''loadable''"] jget_set2 [OF w(2), of "''loadable''"] r(8) by simp
  ultimately have "is_ok (validated_complexity w (shape_json [1, 3, 224, 224]) elements) \<longleftrightarrow> set ps \<subseteq> set EXPECTED_ENGINES"
    using len by (intro validated_promoted) auto
  moreover have "read_text fs' (wd @ [''golden-output.dimg'']) = Inr c"
    using cp h(2) by (auto simp: fs' write_json_def copy_file_iff)
  ultimately show ?thesis using r h len by blast
qed

text \<open>C26: Promotion accepts a run only with 246 of 246 layers, one processor for every layer
  index and the pinned output hash; the golden file then has the content of the run's output, and the
  gate of the board payload accepts the promoted manifest exactly when every layer ran on one of the six
  engines it knows.\<close>

theorem promotion_gate:
  "case promote_resnet50_small_golden env lock_path wd ad fs of
     Inl _ \<Rightarrow> True
   | Inr (w, fs') \<Rightarrow> (\<exists>spec vp serial hwl ps elements c h.
       resnet_spec fs lock_path = Inr spec \<and> read_json fs (ad @ [''manifest.json'']) = Inr vp \<and>
       jpath vp [''hwl_progress'', ''total''] = Inr hwl \<and> read_text fs (ad @ [''serial.log'']) = Inr serial \<and>
       layer_processors hwl serial = Inr ps \<and> length ps = 246 \<and> jat spec ''output_elements'' = Inr elements \<and>
       read_text fs (ad @ [''runtime-output'', ''output.dimg'']) = Inr c \<and> read_text fs' (wd @ [''golden-output.dimg'']) = Inr c \<and>
       jat spec ''expected_nv_small_vp_output_sha256'' = Inr (JStr h) \<and> lower (upper (env_sha env c)) = lower h \<and>
       (is_ok (validated_complexity w (shape_json [1, 3, 224, 224]) elements) \<longleftrightarrow> set ps \<subseteq> set EXPECTED_ENGINES))"
  using promotion_facts [of env lock_path wd ad fs]
  by (cases "promote_resnet50_small_golden env lock_path wd ad fs") (simp_all split: prod.split)

text \<open>A verified oracle is carried over only with the hashes it was promoted for.\<close>

lemma keeps_oracleD:
  assumes "keeps_oracle b previous generated out_dir fs = Inr True"
  shows "\<exists>oracle l l' i i'. bindE (jget_or previous (JDict []) ''oracle'') (\<lambda>d. jget_or d (JDict []) ''nvdla_exact'') = Inr oracle \<and>
    jchain previous [''loadable'', ''sha256''] = Inr l \<and> jpath generated [''loadable'', ''sha256''] = Inr l' \<and> jeq l l' \<and>
    jchain previous [''image'', ''sha256''] = Inr i \<and> jpath generated [''image'', ''sha256''] = Inr i' \<and> jeq i i'"
  using assms unfolding keeps_oracle_def
  by (auto simp: bindE_Inr_iff Let_def simp del: jchain.simps jpath.simps split: if_splits)

lemma keep_oracleD:
  assumes "keep_oracle b previous generated out_dir fs = Inr m"
  shows "m = generated \<or> keeps_oracle b previous generated out_dir fs = Inr True \<and>
    (\<exists>oracle. bindE (jget_or previous (JDict []) ''oracle'') (\<lambda>d. jget_or d (JDict []) ''nvdla_exact'') = Inr oracle \<and>
       jpath m [''oracle'', ''nvdla_exact''] = Inr oracle)"
proof -
  from assms obtain keep where k: "keeps_oracle b previous generated out_dir fs = Inr keep"
    by (auto simp: keep_oracle_def bindE_Inr_iff)
  show ?thesis
  proof (cases keep)
    case False
    with assms k show ?thesis by (simp add: keep_oracle_def)
  next
    case True
    with assms k obtain orc g complexity where ov: "bindE (jget_or previous (JDict []) ''oracle'') (\<lambda>d. jget_or d (JDict []) ''nvdla_exact'') = Inr orc"
      and g: "jset2 generated ''oracle'' ''nvdla_exact'' orc = Inr g" and m: "jset g ''complexity'' complexity = Inr m"
      unfolding keep_oracle_def by (auto simp: bindE_Inr_iff simp del: jget_or.simps)
    from jat_set2 [OF g] have "jpath m [''oracle'', ''nvdla_exact''] = Inr orc"
      using jat_set [OF m, of "''oracle''"] by simp
    with ov k True show ?thesis by (intro disjI2) auto
  qed
qed

lemma resnet_document_pending:
  assumes "resnet_document b lock spec source calibration out_dir preprocess c loadable_sha context' fs = Inr m"
  shows "jpath m [''oracle'', ''nvdla_exact'', ''status''] = Inr (JStr ''pending'')"
    and "jpath m [''loadable'', ''sha256''] = Inr (JStr loadable_sha)"
proof -
  from assms [unfolded resnet_document_def Let_def bindE_Inr_iff sum.inject]
  have "jpath m [''oracle'', ''nvdla_exact'', ''status''] = Inr (JStr ''pending'') \<and>
      jpath m [''loadable'', ''sha256''] = Inr (JStr loadable_sha)"
    by (elim exE conjE) (hypsubst, simp)
  then show "jpath m [''oracle'', ''nvdla_exact'', ''status''] = Inr (JStr ''pending'')"
    and "jpath m [''loadable'', ''sha256''] = Inr (JStr loadable_sha)" by auto
qed

text \<open>A rebuilt ResNet-50 workload never invents a golden output: when the build succeeds, the compiled
  loadable has the pinned hash, and the exact oracle of the new manifest is pending unless it is the
  oracle of the manifest that was there before, whose loadable and image had the hashes of the new
  ones.\<close>

theorem rebuild_oracle:
  "case build_resnet50_small_workload b lock_path sources_dir nvdla_sw out_dir fs of
     Inl _ \<Rightarrow> True
   | Inr (m, fs') \<Rightarrow> \<exists>spec h lh generated. resnet_spec fs lock_path = Inr spec \<and>
       jat spec ''expected_loadable_sha256'' = Inr (JStr h) \<and> jpath generated [''loadable'', ''sha256''] = Inr (JStr lh) \<and> upper lh = upper h \<and>
       (m = generated \<and> jpath m [''oracle'', ''nvdla_exact'', ''status''] = Inr (JStr ''pending'') \<or>
        (\<exists>previous oracle l i i'. read_json fs (out_dir @ [''generated-manifest.json'']) = Inr previous \<and>
           bindE (jget_or previous (JDict []) ''oracle'') (\<lambda>d. jget_or d (JDict []) ''nvdla_exact'') = Inr oracle \<and>
           jpath m [''oracle'', ''nvdla_exact''] = Inr oracle \<and>
           jchain previous [''loadable'', ''sha256''] = Inr l \<and> jeq l (JStr lh) \<and>
           jchain previous [''image'', ''sha256''] = Inr i \<and> jpath generated [''image'', ''sha256''] = Inr i' \<and> jeq i i'))"
proof (cases "build_resnet50_small_workload b lock_path sources_dir nvdla_sw out_dir fs")
  case (Inr r)
  obtain m fs' where "r = (m, fs')" by (cases r)
  with Inr have ok: "build_resnet50_small_workload b lock_path sources_dir nvdla_sw out_dir fs = Inr (m, fs')" by simp
  let ?old = "out_dir @ [''generated-manifest.json'']"
  from ok [unfolded build_resnet50_small_workload_def Let_def bindE_Inr_iff split_paired_Ex prod.case sum.inject prod.inject]
  obtain lock spec previous source calibration preprocess c fs2 hj lh fs5 context' generated res u where
    r: "resnet_spec fs lock_path = Inr spec"
      "(if is_file fs ?old then read_json fs ?old else Inr (JDict [])) = Inr previous"
      "jat spec ''expected_loadable_sha256'' = Inr hj"
      "verify (env.truncate b) fs2 (out_dir @ [''resnet50.nv_small.nvdla'']) hj = Inr u"
      "sha_file (env.truncate b) fs2 (out_dir @ [''resnet50.nv_small.nvdla'']) = Inr lh"
      "resnet_document b lock spec source calibration out_dir preprocess c lh context' fs5 = Inr generated"
      "keep_oracle b previous generated out_dir fs5 = Inr res" "res = m"
    by (elim exE conjE) (rule that; assumption)
  from r(4,5) obtain h where h: "hj = JStr h" "upper lh = upper h"
    by (auto simp: verify_iff sha_file_iff env.truncate_def)
  from resnet_document_pending [OF r(6)] have p: "jpath generated [''oracle'', ''nvdla_exact'', ''status''] = Inr (JStr ''pending'')"
    and l: "jpath generated [''loadable'', ''sha256''] = Inr (JStr lh)" .
  from keep_oracleD [OF r(7)] consider "res = generated"
    | orc where "keeps_oracle b previous generated out_dir fs5 = Inr True"
        "bindE (jget_or previous (JDict []) ''oracle'') (\<lambda>d. jget_or d (JDict []) ''nvdla_exact'') = Inr orc"
        "jpath res [''oracle'', ''nvdla_exact''] = Inr orc" by blast
  then show ?thesis
  proof cases
    case 1
    with r h p l Inr \<open>r = (m, fs')\<close> show ?thesis by (simp only: sum.case prod.case) blast
  next
    case 2
    from keeps_oracleD [OF 2(1)] 2(2) l obtain l0 i i' where
      k: "jchain previous [''loadable'', ''sha256''] = Inr l0" "jeq l0 (JStr lh)" "jchain previous [''image'', ''sha256''] = Inr i"
        "jpath generated [''image'', ''sha256''] = Inr i'" "jeq i i'"
      by (elim exE conjE) (rule that, assumption, simp only: sum.inject, assumption+)
    have "is_file fs ?old"
    proof (rule ccontr)
      assume "\<not> is_file fs ?old"
      with r(2) have "previous = JDict []" by simp
      with k(1,2) show False by (simp add: jget_def jeq_def)
    qed
    with r(2) have "read_json fs ?old = Inr previous" by simp
    with r(1,3,8) h l 2 k Inr \<open>r = (m, fs')\<close> show ?thesis by (simp only: sum.case prod.case) blast
  qed
qed simp

text \<open>An environment and a lock for the concrete inputs: backquotes stand for double quotes.\<close>

definition wit_build :: build_env where
  "wit_build = env.extend wit_env \<lparr>bd_sha1 = id, bd_url = (\<lambda>u. Some u), bd_run = (\<lambda>c fs. None), bd_wsl = False,
     bd_root = [], bd_image_size = (\<lambda>_. None), bd_render = (\<lambda>_ _ _ _ _ _. []), bd_opencv = None,
     bd_forward = (\<lambda>_ _ _. None), bd_argsort = (\<lambda>_. [])\<rparr>"

definition wit_quoted :: "string \<Rightarrow> string" where
  "wit_quoted s = map (\<lambda>c. if c = CHR 0x60 then DQ else c) s"

definition wit_lock :: fs where
  "wit_lock = [([''lock''], wit_quoted ''{`workloads`: {`resnet50_imagenet`: {`source_dir`: `d`, `model_revision`: `r`, `files`: [{`name`: `a`, `url`: `xy`, `sha256`: `XY`}, {`name`: `b`, `url`: `z`, `sha256`: `z`, `sha1`: `Z`}]}}}'')]"

lemma fetched_files_pinned_witness:
  "\<exists>fs' c h. fetch_resnet50_sources wit_build [''lock''] [''s''] wit_lock = Inr fs' \<and>
     read_text fs' [''s'', ''d'', ''a''] = Inr c \<and> upper (env_sha wit_build c) = upper h"
proof -
  let ?a = "JDict [(''name'', JStr ''a''), (''url'', JStr ''xy''), (''sha256'', JStr ''XY'')]"
  let ?b = "JDict [(''name'', JStr ''b''), (''url'', JStr ''z''), (''sha256'', JStr ''z''), (''sha1'', JStr ''Z'')]"
  have "is_ok (fetch_resnet50_sources wit_build [''lock''] [''s''] wit_lock)" by code_simp
  then obtain fs' where f: "fetch_resnet50_sources wit_build [''lock''] [''s''] wit_lock = Inr fs'" by (auto simp: is_ok_iff)
  have spec: "resnet_spec wit_lock [''lock''] = Inr (JDict [(''source_dir'', JStr ''d''), (''model_revision'', JStr ''r''), (''files'', JList [?a, ?b])])"
    and dir: "resnet_source_dir wit_lock [''lock''] [''s''] = Inr [''s'', ''d'']"
    and paths: "map (item_path [''s'', ''d'']) [?a, ?b] = [Inr [''s'', ''d'', ''a''], Inr [''s'', ''d'', ''b'']]"
    by code_simp+
  have "\<exists>p c h. item_path [''s'', ''d''] ?a = Inr p \<and> read_text fs' p = Inr c \<and> jat ?a ''sha256'' = Inr (JStr h) \<and>
    upper (env_sha wit_build c) = upper h"
    using fetched_files_pinned [OF f spec dir, of "[?a, ?b]" ?a] paths by simp
  moreover have "item_path [''s'', ''d''] ?a = Inr [''s'', ''d'', ''a'']" using paths by simp
  ultimately show ?thesis using f by auto
qed

end
