(* ===== verification/CpuModels.thy ===== *)
theory CpuModels
  imports Resnet50
begin

text \<open>
  The preparation of the CPU models (tools/onnx/prepare_cpu_models.py): conversion of the Caffe networks, their
  comparison with the converted models, the quantised variants with their calibration inputs, the checks each
  model has to pass, and the manifest. ONNX, ONNX Runtime, OpenCV and NumPy's tensor files are the parameters of
  \<open>cpu_env\<close>; an operation that can fail is an option. Floats are exact rationals; the square root is a
  parameter, and an initializer's value that is not finite is \<open>None\<close>. Facts: a prepared model has passed
  every gate, the pinned calibration inputs are read once each, and adjusted pixels stay pixels.
\<close>

subsection \<open>Models and arrays\<close>

datatype dim =
    DimValue int
  | DimParam string
  | DimUnset

record value_info =
  vi_name :: string
  vi_dims :: "dim list"
  vi_rest :: string

record onnx_model =
  om_ir_version :: int
  om_opsets :: "(string \<times> int) list"
  om_name :: string
  om_nodes :: "(string \<times> string list) list"
  om_initializers :: "(string \<times> string) list"
  om_inputs :: "value_info list"
  om_outputs :: "value_info list"
  om_values :: "value_info list"
  om_rest :: string

record narray =
  na_shape :: "nat list"
  na_dtype :: string
  na_values :: "rat list"

record cpu_env = env +
  ce_run :: "string list \<Rightarrow> fs \<Rightarrow> (int \<times> fs) option"
  ce_load :: "string \<Rightarrow> onnx_model option"
  ce_save :: "onnx_model \<Rightarrow> string"
  ce_serialize :: "onnx_model \<Rightarrow> string"
  ce_check :: "onnx_model \<Rightarrow> bool"
  ce_scale :: "string \<Rightarrow> rat option list"
  ce_tensor :: "narray \<Rightarrow> string"
  ce_bytes :: "narray \<Rightarrow> string"
  ce_inputs :: "string \<Rightarrow> string list"
  ce_infer :: "string \<Rightarrow> string \<Rightarrow> narray \<Rightarrow> narray option"
  ce_optimised :: "string \<Rightarrow> string option"
  ce_infer_optimised :: "string \<Rightarrow> string \<Rightarrow> narray \<Rightarrow> narray option"
  ce_caffe :: "string \<Rightarrow> string \<Rightarrow> narray \<Rightarrow> narray option"
  ce_preprocess :: "string \<Rightarrow> string option"
  ce_quantize :: "string \<Rightarrow> (string \<times> narray) list \<Rightarrow> string option"
  ce_gray :: "string \<Rightarrow> narray option"
  ce_color :: "string \<Rightarrow> narray option"
  ce_flip :: "narray \<Rightarrow> narray"
  ce_blob :: "narray \<Rightarrow> narray"
  ce_sqrt :: "rat \<Rightarrow> rat"
  ce_argsort :: "rat list \<Rightarrow> nat list"
  ce_versions :: "(string \<times> json) list"

abbreviation base_env :: "cpu_env \<Rightarrow> env" where
  "base_env e \<equiv> env.truncate e"

subsection \<open>The calibration reader\<close>

record reader =
  rd_name :: string
  rd_values :: "narray list"
  rd_index :: nat

definition pinned_reader :: "string \<Rightarrow> narray list \<Rightarrow> reader" where
  "pinned_reader name values = \<lparr>rd_name = name, rd_values = values, rd_index = 0\<rparr>"

definition get_next :: "reader \<Rightarrow> (string \<times> narray) option \<times> reader" where
  "get_next r = (if length (rd_values r) \<le> rd_index r then (None, r)
     else (Some (rd_name r, rd_values r ! rd_index r), r\<lparr>rd_index := rd_index r + 1\<rparr>))"

definition rewind :: "reader \<Rightarrow> reader" where
  "rewind r = r\<lparr>rd_index := 0\<rparr>"

text \<open>The quantiser reads until there is nothing more.\<close>

function drain :: "reader \<Rightarrow> (string \<times> narray) list" where
  "drain r = (case get_next r of (None, r') \<Rightarrow> [] | (Some x, r') \<Rightarrow> x # drain r')"
  by pat_completeness auto
termination
  by (relation "measure (\<lambda>r. length (rd_values r) - rd_index r)") (auto simp: get_next_def split: if_splits)

declare drain.simps [simp del]

subsection \<open>Files\<close>

definition with_suffix :: "path \<Rightarrow> string \<Rightarrow> path" where
  "with_suffix p s = butlast p @ [path_stem (path_name p) @ s]"

definition hex_digest :: "cpu_env \<Rightarrow> fs \<Rightarrow> path \<Rightarrow> string res" where
  "hex_digest e fs p = bindE (read_text fs p) (\<lambda>c. Inr (env_sha e c))"

definition verify_file :: "cpu_env \<Rightarrow> fs \<Rightarrow> path \<Rightarrow> json \<Rightarrow> unit res" where
  "verify_file e fs p expected =
     bindE (guardE (is_file fs p) (FileNotFoundError (path_str p))) (\<lambda>_. bindE (hex_digest e fs p) (\<lambda>actual.
     bindE (jlower expected) (\<lambda>x. guardE (lower actual = lower x) (ValueError (''sha256 mismatch for '' @ path_str p)))))"

definition load_model :: "cpu_env \<Rightarrow> fs \<Rightarrow> path \<Rightarrow> onnx_model res" where
  "load_model e fs p = bindE (read_text fs p) (\<lambda>c. noneE (ValueError ''not a model'') (ce_load e c))"

text \<open>The converter of the image; inputs that initialise a tensor are removed from its model.\<close>

definition run_converter :: "cpu_env \<Rightarrow> path \<Rightarrow> path \<Rightarrow> path \<Rightarrow> fs \<Rightarrow> fs res" where
  "run_converter e prototxt weights destination fs =
     (let raw = with_suffix destination ''.raw.onnx'' in
      bindE (noneE OSError (ce_run e [''python'', ''-m'', ''caffe2onnx.convert'', ''--prototxt'', path_str prototxt, ''--caffemodel'', path_str weights,
        ''--onnx'', path_str raw] fs)) (\<lambda>(status, fs1).
      bindE (guardE (status = 0) (RuntimeError ''CalledProcessError'')) (\<lambda>_. bindE (load_model e fs1 raw) (\<lambda>model.
      let retained = List.filter (\<lambda>i. vi_name i \<notin> set (map fst (om_initializers model))) (om_inputs model);
          removed = length (om_inputs model) - length retained;
          model' = model\<lparr>om_inputs := retained, om_name := path_name (butlast (butlast destination))\<rparr> in
      bindE (guardE (ce_check e model') (ValueError ''invalid model'')) (\<lambda>_.
      let fs2 = remove_file raw (write_file destination (ce_save e model') fs1) in
      bindE (guardE (0 < removed) (ValueError (path_str destination @ '': converter produced no legacy initializer inputs''))) (\<lambda>_. Inr fs2))))))"

definition dim_json :: "dim \<Rightarrow> json" where
  "dim_json d = (case d of DimValue n \<Rightarrow> JInt n | DimParam s \<Rightarrow> JStr s | DimUnset \<Rightarrow> JNull)"

definition tensor_shape :: "value_info \<Rightarrow> json" where
  "tensor_shape v = JList (map dim_json (vi_dims v))"

definition test_file_record :: "cpu_env \<Rightarrow> fs \<Rightarrow> path \<Rightarrow> json res" where
  "test_file_record e fs p = bindE (hex_digest e fs p) (\<lambda>h. bindE (file_size fs p) (\<lambda>n.
     Inr (JDict [(''path'', JStr (path_name p)), (''sha256'', JStr h), (''size_bytes'', JInt (int n))])))"

definition save_test_data :: "cpu_env \<Rightarrow> path \<Rightarrow> narray \<Rightarrow> narray \<Rightarrow> fs \<Rightarrow> (json \<times> fs) res" where
  "save_test_data e directory value output fs =
     (let data = directory @ [''test_data_set_0'']; input_path = data @ [''input_0.pb'']; output_path = data @ [''output_0.pb''];
          fs' = write_file output_path (ce_tensor e output) (write_file input_path (ce_tensor e value) fs) in
      bindE (test_file_record e fs' input_path) (\<lambda>i. bindE (test_file_record e fs' output_path) (\<lambda>o'.
      Inr (JDict [(''path'', JStr (path_name data)), (''input'', i), (''output'', o')], fs'))))"

subsection \<open>Comparison of outputs\<close>

record output_comparison =
  oc_elements :: nat
  oc_max :: rat
  oc_mean :: rat
  oc_rmse :: rat
  oc_cosine :: rat
  oc_reference_top :: "nat list"
  oc_candidate_top :: "nat list"

definition oc_top1 :: "output_comparison \<Rightarrow> bool" where
  "oc_top1 c = (take 1 (oc_reference_top c) = take 1 (oc_candidate_top c))"

definition oc_top5 :: "output_comparison \<Rightarrow> bool" where
  "oc_top5 c = (oc_reference_top c = oc_candidate_top c)"

definition oc_overlap :: "output_comparison \<Rightarrow> nat" where
  "oc_overlap c = length (remdups (List.filter (\<lambda>i. i \<in> set (oc_candidate_top c)) (oc_reference_top c)))"

text \<open>Subtraction pairs the elements; an array of one element goes with every element of the other. The mean of
  no elements is not a number, and is refused here.\<close>

definition broadcast :: "rat list \<Rightarrow> rat list \<Rightarrow> (rat \<times> rat) list res" where
  "broadcast xs ys = (if length xs = length ys then Inr (zip xs ys)
     else if length xs = 1 then Inr (map (\<lambda>y. (hd xs, y)) ys)
     else if length ys = 1 then Inr (map (\<lambda>x. (x, hd ys)) xs) else Inl (ValueError ''operands could not be broadcast together''))"

definition norm_of :: "cpu_env \<Rightarrow> rat list \<Rightarrow> rat" where
  "norm_of e xs = ce_sqrt e (sum_list (map (\<lambda>x. x * x) xs))"

definition top_indices :: "cpu_env \<Rightarrow> nat \<Rightarrow> rat list \<Rightarrow> nat list" where
  "top_indices e n xs = rev (last_n n (ce_argsort e xs))"

definition comparison_of :: "cpu_env \<Rightarrow> narray \<Rightarrow> narray \<Rightarrow> output_comparison res" where
  "comparison_of e reference candidate =
     (let r = na_values reference; c = na_values candidate; denominator = norm_of e r * norm_of e c; count = min 5 (length r) in
      bindE (broadcast r c) (\<lambda>ps. bindE (guardE (ps \<noteq> []) (ValueError ''mean of empty slice'')) (\<lambda>_.
      bindE (if denominator = 0 then Inr 1
             else bindE (guardE (length r = length c) (ValueError ''shapes not aligned'')) (\<lambda>_. Inr (sum_list (map (\<lambda>(x, y). x * y) ps) / denominator))) (\<lambda>cosine.
      let absolute = map (\<lambda>(x, y). \<bar>x - y\<bar>) ps; n = rat_of_nat (length ps) in
      Inr \<lparr>oc_elements = length r, oc_max = Max (set (0 # absolute)), oc_mean = sum_list absolute / n,
        oc_rmse = ce_sqrt e (sum_list (map (\<lambda>(x, y). (x - y) * (x - y)) ps) / n), oc_cosine = cosine,
        oc_reference_top = top_indices e count r, oc_candidate_top = top_indices e count c\<rparr>))))"

definition comparison_document :: "output_comparison \<Rightarrow> json" where
  "comparison_document c = JDict [(''elements'', JInt (int (oc_elements c))), (''max_abs_error'', JFloat (oc_max c)),
     (''mean_abs_error'', JFloat (oc_mean c)), (''rmse'', JFloat (oc_rmse c)), (''cosine_similarity'', JFloat (oc_cosine c)),
     (''reference_top5'', JList (map (\<lambda>i. JInt (int i)) (oc_reference_top c))),
     (''candidate_top5'', JList (map (\<lambda>i. JInt (int i)) (oc_candidate_top c))),
     (''top1_identical'', JBool (oc_top1 c)), (''top5_identical'', JBool (oc_top5 c)), (''top5_overlap'', JInt (int (oc_overlap c)))]"

definition fp32_accepted :: "output_comparison \<Rightarrow> bool" where
  "fp32_accepted c = (oc_top5 c \<and> \<not> 1 / 10000 < oc_max c \<and> \<not> oc_cosine c < 999999 / 1000000)"

definition int8_accepted :: "output_comparison \<Rightarrow> bool" where
  "int8_accepted c = (oc_top1 c \<and> \<not> oc_overlap c < 4 \<and> \<not> oc_cosine c < 98 / 100)"

subsection \<open>Models\<close>

definition counts_json :: "string list \<Rightarrow> json" where
  "counts_json ops = JDict (map (\<lambda>o'. (o', JInt (int (count_list ops o')))) (sort (remdups ops)))"

definition infos_json :: "value_info list \<Rightarrow> json" where
  "infos_json vs = JList (map (\<lambda>v. JDict [(''name'', JStr (vi_name v)), (''shape'', tensor_shape v)]) vs)"

definition inspect_model :: "cpu_env \<Rightarrow> fs \<Rightarrow> path \<Rightarrow> (string \<times> json) list res" where
  "inspect_model e fs p = bindE (load_model e fs p) (\<lambda>model. bindE (guardE (ce_check e model) (ValueError ''invalid model'')) (\<lambda>_.
     bindE (hex_digest e fs p) (\<lambda>h. bindE (file_size fs p) (\<lambda>n.
     Inr [(''path'', JStr (path_name p)), (''sha256'', JStr h), (''size_bytes'', JInt (int n)), (''ir_version'', JInt (om_ir_version model)),
       (''opsets'', JList (map (\<lambda>(d, v). JDict [(''domain'', JStr d), (''version'', JInt v)]) (om_opsets model))),
       (''node_count'', JInt (int (length (om_nodes model)))), (''operator_counts'', counts_json (map fst (om_nodes model))),
       (''initializer_count'', JInt (int (length (om_initializers model)))), (''inputs'', infos_json (om_inputs model)),
       (''outputs'', infos_json (om_outputs model))]))))"

definition canonicalize_quantized_model :: "cpu_env \<Rightarrow> path \<Rightarrow> fs \<Rightarrow> fs res" where
  "canonicalize_quantized_model e p fs = bindE (load_model e fs p) (\<lambda>model.
     Inr (write_file p (ce_serialize e (model\<lparr>om_values := sort_key vi_name (om_values model)\<rparr>)) fs))"

definition scale_names :: "onnx_model \<Rightarrow> string list" where
  "scale_names model = sort (remdups (concat (map (\<lambda>(op, ins).
     if op \<in> set [''QuantizeLinear'', ''DequantizeLinear''] \<and> 1 < length ins then [ins ! 1] else []) (om_nodes model))))"

definition positive_scale :: "rat option \<Rightarrow> bool" where
  "positive_scale v = (case v of None \<Rightarrow> False | Some r \<Rightarrow> 0 < r)"

definition initializer_of :: "onnx_model \<Rightarrow> string \<Rightarrow> string option" where
  "initializer_of model name = map_of (rev (om_initializers model)) name"

definition scale_values :: "cpu_env \<Rightarrow> onnx_model \<Rightarrow> string \<Rightarrow> rat option list" where
  "scale_values e model name = (case initializer_of model name of None \<Rightarrow> [] | Some t \<Rightarrow> ce_scale e t)"

definition validate_quantization_scales :: "cpu_env \<Rightarrow> fs \<Rightarrow> path \<Rightarrow> json res" where
  "validate_quantization_scales e fs p = bindE (load_model e fs p) (\<lambda>model. let names = scale_names model in
     bindE (guardE (list_all (\<lambda>n. initializer_of model n \<noteq> None) names) (ValueError (path_str p @ '': missing Q/DQ scale initializers''))) (\<lambda>_.
     bindE (guardE (list_all (\<lambda>n. list_all positive_scale (scale_values e model n)) names) (ValueError (path_str p @ '': invalid Q/DQ scales''))) (\<lambda>_.
     let flattened = map the (concat (map (scale_values e model) names)) in
     Inr (JDict [(''initializer_count'', JInt (int (length names))), (''element_count'', JInt (int (length flattened))), (''all_finite_positive'', JBool True),
       (''minimum'', if flattened = [] then JNull else JFloat (Min (set flattened))), (''maximum'', if flattened = [] then JNull else JFloat (Max (set flattened)))]))))"

definition session_output :: "cpu_env \<Rightarrow> fs \<Rightarrow> path \<Rightarrow> string \<Rightarrow> narray \<Rightarrow> narray res" where
  "session_output e fs p input_name value = bindE (read_text fs p) (\<lambda>c.
     bindE (guardE (ce_inputs e c = [input_name]) (ValueError (''unexpected inputs for '' @ path_str p))) (\<lambda>_.
     noneE (RuntimeError ''inference'') (ce_infer e c input_name value)))"

definition all_close :: "rat list \<Rightarrow> rat list \<Rightarrow> bool" where
  "all_close xs ys = list_all2 (\<lambda>x y. \<bar>x - y\<bar> \<le> 1 / 100000 + 1 / 100000 * \<bar>y\<bar>) xs ys"

definition build_ort_variant :: "cpu_env \<Rightarrow> path \<Rightarrow> string \<Rightarrow> narray \<Rightarrow> narray \<Rightarrow> fs \<Rightarrow> (json \<times> fs) res" where
  "build_ort_variant e p input_name value expected fs =
     (let destination = with_suffix p ''.ort'' in
      bindE (read_text fs p) (\<lambda>c. bindE (noneE (RuntimeError ''session'') (ce_optimised e c)) (\<lambda>optimised.
      let fs1 = write_file destination optimised fs in
      bindE (noneE (RuntimeError ''inference'') (ce_infer_optimised e c input_name value)) (\<lambda>actual.
      bindE (guardE (na_shape actual = na_shape expected \<and> all_close (na_values actual) (na_values expected))
        (ValueError (path_str destination @ '': optimized model output mismatch''))) (\<lambda>_.
      bindE (hex_digest e fs1 destination) (\<lambda>h. bindE (file_size fs1 destination) (\<lambda>n. bindE (hex_digest e fs1 p) (\<lambda>source.
      Inr (JDict [(''path'', JStr (path_name destination)), (''sha256'', JStr h), (''size_bytes'', JInt (int n)), (''format'', JStr ''ORT''),
        (''source_onnx_sha256'', JStr source), (''optimization_style'', JStr ''Fixed''), (''optimization_level'', JStr ''all''),
        (''target_platform'', JStr ''arm''), (''validation'', JDict [(''rtol'', JFloat (1 / 100000)), (''atol'', JFloat (1 / 100000))])], fs1)))))))))"

subsection \<open>One model\<close>

record model_spec =
  ms_name :: string
  ms_prototxt :: path
  ms_weights :: path
  ms_image :: path
  ms_value :: narray
  ms_calibration :: "narray list"
  ms_out :: path
  ms_fp32_hash :: json
  ms_int8_hash :: json

definition fp32_model :: "model_spec \<Rightarrow> path" where
  "fp32_model s = ms_out s @ [ms_name s, ''fp32'', ''model.onnx'']"

definition int8_model :: "model_spec \<Rightarrow> path" where
  "int8_model s = ms_out s @ [ms_name s, ''int8'', ''model.onnx'']"

definition preprocessed_model :: "model_spec \<Rightarrow> path" where
  "preprocessed_model s = ms_out s @ [ms_name s, ''int8'', ''model.preprocessed.onnx'']"

definition verify_expected :: "cpu_env \<Rightarrow> fs \<Rightarrow> path \<Rightarrow> json \<Rightarrow> unit res" where
  "verify_expected e fs p expected = (if truthy expected then verify_file e fs p expected else Inr ())"

definition caffe_output :: "cpu_env \<Rightarrow> model_spec \<Rightarrow> fs \<Rightarrow> narray res" where
  "caffe_output e s fs = bindE (read_text fs (ms_prototxt s)) (\<lambda>p. bindE (read_text fs (ms_weights s)) (\<lambda>w.
     noneE (RuntimeError ''cv2.error'') (ce_caffe e p w (ms_value s))))"

record fp32_part =
  fp_input :: string
  fp_output :: narray
  fp_comparison :: output_comparison
  fp_test_data :: json
  fp_ort :: json

definition build_fp32 :: "cpu_env \<Rightarrow> model_spec \<Rightarrow> fs \<Rightarrow> (fp32_part \<times> fs) res" where
  "build_fp32 e s fs = (let p = fp32_model s in
     bindE (run_converter e (ms_prototxt s) (ms_weights s) p fs) (\<lambda>fs1.
     bindE (verify_expected e fs1 p (ms_fp32_hash s)) (\<lambda>_.
     bindE (load_model e fs1 p) (\<lambda>model.
     bindE (case om_inputs model of [] \<Rightarrow> Inl IndexError | v # _ \<Rightarrow> Inr (vi_name v)) (\<lambda>input_name.
     bindE (caffe_output e s fs1) (\<lambda>caffe.
     bindE (session_output e fs1 p input_name (ms_value s)) (\<lambda>output.
     bindE (comparison_of e caffe output) (\<lambda>c.
     bindE (guardE (fp32_accepted c) (ValueError (ms_name s @ '': converted FP32 model did not match Caffe''))) (\<lambda>_.
     bindE (save_test_data e (butlast p) (ms_value s) output fs1) (\<lambda>(test_data, fs2).
     bindE (build_ort_variant e p input_name (ms_value s) output fs2) (\<lambda>(ort, fs3).
     Inr (\<lparr>fp_input = input_name, fp_output = output, fp_comparison = c, fp_test_data = test_data, fp_ort = ort\<rparr>, fs3))))))))))))"

record int8_part =
  ip_comparison :: output_comparison
  ip_scales :: json
  ip_test_data :: json

text \<open>The quantised model: made from the preprocessed one, put in canonical form, checked, compared.\<close>

definition quantize_model :: "cpu_env \<Rightarrow> model_spec \<Rightarrow> string \<Rightarrow> fs \<Rightarrow> fs res" where
  "quantize_model e s input_name fs =
     bindE (read_text fs (fp32_model s)) (\<lambda>c. bindE (noneE (RuntimeError ''preprocess'') (ce_preprocess e c)) (\<lambda>pre.
     let fs1 = write_file (preprocessed_model s) pre fs in
     bindE (noneE (RuntimeError ''quantize'') (ce_quantize e pre (drain (pinned_reader input_name (ms_calibration s))))) (\<lambda>q.
     canonicalize_quantized_model e (int8_model s) (remove_file (preprocessed_model s) (write_file (int8_model s) q fs1)))))"

definition build_int8 :: "cpu_env \<Rightarrow> model_spec \<Rightarrow> fp32_part \<Rightarrow> fs \<Rightarrow> (int8_part \<times> fs) res" where
  "build_int8 e s f fs = (let p = int8_model s in
     bindE (quantize_model e s (fp_input f) fs) (\<lambda>fs1.
     bindE (verify_expected e fs1 p (ms_int8_hash s)) (\<lambda>_.
     bindE (validate_quantization_scales e fs1 p) (\<lambda>scales.
     bindE (session_output e fs1 p (fp_input f) (ms_value s)) (\<lambda>output.
     bindE (comparison_of e (fp_output f) output) (\<lambda>c.
     let fs2 = write_json (base_env e) (butlast p @ [''comparison.json'']) (comparison_document c) fs1 in
     bindE (guardE (int8_accepted c) (ValueError (ms_name s @ '': INT8 performance model failed the pinned-input check''))) (\<lambda>_.
     bindE (save_test_data e (butlast p) (ms_value s) output fs2) (\<lambda>(test_data, fs3).
     Inr (\<lparr>ip_comparison = c, ip_scales = scales, ip_test_data = test_data\<rparr>, fs3)))))))))"

definition source_digest :: "cpu_env \<Rightarrow> fs \<Rightarrow> path \<Rightarrow> json res" where
  "source_digest e fs p = bindE (hex_digest e fs p) (\<lambda>h. Inr (JDict [(''path'', JStr (path_name p)), (''sha256'', JStr h)]))"

definition quantization_json :: "json \<Rightarrow> nat \<Rightarrow> json" where
  "quantization_json scales samples = JDict [(''format'', JStr ''QDQ''), (''activation_type'', JStr ''QInt8''), (''weight_type'', JStr ''QInt8''),
     (''per_channel'', JBool True), (''operators'', JList (map JStr [''Conv'', ''Gemm'', ''MatMul'', ''Softmax''])), (''calibration_method'', JStr ''MinMax''),
     (''minimum_real_range'', JFloat (1 / 10000000)), (''preprocessing'', JStr ''ORT graph optimization and ONNX shape inference''),
     (''canonicalization'', JStr ''graph.value_info sorted by tensor name; deterministic protobuf serialization''), (''scale_validation'', scales),
     (''calibration_samples'', JInt (int samples)),
     (''calibration_scope'', JStr ''deterministic augmentations of the pinned workload image; performance-only with no dataset accuracy claim'')]"

definition model_document :: "cpu_env \<Rightarrow> model_spec \<Rightarrow> fp32_part \<Rightarrow> int8_part \<Rightarrow> fs \<Rightarrow> json res" where
  "model_document e s f i fs =
     bindE (source_digest e fs (ms_prototxt s)) (\<lambda>prototxt. bindE (source_digest e fs (ms_weights s)) (\<lambda>weights.
     bindE (source_digest e fs (ms_image s)) (\<lambda>img. bindE (inspect_model e fs (fp32_model s)) (\<lambda>m32. bindE (inspect_model e fs (int8_model s)) (\<lambda>m8.
     Inr (JDict [(''schema_version'', JInt 1), (''name'', JStr (ms_name s)),
       (''source'', JDict [(''prototxt'', prototxt), (''weights'', weights), (''image'', img)]),
       (''input'', JDict [(''name'', JStr (fp_input f)), (''shape'', JList (map (\<lambda>n. JInt (int n)) (na_shape (ms_value s)))),
          (''dtype'', JStr (na_dtype (ms_value s))), (''sha256'', JStr (env_sha e (ce_bytes e (ms_value s))))]),
       (''models'', JDict [
          (''fp32'', JDict (m32 @ [(''ort'', fp_ort f), (''caffe_comparison'', comparison_document (fp_comparison f)), (''test_data'', fp_test_data f)])),
          (''int8'', JDict (m8 @ [(''fp32_comparison'', comparison_document (ip_comparison i)), (''test_data'', ip_test_data i),
             (''quantization'', quantization_json (ip_scales i) (length (ms_calibration s)))]))]),
       (''acceptance'', JDict [(''fp32'', JStr ''Caffe top-5 identical, max absolute error <= 1e-4, cosine >= 0.999999''),
          (''int8'', JStr ''pinned-input top-1 identical, top-5 overlap >= 4, and cosine >= 0.98'')])]))))))"

definition build_model :: "cpu_env \<Rightarrow> model_spec \<Rightarrow> fs \<Rightarrow> (json \<times> fs) res" where
  "build_model e s fs = bindE (build_fp32 e s fs) (\<lambda>(f, fs1). bindE (build_int8 e s f fs1) (\<lambda>(i, fs2).
     bindE (model_document e s f i fs2) (\<lambda>d. Inr (d, fs2))))"

subsection \<open>The calibration inputs\<close>

definition clip_value :: "rat \<Rightarrow> rat \<Rightarrow> rat \<Rightarrow> rat" where
  "clip_value lo hi x = min hi (max lo x)"

text \<open>A pixel scaled and shifted, cut to the range of a byte and truncated.\<close>

definition adjust_pixel :: "rat \<Rightarrow> rat \<Rightarrow> rat \<Rightarrow> rat" where
  "adjust_pixel scale bias v = of_int \<lfloor>clip_value 0 255 (v * scale + bias)\<rfloor>"

definition adjust_pixels :: "rat \<Rightarrow> rat \<Rightarrow> narray \<Rightarrow> narray" where
  "adjust_pixels scale bias a = a\<lparr>na_values := map (adjust_pixel scale bias) (na_values a)\<rparr>"

definition calibration_settings :: "(bool \<times> rat \<times> rat) list" where
  "calibration_settings = concat (map (\<lambda>flipped. concat (map (\<lambda>scale. map (\<lambda>bias. (flipped, scale, bias)) [- 16, 0, 16])
     [3 / 4, 1, 5 / 4])) [False, True])"

definition resnet_calibration :: "cpu_env \<Rightarrow> narray \<Rightarrow> narray list" where
  "resnet_calibration e pixels = map (\<lambda>(flipped, scale, bias). ce_blob e (adjust_pixels scale bias (if flipped then ce_flip e pixels else pixels)))
     calibration_settings"

definition lenet_input :: "narray \<Rightarrow> narray res" where
  "lenet_input pixels = bindE (guardE (length (na_values pixels) = 28 * 28) (ValueError ''cannot reshape array'')) (\<lambda>_.
     Inr \<lparr>na_shape = [1, 1, 28, 28], na_dtype = ''float32'', na_values = na_values pixels\<rparr>)"

subsection \<open>The command\<close>

record cpu_args =
  ca_lock :: path
  ca_lenet_source :: path
  ca_resnet_source :: path
  ca_resnet_workload :: path
  ca_out :: path

definition verify_sources :: "cpu_env \<Rightarrow> fs \<Rightarrow> json \<Rightarrow> path \<Rightarrow> unit res" where
  "verify_sources e fs spec src_root = bindE (bindE (jat spec ''files'') jlist) (\<lambda>items.
     foldE (\<lambda>item _. bindE (bindE (jat item ''name'') (path_at src_root)) (\<lambda>p. bindE (jat item ''sha256'') (verify_file e fs p))) items ())"

definition prepare_cpu_models :: "cpu_env \<Rightarrow> cpu_args \<Rightarrow> fs \<Rightarrow> (json \<times> fs) res" where
  "prepare_cpu_models e a fs =
     bindE (read_json fs (ca_lock a)) (\<lambda>lock.
     bindE (jpath lock [''workloads'', ''lenet_mnist'']) (\<lambda>lenet_spec. bindE (jpath lock [''workloads'', ''resnet50_imagenet'']) (\<lambda>resnet_spec.
     bindE (verify_sources e fs lenet_spec (ca_lenet_source a)) (\<lambda>_. bindE (verify_sources e fs resnet_spec (ca_resnet_source a)) (\<lambda>_.
     let resnet_image = ca_resnet_workload a @ [''cat.center-crop-224.jpg'']; lenet_image = ca_lenet_source a @ [''seven.pgm''] in
     bindE (bindE (jpath resnet_spec [''preprocess'', ''expected_output_sha256'']) (verify_file e fs resnet_image)) (\<lambda>_.
     bindE (noneE (ValueError ''OpenCV could not decode the LeNet input'') (case read_text fs lenet_image of Inl _ \<Rightarrow> None | Inr c \<Rightarrow> ce_gray e c)) (\<lambda>lenet_pixels.
     bindE (lenet_input lenet_pixels) (\<lambda>lenet_value.
     bindE (noneE (ValueError ''OpenCV could not decode the ResNet-50 input'') (case read_text fs resnet_image of Inl _ \<Rightarrow> None | Inr c \<Rightarrow> ce_color e c)) (\<lambda>resnet_pixels.
     bindE (jat lock ''cpu_benchmark'') (\<lambda>bench.
     bindE (jget_or bench (JDict []) ''expected_fp32_model_sha256'') (\<lambda>expected. bindE (jget_or bench (JDict []) ''expected_int8_model_sha256'') (\<lambda>expected_int8.
     bindE (jget expected ''lenet'') (\<lambda>l32. bindE (jget expected_int8 ''lenet'') (\<lambda>l8.
     bindE (build_model e \<lparr>ms_name = ''lenet'', ms_prototxt = ca_lenet_source a @ [''lenet_mnist.prototxt''],
        ms_weights = ca_lenet_source a @ [''lenet_mnist.caffemodel''], ms_image = lenet_image, ms_value = lenet_value, ms_calibration = [lenet_value],
        ms_out = ca_out a, ms_fp32_hash = l32, ms_int8_hash = l8\<rparr> fs) (\<lambda>(lenet, fs1).
     bindE (jget expected ''resnet50'') (\<lambda>r32. bindE (jget expected_int8 ''resnet50'') (\<lambda>r8.
     bindE (build_model e \<lparr>ms_name = ''resnet50'', ms_prototxt = ca_resnet_source a @ [''ResNet-50-deploy.prototxt''],
        ms_weights = ca_resnet_source a @ [''ResNet-50-model.caffemodel''], ms_image = resnet_image, ms_value = ce_blob e resnet_pixels,
        ms_calibration = resnet_calibration e resnet_pixels, ms_out = ca_out a, ms_fp32_hash = r32, ms_int8_hash = r8\<rparr> fs1) (\<lambda>(resnet, fs2).
     bindE (jat bench ''conversion'') (\<lambda>conversion. bindE (jat bench ''runtime'') (\<lambda>runtime. bindE (jat bench ''quantization'') (\<lambda>quantization.
     let manifest = JDict [(''schema_version'', JInt 1), (''status'', JStr ''pass''), (''environment'', JDict (ce_versions e)), (''conversion'', conversion),
           (''runtime'', runtime), (''quantization'', quantization), (''models'', JList [lenet, resnet])] in
     Inr (manifest, write_json (base_env e) (ca_out a @ [''manifest.json'']) manifest fs2))))))))))))))))))))))"

subsection \<open>Facts\<close>

lemma drain_from: "rd_index r \<le> length (rd_values r) \<Longrightarrow> drain r = map (Pair (rd_name r)) (drop (rd_index r) (rd_values r))"
proof (induction r rule: drain.induct)
  case (1 r)
  show ?case
  proof (cases "rd_index r < length (rd_values r)")
    case True
    then have g: "get_next r = (Some (rd_name r, rd_values r ! rd_index r), r\<lparr>rd_index := rd_index r + 1\<rparr>)" by (simp add: get_next_def)
    show ?thesis using "1.IH" [OF g [symmetric] refl] True by (subst drain.simps) (simp add: g Cons_nth_drop_Suc [symmetric])
  next
    case False
    then show ?thesis by (subst drain.simps) (simp add: get_next_def)
  qed
qed

text \<open>Every calibration input is read once, in order, and again after a rewind.\<close>

lemma calibration_read: "drain (pinned_reader name values) = map (Pair name) values"
  and calibration_reread: "drain (rewind r) = map (Pair (rd_name r)) (rd_values r)"
  using drain_from [of "pinned_reader name values"] drain_from [of "rewind r"] by (simp_all add: pinned_reader_def rewind_def)

lemma adjusted_is_byte: "0 \<le> adjust_pixel scale bias v \<and> adjust_pixel scale bias v \<le> 255 \<and> adjust_pixel scale bias v \<in> \<int>"
proof -
  let ?x = "clip_value 0 255 (v * scale + bias)"
  have "0 \<le> ?x" "?x \<le> 255" by (auto simp: clip_value_def)
  then have "0 \<le> \<lfloor>?x\<rfloor>" "\<lfloor>?x\<rfloor> \<le> 255" by linarith+
  then show ?thesis by (simp add: adjust_pixel_def)
qed

lemma calibration_count: "length (resnet_calibration e pixels) = 18"
  by (simp add: resnet_calibration_def calibration_settings_def)

text \<open>The neutral setting leaves a pixel as it is.\<close>

lemma adjust_neutral: "0 \<le> n \<Longrightarrow> n \<le> 255 \<Longrightarrow> adjust_pixel 1 0 (of_int n) = of_int n"
  by (simp add: adjust_pixel_def clip_value_def min_def max_def)

subsubsection \<open>What the steps write\<close>

lemma stem_of_model: "path_stem ''model.onnx'' = ''model''"
  by code_simp

lemma fp32_ort: "with_suffix (fp32_model s) ''.ort'' = ms_out s @ [ms_name s, ''fp32'', ''model.ort'']"
  by (simp add: with_suffix_def fp32_model_def path_name_def stem_of_model butlast_append)

lemma save_test_data_writes:
  "save_test_data e d v w fs = Inr (j, fs') \<Longrightarrow> q \<notin> {d @ [''test_data_set_0'', ''input_0.pb''], d @ [''test_data_set_0'', ''output_0.pb'']} \<Longrightarrow>
     read_text fs' q = read_text fs q"
  by (auto simp: save_test_data_def Let_def bindE_Inr_iff)

lemma ort_writes: "build_ort_variant e p n v x fs = Inr (j, fs') \<Longrightarrow> q \<noteq> with_suffix p ''.ort'' \<Longrightarrow> read_text fs' q = read_text fs q"
  by (auto simp: build_ort_variant_def Let_def bindE_Inr_iff)

lemma verify_file_iff: "verify_file e fs p x = Inr u \<longleftrightarrow> (\<exists>c s. read_text fs p = Inr c \<and> x = JStr s \<and> lower (env_sha e c) = lower s)"
  by (auto simp: verify_file_def bindE_Inr_iff guardE_Inr_iff hex_digest_def jlower_def is_file_read split: json.splits)

definition has_hash :: "cpu_env \<Rightarrow> fs \<Rightarrow> path \<Rightarrow> json \<Rightarrow> bool" where
  "has_hash e fs p expected = (truthy expected \<longrightarrow> (\<exists>c s. read_text fs p = Inr c \<and> expected = JStr s \<and> lower (env_sha e c) = lower s))"

lemma verify_expected_iff: "verify_expected e fs p x = Inr u \<longleftrightarrow> has_hash e fs p x"
  by (simp add: verify_expected_def has_hash_def verify_file_iff)

lemma fp32_gates:
  assumes "build_fp32 e s fs = Inr (f, fs')"
  shows "fp32_accepted (fp_comparison f)" and "has_hash e fs' (fp32_model s) (ms_fp32_hash s)"
proof -
  let ?p = "fp32_model s"
  from assms obtain fs1 fs2 td where acc: "fp32_accepted (fp_comparison f)" and v: "has_hash e fs1 ?p (ms_fp32_hash s)"
    and td: "save_test_data e (butlast ?p) (ms_value s) (fp_output f) fs1 = Inr (td, fs2)"
    and ort: "build_ort_variant e ?p (fp_input f) (ms_value s) (fp_output f) fs2 = Inr (fp_ort f, fs')"
    unfolding build_fp32_def Let_def by (auto simp: bindE_Inr_iff guardE_Inr_iff verify_expected_iff)
  have "read_text fs' ?p = read_text fs2 ?p" by (rule ort_writes [OF ort]) (unfold fp32_ort, simp add: fp32_model_def)
  also have "\<dots> = read_text fs1 ?p" by (rule save_test_data_writes [OF td]) (simp add: fp32_model_def butlast_append)
  finally show "has_hash e fs' ?p (ms_fp32_hash s)" using v by (simp add: has_hash_def)
  show "fp32_accepted (fp_comparison f)" by (rule acc)
qed

definition scales_valid :: "cpu_env \<Rightarrow> fs \<Rightarrow> path \<Rightarrow> bool" where
  "scales_valid e fs p = (case load_model e fs p of Inl _ \<Rightarrow> False
     | Inr model \<Rightarrow> list_all (\<lambda>n. initializer_of model n \<noteq> None \<and> list_all positive_scale (scale_values e model n)) (scale_names model))"

lemma validate_scales: "validate_quantization_scales e fs p = Inr j \<Longrightarrow> scales_valid e fs p"
  by (auto simp: validate_quantization_scales_def scales_valid_def Let_def bindE_Inr_iff guardE_Inr_iff list_all_iff)

lemma quantize_writes:
  assumes "quantize_model e s n fs = Inr fs'" and "q \<noteq> int8_model s" and "q \<noteq> preprocessed_model s"
  shows "read_text fs' q = read_text fs q"
  using assms by (auto simp: quantize_model_def canonicalize_quantized_model_def Let_def bindE_Inr_iff)

lemma int8_gates:
  assumes "build_int8 e s f fs = Inr (i, fs')"
  shows "int8_accepted (ip_comparison i)" and "has_hash e fs' (int8_model s) (ms_int8_hash s)" and "scales_valid e fs' (int8_model s)"
    and "read_text fs' (fp32_model s) = read_text fs (fp32_model s)"
proof -
  let ?p = "int8_model s" and ?c = "butlast (int8_model s) @ [''comparison.json'']"
  from assms obtain fs1 fs2 td out j where q: "quantize_model e s (fp_input f) fs = Inr fs1" and v: "has_hash e fs1 ?p (ms_int8_hash s)"
    and sc: "validate_quantization_scales e fs1 ?p = Inr j" and acc: "int8_accepted (ip_comparison i)"
    and td: "save_test_data e (butlast ?p) (ms_value s) out (write_json (base_env e) ?c (comparison_document (ip_comparison i)) fs1) = Inr (td, fs')"
    unfolding build_int8_def Let_def by (auto simp: bindE_Inr_iff guardE_Inr_iff verify_expected_iff)
  have keep: "read_text fs' r = read_text fs1 r" if "r \<in> {?p, fp32_model s}" for r
    using that save_test_data_writes [OF td, of r] by (auto simp: int8_model_def fp32_model_def butlast_append write_json_def)
  show "int8_accepted (ip_comparison i)" by (rule acc)
  show "has_hash e fs' ?p (ms_int8_hash s)" using v keep by (simp add: has_hash_def)
  show "scales_valid e fs' ?p" using validate_scales [OF sc] keep by (simp add: scales_valid_def load_model_def)
  show "read_text fs' (fp32_model s) = read_text fs (fp32_model s)"
    using keep quantize_writes [OF q] by (simp add: int8_model_def fp32_model_def preprocessed_model_def)
qed


end
