(* ===== verification/Csv.thy ===== *)
theory Csv
  imports Builders
begin

text \<open>
  Python's \<open>csv\<close> module with its default dialect, as the performance tools use it
  (tools/nvdla_test_framework/performance.py, cpu_performance.py): the reader is the state machine of
  the module, fed line by line; \<open>DictReader\<close> pairs the records with the header. The writer quotes a
  field that holds a comma, a quote or a line end. The limit on the size of a field is not modelled,
  and the values beyond the header (the key \<open>None\<close>), which nobody reads, are dropped.
\<close>

datatype csv_state = StartRecord | StartField | InField | InQuoted | QuoteInQuoted | EatEol

record csv_parser =
  cs_state :: csv_state
  cs_field :: string
  cs_fields :: "string list"

definition csv_start :: csv_parser where
  "csv_start = \<lparr>cs_state = StartRecord, cs_field = [], cs_fields = []\<rparr>"

definition csv_eol_char :: "char \<Rightarrow> bool" where
  "csv_eol_char c = (c = NL \<or> c = CR)"

definition csv_save :: "csv_state \<Rightarrow> csv_parser \<Rightarrow> csv_parser" where
  "csv_save st p = \<lparr>cs_state = st, cs_field = [], cs_fields = cs_fields p @ [cs_field p]\<rparr>"

definition csv_add :: "char \<Rightarrow> csv_state \<Rightarrow> csv_parser \<Rightarrow> csv_parser" where
  "csv_add c st p = p\<lparr>cs_state := st, cs_field := cs_field p @ [c]\<rparr>"

definition csv_field_char :: "char \<Rightarrow> csv_parser \<Rightarrow> csv_parser" where
  "csv_field_char c p =
     (if csv_eol_char c then csv_save EatEol p
      else if c = DQ then p\<lparr>cs_state := InQuoted\<rparr>
      else if c = CHR '','' then csv_save StartField p
      else csv_add c InField p)"

definition csv_char :: "char \<Rightarrow> csv_parser \<Rightarrow> csv_parser res" where
  "csv_char c p =
     (case cs_state p of
        StartRecord \<Rightarrow> Inr (if csv_eol_char c then p\<lparr>cs_state := EatEol\<rparr> else csv_field_char c p)
      | StartField \<Rightarrow> Inr (csv_field_char c p)
      | InField \<Rightarrow> Inr (if csv_eol_char c then csv_save EatEol p else if c = CHR '','' then csv_save StartField p else csv_add c InField p)
      | InQuoted \<Rightarrow> Inr (if c = DQ then p\<lparr>cs_state := QuoteInQuoted\<rparr> else csv_add c InQuoted p)
      | QuoteInQuoted \<Rightarrow> Inr (if c = DQ then csv_add c InQuoted p
          else if c = CHR '','' then csv_save StartField p
          else if csv_eol_char c then csv_save EatEol p else csv_add c InField p)
      | EatEol \<Rightarrow> (if csv_eol_char c then Inr p else Inl (ValueError ''new-line character seen in unquoted field'')))"

text \<open>The end of a line, which the module feeds after the characters of the line.\<close>

definition csv_eol :: "csv_parser \<Rightarrow> csv_parser" where
  "csv_eol p =
     (case cs_state p of
        StartRecord \<Rightarrow> p
      | InQuoted \<Rightarrow> p
      | EatEol \<Rightarrow> p\<lparr>cs_state := StartRecord\<rparr>
      | _ \<Rightarrow> csv_save StartRecord p)"

definition csv_line :: "string \<Rightarrow> csv_parser \<Rightarrow> csv_parser res" where
  "csv_line line p = bindE (foldE csv_char line p) (\<lambda>p'. Inr (csv_eol p'))"

text \<open>All records of the lines; a quoted field that never ends closes the last one.\<close>

fun csv_records :: "csv_parser \<Rightarrow> string list \<Rightarrow> string list list res" where
  "csv_records p [] = Inr (if cs_field p \<noteq> [] \<or> cs_state p = InQuoted then [cs_fields (csv_save StartRecord p)] else [])"
| "csv_records p (line # ls) = bindE (csv_line line p) (\<lambda>p'.
     if cs_state p' = StartRecord then bindE (csv_records csv_start ls) (\<lambda>rs. Inr (cs_fields p' # rs))
     else csv_records p' ls)"

definition csv_rows :: "string list \<Rightarrow> string list list res" where
  "csv_rows ls = csv_records csv_start ls"

text \<open>\<open>csv.DictReader\<close>: the names of the header and one dictionary per record; a field that is missing
  reads as \<open>None\<close>.\<close>

type_synonym csv_dict = "(string, string option) dict"

definition csv_dict_row :: "string list \<Rightarrow> string list \<Rightarrow> csv_dict" where
  "csv_dict_row names row =
     fold (\<lambda>(k, v). dict_set k v) (zip names (map Some row @ replicate (length names - length row) None)) []"

definition csv_dicts :: "string list \<Rightarrow> (string list option \<times> csv_dict list) res" where
  "csv_dicts ls = bindE (csv_rows ls) (\<lambda>rows.
     Inr (case rows of [] \<Rightarrow> (None, []) | names # rest \<Rightarrow> (Some names, map (csv_dict_row names) (List.filter (\<lambda>r. r \<noteq> []) rest))))"

text \<open>A cell of a row, and a cell read as an integer.\<close>

definition row_cell :: "csv_dict \<Rightarrow> string \<Rightarrow> string option res" where
  "row_cell row k = noneE (KeyError k) (dict_get row k)"

definition cell_number :: "csv_dict \<Rightarrow> string \<Rightarrow> int res" where
  "cell_number row k = bindE (row_cell row k) (\<lambda>v. case v of None \<Rightarrow> Inl TypeError
     | Some t \<Rightarrow> noneE (ValueError ''invalid literal for int()'') (py_int t))"

text \<open>The lines of a file opened without newline translation: they end at a line feed or a carriage return, or both together,
  and keep their ends.\<close>

fun open_lines_aux :: "string \<Rightarrow> string \<Rightarrow> string list" where
  "open_lines_aux acc [] = (if acc = [] then [] else [rev acc])"
| "open_lines_aux acc (c # s) =
     (if c = NL \<or> c = CR \<and> (s = [] \<or> hd s \<noteq> NL) then rev (c # acc) # open_lines_aux [] s else open_lines_aux (c # acc) s)"

definition open_lines :: "string \<Rightarrow> string list" where
  "open_lines t = open_lines_aux [] t"

subsection \<open>The writer\<close>

definition csv_special :: "char \<Rightarrow> bool" where
  "csv_special c = (c = CHR '','' \<or> c = DQ \<or> csv_eol_char c)"

definition csv_field :: "string \<Rightarrow> string" where
  "csv_field f = (if list_ex csv_special f then DQ # concat (map (\<lambda>c. if c = DQ then [DQ, DQ] else [c]) f) @ [DQ] else f)"

definition csv_record :: "string list \<Rightarrow> string" where
  "csv_record row = (if row = [[]] then [DQ, DQ] else join '','' (map csv_field row)) @ [CR, NL]"

definition csv_text :: "string list list \<Rightarrow> string" where
  "csv_text rows = concat (map csv_record rows)"

text \<open>The text of a value: \<open>None\<close> is empty.\<close>

definition csv_value :: "(rat \<Rightarrow> string) \<Rightarrow> json \<Rightarrow> string" where
  "csv_value fr v = (if v = JNull then [] else py_str fr v)"

type_synonym table_row = "(string, json) dict"

definition csv_cells :: "(rat \<Rightarrow> string) \<Rightarrow> string list \<Rightarrow> table_row \<Rightarrow> string list res" where
  "csv_cells fr names row =
     bindE (guardE (list_all (\<lambda>k. k \<in> set names) (dict_keys row)) (ValueError ''dict contains fields not in fieldnames'')) (\<lambda>_.
     Inr (map (\<lambda>k. csv_value fr (dict_get_or row k (JStr []))) names))"

definition csv_table :: "(rat \<Rightarrow> string) \<Rightarrow> table_row list \<Rightarrow> string res" where
  "csv_table fr rows =
     (let names = (case rows of [] \<Rightarrow> [] | row # _ \<Rightarrow> dict_keys row) in
      bindE (mapE (csv_cells fr names) rows) (\<lambda>cells. Inr (csv_text (names # cells))))"

definition write_csv :: "env \<Rightarrow> path \<Rightarrow> table_row list \<Rightarrow> fs \<Rightarrow> fs res" where
  "write_csv env p rows fs = bindE (csv_table (env_float env) rows) (\<lambda>t. Inr (write_file p t fs))"

subsection \<open>Reading back what was written\<close>

abbreviation parser :: "csv_state \<Rightarrow> string \<Rightarrow> string list \<Rightarrow> csv_parser" where
  "parser st f fs \<equiv> \<lparr>cs_state = st, cs_field = f, cs_fields = fs\<rparr>"

definition cell_state :: "csv_state \<Rightarrow> string \<Rightarrow> csv_state" where
  "cell_state st f = (if f = [] then st else if list_ex csv_special f then QuoteInQuoted else InField)"

lemma plain_chars:
  "\<not> list_ex csv_special f \<Longrightarrow> foldE csv_char f (parser InField g fs) = Inr (parser InField (g @ f) fs)"
  by (induction f arbitrary: g) (simp_all add: csv_char_def csv_add_def csv_special_def)

lemma quoted_chars:
  "foldE csv_char (concat (map (\<lambda>c. if c = DQ then [DQ, DQ] else [c]) f)) (parser InQuoted g fs) = Inr (parser InQuoted (g @ f) fs)"
  by (induction f arbitrary: g) (simp_all add: csv_char_def csv_add_def)

lemma cell_chars:
  assumes "st = StartRecord \<or> st = StartField"
  shows "foldE csv_char (csv_field f) (parser st [] fs) = Inr (parser (cell_state st f) f fs)"
proof (cases "list_ex csv_special f")
  case True
  have "csv_char DQ (parser st [] fs) = Inr (parser InQuoted [] fs)"
    using assms by (auto simp: csv_char_def csv_field_char_def csv_eol_char_def DQ_def NL_def CR_def)
  with True show ?thesis
    by (cases "f = []") (simp_all add: csv_field_def cell_state_def foldE_append quoted_chars csv_char_def)
next
  case False
  show ?thesis
  proof (cases f)
    case (Cons c f')
    then have c: "\<not> csv_special c" "\<not> list_ex csv_special f'" using False by simp_all
    then have "csv_char c (parser st [] fs) = Inr (parser InField [c] fs)"
      using assms by (auto simp: csv_char_def csv_field_char_def csv_special_def csv_add_def)
    with c Cons show ?thesis by (simp add: csv_field_def cell_state_def plain_chars)
  qed (simp add: csv_field_def cell_state_def)
qed


lemma save_cell: "c = CHR '','' \<Longrightarrow> st = StartRecord \<or> st = StartField \<Longrightarrow>
    csv_char c (parser (cell_state st f) f fs) = Inr (parser StartField [] (fs @ [f]))"
  by (auto simp: csv_char_def csv_field_char_def csv_save_def cell_state_def csv_eol_char_def DQ_def NL_def CR_def)

lemma cells_chars:
  "st = StartRecord \<or> st = StartField \<Longrightarrow> row \<noteq> [] \<Longrightarrow>
   foldE csv_char (join '','' (map csv_field row)) (parser st [] fs) =
     Inr (parser (cell_state (if length row = 1 then st else StartField) (last row)) (last row) (fs @ butlast row))"
proof (induction row arbitrary: st fs)
  case (Cons f row)
  show ?case
  proof (cases row)
    case (Cons g r)
    with Cons.IH [of StartField "fs @ [f]"] Cons.prems show ?thesis
      by (simp add: foldE_append cell_chars save_cell split: if_splits)
  qed (use Cons.prems in \<open>simp add: cell_chars\<close>)
qed simp

lemma record_line:
  assumes "row \<noteq> []"
  shows "csv_line (csv_record row) csv_start = Inr (parser StartRecord [] row)"
proof (cases "row = [[]]")
  case True
  then show ?thesis
    by (simp add: csv_record_def csv_line_def csv_start_def csv_char_def csv_field_char_def csv_save_def csv_eol_def csv_eol_char_def DQ_def NL_def CR_def)
next
  case False
  let ?st = "cell_state (if length row = 1 then StartRecord else StartField) (last row)"
  have st: "?st \<noteq> StartRecord" "?st \<noteq> InQuoted" "?st \<noteq> EatEol"
    using False assms by (cases row; auto simp: cell_state_def split: if_splits)+
  have "csv_char CR (parser ?st (last row) (butlast row)) = Inr (parser EatEol [] row)"
    using st assms by (cases ?st) (simp_all add: csv_char_def csv_field_char_def csv_save_def csv_eol_char_def DQ_def CR_def)
  moreover have "csv_char NL (parser EatEol [] row) = Inr (parser EatEol [] row)"
    by (simp add: csv_char_def csv_eol_char_def)
  ultimately show ?thesis using False cells_chars [of StartRecord row "[]"] assms
    by (simp add: csv_record_def csv_line_def csv_start_def foldE_append csv_eol_def)
qed

lemma record_lines: "list_all (\<lambda>row. row \<noteq> []) rows \<Longrightarrow> csv_rows (map csv_record rows) = Inr rows"
  unfolding csv_rows_def by (induction rows) (simp_all add: record_line, simp add: csv_start_def)

lemma open_lines_record:
  assumes "list_all (\<lambda>c. c \<noteq> NL \<and> c \<noteq> CR) l"
  shows "open_lines_aux acc (l @ CR # NL # r) = (rev acc @ l @ [CR, NL]) # open_lines_aux [] r"
  using assms
proof (induction l arbitrary: acc)
  case Nil
  then show ?case by (simp add: NL_def CR_def)
qed simp

lemma record_plain:
  assumes "list_all (list_all (\<lambda>c. c \<noteq> NL \<and> c \<noteq> CR)) row"
  shows "\<exists>l. csv_record row = l @ [CR, NL] \<and> list_all (\<lambda>c. c \<noteq> NL \<and> c \<noteq> CR) l"
proof -
  let ?P = "list_all (\<lambda>c. c \<noteq> NL \<and> c \<noteq> CR)"
  have f: "?P (csv_field f)" if "?P f" for f
    using that by (auto simp add: csv_field_def list_all_iff DQ_def NL_def CR_def)
  have "?P (join '','' (map csv_field row))" using assms
  proof (induction row rule: induct_list012)
    case (3 g h row)
    then show ?case using f [of g] by (simp add: NL_def CR_def)
  qed (simp_all add: f)
  then show ?thesis by (intro exI [of _ "if row = [[]] then [DQ, DQ] else join '','' (map csv_field row)"])
      (auto simp: csv_record_def DQ_def NL_def CR_def)
qed

lemma table_lines:
  assumes "list_all (list_all (list_all (\<lambda>c. c \<noteq> NL \<and> c \<noteq> CR))) rows"
  shows "open_lines (csv_text rows) = map csv_record rows"
  using assms unfolding open_lines_def csv_text_def
proof (induction rows)
  case (Cons row rows)
  obtain l where "csv_record row = l @ [CR, NL]" "list_all (\<lambda>c. c \<noteq> NL \<and> c \<noteq> CR) l" using Cons.prems record_plain [of row] by auto
  with Cons show ?case by (simp add: open_lines_record)
qed simp

text \<open>A table whose cells hold no line end, written with the default dialect and read back line by
  line, gives the same rows: commas, quotes and empty cells survive.\<close>

theorem csv_roundtrip:
  assumes "list_all (\<lambda>row. row \<noteq> [] \<and> list_all (list_all (\<lambda>c. c \<noteq> NL \<and> c \<noteq> CR)) row) rows"
  shows "csv_rows (open_lines (csv_text rows)) = Inr rows"
proof -
  have "list_all (list_all (list_all (\<lambda>c. c \<noteq> NL \<and> c \<noteq> CR))) rows" "list_all (\<lambda>row. row \<noteq> []) rows"
    using assms by (auto simp: list_all_iff)
  then show ?thesis by (simp add: table_lines record_lines)
qed

lemma csv_roundtrip_witness:
  "csv_rows (open_lines (csv_text [[''name'', ''a,b''], [[], [DQ]], [[]]])) = Inr [[''name'', ''a,b''], [[], [DQ]], [[]]]"
  by (rule csv_roundtrip) (simp add: NL_def DQ_def CR_def)

end
