(* ===== verification/PowerTrace.thy ===== *)
theory PowerTrace
  imports Csv PerfEvidence
begin

text \<open>
  The power evidence of a session (\<open>_power_summary\<close> in tools/nvdla_test_framework/performance.py): the
  sampler's tables grouped into sweeps and series of watts, the trapezoidal integral, the interpolation
  at the ends of the measured interval, and the summary of every power domain and rail. A point of a
  series is its time in nanoseconds and its watts. Facts: the integral over clipped intervals is the
  difference of one primitive, so energies add up over adjacent intervals; mean powers lie between the
  least and the greatest sample.
\<close>

type_synonym point = "int \<times> rat"
type_synonym series = "point list"

subsection \<open>Sweeps\<close>

record sweep =
  sw_time :: int
  sw_domains :: "(string option, rat) dict"
  sw_rails :: "(string, rat) dict"

definition name_text :: "string option \<Rightarrow> string" where
  "name_text v = (case v of None \<Rightarrow> ''None'' | Some s \<Rightarrow> s)"

text \<open>\<open>math.isclose\<close> with its default tolerance.\<close>

definition is_close :: "int \<Rightarrow> int \<Rightarrow> bool" where
  "is_close a b = (a = b \<or> of_int \<bar>a - b\<bar> \<le> (of_int (max \<bar>a\<bar> \<bar>b\<bar>) / 1000000000 :: rat))"

definition add_reading :: "string option \<Rightarrow> string \<Rightarrow> rat \<Rightarrow> sweep \<Rightarrow> sweep" where
  "add_reading domain rail watts s = s\<lparr>sw_rails := dict_set rail watts (sw_rails s),
     sw_domains := dict_set domain (dict_get_or (sw_domains s) domain 0 + watts) (sw_domains s)\<rparr>"

definition sweep_row :: "csv_dict \<Rightarrow> (int, sweep) dict \<Rightarrow> (int, sweep) dict res" where
  "sweep_row row sweeps =
     bindE (cell_number row ''sample_index'') (\<lambda>sample. bindE (cell_number row ''timestamp_ns'') (\<lambda>timestamp.
     bindE (row_cell row ''domain'') (\<lambda>domain. bindE (row_cell row ''rail'') (\<lambda>rail. bindE (cell_number row ''power_uw'') (\<lambda>microwatts.
     let s = dict_get_or sweeps sample \<lparr>sw_time = timestamp, sw_domains = [], sw_rails = []\<rparr>;
         rail_key = name_text domain @ '':'' @ name_text rail in
     bindE (guardE (is_close (sw_time s) timestamp) (ValueError ''inconsistent sweep timestamp'')) (\<lambda>_.
     bindE (guardE (rail_key \<notin> set (dict_keys (sw_rails s))) (ValueError ''duplicate rail in one sweep'')) (\<lambda>_.
     Inr (dict_set sample (add_reading domain rail_key (of_int microwatts / 1000000) s) sweeps))))))))"

definition rail_sets_agree :: "sweep list \<Rightarrow> bool" where
  "rail_sets_agree ss = (case ss of [] \<Rightarrow> False
     | s # rest \<Rightarrow> list_all (\<lambda>t. set (dict_keys (sw_rails t)) = set (dict_keys (sw_rails s))) rest)"

text \<open>The series of a table, one point per sweep and scope.\<close>

definition series_add :: "string \<Rightarrow> point \<Rightarrow> (string, series) dict \<Rightarrow> (string, series) dict" where
  "series_add k p d = dict_set k (dict_get_or d k [] @ [p]) d"

definition sweep_series :: "sweep \<Rightarrow> (string, series) dict \<Rightarrow> (string, series) dict" where
  "sweep_series s d =
     (let d1 = fold (\<lambda>(rail, w). series_add (''rail/'' @ rail) (sw_time s, w)) (sw_rails s) d;
          d2 = fold (\<lambda>(domain, w). series_add (''domain/'' @ name_text domain) (sw_time s, w)) (sw_domains s) d1 in
      series_add ''domain/MONITORED'' (sw_time s, sum_list (map snd (sw_rails s))) d2)"

definition sampler_columns :: "string list" where
  "sampler_columns = [''sample_index'', ''timestamp_ns'', ''domain'', ''rail'', ''power_uw'']"

definition parse_power :: "fs \<Rightarrow> path \<Rightarrow> (string, series) dict res" where
  "parse_power fs p = (case dict_get fs p of None \<Rightarrow> Inr [] | Some t \<Rightarrow>
     (let ls = List.filter (\<lambda>l. l \<noteq> [] \<and> \<not> starts_with l ''#'') (splitlines t) in
      if ls = [] then Inr [] else
      bindE (csv_dicts ls) (\<lambda>(names, rows).
      bindE (guardE (set (case names of None \<Rightarrow> [] | Some ns \<Rightarrow> ns) = set sampler_columns) (ValueError ''unsupported power sampler schema'')) (\<lambda>_.
      bindE (foldE sweep_row rows []) (\<lambda>sweeps.
      bindE (guardE (rail_sets_agree (map snd sweeps)) (ValueError ''power rail set changed during sampling'')) (\<lambda>_.
      Inr (fold (\<lambda>k d. case dict_get sweeps k of None \<Rightarrow> d | Some s \<Rightarrow> sweep_series s d) (sort (dict_keys sweeps)) [])))))))"

subsection \<open>Integration\<close>

definition integrate :: "series \<Rightarrow> rat" where
  "integrate s = sum_list (map (\<lambda>i. (snd (s ! (i - 1)) + snd (s ! i)) * (1 / 2) * of_int (fst (s ! i) - fst (s ! (i - 1))) / 1000000000) [1..<length s])"

fun interpolate :: "series \<Rightarrow> int \<Rightarrow> rat res" where
  "interpolate [] t = Inl IndexError"
| "interpolate [p] t = (if t = fst p then Inr (snd p) else Inl (ValueError ''power integration boundary is outside the sampled interval''))"
| "interpolate (p # q # s) t =
     (if t = fst p then Inr (snd p)
      else if fst p < t \<and> t < fst q then
        let fraction = of_int (t - fst p) / of_int (fst q - fst p) in Inr (snd p + fraction * (snd q - snd p))
      else interpolate (q # s) t)"

definition clip :: "series \<Rightarrow> int \<Rightarrow> int \<Rightarrow> series res" where
  "clip s start_ns end_ns =
     bindE (guardE (s \<noteq> []) IndexError) (\<lambda>_.
     bindE (guardE (\<not> (start_ns < fst (hd s) \<or> fst (last s) < end_ns)) (ValueError ''active power trace does not bracket the benchmark launcher interval'')) (\<lambda>_.
     bindE (interpolate s start_ns) (\<lambda>v.
     let clipped = (start_ns, v) # List.filter (\<lambda>p. start_ns < fst p \<and> fst p < end_ns) s in
     if end_ns \<noteq> start_ns then bindE (interpolate s end_ns) (\<lambda>w. Inr (clipped @ [(end_ns, w)])) else Inr clipped)))"

subsection \<open>Scopes\<close>

record scope_power =
  sc_idle_mean :: rat
  sc_active_mean :: rat
  sc_incremental_mean :: rat
  sc_energy :: rat
  sc_incremental_energy :: rat
  sc_duration :: rat
  sc_active_samples :: nat
  sc_integration_samples :: nat
  sc_idle_samples :: nat

fun increasing :: "series \<Rightarrow> bool" where
  "increasing (p # q # s) = (\<not> fst q \<le> fst p \<and> increasing (q # s))"
| "increasing _ = True"

definition summarize_scope :: "series \<Rightarrow> series \<Rightarrow> int \<Rightarrow> int \<Rightarrow> scope_power res" where
  "summarize_scope idle_series raw_active start_ns end_ns =
     bindE (guardE (\<not> (length idle_series < 2 \<or> length raw_active < 2)) (ValueError ''insufficient power samples'')) (\<lambda>_.
     bindE (guardE (increasing idle_series \<and> increasing raw_active) (ValueError ''non-monotonic power timestamps'')) (\<lambda>_.
     bindE (clip raw_active start_ns end_ns) (\<lambda>active_series.
     let idle_duration_ns = fst (last idle_series) - fst (hd idle_series); duration_ns = end_ns - start_ns in
     bindE (guardE (\<not> (idle_duration_ns \<le> 0 \<or> duration_ns \<le> 0)) (ValueError ''non-positive active duration'')) (\<lambda>_.
     let idle_mean = integrate idle_series / (of_int idle_duration_ns / 1000000000);
         energy = integrate active_series; duration = of_int duration_ns / 1000000000; active_mean = energy / duration in
     Inr \<lparr>sc_idle_mean = idle_mean, sc_active_mean = active_mean, sc_incremental_mean = active_mean - idle_mean, sc_energy = energy,
          sc_incremental_energy = energy - idle_mean * duration, sc_duration = duration, sc_active_samples = length raw_active,
          sc_integration_samples = length active_series, sc_idle_samples = length idle_series\<rparr>))))"

definition per_inference :: "rat \<Rightarrow> int \<Rightarrow> json" where
  "per_inference energy executed = (if executed \<noteq> 0 then JFloat (energy / of_int executed) else JNull)"

definition scope_json :: "int \<Rightarrow> scope_power \<Rightarrow> json" where
  "scope_json executed s = JDict
     [(''idle_mean_watts'', JFloat (sc_idle_mean s)), (''active_mean_watts'', JFloat (sc_active_mean s)),
      (''incremental_mean_watts'', JFloat (sc_incremental_mean s)), (''active_energy_joules'', JFloat (sc_energy s)),
      (''active_energy_joules_per_inference'', per_inference (sc_energy s) executed),
      (''incremental_energy_joules'', JFloat (sc_incremental_energy s)),
      (''incremental_energy_joules_per_inference'', per_inference (sc_incremental_energy s) executed),
      (''inferences_per_active_joule'', if 0 < sc_energy s \<and> executed \<noteq> 0 then JFloat (of_int executed / sc_energy s) else JNull),
      (''active_duration_seconds'', JFloat (sc_duration s)), (''active_samples'', JInt (int (sc_active_samples s))),
      (''integration_samples'', JInt (int (sc_integration_samples s))), (''idle_samples'', JInt (int (sc_idle_samples s)))]"

text \<open>The scopes of one kind, in order.\<close>

definition scopes :: "string \<Rightarrow> (string, series) dict \<Rightarrow> (string, series) dict \<Rightarrow> int \<Rightarrow> int \<Rightarrow> int \<Rightarrow> json res" where
  "scopes kind idle active start_ns end_ns executed =
     bindE (mapE (\<lambda>scope. bindE (noneE (KeyError scope) (dict_get idle scope)) (\<lambda>i. bindE (noneE (KeyError scope) (dict_get active scope)) (\<lambda>a.
       bindE (summarize_scope i a start_ns end_ns) (\<lambda>s. Inr (remove_prefix scope kind, scope_json executed s)))))
       (List.filter (\<lambda>k. starts_with k kind) (sort (dict_keys active)))) (\<lambda>kvs. Inr (JDict kvs))"

record launch_interval =
  li_start :: int
  li_end :: int
  li_elapsed :: int

definition launch_interval_of :: "fs \<Rightarrow> path \<Rightarrow> launch_interval res" where
  "launch_interval_of fs run =
     bindE (parse_env_file fs (run @ [''launch-interval.env''])) (\<lambda>interval.
     bindE (guardE (\<not> (dict_get interval ''schema_version'' \<noteq> Some ''1'' \<or> dict_get interval ''clock'' \<noteq> Some ''CLOCK_MONOTONIC_RAW''))
       (ValueError ''missing or unsupported benchmark launcher interval'')) (\<lambda>_.
     bindE (env_int interval ''start_ns'' ''0'') (\<lambda>start_ns. bindE (env_int interval ''end_ns'' ''0'') (\<lambda>end_ns. bindE (env_int interval ''elapsed_ns'' ''0'') (\<lambda>elapsed_ns.
     bindE (guardE (\<not> (start_ns \<le> 0 \<or> end_ns \<le> start_ns \<or> elapsed_ns \<noteq> end_ns - start_ns)) (ValueError ''invalid benchmark launcher interval'')) (\<lambda>_.
     bindE (read_text fs (run @ [''launch-elapsed-ns.txt''])) (\<lambda>t. bindE (noneE (ValueError ''invalid literal for int()'') (py_int (strip t))) (\<lambda>elapsed_file.
     bindE (guardE (elapsed_file = elapsed_ns) (ValueError ''launcher interval and elapsed-time evidence differ'')) (\<lambda>_.
     Inr \<lparr>li_start = start_ns, li_end = end_ns, li_elapsed = elapsed_ns\<rparr>)))))))))"

definition unavailable_power :: json where
  "unavailable_power = JDict [(''status'', JStr ''unavailable'')]"

definition measurement_scope :: string where
  "measurement_scope = ''sampled concurrently and integrated over the exact steady process launch-through-exit interval; model setup and teardown are amortized across all executed inferences''"

definition power_document :: "launch_interval \<Rightarrow> series \<Rightarrow> int \<Rightarrow> int \<Rightarrow> json \<Rightarrow> json \<Rightarrow> json" where
  "power_document li monitored measured warmups domains rails = JDict
     [(''status'', JStr ''available''), (''schema_version'', JInt 3),
      (''integration'', JDict [(''method'', JStr ''linear-boundary-interpolation and trapezoidal integration''), (''clock'', JStr ''CLOCK_MONOTONIC_RAW''),
        (''launcher_start_ns'', JInt (li_start li)), (''launcher_end_ns'', JInt (li_end li)), (''launcher_duration_ns'', JInt (li_elapsed li)),
        (''raw_trace_start_ns'', JInt (fst (hd monitored))), (''raw_trace_end_ns'', JInt (fst (last monitored))),
        (''pre_boundary_margin_ns'', JInt (li_start li - fst (hd monitored))), (''post_boundary_margin_ns'', JInt (fst (last monitored) - li_end li))]),
      (''measurement_scope'', JStr measurement_scope), (''power_phase'', JStr ''steady''),
      (''idle_scope'', JStr ''driver-loaded board idle without a runtime process''), (''measured_iterations'', JInt measured),
      (''warmup_iterations'', JInt warmups), (''executed_iterations'', JInt (measured + warmups)), (''domains'', domains), (''rails'', rails)]"

definition power_summary :: "fs \<Rightarrow> path \<Rightarrow> json res" where
  "power_summary fs base =
     (let power = base @ [''power-sampling'']; run = base @ [''steady-1''] in
      if is_file fs (power @ [''unavailable.txt'']) \<or> \<not> is_dir fs power then Inr unavailable_power
      else
      bindE (parse_power fs (power @ [''idle-readings.csv''])) (\<lambda>idle. bindE (parse_power fs (power @ [''readings.csv''])) (\<lambda>active.
      (case dict_get active ''domain/MONITORED'' of None \<Rightarrow> Inr unavailable_power
       | Some monitored \<Rightarrow>
      bindE (guardE (set (dict_keys idle) = set (dict_keys active)) (ValueError ''idle and active power rail sets differ'')) (\<lambda>_.
      bindE (guardE (''domain/PS'' \<in> set (dict_keys active) \<and> ''domain/PL'' \<in> set (dict_keys active)) (ValueError ''power evidence must contain both PS and PL domains'')) (\<lambda>_.
      bindE (read_profile fs (run @ [''profile.json''])) (\<lambda>profile.
      bindE (int_at profile ''measured_iterations'') (\<lambda>measured. bindE (int_at profile ''warmup_iterations'') (\<lambda>warmups.
      bindE (launch_interval_of fs run) (\<lambda>li.
      bindE (scopes ''domain/'' idle active (li_start li) (li_end li) (measured + warmups)) (\<lambda>domains.
      bindE (scopes ''rail/'' idle active (li_start li) (li_end li) (measured + warmups)) (\<lambda>rails.
      Inr (power_document li monitored measured warmups domains rails)))))))))))))"

subsection \<open>Facts on integration\<close>

definition area :: "point \<Rightarrow> point \<Rightarrow> rat" where
  "area p q = (snd p + snd q) * (1 / 2) * of_int (fst q - fst p) / 1000000000"

fun trapezoids :: "series \<Rightarrow> rat" where
  "trapezoids (p # q # s) = area p q + trapezoids (q # s)"
| "trapezoids _ = 0"

lemma integrate_trapezoids: "integrate s = trapezoids s"
proof (induction s rule: trapezoids.induct)
  case (1 p q s)
  let ?r = "q # s"
  have shift: "[1..<length (p # ?r)] = 1 # map Suc [1..<length ?r]"
    by (simp add: upt_conv_Cons map_Suc_upt del: upt_Suc)
  have "map (\<lambda>i. area ((p # ?r) ! (i - 1)) ((p # ?r) ! i)) (map Suc [1..<length ?r])
      = map (\<lambda>i. area (?r ! (i - 1)) (?r ! i)) [1..<length ?r]"
    by (simp add: nth_Cons' del: upt_Suc)
  then show ?case using 1 unfolding integrate_def area_def [symmetric] shift by (simp del: upt_Suc map_map)
qed (simp_all add: integrate_def)

lemma increasing_iff: "increasing s \<longleftrightarrow> sorted_wrt (\<lambda>p q. fst p < fst q) s"
proof (induction s rule: increasing.induct)
  case (1 p q s)
  then show ?case by auto
qed simp_all

lemma increasing_last: "increasing (p # s) \<Longrightarrow> fst p \<le> fst (last (p # s))"
  by (cases s) (auto simp: increasing_iff intro: less_imp_le)

text \<open>The value of a series at a time within it.\<close>

definition value_at :: "series \<Rightarrow> int \<Rightarrow> rat" where
  "value_at s t = (case interpolate s t of Inr v \<Rightarrow> v | Inl _ \<Rightarrow> 0)"

lemma interpolate_ok:
  "increasing s \<Longrightarrow> s \<noteq> [] \<Longrightarrow> fst (hd s) \<le> t \<Longrightarrow> t \<le> fst (last s) \<Longrightarrow> interpolate s t = Inr (value_at s t)"
proof (induction s t rule: interpolate.induct)
  case (3 p q s t)
  then show ?case by (auto simp: value_at_def Let_def)
qed (auto simp: value_at_def)

lemma value_at_tail: "fst p < fst q \<Longrightarrow> fst q \<le> t \<Longrightarrow> value_at (p # q # s) t = value_at (q # s) t"
  by (simp add: value_at_def)

lemma value_at_hd: "value_at (p # s) (fst p) = snd p"
  by (cases s) (simp_all add: value_at_def)

lemma value_at_segment:
  assumes "fst p \<le> t" and "t < fst q"
  shows "value_at (p # q # s) t = snd p + of_int (t - fst p) / of_int (fst q - fst p) * (snd q - snd p)"
  using assms by (cases "t = fst p") (auto simp: value_at_def Let_def)

lemma value_at_segment':
  assumes "fst p < fst q" and "fst p \<le> t" and "t \<le> fst q"
  shows "value_at (p # q # s) t = snd p + of_int (t - fst p) / of_int (fst q - fst p) * (snd q - snd p)"
proof (cases "t = fst q")
  case True
  with assms(1) show ?thesis by (simp add: value_at_tail value_at_hd [of q s])
qed (use assms in \<open>simp add: value_at_segment\<close>)

text \<open>The primitive of a series: the area from its first point to a time.\<close>

fun primitive :: "series \<Rightarrow> int \<Rightarrow> rat" where
  "primitive (p # q # s) t = (if t \<le> fst q then area p (t, value_at (p # q # s) t) else area p q + primitive (q # s) t)"
| "primitive _ t = 0"

lemma primitive_hd: "increasing (q # s) \<Longrightarrow> primitive (q # s) (fst q) = 0"
  by (cases s) (auto simp: area_def)

lemma primitive_tail:
  assumes "fst p < fst q" and "fst q \<le> t" and "increasing (q # s)"
  shows "primitive (p # q # s) t = area p q + primitive (q # s) t"
proof (cases "t = fst q")
  case True
  have "value_at (p # q # s) (fst q) = snd q" using assms(1) by (simp add: value_at_tail value_at_hd)
  then show ?thesis using True primitive_hd [OF assms(3)] by (simp add: area_def)
qed (use assms in simp)

definition clip_total :: "series \<Rightarrow> int \<Rightarrow> int \<Rightarrow> series" where
  "clip_total s a b = (a, value_at s a) # List.filter (\<lambda>p. a < fst p \<and> fst p < b) s @ [(b, value_at s b)]"

lemma clip_eq:
  assumes "increasing s" and "s \<noteq> []" and "fst (hd s) \<le> a" and "a < b" and "b \<le> fst (last s)"
  shows "clip s a b = Inr (clip_total s a b)"
  using interpolate_ok [OF assms(1,2,3)] interpolate_ok [OF assms(1,2), of b] assms
  by (simp add: clip_def clip_total_def Let_def guardE_def)

lemma increasing_later: "increasing (q # s) \<Longrightarrow> r \<in> set s \<Longrightarrow> fst q < fst r"
  by (simp add: increasing_iff)

lemma no_points_below:
  assumes "increasing (q # s)" and "b \<le> fst q"
  shows "List.filter (\<lambda>p. a < fst p \<and> fst p < b) (q # s) = []"
  using assms increasing_later [OF assms(1)] by (auto simp: filter_empty_conv) (meson less_le_trans less_asym not_less)

text \<open>On one segment the series is a line, so the area between two of its times is a difference.\<close>

lemma segment_area:
  assumes "fst p < fst q" and "fst p \<le> a" and "a \<le> b" and "b \<le> fst q"
  shows "area (a, value_at (p # q # s) a) (b, value_at (p # q # s) b)
    = area p (b, value_at (p # q # s) b) - area p (a, value_at (p # q # s) a)"
proof -
  define d where "d = (snd q - snd p) / of_int (fst q - fst p)"
  have v: "value_at (p # q # s) t = snd p + of_int (t - fst p) * d" if "fst p \<le> t" "t \<le> fst q" for t
    using value_at_segment' [OF assms(1) that, of s] by (simp add: d_def)
  have va: "value_at (p # q # s) a = snd p + of_int (a - fst p) * d" by (rule v) (use assms in simp_all)
  have vb: "value_at (p # q # s) b = snd p + of_int (b - fst p) * d" by (rule v) (use assms in simp_all)
  show ?thesis unfolding va vb area_def by (simp add: field_simps)
qed

lemma clip_area:
  "increasing s \<Longrightarrow> fst (hd s) \<le> a \<Longrightarrow> a < b \<Longrightarrow> b \<le> fst (last s) \<Longrightarrow> s \<noteq> [] \<Longrightarrow>
     trapezoids (clip_total s a b) = primitive s b - primitive s a"
proof (induction s arbitrary: a rule: trapezoids.induct)
  case (1 p q s)
  then have pq: "fst p < fst q" and inc: "increasing (q # s)" by simp_all
  consider "b \<le> fst q" | "fst q \<le> a" "fst q < b" | "a < fst q" "fst q < b" by linarith
  then show ?case
  proof cases
    case 1
    have "List.filter (\<lambda>r. a < fst r \<and> fst r < b) (p # q # s) = []"
      using no_points_below [OF inc 1] "1.prems" by simp
    then show ?thesis using 1 segment_area [OF pq, of a b s] "1.prems" by (simp add: clip_total_def)
  next
    case 2
    then have "clip_total (p # q # s) a b = clip_total (q # s) a b" using pq "1.prems" by (simp add: clip_total_def value_at_tail)
    then show ?thesis using "1.IH" [of a] "1.prems" 2 pq inc by (simp add: primitive_tail del: primitive.simps)
  next
    case 3
    have "List.filter (\<lambda>r. a < fst r \<and> fst r < b) s = List.filter (\<lambda>r. fst q < fst r \<and> fst r < b) s"
      by (rule filter_cong [OF refl]) (use 3 increasing_later [OF inc] in force)
    then have "List.filter (\<lambda>r. a < fst r \<and> fst r < b) (p # q # s) = q # List.filter (\<lambda>r. fst q < fst r \<and> fst r < b) s"
      using 3 "1.prems" by simp
    then have "clip_total (p # q # s) a b = (a, value_at (p # q # s) a) # clip_total (q # s) (fst q) b"
      using 3 pq by (simp add: clip_total_def value_at_hd value_at_tail)
    moreover have "area (a, value_at (p # q # s) a) q = area p q - area p (a, value_at (p # q # s) a)"
      using segment_area [OF pq, of a "fst q" s] 3 "1.prems" pq by (simp add: value_at_tail value_at_hd)
    moreover have "trapezoids ((a, value_at (p # q # s) a) # clip_total (q # s) (fst q) b)
        = area (a, value_at (p # q # s) a) q + trapezoids (clip_total (q # s) (fst q) b)"
      by (simp add: clip_total_def value_at_hd area_def)
    ultimately show ?thesis using "1.IH" [of "fst q"] "1.prems" 3 pq inc
      by (simp add: primitive_tail primitive_hd del: primitive.simps) simp
  qed
qed simp_all


text \<open>The energy over an interval is the sum of the energies over two adjacent parts, wherever the
  cut falls between or on the samples.\<close>

theorem energy_additive:
  assumes "increasing s" and "s \<noteq> []" and "fst (hd s) \<le> a" and "a < b" and "b < c" and "c \<le> fst (last s)"
  shows "\<exists>x y z. clip s a b = Inr x \<and> clip s b c = Inr y \<and> clip s a c = Inr z \<and> integrate z = integrate x + integrate y"
proof -
  have "clip s a b = Inr (clip_total s a b)" "clip s b c = Inr (clip_total s b c)" "clip s a c = Inr (clip_total s a c)"
    using assms by (simp_all add: clip_eq)
  moreover have "integrate (clip_total s a c) = integrate (clip_total s a b) + integrate (clip_total s b c)"
    using assms by (simp add: integrate_trapezoids clip_area)
  ultimately show ?thesis by blast
qed

lemma energy_additive_witness:
  "\<exists>x y z. clip [(0, 1), (10, 3), (20, 2)] 2 13 = Inr x \<and> clip [(0, 1), (10, 3), (20, 2)] 13 20 = Inr y \<and>
     clip [(0, 1), (10, 3), (20, 2)] 2 20 = Inr z \<and> integrate z = integrate x + integrate y"
  by (rule energy_additive) simp_all

definition watts_within :: "rat \<Rightarrow> rat \<Rightarrow> series \<Rightarrow> bool" where
  "watts_within m u s = list_all (\<lambda>p. m \<le> snd p \<and> snd p \<le> u) s"

lemma area_bounds:
  assumes "fst p \<le> fst q" and "m \<le> snd p" "snd p \<le> u" and "m \<le> snd q" "snd q \<le> u"
  shows "m * (of_int (fst q - fst p) / 1000000000) \<le> area p q" and "area p q \<le> u * (of_int (fst q - fst p) / 1000000000)"
proof -
  have d: "0 \<le> (of_int (fst q - fst p) :: rat)" using assms(1) by simp
  have e: "area p q = (snd p + snd q) / 2 * (of_int (fst q - fst p) / 1000000000)" by (simp add: area_def)
  show "m * (of_int (fst q - fst p) / 1000000000) \<le> area p q" unfolding e using assms(2,4) d by (intro mult_right_mono) simp_all
  show "area p q \<le> u * (of_int (fst q - fst p) / 1000000000)" unfolding e using assms(3,5) d by (intro mult_right_mono) simp_all
qed

lemma trapezoids_bounds:
  "increasing s \<Longrightarrow> watts_within m u s \<Longrightarrow> s \<noteq> [] \<Longrightarrow>
     m * (of_int (fst (last s) - fst (hd s)) / 1000000000) \<le> trapezoids s \<and> trapezoids s \<le> u * (of_int (fst (last s) - fst (hd s)) / 1000000000)"
proof (induction s rule: trapezoids.induct)
  case (1 p q s)
  define t where "t = fst (last (q # s))"
  have "m * (of_int (fst q - fst p) / 1000000000) \<le> area p q" "area p q \<le> u * (of_int (fst q - fst p) / 1000000000)"
    using area_bounds [of p q m u] "1.prems" by (simp_all add: watts_within_def)
  moreover have "m * (of_int (t - fst q) / 1000000000) \<le> trapezoids (q # s)" "trapezoids (q # s) \<le> u * (of_int (t - fst q) / 1000000000)"
    using 1 by (auto simp: watts_within_def t_def)
  moreover have e: "x * (of_int (t - fst p) / 1000000000) = x * (of_int (fst q - fst p) / 1000000000) + x * (of_int (t - fst q) / 1000000000)" for x :: rat
    by (simp add: field_simps)
  ultimately have "m * (of_int (t - fst p) / 1000000000) \<le> area p q + trapezoids (q # s) \<and>
      area p q + trapezoids (q # s) \<le> u * (of_int (t - fst p) / 1000000000)"
    unfolding e [of m] e [of u] by (blast intro: add_mono)
  moreover have "fst (last (p # q # s)) = t" by (simp add: t_def)
  ultimately show ?case by (simp only: list.sel trapezoids.simps)
qed simp_all

lemma between_convex:
  assumes "m \<le> x" "x \<le> u" "m \<le> y" "y \<le> u" and "0 \<le> f" "f \<le> (1::rat)"
  shows "m \<le> x + f * (y - x)" and "x + f * (y - x) \<le> u"
proof -
  have e: "x + f * (y - x) = (1 - f) * x + f * y" by (simp add: algebra_simps)
  have "(1 - f) * m + f * m \<le> (1 - f) * x + f * y" using assms by (intro add_mono mult_left_mono) simp_all
  then show "m \<le> x + f * (y - x)" unfolding e by (simp add: algebra_simps)
  have "(1 - f) * x + f * y \<le> (1 - f) * u + f * u" using assms by (intro add_mono mult_left_mono) simp_all
  then show "x + f * (y - x) \<le> u" unfolding e by (simp add: algebra_simps)
qed

lemma interpolate_within:
  "interpolate s t = Inr v \<Longrightarrow> watts_within m u s \<Longrightarrow> m \<le> v \<and> v \<le> u"
proof (induction s t rule: interpolate.induct)
  case (3 p q s t)
  show ?case
  proof (cases "fst p < t \<and> t < fst q")
    case True
    define f where "f = of_int (t - fst p) / (of_int (fst q - fst p) :: rat)"
    have f: "0 \<le> f" "f \<le> 1" using True by (simp_all add: f_def)
    have "v = snd p + f * (snd q - snd p)" using True "3.prems" by (simp add: f_def Let_def)
    then show ?thesis using between_convex [OF _ _ _ _ f, of m "snd p" u "snd q"] "3.prems"(2) by (simp add: watts_within_def)
  qed (use 3 in \<open>auto simp: watts_within_def split: if_splits\<close>)
qed (auto simp: watts_within_def split: if_splits)

lemma increasing_snoc: "sorted_wrt (\<lambda>p q. fst p < fst q) s \<Longrightarrow> \<forall>p \<in> set s. fst p < b \<Longrightarrow> increasing (s @ [(b, v)])"
  by (auto simp: increasing_iff sorted_wrt_append)

lemma clip_increasing:
  assumes "increasing s" and "a < b"
  shows "increasing (clip_total s a b)" and "hd (clip_total s a b) = (a, value_at s a)" and "last (clip_total s a b) = (b, value_at s b)"
proof -
  have "sorted_wrt (\<lambda>p q. fst p < fst q) (List.filter (\<lambda>p. a < fst p \<and> fst p < b) s)"
    using assms(1) by (simp add: increasing_iff sorted_wrt_filter)
  with assms(2) have "increasing (((a, value_at s a) # List.filter (\<lambda>p. a < fst p \<and> fst p < b) s) @ [(b, value_at s b)])"
    by (intro increasing_snoc) auto
  then show "increasing (clip_total s a b)" by (simp add: clip_total_def)
qed (simp_all add: clip_total_def)

lemma clip_within:
  assumes "increasing s" "s \<noteq> []" "fst (hd s) \<le> a" "a < b" "b \<le> fst (last s)" and "watts_within m u s"
  shows "watts_within m u (clip_total s a b)"
proof -
  have "m \<le> value_at s t \<and> value_at s t \<le> u" if "a \<le> t" "t \<le> b" for t
    by (rule interpolate_within [OF interpolate_ok [OF assms(1,2)] assms(6)]) (use that assms in linarith)+
  then show ?thesis using assms(4,6) by (auto simp: clip_total_def watts_within_def list_all_iff)
qed


lemma within_extremes: "watts_within (Min (snd ` set s)) (Max (snd ` set s)) s"
  by (auto simp: watts_within_def list_all_iff)

lemma mean_within:
  assumes "increasing s" "s \<noteq> []" "watts_within m u s" and "fst (hd s) < fst (last s)"
  shows "m \<le> integrate s / (of_int (fst (last s) - fst (hd s)) / 1000000000)"
    and "integrate s / (of_int (fst (last s) - fst (hd s)) / 1000000000) \<le> u"
proof -
  have d: "0 < (of_int (fst (last s) - fst (hd s)) / 1000000000 :: rat)" using assms(4) by (simp del: of_int_diff)
  note b = trapezoids_bounds [OF assms(1,3,2), folded integrate_trapezoids]
  show "m \<le> integrate s / (of_int (fst (last s) - fst (hd s)) / 1000000000)" using b d by (simp only: pos_le_divide_eq)
  show "integrate s / (of_int (fst (last s) - fst (hd s)) / 1000000000) \<le> u" using b d by (simp only: pos_divide_le_eq)
qed

lemma summarize_scope_iff:
  assumes "summarize_scope idle active a b = Inr r"
  shows "increasing idle" "2 \<le> length idle" "increasing active" "active \<noteq> []" "fst (hd idle) < fst (last idle)" "a < b"
    "fst (hd active) \<le> a" "b \<le> fst (last active)"
    "sc_idle_mean r = integrate idle / (of_int (fst (last idle) - fst (hd idle)) / 1000000000)"
    "sc_energy r = integrate (clip_total active a b)" "sc_duration r = of_int (b - a) / 1000000000"
    "sc_active_mean r = sc_energy r / sc_duration r" "sc_incremental_mean r = sc_active_mean r - sc_idle_mean r"
    "sc_incremental_energy r = sc_energy r - sc_idle_mean r * sc_duration r"
proof -
  from assms obtain c where len: "\<not> (length idle < 2 \<or> length active < 2)" and inc: "increasing idle" "increasing active"
    and c: "clip active a b = Inr c" and dur: "\<not> (fst (last idle) - fst (hd idle) \<le> 0 \<or> b - a \<le> 0)"
    and r: "r = \<lparr>sc_idle_mean = integrate idle / (of_int (fst (last idle) - fst (hd idle)) / 1000000000),
       sc_active_mean = integrate c / (of_int (b - a) / 1000000000),
       sc_incremental_mean = integrate c / (of_int (b - a) / 1000000000) - integrate idle / (of_int (fst (last idle) - fst (hd idle)) / 1000000000),
       sc_energy = integrate c, sc_incremental_energy = integrate c - integrate idle / (of_int (fst (last idle) - fst (hd idle)) / 1000000000) * (of_int (b - a) / 1000000000),
       sc_duration = of_int (b - a) / 1000000000, sc_active_samples = length active, sc_integration_samples = length c, sc_idle_samples = length idle\<rparr>"
    unfolding summarize_scope_def Let_def bindE_Inr_iff guardE_Inr_iff sum.inject by (elim exE conjE) (rule that; (assumption | rule sym, assumption))
  have ne: "active \<noteq> []" using len by auto
  from c have range: "fst (hd active) \<le> a" "b \<le> fst (last active)" by (auto simp: clip_def Let_def bindE_Inr_iff guardE_Inr_iff)
  have "a < b" using dur by simp
  with clip_eq [OF inc(2) ne range(1) this range(2)] c have c': "c = clip_total active a b" by simp
  show "increasing idle" "2 \<le> length idle" "increasing active" "active \<noteq> []" "fst (hd idle) < fst (last idle)" "a < b"
    "fst (hd active) \<le> a" "b \<le> fst (last active)" using len inc ne dur range by auto
  show "sc_idle_mean r = integrate idle / (of_int (fst (last idle) - fst (hd idle)) / 1000000000)"
    "sc_energy r = integrate (clip_total active a b)" "sc_duration r = of_int (b - a) / 1000000000"
    "sc_active_mean r = sc_energy r / sc_duration r" "sc_incremental_mean r = sc_active_mean r - sc_idle_mean r"
    "sc_incremental_energy r = sc_energy r - sc_idle_mean r * sc_duration r"
    by (simp_all only: r c' scope_power.simps)
qed

text \<open>C20: the mean powers of a scope lie between its least and greatest sample, while idle and during the
  measured interval, and the incremental energy is the incremental mean power over that interval.\<close>

theorem scope_power_bounds:
  "case summarize_scope idle active start_ns end_ns of
     Inl e \<Rightarrow> True
   | Inr r \<Rightarrow> Min (snd ` set idle) \<le> sc_idle_mean r \<and> sc_idle_mean r \<le> Max (snd ` set idle) \<and>
       Min (snd ` set active) \<le> sc_active_mean r \<and> sc_active_mean r \<le> Max (snd ` set active) \<and> 0 < sc_duration r \<and>
       sc_energy r = sc_active_mean r * sc_duration r \<and> sc_incremental_energy r = sc_incremental_mean r * sc_duration r"
proof (cases "summarize_scope idle active start_ns end_ns")
  case (Inr r)
  note f = summarize_scope_iff [OF Inr]
  let ?c = "clip_total active start_ns end_ns"
  have ne: "idle \<noteq> []" "?c \<noteq> []" using f(2) by (auto simp: clip_total_def)
  note ci = clip_increasing [OF f(3,6)]
  have d: "0 < sc_duration r" using f(6) by (simp add: f(11) del: of_int_diff)
  have lt: "fst (hd ?c) < fst (last ?c)" using f(6) by (simp add: ci)
  have "integrate ?c / (of_int (fst (last ?c) - fst (hd ?c)) / 1000000000) = sc_active_mean r" by (simp only: f(10,11,12) ci(2,3) fst_conv)
  from mean_within [OF ci(1) ne(2) clip_within [OF f(3,4,7,6,8) within_extremes] lt, unfolded this]
    mean_within [OF f(1) ne(1) within_extremes f(5), folded f(9)]
  have "Min (snd ` set active) \<le> sc_active_mean r" "sc_active_mean r \<le> Max (snd ` set active)"
    "Min (snd ` set idle) \<le> sc_idle_mean r" "sc_idle_mean r \<le> Max (snd ` set idle)" by blast+
  moreover have "sc_energy r = sc_active_mean r * sc_duration r" using d by (simp add: f(12))
  moreover from this have "sc_incremental_energy r = sc_incremental_mean r * sc_duration r" by (simp add: f(13,14) algebra_simps)
  ultimately show ?thesis using d Inr by simp
qed simp

subsection \<open>Facts on sweeps\<close>

definition sweep_ok :: "sweep \<Rightarrow> bool" where
  "sweep_ok s \<longleftrightarrow> distinct (dict_keys (sw_domains s)) \<and> distinct (dict_keys (sw_rails s)) \<and>
     sum_list (map snd (sw_domains s)) = sum_list (map snd (sw_rails s))"

lemma dict_set_total:
  "distinct (dict_keys d) \<Longrightarrow> sum_list (map snd (dict_set k v d)) = sum_list (map snd d) - dict_get_or d k 0 + (v :: rat)"
proof (induction d)
  case (Cons a d)
  have "k \<notin> set (dict_keys d) \<Longrightarrow> dict_get_or d k 0 = (0::rat)"
    by (simp add: dict_get_or_def dict_get_def dict_keys_def map_of_eq_None_iff [THEN iffD2])
  with Cons show ?case by (cases a) (auto simp: dict_get_or_def dict_get_def dict_keys_def)
qed (simp add: dict_get_or_def dict_get_def)

lemma add_reading_ok:
  assumes "sweep_ok s" and "rail \<notin> set (dict_keys (sw_rails s))"
  shows "sweep_ok (add_reading domain rail w s)"
proof -
  have "dict_get_or (sw_rails s) rail 0 = 0"
    using assms(2) by (simp add: dict_get_or_def dict_get_def dict_keys_def map_of_eq_None_iff [THEN iffD2])
  with assms(1) show ?thesis by (simp add: sweep_ok_def add_reading_def dict_set_distinct dict_set_total)
qed

lemma dict_set_all: "list_all (\<lambda>(k, v). P v) d \<Longrightarrow> P v \<Longrightarrow> list_all (\<lambda>(k, v). P v) (dict_set k v d)"
  by (induction d) auto

lemma dict_get_or_all: "list_all (\<lambda>(k, v). P v) d \<Longrightarrow> P v \<Longrightarrow> P (dict_get_or d k v)"
  by (induction d) (auto simp: dict_get_or_def dict_get_def)

lemma sweep_row_ok:
  assumes "sweep_row row sweeps = Inr sweeps'" and "list_all (\<lambda>(k, s). sweep_ok s) sweeps"
  shows "list_all (\<lambda>(k, s). sweep_ok s) sweeps'"
proof -
  from assms(1) obtain sample t d r w where
    free: "name_text d @ '':'' @ name_text r \<notin> set (dict_keys (sw_rails (dict_get_or sweeps sample \<lparr>sw_time = t, sw_domains = [], sw_rails = []\<rparr>)))"
    and eq: "sweeps' = dict_set sample (add_reading d (name_text d @ '':'' @ name_text r) (of_int w / 1000000)
      (dict_get_or sweeps sample \<lparr>sw_time = t, sw_domains = [], sw_rails = []\<rparr>)) sweeps"
    unfolding sweep_row_def Let_def bindE_Inr_iff guardE_Inr_iff sum.inject by (elim exE conjE) (rule that; (assumption | rule sym, assumption))
  have "sweep_ok (dict_get_or sweeps sample \<lparr>sw_time = t, sw_domains = [], sw_rails = []\<rparr>)"
    by (rule dict_get_or_all [OF assms(2)]) (simp add: sweep_ok_def dict_keys_def)
  from add_reading_ok [OF this free] show ?thesis unfolding eq by (rule dict_set_all [OF assms(2)])
qed

text \<open>In every sweep the sampler's table yields, no rail is counted twice and the watts of the domains
  add up to the watts of the rails.\<close>

theorem sweep_totals:
  "case foldE sweep_row rows [] of
     Inl e \<Rightarrow> True
   | Inr sweeps \<Rightarrow> list_all (\<lambda>(k, s). distinct (dict_keys (sw_rails s)) \<and>
       sum_list (map snd (sw_domains s)) = sum_list (map snd (sw_rails s))) sweeps"
proof (cases "foldE sweep_row rows []")
  case (Inr sweeps)
  have "list_all (\<lambda>(k, s). sweep_ok s) sweeps"
    by (rule foldE_invariant [OF Inr, of "list_all (\<lambda>(k, s). sweep_ok s)"]) (simp, rule sweep_row_ok)
  then show ?thesis unfolding Inr sum.case by (rule list.pred_mono_strong) (auto simp: sweep_ok_def)
qed simp

end
