(* ===== verification/PerfImport.thy ===== *)
theory PerfImport
  imports PerfSummary PowerTrace
begin

text \<open>
  The import of benchmark archives (\<open>import_performance_archives\<close> in
  tools/nvdla_test_framework/performance.py): the loop over the archives with the evidence it demands, the
  summary document, and the tables it writes. An archive is its path, its members and its digest; every
  archive is unpacked below its own number. The figures and the Markdown report, which are drawn from the same
  summary, are in the theory PerfReport. A number of a document that Python keeps as an integer and the model as a rational
  is the same value.
\<close>

record archive =
  ar_path :: string
  ar_members :: "member list"
  ar_sha :: string

record bench_session =
  ss_name :: string
  ss_archive :: archive
  ss_provenance :: "(string \<times> json) list"
  ss_environment :: environment
  ss_power :: json

record import_state =
  im_rows :: "perf_row list"
  im_sessions :: "bench_session list"
  im_baseline :: "(string \<times> json) list option"
  im_boot_ids :: "string list"

definition import_start :: import_state where
  "import_start = \<lparr>im_rows = [], im_sessions = [], im_baseline = None, im_boot_ids = []\<rparr>"

text \<open>The keys on which two sessions differ.\<close>

definition provenance_differences :: "(string \<times> json) list \<Rightarrow> (string \<times> json) list \<Rightarrow> string list" where
  "provenance_differences p q = List.filter (\<lambda>k. \<not> jeq (jlookup p k) (jlookup q k)) PROVENANCE_KEYS"

definition text_at :: "(string \<times> json) list \<Rightarrow> string \<Rightarrow> string" where
  "text_at p k = (case jlookup p k of JStr s \<Rightarrow> s | _ \<Rightarrow> [])"

definition import_archive :: "(rat \<Rightarrow> string) \<Rightarrow> nat \<times> archive \<Rightarrow> import_state \<Rightarrow> import_state res" where
  "import_archive fr = (\<lambda>(index, archive) st.
     bindE (load_session_root (ar_members archive) [show_nat index] []) (\<lambda>(base, fs).
     bindE (parse_env_file fs (base @ [''benchmark.env''])) (\<lambda>env.
     bindE (guardE (dict_get env ''status'' = Some ''0'') (ValueError ''target benchmark did not pass'')) (\<lambda>_.
     bindE (guardE (dict_get env ''classification'' = Some ''exact-performance-pass'') (ValueError ''target benchmark is not correctness-qualified'')) (\<lambda>_.
     bindE (environment_evidence fs base env) (\<lambda>environment.
     bindE (guardE (ee_boot_id environment \<notin> set (im_boot_ids st)) (ValueError ''duplicate Linux boot ID; sessions must come from independent fresh boots'')) (\<lambda>_.
     bindE (provenance fr fs base env) (\<lambda>prov.
     bindE (case im_baseline st of None \<Rightarrow> Inr prov
       | Some b \<Rightarrow> bindE (guardE (provenance_differences prov b = []) (ValueError ''mixed benchmark provenance'')) (\<lambda>_. Inr b)) (\<lambda>baseline.
     let session_id = path_name base in
     bindE (profile_rows fs base session_id (text_at prov ''model'') (text_at prov ''benchmark_cpu'')) (\<lambda>rows.
     bindE (power_summary fs base) (\<lambda>power.
     Inr \<lparr>im_rows = im_rows st @ rows,
          im_sessions = im_sessions st @ [\<lparr>ss_name = session_id, ss_archive = archive, ss_provenance = prov, ss_environment = environment, ss_power = power\<rparr>],
          im_baseline = Some baseline, im_boot_ids = ee_boot_id environment # im_boot_ids st\<rparr>)))))))))))"

definition import_sessions :: "(rat \<Rightarrow> string) \<Rightarrow> archive list \<Rightarrow> import_state res" where
  "import_sessions fr archives =
     bindE (guardE (archives \<noteq> []) (ValueError ''at least one benchmark archive is required'')) (\<lambda>_.
     foldE (import_archive fr) (zip [0..<length archives] archives) import_start)"

subsection \<open>The summary\<close>

definition session_json :: "bench_session \<Rightarrow> json" where
  "session_json s = JDict [(''session'', JStr (ss_name s)), (''archive'', JStr (ar_path (ss_archive s))), (''archive_sha256'', JStr (upper (ar_sha (ss_archive s)))),
     (''provenance'', JDict (ss_provenance s)), (''environment'', environment_json (ss_environment s)), (''power'', ss_power s)]"

definition requirements :: "string list" where
  "requirements = [''target benchmark status is exact-performance-pass'', ''every output matches the established exact golden'',
     ''repeated in-memory outputs are identical'', ''every run has a positive NVDLA IRQ delta'', ''no configured bad kernel pattern is present'',
     ''the active NVDLA clock matches the XSA-derived rate'', ''the Linux boot ID is unique across imported sessions'', ''wall-clock synchronization status is recorded'']"

text \<open>The square root of the standard deviation and the draws of the bootstrap for a number of sessions are parameters.\<close>

record perf_env = env +
  pe_root :: "rat \<Rightarrow> rat"
  pe_draws :: "nat \<Rightarrow> nat list list"

definition regime_summaries :: "perf_env \<Rightarrow> int \<Rightarrow> regime_rows \<Rightarrow> (string, regime_summary) dict res" where
  "regime_summaries pe clock_hz grouped = mapE (\<lambda>(regime, rows).
     bindE (regime_summary_of (pe_root pe) (pe_draws pe) clock_hz regime rows) (\<lambda>s. Inr (regime, s))) grouped"

definition clock_of :: "(string \<times> json) list \<Rightarrow> int" where
  "clock_of baseline = (case jlookup baseline ''nvdla_clock_hz'' of JInt n \<Rightarrow> n | _ \<Rightarrow> 0)"

definition summary_document :: "import_state \<Rightarrow> (string \<times> json) list \<Rightarrow> (string, regime_summary) dict \<Rightarrow> json \<Rightarrow> json \<Rightarrow> json \<Rightarrow> json" where
  "summary_document st baseline summaries throughput overhead sanity = JDict
     [(''schema_version'', JInt 3), (''provenance'', JDict baseline), (''workload_complexity'', jlookup baseline ''workload_complexity''),
      (''session_count'', JInt (int (length (im_sessions st)))), (''sessions'', JList (map session_json (im_sessions st))),
      (''regimes'', JDict (map (\<lambda>(regime, s). (regime, regime_json regime s)) summaries)), (''throughput_definitions'', throughput),
      (''software_overhead'', overhead), (''pilot_sanity'', sanity),
      (''correctness_qualification'', JDict [(''status'', JStr ''qualified''), (''accepted_samples'', JInt (int (length (im_rows st)))),
         (''requirements'', JList (map JStr requirements))]),
      (''outlier_policy'', JStr ''No samples are discarded. Tukey 1.5 IQR fences flag retained observations.''),
      (''timing_boundaries'', JDict [(''cold'', JStr ''CLOCK_MONOTONIC_RAW parent launch-to-process-exit after page-cache drop''),
         (''warm'', JStr ''CLOCK_MONOTONIC_RAW parent launch-to-process-exit with primed file cache''),
         (''steady'', JStr ''runtime execution latency: blocking nvdla IRuntime::submit() with one loaded and bound context'')])]"

subsection \<open>The tables\<close>

definition raw_row :: "perf_row \<Rightarrow> table_row" where
  "raw_row r = [(''session'', JStr (pr_session r)), (''model'', JStr (pr_model r)), (''regime'', JStr (pr_regime r)), (''run'', JStr (pr_run r)),
     (''sample_index'', JInt (pr_sample_index r)), (''input_index'', JInt (pr_input_index r)), (''input_update_ns'', JInt (pr_input_update r)),
     (''latency_ns'', JInt (pr_latency r)), (''runtime_execution_ns'', JInt (pr_runtime r)), (''output_extract_ns'', JInt (pr_extract r)),
     (''launch_elapsed_ns'', case pr_launch r of None \<Rightarrow> JNull | Some n \<Rightarrow> JInt n), (''process_total_ns'', JInt (pr_process_total r)),
     (''clock_resolution_ns'', JInt (pr_resolution r)), (''clock_pair_overhead_ns'', JInt (pr_overhead r)), (''clock_overhead_fraction'', JFloat (pr_fraction r)),
     (''profile_path'', JStr (pr_profile_path r)), (''profile_total_iterations'', JInt (int (pr_total r))), (''profile_measured_iterations'', JInt (pr_measured r)),
     (''profile_warmup_iterations'', JInt (pr_warmups r)), (''cpu_affinity'', JStr (pr_affinity r)),
     (''process_user_time_ns'', JInt (scheduled ''user_time_ns'' r)), (''process_system_time_ns'', JInt (scheduled ''system_time_ns'' r)),
     (''minor_page_faults'', JInt (scheduled ''minor_page_faults'' r)), (''major_page_faults'', JInt (scheduled ''major_page_faults'' r)),
     (''voluntary_context_switches'', JInt (scheduled ''voluntary_context_switches'' r)),
     (''involuntary_context_switches'', JInt (scheduled ''involuntary_context_switches'' r)), (''cpu_migrations'', JStr (pr_migrations r))]
   @ map (\<lambda>(phase, n). (''phase_'' @ phase @ ''_ns'', JInt n)) (pr_phases r)
   @ [(''outside_runtime_execution_ns'', JInt (pr_outside r))]"

definition regime_row :: "(string \<times> json) list \<Rightarrow> string \<times> regime_summary \<Rightarrow> table_row res" where
  "regime_row baseline = (\<lambda>(regime, s).
     bindE (jitems (summary_json (rg_latency s))) (\<lambda>latency. bindE (jat (rg_clock s) ''mean'') (\<lambda>clock_mean.
     Inr ([(''model'', jlookup baseline ''model''), (''regime'', JStr regime)] @ latency @
       [(''runtime_execution_mean_ns'', JFloat (sm_mean (rg_execution s))), (''runtime_execution_median_ns'', JFloat (sm_median (rg_execution s))),
        (''clock_equivalent_mean_intervals'', clock_mean), (''bootstrap_lower_ns'', JFloat (bs_lower (rg_bootstrap s))),
        (''bootstrap_upper_ns'', JFloat (bs_upper (rg_bootstrap s))), (''session_count'', JInt (int (bs_count (rg_bootstrap s))))]))))"

definition power_rows :: "bench_session \<Rightarrow> table_row list res" where
  "power_rows s =
     bindE (jget (ss_power s) ''status'') (\<lambda>status.
     if \<not> jeq status (JStr ''available'') then Inr []
     else bindE (mapE (\<lambda>kind. bindE (jat (ss_power s) kind) (\<lambda>scopes. bindE (jitems scopes) (\<lambda>kvs.
         mapE (\<lambda>(scope, metrics). bindE (jat (ss_power s) ''power_phase'') (\<lambda>phase. bindE (jat (ss_power s) ''executed_iterations'') (\<lambda>executed.
           bindE (jitems metrics) (\<lambda>ms. Inr ([(''session'', JStr (ss_name s)), (''power_phase'', phase), (''scope_type'', JStr (remove_suffix kind ''s'')),
             (''scope'', JStr scope), (''executed_iterations'', executed)] @ ms))))) kvs))) [''domains'', ''rails'']) (\<lambda>tables. Inr (concat tables)))"

text \<open>What an import computes, and its documents and tables.\<close>

record perf_import =
  pd_state :: import_state
  pd_baseline :: "(string \<times> json) list"
  pd_grouped :: regime_rows
  pd_summaries :: "(string \<times> regime_summary) list"
  pd_throughput :: json
  pd_overhead :: json

definition import_performance_tables :: "perf_env \<Rightarrow> archive list \<Rightarrow> path \<Rightarrow> fs \<Rightarrow> (perf_import \<times> fs) res" where
  "import_performance_tables pe archives out_dir fs =
     bindE (import_sessions (env_float pe) archives) (\<lambda>st.
     let baseline = (case im_baseline st of None \<Rightarrow> [] | Some b \<Rightarrow> b); grouped = group_by pr_regime (im_rows st); e = env.truncate pe in
     bindE (regime_summaries pe (clock_of baseline) grouped) (\<lambda>summaries.
     bindE (throughput_definitions summaries) (\<lambda>throughput. bindE (software_overhead (pe_root pe) grouped) (\<lambda>overhead. bindE (pilot_sanity grouped) (\<lambda>sanity.
     bindE (write_csv e (out_dir @ [''performance-raw.csv'']) (map raw_row (im_rows st)) fs) (\<lambda>fs1.
     let fs2 = write_json e (out_dir @ [''performance-summary.json'']) (summary_document st baseline summaries throughput overhead sanity) fs1 in
     bindE (mapE (regime_row baseline) summaries) (\<lambda>summary_rows.
     bindE (write_csv e (out_dir @ [''performance-summary.csv'']) summary_rows fs2) (\<lambda>fs3.
     bindE (mapE power_rows (im_sessions st)) (\<lambda>tables.
     bindE (if concat tables = [] then Inr fs3 else write_csv e (out_dir @ [''power-summary.csv'']) (concat tables) fs3) (\<lambda>fs4.
     Inr (\<lparr>pd_state = st, pd_baseline = baseline, pd_grouped = grouped, pd_summaries = summaries, pd_throughput = throughput, pd_overhead = overhead\<rparr>, fs4)))))))))))"

subsection \<open>Facts\<close>

text \<open>The evidence of a session that the import insists on: no missing provenance, and a verified clock.\<close>

definition clock_verified :: "(string \<times> json) list \<Rightarrow> bool" where
  "clock_verified p = (case (jlookup p ''nvdla_clock_hz'', jlookup p ''nvdla_clock_expected_hz'', jlookup p ''nvdla_clock_tolerance_hz'') of
       (JInt rate, JInt expected, JInt tolerance) \<Rightarrow> 0 < rate \<and> 0 < expected \<and> \<bar>rate - expected\<bar> \<le> tolerance
     | _ \<Rightarrow> False)"

definition session_ok :: "bench_session \<Rightarrow> bool" where
  "session_ok s \<longleftrightarrow> missing_provenance (ss_provenance s) = [] \<and> clock_verified (ss_provenance s) \<and> ee_boot_id (ss_environment s) \<noteq> []"

definition row_ok :: "perf_row \<Rightarrow> bool" where
  "row_ok r \<longleftrightarrow> 0 < pr_runtime r \<and> 100 * pr_overhead r \<le> pr_runtime r \<and> 0 \<le> pr_outside r"

lemma provenance_facts:
  assumes "provenance fr fs base env = Inr p"
  shows "missing_provenance p = []" and "clock_verified p"
proof -
  from assms obtain software modules uname ck a b complexity where
    p: "p = provenance_fields env software modules uname ck a b complexity" and m: "missing_provenance p = []" and ck: "clock_rates env = Inr ck"
    unfolding provenance_def Let_def bindE_Inr_iff guardE_Inr_iff sum.inject by (elim exE conjE) (rule that; (assumption | rule sym, assumption | (hypsubst, assumption)))
  from ck have "0 < ck_rate ck" "0 < ck_expected ck" "\<bar>ck_rate ck - ck_expected ck\<bar> \<le> ck_tolerance ck"
    by (auto simp: clock_rates_def bindE_Inr_iff guardE_Inr_iff)
  then show "clock_verified p" by (simp add: p provenance_fields_def clock_verified_def jlookup_def)
  show "missing_provenance p = []" by (rule m)
qed

lemma environment_boot: "environment_evidence fs base env = Inr e \<Longrightarrow> ee_boot_id e \<noteq> []"
  by (auto simp: environment_evidence_def Let_def bindE_Inr_iff guardE_Inr_iff)

definition import_ok :: "import_state \<Rightarrow> bool" where
  "import_ok st \<longleftrightarrow> distinct (im_boot_ids st) \<and> im_boot_ids st = rev (map (ee_boot_id \<circ> ss_environment) (im_sessions st)) \<and>
     list_all session_ok (im_sessions st) \<and> list_all (\<lambda>r. row_ok r \<and> pr_session r \<in> set (map ss_name (im_sessions st))) (im_rows st) \<and>
     (case im_baseline st of None \<Rightarrow> im_sessions st = []
      | Some b \<Rightarrow> im_sessions st \<noteq> [] \<and> b = ss_provenance (hd (im_sessions st)) \<and>
          list_all (\<lambda>s. provenance_differences (ss_provenance s) b = []) (im_sessions st))"

lemma same_provenance: "provenance_differences p p = []"
  by (simp add: provenance_differences_def jeq_def)

lemma import_archive_ok:
  assumes "import_archive fr (i, a) st = Inr st'" and "import_ok st"
  shows "import_ok st' \<and> length (im_sessions st') = Suc (length (im_sessions st))"
proof -
  from assms(1) obtain base fs env e prov baseline rows power where e: "environment_evidence fs base env = Inr e"
    and new: "ee_boot_id e \<notin> set (im_boot_ids st)" and prov: "provenance fr fs base env = Inr prov"
    and bl: "(case im_baseline st of None \<Rightarrow> Inr prov
       | Some b \<Rightarrow> bindE (guardE (provenance_differences prov b = []) (ValueError ''mixed benchmark provenance'')) (\<lambda>_. Inr b)) = Inr baseline"
    and rows: "profile_rows fs base (path_name base) (text_at prov ''model'') (text_at prov ''benchmark_cpu'') = Inr rows"
    and st': "st' = \<lparr>im_rows = im_rows st @ rows,
          im_sessions = im_sessions st @ [\<lparr>ss_name = path_name base, ss_archive = a, ss_provenance = prov, ss_environment = e, ss_power = power\<rparr>],
          im_baseline = Some baseline, im_boot_ids = ee_boot_id e # im_boot_ids st\<rparr>"
    unfolding import_archive_def Let_def bindE_Inr_iff guardE_Inr_iff prod.case split_paired_Ex sum.inject
    by (elim exE conjE) (rule that; (assumption | rule sym, assumption))
  note r = profile_rows_facts(2) [OF rows]
  have rs: "list_all (\<lambda>r. row_ok r \<and> pr_session r = path_name base) rows"
    by (rule list.pred_mono_strong [OF r]) (simp add: row_qualified_def row_ok_def)
  show ?thesis using assms(2) new provenance_facts [OF prov] environment_boot [OF e] bl rs unfolding st'
    by (auto simp: import_ok_def session_ok_def same_provenance list_all_iff bindE_Inr_iff guardE_Inr_iff split: option.splits)
qed


text \<open>C12: an import succeeds only with one session per archive, sessions from pairwise different boots and
  with the same provenance, each with complete provenance and a verified clock; every imported measurement
  belongs to one of them and has a small clock overhead.\<close>

theorem import_independent:
  "case import_sessions fr archives of
     Inl e \<Rightarrow> True
   | Inr st \<Rightarrow> length (im_sessions st) = length archives \<and> archives \<noteq> [] \<and>
       distinct (map (ee_boot_id \<circ> ss_environment) (im_sessions st)) \<and> list_all session_ok (im_sessions st) \<and>
       im_baseline st = Some (ss_provenance (hd (im_sessions st))) \<and>
       list_all (\<lambda>s. provenance_differences (ss_provenance s) (ss_provenance (hd (im_sessions st))) = []) (im_sessions st) \<and>
       list_all (\<lambda>r. row_ok r \<and> pr_session r \<in> set (map ss_name (im_sessions st))) (im_rows st)"
proof (cases "import_sessions fr archives")
  case (Inr st)
  have run: "foldE (import_archive fr) ias s = Inr t \<Longrightarrow> import_ok s \<Longrightarrow>
      import_ok t \<and> length (im_sessions t) = length ias + length (im_sessions s)" for ias s t
  proof (induction ias arbitrary: s)
    case (Cons ia ias)
    then obtain u where u: "import_archive fr ia s = Inr u" "foldE (import_archive fr) ias u = Inr t" by (auto simp: bindE_Inr_iff)
    obtain i a where "ia = (i, a)" by (cases ia)
    with import_archive_ok [of fr i a s u] u(1) Cons.prems(2) Cons.IH [OF u(2)] show ?case by simp
  qed simp
  from Inr have ne: "archives \<noteq> []" and fold: "foldE (import_archive fr) (zip [0..<length archives] archives) import_start = Inr st"
    by (auto simp: import_sessions_def bindE_Inr_iff guardE_Inr_iff)
  have "import_ok import_start" by (simp add: import_ok_def import_start_def)
  from run [OF fold this] have ok: "import_ok st" and len: "length (im_sessions st) = length archives" by (simp_all add: import_start_def)
  from ok len ne have "im_baseline st = Some (ss_provenance (hd (im_sessions st)))" by (auto simp: import_ok_def split: option.splits)
  moreover from ok have "distinct (map (ee_boot_id \<circ> ss_environment) (im_sessions st))" unfolding import_ok_def by (metis distinct_rev)
  ultimately show ?thesis using ok len ne by (simp add: Inr import_ok_def)
qed simp

end
