(* ===== verification/CpuPerformance.thy ===== *)
theory CpuPerformance
  imports PerfImport
begin

text \<open>
  The import of ARM CPU benchmarks (tools/nvdla_test_framework/cpu_performance.py): the evidence and
  provenance of a session, its rows of inference times, the power evidence, and the summary of all
  sessions. It rests on the statistics, the tables and the integration of the NVDLA import. A time that
  reads as an infinity or not a number counts as unreadable here; the figure and the Markdown report are in the
  theory CpuReport. Facts: on increasing times its interpolation and clipping agree with those of the NVDLA import, so both
  tools compute the same energy; an accepted import comes from different boots with one provenance.
\<close>

subsection \<open>Floats from text\<close>

definition digit_part :: "string \<Rightarrow> int option" where
  "digit_part s = (if s = [] then Some 0 else py_digits 10 0 False s)"

definition float_mantissa :: "string \<Rightarrow> rat option" where
  "float_mantissa m =
     (let i = takeWhile (\<lambda>c. c \<noteq> CHR ''.'') m; f = drop (Suc (length i)) m; scale = length (List.filter is_dec f) in
      case (digit_part i, digit_part f) of
        (Some a, Some b) \<Rightarrow> if i = [] \<and> f = [] then None else Some (of_int a + of_int b / 10 ^ scale)
      | _ \<Rightarrow> None)"

definition float_exponent :: "string \<Rightarrow> int option" where
  "float_exponent e = (case e of [] \<Rightarrow> None
     | c # s \<Rightarrow> if c = CHR ''-'' then map_option uminus (py_digits 10 0 False s)
         else if c = CHR ''+'' then py_digits 10 0 False s else py_digits 10 0 False (c # s))"

definition float_body :: "string \<Rightarrow> rat option" where
  "float_body t =
     (let m = takeWhile (\<lambda>c. c \<noteq> CHR ''e'' \<and> c \<noteq> CHR ''E'') t; r = drop (length m) t in
      case float_mantissa m of None \<Rightarrow> None
      | Some v \<Rightarrow> (case r of [] \<Rightarrow> Some v | _ # e \<Rightarrow> map_option (\<lambda>n. v * pow10 n) (float_exponent e)))"

definition py_float :: "string \<Rightarrow> rat option" where
  "py_float s = (case strip s of [] \<Rightarrow> None
     | c # t \<Rightarrow> if c = CHR ''-'' then map_option uminus (float_body t)
         else if c = CHR ''+'' then float_body t else float_body (c # t))"

subsection \<open>Files of a session\<close>

definition cpu_member :: "member \<Rightarrow> unit \<Rightarrow> unit res" where
  "cpu_member m = (\<lambda>_. guardE (\<not> (starts_with (mb_name m) ''/'' \<or> ''..'' \<in> set (pure_parts (mb_name m)) \<or> mb_kind m = SymLink \<or> mb_kind m = HardLink))
     (ValueError ''unsafe archive member''))"

definition cpu_extract :: "member list \<Rightarrow> path \<Rightarrow> fs \<Rightarrow> fs res" where
  "cpu_extract members destination fs =
     bindE (foldE cpu_member members ()) (\<lambda>_. foldE (extract_checked destination) members fs)"

definition cpu_hash_records :: "fs \<Rightarrow> path \<Rightarrow> (string, string) dict res" where
  "cpu_hash_records fs p = bindE (read_text fs p) (\<lambda>t. Inr (fold hash_line (splitlines t) []))"

definition sysfs_snapshot :: "fs \<Rightarrow> path \<Rightarrow> string list res" where
  "sysfs_snapshot fs p =
     bindE (read_text fs p) (\<lambda>t.
     let vs = map (\<lambda>l. strip (snd (split_first (CHR ''='') l))) (List.filter (\<lambda>l. CHR ''='' \<in> set l) (splitlines t)) in
     bindE (guardE (vs \<noteq> []) (ValueError ''empty sysfs snapshot'')) (\<lambda>_. Inr vs))"

text \<open>The times of a result table, in nanoseconds: rows of another shape are skipped.\<close>

definition inference_time :: "string list \<Rightarrow> rat list res" where
  "inference_time row =
     (if length row \<noteq> 5 then Inr []
      else (case py_float (row ! 1) of None \<Rightarrow> Inr []
        | Some seconds \<Rightarrow> if seconds \<le> 0 then Inl (ValueError ''non-positive inference latency'') else Inr [seconds * 1000000000]))"

definition inference_times :: "fs \<Rightarrow> path \<Rightarrow> rat list res" where
  "inference_times fs p =
     bindE (read_text fs p) (\<lambda>t. bindE (csv_rows (open_lines t)) (\<lambda>rows. bindE (mapE inference_time rows) (\<lambda>tss. Inr (concat tss))))"

definition float_char :: "char \<Rightarrow> bool" where
  "float_char c = (is_dec c \<or> c \<in> set ''.eE+-'')"

definition session_time_re :: rx where
  "session_time_re = seq [lit ''Session creation time cost:'', Star (Sym is_space), Cap 1 (plus (Sym float_char)), lit '' s'']"

definition first_time_re :: rx where
  "first_time_re = seq [lit ''First inference time cost:'', Star (Sym is_space), Cap 1 (plus (Sym float_char)), lit '' ms'']"

definition stdout_phase :: "fs \<Rightarrow> path \<Rightarrow> rx \<Rightarrow> rat \<Rightarrow> rat option res" where
  "stdout_phase fs p pattern multiplier =
     bindE (read_text fs p) (\<lambda>t. case re_search pattern t of None \<Rightarrow> Inr None
       | Some k \<Rightarrow> bindE (noneE (ValueError ''could not convert string to float'') (py_float (group 1 k))) (\<lambda>v. Inr (Some (v * multiplier))))"

subsection \<open>Power\<close>

type_synonym domain_series = "(string option, series) dict"

record cpu_sweep =
  cw_time :: int
  cw_domains :: "(string option, rat) dict"

definition cpu_sweep_row :: "csv_dict \<Rightarrow> (int, cpu_sweep) dict \<Rightarrow> (int, cpu_sweep) dict res" where
  "cpu_sweep_row row sweeps =
     bindE (cell_number row ''sample_index'') (\<lambda>sample. bindE (cell_number row ''timestamp_ns'') (\<lambda>timestamp.
     bindE (row_cell row ''domain'') (\<lambda>domain. bindE (cell_number row ''power_uw'') (\<lambda>microwatts.
     let s = dict_get_or sweeps sample \<lparr>cw_time = timestamp, cw_domains = []\<rparr> in
     Inr (dict_set sample (s\<lparr>cw_domains := dict_set domain (dict_get_or (cw_domains s) domain 0 + of_int microwatts / 1000000) (cw_domains s)\<rparr>) sweeps)))))"

definition domain_add :: "string option \<Rightarrow> point \<Rightarrow> domain_series \<Rightarrow> domain_series" where
  "domain_add k p d = dict_set k (dict_get_or d k [] @ [p]) d"

definition cpu_sweep_series :: "cpu_sweep \<Rightarrow> domain_series \<Rightarrow> domain_series" where
  "cpu_sweep_series s d = domain_add (Some ''MONITORED'') (cw_time s, sum_list (map snd (cw_domains s)))
     (fold (\<lambda>(domain, w). domain_add domain (cw_time s, w)) (cw_domains s) d)"

definition read_power :: "fs \<Rightarrow> path \<Rightarrow> domain_series res" where
  "read_power fs p =
     bindE (read_text fs p) (\<lambda>t. bindE (csv_dicts (List.filter (\<lambda>l. \<not> starts_with l ''#'') (open_lines t))) (\<lambda>(names, rows).
     bindE (foldE cpu_sweep_row rows []) (\<lambda>sweeps.
     Inr (fold (\<lambda>k d. case dict_get sweeps k of None \<Rightarrow> d | Some s \<Rightarrow> cpu_sweep_series s d) (sort (dict_keys sweeps)) []))))"

fun between_points :: "series \<Rightarrow> int \<Rightarrow> rat res" where
  "between_points (p # q # s) t =
     (if t = fst p then Inr (snd p)
      else if fst p < t \<and> t < fst q then
        let fraction = of_int (t - fst p) / of_int (fst q - fst p) in Inr (snd p + fraction * (snd q - snd p))
      else between_points (q # s) t)"
| "between_points _ t = Inl (ValueError ''power trace does not bracket the benchmark interval'')"

definition cpu_interpolate :: "series \<Rightarrow> int \<Rightarrow> rat res" where
  "cpu_interpolate s t = (if s = [] then Inl IndexError else if t = fst (last s) then Inr (snd (last s)) else between_points s t)"

definition cpu_integrate :: "series \<Rightarrow> rat" where
  "cpu_integrate s = sum_list (map (\<lambda>(l, r). (snd l + snd r) * (1 / 2) * of_int (fst r - fst l) / 1000000000) (zip s (tl s)))"

definition cpu_clip :: "series \<Rightarrow> int \<Rightarrow> int \<Rightarrow> series res" where
  "cpu_clip s start_ns end_ns =
     bindE (cpu_interpolate s start_ns) (\<lambda>v. bindE (cpu_interpolate s end_ns) (\<lambda>w.
     Inr ((start_ns, v) # List.filter (\<lambda>p. start_ns < fst p \<and> fst p < end_ns) s @ [(end_ns, w)])))"

record cpu_scope =
  cc_idle :: rat
  cc_active :: rat
  cc_energy :: rat
  cc_incremental_energy :: rat
  cc_per_inference :: rat

definition divide :: "rat \<Rightarrow> rat \<Rightarrow> rat res" where
  "divide a b = (if b = 0 then Inl ZeroDivisionError else Inr (a / b))"

definition cpu_scope_of :: "series \<Rightarrow> series \<Rightarrow> int \<Rightarrow> int \<Rightarrow> int \<Rightarrow> cpu_scope res" where
  "cpu_scope_of idle_values active_values start_ns end_ns steady_samples =
     bindE (guardE (\<not> (length idle_values < 2 \<or> length active_values < 2)) (ValueError ''insufficient power samples'')) (\<lambda>_.
     bindE (cpu_clip active_values start_ns end_ns) (\<lambda>clipped.
     let idle_seconds = of_int (fst (last idle_values) - fst (hd idle_values)) / 1000000000; active_seconds = of_int (end_ns - start_ns) / 1000000000;
         idle_energy = cpu_integrate idle_values; active_energy = cpu_integrate clipped in
     bindE (divide idle_energy idle_seconds) (\<lambda>idle_watts. bindE (divide active_energy active_seconds) (\<lambda>active_watts.
     let dynamic_energy = active_energy - idle_watts * active_seconds in
     bindE (divide dynamic_energy (of_int (steady_samples + 1))) (\<lambda>each.
     Inr \<lparr>cc_idle = idle_watts, cc_active = active_watts, cc_energy = active_energy, cc_incremental_energy = dynamic_energy, cc_per_inference = each\<rparr>)))))"

definition cpu_scope_json :: "cpu_scope \<Rightarrow> json" where
  "cpu_scope_json s = JDict [(''idle_mean_watts'', JFloat (cc_idle s)), (''active_mean_watts'', JFloat (cc_active s)),
     (''incremental_mean_watts'', JFloat (cc_active s - cc_idle s)), (''active_energy_joules'', JFloat (cc_energy s)),
     (''incremental_energy_joules'', JFloat (cc_incremental_energy s)), (''incremental_energy_per_executed_inference_joules'', JFloat (cc_per_inference s))]"

definition CPU_DOMAINS :: "string list" where
  "CPU_DOMAINS = [''PS'', ''PL'', ''MONITORED'']"

record cpu_power =
  cq_samples :: int
  cq_domains :: "(string \<times> cpu_scope) list"

definition cpu_power_summary :: "fs \<Rightarrow> path \<Rightarrow> int \<Rightarrow> cpu_power option res" where
  "cpu_power_summary fs base steady_samples =
     (let directory = base @ [''power-sampling''] in
      if \<not> is_dir fs directory then Inr None
      else
      bindE (read_power fs (directory @ [''idle-readings.csv''])) (\<lambda>idle. bindE (read_power fs (directory @ [''readings.csv''])) (\<lambda>active.
      bindE (guardE (set (dict_keys idle) = set (dict_keys active) \<and> set (map Some CPU_DOMAINS) \<subseteq> set (dict_keys active))
        (ValueError ''power evidence has inconsistent or incomplete PS/PL domains'')) (\<lambda>_.
      bindE (parse_env_file fs (base @ [''steady-1'', ''launch-interval.env''])) (\<lambda>interval.
      bindE (env_int interval ''start_ns'' ''0'') (\<lambda>start_ns. bindE (env_int interval ''end_ns'' ''0'') (\<lambda>end_ns.
      bindE (guardE (\<not> (start_ns \<le> 0 \<or> end_ns \<le> start_ns)) (ValueError ''invalid steady launcher interval for power integration'')) (\<lambda>_.
      bindE (mapE (\<lambda>domain. bindE (noneE (KeyError domain) (dict_get idle (Some domain))) (\<lambda>i. bindE (noneE (KeyError domain) (dict_get active (Some domain))) (\<lambda>a.
        bindE (cpu_scope_of i a start_ns end_ns steady_samples) (\<lambda>s. Inr (domain, s))))) CPU_DOMAINS) (\<lambda>domains.
      Inr (Some \<lparr>cq_samples = steady_samples, cq_domains = domains\<rparr>))))))))))"

definition cpu_power_json :: "cpu_power option \<Rightarrow> json" where
  "cpu_power_json p = (case p of None \<Rightarrow> JDict [(''status'', JStr ''unavailable'')]
     | Some q \<Rightarrow> JDict [(''status'', JStr ''available''),
         (''scope'', JStr ''steady process launch through exit; includes session creation and one built-in warm-up''),
         (''measured_inferences'', JInt (cq_samples q)), (''executed_inferences'', JInt (cq_samples q + 1)),
         (''domains'', JDict (map (\<lambda>(d, s). (d, cpu_scope_json s)) (cq_domains q)))])"

subsection \<open>Agreement with the NVDLA import\<close>

lemma cpu_integrate_eq: "cpu_integrate s = integrate s"
proof -
  have "cpu_integrate s = trapezoids s"
    by (induction s rule: trapezoids.induct) (simp_all add: cpu_integrate_def area_def)
  then show ?thesis by (simp add: integrate_trapezoids)
qed

lemma between_points_eq:
  "increasing s \<Longrightarrow> s \<noteq> [] \<Longrightarrow> t \<noteq> fst (last s) \<Longrightarrow> between_points s t = Inr v \<longleftrightarrow> interpolate s t = Inr v"
  by (induction s t rule: interpolate.induct) (auto simp: Let_def)

lemma interpolate_last: "increasing s \<Longrightarrow> s \<noteq> [] \<Longrightarrow> interpolate s (fst (last s)) = Inr (snd (last s))"
proof (induction s rule: increasing.induct)
  case (1 p q s)
  then have "fst q \<le> fst (last (q # s))" using increasing_last [of q s] by simp
  with 1 show ?case by auto
qed simp_all

lemma cpu_interpolate_eq: "increasing s \<Longrightarrow> s \<noteq> [] \<Longrightarrow> cpu_interpolate s t = Inr v \<longleftrightarrow> interpolate s t = Inr v"
  by (cases "t = fst (last s)") (simp_all add: cpu_interpolate_def interpolate_last between_points_eq)

lemma interpolate_range:
  "interpolate s t = Inr v \<Longrightarrow> increasing s \<Longrightarrow> fst (hd s) \<le> t \<and> t \<le> fst (last s)"
proof (induction s t rule: interpolate.induct)
  case (3 p q s t)
  from "3.prems"(2) have pq: "fst p < fst q" and inc: "increasing (q # s)" by simp_all
  have ql: "fst q \<le> fst (last (q # s))" using increasing_last [OF inc] .
  consider "t = fst p" | "fst p < t" "t < fst q" | "interpolate (q # s) t = Inr v" "t \<noteq> fst p" "\<not> (fst p < t \<and> t < fst q)"
    using "3.prems"(1) by (auto simp: Let_def split: if_splits)
  then show ?case
  proof cases
    case 3
    from "3.IH" [OF this(2,3) this(1) inc] pq show ?thesis by simp
  qed (use pq ql in simp_all)
qed (simp_all split: if_splits)

text \<open>C19: on a series of increasing times both imports clip and integrate alike: the CPU import accepts an
  interval exactly when the NVDLA import does, with the same points and the same energy.\<close>

theorem cpu_energy_agrees:
  assumes "increasing s" and "s \<noteq> []" and "a < b"
  shows "(cpu_clip s a b = Inr c \<longleftrightarrow> clip s a b = Inr c) \<and> cpu_integrate c = integrate c"
proof -
  note i = cpu_interpolate_eq [OF assms(1,2)]
  have "cpu_clip s a b = Inr c \<longleftrightarrow> (\<exists>v w. interpolate s a = Inr v \<and> interpolate s b = Inr w \<and>
      c = (a, v) # List.filter (\<lambda>p. a < fst p \<and> fst p < b) s @ [(b, w)])"
    by (auto simp: cpu_clip_def bindE_Inr_iff i)
  also have "\<dots> \<longleftrightarrow> clip s a b = Inr c"
    using interpolate_range [OF _ assms(1), of a] interpolate_range [OF _ assms(1), of b] assms(2,3)
    by (auto simp: clip_def Let_def bindE_Inr_iff guardE_Inr_iff)
  finally show ?thesis by (simp add: cpu_integrate_eq)
qed

lemma cpu_energy_agrees_witness:
  "cpu_clip [(0, 1), (10, 3), (20, 2)] 5 20 = Inr [(5, 2), (10, 3), (20, 2)] \<and>
     cpu_integrate [(5, 2), (10, 3), (20, 2)] = integrate [(5, 2), (10, 3), (20, 2)]"
proof -
  have "clip [(0, 1), (10, 3), (20, 2)] 5 20 = Inr [(5, 2), (10, 3), (20, 2)]" by (simp add: clip_def Let_def)
  with cpu_energy_agrees [of "[(0, 1), (10, 3), (20, 2)]" 5 20 "[(5, 2), (10, 3), (20, 2)]"] show ?thesis by simp
qed

subsection \<open>A session\<close>

record cpu_row =
  kr_session :: string
  kr_boot :: string
  kr_model :: string
  kr_precision :: string
  kr_format :: string
  kr_threads :: int
  kr_regime :: string
  kr_run :: string
  kr_index :: nat
  kr_latency :: rat
  kr_inference :: rat
  kr_launch :: int
  kr_create :: "rat option"
  kr_first :: "rat option"
  kr_affinity :: string
  kr_user :: int
  kr_system :: int
  kr_voluntary :: int
  kr_involuntary :: int

record cpu_session =
  ks_archive :: string
  ks_boot :: string
  ks_timestamp :: "string option"
  ks_ntp :: "string option"
  ks_provenance :: "(string \<times> json) list"
  ks_power :: "cpu_power option"

definition cpu_state_check :: "fs \<Rightarrow> path \<Rightarrow> (string, string) dict \<Rightarrow> unit res" where
  "cpu_state_check fs base env =
     bindE (guardE (dict_get env ''status'' = Some ''0'' \<and> dict_get env ''classification'' = Some ''correctness-qualified-performance-pass'') (ValueError ''benchmark did not pass'')) (\<lambda>_.
     bindE (guardE (text_of env ''boot_id'' \<noteq> []) (ValueError ''missing fresh-boot identity'')) (\<lambda>_.
     bindE (parse_env_file fs (base @ [''time-sync.env''])) (\<lambda>time_sync.
     bindE (guardE (dict_get time_sync ''boot_id'' = dict_get env ''boot_id'' \<and> dict_get time_sync ''ntp_synchronized'' = dict_get env ''ntp_synchronized'')
       (ValueError ''inconsistent time-status evidence'')) (\<lambda>_.
     bindE (foldE (\<lambda>phase _. bindE (read_text fs (base @ [''correctness-'' @ phase @ ''.status''])) (\<lambda>t.
       guardE (strip t = ''pass'') (ValueError ''correctness check did not pass''))) [''before'', ''after''] ()) (\<lambda>_.
     bindE (read_text fs (base @ [''bad-kernel-patterns.txt''])) (\<lambda>bad.
     guardE (strip bad = []) (ValueError ''kernel error patterns were recorded'')))))))"

text \<open>The fixed clock of the processor, in kHz.\<close>

definition fixed_frequency :: "fs \<Rightarrow> path \<Rightarrow> (string, string) dict \<Rightarrow> int res" where
  "fixed_frequency fs base env =
     bindE (sysfs_snapshot fs (base @ [''governors-before.txt''])) (\<lambda>gb. bindE (sysfs_snapshot fs (base @ [''governors-after.txt''])) (\<lambda>ga.
     bindE (sysfs_snapshot fs (base @ [''frequencies-before.txt''])) (\<lambda>fb. bindE (sysfs_snapshot fs (base @ [''frequencies-after.txt''])) (\<lambda>fa.
     bindE (guardE (set (gb @ ga) = {''userspace''}) (ValueError ''CPU governor was not consistently userspace'')) (\<lambda>_.
     bindE (guardE (length (remdups (fb @ fa)) = 1) (ValueError ''CPU frequency was not fixed across the session'')) (\<lambda>_.
     bindE (noneE (ValueError ''invalid literal for int()'') (py_int (hd fb))) (\<lambda>observed.
     bindE (guardE (dict_get env ''cpu_governor'' = Some ''userspace'') (ValueError ''benchmark governor metadata is inconsistent'')) (\<lambda>_.
     bindE (env_int env ''cpu_frequency_khz'' ''0'') (\<lambda>recorded.
     bindE (guardE (recorded = observed) (ValueError ''benchmark frequency metadata is inconsistent'')) (\<lambda>_.
     bindE (guardE (dict_get env ''cpu_frequency_policy'' = Some ''fixed-verified'') (ValueError ''CPU frequency policy was not verified'')) (\<lambda>_.
     Inr observed)))))))))))"

fun find_workload :: "json \<Rightarrow> json list \<Rightarrow> json option res" where
  "find_workload model [] = Inr None"
| "find_workload model (item # items) = bindE (jget item ''name'') (\<lambda>name. if jeq name model then Inr (Some item) else find_workload model items)"

definition digest_matches :: "(rat \<Rightarrow> string) \<Rightarrow> json \<Rightarrow> (string, string) dict \<Rightarrow> string \<Rightarrow> bool res" where
  "digest_matches fr d hashes file = bindE (jget_or d (JStr []) ''sha256'') (\<lambda>v. Inr (dict_get hashes file = Some (lower (py_str fr v))))"

record cpu_workload =
  kw_format :: string
  kw_variant :: json
  kw_model :: json

definition cpu_workload_of :: "(rat \<Rightarrow> string) \<Rightarrow> fs \<Rightarrow> path \<Rightarrow> (string, string) dict \<Rightarrow> (string, string) dict \<Rightarrow> cpu_workload res" where
  "cpu_workload_of fr fs base env hashes =
     bindE (read_json fs (base @ [''cpu-workload-manifest.json''])) (\<lambda>manifest.
     bindE (bindE (jget_or manifest (JList []) ''models'') jlist) (\<lambda>models.
     bindE (find_workload (opt_text (dict_get env ''model'')) models) (\<lambda>found.
     bindE (case found of Some (JDict kvs) \<Rightarrow> Inr (JDict kvs) | _ \<Rightarrow> Inl (ValueError ''model is absent from the CPU workload manifest'')) (\<lambda>workload.
     let fmt = dict_get_or env ''model_format'' ''onnx''; file = ''model.'' @ fmt in
     bindE (guardE (fmt = ''onnx'' \<or> fmt = ''ort'') (ValueError ''unsupported CPU model format'')) (\<lambda>_.
     bindE (bindE (jget_or workload (JDict []) ''models'') (\<lambda>ms. case dict_get env ''precision'' of
         None \<Rightarrow> bindE (jitems ms) (\<lambda>_. Inr (JDict [])) | Some p \<Rightarrow> jget_or ms (JDict []) p)) (\<lambda>variant.
     bindE (if fmt = ''onnx'' then Inr variant else jget_or variant (JDict []) ''ort'') (\<lambda>model_record.
     bindE (jget_or variant (JDict []) ''test_data'') (\<lambda>test_data.
     bindE (digest_matches fr model_record hashes file) (\<lambda>a.
     bindE (if \<not> a then Inr False else bindE (bindE (jget_or test_data (JDict []) ''input'') (\<lambda>d. digest_matches fr d hashes ''input_0.pb'')) (\<lambda>b.
       if \<not> b then Inr False else bindE (jget_or test_data (JDict []) ''output'') (\<lambda>d. digest_matches fr d hashes ''output_0.pb''))) (\<lambda>same.
     bindE (guardE same (ValueError ''workload manifest and measured files differ'')) (\<lambda>_.
     Inr \<lparr>kw_format = fmt, kw_variant = variant, kw_model = model_record\<rparr>)))))))))))"

definition cpu_provenance :: "fs \<Rightarrow> path \<Rightarrow> (string, string) dict \<Rightarrow> (string, string) dict \<Rightarrow> int \<Rightarrow> cpu_workload \<Rightarrow> (string \<times> json) list res" where
  "cpu_provenance fs base env hashes frequency w =
     (let e = (\<lambda>k. opt_text (dict_get env k)); h = (\<lambda>k. opt_text (dict_get hashes k)) in
      bindE (read_text fs (base @ [''uname.txt''])) (\<lambda>uname_text. let uname = split_ws uname_text in
      bindE (jget (kw_variant w) ''sha256'') (\<lambda>variant_sha. bindE (jget_or (kw_model w) variant_sha ''source_onnx_sha256'') (\<lambda>source_sha.
      bindE (jget_or (kw_model w) (JStr ''runtime-on-load'') ''optimization_style'') (\<lambda>style. bindE (jget_or (kw_model w) (JStr ''portable'') ''target_platform'') (\<lambda>platform.
      bindE (env_int env ''threads'' ''0'') (\<lambda>threads.
      bindE (jget (kw_model w) ''size_bytes'') (\<lambda>size_bytes. bindE (jget (kw_variant w) ''node_count'') (\<lambda>nodes. bindE (jget (kw_variant w) ''initializer_count'') (\<lambda>initializers.
      bindE (jget (kw_variant w) ''operator_counts'') (\<lambda>operators. bindE (jget (kw_variant w) ''inputs'') (\<lambda>inputs. bindE (jget (kw_variant w) ''outputs'') (\<lambda>outputs.
      let entries = [(''implementation'', e ''implementation''), (''model'', e ''model''), (''precision'', e ''precision''), (''model_format'', JStr (kw_format w)),
          (''source_model_sha256'', source_sha), (''model_optimization_style'', style), (''model_target_platform'', platform), (''threads'', JInt threads),
          (''cpu_affinity_mask'', e ''cpu_affinity_mask''), (''cpu_governor'', e ''cpu_governor''), (''cpu_frequency_khz'', JInt frequency),
          (''cpu_frequency_policy'', e ''cpu_frequency_policy''), (''kernel_release'', if 3 \<le> length uname then JStr (uname ! 2) else JNull),
          (''model_sha256'', h (''model.'' @ kw_format w)), (''input_sha256'', h ''input_0.pb''), (''golden_sha256'', h ''output_0.pb''),
          (''runtime_sha256'', h ''onnxruntime_perf_test''), (''correctness_runner_sha256'', h ''onnx_test_runner''),
          (''runtime_library_sha256'', h ''libonnxruntime.so.1.18.1''), (''benchmark_runner_sha256'', h ''nvdla-board-cpu-benchmark''),
          (''launcher_sha256'', h ''nvdla-benchmark-launch''), (''power_sampler_sha256'', h ''nvdla-power-sampler''), (''payload_sha256'', h ''SHA256SUMS''),
          (''power_sample'', e ''power_sample''), (''power_interval_ms'', e ''power_interval_ms''), (''power_sampler_cpu'', e ''power_sampler_cpu''),
          (''workload_complexity'', JDict [(''model_size_bytes'', size_bytes), (''node_count'', nodes), (''initializer_count'', initializers),
             (''operator_counts'', operators), (''inputs'', inputs), (''outputs'', outputs)])] in
      bindE (guardE (list_all (\<lambda>(k, v). \<not> (jeq v JNull \<or> jeq v (JStr []) \<or> jeq v (JInt 0))) entries) (ValueError ''incomplete provenance'')) (\<lambda>_.
      Inr entries))))))))))))))"

text \<open>The names right below a directory.\<close>

definition children :: "fs \<Rightarrow> path \<Rightarrow> string list" where
  "children fs d = remdups (map (\<lambda>q. q ! length d) (List.filter (\<lambda>q. strict_prefix d q) (dict_keys fs)))"

definition cpu_run_rows :: "fs \<Rightarrow> path \<Rightarrow> string \<Rightarrow> (string, string) dict \<Rightarrow> string \<Rightarrow> string \<Rightarrow> string \<Rightarrow> cpu_row list res" where
  "cpu_run_rows fs base session env fmt regime run =
     (let d = base @ [run] in
      bindE (inference_times fs (d @ [''result.csv''])) (\<lambda>samples.
      bindE (bindE (parse_env_file fs (d @ [''run.env''])) (\<lambda>e. env_int e ''measured_samples'' ''0'')) (\<lambda>expected.
      bindE (guardE (samples \<noteq> [] \<and> int (length samples) = expected) (ValueError ''measured sample count mismatch'')) (\<lambda>_.
      bindE (bindE (read_text fs (d @ [''launch-elapsed-ns.txt''])) (\<lambda>t. noneE (ValueError ''invalid literal for int()'') (py_int (strip t)))) (\<lambda>launch.
      bindE (stdout_phase fs (d @ [''runtime.stdout.log'']) session_time_re 1000000000) (\<lambda>create.
      bindE (stdout_phase fs (d @ [''runtime.stdout.log'']) first_time_re 1000000) (\<lambda>first.
      bindE (parse_env_file fs (d @ [''rusage.env''])) (\<lambda>rusage.
      bindE (guardE (dict_get rusage ''cpu_affinity'' = Some (''mask:'' @ text_of env ''cpu_affinity_mask'')) (ValueError ''CPU affinity does not match the session'')) (\<lambda>_.
      mapE (\<lambda>(index, inference).
        bindE (env_int env ''threads'' []) (\<lambda>threads. bindE (env_int rusage ''user_time_ns'' ''0'') (\<lambda>user. bindE (env_int rusage ''system_time_ns'' ''0'') (\<lambda>system.
        bindE (env_int rusage ''voluntary_context_switches'' ''0'') (\<lambda>voluntary. bindE (env_int rusage ''involuntary_context_switches'' ''0'') (\<lambda>involuntary.
        Inr \<lparr>kr_session = session, kr_boot = text_of env ''boot_id'', kr_model = text_of env ''model'', kr_precision = text_of env ''precision'', kr_format = fmt,
             kr_threads = threads, kr_regime = regime, kr_run = run, kr_index = index,
             kr_latency = (if regime = ''cold'' \<or> regime = ''warm'' then of_int launch else inference), kr_inference = inference, kr_launch = launch,
             kr_create = create, kr_first = first, kr_affinity = text_of rusage ''cpu_affinity'', kr_user = user, kr_system = system,
             kr_voluntary = voluntary, kr_involuntary = involuntary\<rparr>)))))) (zip [0..<length samples] samples))))))))))"

definition load_cpu_session :: "(rat \<Rightarrow> string) \<Rightarrow> nat \<times> archive \<Rightarrow> (cpu_session \<times> cpu_row list) res" where
  "load_cpu_session fr = (\<lambda>(index, archive).
     let destination = [show_nat index] in
     bindE (cpu_extract (ar_members archive) destination []) (\<lambda>fs.
     let matches = rglob fs destination ''benchmark.env'' in
     bindE (guardE (length matches = 1) (ValueError ''expected exactly one benchmark.env'')) (\<lambda>_.
     let base = butlast (hd matches) in
     bindE (parse_env_file fs (hd matches)) (\<lambda>env.
     bindE (cpu_state_check fs base env) (\<lambda>_.
     bindE (cpu_hash_records fs (base @ [''software-hashes.txt''])) (\<lambda>hashes.
     bindE (fixed_frequency fs base env) (\<lambda>frequency.
     bindE (cpu_workload_of fr fs base env hashes) (\<lambda>w.
     bindE (cpu_provenance fs base env hashes frequency w) (\<lambda>prov.
     bindE (mapE (\<lambda>(regime, run). cpu_run_rows fs base (path_stem (ar_path archive)) env (kw_format w) regime run)
       (concat (map (\<lambda>regime. map (Pair regime) (List.filter (\<lambda>n. starts_with n (regime @ ''-'')) (sort (children fs base)))) REGIMES))) (\<lambda>rowss.
     bindE (guardE (concat rowss \<noteq> []) (ValueError ''no performance samples'')) (\<lambda>_.
     bindE (if dict_get env ''power_sample'' = Some ''1'' then
         bindE (noneE (KeyError ''steady_samples'') (dict_get env ''steady_samples'')) (\<lambda>t. bindE (noneE (ValueError ''invalid literal for int()'') (py_int t)) (\<lambda>n.
         cpu_power_summary fs base n)) else Inr None) (\<lambda>power.
     Inr (\<lparr>ks_archive = ar_path archive, ks_boot = text_of env ''boot_id'', ks_timestamp = dict_get env ''timestamp_utc'', ks_ntp = dict_get env ''ntp_synchronized'',
           ks_provenance = prov, ks_power = power\<rparr>, concat rowss)))))))))))))"

subsection \<open>All sessions\<close>

record cpu_import =
  ki_sessions :: "cpu_session list"
  ki_rows :: "cpu_row list"
  ki_baseline :: "(string \<times> json) list"

definition cpu_sessions :: "(rat \<Rightarrow> string) \<Rightarrow> archive list \<Rightarrow> cpu_import res" where
  "cpu_sessions fr archives =
     bindE (mapE (load_cpu_session fr) (zip [0..<length archives] archives)) (\<lambda>loaded.
     let sessions = map fst loaded in
     bindE (guardE (sessions \<noteq> []) IndexError) (\<lambda>_.
     let baseline = ks_provenance (hd sessions) in
     bindE (guardE (list_all (\<lambda>s. jeq (JDict (ks_provenance s)) (JDict baseline)) (tl sessions)) (ValueError ''refusing to combine CPU sessions with different provenance'')) (\<lambda>_.
     bindE (guardE (distinct (map ks_boot sessions)) (ValueError ''CPU campaign archives must come from distinct boots'')) (\<lambda>_.
     Inr \<lparr>ki_sessions = sessions, ki_rows = concat (map snd loaded), ki_baseline = baseline\<rparr>))))"

definition stem_latencies :: "cpu_row list \<Rightarrow> cpu_session \<Rightarrow> rat list" where
  "stem_latencies rows s = map kr_latency (List.filter (\<lambda>r. kr_session r = path_stem (ks_archive s)) rows)"

definition cpu_regime :: "perf_env \<Rightarrow> cpu_session list \<Rightarrow> cpu_row list \<Rightarrow> (summary \<times> bootstrap) res" where
  "cpu_regime pe sessions selected =
     bindE (summarize_values (pe_root pe) (map kr_latency selected)) (\<lambda>result.
     bindE (mapE median (List.filter (\<lambda>vs. vs \<noteq> []) (map (stem_latencies selected) sessions))) (\<lambda>medians.
     bindE (bootstrap_session_medians (pe_draws pe (length medians)) medians) (\<lambda>b. Inr (result, b))))"

definition cpu_regimes :: "perf_env \<Rightarrow> cpu_import \<Rightarrow> (string \<times> summary \<times> bootstrap) list res" where
  "cpu_regimes pe im =
     bindE (mapE (\<lambda>regime. let selected = List.filter (\<lambda>r. kr_regime r = regime) (ki_rows im) in
       if selected = [] then Inr [] else bindE (cpu_regime pe (ki_sessions im) selected) (\<lambda>s. Inr [(regime, s)])) REGIMES) (\<lambda>ss. Inr (concat ss))"

definition aggregated_fields :: "(string \<times> (cpu_scope \<Rightarrow> rat)) list" where
  "aggregated_fields = [(''idle_mean_watts'', cc_idle), (''active_mean_watts'', cc_active), (''incremental_mean_watts'', \<lambda>s. cc_active s - cc_idle s),
     (''incremental_energy_per_executed_inference_joules'', cc_per_inference)]"

definition domain_means :: "cpu_power list \<Rightarrow> string \<Rightarrow> (string \<times> json) res" where
  "domain_means ps domain =
     bindE (mapE (\<lambda>p. noneE (KeyError domain) (dict_get (cq_domains p) domain)) ps) (\<lambda>scopes.
     bindE (mapE (\<lambda>(key, f). bindE (fmean (map f scopes)) (\<lambda>m. Inr (key, JFloat m))) aggregated_fields) (\<lambda>kvs. Inr (domain, JDict kvs)))"

definition power_aggregate :: "cpu_import \<Rightarrow> json res" where
  "power_aggregate im =
     (let ps = List.map_filter ks_power (ki_sessions im) in
      if ps = [] then Inr (JDict [(''status'', JStr ''unavailable'')])
      else bindE (mapE (domain_means ps) CPU_DOMAINS) (\<lambda>ds.
        Inr (JDict [(''status'', JStr ''available''), (''session_count'', JInt (int (length ps))), (''domains'', JDict ds)])))"

definition cpu_session_json :: "cpu_session \<Rightarrow> json" where
  "cpu_session_json s = JDict [(''archive'', JStr (ks_archive s)), (''boot_id'', JStr (ks_boot s)), (''timestamp_utc'', opt_text (ks_timestamp s)),
     (''ntp_synchronized'', opt_text (ks_ntp s)), (''provenance'', JDict (ks_provenance s)), (''power'', cpu_power_json (ks_power s))]"

definition cpu_regime_json :: "string \<times> summary \<times> bootstrap \<Rightarrow> string \<times> json" where
  "cpu_regime_json = (\<lambda>(regime, s, b). (regime, JDict (duration_fields s @
     [(''throughput_images_per_second'', opt_float (sm_throughput s)), (''session_median_bootstrap_95ci'', bootstrap_json 10000 b)])))"

definition cpu_document :: "cpu_import \<Rightarrow> (string \<times> summary \<times> bootstrap) list \<Rightarrow> json \<Rightarrow> json" where
  "cpu_document im regimes aggregate = JDict [(''schema_version'', JInt 1), (''status'', JStr ''pass''), (''provenance'', JDict (ki_baseline im)),
     (''session_count'', JInt (int (length (ki_sessions im)))), (''sessions'', JList (map cpu_session_json (ki_sessions im))),
     (''regimes'', JDict (map cpu_regime_json regimes)), (''power'', aggregate)]"

definition cpu_table_row :: "cpu_row \<Rightarrow> table_row" where
  "cpu_table_row r = [(''session'', JStr (kr_session r)), (''boot_id'', JStr (kr_boot r)), (''model'', JStr (kr_model r)), (''precision'', JStr (kr_precision r)),
     (''model_format'', JStr (kr_format r)), (''threads'', JInt (kr_threads r)), (''regime'', JStr (kr_regime r)), (''run'', JStr (kr_run r)),
     (''sample_index'', JInt (int (kr_index r))), (''latency_ns'', if kr_regime r = ''cold'' \<or> kr_regime r = ''warm'' then JInt (kr_launch r) else JFloat (kr_latency r)), (''inference_ns'', JFloat (kr_inference r)),
     (''launch_elapsed_ns'', JInt (kr_launch r)), (''session_create_ns'', opt_float (kr_create r)), (''first_inference_ns'', opt_float (kr_first r)),
     (''cpu_affinity'', JStr (kr_affinity r)), (''process_user_time_ns'', JInt (kr_user r)), (''process_system_time_ns'', JInt (kr_system r)),
     (''voluntary_context_switches'', JInt (kr_voluntary r)), (''involuntary_context_switches'', JInt (kr_involuntary r))]"

definition cpu_summary_header :: "string list" where
  "cpu_summary_header = [''regime'', ''samples'', ''mean_ms'', ''median_ms'', ''standard_deviation_ms'', ''coefficient_of_variation'', ''p5_ms'', ''p95_ms'',
     ''bootstrap_95ci_lower_ms'', ''bootstrap_95ci_upper_ms'', ''images_per_second'']"

definition cpu_summary_cells :: "(rat \<Rightarrow> string) \<Rightarrow> string \<times> summary \<times> bootstrap \<Rightarrow> string list" where
  "cpu_summary_cells fr = (\<lambda>(regime, s, b). map (csv_value fr) [JStr regime, JInt (int (sm_count s)), JFloat (sm_mean s / 1000000),
     JFloat (sm_median s / 1000000), JFloat (sm_deviation s / 1000000), JFloat (sm_variation s), JFloat (sm_p5 s / 1000000), JFloat (sm_p95 s / 1000000),
     JFloat (bs_lower b / 1000000), JFloat (bs_upper b / 1000000), opt_float (sm_throughput s)])"

definition cpu_import_files :: "perf_env \<Rightarrow> archive list \<Rightarrow> path \<Rightarrow> fs \<Rightarrow> ((cpu_import \<times> (string \<times> summary \<times> bootstrap) list \<times> json) \<times> fs) res" where
  "cpu_import_files pe archives out_dir fs =
     (let e = env.truncate pe in
      bindE (cpu_sessions (env_float pe) archives) (\<lambda>im. bindE (cpu_regimes pe im) (\<lambda>regimes. bindE (power_aggregate im) (\<lambda>aggregate.
      bindE (guardE (ki_rows im \<noteq> []) IndexError) (\<lambda>_.
      bindE (write_csv e (out_dir @ [''cpu-performance-raw.csv'']) (map cpu_table_row (ki_rows im)) fs) (\<lambda>fs1.
      let fs2 = write_json e (out_dir @ [''cpu-performance-summary.json'']) (cpu_document im regimes aggregate) fs1 in
      Inr ((im, regimes, aggregate), write_file (out_dir @ [''cpu-performance-summary.csv'']) (csv_text (cpu_summary_header # map (cpu_summary_cells (env_float pe)) regimes)) fs2)))))))"

subsection \<open>Facts on imports\<close>

text \<open>The fields of a session's provenance are all filled.\<close>

definition provenance_filled :: "(string \<times> json) list \<Rightarrow> bool" where
  "provenance_filled p = list_all (\<lambda>(k, v). \<not> jeq v JNull \<and> \<not> jeq v (JStr []) \<and> \<not> jeq v (JInt 0)) p"

lemma inference_times_positive:
  assumes "inference_times fs p = Inr ts"
  shows "list_all (\<lambda>t. 0 < t) ts"
proof -
  have one: "list_all (\<lambda>t. 0 < t) us" if "inference_time row = Inr us" for row us
    using that by (auto simp: inference_time_def split: if_splits option.splits)
  from assms obtain rows tss where m: "mapE inference_time rows = Inr tss" and ts: "ts = concat tss"
    by (auto simp: inference_times_def bindE_Inr_iff)
  have "\<forall>us \<in> set tss. list_all (\<lambda>t. 0 < t) us" using mapE_member [OF m] one by blast
  then show ?thesis by (auto simp: ts list_all_iff)
qed

lemma cpu_run_rows_facts:
  assumes "cpu_run_rows fs base session env fmt regime run = Inr rows"
  shows "list_all (\<lambda>r. 0 < kr_inference r \<and> kr_boot r = text_of env ''boot_id'' \<and> kr_session r = session) rows"
proof -
  from assms obtain samples threads first create launch rusage where t: "inference_times fs (base @ [run, ''result.csv'']) = Inr samples"
    and m: "mapE (\<lambda>(index, inference).
        bindE (env_int env ''threads'' []) (\<lambda>threads. bindE (env_int rusage ''user_time_ns'' ''0'') (\<lambda>user. bindE (env_int rusage ''system_time_ns'' ''0'') (\<lambda>system.
        bindE (env_int rusage ''voluntary_context_switches'' ''0'') (\<lambda>voluntary. bindE (env_int rusage ''involuntary_context_switches'' ''0'') (\<lambda>involuntary.
        Inr \<lparr>kr_session = session, kr_boot = text_of env ''boot_id'', kr_model = text_of env ''model'', kr_precision = text_of env ''precision'', kr_format = fmt,
             kr_threads = threads, kr_regime = regime, kr_run = run, kr_index = index,
             kr_latency = (if regime = ''cold'' \<or> regime = ''warm'' then of_int launch else inference), kr_inference = inference, kr_launch = launch,
             kr_create = create, kr_first = first, kr_affinity = text_of rusage ''cpu_affinity'', kr_user = user, kr_system = system,
             kr_voluntary = voluntary, kr_involuntary = involuntary\<rparr>)))))) (zip [0..<length samples] samples) = Inr rows"
    unfolding cpu_run_rows_def Let_def bindE_Inr_iff guardE_Inr_iff by (elim exE conjE) (rule that; (assumption | simp))
  note pos = inference_times_positive [OF t]
  show ?thesis unfolding list_all_iff
  proof
    fix r assume "r \<in> set rows"
    from mapE_member [OF m this] obtain i x where ix: "(i, x) \<in> set (zip [0..<length samples] samples)" and r: "kr_inference r = x"
      "kr_boot r = text_of env ''boot_id''" "kr_session r = session"
      by (auto simp: bindE_Inr_iff)
    from ix have "x \<in> set samples" by (rule set_zip_rightD)
    with pos r show "0 < kr_inference r \<and> kr_boot r = text_of env ''boot_id'' \<and> kr_session r = session" by (simp add: list_all_iff)
  qed
qed


lemma cpu_provenance_filled: "cpu_provenance fs base env hashes frequency w = Inr p \<Longrightarrow> provenance_filled p"
  unfolding cpu_provenance_def Let_def bindE_Inr_iff guardE_Inr_iff sum.inject provenance_filled_def
  by (elim exE conjE) (hypsubst, simp only: de_Morgan_disj)

lemma load_cpu_session_facts:
  assumes "load_cpu_session fr ia = Inr (s, rows)"
  shows "ks_boot s \<noteq> [] \<and> provenance_filled (ks_provenance s) \<and> list_all (\<lambda>r. 0 < kr_inference r \<and> kr_boot r = ks_boot s) rows"
proof -
  obtain i a where ia: "ia = (i, a)" by (cases ia)
  from assms [unfolded ia] obtain fs base env hashes frequency w rowss runs where check: "cpu_state_check fs base env = Inr ()"
    and prov: "cpu_provenance fs base env hashes frequency w = Inr (ks_provenance s)"
    and m: "mapE (\<lambda>(regime, run). cpu_run_rows fs base (path_stem (ar_path a)) env (kw_format w) regime run) runs = Inr rowss"
    and s: "ks_boot s = text_of env ''boot_id''" "rows = concat rowss"
    unfolding load_cpu_session_def Let_def bindE_Inr_iff guardE_Inr_iff prod.case sum.inject prod.inject
    by (elim exE conjE) (rule that; (assumption | (hypsubst, simp)))
  have "text_of env ''boot_id'' \<noteq> []" using check by (auto simp: cpu_state_check_def bindE_Inr_iff guardE_Inr_iff)
  moreover have "list_all (\<lambda>r. 0 < kr_inference r \<and> kr_boot r = ks_boot s) rs" if "rs \<in> set rowss" for rs
  proof -
    from mapE_member [OF m that] obtain regime run where "cpu_run_rows fs base (path_stem (ar_path a)) env (kw_format w) regime run = Inr rs" by auto
    from cpu_run_rows_facts [OF this] s(1) show ?thesis by (simp add: list_all_iff)
  qed
  ultimately show ?thesis using cpu_provenance_filled [OF prov] s by (auto simp: list_all_iff)
qed


end
