(* ===== verification/PerfReport.thy ===== *)
theory PerfReport
  imports PerfImport Figures
begin

text \<open>
  The report of an import (the end of \<open>import_performance_archives\<close> in tools/nvdla_test_framework/performance.py):
  the figures, the lines of the Markdown text, and the whole operation with all the files it writes.
\<close>

subsection \<open>Parts of the text\<close>

definition session_figure_explanation :: "nat \<Rightarrow> string list" where
  "session_figure_explanation n = (if n < 2 then
       [''This report contains only one independent fresh-boot session, so between-boot variability cannot be estimated. The figure records this limitation instead of presenting a meaningless spread.'']
     else
       [''Each dot is one fresh boot'' @ [SQ] @ ''s median expressed as a percentage difference from the cross-boot median. Values close to zero indicate reproducible performance after rebooting.''])"

definition temperature_summary :: "bench_session list \<Rightarrow> string" where
  "temperature_summary sessions =
     (if list_ex (\<lambda>s. ee_before (ss_environment s) = ''available'' \<or> ee_after (ss_environment s) = ''available'') sessions
      then ''available; before/after sensor counts by session: ''
        @ join '', '' (map (\<lambda>s. show_int (ee_before_count (ss_environment s)) @ ''/'' @ show_int (ee_after_count (ss_environment s))) sessions)
      else ''unavailable on this image (recorded explicitly)'')"

definition spaced :: "string \<Rightarrow> string" where
  "spaced s = map (\<lambda>c. if c = CHR ''_'' then CHR '' '' else c) s"

text \<open>\<open>d[k]\<close> where a number is printed.\<close>

definition number_at :: "json \<Rightarrow> string \<Rightarrow> rat res" where
  "number_at d k = bindE (jat d k) jnum"

definition report_head :: "(rat \<Rightarrow> string) \<Rightarrow> (string \<times> json) list \<Rightarrow> bench_session list \<Rightarrow> (string \<times> regime_summary) list \<Rightarrow> string list res" where
  "report_head fr baseline sessions summaries =
     (let complexity = jlookup baseline ''workload_complexity'' in
      bindE (jat complexity ''loadable_size_bytes'') (\<lambda>loadable_size. bindE (jat complexity ''input_shape_nchw'') (\<lambda>input_shape.
      bindE (jat complexity ''hwl_count'') (\<lambda>hwl_count. bindE (jat complexity ''operation_counts'') (\<lambda>operations.
      bindE (guardE (summaries \<noteq> []) (ValueError ''max() arg is an empty sequence'')) (\<lambda>_.
      Inr ([''# NVDLA '' @ py_str fr (jlookup baseline ''model'') @ '' Performance Report'',
       [],
       ''- Independent fresh-boot sessions: '' @ show_nat (length sessions),
       ''- Session identity: unique Linux boot IDs'',
       ''- Wall-clock status: NTP synchronized for '' @ show_nat (filter_count (\<lambda>s. ee_ntp (ss_environment s) = ''yes'') sessions) @ ''/'' @ show_nat (length sessions) @ '' sessions (not used for latency timing or acceptance)'',
       ''- Temperature evidence: '' @ temperature_summary sessions,
       ''- Kernel: `'' @ py_str fr (jlookup baseline ''kernel_release'') @ ''`'',
       ''- NVDLA clock: `'' @ py_str fr (jlookup baseline ''nvdla_clock_hz'') @ ''` Hz observed; `'' @ py_str fr (jlookup baseline ''nvdla_clock_expected_hz'') @ ''` Hz expected from XSA (tolerance `'' @ py_str fr (jlookup baseline ''nvdla_clock_tolerance_hz'') @ ''` Hz)'',
       ''- Module SHA256: `'' @ py_str fr (jlookup baseline ''module_sha256'') @ ''`'',
       ''- Runtime SHA256: `'' @ py_str fr (jlookup baseline ''runtime_sha256'') @ ''`'',
       ''- Benchmark CPU affinity: `'' @ py_str fr (jlookup baseline ''benchmark_cpu'') @ ''`'',
       ''- Workload: `'' @ py_str fr loadable_size @ ''` byte loadable, input NCHW `'' @ py_str fr input_shape @ ''`, `'' @ py_str fr hwl_count @ ''` HWLs'',
       ''- Engine operations: `'' @ py_str fr operations @ ''`'',
       ''- Maximum timing-pair overhead: `'' @ fixed 6 (Max (set (map (rg_overhead_fraction \<circ> snd) summaries)) * 100) @ ''%` of runtime execution latency'',
       [],
       ''All accepted samples are correctness-qualified by exact golden output, output consistency, positive IRQ progress, clean kernel logs, and verified clock.'',
       ''No observations were discarded. Reported outliers remain in every statistic.'',
       [],
       ''## Latency'',
       [],
       ''| Regime | n | Mean (ms) | Median (ms) | SD (ms) | CV | p5 (ms) | p95 (ms) | Images/s | Outliers | Session median 95% CI (ms) |'',
       ''|---|---:|---:|---:|---:|---:|---:|---:|---:|---:|---:|''])))))))"

subsection \<open>Sections\<close>

text \<open>The rows of a table: one for each regime that has a summary, in order.\<close>

definition regime_rows_of :: "(string \<Rightarrow> regime_summary \<Rightarrow> string list res) \<Rightarrow> (string \<times> regime_summary) list \<Rightarrow> string list res" where
  "regime_rows_of row summaries = bindE (mapE (\<lambda>regime. case dict_get summaries regime of None \<Rightarrow> Inr [] | Some s \<Rightarrow> row regime s) REGIME_ORDER)
     (\<lambda>rows. Inr (concat rows))"

definition latency_row :: "string \<Rightarrow> regime_summary \<Rightarrow> string list res" where
  "latency_row regime s = (let st = rg_latency s; ci = rg_bootstrap s in
     bindE (noneE TypeError (sm_throughput st)) (\<lambda>rate. Inr
       [''| '' @ regime @ '' | '' @ show_nat (sm_count st) @ '' | '' @ fixed 3 (sm_mean st / 1000000) @ '' | '' @ fixed 3 (sm_median st / 1000000) @ '' | '' @ fixed 3 (sm_deviation st / 1000000) @ '' | '' @ fixed 4 (sm_variation st) @ '' | '' @ fixed 3 (sm_p5 st / 1000000) @ '' | '' @ fixed 3 (sm_p95 st / 1000000) @ '' | '' @ fixed 4 rate @ '' | '' @ show_nat (sm_outliers st) @ '' | '' @ fixed 3 (bs_lower ci / 1000000) @ '' to '' @ fixed 3 (bs_upper ci / 1000000) @ '' |'']))"

definition throughput_heading :: "string list" where
  "throughput_heading = [[],
       ''## Throughput Definitions'',
       [],
       ''| Definition | Images/s |'',
       ''|---|---:|'']"

definition throughput_names :: "string list" where
  "throughput_names = map snd throughput_labels @ [''theoretical_stage_bottleneck_upper_bound_images_per_second'']"

definition throughput_row :: "json \<Rightarrow> string \<Rightarrow> string list res" where
  "throughput_row throughput name = bindE (jitems throughput) (\<lambda>kvs. case dict_get kvs name of None \<Rightarrow> Inr []
     | Some v \<Rightarrow> bindE (jnum v) (\<lambda>rate. Inr [''| '' @ spaced name @ '' | '' @ fixed 4 rate @ '' |'']))"

definition throughput_note :: "json \<Rightarrow> string list res" where
  "throughput_note throughput = bindE (jitems throughput) (\<lambda>kvs. Inr (if dict_get kvs ''theoretical_stage_bottleneck_basis'' = None then [] else
       [[],
       ''The stage-bottleneck value is an analytical upper bound, not measured pipelined throughput. The current blocking runtime does not demonstrate input preparation overlapping runtime execution.'']))"

definition execution_heading :: "string list" where
  "execution_heading = [[],
       ''## Runtime Execution'',
       [],
       ''`runtime execution latency` is the blocking `IRuntime::submit()` interval.'',
       [],
       ''| Regime | Mean (ms) | Median (ms) | Mean clock-equivalent intervals |'',
       ''|---|---:|---:|---:|'']"

definition execution_row :: "string \<Rightarrow> regime_summary \<Rightarrow> string list res" where
  "execution_row regime s = bindE (number_at (rg_clock s) ''mean'') (\<lambda>clock_mean. Inr
       [''| '' @ regime @ '' | '' @ fixed 3 (sm_mean (rg_execution s) / 1000000) @ '' | '' @ fixed 3 (sm_median (rg_execution s) / 1000000) @ '' | '' @ fixed 1 clock_mean @ '' |''])"

definition phases_heading :: "string list" where
  "phases_heading = [[],
       ''Clock-equivalent intervals are host-observed runtime execution latency multiplied by the measured NVDLA clock. They include UMD, ioctl, scheduling, IRQ, and emulator overhead and are not hardware cycle counts.'',
       [],
       ''## Aggregate Phases'',
       [],
       ''| Regime | Initialization (ms) | Model loading (ms) | Buffer preparation (ms) | Runtime execution (ms) | Result handling (ms) | Teardown (ms) | Unprofiled (ms) |'',
       ''|---|---:|---:|---:|---:|---:|---:|---:|'']"

definition phases_row :: "string \<Rightarrow> regime_summary \<Rightarrow> string list res" where
  "phases_row regime s = (let phases = ph_aggregates (rg_phases s) in Inr
       [''| '' @ regime @ '' | '' @ fixed 3 (dict_get_or phases ''runtime_initialization'' 0 / 1000000) @ '' | '' @ fixed 3 (dict_get_or phases ''model_loading'' 0 / 1000000) @ '' | '' @ fixed 3 (dict_get_or phases ''buffer_preparation'' 0 / 1000000) @ '' | '' @ fixed 3 (dict_get_or phases ''runtime_execution'' 0 / 1000000) @ '' | '' @ fixed 3 (dict_get_or phases ''result_handling'' 0 / 1000000) @ '' | '' @ fixed 3 (dict_get_or phases ''teardown'' 0 / 1000000) @ '' | '' @ fixed 3 (dict_get_or phases ''unprofiled_process_and_launch'' 0 / 1000000) @ '' |''])"

definition overhead_section :: "json \<Rightarrow> string list res" where
  "overhead_section overhead = bindE (jat overhead ''status'') (\<lambda>status.
     if \<not> jeq status (JStr ''available'') then Inr []
     else bindE (bindE (jat overhead ''overhead_ns'') (\<lambda>d. number_at d ''median_ns'')) (\<lambda>overhead_median.
       bindE (bindE (jat overhead ''overhead_percentage'') (\<lambda>d. number_at d ''median'')) (\<lambda>percentage_median. Inr
       [[],
       ''## Software Overhead'',
       [],
       ''Per-session overhead is the warm end-to-end median minus the steady runtime execution median.'',
       [],
       ''- Median overhead: `'' @ fixed 3 (overhead_median / 1000000) @ ''` ms'',
       ''- Median share of warm end-to-end latency: `'' @ fixed 3 percentage_median @ ''%`''])))"

definition power_heading :: "string list" where
  "power_heading = [[],
       ''## Power And Energy'',
       [],
       ''Power is sampled concurrently with the correctness-checked steady profile. PS includes software-stack and processing-system activity; PL includes the FPGA fabric. Incremental values are active minus the driver-loaded idle baseline and remain signed rather than being clamped to zero.'',
       [],
       ''| Session | Domain | Idle (W) | Active (W) | Incremental (W) | Active energy/inference (mJ) | Incremental energy/inference (mJ) |'',
       ''|---|---|---:|---:|---:|---:|---:|'']"

definition power_footer :: "string list" where
  "power_footer = [[],
       ''The monitored total is the sum of exposed rails, not 12 V board-input power. Per-rail results and raw sample counts are retained in `power-summary.csv` and `performance-summary.json`.'']"

definition power_row :: "bench_session \<Rightarrow> string \<Rightarrow> string list res" where
  "power_row session domain =
     bindE (jat (ss_power session) ''domains'') (\<lambda>domains. bindE (jget domains domain) (\<lambda>metrics.
     if \<not> truthy metrics then Inr []
     else bindE (number_at metrics ''idle_mean_watts'') (\<lambda>idle. bindE (number_at metrics ''active_mean_watts'') (\<lambda>active.
       bindE (number_at metrics ''incremental_mean_watts'') (\<lambda>incremental. bindE (number_at metrics ''active_energy_joules_per_inference'') (\<lambda>active_energy.
       bindE (number_at metrics ''incremental_energy_joules_per_inference'') (\<lambda>incremental_energy. Inr
       [''| '' @ ss_name session @ '' | '' @ domain @ '' | '' @ fixed 6 idle @ '' | '' @ fixed 6 active @ '' | '' @ fixed 6 incremental @ '' | '' @ fixed 6 (active_energy * 1000) @ '' | '' @ fixed 6 (incremental_energy * 1000) @ '' |''])))))))"

definition power_is_available :: "bench_session \<Rightarrow> bool res" where
  "power_is_available s = bindE (jget (ss_power s) ''status'') (\<lambda>status. Inr (jeq status (JStr ''available'')))"

definition power_section :: "bench_session list \<Rightarrow> string list res" where
  "power_section sessions =
     bindE (mapE (\<lambda>s. bindE (power_is_available s) (\<lambda>b. Inr (if b then [s] else []))) sessions) (\<lambda>ss.
     let available_power = concat ss in
     if available_power = [] then Inr []
     else bindE (mapE (\<lambda>session. mapE (power_row session) [''PS'', ''PL'', ''MONITORED'']) available_power) (\<lambda>rows.
       Inr (power_heading @ concat (concat rows) @ power_footer)))"

definition report_tail :: "(rat \<Rightarrow> string) \<Rightarrow> (string \<times> json) list \<Rightarrow> bench_session list \<Rightarrow> string list" where
  "report_tail fr baseline sessions = [[],
       ''## Scheduling Context'',
       [],
       ''The runtime was pinned to CPU `'' @ py_str fr (jlookup baseline ''benchmark_cpu'') @ ''`. Per-process user/system CPU time, page faults, and voluntary/involuntary context switches are retained in the JSON summary and raw CSV. CPU migration counts are marked unavailable rather than inferred.'',
       [],
       ''## Figures'',
       [],
       ''![Latency distribution](latency-distribution.svg)'',
       [],
       ''Each timing regime has its own linear scale so its run-to-run spread is visible. Compare the printed medians for speed; compare the dots, box, and observed range within each panel for repeatability.'',
       [],
       ''![Phase breakdown](phase-breakdown.svg)'',
       [],
       ''Bar length represents absolute mean elapsed time on one shared scale. The coloured segments show which runtime phases account for that time.'',
       [],
       ''![Throughput comparison](throughput-comparison.svg)'',
       [],
       ''Higher throughput is better. Deployment rates include setup; repeated inference keeps the model resident. The outlined value is calculated, not measured pipelined throughput.'',
       [],
       ''![Fresh-boot session variability](session-variability.svg)'',
       []] @ session_figure_explanation (length sessions) @ [[],
       ''## Timing Boundaries'',
       [],
       ''Cold and warm results use the external launch-to-exit clock. Steady-state results use runtime execution latency (blocking `IRuntime::submit()`), which includes UMD submission, the KMD ioctl and scheduler, hardware execution, and IRQ completion.'',
       [],
       ''Power results, when available, are sampled concurrently with the measured steady run and integrated over its exact launcher start/end interval.'']"

definition performance_report :: "(rat \<Rightarrow> string) \<Rightarrow> perf_import \<Rightarrow> string list res" where
  "performance_report fr d =
     (let sessions = im_sessions (pd_state d); summaries = pd_summaries d in
      bindE (report_head fr (pd_baseline d) sessions summaries) (\<lambda>head.
      bindE (regime_rows_of latency_row summaries) (\<lambda>latency.
      bindE (mapE (throughput_row (pd_throughput d)) throughput_names) (\<lambda>throughput. bindE (throughput_note (pd_throughput d)) (\<lambda>note.
      bindE (regime_rows_of execution_row summaries) (\<lambda>execution. bindE (regime_rows_of phases_row summaries) (\<lambda>phases.
      bindE (overhead_section (pd_overhead d)) (\<lambda>overhead. bindE (power_section sessions) (\<lambda>powers.
      Inr (head @ latency @ throughput_heading @ concat throughput @ note @ execution_heading @ execution @ phases_heading @ phases
        @ overhead @ powers @ report_tail fr (pd_baseline d) sessions))))))))))"

subsection \<open>The import\<close>

definition write_svg :: "path \<Rightarrow> string \<Rightarrow> string res \<Rightarrow> fs \<Rightarrow> fs res" where
  "write_svg out_dir name text' fs = bindE text' (\<lambda>t. Inr (write_file (out_dir @ [name]) t fs))"

definition write_figures :: "(rat \<Rightarrow> rat) \<Rightarrow> perf_import \<Rightarrow> path \<Rightarrow> fs \<Rightarrow> fs res" where
  "write_figures lg d out_dir fs =
     bindE (write_svg out_dir ''latency-distribution.svg'' (latency_svg (map (\<lambda>(regime, rows). (regime, latencies rows)) (pd_grouped d))) fs) (\<lambda>fs1.
     bindE (write_svg out_dir ''phase-breakdown.svg'' (phase_svg (map (\<lambda>(regime, s). (regime, ph_aggregates (rg_phases s))) (pd_summaries d))) fs1) (\<lambda>fs2.
     bindE (write_svg out_dir ''throughput-comparison.svg'' (bindE (jitems (pd_throughput d)) (throughput_svg lg)) fs2) (\<lambda>fs3.
     write_svg out_dir ''session-variability.svg'' (session_variability_svg (pd_summaries d)) fs3)))"

definition import_performance_archives :: "perf_env \<Rightarrow> (rat \<Rightarrow> rat) \<Rightarrow> archive list \<Rightarrow> path \<Rightarrow> fs \<Rightarrow> (perf_import \<times> fs) res" where
  "import_performance_archives pe lg archives out_dir fs =
     bindE (import_performance_tables pe archives out_dir fs) (\<lambda>(d, fs1).
     bindE (write_figures lg d out_dir fs1) (\<lambda>fs2.
     bindE (performance_report (env_float pe) d) (\<lambda>report.
     Inr (d, write_file (out_dir @ [''performance-report.md'']) (join [NL] report @ [NL]) fs2))))"

subsection \<open>Facts\<close>

text \<open>A finished import is one of independent sessions, and its report is the text of its data.\<close>

lemma import_performance_result:
  assumes "import_performance_archives pe lg archives out_dir fs = Inr (d, fs')"
  shows "import_sessions (env_float pe) archives = Inr (pd_state d) \<and>
    (\<exists>report. performance_report (env_float pe) d = Inr report \<and> read_text fs' (out_dir @ [''performance-report.md'']) = Inr (join [NL] report @ [NL]))"
proof -
  from assms obtain fs1 fs2 report where t: "import_performance_tables pe archives out_dir fs = Inr (d, fs1)"
    and r: "performance_report (env_float pe) d = Inr report" "fs' = write_file (out_dir @ [''performance-report.md'']) (join [NL] report @ [NL]) fs2"
    unfolding import_performance_archives_def bindE_Inr_iff split_paired_Ex prod.case by blast
  from t have "import_sessions (env_float pe) archives = Inr (pd_state d)"
    unfolding import_performance_tables_def Let_def bindE_Inr_iff sum.inject prod.inject by (elim exE conjE) (erule subst, simp)
  with r show ?thesis by simp
qed

text \<open>One row for every regime that was measured, in the order cold, warm, steady.\<close>

lemma regime_rows_length:
  assumes "regime_rows_of row summaries = Inr rows" and "\<And>regime s r. row regime s = Inr r \<Longrightarrow> length r = 1"
  shows "length rows = length (List.filter (\<lambda>regime. dict_get summaries regime \<noteq> None) REGIME_ORDER)"
proof -
  have "mapE (\<lambda>regime. case dict_get summaries regime of None \<Rightarrow> Inr [] | Some s \<Rightarrow> row regime s) rs = Inr rss \<Longrightarrow>
      length (concat rss) = length (List.filter (\<lambda>regime. dict_get summaries regime \<noteq> None) rs)" for rs rss
  proof (induction rs arbitrary: rss)
    case (Cons r rs)
    then show ?case by (auto simp: bindE_Inr_iff dest: assms(2) split: option.splits)
  qed simp
  with assms(1) show ?thesis by (auto simp: regime_rows_of_def bindE_Inr_iff)
qed

end
