(* ===== verification/CpuReport.thy ===== *)
theory CpuReport
  imports CpuPerformance PerfReport
begin

text \<open>
  The figure and the Markdown report of a CPU import (the end of \<open>import_cpu_performance_archives\<close> in
  tools/nvdla_test_framework/cpu_performance.py), and the whole command with its exit status. The figure is
  the one of the accelerator's report.
\<close>

definition cpu_report_head :: "(rat \<Rightarrow> string) \<Rightarrow> (string \<times> json) list \<Rightarrow> cpu_session list \<Rightarrow> string list res" where
  "cpu_report_head fr baseline sessions =
     bindE (bindE (jat (JDict baseline) ''model_format'') jstr) (\<lambda>format_text. let model_format = upper format_text in
     bindE (number_at (JDict baseline) ''cpu_frequency_khz'') (\<lambda>frequency.
     bindE (jat (JDict baseline) ''workload_complexity'') (\<lambda>complexity. bindE (jat complexity ''node_count'') (\<lambda>node_count.
     bindE (jat complexity ''model_size_bytes'') (\<lambda>model_size. bindE (bindE (jat complexity ''operator_counts'') jitems) (\<lambda>operators.
     Inr ([''# ARM CPU ONNX Runtime Performance'',
       [],
       ''- Model: `'' @ py_str fr (jlookup baseline ''model'') @ ''`'',
       ''- Precision: `'' @ py_str fr (jlookup baseline ''precision'') @ ''`'',
       ''- Model format: `'' @ model_format @ ''`'',
       ''- Model preparation: `'' @ py_str fr (jlookup baseline ''model_optimization_style'') @ ''`, target `'' @ py_str fr (jlookup baseline ''model_target_platform'') @ ''`'',
       ''- CPU threads: `'' @ py_str fr (jlookup baseline ''threads'') @ ''`'',
       ''- CPU affinity mask: `'' @ py_str fr (jlookup baseline ''cpu_affinity_mask'') @ ''`'',
       ''- CPU operating point: `'' @ py_str fr (jlookup baseline ''cpu_governor'') @ ''` governor, fixed at `'' @ fixed 3 (frequency / 1000000) @ '' GHz`'',
       ''- Deployment graph: `'' @ py_str fr node_count @ ''` nodes, `'' @ py_str fr model_size @ ''` bytes'',
       ''- Operators: `'' @ join '', '' (map (\<lambda>(name, count). name @ ''='' @ py_str fr count) operators) @ ''`'',
       ''- Independent fresh-boot sessions: `'' @ show_nat (length sessions) @ ''`'',
       ''- Wall-clock synchronization: `'' @ show_nat (filter_count (\<lambda>s. ks_ntp s = Some ''yes'') sessions) @ ''/'' @ show_nat (length sessions) @ ''` sessions; not used for latency timing or acceptance'',
       ''- Correctness: standard `onnx_test_runner` passed before and after every session.'',
       [],
       ''| Regime | N | Median (ms) | Mean +/- SD (ms) | CV (%) | P5-P95 (ms) | Boot-median 95% CI (ms) | Images/s |'',
       ''|---|---:|---:|---:|---:|---:|---:|---:|''])))))))"

definition cpu_report_row :: "string \<times> summary \<times> bootstrap \<Rightarrow> string list res" where
  "cpu_report_row = (\<lambda>(regime, st, b). bindE (noneE TypeError (sm_throughput st)) (\<lambda>rate. Inr
       [''| '' @ regime @ '' | '' @ show_nat (sm_count st) @ '' | '' @ fixed 3 (sm_median st / 1000000) @ '' | '' @ fixed 3 (sm_mean st / 1000000) @ '' +/- '' @ fixed 3 (sm_deviation st / 1000000) @ '' | '' @ fixed 3 (sm_variation st * 100) @ '' | '' @ fixed 3 (sm_p5 st / 1000000) @ ''-'' @ fixed 3 (sm_p95 st / 1000000) @ '' | '' @ fixed 3 (bs_lower b / 1000000) @ ''-'' @ fixed 3 (bs_upper b / 1000000) @ '' | '' @ fixed 3 rate @ '' |'']))"

definition cpu_power_heading :: "string list" where
  "cpu_power_heading = [[],
       ''| Power domain | Idle mean (W) | Active mean (W) | Increment (W) | Incremental energy/inference (mJ) |'',
       ''|---|---:|---:|---:|---:|'']"

definition cpu_power_row :: "string \<times> json \<Rightarrow> string list res" where
  "cpu_power_row = (\<lambda>(domain, vs).
     bindE (number_at vs ''idle_mean_watts'') (\<lambda>idle. bindE (number_at vs ''active_mean_watts'') (\<lambda>active.
     bindE (number_at vs ''incremental_mean_watts'') (\<lambda>incremental. bindE (number_at vs ''incremental_energy_per_executed_inference_joules'') (\<lambda>energy. Inr
       [''| '' @ domain @ '' | '' @ fixed 4 idle @ '' | '' @ fixed 4 active @ '' | '' @ fixed 4 incremental @ '' | '' @ fixed 4 (energy * 1000) @ '' |''])))))"

definition cpu_power_section :: "json \<Rightarrow> string list res" where
  "cpu_power_section aggregate = bindE (jat aggregate ''status'') (\<lambda>status.
     if \<not> jeq status (JStr ''available'') then Inr []
     else bindE (bindE (jat aggregate ''domains'') jitems) (\<lambda>domains. bindE (mapE cpu_power_row domains) (\<lambda>rows. Inr (cpu_power_heading @ concat rows))))"

definition cpu_report_tail :: "string list" where
  "cpu_report_tail = [[],
       ''![CPU latency distribution](cpu-latency-distribution.svg)'',
       [],
       ''Cold and warm values are process launch through exit and include model/session creation, one standard ORT warm-up inference, and one measured inference. Steady values are per-inference latency from one loaded session after ORT'' @ [SQ] @ ''s built-in warm-up.'']"

definition cpu_report :: "(rat \<Rightarrow> string) \<Rightarrow> cpu_import \<Rightarrow> (string \<times> summary \<times> bootstrap) list \<Rightarrow> json \<Rightarrow> string res" where
  "cpu_report fr im regimes aggregate =
     bindE (cpu_report_head fr (ki_baseline im) (ki_sessions im)) (\<lambda>head. bindE (mapE cpu_report_row regimes) (\<lambda>rows.
     bindE (cpu_power_section aggregate) (\<lambda>powers.
     Inr (join [NL] (head @ concat rows @ powers @ cpu_report_tail) @ [NL]))))"

text \<open>The latencies by regime, as the figure takes them.\<close>

definition cpu_grouped :: "cpu_row list \<Rightarrow> (string \<times> rat list) list" where
  "cpu_grouped rows = map (\<lambda>regime. (regime, map kr_latency (List.filter (\<lambda>r. kr_regime r = regime) rows))) REGIME_ORDER"

definition cpu_report_files :: "perf_env \<Rightarrow> archive list \<Rightarrow> path \<Rightarrow> fs \<Rightarrow> fs res" where
  "cpu_report_files pe archives out_dir fs =
     bindE (cpu_import_files pe archives out_dir fs) (\<lambda>((im, regimes, aggregate), fs1).
     bindE (write_svg out_dir ''cpu-latency-distribution.svg'' (latency_svg (cpu_grouped (ki_rows im))) fs1) (\<lambda>fs2.
     write_svg out_dir ''cpu-performance-report.md'' (cpu_report (env_float pe) im regimes aggregate) fs2))"

definition import_cpu_performance_archives :: "perf_env \<Rightarrow> archive list \<Rightarrow> path \<Rightarrow> fs \<Rightarrow> int \<times> fs" where
  "import_cpu_performance_archives pe archives out_dir fs = (case cpu_report_files pe archives out_dir fs of Inl e \<Rightarrow> (1, fs) | Inr fs' \<Rightarrow> (0, fs'))"

text \<open>The command ends with 0 only for sessions that can be imported, with both documents of the report written.\<close>

lemma import_cpu_exit:
  assumes "import_cpu_performance_archives pe archives out_dir fs = (0, fs')"
  shows "is_ok (cpu_sessions (env_float pe) archives) \<and> is_file fs' (out_dir @ [''cpu-performance-report.md'']) \<and>
    is_file fs' (out_dir @ [''cpu-latency-distribution.svg''])"
proof -
  from assms have "cpu_report_files pe archives out_dir fs = Inr fs'" by (auto simp: import_cpu_performance_archives_def split: sum.splits)
  then show ?thesis
    by (auto simp: cpu_report_files_def cpu_import_files_def write_svg_def Let_def bindE_Inr_iff guardE_Inr_iff is_ok_iff)
qed

end
