(* ===== verification/Diagnostics.thy ===== *)
theory Diagnostics
  imports BoardArtifact
begin

text \<open>
  The classification of the latest small SDP regression run on the virtual platform
  (tools/nvdla_test_framework/diagnostics.py).
\<close>

definition resolve_artifact_path :: "fs \<Rightarrow> path \<Rightarrow> json \<Rightarrow> path option res" where
  "resolve_artifact_path fs artifact v =
     (if \<not> truthy v then Inr None
      else bindE (jstr v) (\<lambda>s. let p = rel_path s; n = path_name p in
        Inr (Some (if is_file fs p then p
          else if is_file fs (artifact @ [n]) then artifact @ [n]
          else if is_file fs (artifact @ [''runtime-output'', n]) then artifact @ [''runtime-output'', n]
          else p))))"

definition modern_part :: "json \<Rightarrow> json res" where
  "modern_part manifest = bindE (jget manifest ''modern'') (\<lambda>m. Inr (if is_jdict m then m else manifest))"

text \<open>\<open>modern.get(key) or manifest.get(key) or []\<close>.\<close>

definition either_list :: "json \<Rightarrow> json \<Rightarrow> string \<Rightarrow> json res" where
  "either_list modern manifest key = bindE (jget modern key) (\<lambda>a. if truthy a then Inr a
     else bindE (jget manifest key) (\<lambda>b. Inr (jor b (JList []))))"

definition SDP_SMALL :: json where
  "SDP_SMALL = JStr ''sdp_regression_small''"

fun find_named :: "json \<Rightarrow> json list \<Rightarrow> json option res" where
  "find_named name [] = Inr None"
| "find_named name (i # is) = bindE (jget i ''name'') (\<lambda>n. if jeq n name then Inr (Some i) else find_named name is)"

definition is_sdp_runtime :: "json \<Rightarrow> bool res" where
  "is_sdp_runtime manifest =
     bindE (modern_part manifest) (\<lambda>modern. bindE (jget modern ''mode'') (\<lambda>mode.
     if \<not> jeq mode (JStr ''runtime'') then Inr False
     else bindE (bindE (either_list modern manifest ''workloads'') jlist) (\<lambda>ws.
       bindE (find_named SDP_SMALL ws) (\<lambda>w. Inr (w \<noteq> None)))))"

text \<open>The manifests one level down, in order; one that cannot be read is skipped.\<close>

definition manifests_below :: "fs \<Rightarrow> path \<Rightarrow> path list" where
  "manifests_below fs artifacts = map (\<lambda>n. artifacts @ [n, ''manifest.json''])
     (sort (List.filter (\<lambda>n. is_file fs (artifacts @ [n, ''manifest.json''])) (child_dirs fs artifacts)))"

definition sdp_match :: "fs \<Rightarrow> path \<Rightarrow> (path \<times> json) list \<Rightarrow> (path \<times> json) list res" where
  "sdp_match fs p matches = (case read_json fs p of
       Inl _ \<Rightarrow> Inr matches
     | Inr manifest \<Rightarrow> bindE (is_sdp_runtime manifest) (\<lambda>b. Inr (if b then matches @ [(p, manifest)] else matches)))"

definition latest_sdp_small_runtime :: "fs \<Rightarrow> path \<Rightarrow> (path \<times> json) option res" where
  "latest_sdp_small_runtime fs artifacts = bindE (foldE (sdp_match fs) (manifests_below fs artifacts) []) (\<lambda>ms. Inr (last_opt ms))"

definition timeout_shape :: "string \<Rightarrow> bool" where
  "timeout_shape serial = (contains ''Program SDP operation'' serial \<and> contains ''Enable SDP operation'' serial \<and>
     contains INITIATED serial \<and> \<not> contains ''Handle op complete event, processor SDP'' serial)"

definition completion_shape :: "string \<Rightarrow> bool" where
  "completion_shape serial = list_all (\<lambda>m. contains m serial) [''Program SDP operation'', ''Enable SDP operation'', INITIATED,
     ''Handle op complete event, processor SDP'', ''Completed SDP operation'']"

record dimg_summary =
  dg_path :: "path option"
  dg_data :: "string option"

definition dimg_payload_summary :: "fs \<Rightarrow> path option \<Rightarrow> dimg_summary" where
  "dimg_payload_summary fs p = \<lparr>dg_path = p, dg_data = (case p of None \<Rightarrow> None | Some q \<Rightarrow> dict_get fs q)\<rparr>"

definition nonzero :: "string \<Rightarrow> nat" where
  "nonzero data = filter_count (\<lambda>c. c \<noteq> CHR 0x00) data"

definition payload_all_zero :: "dimg_summary \<Rightarrow> bool" where
  "payload_all_zero s = (case dg_data s of None \<Rightarrow> False | Some d \<Rightarrow> list_all (\<lambda>c. c = CHR 0x00) (drop (min 40 (length d)) d))"

definition dimg_json :: "dimg_summary \<Rightarrow> json" where
  "dimg_json s = (let p = (case dg_path s of None \<Rightarrow> JNull | Some q \<Rightarrow> JStr (path_str q)) in
     case dg_data s of
       None \<Rightarrow> JDict [(''path'', p), (''exists'', JBool False)]
     | Some d \<Rightarrow> JDict [(''path'', p), (''exists'', JBool True), (''size_bytes'', JInt (int (length d))), (''header_bytes'', JInt 40),
         (''nonzero_bytes'', JInt (int (nonzero d))), (''payload_nonzero_bytes'', JInt (int (nonzero (drop (min 40 (length d)) d)))),
         (''payload_is_all_zero'', JBool (payload_all_zero s))])"

text \<open>The facts the classification rests on.\<close>

record sdp_facts =
  sf_status :: json
  sf_workload_status :: json
  sf_probe :: json
  sf_module :: json
  sf_dri :: json
  sf_client :: json
  sf_server :: json
  sf_bad :: json
  sf_output_sha :: json
  sf_compare_status :: json
  sf_reason :: json
  sf_all_zero :: bool
  sf_serial :: string
  sf_test_passed :: bool

definition is_zero :: "json \<Rightarrow> bool" where
  "is_zero v = jeq v (JInt 0)"

definition platform_ok :: "sdp_facts \<Rightarrow> bool" where
  "platform_ok f = (jeq (sf_probe f) (JStr ''nvidia,nv_small'') \<and> is_zero (sf_module f) \<and> is_zero (sf_dri f))"

definition known_timeout :: "sdp_facts \<Rightarrow> bool" where
  "known_timeout f = (platform_ok f \<and> \<not> truthy (sf_bad f) \<and> sf_output_sha f = JNull \<and>
     jeq (sf_reason f) (JStr ''missing expected or actual file'') \<and> timeout_shape (sf_serial f))"

definition known_zero_output :: "sdp_facts \<Rightarrow> bool" where
  "known_zero_output f = (platform_ok f \<and> is_zero (sf_client f) \<and> is_zero (sf_server f) \<and> \<not> truthy (sf_bad f) \<and>
     sf_output_sha f \<noteq> JNull \<and> jeq (sf_compare_status f) (JStr ''fail'') \<and> jeq (sf_reason f) (JStr ''files differ'') \<and>
     sf_all_zero f \<and> completion_shape (sf_serial f) \<and> sf_test_passed f)"

definition sdp_diagnosis :: "sdp_facts \<Rightarrow> string \<times> string" where
  "sdp_diagnosis f =
     (if jeq (sf_status f) (JStr ''pass'') \<and> jeq (sf_workload_status f) (JStr ''pass'') then (''pass'', ''pass'')
      else if known_timeout f then (''known_sdp_completion_timeout'', ''pass'')
      else if known_zero_output f then (''known_sdp_zero_output_golden_mismatch'', ''pass'')
      else (''unexpected_sdp_failure'', ''fail''))"

definition serial_markers :: "string \<Rightarrow> json" where
  "serial_markers serial = JDict [(''program_sdp'', JBool (contains ''Program SDP operation'' serial)),
     (''enable_sdp'', JBool (contains ''Enable SDP operation'' serial)), (''initiate_exit_zero'', JBool (contains INITIATED serial)),
     (''sdp_completion'', JBool (contains ''Handle op complete event, processor SDP'' serial)),
     (''completed_sdp'', JBool (contains ''Completed SDP operation'' serial))]"

definition sdp_facts_of :: "fs \<Rightarrow> path \<Rightarrow> json \<Rightarrow> json \<Rightarrow> json \<Rightarrow> json \<Rightarrow> json \<Rightarrow> dimg_summary \<Rightarrow> sdp_facts res" where
  "sdp_facts_of fs artifact modern workload statuses bad compare summary =
     (let rd = (\<lambda>n. read_opt fs (artifact @ [n])) in
     bindE (jget modern ''status'') (\<lambda>st. bindE (jget workload ''status'') (\<lambda>ws. bindE (jget modern ''probe_config'') (\<lambda>probe.
     bindE (jget statuses ''module_load'') (\<lambda>ml. bindE (jget statuses ''dev_dri'') (\<lambda>dri.
     bindE (jget statuses ''runtime_client'') (\<lambda>cl. bindE (jget statuses ''runtime_server_ready'') (\<lambda>srv.
     bindE (jget workload ''output_sha256'') (\<lambda>osha. bindE (jget compare ''status'') (\<lambda>cs. bindE (jget compare ''reason'') (\<lambda>reason.
     Inr \<lparr>sf_status = st, sf_workload_status = ws, sf_probe = probe, sf_module = ml, sf_dri = dri, sf_client = cl, sf_server = srv,
          sf_bad = bad, sf_output_sha = osha, sf_compare_status = cs, sf_reason = reason, sf_all_zero = payload_all_zero summary,
          sf_serial = rd ''serial.log'',
          sf_test_passed = (contains ''[OK] Test PASSED!'' (rd ''runtime-client.log'') \<or> contains ''[OK] Test PASSED!'' (rd ''runtime-server.log''))\<rparr>)))))))))))"

text \<open>The exit status, what was decided and on which facts, and the file system with the diagnostic.\<close>

record diagnosis =
  dn_facts :: sdp_facts
  dn_class :: string
  dn_output :: dimg_summary

definition classify_sdp_small_diagnostic :: "env \<Rightarrow> path \<Rightarrow> fs \<Rightarrow> (int \<times> diagnosis option \<times> fs) res" where
  "classify_sdp_small_diagnostic env artifacts fs =
     bindE (latest_sdp_small_runtime fs artifacts) (\<lambda>latest. case latest of
       None \<Rightarrow> Inr (1, None, fs)
     | Some (manifest_path, manifest) \<Rightarrow>
         let artifact = butlast manifest_path in
         bindE (modern_part manifest) (\<lambda>modern.
         bindE (bindE (either_list modern manifest ''workloads'') jlist) (\<lambda>ws.
         bindE (find_named SDP_SMALL ws) (\<lambda>found. let workload = (case found of None \<Rightarrow> JDict [] | Some w \<Rightarrow> w) in
         bindE (jget modern ''statuses'') (\<lambda>s. let statuses = jor s (JDict []) in
         bindE (either_list modern manifest ''bad_patterns'') (\<lambda>bad.
         bindE (jget workload ''compare'') (\<lambda>c. let compare = jor c (JDict []) in
         bindE (bindE (jget compare ''actual_path'') (resolve_artifact_path fs artifact)) (\<lambda>actual.
         let summary = dimg_payload_summary fs actual in
         bindE (sdp_facts_of fs artifact modern workload statuses bad compare summary) (\<lambda>f.
         let (classification, status) = sdp_diagnosis f;
             fs1 = write_json env (artifact @ [''sdp-small-diagnostic.json'']) (JDict [(''schema_version'', JInt 1), (''status'', JStr status),
               (''classification'', JStr classification), (''artifact'', JStr (path_str artifact)), (''manifest'', JStr (path_str manifest_path)),
               (''probe_config'', sf_probe f), (''statuses'', statuses), (''bad_patterns'', bad), (''workload'', workload),
               (''output_summary'', dimg_json summary), (''serial_markers'', serial_markers (sf_serial f))]) fs
         in Inr (if status = ''pass'' then 0 else 1, Some \<lparr>dn_facts = f, dn_class = classification, dn_output = summary\<rparr>, fs1))))))))))"

subsection \<open>Facts\<close>

lemma shapes_exclusive: "timeout_shape s \<Longrightarrow> \<not> completion_shape s"
  by (simp add: timeout_shape_def completion_shape_def)

lemma sdp_facts_zero: "sdp_facts_of fs artifact modern workload statuses bad compare s = Inr f \<Longrightarrow> sf_all_zero f = payload_all_zero s"
  by (auto simp: sdp_facts_of_def bindE_Inr_iff Let_def)

lemma diagnosis_facts:
  assumes "classify_sdp_small_diagnostic env artifacts fs = Inr (x, Some e, fs')"
  shows "\<exists>artifact modern workload statuses bad compare.
    sdp_facts_of fs artifact modern workload statuses bad compare (dn_output e) = Inr (dn_facts e) \<and>
    x = (if snd (sdp_diagnosis (dn_facts e)) = ''pass'' then 0 else 1)"
proof -
  from assms obtain latest where l: "latest_sdp_small_runtime fs artifacts = Inr latest"
    unfolding classify_sdp_small_diagnostic_def bindE_Inr_iff by blast
  show ?thesis
  proof (cases latest)
    case None
    with assms l show ?thesis by (simp add: classify_sdp_small_diagnostic_def)
  next
    case (Some pm)
    obtain p m where "pm = (p, m)" by (cases pm)
    from assms [unfolded classify_sdp_small_diagnostic_def l bindE.simps Some \<open>pm = (p, m)\<close> option.case prod.case Let_def case_prod_beta
        bindE_Inr_iff sum.inject prod.inject option.inject]
    obtain artifact modern workload statuses bad compare summary f c where
      "sdp_facts_of fs artifact modern workload statuses bad compare summary = Inr f"
      and "(if snd (sdp_diagnosis f) = ''pass'' then 0 else 1) = x" and "\<lparr>dn_facts = f, dn_class = c, dn_output = summary\<rparr> = e"
      by (elim exE conjE) (rule that; assumption)
    then have "sdp_facts_of fs artifact modern workload statuses bad compare (dn_output e) = Inr (dn_facts e) \<and>
        x = (if snd (sdp_diagnosis (dn_facts e)) = ''pass'' then 0 else 1)" by auto
    then show ?thesis by blast
  qed
qed

lemma diagnosis_none:
  assumes "classify_sdp_small_diagnostic env artifacts fs = Inr (x, None, fs')"
  shows "x = 1 \<and> fs' = fs"
  using assms unfolding classify_sdp_small_diagnostic_def Let_def case_prod_beta
  by (auto simp: bindE_Inr_iff split: option.splits)

text \<open>The diagnostic accepts a run exactly when the run and its workload passed, or when it is one of two
  known failures on a clean \<open>nv_small\<close> platform: the task was initiated and never completed, with no
  output, or it completed on both sides with an output whose payload is all zero. The two known failures
  exclude each other.\<close>

theorem diagnostic_accepts:
  "case classify_sdp_small_diagnostic env artifacts fs of
     Inl _ \<Rightarrow> True
   | Inr (exit_code, d, fs') \<Rightarrow> (case d of
         None \<Rightarrow> exit_code = 1 \<and> fs' = fs
       | Some d \<Rightarrow> \<not> (known_timeout (dn_facts d) \<and> known_zero_output (dn_facts d)) \<and>
           (exit_code = 0 \<longleftrightarrow>
             jeq (sf_status (dn_facts d)) (JStr ''pass'') \<and> jeq (sf_workload_status (dn_facts d)) (JStr ''pass'') \<or>
             platform_ok (dn_facts d) \<and> \<not> truthy (sf_bad (dn_facts d)) \<and>
             (sf_output_sha (dn_facts d) = JNull \<and> jeq (sf_reason (dn_facts d)) (JStr ''missing expected or actual file'') \<and>
                timeout_shape (sf_serial (dn_facts d)) \<or>
              known_zero_output (dn_facts d) \<and> payload_all_zero (dn_output d) \<and> completion_shape (sf_serial (dn_facts d)))))"
proof (cases "classify_sdp_small_diagnostic env artifacts fs")
  case (Inr r)
  obtain x d fs' where r: "r = (x, d, fs')" by (cases r)
  show ?thesis
  proof (cases d)
    case None
    with Inr r diagnosis_none [of env artifacts fs x fs'] show ?thesis by simp
  next
    case (Some e)
    with Inr r diagnosis_facts [of env artifacts fs x e fs'] obtain artifact modern workload statuses bad compare where
      f: "sdp_facts_of fs artifact modern workload statuses bad compare (dn_output e) = Inr (dn_facts e)"
      and x: "x = (if snd (sdp_diagnosis (dn_facts e)) = ''pass'' then 0 else 1)" by auto
    from f have "sf_all_zero (dn_facts e) = payload_all_zero (dn_output e)" by (rule sdp_facts_zero)
    moreover have "\<not> (known_timeout (dn_facts e) \<and> known_zero_output (dn_facts e))"
      by (simp add: known_timeout_def known_zero_output_def)
    ultimately show ?thesis using Inr r Some x
      by (auto simp: sdp_diagnosis_def known_timeout_def known_zero_output_def)
  qed
qed simp

end
