(* ===== verification/BriefData.thy ===== *)
theory BriefData
  imports Campaign Env
begin

text \<open>
  The data of the evaluation brief (tools/create_evaluation_brief.py): the campaign summary it starts from and
  the cohorts attached to it (the INT8 CPU cohorts, input variation and phases, the CPU scaling cohorts and
  the comparison of model formats), each with its checks. A document that fails a check, misses a field or has
  one of a wrong type ends the program before anything is drawn. Keys that are integers in the
  program (the numbers of threads) are their decimal texts here. Facts: what the brief shows of a cohort
  is computed from a report of five sessions that passed and has the provenance of the cohort.
\<close>

text \<open>\<open>document[k1][k2]... = value\<close>.\<close>

fun jput :: "string list \<Rightarrow> json \<Rightarrow> json \<Rightarrow> json res" where
  "jput [] v d = Inr v"
| "jput [k] v d = (case d of JDict kvs \<Rightarrow> Inr (JDict (dict_set k v kvs)) | _ \<Rightarrow> Inl TypeError)"
| "jput (k # ks) v d = (case d of
     JDict kvs \<Rightarrow> bindE (jat d k) (\<lambda>e. bindE (jput ks v e) (\<lambda>e'. Inr (JDict (dict_set k e' kvs))))
   | _ \<Rightarrow> Inl TypeError)"

definition get_is :: "json \<Rightarrow> string \<Rightarrow> json \<Rightarrow> bool res" where
  "get_is d k v = bindE (jget d k) (\<lambda>x. Inr (jeq x v))"

definition five_sessions :: "json \<Rightarrow> bool res" where
  "five_sessions report = get_is report ''session_count'' (JInt 5)"

definition passed :: "json \<Rightarrow> bool res" where
  "passed report = get_is report ''status'' (JStr ''pass'')"

text \<open>\<open>if not test1 or not test2: raise ValueError\<close>: a test is made only when those before it hold.\<close>

definition failE :: "string \<Rightarrow> bool res list \<Rightarrow> unit res" where
  "failE message tests = foldE (\<lambda>t _. bindE t (\<lambda>b. guardE b (ValueError message))) tests ()"

subsection \<open>CPU cohorts\<close>

definition domain_mean :: "json list \<Rightarrow> string \<Rightarrow> string \<Rightarrow> (string \<times> json) res" where
  "domain_mean sessions domain key =
     bindE (mapE (\<lambda>s. bindE (jpath s [''power'', ''domains'', domain]) (\<lambda>d. num_at d key)) sessions) (\<lambda>vs.
     bindE (fmean vs) (\<lambda>m. Inr (key, JFloat m)))"

definition power_domain_means :: "json \<Rightarrow> json res" where
  "power_domain_means report =
     bindE (failE ''expected five powered sessions for domain comparison'' [five_sessions report]) (\<lambda>_.
     bindE (mapE (\<lambda>domain. bindE (bindE (jat report ''sessions'') jlist) (\<lambda>sessions.
        bindE (mapE (domain_mean sessions domain) [''active_mean_watts'', ''idle_mean_watts'', ''incremental_mean_watts'']) (\<lambda>ms.
        Inr (domain, JDict ms)))) [''PS'', ''PL'']) (\<lambda>ds. Inr (JDict ds)))"

definition confidence_ms :: "json \<Rightarrow> (string \<times> json) list res" where
  "confidence_ms ci =
     bindE (num_at ci ''estimate_ns'') (\<lambda>e. bindE (num_at ci ''lower_ns'') (\<lambda>l. bindE (num_at ci ''upper_ns'') (\<lambda>u.
     Inr [(''session_median_ms'', JFloat (e / 1000000)), (''ci_lower_ms'', JFloat (l / 1000000)), (''ci_upper_ms'', JFloat (u / 1000000))])))"

definition regime_latency :: "string \<times> json \<Rightarrow> (string \<times> json) res" where
  "regime_latency = (\<lambda>(regime, stats). bindE (jat stats ''session_median_bootstrap_95ci'') (\<lambda>ci. bindE (confidence_ms ci) (\<lambda>cs.
     bindE (num_at stats ''mean_ns'') (\<lambda>m. Inr (regime, JDict (cs @ [(''mean_ms'', JFloat (m / 1000000))]))))))"

definition session_energy :: "json \<Rightarrow> rat res" where
  "session_energy s = bindE (jpath s [''power'', ''domains'', ''MONITORED'']) (\<lambda>d. bindE (num_at d ''active_energy_joules'') (\<lambda>e.
     bindE (bindE (jpath s [''power'', ''executed_inferences'']) jnum) (\<lambda>n. divided e n)))"

definition mean_only :: "json \<Rightarrow> json" where
  "mean_only v = JDict [(''mean'', v)]"

definition summarize_cpu_reports :: "json \<Rightarrow> json \<Rightarrow> json res" where
  "summarize_cpu_reports latency powered =
     bindE (bindE (jat latency ''regimes'') jitems) (\<lambda>regimes. bindE (mapE regime_latency regimes) (\<lambda>stats.
     bindE (jpath powered [''power'', ''domains'', ''MONITORED'']) (\<lambda>domain.
     bindE (bindE (jat powered ''sessions'') jlist) (\<lambda>sessions. bindE (mapE session_energy sessions) (\<lambda>es. bindE (fmean es) (\<lambda>energy.
     bindE (jat domain ''active_mean_watts'') (\<lambda>active. bindE (jat domain ''incremental_mean_watts'') (\<lambda>incremental.
     bindE (jat domain ''incremental_energy_per_executed_inference_joules'') (\<lambda>per_inference.
     bindE (power_domain_means powered) (\<lambda>domains. bindE (jat latency ''provenance'') (\<lambda>provenance.
     Inr (JDict [(''latency'', JDict stats),
       (''power'', JDict [(''active_watts'', mean_only active), (''incremental_watts'', mean_only incremental),
          (''active_joules_per_inference'', mean_only (JFloat energy)), (''incremental_joules_per_inference'', mean_only per_inference)]),
       (''power_domains'', domains), (''provenance'', provenance)]))))))))))))"

definition cpu_summary :: "path \<Rightarrow> path" where
  "cpu_summary d = d @ [''cpu-performance-summary.json'']"

definition add_int8_model :: "fs \<Rightarrow> path \<Rightarrow> string \<Rightarrow> json \<Rightarrow> json res" where
  "add_int8_model fs root_dir model data =
     bindE (read_json fs (cpu_summary (root_dir @ [model, ''latency'']))) (\<lambda>latency.
     bindE (read_json fs (cpu_summary (root_dir @ [model, ''power'']))) (\<lambda>powered.
     bindE (failE (''expected five CPU INT8 sessions per cohort for '' @ model) [five_sessions latency, five_sessions powered]) (\<lambda>_.
     bindE (jat latency ''provenance'') (\<lambda>provenance.
     bindE (failE (''unexpected CPU precision for '' @ model) [get_is provenance ''precision'' (JStr ''int8'')]) (\<lambda>_.
     bindE (summarize_cpu_reports latency powered) (\<lambda>s. jput [''models'', model, ''cpu_int8''] s data))))))"

definition brief_models :: "string list" where
  "brief_models = [''lenet'', ''resnet50'']"

definition add_cpu_int8 :: "fs \<Rightarrow> path \<Rightarrow> json \<Rightarrow> json res" where
  "add_cpu_int8 fs root_dir = foldE (add_int8_model fs root_dir) brief_models"

subsection \<open>CPU scaling\<close>

definition scaling_cohort :: "fs \<Rightarrow> path \<Rightarrow> string \<Rightarrow> string \<Rightarrow> int \<Rightarrow> (string \<times> json) res" where
  "scaling_cohort fs root_dir model precision threads =
     (let base = root_dir @ [show_int threads @ ''t'', precision, model]; name = show_int threads @ ''t '' @ precision @ '' '' @ model in
      bindE (read_json fs (cpu_summary (base @ [''latency'']))) (\<lambda>latency.
      bindE (read_json fs (cpu_summary (base @ [''power'']))) (\<lambda>powered.
      bindE (failE (''non-passing CPU scaling cohort: '' @ name) [passed latency, passed powered]) (\<lambda>_.
      bindE (failE (''expected five CPU scaling sessions: '' @ name) [five_sessions latency, five_sessions powered]) (\<lambda>_.
      bindE (jat latency ''provenance'') (\<lambda>provenance.
      bindE (failE (''CPU scaling provenance mismatch: '' @ name)
         [get_is provenance ''threads'' (JInt threads), get_is provenance ''precision'' (JStr precision)]) (\<lambda>_.
      bindE (summarize_cpu_reports latency powered) (\<lambda>s. Inr (show_int threads, s)))))))))"

definition scaling_precision :: "fs \<Rightarrow> path \<Rightarrow> json \<Rightarrow> string \<Rightarrow> string \<times> string \<Rightarrow> (string \<times> json) res" where
  "scaling_precision fs root_dir data model = (\<lambda>(precision, four_thread_key).
     bindE (mapE (scaling_cohort fs root_dir model precision) [1, 2]) (\<lambda>cohorts.
     bindE (jpath data [''models'', model, four_thread_key]) (\<lambda>four. Inr (precision, JDict (cohorts @ [(''4'', four)])))))"

definition add_scaling_model :: "fs \<Rightarrow> path \<Rightarrow> string \<Rightarrow> json \<Rightarrow> json res" where
  "add_scaling_model fs root_dir model data =
     bindE (mapE (scaling_precision fs root_dir data model) [(''int8'', ''cpu_int8''), (''fp32'', ''cpu'')]) (\<lambda>scaling.
     jput [''models'', model, ''cpu_scaling''] (JDict scaling) data)"

definition add_cpu_scaling :: "fs \<Rightarrow> path \<Rightarrow> json \<Rightarrow> json res" where
  "add_cpu_scaling fs root_dir = foldE (add_scaling_model fs root_dir) brief_models"

subsection \<open>Model formats\<close>

definition comparable_fields :: "string list" where
  "comparable_fields = [''model'', ''precision'', ''threads'', ''source_model_sha256'', ''input_sha256'', ''golden_sha256'', ''runtime_sha256'',
     ''runtime_library_sha256'', ''kernel_release'', ''cpu_frequency_khz'', ''cpu_affinity_mask'']"

definition format_report :: "fs \<Rightarrow> path \<Rightarrow> string \<Rightarrow> string \<times> string \<Rightarrow> json res" where
  "format_report fs root_dir model = (\<lambda>(model_format, directory).
     bindE (read_json fs (cpu_summary (root_dir @ [directory]))) (\<lambda>report.
     bindE (jget_or report (JDict []) ''provenance'') (\<lambda>provenance.
     bindE (failE (''expected five passing '' @ model_format @ '' sessions for '' @ model) [passed report, five_sessions report]) (\<lambda>_.
     bindE (failE (''CPU format provenance mismatch: '' @ model @ '' '' @ model_format)
        [get_is provenance ''model'' (JStr model), get_is provenance ''model_format'' (JStr model_format)]) (\<lambda>_.
     bindE (failE (''unexpected CPU format pilot configuration: '' @ model @ '' '' @ model_format)
        [get_is provenance ''precision'' (JStr ''fp32''), get_is provenance ''threads'' (JInt 4)]) (\<lambda>_.
     Inr report))))))"

definition same_field :: "json \<Rightarrow> json \<Rightarrow> string \<Rightarrow> bool res" where
  "same_field p q k = bindE (jget p k) (\<lambda>a. bindE (jget q k) (\<lambda>b. Inr (jeq a b)))"

definition format_latency :: "json \<Rightarrow> json res" where
  "format_latency report = bindE (mapE (\<lambda>regime. bindE (jpath report [''regimes'', regime, ''session_median_bootstrap_95ci'']) (\<lambda>ci.
     bindE (confidence_ms ci) (\<lambda>cs. Inr (regime, JDict cs)))) [''cold'', ''warm'', ''steady'']) (\<lambda>rs. Inr (JDict rs))"

definition format_pilot :: "fs \<Rightarrow> path \<Rightarrow> string \<times> string \<times> string \<Rightarrow> (string \<times> json) res" where
  "format_pilot fs root_dir = (\<lambda>(model, onnx_dir, ort_dir).
     bindE (format_report fs root_dir model (''onnx'', onnx_dir)) (\<lambda>onnx. bindE (format_report fs root_dir model (''ort'', ort_dir)) (\<lambda>ort.
     bindE (jat onnx ''provenance'') (\<lambda>p. bindE (jat ort ''provenance'') (\<lambda>q.
     bindE (mapE (same_field p q) comparable_fields) (\<lambda>same.
     bindE (guardE (list_all id same) (ValueError (''ONNX/ORT pilot provenance mismatch for '' @ model))) (\<lambda>_.
     bindE (format_latency onnx) (\<lambda>onnx_latency. bindE (format_latency ort) (\<lambda>ort_latency.
     bindE (jat q ''workload_complexity'') (\<lambda>complexity. bindE (jat complexity ''node_count'') (\<lambda>nodes.
     bindE (jpath p [''workload_complexity'', ''model_size_bytes'']) (\<lambda>onnx_size. bindE (jat complexity ''model_size_bytes'') (\<lambda>ort_size.
     Inr (model, JDict [(''formats'', JDict [(''onnx'', onnx_latency), (''ort'', ort_latency)]), (''node_count'', nodes),
       (''onnx_size_bytes'', onnx_size), (''ort_size_bytes'', ort_size)]))))))))))))))"

definition report_dirs :: "(string \<times> string \<times> string) list" where
  "report_dirs = [(''lenet'', ''lenet-onnx-baseline-report'', ''lenet-fp32-report''),
     (''resnet50'', ''resnet50-onnx-baseline-report'', ''resnet50-fp32-report'')]"

definition add_cpu_format_pilot :: "fs \<Rightarrow> path \<Rightarrow> json \<Rightarrow> json res" where
  "add_cpu_format_pilot fs root_dir data =
     bindE (mapE (format_pilot fs root_dir) report_dirs) (\<lambda>rs. jput [''cpu_format_pilot''] (JDict rs) data)"

subsection \<open>Input variation and phases\<close>

definition phase_means :: "json \<Rightarrow> json res" where
  "phase_means performance = bindE (mapE (\<lambda>regime. bindE (jpath performance [''regimes'', regime, ''phases'', ''aggregates_mean_ns'']) (\<lambda>v.
     Inr (regime, v))) [''cold'', ''warm'', ''steady'']) (\<lambda>rs. Inr (JDict rs))"

definition add_supplementary_model :: "fs \<Rightarrow> path \<Rightarrow> string \<Rightarrow> json \<Rightarrow> json res" where
  "add_supplementary_model fs root_dir model data =
     bindE (read_json fs (root_dir @ [''input-variation'', model, ''input-variation-summary.json''])) (\<lambda>variation.
     bindE (read_json fs (root_dir @ [''nvdla-'' @ model @ ''-latency'', ''performance-summary.json''])) (\<lambda>performance.
     bindE (read_json fs (root_dir @ [''nvdla-'' @ model @ ''-power'', ''performance-summary.json''])) (\<lambda>nvdla_power.
     bindE (read_json fs (cpu_summary (root_dir @ [''cpu-'' @ model @ ''-power'']))) (\<lambda>cpu_power.
     bindE (failE (''expected three passing input-variation sessions for '' @ model) [passed variation, get_is variation ''sessions'' (JInt 3)]) (\<lambda>_.
     bindE (failE (''expected five NVDLA latency sessions for '' @ model) [five_sessions performance]) (\<lambda>_.
     bindE (jput [''models'', model, ''input_variation''] variation data) (\<lambda>data.
     bindE (phase_means performance) (\<lambda>phases. bindE (jput [''models'', model, ''nvdla'', ''phases''] phases data) (\<lambda>data.
     bindE (power_domain_means nvdla_power) (\<lambda>nd. bindE (jput [''models'', model, ''nvdla'', ''power_domains''] nd data) (\<lambda>data.
     bindE (power_domain_means cpu_power) (\<lambda>cd. jput [''models'', model, ''cpu'', ''power_domains''] cd data))))))))))))"

definition add_supplementary_results :: "fs \<Rightarrow> path \<Rightarrow> json \<Rightarrow> json res" where
  "add_supplementary_results fs root_dir = foldE (add_supplementary_model fs root_dir) brief_models"

subsection \<open>The whole data\<close>

record brief_args =
  ba_source :: path
  ba_output :: path
  ba_cpu_int8 :: path
  ba_report :: path
  ba_cpu_scaling :: path
  ba_cpu_format :: path

definition default_brief_args :: brief_args where
  "default_brief_args = \<lparr>ba_source = [''artifacts'', ''final-reports'', ''comparison'', ''campaign-summary.json''],
     ba_output = [''output'', ''pdf'', ''nvdla-evaluation-brief.pdf''], ba_cpu_int8 = [''artifacts'', ''final-reports'', ''cpu-int8''],
     ba_report = [''artifacts'', ''final-reports''], ba_cpu_scaling = [''artifacts'', ''review'', ''cpu-scaling''],
     ba_cpu_format = [''artifacts'', ''pilot'', ''cpu-ort'']\<rparr>"

definition brief_data :: "fs \<Rightarrow> brief_args \<Rightarrow> json res" where
  "brief_data fs a =
     bindE (read_json fs (ba_source a)) (\<lambda>data.
     bindE (failE ''expected the balanced 40-session NVDLA/CPU FP32 campaign'' [get_is data ''selected_sessions'' (JInt 40)]) (\<lambda>_.
     bindE (add_cpu_int8 fs (ba_cpu_int8 a) data) (\<lambda>data. bindE (add_supplementary_results fs (ba_report a) data) (\<lambda>data.
     bindE (add_cpu_scaling fs (ba_cpu_scaling a) data) (add_cpu_format_pilot fs (ba_cpu_format a))))))"

subsection \<open>What the brief shows\<close>

lemma jat_dict_set: "jat (JDict (dict_set k v kvs)) j = (if j = k then Inr v else jat (JDict kvs) j)"
  using dict_get_set [of k v kvs j] by (simp add: dict_get_def noneE_def)

lemma jput_same: "jput ks v d = Inr d' \<Longrightarrow> jpath d' (ks @ js) = jpath v js"
proof (induction ks v d arbitrary: d' rule: jput.induct)
  case (2 k v d)
  then show ?case by (cases d) (auto simp: jat_dict_set simp del: jat.simps)
next
  case (3 k k' ks v d)
  then obtain kvs where d: "d = JDict kvs" by (cases d) auto
  with 3(2) obtain e e' where e: "jput (k' # ks) v e = Inr e'" "d' = JDict (dict_set k e' kvs)" "jat d k = Inr e"
    by (auto simp: bindE_Inr_iff)
  from 3(1) [OF d e(1)] e(2) show ?case by (simp add: jat_dict_set del: jat.simps jput.simps)
qed simp

lemma jput_other: "jput ks v d = Inr d' \<Longrightarrow> \<not> prefix ks js \<Longrightarrow> \<not> prefix js ks \<Longrightarrow> jpath d' js = jpath d js"
proof (induction ks v d arbitrary: d' js rule: jput.induct)
  case (2 k v d)
  then obtain kvs j js' where "d = JDict kvs" "d' = JDict (dict_set k v kvs)" "js = j # js'" "j \<noteq> k"
    by (cases d; cases js) (auto simp: prefix_def)
  then show ?case by (simp add: jat_dict_set del: jat.simps)
next
  case (3 k k' ks v d)
  then obtain kvs where d: "d = JDict kvs" by (cases d) auto
  with 3(2) obtain e e' where e: "jput (k' # ks) v e = Inr e'" "d' = JDict (dict_set k e' kvs)" "jat d k = Inr e"
    by (auto simp: bindE_Inr_iff)
  obtain j js' where j: "js = j # js'" using 3(4) by (cases js) auto
  show ?case
  proof (cases "j = k")
    case True
    with 3(3,4) j have "\<not> prefix (k' # ks) js'" "\<not> prefix js' (k' # ks)" by (auto simp: prefix_def)
    from 3(1) [OF d e(1) this] show ?thesis using e(2,3) True j by (simp add: jat_dict_set del: jat.simps jput.simps)
  next
    case False
    then show ?thesis using e(2) d j by (simp add: jat_dict_set del: jat.simps jput.simps)
  qed
qed (auto simp: prefix_def)

lemma failE_Inr: "failE m ts = Inr u \<longleftrightarrow> (\<forall>t \<in> set ts. t = Inr True)"
proof -
  have "foldE (\<lambda>t _. bindE t (\<lambda>b. guardE b e)) ts w = Inr u \<longleftrightarrow> (\<forall>t \<in> set ts. t = Inr True)" for e w
    by (induction ts arbitrary: w) (auto simp: bindE_Inr_iff guardE_def split: if_splits)
  then show ?thesis by (simp add: failE_def)
qed

text \<open>A summary computed from a report of latencies and one of power, both of five sessions, at the given precision.\<close>

definition cohort_from :: "fs \<Rightarrow> path \<Rightarrow> string \<Rightarrow> json \<Rightarrow> bool" where
  "cohort_from fs d precision s \<longleftrightarrow> (\<exists>latency powered provenance.
     read_json fs (cpu_summary (d @ [''latency''])) = Inr latency \<and> read_json fs (cpu_summary (d @ [''power''])) = Inr powered \<and>
     five_sessions latency = Inr True \<and> five_sessions powered = Inr True \<and> jat latency ''provenance'' = Inr provenance \<and>
     get_is provenance ''precision'' (JStr precision) = Inr True \<and> summarize_cpu_reports latency powered = Inr s)"

definition threads_from :: "fs \<Rightarrow> path \<Rightarrow> int \<Rightarrow> bool" where
  "threads_from fs d threads \<longleftrightarrow> (\<exists>latency powered provenance.
     read_json fs (cpu_summary (d @ [''latency''])) = Inr latency \<and> read_json fs (cpu_summary (d @ [''power''])) = Inr powered \<and>
     passed latency = Inr True \<and> passed powered = Inr True \<and> jat latency ''provenance'' = Inr provenance \<and>
     get_is provenance ''threads'' (JInt threads) = Inr True)"

lemma int8_model_from:
  assumes "add_int8_model fs r model data = Inr data'"
  obtains s where "cohort_from fs (r @ [model]) ''int8'' s" and "jput [''models'', model, ''cpu_int8''] s data = Inr data'"
  using assms unfolding add_int8_model_def cohort_from_def bindE_Inr_iff failE_Inr by (auto simp del: jput.simps jat.simps)

lemma scaling_cohort_from:
  assumes "scaling_cohort fs r model precision threads = Inr x"
  shows "fst x = show_int threads" and "cohort_from fs (r @ [show_int threads @ ''t'', precision, model]) precision (snd x)"
    and "threads_from fs (r @ [show_int threads @ ''t'', precision, model]) threads"
  using assms unfolding scaling_cohort_def cohort_from_def threads_from_def bindE_Inr_iff failE_Inr Let_def by (auto simp del: jat.simps)

lemma scaling_precision_from:
  assumes "scaling_precision fs r data model (precision, key) = Inr x"
  obtains s1 s2 four where "x = (precision, JDict [(''1'', s1), (''2'', s2), (''4'', four)])"
    and "jpath data [''models'', model, key] = Inr four"
    and "cohort_from fs (r @ [''1t'', precision, model]) precision s1" and "threads_from fs (r @ [''1t'', precision, model]) 1"
    and "cohort_from fs (r @ [''2t'', precision, model]) precision s2" and "threads_from fs (r @ [''2t'', precision, model]) 2"
proof -
  have n: "show_int 1 = ''1''" "show_int 2 = ''2''" by code_simp+
  from assms obtain a b four where a: "scaling_cohort fs r model precision 1 = Inr a" and b: "scaling_cohort fs r model precision 2 = Inr b"
    and four: "jpath data [''models'', model, key] = Inr four" and x: "x = (precision, JDict [a, b, (''4'', four)])"
    by (auto simp: scaling_precision_def bindE_Inr_iff simp del: jpath.simps)
  from scaling_cohort_from [OF a] scaling_cohort_from [OF b] show thesis
    by (intro that [of "snd a" "snd b" four]) (auto simp: x n four prod_eq_iff simp del: jpath.simps)
qed

lemma int8_keeps:
  assumes "add_int8_model fs r m data = Inr data'" and "m \<noteq> model"
  shows "jpath data' [''models'', model, ''cpu_int8''] = jpath data [''models'', model, ''cpu_int8'']"
proof -
  from assms(1) obtain s where p: "jput [''models'', m, ''cpu_int8''] s data = Inr data'" by (rule int8_model_from)
  show ?thesis by (rule jput_other [OF p]) (use assms(2) in simp_all)
qed

lemma int8_model_shown:
  assumes "add_int8_model fs r model data = Inr data'"
  shows "\<exists>s. jpath data' [''models'', model, ''cpu_int8''] = Inr s \<and> cohort_from fs (r @ [model]) ''int8'' s"
proof -
  from assms obtain s where c: "cohort_from fs (r @ [model]) ''int8'' s" and p: "jput [''models'', model, ''cpu_int8''] s data = Inr data'"
    by (rule int8_model_from)
  from jput_same [OF p, of "[]"] c show ?thesis by auto
qed

lemma supplementary_keeps:
  assumes "add_supplementary_model fs r m data = Inr data'"
  shows "jpath data' [''models'', model, ''cpu_int8''] = jpath data [''models'', model, ''cpu_int8'']"
proof -
  from assms obtain v d1 w d2 x d3 y where
    "jput [''models'', m, ''input_variation''] v data = Inr d1" "jput [''models'', m, ''nvdla'', ''phases''] w d1 = Inr d2"
    "jput [''models'', m, ''nvdla'', ''power_domains''] x d2 = Inr d3" "jput [''models'', m, ''cpu'', ''power_domains''] y d3 = Inr data'"
    unfolding add_supplementary_model_def bindE_Inr_iff by blast
  from this [THEN jput_other, of "[''models'', model, ''cpu_int8'']"] show ?thesis by simp
qed

lemma scaling_keeps:
  assumes "add_scaling_model fs r m data = Inr data'" and "k \<noteq> ''cpu_scaling'' \<or> m \<noteq> model"
  shows "jpath data' (''models'' # model # k # ks) = jpath data (''models'' # model # k # ks)"
proof -
  from assms(1) obtain v where "jput [''models'', m, ''cpu_scaling''] v data = Inr data'"
    unfolding add_scaling_model_def bindE_Inr_iff by blast
  from jput_other [OF this, of "''models'' # model # k # ks"] assms(2) show ?thesis by auto
qed

lemma pilot_keeps: "add_cpu_format_pilot fs r data = Inr data' \<Longrightarrow> jpath data' (''models'' # ks) = jpath data (''models'' # ks)"
  unfolding add_cpu_format_pilot_def bindE_Inr_iff using jput_other [of "[''cpu_format_pilot'']" _ data data' "''models'' # ks"] by auto

text \<open>A cohort of one or two threads is shown as computed from its reports.\<close>

definition scaling_shown :: "fs \<Rightarrow> path \<Rightarrow> json \<Rightarrow> string \<Rightarrow> string \<times> int \<Rightarrow> bool" where
  "scaling_shown fs r data model = (\<lambda>(precision, threads). (\<exists>s. jpath data [''models'', model, ''cpu_scaling'', precision, show_int threads] = Inr s \<and>
     cohort_from fs (r @ [show_int threads @ ''t'', precision, model]) precision s \<and> threads_from fs (r @ [show_int threads @ ''t'', precision, model]) threads))"

definition small_cohorts :: "(string \<times> int) list" where
  "small_cohorts = [(''int8'', 1), (''int8'', 2), (''fp32'', 1), (''fp32'', 2)]"

lemma scaling_model_shown:
  assumes "add_scaling_model fs r model data = Inr data'"
  shows "list_all (scaling_shown fs r data' model) small_cohorts"
    and "jpath data' [''models'', model, ''cpu_scaling'', ''int8'', ''4''] = jpath data [''models'', model, ''cpu_int8'']"
    and "jpath data' [''models'', model, ''cpu_scaling'', ''fp32'', ''4''] = jpath data [''models'', model, ''cpu'']"
proof -
  have n: "show_int 1 = ''1''" "show_int 2 = ''2''" by code_simp+
  from assms obtain x y where x: "scaling_precision fs r data model (''int8'', ''cpu_int8'') = Inr x"
    and y: "scaling_precision fs r data model (''fp32'', ''cpu'') = Inr y"
    and p: "jput [''models'', model, ''cpu_scaling''] (JDict [x, y]) data = Inr data'"
    unfolding add_scaling_model_def mapE.simps bindE_Inr_iff by blast
  note j = jput_same [OF p, simplified append_Cons append_Nil]
  from x y show "list_all (scaling_shown fs r data' model) small_cohorts"
    "jpath data' [''models'', model, ''cpu_scaling'', ''int8'', ''4''] = jpath data [''models'', model, ''cpu_int8'']"
    "jpath data' [''models'', model, ''cpu_scaling'', ''fp32'', ''4''] = jpath data [''models'', model, ''cpu'']"
    by (elim scaling_precision_from; simp add: j n scaling_shown_def small_cohorts_def noneE_def del: jpath.simps(2) add: jpath.simps(2) [of "JDict d" for d] jpath.simps(1))+
qed

definition model_qualified :: "fs \<Rightarrow> brief_args \<Rightarrow> json \<Rightarrow> string \<Rightarrow> bool" where
  "model_qualified fs a data model \<longleftrightarrow>
     (\<exists>s. jpath data [''models'', model, ''cpu_int8''] = Inr s \<and> cohort_from fs (ba_cpu_int8 a @ [model]) ''int8'' s) \<and>
     jpath data [''models'', model, ''cpu_scaling'', ''int8'', ''4''] = jpath data [''models'', model, ''cpu_int8''] \<and>
     jpath data [''models'', model, ''cpu_scaling'', ''fp32'', ''4''] = jpath data [''models'', model, ''cpu''] \<and>
     list_all (scaling_shown fs (ba_cpu_scaling a) data model) small_cohorts"

lemma scaling_shown_kept:
  assumes "list_all (scaling_shown fs r data model) small_cohorts"
    and "\<And>ks. jpath data' ([''models'', model, ''cpu_scaling''] @ ks) = jpath data ([''models'', model, ''cpu_scaling''] @ ks)"
  shows "list_all (scaling_shown fs r data' model) small_cohorts"
  using assms by (auto simp: list_all_iff scaling_shown_def simp del: jpath.simps)

lemma brief_data_model:
  assumes "brief_data fs a = Inr data" and "model \<in> set brief_models"
  shows "model_qualified fs a data model"
proof -
  from assms(1) obtain d0 d1 d2 d3 d4 d5 d6 where
    i1: "add_int8_model fs (ba_cpu_int8 a) ''lenet'' d0 = Inr d1" and i2: "add_int8_model fs (ba_cpu_int8 a) ''resnet50'' d1 = Inr d2"
    and s1: "add_supplementary_model fs (ba_report a) ''lenet'' d2 = Inr d3" and s2: "add_supplementary_model fs (ba_report a) ''resnet50'' d3 = Inr d4"
    and c1: "add_scaling_model fs (ba_cpu_scaling a) ''lenet'' d4 = Inr d5" and c2: "add_scaling_model fs (ba_cpu_scaling a) ''resnet50'' d5 = Inr d6"
    and p: "add_cpu_format_pilot fs (ba_cpu_format a) d6 = Inr data"
    unfolding brief_data_def add_cpu_int8_def add_supplementary_results_def add_cpu_scaling_def brief_models_def foldE.simps bindE_Inr_iff by auto
  note keep = pilot_keeps [OF p]
  have int8: "\<exists>s. jpath d4 [''models'', model, ''cpu_int8''] = Inr s \<and> cohort_from fs (ba_cpu_int8 a @ [model]) ''int8'' s"
    using assms(2) int8_model_shown [OF i1] int8_model_shown [OF i2] int8_keeps [OF i2, of "''lenet''"]
    unfolding supplementary_keeps [OF s2] supplementary_keeps [OF s1] by (auto simp: brief_models_def simp del: jpath.simps)
  have int8_kept: "jpath data [''models'', model, ''cpu_int8''] = jpath d4 [''models'', model, ''cpu_int8'']" for model
    unfolding keep by (simp add: scaling_keeps [OF c2] scaling_keeps [OF c1] del: jpath.simps)
  have cpu_kept: "jpath data [''models'', model, ''cpu''] = jpath d5 [''models'', model, ''cpu'']" "jpath data [''models'', model, ''cpu''] = jpath d4 [''models'', model, ''cpu'']" for model
    unfolding keep by (simp_all add: scaling_keeps [OF c2] scaling_keeps [OF c1] del: jpath.simps)
  have four: "jpath data [''models'', model, ''cpu_int8''] = jpath d5 [''models'', model, ''cpu_int8'']" for model
    unfolding keep by (simp add: scaling_keeps [OF c2] del: jpath.simps)
  have lenet: "jpath data ([''models'', ''lenet'', ''cpu_scaling''] @ ks) = jpath d5 ([''models'', ''lenet'', ''cpu_scaling''] @ ks)" for ks
    using scaling_keeps [OF c2, of "''cpu_scaling''" "''lenet''" ks] by (simp add: keep del: jpath.simps)
  have resnet: "jpath data ([''models'', ''resnet50'', ''cpu_scaling''] @ ks) = jpath d6 ([''models'', ''resnet50'', ''cpu_scaling''] @ ks)" for ks
    by (simp add: keep del: jpath.simps)
  from assms(2) consider "model = ''lenet''" | "model = ''resnet50''" by (auto simp: brief_models_def)
  then show ?thesis
  proof cases
    case 1
    from scaling_shown_kept [OF scaling_model_shown(1) [OF c1] lenet] scaling_model_shown(2,3) [OF c1] lenet [of "[''int8'', ''4'']"] lenet [of "[''fp32'', ''4'']"]
      int8 int8_kept [of "''lenet''"] cpu_kept [of "''lenet''"]
    show ?thesis by (simp add: 1 model_qualified_def del: jpath.simps)
  next
    case 2
    from scaling_shown_kept [OF scaling_model_shown(1) [OF c2] resnet] scaling_model_shown(2,3) [OF c2] resnet [of "[''int8'', ''4'']"] resnet [of "[''fp32'', ''4'']"]
      int8 int8_kept [of "''resnet50''"] four [of "''resnet50''"] cpu_kept [of "''resnet50''"]
    show ?thesis by (simp add: 2 model_qualified_def del: jpath.simps)
  qed
qed

text \<open>Reading the data of the evaluation brief either fails, or for both models every CPU cohort it shows is the
  summary of one report of latencies and one of power, both of five sessions and of the precision and the number
  of threads it is shown under; the cohort of four threads is the one shown as the INT8 or FP32 result.\<close>

lemma brief_data_qualified:
  "case brief_data fs a of Inl _ \<Rightarrow> True | Inr data \<Rightarrow> list_all (model_qualified fs a data) brief_models"
  using brief_data_model [of fs a] by (auto simp: list_all_iff split: sum.split)

end
