(* ===== verification/BriefCanvas.thy ===== *)
theory BriefCanvas
  imports Format
begin

text \<open>
  The drawing of the evaluation brief (tools/create_evaluation_brief.py): the calls on the canvas of a page as a
  list, and the pages that show no data. Lengths are rational numbers; what the page library computes (the
  height of a wrapped paragraph, the width of a text) and the decimal logarithm are parameters. A loop that
  moves a position along takes its positions from \<open>running\<close>.
\<close>

datatype canvas_op =
    FillColor string | StrokeColor string | LineWidth rat | Font string rat | Dash "rat list"
  | DrawLeft rat rat string | DrawRight rat rat string | DrawCentred rat rat string
  | DrawLine rat rat rat rat | DrawRect rat rat rat rat bool bool | DrawRound rat rat rat rat rat bool bool
  | DrawCircle rat rat rat bool bool | DrawPath "(rat \<times> rat) list" bool bool
  | DrawParagraph string string rat rat string rat rat rat
  | SaveState | RestoreState | Translate rat rat | Rotate rat | ShowPage | Meta string string

type_synonym drawing = "canvas_op list"

record brief_view =
  bv_wrap :: "string \<Rightarrow> string \<Rightarrow> rat \<Rightarrow> rat \<Rightarrow> rat \<Rightarrow> rat \<Rightarrow> rat"
  string_width :: "string \<Rightarrow> string \<Rightarrow> rat \<Rightarrow> rat"
  page_log :: "rat \<Rightarrow> rat"

text \<open>A millimetre in points, and A4 in landscape.\<close>

definition mm :: rat where
  "mm = 360 / 127"

definition PAGE_W :: rat where
  "PAGE_W = 297 * mm"

definition PAGE_H :: rat where
  "PAGE_H = 210 * mm"

definition MARGIN :: rat where
  "MARGIN = 17 * mm"

definition PAGE_COUNT :: rat where
  "PAGE_COUNT = 12"

subsection \<open>Colours\<close>

definition INK :: string where
  "INK = ''#18212B''"

definition MUTED :: string where
  "MUTED = ''#62717C''"

definition GRID :: string where
  "GRID = ''#DDE4E2''"

definition PAPER :: string where
  "PAPER = ''#FFFFFF''"

definition PANEL :: string where
  "PANEL = ''#F4F7F6''"

definition NVDLA :: string where
  "NVDLA = ''#0D8978''"

definition CPU_INT8 :: string where
  "CPU_INT8 = ''#3978A8''"

definition CPU_FP32 :: string where
  "CPU_FP32 = ''#B44B5A''"

definition GOLD :: string where
  "GOLD = ''#D99A2B''"

definition GREEN :: string where
  "GREEN = ''#2F8F5B''"

definition BLUE :: string where
  "BLUE = ''#3978A8''"

definition PALE_GREEN :: string where
  "PALE_GREEN = ''#E8F4EF''"

definition PALE_GOLD :: string where
  "PALE_GOLD = ''#FAF1DE''"

definition PS_COLOR :: string where
  "PS_COLOR = ''#3978A8''"

definition PL_COLOR :: string where
  "PL_COLOR = ''#D99A2B''"

definition brief_phase_color :: "string \<Rightarrow> string" where
  "brief_phase_color key = (if key = ''runtime_initialization'' then ''#718E9B''
     else if key = ''model_loading'' then CPU_INT8
     else if key = ''buffer_preparation'' then GOLD
     else if key = ''runtime_execution'' then NVDLA
     else if key = ''result_handling'' then ''#78A667''
     else if key = ''teardown'' then CPU_FP32
     else if key = ''unprofiled_process_and_launch'' then ''#AAB5B2''
     else [])"

subsection \<open>Texts and positions\<close>

definition count_text :: "rat \<Rightarrow> string" where
  "count_text n = fixed 0 n"

definition fmt_ms :: "rat \<Rightarrow> string" where
  "fmt_ms v = (if v < 10 then fixed 3 v @ '' ms'' else fixed 1 v @ '' ms'')"

definition fmt_rate :: "rat \<Rightarrow> string" where
  "fmt_rate v = (if v \<ge> 100 then fixed 0 v @ '' img/s'' else if v \<ge> 10 then fixed 1 v @ '' img/s'' else fixed 2 v @ '' img/s'')"

text \<open>\<open>enumerate(xs)\<close> and \<open>n % m\<close>, over rational numbers.\<close>

definition indexed :: "'a list \<Rightarrow> (rat \<times> 'a) list" where
  "indexed xs = zip (map of_nat [0..<length xs]) xs"

definition rmod :: "rat \<Rightarrow> rat \<Rightarrow> rat" where
  "rmod n m = n - m * of_int \<lfloor>n / m\<rfloor>"

text \<open>The items of a loop with the position each is drawn at, when each advances the position by an amount.\<close>

fun running :: "rat \<Rightarrow> ('a \<times> rat) list \<Rightarrow> ('a \<times> rat) list" where
  "running x [] = []"
| "running x ((item, advance) # rest) = (item, x) # running (x + advance) rest"

subsection \<open>Shared parts of the pages\<close>

definition brief_paragraph :: "brief_view \<Rightarrow> string \<Rightarrow> rat \<Rightarrow> rat \<Rightarrow> rat \<Rightarrow> rat \<Rightarrow> rat \<Rightarrow> string \<Rightarrow> string \<Rightarrow> canvas_op" where
  "brief_paragraph E txt x y_top width sz leading color font =
     DrawParagraph txt font sz leading color x (y_top - bv_wrap E txt font sz leading width (80 * mm)) width"

definition page_header :: "string \<Rightarrow> string \<Rightarrow> rat \<Rightarrow> drawing" where
  "page_header section title page =
     [FillColor INK, Font ''Helvetica-Bold'' (17 / 2), DrawLeft MARGIN (PAGE_H - 12 * mm) (upper section), FillColor MUTED,
      Font ''Helvetica'' (17 / 2),
      DrawRight (PAGE_W - MARGIN) (PAGE_H - 12 * mm) (''NVDLA evaluation brief  |  '' @ count_text page @ ''/'' @ count_text PAGE_COUNT),
      StrokeColor GRID, LineWidth (7 / 10), DrawLine MARGIN (PAGE_H - 15 * mm) (PAGE_W - MARGIN) (PAGE_H - 15 * mm), FillColor INK,
      Font ''Helvetica-Bold'' 24, DrawLeft MARGIN (PAGE_H - 27 * mm) title]"

definition footer :: "string \<Rightarrow> drawing" where
  "footer tx =
     [FillColor MUTED, Font ''Helvetica'' (15 / 2), DrawLeft MARGIN (8 * mm) tx,
      DrawRight (PAGE_W - MARGIN) (8 * mm) ''Correctness-qualified samples; no outliers discarded'']"

definition brief_panel :: "rat \<Rightarrow> rat \<Rightarrow> rat \<Rightarrow> rat \<Rightarrow> string \<Rightarrow> string \<Rightarrow> drawing" where
  "brief_panel x y w h fill_c stroke =
     [FillColor fill_c, StrokeColor stroke, LineWidth (3 / 5), DrawRound x y w h (3 * mm) True True]"

definition metric_card :: "brief_view \<Rightarrow> rat \<Rightarrow> rat \<Rightarrow> rat \<Rightarrow> rat \<Rightarrow> string \<Rightarrow> string \<Rightarrow> string \<Rightarrow> string \<Rightarrow> drawing" where
  "metric_card E x y w h v label note accent =
     brief_panel x y w h PAPER GRID
     @ [FillColor accent, DrawRect x y (3 * mm) h True False, FillColor INK, Font ''Helvetica-Bold'' 23,
      DrawLeft (x + 8 * mm) (y + h - 12 * mm) v,
      brief_paragraph E label (x + 8 * mm) (y + h - 18 * mm) (w - 14 * mm) (19 / 2) 11 INK ''Helvetica-Bold'',
      brief_paragraph E note (x + 8 * mm) (y + 10 * mm) (w - 14 * mm) (15 / 2) 9 MUTED ''Helvetica'']"

definition brief_legend :: "rat \<Rightarrow> rat \<Rightarrow> drawing" where
  "brief_legend x y =
     (let entries = [(''NVDLA INT8'', NVDLA, 32 * mm), (''CPU INT8, 4 threads'', CPU_INT8, 39 * mm), (''CPU FP32, 4 threads'', CPU_FP32, 0)] in
     concat (map (\<lambda>((label, color), x).
        [FillColor color, DrawCircle (x + 3) (y + 3) 3 True False, FillColor INK, Font ''Helvetica'' (39 / 5),
         DrawLeft (x + 10) y label]) (running x (map (\<lambda>(label, color, advance). ((label, color), advance)) entries))))"

definition draw_summary :: "brief_view \<Rightarrow> drawing" where
  "draw_summary E =
     [FillColor PAPER, DrawRect 0 0 PAGE_W PAGE_H True False, FillColor NVDLA,
      DrawRect 0 (PAGE_H - 10 * mm) PAGE_W (10 * mm) True False, FillColor INK, Font ''Helvetica-Bold'' 28,
      DrawLeft MARGIN (PAGE_H - 29 * mm) ''NVDLA on PetaLinux 2024.1'', Font ''Helvetica'' 15, FillColor MUTED,
      DrawLeft MARGIN (PAGE_H - 39 * mm) ''Correctness, latency, throughput, and monitored energy at a glance'']
     @ (let x_gap = 7 * mm; y_gap = 7 * mm; w = (PAGE_W - 2 * MARGIN - 2 * x_gap) / 3; h = 43 * mm; y_top = PAGE_H - 54 * mm;
          cards = [(''100 / 100'', ''LeNet stability'', ''One boot; no module reload or PL reset'', GREEN), (''246 / 246'',
            ''ResNet-50 hardware layers'', ''Exact match to source-built nv_small VP golden'', BLUE), (''1.34x'', ''Four-core CPU INT8 advantage'',
            ''378.7 ms CPU INT8 vs 507.7 ms NVDLA on ResNet-50'', CPU_INT8), (''1.92x'', ''NVDLA cold-deployment advantage'',
            ''1.336 s NVDLA vs 2.566 s CPU INT8 on ResNet-50'', NVDLA), (''-62.3%'', ''NVDLA incremental energy'',
            ''0.134 J NVDLA vs 0.356 J CPU INT8 on ResNet-50'', GOLD), (''20 x 2'', ''Input-sensitivity control'',
            ''Balanced image sets; three fresh boots per model'', BLUE)] in
     concat (map (\<lambda>(i, (v, label, note, accent)).
        (let row = of_int \<lfloor>i / 3\<rfloor>; col = rmod i 3 in
        metric_card E (MARGIN + col * (w + x_gap)) (y_top - (row + 1) * h - row * y_gap) w h v label note accent)) (indexed cards))
     @ [FillColor PALE_GOLD, DrawRound MARGIN (16 * mm) (PAGE_W - 2 * MARGIN) (16 * mm) (3 * mm) True False,
      brief_paragraph E (''<b>Comparison boundary:</b> nv_small NVDLA INT8 is compared with FP32 and independently quantized QDQ INT8 '' @
          ''ONNX Runtime using one, two and four Cortex-A53 cores. Equal nominal precision does not imply identical '' @
          ''quantization or graph transformation. The primary dataset contains 140 fresh-boot sessions; six '' @
          ''input-sensitivity sessions, ten ORT sessions and one ONNX continuity run provide supplementary controls.'') (MARGIN + 5 * mm) (28 * mm)
        (PAGE_W - 2 * MARGIN - 10 * mm) (17 / 2) (21 / 2) INK ''Helvetica''])"

definition draw_correctness :: "brief_view \<Rightarrow> drawing" where
  "draw_correctness E =
     page_header ''Evaluation coverage'' ''Correctness before performance'' 2
     @ footer ''Sources: VP configuration audit, differential trace, board stability and ResNet-50 artifacts''
     @ (let x = MARGIN; yl = 25 * mm; ladder_w = 52 * mm; ladder_h = 138 * mm in
     brief_panel x yl ladder_w ladder_h PAPER GRID
     @ [FillColor INK, Font ''Helvetica-Bold'' 11, DrawLeft (x + 7 * mm) (yl + ladder_h - 12 * mm) ''Layered acceptance'']
     @ (let steps = [''Pinned inputs'', ''ABI and build'', ''Verified nv_small VP'', ''Driver probe'', ''GEM mapping'', ''IRQ + engine completion'',
       ''Exact tensor + repeat''];
          upper_y = yl + ladder_h - 27 * mm in
     concat (map (\<lambda>(i, step_v).
        (let yy = upper_y - i * 16 * mm in
        (if (i < of_nat (length steps) - 1) then [StrokeColor GRID, LineWidth 2, DrawLine (x + 12 * mm) (yy - 10 * mm) (x + 12 * mm) (yy - 16 * mm)]
          else [])
        @ [FillColor PALE_GREEN, DrawCircle (x + 12 * mm) yy (5 * mm) True False, FillColor GREEN, Font ''Helvetica-Bold'' 10,
         DrawCentred (x + 12 * mm) (yy - 3) ''OK'',
         brief_paragraph E step_v (x + 21 * mm) (yy + 4 * mm) (ladder_w - 27 * mm) (17 / 2) 10 INK ''Helvetica-Bold''])) (indexed steps))
     @ (let model_x = x + ladder_w + 8 * mm; model_w = PAGE_W - MARGIN - model_x; model_h = 65 * mm in
     concat (map (\<lambda>(j, (name, subtitle, accent)).
        (let y = yl + (1 - j) * (model_h + 8 * mm) in
        brief_panel model_x y model_w model_h PAPER GRID
        @ [FillColor accent, DrawRect model_x y (4 * mm) model_h True False, FillColor INK, Font ''Helvetica-Bold'' 17,
         DrawLeft (model_x + 10 * mm) (y + model_h - 13 * mm) name, FillColor MUTED, Font ''Helvetica'' 9,
         DrawLeft (model_x + 10 * mm) (y + model_h - 20 * mm) subtitle]
        @ (let metrics = (if (j = 0) then [(''Input'', ''1 x 1 x 28 x 28''), (''Loadable'', ''0.446 MB''), (''Hardware layers'', ''10''),
          (''Engine mix'', ''4 Conv / 4 SDP / 2 PDP''), (''VP'', ''Exact output''), (''Board'', ''Exact; 100/100 repeats'')] else [(''Input'',
          ''1 x 3 x 224 x 224''), (''Loadable'', ''25.77 MB''), (''Hardware layers'', ''246''), (''Engine mix'', ''114 Conv / 130 SDP / 2 PDP''),
          (''VP'', ''246/246; golden established''), (''Board'', ''246/246; exact hash'')]);
             output = (if (j = 0) then ''Output: 0 2 0 0 0 0 0 124 0 0'' else ''Output: 1,000 signed values; SHA-256 842d34f...'');
             col_w = (model_w - 20 * mm) / 3 in
        concat (map (\<lambda>(i, (label, v)).
           (let row = of_int \<lfloor>i / 3\<rfloor>; col = rmod i 3;
                xx = model_x + 10 * mm + col * col_w; yy = y + (if (row = (0 :: rat)) then 36 * mm else 20 * mm) in
           [FillColor MUTED, Font ''Helvetica'' (15 / 2), DrawLeft xx yy (upper label), FillColor INK, Font ''Helvetica-Bold'' (41 / 5),
            DrawLeft xx (yy - 9) v])) (indexed metrics))
        @ [FillColor PALE_GREEN, DrawRound (model_x + 10 * mm) (y + 2 * mm) (model_w - 20 * mm) (8 * mm) (2 * mm) True False,
         FillColor GREEN, Font ''Helvetica-Bold'' 8, DrawLeft (model_x + 14 * mm) (y + (47 / 10) * mm) output]))) (indexed [(''LeNet / MNIST'',
           ''Fast repeat oracle'', NVDLA), (''ResNet-50'', ''Large multi-engine graph'', BLUE)])))))"

definition draw_method :: "brief_view \<Rightarrow> drawing" where
  "draw_method E =
     page_header ''Measurement design'' ''What was collected, and how to read it'' 12
     @ footer ''Full provenance remains in artifacts/final-reports, artifacts/review, artifacts/pilot and session archives''
     @ (let flow_y = PAGE_H - 61 * mm;
          steps = [(''1'', ''Fresh boot'', ''Unique Linux boot ID''), (''2'', ''Settle + verify'', ''Clock, frequency, hashes''), (''3'',
            ''Correctness gate'', ''Golden output + kernel health''), (''4'', ''Measure'', ''Unpowered latency or powered batch''), (''5'',
            ''Archive'', ''Raw profiles, rails, logs''), (''6'', ''Aggregate'', ''Five session medians + 95% CI'')];
          gap = 4 * mm; sw = (PAGE_W - 2 * MARGIN - 5 * gap) / 6 in
     concat (map (\<lambda>(i, (num_s, title, note)).
        (let x = MARGIN + i * (sw + gap) in
        brief_panel x (flow_y - 27 * mm) sw (27 * mm) PAPER GRID
        @ [FillColor (if (i < 4) then NVDLA else BLUE), DrawCircle (x + 8 * mm) (flow_y - 8 * mm) (4 * mm) True False, FillColor PAPER,
         Font ''Helvetica-Bold'' 9, DrawCentred (x + 8 * mm) (flow_y - (21 / 2) * mm) num_s, FillColor INK,
         Font ''Helvetica-Bold'' (41 / 5), DrawLeft (x + 15 * mm) (flow_y - 9 * mm) title,
         brief_paragraph E note (x + 5 * mm) (flow_y - 16 * mm) (sw - 10 * mm) (34 / 5) 8 MUTED ''Helvetica'']
        @ (if (i < of_nat (length steps) - 1) then [StrokeColor GRID, LineWidth (3 / 2), DrawLine (x + sw) (flow_y - (27 / 2) * mm) (x + sw + gap)
          (flow_y - (27 / 2) * mm)] else []))) (indexed steps))
     @ [FillColor INK, Font ''Helvetica-Bold'' 13, DrawLeft MARGIN (flow_y - 42 * mm) ''Metric inventory'']
     @ (let inventory = [(''Correctness'', ''Output hashes, exact tensors, engine sequence, IRQ deltas, repeat failures'', GREEN), (''Workload'',
       ''Input shape, loadable/model size, HWL count, per-engine operation count'', BLUE), (''Latency'',
       ''Cold deployment, warm deployment, loaded-context execution, runtime phases'', NVDLA), (''Throughput'',
       ''Images/s for every timing boundary; CPU/NVDLA latency ratios'', NVDLA), (''Power'',
       ''18 PS + PL rails, idle/active/incremental watts, integrated energy/inference'', GOLD), (''Environment'',
       ''Kernel, binary hashes, clock, CPU affinity/frequency/governor, boot ID'', CPU_FP32), (''Statistics'',
       ''Raw samples, mean/median, spread, percentiles, retained outliers, bootstrap CI'', BLUE), (''Evidence'',
       ''Serial, dmesg, runtime profiles, sensor samples, manifests, selection hashes'', GREEN)];
          inv_top = flow_y - 52 * mm; col_gap = 7 * mm; iw = (PAGE_W - 2 * MARGIN - col_gap) / 2; ih = 15 * mm in
     concat (map (\<lambda>(i, (title, note, accent)).
        (let row = of_int \<lfloor>i / 2\<rfloor>; col = rmod i 2;
             x = MARGIN + col * (iw + col_gap); y = inv_top - (row + 1) * ih - row * 2 * mm in
        brief_panel x y iw ih PAPER GRID
        @ [FillColor accent, DrawRect x y ((5 / 2) * mm) ih True False, FillColor INK, Font ''Helvetica-Bold'' (41 / 5),
         DrawLeft (x + 7 * mm) (y + 9 * mm) title,
         brief_paragraph E note (x + 31 * mm) (y + (23 / 2) * mm) (iw - 36 * mm) (34 / 5) 8 MUTED ''Helvetica''])) (indexed inventory))
     @ [FillColor PALE_GOLD, DrawRound MARGIN (15 * mm) (PAGE_W - 2 * MARGIN) (14 * mm) (2 * mm) True False,
      brief_paragraph E (''<b>Interpret with:</b> one ZCU102 and nv_small implementation; NVDLA INT8 versus independently quantized CPU '' @
          ''INT8 plus FP32; monitored rails rather than wall input; five boots per performance, scaling and CPU-format '' @
          ''cohort, plus three per input-sensitivity model.'') (MARGIN + 5 * mm) (26 * mm) (PAGE_W - 2 * MARGIN - 10 * mm) 8 (19 / 2) INK
        ''Helvetica'']))"

end
