(* ===== verification/BriefPages.thy ===== *)
theory BriefPages
  imports BriefData BriefCanvas
begin

text \<open>
  The pages of the evaluation brief that show data (tools/create_evaluation_brief.py): the numbers they read,
  and each page as the list of its calls, drawn from the numbers (\<open>draw_...\<close>). What a page needs of its numbers
  before it can divide by them is checked in EvaluationBrief, where the pages are read and put together.
\<close>

subsection \<open>Numbers\<close>

type_synonym numbers = "string list \<Rightarrow> rat"

definition read_numbers :: "json \<Rightarrow> string list list \<Rightarrow> numbers res" where
  "read_numbers data ps = bindE (mapE (\<lambda>p. bindE (jpath data p) jnum) ps) (\<lambda>vs.
     Inr (\<lambda>p. case map_of (zip ps vs) p of None \<Rightarrow> 0 | Some v \<Rightarrow> v))"

definition all_nonzero :: "rat list \<Rightarrow> unit res" where
  "all_nonzero vs = guardE (list_all (\<lambda>v. v \<noteq> 0) vs) ZeroDivisionError"

record variation_numbers =
  vn_repeats :: string
  vn_median :: rat
  vn_medians :: "rat list"
  vn_range :: rat
  vn_update :: rat
  vn_matches :: string

text \<open>\<open>n // k\<close> as text.\<close>

definition quotient_text :: "(rat \<Rightarrow> string) \<Rightarrow> json \<Rightarrow> nat \<Rightarrow> string res" where
  "quotient_text fr n k = (if k = 0 then Inl ZeroDivisionError else case n of
       JInt i \<Rightarrow> Inr (show_int (i div int k))
     | JBool b \<Rightarrow> Inr (show_int ((if b then 1 else 0) div int k))
     | JFloat r \<Rightarrow> Inr (fr (of_int \<lfloor>r / of_nat k\<rfloor>))
     | _ \<Rightarrow> Inl TypeError)"

definition deviations_of :: "rat \<Rightarrow> rat list \<Rightarrow> rat list" where
  "deviations_of m vs = map (\<lambda>v. (v - m) / m * 100) vs"

definition deviation_bound :: "rat list \<Rightarrow> rat" where
  "deviation_bound ds = max \<bar>Min (set ds)\<bar> \<bar>Max (set ds)\<bar> * (59 / 50)"

definition variation_of :: "(rat \<Rightarrow> string) \<Rightarrow> json \<Rightarrow> string \<Rightarrow> variation_numbers res" where
  "variation_of fr data model =
     bindE (jpath data [''models'', model, ''input_variation'']) (\<lambda>item.
     bindE (jpath item [''runtime_execution'', ''count'']) (\<lambda>n. bindE (bindE (jat item ''per_input'') jlist) (\<lambda>entries.
     bindE (quotient_text fr n (length entries)) (\<lambda>repeats.
     bindE (bindE (jpath item [''runtime_execution'', ''median_ns'']) jnum) (\<lambda>m.
     bindE (mapE (\<lambda>e. bindE (jpath e [''runtime_execution'', ''median_ns'']) jnum) entries) (\<lambda>vs. bindE (all_nonzero [m]) (\<lambda>_.
     bindE (all_nonzero [deviation_bound (deviations_of m vs)]) (\<lambda>_.
     bindE (num_at item ''between_input_median_range_percent'') (\<lambda>r. bindE (bindE (jpath item [''input_update'', ''median_ns'']) jnum) (\<lambda>u.
     bindE (jpath item [''classification'', ''distinct_input_matches'']) (\<lambda>k.
     Inr \<lparr>vn_repeats = repeats, vn_median = m, vn_medians = vs, vn_range = r, vn_update = u, vn_matches = py_str fr k\<rparr>)))))))))))"

text \<open>The phases of a regime: \<open>values.get(key, 0.0)\<close> and the sum of the values.\<close>

type_synonym phase_values = "(string \<times> rat) list"

definition value_of :: "phase_values \<Rightarrow> string \<Rightarrow> rat" where
  "value_of vs key = (case map_of vs key of None \<Rightarrow> 0 | Some v \<Rightarrow> v)"

definition total_of :: "phase_values \<Rightarrow> rat" where
  "total_of vs = sum_list (map snd vs)"

definition phase_width :: "rat \<Rightarrow> rat \<Rightarrow> rat \<Rightarrow> rat" where
  "phase_width bar_w v whole = (let width = bar_w * v / whole in if width \<le> 0 then 0 else width)"

definition phase_short :: "string \<Rightarrow> string" where
  "phase_short key = (if key = ''runtime_initialization'' then ''Init'' else if key = ''model_loading'' then ''Model''
     else if key = ''buffer_preparation'' then ''Buffers'' else if key = ''runtime_execution'' then ''Execution''
     else if key = ''result_handling'' then ''Result'' else if key = ''teardown'' then ''Teardown''
     else if key = ''unprofiled_process_and_launch'' then ''Launch'' else [])"

definition phases_of :: "json \<Rightarrow> string \<Rightarrow> string \<Rightarrow> phase_values res" where
  "phases_of data model regime = bindE (bindE (jpath data [''models'', model, ''nvdla'', ''phases'', regime]) jitems) (\<lambda>kvs.
     mapE (\<lambda>(k, v). bindE (jnum v) (\<lambda>r. Inr (k, r))) kvs)"

text \<open>\<open>math.log2(threads)\<close> for 1, 2 and 4 threads, and a time without its unit.\<close>

definition log2_threads :: "rat \<Rightarrow> rat" where
  "log2_threads threads = (if threads = 2 then 1 else if threads = 4 then 2 else 0)"

definition without_unit :: "string \<Rightarrow> string" where
  "without_unit s = remove_suffix s '' ms''"

subsection \<open>The pages\<close>

definition draw_phase_breakdown :: "brief_view \<Rightarrow> (string \<Rightarrow> string \<Rightarrow> phase_values) \<Rightarrow> drawing" where
  "draw_phase_breakdown E phases =
     page_header ''Latency composition'' ''Where does NVDLA deployment time go?'' 3
     @ footer ''Phase means from five fresh-boot latency sessions; no power sampling''
     @ (let phase_specs = [(''runtime_initialization'', ''Initialization''), (''model_loading'', ''Model loading''), (''buffer_preparation'',
       ''Input + buffers''), (''runtime_execution'', ''Runtime execution''), (''result_handling'', ''Result handling''), (''teardown'', ''Teardown''),
       (''unprofiled_process_and_launch'', ''Launch / unprofiled'')];
          legend_x = MARGIN; legend_y = PAGE_H - 40 * mm in
     concat (map (\<lambda>((key, label), legend_x).
        [FillColor (brief_phase_color key), DrawRect legend_x legend_y (4 * mm) (4 * mm) True False, FillColor INK,
         Font ''Helvetica'' (36 / 5), DrawLeft (legend_x + 6 * mm) (legend_y + (1 / 2) * mm) label]) (running legend_x (map (\<lambda>(key, label).
           ((key, label), string_width E label ''Helvetica'' (36 / 5) + 13 * mm)) phase_specs)))
     @ (let panel_h = 56 * mm; panel_w = PAGE_W - 2 * MARGIN in
     concat (map (\<lambda>(model_i, model).
        (let y = (if (model_i = 0) then 94 * mm else 31 * mm) in
        brief_panel MARGIN y panel_w panel_h PAPER GRID
        @ (let title = (if (model = ''lenet'') then ''LeNet'' else ''ResNet-50''); cold_total = total_of (phases model ''cold'') in
        [FillColor INK, Font ''Helvetica-Bold'' 12, DrawLeft (MARGIN + 8 * mm) (y + panel_h - 10 * mm) title, FillColor MUTED,
         Font ''Helvetica'' (73 / 10),
         DrawLeft (MARGIN + 30 * mm) (y + panel_h - 10 * mm) (''bar length is relative to this model'' @ [SQ] @ ''s cold launch-to-exit time'')]
        @ (let bar_x = MARGIN + 41 * mm; bar_w = panel_w - 72 * mm; bar_h = 7 * mm in
        concat (map (\<lambda>(row_i, (regime, regime_label)).
           (let yy = y + 30 * mm - row_i * 11 * mm; vs = phases model regime; whole = total_of vs in
           [FillColor INK, Font ''Helvetica-Bold'' (39 / 5), DrawRight (bar_x - 4 * mm) (yy + (11 / 5) * mm) regime_label,
            FillColor PANEL, DrawRound bar_x yy bar_w bar_h ((6 / 5) * mm) True False]
           @ concat (map (\<lambda>((key, label), cursor).
              (let width = bar_w * (value_of vs key) / cold_total; v = value_of vs key in
              (if (width > 0) then [FillColor (brief_phase_color key), DrawRect cursor yy width bar_h True False]
                 @ (if (width \<ge> 24 * mm) then (let share = v / whole * 100 in
                    [FillColor (if (key \<noteq> ''unprofiled_process_and_launch'') then PAPER else INK), Font ''Helvetica-Bold'' (33 / 5),
                     DrawCentred (cursor + width / 2) (yy + (11 / 5) * mm) ((phase_short key) @ '' '' @ fixed 1 share @ ''%'')]) else []) else [])))
                       (running bar_x (map (\<lambda>(key, label). ((key, label), phase_width bar_w (value_of vs key) cold_total)) phase_specs)))
           @ [FillColor INK, Font ''Helvetica-Bold'' (39 / 5),
            DrawLeft (bar_x + bar_w + 4 * mm) (yy + (11 / 5) * mm) (fmt_ms (whole / 1000000))])) (indexed [(''cold'', ''Cold launch''), (''warm'',
              ''Warm launch''), (''steady'', ''Loaded context'')]))
        @ (let warm_total = total_of (phases model ''warm''); steady_total = total_of (phases model ''steady'');
             warm_execution_share = value_of (phases model ''warm'') ''runtime_execution'' / warm_total * 100 in
        [FillColor MUTED, Font ''Helvetica'' 7,
         DrawRight (MARGIN + panel_w - 8 * mm) (y + panel_h - 10 * mm) (''Warm runtime execution share '' @ fixed 1 warm_execution_share @
           ''%  |  loaded context '' @ fmt_ms (steady_total / 1000000))]))))) (indexed [''lenet'', ''resnet50'']))
     @ [FillColor PALE_GOLD, DrawRound MARGIN (14 * mm) (PAGE_W - 2 * MARGIN) (10 * mm) (2 * mm) True False,
      brief_paragraph E (''<b>Timing boundary:</b> cold and warm bars span process launch to exit. Loaded context reuses the model and '' @
          ''buffers; its blocking runtime execution includes userspace dispatch, ioctl/KMD scheduling, accelerator work, '' @
          ''IRQ completion, and emulator tasks.'') (MARGIN + 5 * mm) ((43 / 2) * mm) (PAGE_W - 2 * MARGIN - 10 * mm) (36 / 5) (17 / 2) INK
        ''Helvetica'']))"

definition cpu_marker :: "rat \<Rightarrow> rat \<Rightarrow> string \<Rightarrow> rat \<Rightarrow> string \<Rightarrow> drawing" where
  "cpu_marker x y precision threads color =
     (let radius = (7 / 2) in
     [FillColor color, StrokeColor color, LineWidth (4 / 5)]
     @ (if (precision = ''int8'') then [DrawCircle x y radius True True] else [DrawRect (x - radius) (y - radius) (2 * radius)
       (2 * radius) True True])
     @ [FillColor PAPER, Font ''Helvetica-Bold'' (26 / 5), DrawCentred x (y - (9 / 5)) (count_text threads)])"

definition nvdla_marker :: "rat \<Rightarrow> rat \<Rightarrow> drawing" where
  "nvdla_marker x y =
     (let radius = (21 / 5) in
     [FillColor NVDLA, DrawPath [(x, y + radius), (x + radius, y), (x, y - radius), (x - radius, y)] True False])"

definition draw_latency :: "brief_view \<Rightarrow> numbers \<Rightarrow> drawing" where
  "draw_latency E num =
     page_header ''Latency'' ''Where does NVDLA sit across the CPU scaling range?'' 4
     @ footer ''Unpowered cohorts; markers are medians across five independent boot-session medians''
     @ (let legend_y = PAGE_H - 39 * mm; legend_x = PAGE_W - MARGIN - 126 * mm in
     nvdla_marker legend_x (legend_y + 3)
     @ [FillColor INK, Font ''Helvetica'' (39 / 5), DrawLeft (legend_x + 7) legend_y ''NVDLA INT8'']
     @ (let legend_x = legend_x + 36 * mm in
     cpu_marker legend_x (legend_y + 3) ''int8'' 4 CPU_INT8
     @ [FillColor INK, Font ''Helvetica'' (39 / 5), DrawLeft (legend_x + 7) legend_y ''CPU INT8'']
     @ (let legend_x = legend_x + 31 * mm in
     cpu_marker legend_x (legend_y + 3) ''fp32'' 4 CPU_FP32
     @ [FillColor INK, Font ''Helvetica'' (39 / 5), DrawLeft (legend_x + 7) legend_y ''CPU FP32'']
     @ (let legend_x = legend_x + 34 * mm in
     [FillColor MUTED, Font ''Helvetica'' (36 / 5), DrawLeft legend_x legend_y ''marker number = cores'']
     @ (let xl = 63 * mm;
          xr = PAGE_W - MARGIN - 8 * mm; chart_top = PAGE_H - 48 * mm; chart_bottom = 50 * mm; min_v = (1 / 2); max_v = 10000;
          xpos = (\<lambda>v. xl + (page_log E v - page_log E min_v) / (page_log E max_v - page_log E min_v) * (xr - xl)) in
     concat (map (\<lambda>tick.
        (let xx = xpos tick in
        [StrokeColor GRID, LineWidth (3 / 5), DrawLine xx chart_bottom xx chart_top, FillColor MUTED, Font ''Helvetica'' (15 / 2),
         DrawCentred xx (chart_bottom - 4 * mm) (general 6 tick @ '' ms'')])) [1, 10, 100, 1000, 10000])
     @ (let rows = [(''LeNet'', ''Cold'', ''lenet'', ''cold''), (''LeNet'', ''Warm'', ''lenet'', ''warm''), (''LeNet'', ''Loaded'', ''lenet'',
       ''steady''), (''ResNet-50'', ''Cold'', ''resnet50'', ''cold''), (''ResNet-50'', ''Warm'', ''resnet50'', ''warm''), (''ResNet-50'', ''Loaded'',
       ''resnet50'', ''steady'')];
          row_gap = (chart_top - chart_bottom) / (of_nat (length rows)) in
     concat (map (\<lambda>(i, (model_label, regime_label, model, regime)).
        (let y = chart_top - (i + (11 / 20)) * row_gap in
        (if (i = 3) then [StrokeColor GRID, LineWidth 1, DrawLine MARGIN (y + row_gap * (11 / 20)) xr (y + row_gap * (11 / 20))] else [])
        @ [FillColor INK, Font ''Helvetica-Bold'' (17 / 2), DrawRight (xl - 16 * mm) (y + 3) model_label, FillColor MUTED,
         Font ''Helvetica'' (15 / 2), DrawRight (xl - 2 * mm) (y + 3) regime_label]
        @ concat (map (\<lambda>(precision, color, direction).
           (let points = map (\<lambda>(core_index, threads). (xpos (num [''models'', model, ''cpu_scaling'', precision, count_text threads,
             ''latency'', regime, ''session_median_ms'']), y + direction * ((33 / 5) - core_index * 2) * mm, threads)) (indexed [1, 2, 4]) in
           [StrokeColor color, LineWidth (6 / 5)]
           @ concat (map (\<lambda>((xa, ya, ta), (xb, yb, tb)).
              [DrawLine xa ya xb yb]) (zip points (tl points)))
           @ concat (map (\<lambda>(xx, yy, threads).
              cpu_marker xx yy precision threads color) points))) [(''int8'', CPU_INT8, 1), (''fp32'', CPU_FP32, (- 1))])
        @ (let nvdla = num [''models'', model, ''nvdla'', ''latency'', regime, ''session_median_ms'']; xx = xpos nvdla in
        nvdla_marker xx y
        @ [FillColor NVDLA, Font ''Helvetica-Bold'' (36 / 5)]
        @ (if (xx > xr - 29 * mm) then [DrawRight (xx - 6) (y - (12 / 5)) (fmt_ms nvdla)] else [DrawLeft (xx + 6) (y - (12 / 5)) (fmt_ms nvdla)]))))
          (indexed rows))
     @ (let cpu_values = (\<lambda>model regime. concat (map (\<lambda>precision. map (\<lambda>threads. num [''models'', model, ''cpu_scaling'',
       precision, count_text threads, ''latency'', regime, ''session_median_ms'']) [1, 2, 4]) [''int8'', ''fp32'']));
          nvdla_value = (\<lambda>model regime. num [''models'', model, ''nvdla'', ''latency'', regime, ''session_median_ms'']);
          ratios = map (\<lambda>(model_label, regime_label, model, regime). ((model_label @ '' '' @ regime_label), Min (set
            (cpu_values model regime)) / (nvdla_value model regime), of_nat (length (List.filter (\<lambda>v. (nvdla_value model regime < v))
            (cpu_values model regime))))) rows;
          bx = MARGIN; by = 16 * mm; bw = (PAGE_W - 2 * MARGIN - 5 * 4 * mm) / 6 in
     concat (map (\<lambda>(i, (label, ratio, nvdla_wins)).
        (let xx = bx + i * (bw + 4 * mm); fill_c = (if (ratio > 1) then PALE_GREEN else PALE_GOLD) in
        brief_panel xx by bw (23 * mm) fill_c fill_c
        @ [FillColor (if (ratio > 1) then GREEN else GOLD), Font ''Helvetica-Bold'' 15,
         DrawCentred (xx + bw / 2) (by + 13 * mm) (fixed 2 ratio @ ''x''), FillColor INK, Font ''Helvetica'' (36 / 5),
         DrawCentred (xx + bw / 2) (by + (13 / 2) * mm) label, FillColor MUTED, Font ''Helvetica'' (61 / 10),
         DrawCentred (xx + bw / 2) (by + (5 / 2) * mm) (''NVDLA ahead of '' @ count_text nvdla_wins @ ''/6'')])) (indexed ratios))
     @ [FillColor MUTED, Font ''Helvetica'' (36 / 5),
      DrawLeft MARGIN (43 * mm) ''Fastest CPU time / NVDLA time: above 1.0 favors NVDLA; below 1.0 favors the fastest CPU configuration''])))))))"

definition flow_row :: "rat \<Rightarrow> string \<Rightarrow> (string \<times> rat) list \<Rightarrow> string \<Rightarrow> drawing" where
  "flow_row y label boxes color =
     [FillColor INK, Font ''Helvetica-Bold'' (36 / 5), DrawLeft (MARGIN + 7 * mm) (y + 3 * mm) label]
     @ concat (map (\<lambda>((index, (text_value, width_mm)), cursor).
        [FillColor (if (index = 0) then color else PANEL), StrokeColor color,
         DrawRound cursor y (width_mm * mm) (8 * mm) ((3 / 2) * mm) True True, FillColor (if (index = 0) then PAPER else INK),
         Font (if (index = 0) then ''Helvetica-Bold'' else ''Helvetica'') (13 / 2),
         DrawCentred (cursor + width_mm * mm / 2) (y + (14 / 5) * mm) text_value]
        @ (let end_x = cursor + width_mm * mm in
        (if (index < of_nat (length boxes) - 1) then [StrokeColor MUTED, DrawLine (end_x + 1 * mm) (y + 4 * mm) (end_x + 4 * mm) (y + 4 * mm)]
          else []))) (running (MARGIN + 32 * mm) (map (\<lambda>(index, (text_value, width_mm)). ((index, (text_value, width_mm)),
          width_mm * mm + 5 * mm)) (indexed boxes))))"

definition draw_cpu_format :: "numbers \<Rightarrow> (string \<Rightarrow> string) \<Rightarrow> drawing" where
  "draw_cpu_format num node_text =
     page_header ''CPU deployment format'' ''Can offline optimization close the deployment gap?'' 5
     @ footer ''Five boots/format; current-image ResNet-50 ONNX control reproduced the baseline''
     @ (let legend_y = PAGE_H - 39 * mm in
     [FillColor GRID, DrawRect (PAGE_W - MARGIN - 90 * mm) (legend_y - 1) (8 * mm) (4 * mm) True False, FillColor INK,
      Font ''Helvetica'' (39 / 5), DrawLeft (PAGE_W - MARGIN - 80 * mm) legend_y ''Portable ONNX'', FillColor CPU_INT8,
      DrawRect (PAGE_W - MARGIN - 48 * mm) (legend_y - 1) (8 * mm) (4 * mm) True False, FillColor INK,
      DrawLeft (PAGE_W - MARGIN - 38 * mm) legend_y ''ARM-targeted ORT'']
     @ (let gap = 7 * mm; panel_y = 72 * mm; panel_h = 89 * mm; panel_w = (PAGE_W - 2 * MARGIN - gap) / 2;
          model_specs = [(''lenet'', ''LeNet'', MARGIN), (''resnet50'', ''ResNet-50'', MARGIN + panel_w + gap)] in
     concat (map (\<lambda>(model, model_label, x).
        (let onnx_size = num [''cpu_format_pilot'', model, ''onnx_size_bytes''];
             size_change = (num [''cpu_format_pilot'', model, ''ort_size_bytes''] / onnx_size - 1) * 100 in
        brief_panel x panel_y panel_w panel_h PAPER GRID
        @ [FillColor INK, Font ''Helvetica-Bold'' 14, DrawLeft (x + 7 * mm) (panel_y + panel_h - 11 * mm) model_label, FillColor MUTED,
         Font ''Helvetica'' (36 / 5),
         DrawRight (x + panel_w - 7 * mm) (panel_y + panel_h - 10 * mm) ((node_text model) @ '' nodes  |  '' @ fixed 2 (onnx_size / 1000000) @
           '' MB  |  ORT size '' @ fixed_signed 1 size_change @ ''%'')]
        @ (let bar_x = x + 28 * mm; bar_w = 74 * mm in
        concat (map (\<lambda>(row_index, (regime, regime_label)).
           (let row_y = panel_y + panel_h - (34 + row_index * 25) * mm;
                onnx_ms = num [''cpu_format_pilot'', model, ''formats'', ''onnx'', regime, ''session_median_ms''];
                ort_ms = num [''cpu_format_pilot'', model, ''formats'', ''ort'', regime, ''session_median_ms''];
                ratio = ort_ms / onnx_ms; reduction = (1 - ratio) * 100 in
           [FillColor INK, Font ''Helvetica-Bold'' (17 / 2), DrawLeft (x + 7 * mm) (row_y + (3 / 2) * mm) regime_label,
            FillColor CPU_INT8, Font ''Helvetica-Bold'' (33 / 5),
            DrawLeft (x + 7 * mm) (row_y - (15 / 2) * mm) (fixed 1 reduction @ ''% faster''), FillColor GRID,
            DrawRect bar_x (row_y + (5 / 2) * mm) bar_w ((9 / 2) * mm) True False, FillColor CPU_INT8,
            DrawRect bar_x (row_y - 4 * mm) (bar_w * ratio) ((9 / 2) * mm) True False, FillColor MUTED, Font ''Helvetica'' (34 / 5),
            DrawRight (bar_x - 2 * mm) (row_y + (18 / 5) * mm) ''ONNX'', DrawRight (bar_x - 2 * mm) (row_y - (29 / 10) * mm) ''ORT'',
            FillColor INK, Font ''Helvetica-Bold'' (34 / 5), DrawLeft (bar_x + bar_w + 2 * mm) (row_y + (18 / 5) * mm) (fmt_ms onnx_ms),
            DrawLeft (bar_x + bar_w * ratio + 2 * mm) (row_y - (29 / 10) * mm) (fmt_ms ort_ms)])) (indexed [(''cold'', ''Cold''), (''warm'',
              ''Warm'')]))
        @ (let loaded_y = panel_y + 6 * mm in
        brief_panel (x + 7 * mm) loaded_y (panel_w - 14 * mm) (16 * mm) PANEL PANEL
        @ (let loaded_onnx = num [''cpu_format_pilot'', model, ''formats'', ''onnx'', ''steady'', ''session_median_ms''];
             loaded_ort = num [''cpu_format_pilot'', model, ''formats'', ''ort'', ''steady'', ''session_median_ms''] in
        [FillColor INK, Font ''Helvetica-Bold'' 8, DrawLeft (x + 12 * mm) (loaded_y + (19 / 2) * mm) ''Loaded context'',
         Font ''Helvetica-Bold'' 9,
         DrawCentred (x + panel_w * (57 / 100)) (loaded_y + (19 / 2) * mm) (fmt_ms loaded_onnx @ ''  ->  '' @ fmt_ms loaded_ort),
         FillColor MUTED, Font ''Helvetica'' (34 / 5),
         DrawCentred (x + panel_w * (57 / 100)) (loaded_y + 4 * mm) ''95% boot-level confidence intervals overlap'']))))) model_specs)
     @ (let flow_y = 17 * mm; flow_h = 43 * mm; flow_w = 166 * mm in
     brief_panel MARGIN flow_y flow_w flow_h PAPER GRID
     @ [FillColor INK, Font ''Helvetica-Bold'' 9,
      DrawLeft (MARGIN + 7 * mm) (flow_y + flow_h - 9 * mm) ''What changes at process startup?'']
     @ flow_row (flow_y + 20 * mm) ''ONNX'' [(''Parse graph'', 29), (''Optimize + fuse'', 34), (''Build session'', 30), (''Execute'', 24)] MUTED
     @ flow_row (flow_y + 7 * mm) ''ORT'' [(''Pre-optimized graph'', 42), (''Build session'', 35), (''Execute'', 27)] CPU_INT8
     @ (let context_x = MARGIN + flow_w + gap; context_w = PAGE_W - MARGIN - context_x in
     brief_panel context_x flow_y context_w flow_h PALE_GREEN PALE_GREEN
     @ [FillColor INK, Font ''Helvetica-Bold'' 9,
      DrawLeft (context_x + 7 * mm) (flow_y + flow_h - 9 * mm) ''ResNet-50 NVDLA context'', FillColor MUTED,
      Font ''Helvetica'' (34 / 5),
      DrawLeft (context_x + 7 * mm) (flow_y + flow_h - 15 * mm) ''CPU ORT FP32 time / NVDLA INT8 time'']
     @ (let context_values = map (\<lambda>(regime, label). (num [''cpu_format_pilot'', ''resnet50'', ''formats'', ''ort'', regime,
       ''session_median_ms''] / (num [''models'', ''resnet50'', ''nvdla'', ''latency'', regime, ''session_median_ms'']), label)) [(''cold'',
       ''Cold''), (''warm'', ''Warm''), (''steady'', ''Loaded'')];
          metric_w = (context_w - 14 * mm) / 3 in
     concat (map (\<lambda>(index, (v, label)).
        (let metric_x = context_x + 7 * mm + index * metric_w in
        [FillColor GREEN, Font ''Helvetica-Bold'' 15, DrawCentred (metric_x + metric_w / 2) (flow_y + 14 * mm) (fixed 2 v @ ''x''),
         FillColor INK, Font ''Helvetica'' (34 / 5), DrawCentred (metric_x + metric_w / 2) (flow_y + 7 * mm) label])) (indexed context_values)))))))"

definition draw_input_variation :: "brief_view \<Rightarrow> (string \<Rightarrow> variation_numbers) \<Rightarrow> drawing" where
  "draw_input_variation E iv =
     page_header ''Input sensitivity'' ''Does execution time depend on the image?'' 6
     @ footer ''Supplementary control: 20 balanced inputs and three fresh boots per model''
     @ [FillColor PALE_GREEN, DrawRound MARGIN (155 * mm) (PAGE_W - 2 * MARGIN) (13 * mm) ((5 / 2) * mm) True False,
      brief_paragraph E (''<b>Execution-validity result:</b> every input produced a repeat-stable output, increased IRQ activity, and '' @
          ''completed without a bad kernel pattern.'') (MARGIN + 5 * mm) ((329 / 2) * mm) (PAGE_W - 2 * MARGIN - 10 * mm) (17 / 2) 10 GREEN
        ''Helvetica'']
     @ (let gap = 8 * mm; pw = (PAGE_W - 2 * MARGIN - gap) / 2; py = 31 * mm; ph = 117 * mm in
     concat (map (\<lambda>(model_i, model).
        (let x = MARGIN + model_i * (pw + gap);
             title = (if (model = ''lenet'') then ''LeNet / MNIST'' else ''ResNet-50 / Imagenette'');
             repeats = vn_repeats (iv model); med_ns = vn_median (iv model);
             per_input = vn_medians (iv model); deviations = deviations_of med_ns per_input;
             bound = deviation_bound deviations;
             acceptance = (if (model = ''lenet'') then ''top-1'' else ''top-5'') in
        brief_panel x py pw ph PAPER GRID
        @ [FillColor NVDLA, DrawRect x py (3 * mm) ph True False, FillColor INK, Font ''Helvetica-Bold'' 15,
         DrawLeft (x + 9 * mm) (py + ph - 12 * mm) title, FillColor MUTED, Font ''Helvetica'' 8,
         DrawLeft (x + 9 * mm) (py + ph - 19 * mm) (''20 inputs x '' @ repeats @ '' measured executions; loaded model and buffers reused'')]
        @ (let plot_x0 = x + 19 * mm; plot_x1 = x + pw - 10 * mm; plot_y = py + 66 * mm in
        [FillColor INK, Font ''Helvetica-Bold'' (17 / 2),
         DrawLeft (x + 9 * mm) (py + ph - 32 * mm) ''Per-input median execution deviation'', FillColor MUTED, Font ''Helvetica'' 7,
         DrawRight (x + pw - 10 * mm) (py + ph - 32 * mm) ''model-specific horizontal scale'', StrokeColor GRID, LineWidth 1,
         DrawLine plot_x0 plot_y plot_x1 plot_y]
        @ (let xpos = (\<lambda>v. plot_x0 + (v + bound) / (2 * bound) * (plot_x1 - plot_x0)) in
        concat (map (\<lambda>v.
           (let xx = xpos v in
           [StrokeColor (if (v \<noteq> 0) then GRID else MUTED), LineWidth (if (v \<noteq> 0) then (7 / 10) else (11 / 10)),
            DrawLine xx (plot_y - 10 * mm) xx (plot_y + 10 * mm), FillColor MUTED, Font ''Helvetica'' (34 / 5)]
           @ (let label = (if (v = 0) then ''0'' else (fixed_signed 4 v @ ''%'')) in
           [DrawCentred xx (plot_y - 15 * mm) label]))) [(- bound), 0, bound])
        @ concat (map (\<lambda>(index, v).
           (let yy = plot_y + (rmod index 5 - 2) * (17 / 5) * mm in
           [FillColor NVDLA, DrawCircle (xpos v) yy (21 / 10) True False])) (indexed deviations))
        @ (let range_pct = vn_range (iv model) in
        [FillColor INK, Font ''Helvetica-Bold'' (41 / 5),
         DrawLeft (x + 9 * mm) (py + 43 * mm) (''Observed range across the 20 medians: '' @ fixed 4 range_pct @ ''%''),
         FillColor MUTED, Font ''Helvetica'' (36 / 5),
         DrawLeft (x + 9 * mm) (py + 37 * mm) ''Input decode and file I/O are outside this execution interval.'']
        @ (let metric_y = py + 11 * mm; metric_w = (pw - 23 * mm) / 4;
             metrics = [(fmt_ms (med_ns / 1000000), ''Median execution''), (fmt_ms (vn_update (iv model) / 1000000), ''Prepared input copy''),
               (''20 / 20'', ''Stable outputs''), (((vn_matches (iv model)) @ '' / 20''), (''Recorded '' @ acceptance))] in
        concat (map (\<lambda>(i, (v, label)).
           (let mx = x + 9 * mm + i * (metric_w + (17 / 10) * mm) in
           [FillColor (if (i \<noteq> 3) then INK else BLUE), Font ''Helvetica-Bold'' 10, DrawLeft mx (metric_y + 8 * mm) v,
            brief_paragraph E label mx (metric_y + 4 * mm) metric_w (67 / 10) (39 / 5) MUTED ''Helvetica''])) (indexed metrics)))))))) (indexed [''lenet'',
              ''resnet50'']))
     @ [FillColor PALE_GOLD, DrawRound MARGIN (14 * mm) (PAGE_W - 2 * MARGIN) (11 * mm) (2 * mm) True False,
      brief_paragraph E (''<b>Interpretation:</b> class accuracy is descriptive model-quality context from a small curated set. Hardware '' @
          ''acceptance is based on repeat-stable output, IRQ progress, and clean kernel logs.'') (MARGIN + 5 * mm) (22 * mm)
        (PAGE_W - 2 * MARGIN - 10 * mm) (15 / 2) 9 INK ''Helvetica''])"

definition draw_throughput :: "brief_view \<Rightarrow> numbers \<Rightarrow> drawing" where
  "draw_throughput E num =
     page_header ''Scale and throughput'' ''What changes between LeNet and ResNet-50?'' 7
     @ footer ''Throughput is reciprocal mean latency, not concurrent pipelined throughput''
     @ (let left_x = MARGIN; mid_x = PAGE_W / 2 + 2 * mm; upper_y = PAGE_H - 45 * mm in
     brief_panel left_x (24 * mm) (PAGE_W / 2 - MARGIN - 6 * mm) (upper_y - 24 * mm) PAPER GRID
     @ brief_panel mid_x (24 * mm) (PAGE_W / 2 - MARGIN - 6 * mm) (upper_y - 24 * mm) PAPER GRID
     @ [FillColor INK, Font ''Helvetica-Bold'' 12, DrawLeft (left_x + 7 * mm) (upper_y - 10 * mm) ''Loaded-context throughput'',
      DrawLeft (mid_x + 7 * mm) (upper_y - 10 * mm) ''Workload scale and operation mix'']
     @ concat (map (\<lambda>(j, model).
        (let label = (if (model = ''lenet'') then ''LeNet'' else ''ResNet-50''); y = upper_y - 35 * mm - j * 53 * mm in
        [FillColor INK, Font ''Helvetica-Bold'' 10, DrawLeft (left_x + 8 * mm) (y + 15 * mm) label]
        @ (let rate = (\<lambda>stack. 1000 / (num [''models'', model, stack, ''latency'', ''steady'', ''mean_ms'']));
             max_rate = Max (set (map (\<lambda>stack. rate stack) [''nvdla'', ''cpu_int8'', ''cpu''])) * (27 / 25) in
        concat (map (\<lambda>(i, (stack, stack_label, color)).
           (let yy = y + 5 * mm - i * (15 / 2) * mm; width = 62 * mm * (rate stack) / max_rate in
           [FillColor MUTED, Font ''Helvetica'' (34 / 5), DrawRight (left_x + 34 * mm) (yy + (13 / 10) * mm) stack_label, FillColor color,
            DrawRound (left_x + 36 * mm) yy width ((11 / 2) * mm) ((3 / 2) * mm) True False, FillColor INK, Font ''Helvetica-Bold'' 8,
            DrawLeft (left_x + 38 * mm + width) (yy + 1) (fmt_rate (rate stack))])) (indexed [(''nvdla'', ''NVDLA'', NVDLA), (''cpu_int8'',
              ''CPU INT8'', CPU_INT8), (''cpu'', ''CPU FP32'', CPU_FP32)]))))) (indexed [''lenet'', ''resnet50'']))
     @ concat (map (\<lambda>(j, model).
        (let info_size = (if (model = ''lenet'') then ''0.446 MB'' else ''25.77 MB'');
             info_hwls = (if (model = ''lenet'') then ''10'' else ''246'');
             info_ops = (if (model = ''lenet'') then [(''Conv'', 4, NVDLA), (''SDP'', 4, GOLD), (''PDP'', 2, BLUE)] else [(''Conv'', 114, NVDLA),
               (''SDP'', 130, GOLD), (''PDP'', 2, BLUE)]);
             label = (if (model = ''lenet'') then ''LeNet'' else ''ResNet-50''); y = upper_y - 28 * mm - j * 56 * mm in
        [FillColor INK, Font ''Helvetica-Bold'' 11, DrawLeft (mid_x + 8 * mm) y label, FillColor MUTED, Font ''Helvetica'' 8]
        @ (let cpu_sizes = (if (model = ''lenet'') then ''CPU ONNX: 1.73 MB FP32 / 0.45 MB INT8'' else
          ''CPU ONNX: 102.48 MB FP32 / 26.09 MB INT8'') in
        [DrawLeft (mid_x + 8 * mm) (y - 7 * mm) (''NVDLA: '' @ info_size @ '' loadable  |  '' @ info_hwls @ '' hardware layers''),
         Font ''Helvetica'' (73 / 10), DrawLeft (mid_x + 8 * mm) (y - 12 * mm) cpu_sizes]
        @ (let bar_x = mid_x + 8 * mm; bar_y = y - 23 * mm; bar_w = 101 * mm; whole = sum_list (map (\<lambda>(n, v, k). v) info_ops) in
        concat (map (\<lambda>((name, v, color), cursor).
           (let width = bar_w * v / whole in
           [FillColor color, DrawRect cursor bar_y width (8 * mm) True False]
           @ (if (width > 12 * mm) then [FillColor PAPER, Font ''Helvetica-Bold'' (15 / 2),
               DrawCentred (cursor + width / 2) (bar_y + (27 / 10) * mm) (name @ '' '' @ count_text v)] else []))) (running bar_x (map
                 (\<lambda>(name, v, color). ((name, v, color), bar_w * v / whole)) info_ops)))
        @ (if (model = ''resnet50'') then [FillColor BLUE, DrawCircle (bar_x + bar_w + 4 * mm) (bar_y + 4 * mm) (23 / 10) True False, FillColor INK,
            Font ''Helvetica'' 7, DrawLeft (bar_x + bar_w + 8 * mm) (bar_y + (11 / 5) * mm) ''PDP 2''] else []))))) (indexed [''lenet'',
              ''resnet50'']))
     @ [FillColor PALE_GOLD, DrawRound (mid_x + 8 * mm) (32 * mm) (107 * mm) (19 * mm) (2 * mm) True False,
      brief_paragraph E (''ResNet-50 has <b>24.6x</b> more hardware layers and a <b>57.8x</b> larger loadable. Its larger execution '' @
          ''graph amortizes fixed submission and interrupt costs.'') (mid_x + 13 * mm) (47 * mm) (97 * mm) (17 / 2) (21 / 2) INK ''Helvetica''])"

definition draw_cpu_scaling_latency :: "brief_view \<Rightarrow> numbers \<Rightarrow> drawing" where
  "draw_cpu_scaling_latency E num =
     page_header ''CPU scaling'' ''How does execution latency scale with CPU cores?'' 8
     @ footer ''Loaded-context latency; five fresh-boot sessions for every model, precision and core count''
     @ (let lx = MARGIN; ly = PAGE_H - 40 * mm in
     concat (map (\<lambda>((label, color, dashed), lx).
        [StrokeColor color, LineWidth 2]
        @ (if dashed then [Dash [4, 3]] else [Dash []])
        @ [DrawLine lx (ly + 2 * mm) (lx + 10 * mm) (ly + 2 * mm), Dash [], FillColor INK, Font ''Helvetica'' (39 / 5),
         DrawLeft (lx + 13 * mm) ly label]) (running lx [((''CPU INT8'', CPU_INT8, False), 46 * mm), ((''CPU FP32'', CPU_FP32, False), 46 * mm),
           ((''NVDLA INT8 reference'', NVDLA, True), 0)]))
     @ (let gap = 8 * mm; pw = (PAGE_W - 2 * MARGIN - gap) / 2; py = 31 * mm; ph = 119 * mm in
     concat (map (\<lambda>(model_i, model).
        (let x = MARGIN + model_i * (pw + gap); title = (if (model = ''lenet'') then ''LeNet'' else ''ResNet-50'');
             nvdla_ms = num [''models'', model, ''nvdla'', ''latency'', ''steady'', ''session_median_ms''];
             vs = concat (map (\<lambda>precision. map (\<lambda>threads. num [''models'', model, ''cpu_scaling'', precision, count_text threads,
               ''latency'', ''steady'', ''session_median_ms'']) [1, 2, 4]) [''int8'', ''fp32'']);
             raw_max = Max (set (vs @ [nvdla_ms]));
             step_v = (if (raw_max < 5) then (1 / 2) else 500); y_max = of_int \<lceil>raw_max / step_v\<rceil> * step_v in
        brief_panel x py pw ph PAPER GRID
        @ [FillColor INK, Font ''Helvetica-Bold'' 15, DrawLeft (x + 9 * mm) (py + ph - 12 * mm) title, FillColor MUTED,
         Font ''Helvetica'' (15 / 2), DrawLeft (x + 9 * mm) (py + ph - 19 * mm) ''session-median loaded execution; lower is better'']
        @ (let plot_x0 = x + 22 * mm; plot_x1 = x + pw - 11 * mm; plot_y0 = py + 39 * mm; plot_y1 = py + 90 * mm;
             xpos = (\<lambda>threads. plot_x0 + log2_threads threads / 2 * (plot_x1 - plot_x0));
             ypos = (\<lambda>v. plot_y0 + v / y_max * (plot_y1 - plot_y0)) in
        concat (map (\<lambda>fraction.
           (let yy = plot_y0 + fraction * (plot_y1 - plot_y0) in
           [StrokeColor GRID, LineWidth (3 / 5), DrawLine plot_x0 yy plot_x1 yy, FillColor MUTED, Font ''Helvetica'' (34 / 5),
            DrawRight (plot_x0 - 3 * mm) (yy - 2) (general 6 (y_max * fraction))])) [0, (1 / 2), 1])
        @ [FillColor MUTED, Font ''Helvetica'' (34 / 5), DrawRight (plot_x0 - 3 * mm) (plot_y1 + 4 * mm) ''ms'']
        @ concat (map (\<lambda>threads.
           (let xx = xpos threads in
           [StrokeColor GRID, DrawLine xx plot_y0 xx (plot_y0 - 2 * mm), FillColor INK, Font ''Helvetica-Bold'' 7,
            DrawCentred xx (plot_y0 - 6 * mm) (count_text threads)])) [1, 2, 4])
        @ [FillColor MUTED, Font ''Helvetica'' 7, DrawCentred ((plot_x0 + plot_x1) / 2) (plot_y0 - 12 * mm) ''CPU cores'']
        @ (let ref_y = ypos nvdla_ms in
        [StrokeColor NVDLA, LineWidth (7 / 5), Dash [4, 3], DrawLine plot_x0 ref_y plot_x1 ref_y, Dash [], FillColor NVDLA,
         Font ''Helvetica-Bold'' (34 / 5), DrawRight plot_x1 (ref_y + 2 * mm) (''NVDLA '' @ fmt_ms nvdla_ms)]
        @ concat (map (\<lambda>(precision, color).
           (let points = map (\<lambda>threads. (xpos threads, ypos (num [''models'', model, ''cpu_scaling'', precision, count_text threads,
             ''latency'', ''steady'', ''session_median_ms'']), num [''models'', model, ''cpu_scaling'', precision, count_text threads, ''latency'',
             ''steady'', ''session_median_ms''])) [1, 2, 4] in
           [StrokeColor color, LineWidth (9 / 5)]
           @ concat (map (\<lambda>((xa, ya, va), (xb, yb, vb)).
              [DrawLine xa ya xb yb]) (zip points (tl points)))
           @ concat (map (\<lambda>(threads, (xx, yy, v)).
              [FillColor color, DrawCircle xx yy (5 / 2) True False, Font ''Helvetica-Bold'' (13 / 2)]
              @ (let label_y = (if (precision = ''int8'') then yy - 5 * mm else yy + 3 * mm); label = without_unit (fmt_ms v) in
              (if (threads = (1 :: rat)) then [DrawLeft (xx + 2 * mm) label_y label] else (if (threads = 4) then [DrawRight (xx - 2 * mm) label_y label]
                else [DrawCentred xx label_y label])))) (zip [1, 2, 4] points)))) [(''int8'', CPU_INT8), (''fp32'', CPU_FP32)])
        @ (let int8_speedup = num [''models'', model, ''cpu_scaling'', ''int8'', ''1'', ''latency'', ''steady'', ''session_median_ms''] /
          (num [''models'', model, ''cpu_scaling'', ''int8'', ''4'', ''latency'', ''steady'', ''session_median_ms'']);
             fp32_speedup = num [''models'', model, ''cpu_scaling'', ''fp32'', ''1'', ''latency'', ''steady'', ''session_median_ms''] /
               (num [''models'', model, ''cpu_scaling'', ''fp32'', ''4'', ''latency'', ''steady'', ''session_median_ms'']) in
        [FillColor PALE_GREEN, DrawRound (x + 9 * mm) (py + 9 * mm) (pw - 18 * mm) (16 * mm) (2 * mm) True False, FillColor INK,
         Font ''Helvetica-Bold'' 8,
         DrawLeft (x + 14 * mm) (py + 18 * mm) (''1 to 4 cores: '' @ fixed 2 int8_speedup @ ''x INT8  |  '' @ fixed 2 fp32_speedup @ ''x FP32'')]
        @ (let takeaway = (if (model = ''lenet'') then ''NVDLA beats one-thread FP32; CPU INT8 remains faster.'' else
          ''NVDLA beats one- and two-core CPU INT8; four cores are faster.'') in
        [FillColor MUTED, Font ''Helvetica'' (71 / 10), DrawLeft (x + 14 * mm) (py + 12 * mm) takeaway])))))) (indexed [''lenet'', ''resnet50'']))
     @ [FillColor PALE_GOLD, DrawRound MARGIN (14 * mm) (PAGE_W - 2 * MARGIN) (10 * mm) (2 * mm) True False,
      brief_paragraph E (''<b>Interpretation:</b> ResNet-50 exposes useful CPU parallelism and places NVDLA between two and four '' @
          ''Cortex-A53 cores. LeNet is dominated by fixed costs, so adding cores gives weaker scaling and does not create '' @
          ''an accelerator advantage over CPU INT8.'') (MARGIN + 5 * mm) ((43 / 2) * mm) (PAGE_W - 2 * MARGIN - 10 * mm) (36 / 5) (17 / 2) INK
        ''Helvetica'']))"

definition draw_energy_chart :: "numbers \<Rightarrow> string \<Rightarrow> rat \<Rightarrow> rat \<Rightarrow> rat \<Rightarrow> rat \<Rightarrow> string \<Rightarrow> string \<Rightarrow> rat \<Rightarrow> string \<Rightarrow> drawing" where
  "draw_energy_chart num model x y w h key title scale_v unit_s =
     (let nvdla_value = num [''models'', model, ''nvdla'', ''power'', key, ''mean''] * scale_v;
          cpu_values = concat (map (\<lambda>precision. map (\<lambda>threads. num [''models'', model, ''cpu_scaling'', precision, count_text threads,
            ''power'', key, ''mean''] * scale_v) [1, 2, 4]) [''int8'', ''fp32'']);
          raw_max = Max (set (cpu_values @ [nvdla_value]));
          step_v = (if (raw_max > 2) then 1 else (1 / 5)); y_max = of_int \<lceil>raw_max / step_v\<rceil> * step_v;
          plot_x0 = x + 15 * mm; plot_x1 = x + w - 5 * mm; plot_y0 = y + 11 * mm; plot_y1 = y + h - 10 * mm in
     [FillColor INK, Font ''Helvetica-Bold'' (41 / 5), DrawCentred ((plot_x0 + plot_x1) / 2) (y + h - 4 * mm) title]
     @ (let xpos = (\<lambda>threads. plot_x0 + log2_threads threads / 2 * (plot_x1 - plot_x0));
          ypos = (\<lambda>v. plot_y0 + v / y_max * (plot_y1 - plot_y0)) in
     concat (map (\<lambda>fraction.
        (let yy = plot_y0 + fraction * (plot_y1 - plot_y0) in
        [StrokeColor GRID, LineWidth (1 / 2), DrawLine plot_x0 yy plot_x1 yy, FillColor MUTED, Font ''Helvetica'' (29 / 5),
         DrawRight (plot_x0 - 2 * mm) (yy - 2) (general 6 (y_max * fraction))])) [0, (1 / 2), 1])
     @ [FillColor MUTED, Font ''Helvetica'' (29 / 5), DrawRight (plot_x0 - 2 * mm) (plot_y1 + 2 * mm) unit_s]
     @ concat (map (\<lambda>threads.
        (let xx = xpos threads in
        [FillColor MUTED, Font ''Helvetica-Bold'' 6, DrawCentred xx (plot_y0 - 4 * mm) (count_text threads)])) [1, 2, 4])
     @ (let ref_y = ypos nvdla_value in
     [StrokeColor NVDLA, LineWidth (6 / 5), Dash [3, 2], DrawLine plot_x0 ref_y plot_x1 ref_y, Dash [], FillColor NVDLA,
      Font ''Helvetica-Bold'' (57 / 10), DrawRight plot_x1 (ref_y + (3 / 2) * mm) (''NVDLA '' @ general 3 nvdla_value)]
     @ concat (map (\<lambda>(precision, color).
        (let points = map (\<lambda>threads. (xpos threads, ypos (num [''models'', model, ''cpu_scaling'', precision, count_text threads, ''power'',
          key, ''mean''] * scale_v), num [''models'', model, ''cpu_scaling'', precision, count_text threads, ''power'', key, ''mean''] * scale_v)) [1,
          2, 4] in
        [StrokeColor color, LineWidth (3 / 2)]
        @ concat (map (\<lambda>((xa, ya, va), (xb, yb, vb)).
           [DrawLine xa ya xb yb]) (zip points (tl points)))
        @ concat (map (\<lambda>(threads, (xx, yy, v)).
           [FillColor color, DrawCircle xx yy 2 True False, Font ''Helvetica-Bold'' (11 / 2)]
           @ (let label_y = (if (precision = ''int8'') then yy - 3 * mm else yy + 2 * mm); label = general 3 v in
           (if (threads = (1 :: rat)) then [DrawLeft (xx + (3 / 2) * mm) label_y label] else (if (threads = 4) then [DrawRight (xx -
             (3 / 2) * mm) label_y label] else [DrawCentred xx label_y label])))) (zip [1, 2, 4] points)))) [(''int8'', CPU_INT8), (''fp32'',
             CPU_FP32)]))))"

definition draw_cpu_scaling_energy :: "brief_view \<Rightarrow> numbers \<Rightarrow> drawing" where
  "draw_cpu_scaling_energy E num =
     page_header ''CPU scaling'' ''What happens to energy as CPU cores are added?'' 9
     @ footer ''Powered steady batches; active energy includes baseline and incremental energy subtracts idle''
     @ (let lx = MARGIN; ly = PAGE_H - 40 * mm in
     concat (map (\<lambda>((label, color, dashed), lx).
        [StrokeColor color, LineWidth 2]
        @ (if dashed then [Dash [4, 3]] else [Dash []])
        @ [DrawLine lx (ly + 2 * mm) (lx + 10 * mm) (ly + 2 * mm), Dash [], FillColor INK, Font ''Helvetica'' (39 / 5),
         DrawLeft (lx + 13 * mm) ly label]) (running lx [((''CPU INT8'', CPU_INT8, False), 46 * mm), ((''CPU FP32'', CPU_FP32, False), 46 * mm),
           ((''NVDLA INT8 reference'', NVDLA, True), 0)]))
     @ concat (map (\<lambda>(model_i, model).
        (let y = (if (model_i = 0) then 94 * mm else 31 * mm) in
        brief_panel MARGIN y (PAGE_W - 2 * MARGIN) (56 * mm) PAPER GRID
        @ (let title = (if (model = ''lenet'') then ''LeNet'' else ''ResNet-50'');
             scale_v = (if (model = ''lenet'') then 1000 else 1); unit_s = (if (model = ''lenet'') then ''mJ'' else ''J'') in
        [FillColor INK, Font ''Helvetica-Bold'' 12, DrawLeft (MARGIN + 8 * mm) (y + 46 * mm) title, FillColor MUTED,
         Font ''Helvetica'' 7, DrawLeft (MARGIN + 8 * mm) (y + 39 * mm) ''x-axis: 1, 2 and 4 CPU cores'']
        @ draw_energy_chart num model (MARGIN + 38 * mm) (y + 3 * mm) (94 * mm) (48 * mm) ''active_joules_per_inference''
          ''Active energy / inference'' scale_v unit_s
        @ draw_energy_chart num model (MARGIN + 163 * mm) (y + 3 * mm) (94 * mm) (48 * mm) ''incremental_joules_per_inference''
          ''Incremental energy / inference'' scale_v unit_s))) (indexed [''lenet'', ''resnet50'']))
     @ [FillColor PALE_GOLD, DrawRound MARGIN (14 * mm) (PAGE_W - 2 * MARGIN) (10 * mm) (2 * mm) True False,
      brief_paragraph E (''<b>Result:</b> more CPU cores reduce active energy because the shorter execution outweighs higher power. '' @
          ''Incremental CPU energy rises slightly. On ResNet-50, NVDLA uses less active energy than one- or two-core CPU '' @
          ''INT8 and substantially less incremental energy than every CPU configuration.'') (MARGIN + 5 * mm) ((43 / 2) * mm)
        (PAGE_W - 2 * MARGIN - 10 * mm) (36 / 5) (17 / 2) INK ''Helvetica''])"

definition draw_power :: "brief_view \<Rightarrow> numbers \<Rightarrow> drawing" where
  "draw_power E num =
     page_header ''Power and energy'' ''Monitored PS + PL rails during inference'' 10
     @ footer ''Power cohorts are separate from primary latency cohorts; 50 ms sampling with endpoint capture''
     @ brief_legend (PAGE_W - MARGIN - 111 * mm) (PAGE_H - 37 * mm)
     @ (let chart_y = 99 * mm;
          chart_h = 58 * mm; group_w = 76 * mm; centers = [MARGIN + 45 * mm, MARGIN + 135 * mm, MARGIN + 225 * mm];
          titles = [(''Active power'', ''watts''), (''Active energy'', ''per inference''), (''Incremental energy'', ''above idle, per inference'')] in
     concat (map (\<lambda>(cx, (title, subtitle)).
        [FillColor INK, Font ''Helvetica-Bold'' (21 / 2), DrawCentred cx (chart_y + chart_h + 8 * mm) title, FillColor MUTED,
         Font ''Helvetica'' (15 / 2), DrawCentred cx (chart_y + chart_h + (7 / 2) * mm) subtitle]) (zip centers titles))
     @ (let metric = (\<lambda>model stack key. num [''models'', model, stack, ''power'', key, ''mean'']); max_power = 4 in
     concat (map (\<lambda>(m_i, model).
        (let gx = (centers ! 0) - group_w / 2 + m_i * 39 * mm in
        concat (map (\<lambda>(s_i, (stack, color)).
           (let val = metric model stack ''active_watts''; bh = chart_h * val / max_power; bx = gx + s_i * (15 / 2) * mm in
           [FillColor color, DrawRound bx chart_y (7 * mm) bh ((6 / 5) * mm) True False, FillColor INK, Font ''Helvetica-Bold'' 7,
            DrawCentred (bx + (7 / 2) * mm) (chart_y + bh + 2 * mm) (fixed 2 val @ '' W'')])) (indexed [(''nvdla'', NVDLA), (''cpu_int8'', CPU_INT8),
              (''cpu'', CPU_FP32)]))
        @ [FillColor MUTED, Font ''Helvetica'' (15 / 2),
         DrawCentred (gx + 11 * mm) (chart_y - 5 * mm) (if (model = ''lenet'') then ''LeNet'' else ''ResNet-50'')])) (indexed [''lenet'',
           ''resnet50'']))
     @ concat (map (\<lambda>(cx, key).
        concat (map (\<lambda>(m_i, model).
           (let vals = map (\<lambda>stack. metric model stack key) [''nvdla'', ''cpu_int8'', ''cpu''];
                scale_v = Max (set vals) * (23 / 20); gx = cx - group_w / 2 + m_i * 39 * mm in
           concat (map (\<lambda>(s_i, (stack, color)).
              (let val = metric model stack key; bh = chart_h * val / scale_v; bx = gx + s_i * (15 / 2) * mm in
              [FillColor color, DrawRound bx chart_y (7 * mm) bh ((6 / 5) * mm) True False]
              @ (let display = (if (model = ''lenet'') then (fixed 3 (val * 1000) @ '' mJ'') else (fixed 3 val @ '' J'')) in
              [FillColor INK, Font ''Helvetica-Bold'' (34 / 5), SaveState, Translate (bx + (7 / 2) * mm) (chart_y + bh + 2 * mm), Rotate 60,
               DrawLeft 0 0 display, RestoreState]))) (indexed [(''nvdla'', NVDLA), (''cpu_int8'', CPU_INT8), (''cpu'', CPU_FP32)]))
           @ [FillColor MUTED, Font ''Helvetica'' (15 / 2),
            DrawCentred (gx + 11 * mm) (chart_y - 5 * mm) (if (model = ''lenet'') then ''LeNet'' else ''ResNet-50'')])) (indexed [''lenet'',
              ''resnet50'']))) (zip (tl centers) [''active_joules_per_inference'', ''incremental_joules_per_inference'']))
     @ [StrokeColor GRID, DrawLine MARGIN chart_y (PAGE_W - MARGIN) chart_y]
     @ (let cards = [(''LeNet'', ''+28.7%'', ''NVDLA active energy'', ''-7.1% incremental'', PALE_GOLD), (''ResNet-50'', ''+21.8%'',
       ''NVDLA active energy'', ''-62.3% incremental'', PALE_GREEN)];
          card_w = (PAGE_W - 2 * MARGIN - 8 * mm) / 2 in
     concat (map (\<lambda>(i, (model, v, label, note, fill_c)).
        (let x = MARGIN + i * (card_w + 8 * mm); y = 28 * mm in
        brief_panel x y card_w (52 * mm) fill_c fill_c
        @ [FillColor INK, Font ''Helvetica-Bold'' 12, DrawLeft (x + 8 * mm) (y + 38 * mm) model, FillColor GOLD,
         Font ''Helvetica-Bold'' 23, DrawLeft (x + 8 * mm) (y + 23 * mm) v, FillColor INK, Font ''Helvetica-Bold'' 9,
         DrawLeft (x + 42 * mm) (y + 27 * mm) label, FillColor GREEN, Font ''Helvetica-Bold'' 11,
         DrawLeft (x + 42 * mm) (y + 17 * mm) note,
         brief_paragraph E ''Change is NVDLA relative to CPU INT8. Active includes the monitored platform; incremental subtracts driver-loaded idle.''
           (x + 8 * mm) (y + 12 * mm) (card_w - 16 * mm) (15 / 2) 9 MUTED ''Helvetica''])) (indexed cards)))))"

definition draw_domain_chart :: "numbers \<Rightarrow> string \<Rightarrow> rat \<Rightarrow> rat \<Rightarrow> rat \<Rightarrow> string \<Rightarrow> rat \<Rightarrow> rat \<Rightarrow> drawing" where
  "draw_domain_chart num model x y bar_x key maximum minimum =
     (let stack_specs = [(''nvdla'', ''NVDLA INT8''), (''cpu_int8'', ''CPU INT8''), (''cpu'', ''CPU FP32'')];
          bar_w = 75 * mm; zero_x = bar_x + bar_w * (- minimum) / (maximum - minimum); positive_w = bar_x + bar_w - zero_x in
     concat (map (\<lambda>(row_i, (stack, label)).
        (let yy = y + 31 * mm - row_i * 10 * mm;
             vs = [(''PS'', num [''models'', model, stack, ''power_domains'', ''PS'', key], PS_COLOR), (''PL'', num [''models'', model, stack,
               ''power_domains'', ''PL'', key], PL_COLOR)] in
        [FillColor INK, Font ''Helvetica-Bold'' (36 / 5), DrawRight (bar_x - 4 * mm) (yy + (21 / 10) * mm) label, FillColor PANEL,
         DrawRound bar_x yy bar_w (7 * mm) ((6 / 5) * mm) True False, StrokeColor MUTED, LineWidth (3 / 5),
         DrawLine zero_x (yy - 1 * mm) zero_x (yy + 8 * mm)]
        @ (let whole = sum_list (map (\<lambda>(n, v, k). v) vs) in
        concat (map (\<lambda>((domain, v, color), cursor).
           (let width = (if (v \<ge> 0) then positive_w * v / maximum else bar_w * \<bar>v\<bar> / (maximum - minimum));
                start_x = (if (v \<ge> 0) then cursor else zero_x - width) in
           (if (width > 0) then [FillColor color, DrawRect start_x yy width (7 * mm) True False] else [])
           @ (if (width \<ge> 12 * mm) then [FillColor PAPER, Font ''Helvetica-Bold'' (31 / 5),
               DrawCentred (start_x + width / 2) (yy + (11 / 5) * mm) (domain @ '' '' @ fixed 2 v)] else []))) (running zero_x (map (\<lambda>(domain,
                 v, color). ((domain, v, color), (if (v \<ge> 0) then positive_w * v / maximum else 0))) vs)))
        @ [FillColor INK, Font ''Helvetica-Bold'' 7, DrawLeft (bar_x + bar_w + 3 * mm) (yy + (21 / 10) * mm) (fixed 2 whole @ '' W'')])))
          (indexed stack_specs))
     @ [FillColor MUTED, Font ''Helvetica'' (13 / 2),
      DrawLeft bar_x (y + 4 * mm) (if (minimum \<noteq> 0) then (fixed 2 minimum @ '' W'') else ''0 W''),
      DrawRight (bar_x + bar_w) (y + 4 * mm) (fixed 1 maximum @ '' W'')])"

definition draw_power_domains :: "brief_view \<Rightarrow> numbers \<Rightarrow> drawing" where
  "draw_power_domains E num =
     page_header ''Power domains'' ''How do PS and PL contribute?'' 11
     @ footer ''Five fresh-boot powered sessions per model and stack; means across monitored rails''
     @ (let legend_x = MARGIN; legend_y = PAGE_H - 40 * mm in
     concat (map (\<lambda>((label, color), legend_x).
        [FillColor color, DrawRect legend_x legend_y (5 * mm) (5 * mm) True False, FillColor INK, Font ''Helvetica-Bold'' 8,
         DrawLeft (legend_x + 7 * mm) (legend_y + 1 * mm) label]) (running legend_x [((''PS rails'', PS_COLOR), 31 * mm), ((''PL rails'', PL_COLOR),
           31 * mm)]))
     @ [FillColor MUTED, Font ''Helvetica'' 8,
      DrawRight (PAGE_W - MARGIN) (legend_y + 1 * mm) ''Active = complete monitored board state  |  Incremental = active minus stack-specific idle'']
     @ concat (map (\<lambda>(model_i, model).
        (let y = (if (model_i = 0) then 94 * mm else 31 * mm) in
        brief_panel MARGIN y (PAGE_W - 2 * MARGIN) (56 * mm) PAPER GRID
        @ (let title = (if (model = ''lenet'') then ''LeNet'' else ''ResNet-50'');
             nvdla_incremental = sum_list (map (\<lambda>domain. num [''models'', model, ''nvdla'', ''power_domains'', domain,
               ''incremental_mean_watts'']) [''PS'', ''PL'']);
             ps_share = num [''models'', model, ''nvdla'', ''power_domains'', ''PS'', ''incremental_mean_watts''] / nvdla_incremental * 100;
             pl_share = num [''models'', model, ''nvdla'', ''power_domains'', ''PL'', ''incremental_mean_watts''] / nvdla_incremental * 100 in
        [FillColor INK, Font ''Helvetica-Bold'' 12, DrawLeft (MARGIN + 8 * mm) (y + 46 * mm) title, FillColor MUTED,
         Font ''Helvetica'' (36 / 5),
         DrawLeft (MARGIN + 8 * mm) (y + 39 * mm) (''NVDLA incremental split: PS '' @ fixed 0 ps_share @ ''% / PL '' @ fixed 0 pl_share @ ''%'')]
        @ (let active_bar_x = MARGIN + 49 * mm; incremental_bar_x = MARGIN + 176 * mm in
        [FillColor INK, Font ''Helvetica-Bold'' 9, DrawCentred (active_bar_x + (75 / 2) * mm) (y + 46 * mm) ''Active power'',
         DrawCentred (incremental_bar_x + (75 / 2) * mm) (y + 46 * mm) ''Increase above idle'']
        @ draw_domain_chart num model MARGIN y active_bar_x ''active_mean_watts'' 4 0
        @ draw_domain_chart num model MARGIN y incremental_bar_x ''incremental_mean_watts'' 1 (- (1 / 50)))))) (indexed [''lenet'', ''resnet50'']))
     @ [FillColor PALE_GOLD, DrawRound MARGIN (14 * mm) (PAGE_W - 2 * MARGIN) (10 * mm) (2 * mm) True False,
      brief_paragraph E (''<b>Reading the split:</b> CPU inference activity is overwhelmingly on PS rails. NVDLA distributes activity '' @
          ''across PS and PL; for ResNet-50, PL contributes about 62% of its incremental power. Tiny negative PL deltas '' @
          ''are retained and indicate the sensor/idle-subtraction noise floor.'') (MARGIN + 5 * mm) ((43 / 2) * mm) (PAGE_W - 2 * MARGIN - 10 * mm)
        (36 / 5) (17 / 2) INK ''Helvetica''])"

end
