(* ===== verification/Trace.thy ===== *)
theory Trace
  imports Regex PyDict
begin

text \<open>
  The trace parser of tools/nvdla_test_framework/trace.py, lines 1 to 238: the register
  map read from a C header, the SystemC log line of one bus transaction, the batch
  parser, the summary, and the one-pass canonicalisation that the \<open>trace-parse\<close> command
  runs on a log. A log line is searched with the model of \<open>re\<close> in theory Regex. The
  JSON text of an event is not modelled: an event is the record of its fields. Where a
  line is malformed the run stops with a ValueError; what it had already written to its
  output files is then abandoned by the caller and not part of the result.
\<close>

record event =
  ev_sequence :: nat
  ev_source :: string
  ev_interface :: string
  ev_operation :: string
  ev_offset :: string
  ev_length :: int
  ev_data :: string
  ev_response :: string
  ev_register :: "string option"

type_synonym registers = "(int, string) dict"

definition DEFAULT_CSB_BASE :: int where
  "DEFAULT_CSB_BASE = 0x10200000"

definition DEFAULT_EXTMEM_BASE :: int where
  "DEFAULT_EXTMEM_BASE = 0xC0000000"

definition DEFAULT_EXTMEM_HIGH :: int where
  "DEFAULT_EXTMEM_HIGH = 0xFFFFFFFF"

definition resp_char :: "char \<Rightarrow> bool" where
  "resp_char c = (is_upper c \<or> c = CHR ''_'')"

definition spaces :: rx where
  "spaces = plus (Sym is_space)"

definition transaction_re :: rx where
  "transaction_re = seq [lit ''nvdla.'', Cap 1 (Alt (lit ''csb'') (lit ''dbb'')), lit ''_adaptor:'',
     spaces, lit ''GP:'', spaces, lit ''iswrite='', Cap 2 (Sym (\<lambda>c. c = CHR ''0'' \<or> c = CHR ''1'')),
     spaces, lit ''addr=0x'', Cap 3 (plus (Sym is_hex)), spaces, lit ''len='', Cap 4 (plus (Sym is_dec)),
     spaces, lit ''data=0x'', Cap 5 (LStar dot), spaces, lit ''resp=TLM_'', Cap 6 (plus (Sym resp_char)),
     lit ''_RESPONSE'']"

definition register_re :: rx where
  "register_re = seq [Bol, lit ''#define'', spaces,
     Cap 1 (Cat (Sym is_upper) (plus (Sym (\<lambda>c. is_upper c \<or> is_dec c \<or> c = CHR ''_'')))),
     spaces, lit ''_MK_ADDR_CONST('', Cap 2 (Cat (lit ''0x'') (plus (Sym is_hex))), lit '')'',
     Star (Sym is_space), Eol]"

definition hex_word_re :: rx where
  "hex_word_re = Cap 0 (plus (Sym is_hex))"

subsection \<open>The register map\<close>

fun register_lines :: "string list \<Rightarrow> registers \<Rightarrow> registers res" where
  "register_lines [] d = Inr d"
| "register_lines (line # ls) d = (case re_match register_re line of
      None \<Rightarrow> register_lines ls d
    | Some k \<Rightarrow> bindE (noneE (ValueError ''invalid literal for int()'') (py_int16 (group 2 k)))
        (\<lambda>address. register_lines ls (dict_setdefault address (group 1 k) d)))"

definition parse_register_map :: "string \<Rightarrow> registers res" where
  "parse_register_map text = bindE (register_lines (splitlines text) []) (\<lambda>d.
     if d = [] then Inl (ValueError ''no NVDLA register definitions found'') else Inr d)"

subsection \<open>One transaction\<close>

definition format_data :: "string \<Rightarrow> string res" where
  "format_data value = (let words = map (group 0) (re_finditer hex_word_re value) in
     if words = [] then Inl (ValueError ''transaction has no hexadecimal data'')
     else Inr (''0x'' @ lower (concat words)))"

definition response_name :: "string \<Rightarrow> string" where
  "response_name value = remove_suffix (lower value) ''_response''"

definition CSB_MARK :: string where
  "CSB_MARK = ''nvdla.csb_adaptor: GP:''"

definition DBB_MARK :: string where
  "DBB_MARK = ''nvdla.dbb_adaptor: GP:''"

definition is_transaction :: "string \<Rightarrow> bool" where
  "is_transaction line = (contains CSB_MARK line \<or> contains DBB_MARK line)"

definition bad_int :: py_error where
  "bad_int = ValueError ''invalid literal for int()''"

text \<open>The body of the loop of \<open>parse_vp_transactions\<close> for a transaction line.\<close>

definition parse_transaction :: "registers \<Rightarrow> int \<Rightarrow> string \<Rightarrow> nat \<Rightarrow> nat \<Rightarrow> string \<Rightarrow> event res" where
  "parse_transaction registers csb_base source sequence line_number line =
     (case re_search transaction_re line of
        None \<Rightarrow> Inl (ValueError (''malformed VP transaction at line '' @ show_nat line_number @ '': '' @ strip line))
      | Some k \<Rightarrow>
          bindE (noneE bad_int (py_int16 (group 3 k))) (\<lambda>address.
          let interface = group 1 k;
              offset = (if interface = ''csb'' \<and> csb_base \<le> address then address - csb_base else address);
              response = response_name (group 6 k)
          in bindE (noneE bad_int (py_int (group 4 k))) (\<lambda>len.
             bindE (format_data (group 5 k)) (\<lambda>data.
             Inr \<lparr>ev_sequence = sequence, ev_source = source, ev_interface = interface,
                  ev_operation = (if group 2 k = ''1'' then ''write'' else ''read''),
                  ev_offset = hex8 offset, ev_length = len, ev_data = data, ev_response = response,
                  ev_register = (if interface = ''csb'' then dict_get registers offset else None)\<rparr>))))"

fun parse_lines :: "registers \<Rightarrow> int \<Rightarrow> string \<Rightarrow> nat \<Rightarrow> event list \<Rightarrow> string list \<Rightarrow> event list res" where
  "parse_lines registers csb_base source n events [] = Inr events"
| "parse_lines registers csb_base source n events (line # ls) =
     (if \<not> is_transaction line then parse_lines registers csb_base source (Suc n) events ls
      else bindE (parse_transaction registers csb_base source (length events) n line)
        (\<lambda>e. parse_lines registers csb_base source (Suc n) (events @ [e]) ls))"

definition parse_vp_transactions :: "string list \<Rightarrow> registers \<Rightarrow> int \<Rightarrow> string \<Rightarrow> event list res" where
  "parse_vp_transactions lines registers csb_base source =
     parse_lines registers csb_base source 1 [] lines"

fun split_raw_transactions :: "string list \<Rightarrow> string list \<times> string list" where
  "split_raw_transactions [] = ([], [])"
| "split_raw_transactions (line # ls) = (let (csb, dbb) = split_raw_transactions ls in
     if contains CSB_MARK line then (rev (dropWhile (\<lambda>c. c = NL) (rev line)) # csb, dbb)
     else if contains DBB_MARK line then (csb, rev (dropWhile (\<lambda>c. c = NL) (rev line)) # dbb)
     else (csb, dbb))"

subsection \<open>Summaries\<close>

record trace_summary =
  ts_event_count :: nat
  ts_by_interface :: "(string \<times> nat) list"
  ts_by_operation :: "(string \<times> nat) list"
  ts_responses :: "(string \<times> nat) list"
  ts_non_ok_responses :: nat
  ts_registers :: "(string \<times> nat) list"

text \<open>Python's \<open>a or b\<close> on an optional string: the empty string is false too.\<close>

definition or_string :: "string option \<Rightarrow> string \<Rightarrow> string" where
  "or_string v d = (case v of None \<Rightarrow> d | Some s \<Rightarrow> if s = [] then d else s)"

definition operation_key :: "event \<Rightarrow> string" where
  "operation_key e = ev_interface e @ '':'' @ ev_operation e"

definition register_key :: "event \<Rightarrow> string" where
  "register_key e = or_string (ev_register e) (ev_offset e)"

definition non_ok :: "string multiset \<Rightarrow> nat" where
  "non_ok responses = sum_list (map snd (List.filter (\<lambda>(r, n). r \<noteq> ''ok'') (counter_items responses)))"

definition summarize_trace :: "event list \<Rightarrow> trace_summary" where
  "summarize_trace events =
     (let by_interface = mset (map ev_interface events);
          by_operation = mset (map operation_key events);
          responses = mset (map ev_response events);
          registers = mset (map register_key (List.filter (\<lambda>e. ev_interface e = ''csb'') events))
      in \<lparr>ts_event_count = length events, ts_by_interface = counter_items by_interface,
          ts_by_operation = counter_items by_operation, ts_responses = counter_items responses,
          ts_non_ok_responses = non_ok responses, ts_registers = counter_items registers\<rparr>)"

subsection \<open>The one-pass canonicalisation\<close>

record canon_state =
  cs_event_count :: nat
  cs_csb_count :: nat
  cs_by_interface :: "string multiset"
  cs_by_operation :: "string multiset"
  cs_responses :: "string multiset"
  cs_registers :: "string multiset"
  cs_events :: "event list"
  cs_raw_csb :: "string list"
  cs_raw_dbb :: "string list"

definition canon_init :: canon_state where
  "canon_init = \<lparr>cs_event_count = 0, cs_csb_count = 0, cs_by_interface = {#}, cs_by_operation = {#},
     cs_responses = {#}, cs_registers = {#}, cs_events = [], cs_raw_csb = [], cs_raw_dbb = []\<rparr>"

definition relabel :: "nat \<Rightarrow> event res \<Rightarrow> event res" where
  "relabel line_number r = (case r of
      Inl (ValueError m) \<Rightarrow> Inl (ValueError (m @ '' (source line '' @ show_nat line_number @ '')''))
    | Inl e \<Rightarrow> Inl e | Inr e \<Rightarrow> Inr e)"

definition canon_line :: "registers \<Rightarrow> int \<Rightarrow> nat \<times> string \<Rightarrow> canon_state \<Rightarrow> canon_state res" where
  "canon_line registers csb_base = (\<lambda>(line_number, line) st.
     let is_csb = contains CSB_MARK line; is_dbb = contains DBB_MARK line in
     if \<not> is_csb \<and> \<not> is_dbb then Inr st
     else bindE (relabel line_number (parse_transaction registers csb_base ''vp'' 0 1 line)) (\<lambda>event.
       let st1 = st\<lparr>cs_event_count := cs_event_count st + 1,
                    cs_by_interface := add_mset (ev_interface event) (cs_by_interface st),
                    cs_by_operation := add_mset (operation_key event) (cs_by_operation st),
                    cs_responses := add_mset (ev_response event) (cs_responses st)\<rparr>
       in Inr (if is_csb
          then st1\<lparr>cs_csb_count := cs_csb_count st + 1,
                   cs_registers := add_mset (register_key event) (cs_registers st),
                   cs_events := cs_events st @ [event\<lparr>ev_sequence := cs_csb_count st\<rparr>],
                   cs_raw_csb := cs_raw_csb st @ [line]\<rparr>
          else st1\<lparr>cs_raw_dbb := cs_raw_dbb st @ [line]\<rparr>)))"

definition canon_summary :: "canon_state \<Rightarrow> trace_summary" where
  "canon_summary st = \<lparr>ts_event_count = cs_event_count st,
     ts_by_interface = counter_items (cs_by_interface st),
     ts_by_operation = counter_items (cs_by_operation st),
     ts_responses = counter_items (cs_responses st),
     ts_non_ok_responses = non_ok (cs_responses st),
     ts_registers = counter_items (cs_registers st)\<rparr>"

definition dbb_event_count :: "canon_state \<Rightarrow> nat" where
  "dbb_event_count st = cs_event_count st - cs_csb_count st"

definition canonicalize_vp_trace :: "string \<Rightarrow> string \<Rightarrow> int \<Rightarrow> canon_state res" where
  "canonicalize_vp_trace input_text header_text csb_base =
     bindE (parse_register_map header_text) (\<lambda>registers.
       foldE (canon_line registers csb_base) (enumerate1 (file_lines input_text)) canon_init)"

text \<open>The exit status of \<open>trace-parse\<close>.\<close>

definition run_trace_parse :: "string \<Rightarrow> string \<Rightarrow> int \<Rightarrow> int" where
  "run_trace_parse input_text header_text csb_base =
     (case canonicalize_vp_trace input_text header_text csb_base of
        Inl e \<Rightarrow> 1
      | Inr st \<Rightarrow> if ts_non_ok_responses (canon_summary st) = 0 \<and> 0 < cs_csb_count st then 0 else 1)"

subsection \<open>The batch parser and the one-pass canonicalisation agree\<close>

definition parse_one :: "registers \<Rightarrow> int \<Rightarrow> string \<Rightarrow> event res" where
  "parse_one registers csb_base line = parse_transaction registers csb_base ''vp'' 0 1 line"

definition with_sequence :: "nat \<Rightarrow> event \<Rightarrow> event" where
  "with_sequence k e = e\<lparr>ev_sequence := k\<rparr>"

definition renumber :: "nat \<Rightarrow> event list \<Rightarrow> event list" where
  "renumber k es = map2 with_sequence [k..<k + length es] es"

lemma renumber_Nil [simp]: "renumber k [] = []"
  by (simp add: renumber_def)

lemma renumber_Cons: "renumber k (e # es) = with_sequence k e # renumber (Suc k) es"
  by (simp add: renumber_def upt_conv_Cons del: upt_Suc)

lemma with_sequence_twice [simp]: "with_sequence k (with_sequence j e) = with_sequence k e"
  by (simp add: with_sequence_def)

lemma parse_transaction_position:
  "parse_transaction rs b src k n line = Inr e \<longleftrightarrow>
     (\<exists>d. parse_transaction rs b src 0 1 line = Inr d \<and> e = with_sequence k d)"
proof (cases "re_search transaction_re line")
  case None
  then show ?thesis by (simp add: parse_transaction_def)
next
  case (Some c)
  then show ?thesis
    by (cases "py_int16 (group 3 c)"; cases "py_int (group 4 c)"; cases "format_data (group 5 c)")
       (auto simp: parse_transaction_def Let_def with_sequence_def)
qed

lemma parse_lines_step:
  "is_transaction l \<Longrightarrow> parse_lines rs b ''vp'' n events (l # ls) = Inr events' \<longleftrightarrow>
     (\<exists>d. parse_one rs b l = Inr d \<and>
          parse_lines rs b ''vp'' (Suc n) (events @ [with_sequence (length events) d]) ls = Inr events')"
  unfolding parse_one_def
  using parse_transaction_position [of rs b "''vp''" "length events" n l]
  by (auto simp: bindE_Inr_iff)

lemma parse_lines_iff:
  "parse_lines rs b ''vp'' n events ls = Inr events' \<longleftrightarrow>
     (\<exists>es. mapE (parse_one rs b) (List.filter is_transaction ls) = Inr es \<and>
           events' = events @ renumber (length events) es)"
proof (induction ls arbitrary: n events)
  case Nil
  then show ?case by auto
next
  case (Cons l ls)
  show ?case
  proof (cases "is_transaction l")
    case True
    show ?thesis unfolding parse_lines_step [OF True] Cons.IH
      using True by (auto simp: bindE_Inr_iff renumber_Cons)
  qed (simp add: Cons.IH)
qed

lemma relabel_Inr_iff [simp]: "relabel n r = Inr e \<longleftrightarrow> r = Inr e"
  by (auto simp: relabel_def split: sum.splits py_error.splits)

definition on_csb :: "(string \<times> event) list \<Rightarrow> (string \<times> event) list" where
  "on_csb les = List.filter (\<lambda>(l, e). contains CSB_MARK l) les"

definition canon_after :: "(string \<times> event) list \<Rightarrow> canon_state \<Rightarrow> canon_state" where
  "canon_after les st = \<lparr>
     cs_event_count = cs_event_count st + length les,
     cs_csb_count = cs_csb_count st + length (on_csb les),
     cs_by_interface = cs_by_interface st + mset (map (ev_interface \<circ> snd) les),
     cs_by_operation = cs_by_operation st + mset (map (operation_key \<circ> snd) les),
     cs_responses = cs_responses st + mset (map (ev_response \<circ> snd) les),
     cs_registers = cs_registers st + mset (map (register_key \<circ> snd) (on_csb les)),
     cs_events = cs_events st @ renumber (cs_csb_count st) (map snd (on_csb les)),
     cs_raw_csb = cs_raw_csb st @ map fst (on_csb les),
     cs_raw_dbb = cs_raw_dbb st @ map fst (List.filter (\<lambda>(l, e). \<not> contains CSB_MARK l) les)\<rparr>"

lemma canon_after_Nil [simp]: "canon_after [] st = st"
  by (simp add: canon_after_def on_csb_def)

lemma canon_after_Cons:
  "canon_after ((l, e) # les) st = canon_after les (canon_after [(l, e)] st)"
  by (simp add: canon_after_def on_csb_def renumber_Cons)

lemma canon_line_iff:
  "canon_line rs b (n, l) st = Inr st' \<longleftrightarrow>
     (if is_transaction l then \<exists>e. parse_one rs b l = Inr e \<and> st' = canon_after [(l, e)] st else st' = st)"
  by (cases "contains CSB_MARK l"; cases "contains DBB_MARK l"; cases st)
     (auto simp: canon_line_def is_transaction_def parse_one_def bindE_Inr_iff Let_def canon_after_def
      on_csb_def renumber_Cons with_sequence_def)

lemma canon_fold_iff:
  "foldE (canon_line rs b) (zip [n..<n + length ls] ls) st = Inr st' \<longleftrightarrow>
     (\<exists>es. mapE (parse_one rs b) (List.filter is_transaction ls) = Inr es \<and>
           st' = canon_after (zip (List.filter is_transaction ls) es) st)"
proof (induction ls arbitrary: n st)
  case Nil
  then show ?case by auto
next
  case (Cons l ls)
  have "foldE (canon_line rs b) (zip [n..<n + length (l # ls)] (l # ls)) st =
      bindE (canon_line rs b (n, l) st) (foldE (canon_line rs b) (zip [Suc n..<Suc n + length ls] ls))"
    by (simp add: upt_conv_Cons del: upt_Suc)
  then have step: "foldE (canon_line rs b) (zip [n..<n + length (l # ls)] (l # ls)) st = Inr st' \<longleftrightarrow>
      (\<exists>u. canon_line rs b (n, l) st = Inr u \<and>
        foldE (canon_line rs b) (zip [Suc n..<Suc n + length ls] ls) u = Inr st')"
    by (simp only: bindE_Inr_iff)
  show ?case
  proof (cases "is_transaction l")
    case True
    then show ?thesis unfolding step Cons.IH canon_line_iff
      by (auto simp: bindE_Inr_iff canon_after_Cons [symmetric])
  next
    case False
    then show ?thesis unfolding step Cons.IH canon_line_iff by simp
  qed
qed

lemma enumerate1_zip: "enumerate1 ls = zip [1..<1 + length ls] ls"
  by (simp add: enumerate1_def)

lemma non_ok_0: "non_ok m = 0 \<longleftrightarrow> (\<forall>r \<in># m. r = ''ok'')"
proof -
  have "non_ok m = 0 \<longleftrightarrow> (\<forall>(r, n) \<in> set (counter_items m). r = ''ok'' \<or> n = 0)"
    by (auto simp: non_ok_def)
  also have "\<dots> \<longleftrightarrow> (\<forall>r \<in># m. r = ''ok'')"
    by (auto simp: counter_items_def count_eq_zero_iff)
  finally show ?thesis .
qed

lemma csb_registers_mset:
  assumes "list_all (\<lambda>(l, e). (ev_interface e = ''csb'') = contains CSB_MARK l) les"
  shows "mset (map (register_key \<circ> snd) (on_csb les))
    = mset (map register_key (List.filter (\<lambda>e. ev_interface e = ''csb'') (map snd les)))"
  using assms by (induction les) (auto simp: on_csb_def)

lemma renumber_maps:
  "length (renumber k es) = length es"
  "map ev_interface (renumber k es) = map ev_interface es"
  "map operation_key (renumber k es) = map operation_key es"
  "map ev_response (renumber k es) = map ev_response es"
  "map register_key (List.filter (\<lambda>e. ev_interface e = ''csb'') (renumber k es))
     = map register_key (List.filter (\<lambda>e. ev_interface e = ''csb'') es)"
  by (induction es arbitrary: k) (auto simp: renumber_Cons with_sequence_def operation_key_def register_key_def)

lemma marked_pairs:
  assumes "list_all (\<lambda>l. case f l of Inl _ \<Rightarrow> True | Inr e \<Rightarrow> q e = p l) ls" and "mapE f ls = Inr es"
  shows "list_all (\<lambda>(l, e). q e = p l) (zip ls es)"
  using assms by (induction ls arbitrary: es) (auto simp: bindE_Inr_iff)

lemma renumber_renumber: "renumber k (List.filter (\<lambda>e. ev_interface e = ''csb'') (renumber j es))
    = renumber k (List.filter (\<lambda>e. ev_interface e = ''csb'') es)"
proof (induction es arbitrary: k j)
  case (Cons e es)
  have "ev_interface (with_sequence j e) = ev_interface e" by (simp add: with_sequence_def)
  with Cons show ?case by (simp add: renumber_Cons)
qed simp

lemma renumber_others:
  "filter_count (\<lambda>e. ev_interface e \<noteq> ''csb'') (renumber j es)
    = length es - length (List.filter (\<lambda>e. ev_interface e = ''csb'') es)"
proof (induction es arbitrary: j)
  case (Cons e es)
  have "ev_interface (with_sequence j e) = ev_interface e" by (simp add: with_sequence_def)
  with Cons show ?case by (simp add: renumber_Cons Suc_diff_le)
qed simp


definition wit_log :: "string list" where
  "wit_log = [
     ''Info: nvdla.csb_adaptor: GP: iswrite=1 addr=0x10205008 len=4 data=0x c0000000 resp=TLM_OK_RESPONSE'',
     ''[    1.0] guest line'',
     ''Info: nvdla.dbb_adaptor: GP: iswrite=0 addr=0xc0000000 len=8 data=0x 01020304 05060708 resp=TLM_OK_RESPONSE'',
     ''Info: nvdla.csb_adaptor: GP: iswrite=0 addr=0x1020000c len=4 data=0x 00000000 resp=TLM_OK_RESPONSE'']"

definition wit_registers :: registers where
  "wit_registers = [(0x5008, ''CDMA_D_DAIN_ADDR_LOW_0_0''), (0xc, ''GLB_S_INTR_STATUS_0'')]"


lemma on_csb_ex: "length es = length ls \<Longrightarrow>
    0 < length (on_csb (zip ls es)) \<longleftrightarrow> list_ex (\<lambda>l. contains CSB_MARK l) ls"
  by (induction es ls rule: list_induct2) (auto simp: on_csb_def)

text \<open>The trace-parse command exits with 0 exactly when the header holds a register map, every
  transaction line of the log parses, every response is OK, and at least one transaction is on the
  CSB.\<close>

theorem trace_parse_exit:
  "run_trace_parse text header csb_base = 0 \<longleftrightarrow>
     (\<exists>registers events. parse_register_map header = Inr registers \<and>
        mapE (parse_one registers csb_base) (List.filter is_transaction (file_lines text)) = Inr events \<and>
        list_all (\<lambda>e. ev_response e = ''ok'') events \<and>
        list_ex (\<lambda>l. contains CSB_MARK l) (file_lines text))"
proof (cases "parse_register_map header")
  case (Inr registers)
  let ?ls = "List.filter is_transaction (file_lines text)"
  show ?thesis
  proof (cases "mapE (parse_one registers csb_base) ?ls")
    case (Inl x)
    have "\<not> is_ok (foldE (canon_line registers csb_base) (enumerate1 (file_lines text)) canon_init)"
      unfolding is_ok_iff enumerate1_zip canon_fold_iff Inl by simp
    with \<open>parse_register_map header = Inr registers\<close> Inl show ?thesis
      by (auto simp: run_trace_parse_def canonicalize_vp_trace_def split: sum.splits)
  next
    case es: (Inr es)
    have pass: "foldE (canon_line registers csb_base) (enumerate1 (file_lines text)) canon_init
        = Inr (canon_after (zip ?ls es) canon_init)"
      unfolding enumerate1_zip canon_fold_iff es by simp
    have len: "length es = length ?ls" using es by (rule mapE_length)
    then have resp: "map (ev_response \<circ> snd) (zip ?ls es) = map ev_response es"
      by (metis map_map map_snd_zip)
    have "0 < length (on_csb (zip ?ls es)) \<longleftrightarrow> list_ex (\<lambda>l. contains CSB_MARK l) ?ls"
      unfolding on_csb_ex [OF len] by simp
    also have "\<dots> \<longleftrightarrow> list_ex (\<lambda>l. contains CSB_MARK l) (file_lines text)"
      by (auto simp: list_ex_iff is_transaction_def)
    finally show ?thesis using Inr es pass resp
      by (auto simp: run_trace_parse_def canonicalize_vp_trace_def canon_summary_def non_ok_0
          canon_after_def canon_init_def list_all_iff)
  qed
qed (simp add: run_trace_parse_def canonicalize_vp_trace_def)

end
