(* ===== verification/Cli.thy ===== *)
theory Cli
  imports Files Trace
begin

text \<open>
  The command line (tools/nvdla_test_framework/cli.py): the subcommands with their options, the reading of the
  arguments as \<open>argparse\<close> does it (the standard library of Python 3.11: option strings and their unique
  prefixes, \<open>--option=value\<close>, single-dash tails, negative numbers, \<open>--\<close>, types, choices, required
  options, help and usage errors), and the dispatch to the operation of the subcommand. A command line
  exits with a status or calls an operation; what an operation does is modelled by its own theory.
  Facts: every attribute the dispatch reads exists with the type its option promises, so a command line
  never ends in an \<open>AttributeError\<close>; and flags written with plain values are read back as written.
\<close>

subsection \<open>Options\<close>

datatype option_type = PathType | IntType | BaseType | TextType

datatype cli_value = VPath path | VInt int | VText string | VPaths "path list" | VNone

record cli_option =
  co_flag :: string
  co_type :: option_type
  co_required :: bool
  co_append :: bool
  co_choices :: "string list"
  co_default :: cli_value

definition cli_option_of :: "string \<Rightarrow> option_type \<Rightarrow> cli_value \<Rightarrow> cli_option" where
  "cli_option_of f t d = \<lparr>co_flag = f, co_type = t, co_required = False, co_append = False, co_choices = [], co_default = d\<rparr>"

definition required_path :: "string \<Rightarrow> cli_option" where
  "required_path f = (cli_option_of f PathType VNone)\<lparr>co_required := True\<rparr>"

definition optional_path :: "string \<Rightarrow> cli_option" where
  "optional_path f = cli_option_of f PathType VNone"

definition path_with_default :: "string \<Rightarrow> path \<Rightarrow> cli_option" where
  "path_with_default f p = cli_option_of f PathType (VPath p)"

definition archive_list :: "string \<Rightarrow> cli_option" where
  "archive_list f = (cli_option_of f PathType VNone)\<lparr>co_required := True, co_append := True\<rparr>"

definition int_option :: "string \<Rightarrow> int \<Rightarrow> cli_option" where
  "int_option f d = cli_option_of f IntType (VInt d)"

definition base_option :: "string \<Rightarrow> int \<Rightarrow> cli_option" where
  "base_option f d = cli_option_of f BaseType (VInt d)"

definition choice_option :: "string \<Rightarrow> string list \<Rightarrow> string \<Rightarrow> cli_option" where
  "choice_option f cs d = (cli_option_of f TextType (VText d))\<lparr>co_choices := cs\<rparr>"

definition optional_text :: "string \<Rightarrow> cli_option" where
  "optional_text f = cli_option_of f TextType VNone"

definition text_with_default :: "string \<Rightarrow> string \<Rightarrow> cli_option" where
  "text_with_default f d = cli_option_of f TextType (VText d)"

definition DEFAULT_STOCK_DIR :: path where
  "DEFAULT_STOCK_DIR = [''artifacts'', ''20260703T115149Z-vp-stock-lenet'']"

definition commands :: "(string \<times> cli_option list) list" where
  "commands = [
  (''xsa-audit'', [required_path ''--xsa'', required_path ''--lock'', optional_path ''--out'']),
  (''lock-check'', [required_path ''--lock'', required_path ''--xsa'', optional_path ''--out'']),
  (''vp-test'', [choice_option ''--lane'' [''reference'', ''modern''] ''reference'', required_path ''--lock'',
     int_option ''--timeout'' 35, optional_path ''--out-dir'', optional_path ''--work-dir'', optional_path ''--sources-dir'',
     optional_text ''--docker-image'', int_option ''--repeat'' 1, choice_option ''--mode'' [''smoke'', ''runtime''] ''smoke'',
     text_with_default ''--workload'' ''sdp_regression_small'']),
  (''workload-generate'', [required_path ''--out'']),
  (''input-set-sources'', [required_path ''--lock'', required_path ''--sources-dir'']),
  (''input-set-workloads'', [required_path ''--lock'', required_path ''--sources-dir'', required_path ''--out'']),
  (''abi-check'', [required_path ''--source'', optional_path ''--out'']),
  (''report'', [required_path ''--artifacts'', required_path ''--out'']),
  (''lenet-compare'', [path_with_default ''--stock-dir'' DEFAULT_STOCK_DIR, optional_path ''--modern-dir'',
     optional_path ''--out'']),
  (''lenet-analyze'', [required_path ''--artifact'', optional_text ''--expected-output'', optional_path ''--out'']),
  (''lenet-sources'', [required_path ''--lock'', required_path ''--sources-dir'']),
  (''lenet-workload'', [required_path ''--lock'', required_path ''--sources-dir'', required_path ''--out'']),
  (''resnet50-sources'', [required_path ''--lock'', required_path ''--sources-dir'']),
  (''resnet50-workload'', [required_path ''--lock'', required_path ''--sources-dir'', required_path ''--nvdla-sw'',
     required_path ''--out'']),
  (''resnet50-golden-promote'', [required_path ''--lock'', required_path ''--workload-dir'', required_path ''--artifact'']),
  (''vp-small-config-audit'', [required_path ''--lock'', required_path ''--work-dir'', required_path ''--artifacts'']),
  (''sdp-small-diagnostic'', [required_path ''--artifacts'']),
  (''stock-sdp-control'', [required_path ''--lock'', required_path ''--artifacts'', required_path ''--workloads-dir'',
     int_option ''--timeout'' 240, int_option ''--host-port'' 6666, text_with_default ''--workload'' ''sdp_regression_full'']),
  (''petalinux-dts'', [required_path ''--lock'', required_path ''--xsa'', required_path ''--out'', optional_path ''--audit-out'']),
  (''petalinux-rootfs-audit'', [required_path ''--rootfs'', required_path ''--extract-dir'', required_path ''--out'']),
  (''petalinux-sd-bundle'', [required_path ''--boot-bin'', required_path ''--boot-script'', required_path ''--fit-image'',
     required_path ''--out-dir'', required_path ''--archive'', required_path ''--manifest'']),
  (''board-artifact-import'', [required_path ''--archive'', required_path ''--out'', optional_path ''--serial-log'']),
  (''board-payload'', [required_path ''--workloads-dir'', required_path ''--out-dir'', required_path ''--archive'',
     required_path ''--manifest'', path_with_default ''--lock'' [''repro.lock.json'']]),
  (''performance-import'', [archive_list ''--archive'', required_path ''--out'']),
  (''input-variation-import'', [archive_list ''--archive'', required_path ''--out'']),
  (''cpu-performance-import'', [archive_list ''--archive'', required_path ''--out'']),
  (''campaign-report'', [required_path ''--reports-dir'', required_path ''--campaign-root'', required_path ''--out'']),
  (''trace-parse'', [required_path ''--input'', required_path ''--register-header'', required_path ''--csb-out'',
     required_path ''--raw-csb-out'', required_path ''--raw-dbb-out'', required_path ''--summary-out'',
     base_option ''--csb-base'' DEFAULT_CSB_BASE]),
  (''trace-compare'', [required_path ''--reference-artifact'', required_path ''--candidate-artifact'', required_path ''--out''])]"

text \<open>The attribute of a flag.\<close>

definition dest :: "cli_option \<Rightarrow> string" where
  "dest o' = map (\<lambda>c. if c = CHR ''-'' then CHR ''_'' else c) (drop 2 (co_flag o'))"

subsection \<open>Tokens\<close>

text \<open>A help option carries its exit status. Every parser knows \<open>-h\<close> and \<open>--help\<close> besides its own flags.\<close>

datatype token = Arg string | Dashes | Unknown string | Help int | Opt cli_option "string option"

definition option_strings :: "cli_option list \<Rightarrow> (string \<times> cli_option option) list" where
  "option_strings opts = [(''-h'', None), (''--help'', None)] @ map (\<lambda>o'. (co_flag o', Some o')) opts"

text \<open>A tail written to \<open>-h\<close>: further single-dash options; \<open>-h\<close> is the only one, so any other letter is an
  unknown option, which help ignores.\<close>

fun help_tail :: "string \<Rightarrow> int" where
  "help_tail [] = 0"
| "help_tail (c # r) = (if c = CHR ''-'' then 2 else if c \<noteq> CHR ''h'' then 0
     else case r of [] \<Rightarrow> 0 | d # _ \<Rightarrow> if d = CHR ''='' then 2 else help_tail r)"

text \<open>How an option was written: alone, with \<open>=\<close> and a value, or with a tail.\<close>

datatype written = Alone | Equals string | Tail string

definition option_token :: "string \<times> cli_option option \<Rightarrow> written \<Rightarrow> token" where
  "option_token = (\<lambda>(name, action) w. case action of
       Some o' \<Rightarrow> Opt o' (case w of Alone \<Rightarrow> None | Equals v \<Rightarrow> Some v | Tail v \<Rightarrow> Some v)
     | None \<Rightarrow> Help (case w of Alone \<Rightarrow> 0 | Equals _ \<Rightarrow> 2 | Tail t \<Rightarrow> if starts_with name ''--'' then 2 else help_tail t))"

definition option_tuples :: "cli_option list \<Rightarrow> string \<Rightarrow> token list" where
  "option_tuples opts s =
     (if starts_with s ''--'' then
        (let (pre, after) = split_first (CHR ''='') s; w = (if CHR ''='' \<in> set s then Equals after else Alone) in
         map (\<lambda>a. option_token a w) (List.filter (\<lambda>(name, _). starts_with name pre) (option_strings opts)))
      else concat (map (\<lambda>a. if fst a = take 2 s then [option_token a (Tail (drop 2 s))]
                            else if starts_with (fst a) s then [option_token a Alone] else []) (option_strings opts)))"

text \<open>The pattern \<open>^-\d+$|^-\d*\.\d+$\<close>; the end also matches before a last line feed.\<close>

definition negative_number :: "string \<Rightarrow> bool" where
  "negative_number s = (case s of [] \<Rightarrow> False | c # t \<Rightarrow> c = CHR ''-'' \<and>
     (let u = (if t \<noteq> [] \<and> last t = NL then butlast t else t); fraction = dropWhile is_dec u in
      (u \<noteq> [] \<and> fraction = []) \<or> (length fraction > 1 \<and> hd fraction = CHR ''.'' \<and> list_all is_dec (tl fraction))))"

definition parse_optional :: "cli_option list \<Rightarrow> string \<Rightarrow> token res" where
  "parse_optional opts s =
     (if s = [] \<or> hd s \<noteq> CHR ''-'' then Inr (Arg s)
      else case map_of (option_strings opts) s of
        Some a \<Rightarrow> Inr (option_token (s, a) Alone)
      | None \<Rightarrow>
        if length s = 1 then Inr (Arg s)
        else let (pre, after) = split_first (CHR ''='') s in
        case (if CHR ''='' \<in> set s then map_of (option_strings opts) pre else None) of
          Some a \<Rightarrow> Inr (option_token (pre, a) (Equals after))
        | None \<Rightarrow> (case option_tuples opts s of
            [t] \<Rightarrow> Inr t
          | [] \<Rightarrow> Inr (if negative_number s \<or> CHR '' '' \<in> set s then Arg s else Unknown s)
          | _ \<Rightarrow> Inl (ValueError ''ambiguous option'')))"

fun tokens :: "cli_option list \<Rightarrow> string list \<Rightarrow> token list res" where
  "tokens opts [] = Inr []"
| "tokens opts (s # ss) = (if s = ''--'' then Inr (Dashes # map Arg ss)
     else bindE (parse_optional opts s) (\<lambda>t. bindE (tokens opts ss) (\<lambda>ts. Inr (t # ts))))"

subsection \<open>The arguments of a subcommand\<close>

text \<open>Reading either stops the process with a status or gives a result.\<close>

datatype 'a parsed = Stop int | Parsed 'a

fun bindP :: "'a parsed \<Rightarrow> ('a \<Rightarrow> 'b parsed) \<Rightarrow> 'b parsed" where
  "bindP (Stop n) f = Stop n"
| "bindP (Parsed x) f = f x"

definition convert :: "cli_option \<Rightarrow> string \<Rightarrow> cli_value option" where
  "convert o' s = (case co_type o' of
       PathType \<Rightarrow> Some (VPath (path_div [] s))
     | IntType \<Rightarrow> map_option VInt (py_int s)
     | BaseType \<Rightarrow> map_option VInt (py_int0 s)
     | TextType \<Rightarrow> if co_choices o' \<noteq> [] \<and> s \<notin> set (co_choices o') then None else Some (VText s))"

record parse_state =
  st_ns :: "(string, cli_value) dict"
  st_seen :: "string list"
  st_extras :: "string list"

definition store :: "cli_option \<Rightarrow> cli_value \<Rightarrow> parse_state \<Rightarrow> parse_state" where
  "store o' v st = (let v' = (if co_append o' then
         (case (dict_get (st_ns st) (dest o'), v) of (Some (VPaths ps), VPath p) \<Rightarrow> VPaths (ps @ [p]) | (_, VPath p) \<Rightarrow> VPaths [p] | _ \<Rightarrow> v) else v)
     in st\<lparr>st_ns := dict_set (dest o') v' (st_ns st), st_seen := st_seen st @ [co_flag o']\<rparr>)"

definition take_action :: "cli_option \<Rightarrow> string \<Rightarrow> parse_state \<Rightarrow> parse_state parsed" where
  "take_action o' s st = (case convert o' s of None \<Rightarrow> Stop 2 | Some v \<Rightarrow> Parsed (store o' v st))"

definition extra :: "string \<Rightarrow> parse_state \<Rightarrow> parse_state" where
  "extra s st = st\<lparr>st_extras := st_extras st @ [s]\<rparr>"

fun scan :: "token list \<Rightarrow> parse_state \<Rightarrow> parse_state parsed" where
  "scan [] st = Parsed st"
| "scan (Arg s # ts) st = scan ts (extra s st)"
| "scan (Dashes # ts) st = scan ts (extra ''--'' st)"
| "scan (Unknown s # ts) st = scan ts (extra s st)"
| "scan (Help n # ts) st = Stop n"
| "scan (Opt o' (Some v) # ts) st = bindP (take_action o' v st) (scan ts)"
| "scan (Opt o' None # Arg s # ts) st = bindP (take_action o' s st) (scan ts)"
| "scan (Opt o' None # ts) st = Stop 2"

definition start_state :: "cli_option list \<Rightarrow> parse_state" where
  "start_state opts = \<lparr>st_ns = map (\<lambda>o'. (dest o', co_default o')) opts, st_seen = [], st_extras = []\<rparr>"

definition parse_known :: "cli_option list \<Rightarrow> string list \<Rightarrow> parse_state parsed" where
  "parse_known opts args = (case tokens opts args of Inl _ \<Rightarrow> Stop 2
     | Inr ts \<Rightarrow> bindP (scan ts (start_state opts)) (\<lambda>st.
         if list_all (\<lambda>o'. co_required o' \<longrightarrow> co_flag o' \<in> set (st_seen st)) opts then Parsed st else Stop 2))"

subsection \<open>The program\<close>

text \<open>The main parser: its first argument is the subcommand, which takes all that follows; unknown options
  before it are an error once the subcommand is read.\<close>

fun find_command :: "(token \<times> string) list \<Rightarrow> bool \<Rightarrow> (string \<times> (string, cli_value) dict) parsed" where
  "find_command [] unknown = Stop 2"
| "find_command ((t, s) # rest) unknown = (case t of
       Arg command \<Rightarrow> (case map_of commands command of None \<Rightarrow> Stop 2
         | Some opts \<Rightarrow> bindP (parse_known opts (map snd rest)) (\<lambda>st.
             if unknown \<or> st_extras st \<noteq> [] then Stop 2 else Parsed (command, st_ns st)))
     | Unknown _ \<Rightarrow> find_command rest True
     | Help n \<Rightarrow> Stop n
     | _ \<Rightarrow> Stop 2)"

definition parse_args :: "string list \<Rightarrow> (string \<times> (string, cli_value) dict) parsed" where
  "parse_args argv = (case tokens [] argv of Inl _ \<Rightarrow> Stop 2 | Inr ts \<Rightarrow> find_command (zip ts argv) False)"

datatype call =
    XsaAudit path path "path option"
  | LockCheck path path "path option"
  | VpTest string path int "path option" "path option" "path option" "string option" int string string
  | WorkloadGenerate path
  | InputSetSources path path
  | InputSetWorkloads path path path
  | AbiCheck path "path option"
  | Report path path
  | LenetCompare path "path option" "path option"
  | LenetAnalyze path "string option" "path option"
  | LenetSources path path
  | LenetWorkload path path path
  | ResnetSources path path
  | ResnetWorkload path path path path
  | ResnetGoldenPromote path path path
  | VpSmallConfigAudit path path path
  | SdpSmallDiagnostic path
  | StockSdpControl path path path int int string
  | PetalinuxDts path path path "path option"
  | PetalinuxRootfsAudit path path path
  | PetalinuxSdBundle path path path path path path
  | BoardArtifactImport path path "path option"
  | BoardPayload path path path path path
  | PerformanceImport "path list" path
  | InputVariationImport "path list" path
  | CpuPerformanceImport "path list" path
  | CampaignReport path path path
  | TraceParse path path path path path path int
  | TraceCompare path path path


definition get_value :: "(string, cli_value) dict \<Rightarrow> string \<Rightarrow> cli_value res" where
  "get_value ns k = noneE AttributeError (dict_get ns k)"

definition get_path :: "(string, cli_value) dict \<Rightarrow> string \<Rightarrow> path res" where
  "get_path ns k = bindE (get_value ns k) (\<lambda>v. case v of VPath p \<Rightarrow> Inr p | _ \<Rightarrow> Inl TypeError)"

definition get_opt_path :: "(string, cli_value) dict \<Rightarrow> string \<Rightarrow> path option res" where
  "get_opt_path ns k = bindE (get_value ns k) (\<lambda>v. case v of VPath p \<Rightarrow> Inr (Some p) | VNone \<Rightarrow> Inr None | _ \<Rightarrow> Inl TypeError)"

definition get_paths :: "(string, cli_value) dict \<Rightarrow> string \<Rightarrow> path list res" where
  "get_paths ns k = bindE (get_value ns k) (\<lambda>v. case v of VPaths ps \<Rightarrow> Inr ps | _ \<Rightarrow> Inl TypeError)"

definition get_int :: "(string, cli_value) dict \<Rightarrow> string \<Rightarrow> int res" where
  "get_int ns k = bindE (get_value ns k) (\<lambda>v. case v of VInt n \<Rightarrow> Inr n | _ \<Rightarrow> Inl TypeError)"

definition get_text :: "(string, cli_value) dict \<Rightarrow> string \<Rightarrow> string res" where
  "get_text ns k = bindE (get_value ns k) (\<lambda>v. case v of VText s \<Rightarrow> Inr s | _ \<Rightarrow> Inl TypeError)"

definition get_opt_text :: "(string, cli_value) dict \<Rightarrow> string \<Rightarrow> string option res" where
  "get_opt_text ns k = bindE (get_value ns k) (\<lambda>v. case v of VText s \<Rightarrow> Inr (Some s) | VNone \<Rightarrow> Inr None | _ \<Rightarrow> Inl TypeError)"

definition dispatch :: "string \<Rightarrow> (string, cli_value) dict \<Rightarrow> call res" where
  "dispatch command ns = (
   if command = ''xsa-audit'' then
       bindE (get_path ns ''xsa'') (\<lambda>xsa. bindE (get_path ns ''lock'') (\<lambda>lock.
       bindE (get_opt_path ns ''out'') (\<lambda>out. Inr (XsaAudit xsa lock out))))
   else if command = ''lock-check'' then
       bindE (get_path ns ''lock'') (\<lambda>lock. bindE (get_path ns ''xsa'') (\<lambda>xsa.
       bindE (get_opt_path ns ''out'') (\<lambda>out. Inr (LockCheck lock xsa out))))
   else if command = ''vp-test'' then
       bindE (get_text ns ''lane'') (\<lambda>lane. bindE (get_path ns ''lock'') (\<lambda>lock.
       bindE (get_int ns ''timeout'') (\<lambda>timeout. bindE (get_opt_path ns ''out_dir'') (\<lambda>out_dir.
       bindE (get_opt_path ns ''work_dir'') (\<lambda>work_dir. bindE (get_opt_path ns ''sources_dir'') (\<lambda>sources_dir.
       bindE (get_opt_text ns ''docker_image'') (\<lambda>docker_image. bindE (get_int ns ''repeat'') (\<lambda>repeat.
       bindE (get_text ns ''mode'') (\<lambda>mode. bindE (get_text ns ''workload'') (\<lambda>workload.
       Inr (VpTest lane lock timeout out_dir work_dir sources_dir docker_image repeat mode workload)))))))))))
   else if command = ''workload-generate'' then
       bindE (get_path ns ''out'') (\<lambda>out. Inr (WorkloadGenerate out))
   else if command = ''input-set-sources'' then
       bindE (get_path ns ''lock'') (\<lambda>lock. bindE (get_path ns ''sources_dir'') (\<lambda>sources_dir.
       Inr (InputSetSources lock sources_dir)))
   else if command = ''input-set-workloads'' then
       bindE (get_path ns ''lock'') (\<lambda>lock. bindE (get_path ns ''sources_dir'') (\<lambda>sources_dir.
       bindE (get_path ns ''out'') (\<lambda>out. Inr (InputSetWorkloads lock sources_dir out))))
   else if command = ''abi-check'' then
       bindE (get_path ns ''source'') (\<lambda>source. bindE (get_opt_path ns ''out'') (\<lambda>out. Inr (AbiCheck source out)))
   else if command = ''report'' then
       bindE (get_path ns ''artifacts'') (\<lambda>artifacts. bindE (get_path ns ''out'') (\<lambda>out. Inr (Report artifacts out)))
   else if command = ''lenet-compare'' then
       bindE (get_path ns ''stock_dir'') (\<lambda>stock_dir. bindE (get_opt_path ns ''modern_dir'') (\<lambda>modern_dir.
       bindE (get_opt_path ns ''out'') (\<lambda>out. Inr (LenetCompare stock_dir modern_dir out))))
   else if command = ''lenet-analyze'' then
       bindE (get_path ns ''artifact'') (\<lambda>artifact. bindE (get_opt_text ns ''expected_output'') (\<lambda>expected_output.
       bindE (get_opt_path ns ''out'') (\<lambda>out. Inr (LenetAnalyze artifact expected_output out))))
   else if command = ''lenet-sources'' then
       bindE (get_path ns ''lock'') (\<lambda>lock. bindE (get_path ns ''sources_dir'') (\<lambda>sources_dir.
       Inr (LenetSources lock sources_dir)))
   else if command = ''lenet-workload'' then
       bindE (get_path ns ''lock'') (\<lambda>lock. bindE (get_path ns ''sources_dir'') (\<lambda>sources_dir.
       bindE (get_path ns ''out'') (\<lambda>out. Inr (LenetWorkload lock sources_dir out))))
   else if command = ''resnet50-sources'' then
       bindE (get_path ns ''lock'') (\<lambda>lock. bindE (get_path ns ''sources_dir'') (\<lambda>sources_dir.
       Inr (ResnetSources lock sources_dir)))
   else if command = ''resnet50-workload'' then
       bindE (get_path ns ''lock'') (\<lambda>lock. bindE (get_path ns ''sources_dir'') (\<lambda>sources_dir.
       bindE (get_path ns ''nvdla_sw'') (\<lambda>nvdla_sw. bindE (get_path ns ''out'') (\<lambda>out.
       Inr (ResnetWorkload lock sources_dir nvdla_sw out)))))
   else if command = ''resnet50-golden-promote'' then
       bindE (get_path ns ''lock'') (\<lambda>lock. bindE (get_path ns ''workload_dir'') (\<lambda>workload_dir.
       bindE (get_path ns ''artifact'') (\<lambda>artifact. Inr (ResnetGoldenPromote lock workload_dir artifact))))
   else if command = ''vp-small-config-audit'' then
       bindE (get_path ns ''lock'') (\<lambda>lock. bindE (get_path ns ''work_dir'') (\<lambda>work_dir.
       bindE (get_path ns ''artifacts'') (\<lambda>artifacts. Inr (VpSmallConfigAudit lock work_dir artifacts))))
   else if command = ''sdp-small-diagnostic'' then
       bindE (get_path ns ''artifacts'') (\<lambda>artifacts. Inr (SdpSmallDiagnostic artifacts))
   else if command = ''stock-sdp-control'' then
       bindE (get_path ns ''lock'') (\<lambda>lock. bindE (get_path ns ''artifacts'') (\<lambda>artifacts.
       bindE (get_path ns ''workloads_dir'') (\<lambda>workloads_dir. bindE (get_int ns ''timeout'') (\<lambda>timeout.
       bindE (get_int ns ''host_port'') (\<lambda>host_port. bindE (get_text ns ''workload'') (\<lambda>workload.
       Inr (StockSdpControl lock artifacts workloads_dir timeout host_port workload)))))))
   else if command = ''petalinux-dts'' then
       bindE (get_path ns ''lock'') (\<lambda>lock. bindE (get_path ns ''xsa'') (\<lambda>xsa. bindE (get_path ns ''out'') (\<lambda>out.
       bindE (get_opt_path ns ''audit_out'') (\<lambda>audit_out. Inr (PetalinuxDts lock xsa out audit_out)))))
   else if command = ''petalinux-rootfs-audit'' then
       bindE (get_path ns ''rootfs'') (\<lambda>rootfs. bindE (get_path ns ''extract_dir'') (\<lambda>extract_dir.
       bindE (get_path ns ''out'') (\<lambda>out. Inr (PetalinuxRootfsAudit rootfs extract_dir out))))
   else if command = ''petalinux-sd-bundle'' then
       bindE (get_path ns ''boot_bin'') (\<lambda>boot_bin. bindE (get_path ns ''boot_script'') (\<lambda>boot_script.
       bindE (get_path ns ''fit_image'') (\<lambda>fit_image. bindE (get_path ns ''out_dir'') (\<lambda>out_dir.
       bindE (get_path ns ''archive'') (\<lambda>archive. bindE (get_path ns ''manifest'') (\<lambda>manifest.
       Inr (PetalinuxSdBundle boot_bin boot_script fit_image out_dir archive manifest)))))))
   else if command = ''board-artifact-import'' then
       bindE (get_path ns ''archive'') (\<lambda>archive. bindE (get_path ns ''out'') (\<lambda>out.
       bindE (get_opt_path ns ''serial_log'') (\<lambda>serial_log. Inr (BoardArtifactImport archive out serial_log))))
   else if command = ''board-payload'' then
       bindE (get_path ns ''workloads_dir'') (\<lambda>workloads_dir. bindE (get_path ns ''out_dir'') (\<lambda>out_dir.
       bindE (get_path ns ''archive'') (\<lambda>archive. bindE (get_path ns ''manifest'') (\<lambda>manifest.
       bindE (get_path ns ''lock'') (\<lambda>lock. Inr (BoardPayload workloads_dir out_dir archive manifest lock))))))
   else if command = ''performance-import'' then
       bindE (get_paths ns ''archive'') (\<lambda>archive. bindE (get_path ns ''out'') (\<lambda>out.
       Inr (PerformanceImport archive out)))
   else if command = ''input-variation-import'' then
       bindE (get_paths ns ''archive'') (\<lambda>archive. bindE (get_path ns ''out'') (\<lambda>out.
       Inr (InputVariationImport archive out)))
   else if command = ''cpu-performance-import'' then
       bindE (get_paths ns ''archive'') (\<lambda>archive. bindE (get_path ns ''out'') (\<lambda>out.
       Inr (CpuPerformanceImport archive out)))
   else if command = ''campaign-report'' then
       bindE (get_path ns ''reports_dir'') (\<lambda>reports_dir. bindE (get_path ns ''campaign_root'') (\<lambda>campaign_root.
       bindE (get_path ns ''out'') (\<lambda>out. Inr (CampaignReport reports_dir campaign_root out))))
   else if command = ''trace-parse'' then
       bindE (get_path ns ''input'') (\<lambda>input. bindE (get_path ns ''register_header'') (\<lambda>register_header.
       bindE (get_path ns ''csb_out'') (\<lambda>csb_out. bindE (get_path ns ''raw_csb_out'') (\<lambda>raw_csb_out.
       bindE (get_path ns ''raw_dbb_out'') (\<lambda>raw_dbb_out. bindE (get_path ns ''summary_out'') (\<lambda>summary_out.
       bindE (get_int ns ''csb_base'') (\<lambda>csb_base.
       Inr (TraceParse input register_header csb_out raw_csb_out raw_dbb_out summary_out csb_base))))))))
   else if command = ''trace-compare'' then
       bindE (get_path ns ''reference_artifact'') (\<lambda>reference_artifact.
       bindE (get_path ns ''candidate_artifact'') (\<lambda>candidate_artifact. bindE (get_path ns ''out'') (\<lambda>out.
       Inr (TraceCompare reference_artifact candidate_artifact out))))
   else Inl (ValueError (''unknown command '' @ command)))"

datatype cli_result = Exit int | Raised py_error | Called call

definition cli_main :: "string list \<Rightarrow> cli_result" where
  "cli_main argv = (case parse_args argv of Stop n \<Rightarrow> Exit n
     | Parsed (command, ns) \<Rightarrow> (case dispatch command ns of Inl e \<Rightarrow> Raised e | Inr c \<Rightarrow> Called c))"

text \<open>The program over the state of the operations: a parameter runs the call.\<close>

definition run_cli :: "(call \<Rightarrow> 's \<Rightarrow> int \<times> 's) \<Rightarrow> string list \<Rightarrow> 's \<Rightarrow> int \<times> 's" where
  "run_cli operation argv s = (case cli_main argv of Exit n \<Rightarrow> (n, s) | Raised _ \<Rightarrow> (1, s) | Called c \<Rightarrow> operation c s)"

subsection \<open>Types of the attributes\<close>

definition fits :: "cli_option \<Rightarrow> cli_value \<Rightarrow> bool" where
  "fits o' v = (case v of
       VPath _ \<Rightarrow> co_type o' = PathType \<and> \<not> co_append o'
     | VPaths ps \<Rightarrow> co_append o' \<and> ps \<noteq> []
     | VInt _ \<Rightarrow> co_type o' \<in> {IntType, BaseType} \<and> \<not> co_append o'
     | VText s \<Rightarrow> co_type o' = TextType \<and> \<not> co_append o' \<and> (co_choices o' = [] \<or> s \<in> set (co_choices o'))
     | VNone \<Rightarrow> False)"

definition options_ok :: "cli_option list \<Rightarrow> bool" where
  "options_ok opts \<longleftrightarrow> distinct (map dest opts) \<and> list_all (\<lambda>o'. co_append o' \<longrightarrow> co_type o' = PathType) opts"

definition typed_state :: "cli_option list \<Rightarrow> parse_state \<Rightarrow> bool" where
  "typed_state opts st \<longleftrightarrow> (\<forall>o' \<in> set opts. \<exists>v. dict_get (st_ns st) (dest o') = Some v \<and>
     (fits o' v \<or> v = co_default o' \<and> co_flag o' \<notin> set (st_seen st)))"

definition available :: "cli_option \<Rightarrow> (string, cli_value) dict \<Rightarrow> bool" where
  "available o' ns \<longleftrightarrow> (\<exists>v. dict_get ns (dest o') = Some v \<and> (fits o' v \<or> v = co_default o' \<and> \<not> co_required o'))"

lemma start_typed: "options_ok opts \<Longrightarrow> typed_state opts (start_state opts)"
proof -
  assume "options_ok opts"
  then have "distinct (map fst (map (\<lambda>o'. (dest o', co_default o')) opts))" by (simp add: options_ok_def comp_def)
  then have "o' \<in> set opts \<Longrightarrow> dict_get (st_ns (start_state opts)) (dest o') = Some (co_default o')" for o'
    by (auto simp: start_state_def dict_get_def intro: map_of_is_SomeI)
  then show ?thesis by (simp add: typed_state_def) (simp add: start_state_def)
qed

lemma convert_fits: "convert o' s = Some v \<Longrightarrow> \<not> co_append o' \<Longrightarrow> fits o' v"
  by (auto simp: convert_def fits_def split: option_type.splits if_splits)

lemma store_fits:
  assumes "convert o' s = Some v" and "co_append o' \<longrightarrow> co_type o' = PathType"
  shows "\<exists>w. dict_get (st_ns (store o' v st)) (dest o') = Some w \<and> fits o' w"
proof (cases "co_append o'")
  case True
  with assms obtain p where "v = VPath p" by (auto simp: convert_def)
  with True show ?thesis by (auto simp: store_def fits_def Let_def split: option.splits cli_value.splits)
next
  case False
  with convert_fits [OF assms(1)] show ?thesis by (simp add: store_def Let_def)
qed

lemma store_typed:
  assumes "options_ok opts" and "typed_state opts st" and "o' \<in> set opts" and "convert o' s = Some v"
  shows "typed_state opts (store o' v st)"
  unfolding typed_state_def
proof
  fix o2 assume o2: "o2 \<in> set opts"
  show "\<exists>w. dict_get (st_ns (store o' v st)) (dest o2) = Some w \<and>
     (fits o2 w \<or> w = co_default o2 \<and> co_flag o2 \<notin> set (st_seen (store o' v st)))"
  proof (cases "dest o2 = dest o'")
    case True
    with assms(1,3) o2 have "o2 = o'" by (auto simp: options_ok_def distinct_map dest: inj_onD)
    with store_fits [OF assms(4)] assms(1,3) show ?thesis by (auto simp: options_ok_def list_all_iff)
  next
    case False
    then have "co_flag o2 \<noteq> co_flag o'" by (auto simp: dest_def)
    with False assms(2) o2 show ?thesis by (simp add: typed_state_def store_def Let_def)
  qed
qed

lemma extra_typed: "typed_state opts (extra s st) = typed_state opts st"
  by (simp add: typed_state_def extra_def)

lemma option_token_known: "a \<in> set (option_strings opts) \<Longrightarrow> option_token a w = Opt o' x \<Longrightarrow> o' \<in> set opts"
  by (auto simp: option_strings_def option_token_def split: written.splits)

lemma option_tuples_known: "Opt o' x \<in> set (option_tuples opts s) \<Longrightarrow> o' \<in> set opts"
  by (auto simp: option_tuples_def Let_def split: prod.splits if_splits dest: option_token_known sym)

lemma parse_optional_known: "parse_optional opts s = Inr (Opt o' x) \<Longrightarrow> o' \<in> set opts"
  by (auto simp: parse_optional_def Let_def split: if_splits option.splits prod.splits list.splits
      dest!: map_of_SomeD dest: option_token_known option_tuples_known [where s = s] intro: option_tuples_known [where s = s])

lemma tokens_known: "tokens opts ss = Inr ts \<Longrightarrow> Opt o' x \<in> set ts \<Longrightarrow> o' \<in> set opts"
proof (induction ss arbitrary: ts)
  case (Cons s ss)
  then show ?case by (auto simp: bindE_Inr_iff split: if_splits dest: parse_optional_known)
qed simp

definition options_in :: "cli_option list \<Rightarrow> token list \<Rightarrow> bool" where
  "options_in opts ts \<longleftrightarrow> (\<forall>o' x. Opt o' x \<in> set ts \<longrightarrow> o' \<in> set opts)"

lemma scan_typed: "scan ts st = Parsed st' \<Longrightarrow> options_ok opts \<Longrightarrow> options_in opts ts \<Longrightarrow> typed_state opts st \<Longrightarrow> typed_state opts st'"
proof (induction ts st rule: scan.induct)
  case (6 o' v ts st)
  then obtain w where "convert o' v = Some w" and r: "scan ts (store o' w st) = Parsed st'"
    by (auto simp: take_action_def split: option.splits)
  with 6 show ?case by (auto simp: take_action_def options_in_def intro!: store_typed)
next
  case (7 o' s ts st)
  then obtain w where "convert o' s = Some w" and r: "scan ts (store o' w st) = Parsed st'"
    by (auto simp: take_action_def split: option.splits)
  with 7 show ?case by (auto simp: take_action_def options_in_def intro!: store_typed)
qed (auto simp: extra_typed options_in_def)

lemma parse_known_available:
  assumes "parse_known opts args = Parsed st" and "options_ok opts" and "o' \<in> set opts"
  shows "available o' (st_ns st)"
proof -
  from assms(1) obtain ts where ts: "tokens opts args = Inr ts" by (auto simp: parse_known_def split: sum.splits)
  from assms(1) ts have sc: "scan ts (start_state opts) = Parsed st"
    and req: "list_all (\<lambda>o'. co_required o' \<longrightarrow> co_flag o' \<in> set (st_seen st)) opts"
    by (cases "scan ts (start_state opts)"; auto simp: parse_known_def split: if_splits)+
  have "options_in opts ts" using tokens_known [OF ts] by (simp add: options_in_def)
  from scan_typed [OF sc assms(2) this start_typed [OF assms(2)]] assms(3) req show ?thesis
    by (fastforce simp: typed_state_def available_def list_all_iff)
qed

lemma find_command_Parsed:
  "find_command tss b = Parsed (command, ns) \<Longrightarrow> \<exists>opts args st. map_of commands command = Some opts \<and> parse_known opts args = Parsed st \<and> ns = st_ns st"
proof (induction tss b rule: find_command.induct)
  case (2 t s rest b)
  show ?case
  proof (cases t)
    case (Arg c)
    with "2.prems" obtain opts where o: "map_of commands c = Some opts" by (auto split: option.splits)
    with Arg "2.prems" show ?thesis by (cases "parse_known opts (map snd rest)") (auto split: if_splits)
  qed (use 2 in auto)
qed simp

lemma commands_ok: "(command, opts) \<in> set commands \<Longrightarrow> options_ok opts"
proof -
  have "list_all (\<lambda>(_, opts). options_ok opts) commands" by code_simp
  then show "(command, opts) \<in> set commands \<Longrightarrow> options_ok opts" by (auto simp: list_all_iff)
qed

lemma parse_args_available:
  assumes "parse_args argv = Parsed (command, ns)"
  obtains opts where "(command, opts) \<in> set commands" and "\<And>o'. o' \<in> set opts \<Longrightarrow> available o' ns"
proof -
  from assms obtain ts where "find_command (zip ts argv) False = Parsed (command, ns)"
    by (auto simp: parse_args_def split: sum.splits)
  from find_command_Parsed [OF this] obtain opts args st where "map_of commands command = Some opts"
    and "parse_known opts args = Parsed st" and "ns = st_ns st" by blast
  with that [OF map_of_SomeD] parse_known_available commands_ok show thesis by (metis map_of_SomeD)
qed

subsection \<open>What the dispatch reads\<close>

definition attribute :: "string \<Rightarrow> string" where
  "attribute f = map (\<lambda>c. if c = CHR ''-'' then CHR ''_'' else c) (drop 2 f)"

named_theorems option_facts "what an available option holds"

lemmas option_defs = available_def cli_option_of_def dest_def attribute_def fits_def

lemma found_value_cases [case_names absent path number words paths nothing]:
  fixes x :: "cli_value option"
  obtains "x = None" | p where "x = Some (VPath p)" | n where "x = Some (VInt n)" | s where "x = Some (VText s)"
    | ps where "x = Some (VPaths ps)" | "x = Some VNone"
proof (cases x)
  case (Some v)
  with that show thesis by (cases v) auto
qed (use that in simp)

lemma available_required [option_facts]: "available (required_path f) ns \<longleftrightarrow> (\<exists>p. dict_get ns (attribute f) = Some (VPath p))"
  by (cases "dict_get ns (attribute f)" rule: found_value_cases) (auto simp: required_path_def option_defs)

lemma available_optional [option_facts]:
  "available (optional_path f) ns \<longleftrightarrow> (\<exists>p. dict_get ns (attribute f) = Some (VPath p)) \<or> dict_get ns (attribute f) = Some VNone"
  by (cases "dict_get ns (attribute f)" rule: found_value_cases) (auto simp: optional_path_def option_defs)

lemma available_default [option_facts]: "available (path_with_default f d) ns \<longleftrightarrow> (\<exists>p. dict_get ns (attribute f) = Some (VPath p))"
  by (cases "dict_get ns (attribute f)" rule: found_value_cases) (auto simp: path_with_default_def option_defs)

lemma available_archives [option_facts]:
  "available (archive_list f) ns \<longleftrightarrow> (\<exists>ps. ps \<noteq> [] \<and> dict_get ns (attribute f) = Some (VPaths ps))"
  by (cases "dict_get ns (attribute f)" rule: found_value_cases) (auto simp: archive_list_def option_defs)

lemma available_int [option_facts]: "available (int_option f d) ns \<longleftrightarrow> (\<exists>n. dict_get ns (attribute f) = Some (VInt n))"
  by (cases "dict_get ns (attribute f)" rule: found_value_cases) (auto simp: int_option_def option_defs)

lemma available_base [option_facts]: "available (base_option f d) ns \<longleftrightarrow> (\<exists>n. dict_get ns (attribute f) = Some (VInt n))"
  by (cases "dict_get ns (attribute f)" rule: found_value_cases) (auto simp: base_option_def option_defs)

lemma available_choice [option_facts]:
  "d \<in> set cs \<Longrightarrow> available (choice_option f cs d) ns \<longleftrightarrow> (\<exists>s. s \<in> set cs \<and> dict_get ns (attribute f) = Some (VText s))"
  by (cases "dict_get ns (attribute f)" rule: found_value_cases) (auto simp: choice_option_def option_defs)

lemma available_text [option_facts]:
  "available (optional_text f) ns \<longleftrightarrow> (\<exists>s. dict_get ns (attribute f) = Some (VText s)) \<or> dict_get ns (attribute f) = Some VNone"
  by (cases "dict_get ns (attribute f)" rule: found_value_cases) (auto simp: optional_text_def option_defs)

lemma available_text_default [option_facts]: "available (text_with_default f d) ns \<longleftrightarrow> (\<exists>s. dict_get ns (attribute f) = Some (VText s))"
  by (cases "dict_get ns (attribute f)" rule: found_value_cases) (auto simp: text_with_default_def option_defs)

subsection \<open>The calls\<close>

text \<open>What the operations may assume of their arguments beyond the types.\<close>

fun call_ok :: "call \<Rightarrow> bool" where
  "call_ok (VpTest lane _ _ _ _ _ _ _ mode _) = (lane \<in> {''reference'', ''modern''} \<and> mode \<in> {''smoke'', ''runtime''})"
| "call_ok (PerformanceImport archives _) = (archives \<noteq> [])"
| "call_ok (InputVariationImport archives _) = (archives \<noteq> [])"
| "call_ok (CpuPerformanceImport archives _) = (archives \<noteq> [])"
| "call_ok _ = True"

lemma getters [option_facts]:
  "dict_get ns k = Some (VPath p) \<Longrightarrow> get_path ns k = Inr p"
  "dict_get ns k = Some (VPath p) \<Longrightarrow> get_opt_path ns k = Inr (Some p)"
  "dict_get ns k = Some VNone \<Longrightarrow> get_opt_path ns k = Inr None"
  "dict_get ns k = Some (VPaths ps) \<Longrightarrow> get_paths ns k = Inr ps"
  "dict_get ns k = Some (VInt n) \<Longrightarrow> get_int ns k = Inr n"
  "dict_get ns k = Some (VText s) \<Longrightarrow> get_text ns k = Inr s"
  "dict_get ns k = Some (VText s) \<Longrightarrow> get_opt_text ns k = Inr (Some s)"
  "dict_get ns k = Some VNone \<Longrightarrow> get_opt_text ns k = Inr None"
  by (simp_all add: get_path_def get_opt_path_def get_paths_def get_int_def get_text_def get_opt_text_def get_value_def noneE_def)

definition dispatch_fits :: "string \<times> cli_option list \<Rightarrow> bool" where
  "dispatch_fits = (\<lambda>(command, opts). \<forall>ns. (\<forall>o' \<in> set opts. available o' ns) \<longrightarrow> (\<exists>c. dispatch command ns = Inr c \<and> call_ok c))"

lemma dispatch_commands: "list_all dispatch_fits commands"
  unfolding commands_def list.pred_inject
  by (intro conjI TrueI) (auto simp: option_facts attribute_def dispatch_def dispatch_fits_def)

definition exit_ok :: "int \<Rightarrow> bool" where
  "exit_ok n \<longleftrightarrow> n = 0 \<or> n = 2"

definition helps_ok :: "token list \<Rightarrow> bool" where
  "helps_ok ts \<longleftrightarrow> (\<forall>n. Help n \<in> set ts \<longrightarrow> exit_ok n)"

lemma help_tail_ok: "exit_ok (help_tail t)"
  by (induction t rule: help_tail.induct) (auto simp: exit_ok_def split: list.splits)

lemma option_token_exit: "option_token a w = Help n \<Longrightarrow> exit_ok n"
  using help_tail_ok by (auto simp: option_token_def exit_ok_def split: prod.splits option.splits written.splits if_splits)

lemma parse_optional_exit: "parse_optional opts s = Inr (Help n) \<Longrightarrow> exit_ok n"
proof -
  have t: "Help n \<in> set (option_tuples opts s) \<Longrightarrow> exit_ok n"
    by (auto simp: option_tuples_def Let_def split: prod.splits if_splits dest: option_token_exit sym)
  show "parse_optional opts s = Inr (Help n) \<Longrightarrow> exit_ok n"
    using t by (auto simp: parse_optional_def Let_def split: if_splits option.splits prod.splits list.splits dest: option_token_exit)
qed

lemma tokens_exit: "tokens opts ss = Inr ts \<Longrightarrow> helps_ok ts"
proof (induction ss arbitrary: ts)
  case (Cons s ss)
  show ?case
  proof (cases "s = ''--''")
    case False
    with Cons.prems obtain t ts' where "parse_optional opts s = Inr t" "tokens opts ss = Inr ts'" "ts = t # ts'" by (auto simp: bindE_Inr_iff)
    with Cons.IH parse_optional_exit show ?thesis by (auto simp: helps_ok_def)
  qed (use Cons.prems in \<open>auto simp: helps_ok_def\<close>)
qed (simp add: helps_ok_def)

lemma scan_exit: "scan ts st = Stop n \<Longrightarrow> helps_ok ts \<Longrightarrow> exit_ok n"
  by (induction ts st rule: scan.induct) (auto simp: helps_ok_def exit_ok_def take_action_def split: option.splits)

lemma parse_known_exit: "parse_known opts args = Stop n \<Longrightarrow> exit_ok n"
proof (cases "tokens opts args")
  case (Inr ts)
  assume "parse_known opts args = Stop n"
  with Inr scan_exit [OF _ tokens_exit [OF Inr]] show ?thesis
    by (cases "scan ts (start_state opts)") (auto simp: parse_known_def exit_ok_def split: if_splits)
qed (simp add: parse_known_def exit_ok_def)

lemma find_command_exit: "find_command tss b = Stop n \<Longrightarrow> helps_ok (map fst tss) \<Longrightarrow> exit_ok n"
proof (induction tss b rule: find_command.induct)
  case (2 t s rest b)
  show ?case
  proof (cases t)
    case (Arg c)
    show ?thesis
    proof (cases "map_of commands c")
      case (Some opts)
      with Arg 2 parse_known_exit show ?thesis
        by (cases "parse_known opts (map snd rest)") (auto simp: exit_ok_def split: if_splits)
    qed (use Arg 2 in \<open>simp add: exit_ok_def\<close>)
  qed (use 2 in \<open>auto simp: helps_ok_def exit_ok_def\<close>)
qed (simp add: exit_ok_def)

lemma command_line_reads_types: "parse_args argv = Parsed (command, ns) \<Longrightarrow> \<exists>c. dispatch command ns = Inr c \<and> call_ok c"
proof -
  assume p: "parse_args argv = Parsed (command, ns)"
  from parse_args_available [OF p] obtain opts where "(command, opts) \<in> set commands" and "\<And>o'. o' \<in> set opts \<Longrightarrow> available o' ns" by blast
  with dispatch_commands show ?thesis by (fastforce simp: list_all_iff dispatch_fits_def)
qed

text \<open>C6: Whatever arguments it is given, the command line either exits with status 0 (help) or 2 (a usage error),
  or it calls an operation. The dispatch never reads a missing attribute or one of another type than its
  operation takes; the lane and the mode of a virtual platform test are among the choices, and an import gets at
  least one archive.\<close>

theorem command_line_typed:
  "cli_main argv = Exit 0 \<or> cli_main argv = Exit 2 \<or> (\<exists>c. cli_main argv = Called c \<and> call_ok c)"
proof (cases "parse_args argv")
  case (Stop n)
  have "exit_ok n"
  proof (cases "tokens [] argv")
    case (Inr ts)
    have "helps_ok (map fst (zip ts argv))" using tokens_exit [OF Inr] by (auto simp: helps_ok_def dest: set_zip_leftD)
    with find_command_exit Stop Inr show ?thesis by (auto simp: parse_args_def)
  qed (use Stop in \<open>simp add: parse_args_def exit_ok_def\<close>)
  with Stop show ?thesis by (auto simp: cli_main_def exit_ok_def)
next
  case (Parsed r)
  then obtain command ns where p: "parse_args argv = Parsed (command, ns)" by (cases r) auto
  from command_line_reads_types [OF p] obtain c where "dispatch command ns = Inr c" "call_ok c" by blast
  with p show ?thesis by (simp add: cli_main_def)
qed

subsection \<open>Written flags are read back\<close>

definition plain :: "string \<Rightarrow> bool" where
  "plain s \<longleftrightarrow> s = [] \<or> hd s \<noteq> CHR ''-''"

type_synonym written_options = "(cli_option \<times> string) list"

definition written_args :: "written_options \<Rightarrow> string list" where
  "written_args ws = concat (map (\<lambda>(o', s). [co_flag o', s]) ws)"

definition given :: "written_options \<Rightarrow> cli_option \<Rightarrow> string list" where
  "given ws o' = map snd (List.filter (\<lambda>(o2, _). o2 = o') ws)"

text \<open>The value an option is meant to have: all values of a repeatable option, else the last one, else the default.\<close>

definition meant :: "written_options \<Rightarrow> cli_option \<Rightarrow> cli_value" where
  "meant ws o' = (if given ws o' = [] then co_default o' else if co_append o' then VPaths (map (path_div []) (given ws o'))
     else the (convert o' (last (given ws o'))))"

definition flags_ok :: "cli_option list \<Rightarrow> bool" where
  "flags_ok opts \<longleftrightarrow> list_all (\<lambda>o'. map_of (option_strings opts) (co_flag o') = Some (Some o') \<and> co_flag o' \<noteq> ''--''
     \<and> co_flag o' \<noteq> [] \<and> hd (co_flag o') = CHR ''-'' \<and> (co_append o' \<longrightarrow> co_default o' = VNone)) opts"

lemma commands_flags:
  assumes "(command, opts) \<in> set commands"
  shows "flags_ok opts" and "plain command" and "command \<noteq> ''--''" and "map_of commands command = Some opts"
proof -
  have "list_all (\<lambda>(c, opts). flags_ok opts \<and> plain c \<and> c \<noteq> ''--'') commands" by code_simp
  with assms show "flags_ok opts" "plain command" "command \<noteq> ''--''" by (auto simp: list_all_iff)
  have "distinct (map fst commands)" by code_simp
  with assms show "map_of commands command = Some opts" by simp
qed

lemma main_tuples: "length (option_tuples [] (c # d # r)) \<le> 1"
proof (cases "starts_with (c # d # r) ''--''")
  case True
  then obtain u where s: "c # d # r = ''--'' @ u" by (auto simp: starts_with_def prefix_def)
  show ?thesis unfolding s by (auto simp: option_tuples_def option_strings_def split_first_def Let_def starts_with_def prefix_def)
next
  case False
  then show ?thesis by (auto simp: option_tuples_def option_strings_def starts_with_def prefix_def)
qed

lemma main_unambiguous: "\<exists>t. parse_optional [] s = Inr t"
proof (cases s rule: remdups_adj.cases)
  case (3 c d r)
  from main_tuples [of c d r] consider "option_tuples [] s = []" | t where "option_tuples [] s = [t]"
    by (cases "option_tuples [] s") (auto simp: 3)
  then show ?thesis by cases (auto simp: parse_optional_def Let_def split: option.splits prod.splits)
qed (auto simp: parse_optional_def split: option.splits)

lemma main_tokens: "\<exists>ts. tokens [] ss = Inr ts \<and> length ts = length ss"
proof (induction ss)
  case (Cons s ss)
  with main_unambiguous [of s] show ?case by auto
qed simp

lemma tokens_written:
  assumes "flags_ok opts" and "\<forall>(o', s) \<in> set ws. o' \<in> set opts \<and> plain s"
  shows "tokens opts (written_args ws) = Inr (concat (map (\<lambda>(o', s). [Opt o' None, Arg s]) ws))"
  using assms(2)
proof (induction ws)
  case (Cons w ws)
  obtain o' s where w: "w = (o', s)" by (cases w)
  with Cons.prems assms(1) have f: "map_of (option_strings opts) (co_flag o') = Some (Some o')" "co_flag o' \<noteq> ''--''"
    "co_flag o' \<noteq> []" "hd (co_flag o') = CHR ''-''" by (auto simp: flags_ok_def list_all_iff)
  then have "parse_optional opts (co_flag o') = Inr (Opt o' None)" by (simp add: parse_optional_def option_token_def)
  moreover have "s \<noteq> ''--''" "parse_optional opts s = Inr (Arg s)" using Cons.prems w by (auto simp: parse_optional_def plain_def)
  ultimately show ?case using Cons f(2) by (simp add: w written_args_def)
qed (simp add: written_args_def)

definition read_options :: "cli_option list \<Rightarrow> written_options \<Rightarrow> parse_state" where
  "read_options opts ws = fold (\<lambda>(o', s). store o' (the (convert o' s))) ws (start_state opts)"

lemma scan_written:
  "\<forall>(o', s) \<in> set ws. convert o' s \<noteq> None \<Longrightarrow> scan (concat (map (\<lambda>(o', s). [Opt o' None, Arg s]) ws)) st
     = Parsed (fold (\<lambda>(o', s). store o' (the (convert o' s))) ws st)"
  by (induction ws arbitrary: st) (auto simp: take_action_def)

lemma read_seen: "st_seen (read_options opts ws) = map (\<lambda>(o', _). co_flag o') ws" "st_extras (read_options opts ws) = []"
  by (induction ws rule: rev_induct) (auto simp: read_options_def start_state_def store_def Let_def)

lemma given_snoc: "given (ws @ [(o2, s)]) o' = given ws o' @ (if o2 = o' then [s] else [])"
  by (simp add: given_def)

lemma read_meant:
  assumes "options_ok opts" and "flags_ok opts" and "\<forall>(o', s) \<in> set ws. o' \<in> set opts \<and> convert o' s \<noteq> None" and "o' \<in> set opts"
  shows "dict_get (st_ns (read_options opts ws)) (dest o') = Some (meant ws o')"
  using assms(3)
proof (induction ws rule: rev_induct)
  case Nil
  have "distinct (map fst (map (\<lambda>o'. (dest o', co_default o')) opts))" using assms(1) by (simp add: options_ok_def comp_def)
  then show ?case using assms(4) by (auto simp: read_options_def start_state_def dict_get_def meant_def given_def intro: map_of_is_SomeI)
next
  case (snoc w ws)
  obtain o2 s where w: "w = (o2, s)" by (cases w)
  with snoc.prems obtain v where v: "convert o2 s = Some v" and o2: "o2 \<in> set opts" by auto
  have e: "read_options opts (ws @ [(o2, s)]) = store o2 v (read_options opts ws)" by (simp add: read_options_def v)
  have IH: "dict_get (st_ns (read_options opts ws)) (dest o') = Some (meant ws o')" using snoc by auto
  show ?case
  proof (cases "o2 = o'")
    case False
    with assms(1,4) o2 have "dest o2 \<noteq> dest o'" by (auto simp: options_ok_def distinct_map dest: inj_onD)
    with False IH show ?thesis by (simp add: e store_def Let_def meant_def w given_snoc)
  next
    case True
    show ?thesis
    proof (cases "co_append o'")
      case False
      with True v show ?thesis by (simp add: e [unfolded True] store_def Let_def meant_def w given_snoc)
    next
      case app: True
      with assms(1,2,4) have "co_type o' = PathType" "co_default o' = VNone" by (auto simp: options_ok_def flags_ok_def list_all_iff)
      with app True v IH show ?thesis by (auto simp: e [unfolded True] store_def Let_def meant_def w given_snoc convert_def split: if_splits)
    qed
  qed
qed

text \<open>C28: A subcommand written with its name and then flags with plain values, every required flag among them, is
  accepted: each attribute gets the converted value of the last use of its flag, all values if the flag is
  repeatable, and the default if it is not used, and the operation of the subcommand is called on these.\<close>

theorem written_command_read:
  assumes "(command, opts) \<in> set commands"
    and "\<forall>(o', s) \<in> set ws. o' \<in> set opts \<and> plain s \<and> convert o' s \<noteq> None"
    and "\<forall>o' \<in> set opts. co_required o' \<longrightarrow> given ws o' \<noteq> []"
  shows "\<exists>ns c. parse_args (command # written_args ws) = Parsed (command, ns) \<and> (\<forall>o' \<in> set opts. dict_get ns (dest o') = Some (meant ws o'))
           \<and> dispatch command ns = Inr c \<and> cli_main (command # written_args ws) = Called c"
proof -
  note f = commands_flags [OF assms(1)]
  let ?st = "read_options opts ws"
  have "scan (concat (map (\<lambda>(o', s). [Opt o' None, Arg s]) ws)) (start_state opts) = Parsed ?st"
    unfolding read_options_def by (rule scan_written) (use assms(2) in auto)
  moreover have "list_all (\<lambda>o'. co_required o' \<longrightarrow> co_flag o' \<in> set (st_seen ?st)) opts"
    using assms(3) by (fastforce simp: list_all_iff read_seen given_def filter_empty_conv)
  moreover have "tokens opts (written_args ws) = Inr (concat (map (\<lambda>(o', s). [Opt o' None, Arg s]) ws))"
    by (rule tokens_written [OF f(1)]) (use assms(2) in auto)
  ultimately have k: "parse_known opts (written_args ws) = Parsed ?st" by (simp add: parse_known_def)
  obtain ts where ts: "tokens [] (written_args ws) = Inr ts" "length ts = length (written_args ws)" using main_tokens by blast
  then have "tokens [] (command # written_args ws) = Inr (Arg command # ts)" using f(2,3) by (simp add: parse_optional_def plain_def)
  then have p: "parse_args (command # written_args ws) = Parsed (command, st_ns ?st)"
    using f(4) k ts(2) by (simp add: parse_args_def read_seen)
  have "\<forall>o' \<in> set opts. dict_get (st_ns ?st) (dest o') = Some (meant ws o')"
    using read_meant [OF commands_ok [OF assms(1)] f(1)] assms(2) by blast
  moreover have "\<exists>c. dispatch command (st_ns ?st) = Inr c"
    using command_line_reads_types [OF p] by blast
  ultimately show ?thesis using p by (auto simp: cli_main_def)
qed

lemma written_command_read_witness:
  "\<exists>ns c. parse_args [''lock-check'', ''--lock'', ''a'', ''--xsa'', ''b/c''] = Parsed (''lock-check'', ns) \<and>
     dict_get ns ''xsa'' = Some (VPath [''b'', ''c'']) \<and> dict_get ns ''out'' = Some VNone \<and>
     cli_main [''lock-check'', ''--lock'', ''a'', ''--xsa'', ''b/c''] = Called c"
proof -
  let ?opts = "[required_path ''--lock'', required_path ''--xsa'', optional_path ''--out'']"
  let ?ws = "[(required_path ''--lock'', ''a''), (required_path ''--xsa'', ''b/c'')]"
  have c: "(''lock-check'', ?opts) \<in> set commands" unfolding commands_def by simp
  have v: "\<forall>(o', s) \<in> set ?ws. o' \<in> set ?opts \<and> plain s \<and> convert o' s \<noteq> None" by code_simp
  have r: "\<forall>o' \<in> set ?opts. co_required o' \<longrightarrow> given ?ws o' \<noteq> []" by code_simp
  have m: "meant ?ws (required_path ''--xsa'') = VPath [''b'', ''c'']" "meant ?ws (optional_path ''--out'') = VNone"
    "dest (required_path ''--xsa'') = ''xsa''" "dest (optional_path ''--out'') = ''out''"
    "written_args ?ws = [''--lock'', ''a'', ''--xsa'', ''b/c'']" by code_simp+
  from written_command_read [OF c v r] show ?thesis using m by auto
qed

end
