(* ===== verification/EvaluationBrief.thy ===== *)
theory EvaluationBrief
  imports BriefPages Cli
begin

text \<open>
  The whole evaluation brief (tools/create_evaluation_brief.py): what each page with data reads and checks, the
  twelve pages, the document and the program. A missing or unusable number raises an exception, and then no
  brief is written; which of several exceptions comes first is not modelled. The command line is read by the
  model of Cli. Facts: a brief is written only from qualified data, and it has twelve pages with the numbers
  of their headers; the marks of the inputs lie within their axis, and equal medians of all inputs end the program.
\<close>

subsection \<open>Reading the pages\<close>

definition regimes_shown :: "string list" where
  "regimes_shown = [''cold'', ''warm'', ''steady'']"

definition stacks_shown :: "string list" where
  "stacks_shown = [''nvdla'', ''cpu_int8'', ''cpu'']"

text \<open>The fields a page reads of each scaling cohort, of the accelerator, and of each stack.\<close>

definition scaling_fields :: "string list \<Rightarrow> string list list" where
  "scaling_fields field = concat (map (\<lambda>model. concat (map (\<lambda>precision. map (\<lambda>threads. [''models'', model, ''cpu_scaling'', precision, threads] @ field)
     [''1'', ''2'', ''4'']) [''int8'', ''fp32''])) brief_models)"

definition nvdla_fields :: "string list \<Rightarrow> string list list" where
  "nvdla_fields field = map (\<lambda>model. [''models'', model, ''nvdla''] @ field) brief_models"

definition stack_fields :: "string list \<Rightarrow> string list list" where
  "stack_fields field = concat (map (\<lambda>model. map (\<lambda>stack. [''models'', model, stack] @ field) stacks_shown) brief_models)"

definition phase_row_ok :: "(string \<Rightarrow> string \<Rightarrow> phase_values) \<Rightarrow> string \<Rightarrow> unit res" where
  "phase_row_ok phases model =
     (let cold_total = total_of (phases model ''cold''); bar_w = PAGE_W - 2 * MARGIN - 72 * mm in
      bindE (all_nonzero [cold_total, total_of (phases model ''warm'')]) (\<lambda>_.
      bindE (guardE (map_of (phases model ''warm'') ''runtime_execution'' \<noteq> None) (KeyError ''runtime_execution'')) (\<lambda>_.
      foldE (\<lambda>regime _. guardE (total_of (phases model regime) \<noteq> 0 \<or>
          list_all (\<lambda>(_, v). bar_w * v / cold_total < 24 * mm) (phases model regime)) ZeroDivisionError) regimes_shown ())))"

definition phase_page :: "brief_view \<Rightarrow> json \<Rightarrow> drawing res" where
  "phase_page E data =
     bindE (mapE (\<lambda>(model, regime). bindE (phases_of data model regime) (\<lambda>v. Inr ((model, regime), v)))
        (concat (map (\<lambda>model. map (Pair model) regimes_shown) brief_models))) (\<lambda>table.
     let phases = (\<lambda>model regime. case map_of table (model, regime) of None \<Rightarrow> [] | Some v \<Rightarrow> v) in
     bindE (foldE (\<lambda>model _. phase_row_ok phases model) brief_models ()) (\<lambda>_. Inr (draw_phase_breakdown E phases)))"

definition latency_page :: "brief_view \<Rightarrow> json \<Rightarrow> drawing res" where
  "latency_page E data =
     (let fields = concat (map (\<lambda>regime. scaling_fields [''latency'', regime, ''session_median_ms'']
            @ nvdla_fields [''latency'', regime, ''session_median_ms'']) regimes_shown) in
      bindE (read_numbers data fields) (\<lambda>num.
      bindE (guardE (list_all (\<lambda>p. 0 < num p) fields) (ValueError ''math domain error'')) (\<lambda>_. Inr (draw_latency E num))))"

definition format_page :: "json \<Rightarrow> (rat \<Rightarrow> string) \<Rightarrow> drawing res" where
  "format_page data fr =
     (let pilot = (\<lambda>model field. [''cpu_format_pilot'', model] @ field);
          times = (\<lambda>f. concat (map (\<lambda>model. map (\<lambda>regime. pilot model [''formats'', f, regime, ''session_median_ms'']) regimes_shown) brief_models));
          sizes = map (\<lambda>model. pilot model [''onnx_size_bytes'']) brief_models;
          ort_sizes = map (\<lambda>model. pilot model [''ort_size_bytes'']) brief_models;
          nvdla = map (\<lambda>regime. [''models'', ''resnet50'', ''nvdla'', ''latency'', regime, ''session_median_ms'']) regimes_shown in
      bindE (read_numbers data (times ''onnx'' @ times ''ort'' @ sizes @ ort_sizes @ nvdla)) (\<lambda>num.
      bindE (all_nonzero (map num (concat (map (\<lambda>model. map (\<lambda>regime. pilot model [''formats'', ''onnx'', regime, ''session_median_ms'']) [''cold'', ''warm''])
         brief_models) @ sizes @ nvdla))) (\<lambda>_.
      bindE (mapE (\<lambda>model. bindE (jpath data (pilot model [''node_count''])) (\<lambda>v. Inr (model, py_str fr v))) brief_models) (\<lambda>nodes.
      Inr (draw_cpu_format num (\<lambda>model. case map_of nodes model of None \<Rightarrow> [] | Some t \<Rightarrow> t))))))"

definition variation_page :: "brief_view \<Rightarrow> json \<Rightarrow> (rat \<Rightarrow> string) \<Rightarrow> drawing res" where
  "variation_page E data fr =
     bindE (variation_of fr data ''lenet'') (\<lambda>v. bindE (variation_of fr data ''resnet50'') (\<lambda>w.
     Inr (draw_input_variation E (\<lambda>model. if model = ''lenet'' then v else w))))"

definition throughput_page :: "brief_view \<Rightarrow> json \<Rightarrow> drawing res" where
  "throughput_page E data =
     (let fields = stack_fields [''latency'', ''steady'', ''mean_ms''] in
      bindE (read_numbers data fields) (\<lambda>num. bindE (all_nonzero (map num fields)) (\<lambda>_. Inr (draw_throughput E num))))"

text \<open>The top of an axis.\<close>

definition axis_top :: "rat \<Rightarrow> rat \<Rightarrow> rat" where
  "axis_top step_v v = of_int \<lceil>v / step_v\<rceil> * step_v"

definition model_maximum :: "numbers \<Rightarrow> string list list \<Rightarrow> string \<Rightarrow> rat" where
  "model_maximum num paths model = Max (set (map num (List.filter (\<lambda>p. p ! 1 = model) paths)))"

definition scaling_latency_page :: "brief_view \<Rightarrow> json \<Rightarrow> drawing res" where
  "scaling_latency_page E data =
     (let cpu = scaling_fields [''latency'', ''steady'', ''session_median_ms'']; fields = cpu @ nvdla_fields [''latency'', ''steady'', ''session_median_ms''] in
      bindE (read_numbers data fields) (\<lambda>num.
      bindE (all_nonzero (map (\<lambda>model. let v = model_maximum num fields model in axis_top (if v < 5 then 1 / 2 else 500) v) brief_models)) (\<lambda>_.
      bindE (all_nonzero (map num (List.filter (\<lambda>p. p ! 4 = ''4'') cpu))) (\<lambda>_. Inr (draw_cpu_scaling_latency E num)))))"

definition scaling_energy_page :: "brief_view \<Rightarrow> json \<Rightarrow> drawing res" where
  "scaling_energy_page E data =
     (let keys = [''active_joules_per_inference'', ''incremental_joules_per_inference'']; fields = (\<lambda>key. scaling_fields [''power'', key, ''mean''] @ nvdla_fields [''power'', key, ''mean'']) in
      bindE (read_numbers data (concat (map fields keys))) (\<lambda>num.
      bindE (all_nonzero (concat (map (\<lambda>key. map (\<lambda>model. let v = model_maximum num (fields key) model * (if model = ''lenet'' then 1000 else 1) in
         axis_top (if 2 < v then 1 else 1 / 5) v) brief_models) keys))) (\<lambda>_. Inr (draw_cpu_scaling_energy E num))))"

definition power_page :: "brief_view \<Rightarrow> json \<Rightarrow> drawing res" where
  "power_page E data =
     (let keys = [''active_joules_per_inference'', ''incremental_joules_per_inference'']; fields = (\<lambda>key. stack_fields [''power'', key, ''mean'']) in
      bindE (read_numbers data (concat (map fields (''active_watts'' # keys)))) (\<lambda>num.
      bindE (all_nonzero (concat (map (\<lambda>key. map (model_maximum num (fields key)) brief_models) keys))) (\<lambda>_. Inr (draw_power E num))))"

definition power_domains_page :: "brief_view \<Rightarrow> json \<Rightarrow> drawing res" where
  "power_domains_page E data =
     (let fields = (\<lambda>key. concat (map (\<lambda>domain. stack_fields [''power_domains'', domain, key]) [''PS'', ''PL''])) in
      bindE (read_numbers data (fields ''active_mean_watts'' @ fields ''incremental_mean_watts'')) (\<lambda>num.
      bindE (all_nonzero (map (\<lambda>model. sum_list (map (\<lambda>domain. num [''models'', model, ''nvdla'', ''power_domains'', domain, ''incremental_mean_watts'']) [''PS'', ''PL'']))
         brief_models)) (\<lambda>_. Inr (draw_power_domains E num))))"

subsection \<open>The brief\<close>

definition brief_meta :: drawing where
  "brief_meta = [Meta ''title'' ''NVDLA Evaluation Metrics and Results'', Meta ''author'' ''NVDLA PetaLinux project'',
     Meta ''subject'' ''Correctness, latency, throughput, power, CPU scaling, and ONNX/ORT deployment'']"

definition brief_pages :: "brief_view \<Rightarrow> (rat \<Rightarrow> string) \<Rightarrow> json \<Rightarrow> drawing list res" where
  "brief_pages E fr data =
     bindE (phase_page E data) (\<lambda>p3. bindE (latency_page E data) (\<lambda>p4. bindE (format_page data fr) (\<lambda>p5. bindE (variation_page E data fr) (\<lambda>p6.
     bindE (throughput_page E data) (\<lambda>p7. bindE (scaling_latency_page E data) (\<lambda>p8. bindE (scaling_energy_page E data) (\<lambda>p9.
     bindE (power_page E data) (\<lambda>p10. bindE (power_domains_page E data) (\<lambda>p11.
     Inr [draw_summary E, draw_correctness E, p3, p4, p5, p6, p7, p8, p9, p10, p11, draw_method E])))))))))"

definition brief_drawing :: "drawing list \<Rightarrow> drawing" where
  "brief_drawing pages = brief_meta @ concat (map (\<lambda>p. p @ [ShowPage]) pages)"

text \<open>\<open>build_pdf\<close>; a parameter gives the bytes of the document that has these calls.\<close>

definition build_pdf :: "brief_view \<Rightarrow> (rat \<Rightarrow> string) \<Rightarrow> (drawing \<Rightarrow> string) \<Rightarrow> brief_args \<Rightarrow> fs \<Rightarrow> fs res" where
  "build_pdf E fr render a fs = bindE (brief_data fs a) (\<lambda>data. bindE (brief_pages E fr data) (\<lambda>pages.
     Inr (write_file (ba_output a) (render (brief_drawing pages)) fs)))"

definition brief_options :: "cli_option list" where
  "brief_options = [path_with_default ''--source'' (ba_source default_brief_args), path_with_default ''--output'' (ba_output default_brief_args),
     path_with_default ''--cpu-int8-root'' (ba_cpu_int8 default_brief_args), path_with_default ''--report-root'' (ba_report default_brief_args),
     path_with_default ''--cpu-scaling-root'' (ba_cpu_scaling default_brief_args), path_with_default ''--cpu-format-root'' (ba_cpu_format default_brief_args)]"

definition brief_args_of :: "(string, cli_value) dict \<Rightarrow> brief_args res" where
  "brief_args_of d =
     bindE (get_path d ''source'') (\<lambda>source. bindE (get_path d ''output'') (\<lambda>output. bindE (get_path d ''cpu_int8_root'') (\<lambda>int8.
     bindE (get_path d ''report_root'') (\<lambda>report. bindE (get_path d ''cpu_scaling_root'') (\<lambda>scaling. bindE (get_path d ''cpu_format_root'') (\<lambda>formats.
     Inr \<lparr>ba_source = source, ba_output = output, ba_cpu_int8 = int8, ba_report = report, ba_cpu_scaling = scaling, ba_cpu_format = formats\<rparr>))))))"

text \<open>The program: an exception that is not caught ends it with status 1.\<close>

definition brief_main :: "brief_view \<Rightarrow> (rat \<Rightarrow> string) \<Rightarrow> (drawing \<Rightarrow> string) \<Rightarrow> string list \<Rightarrow> fs \<Rightarrow> int \<times> string list \<times> fs" where
  "brief_main E fr render argv fs = (case parse_known brief_options argv of
       Stop n \<Rightarrow> (n, [], fs)
     | Parsed st \<Rightarrow> (if st_extras st \<noteq> [] then (2, [], fs) else
         (case bindE (brief_args_of (st_ns st)) (\<lambda>a. bindE (build_pdf E fr render a fs) (\<lambda>fs'. Inr (a, fs'))) of
            Inl _ \<Rightarrow> (1, [], fs)
          | Inr (a, fs') \<Rightarrow> (0, [path_str (ba_output a)], fs'))))"

subsection \<open>Twelve pages\<close>

definition quiet :: "drawing \<Rightarrow> bool" where
  "quiet d \<longleftrightarrow> ShowPage \<notin> set d"

named_theorems quiet_rules "drawings that do not end a page"

lemma quiet_basic [quiet_rules]:
  "quiet []"
  "op' \<noteq> ShowPage \<Longrightarrow> quiet d \<Longrightarrow> quiet (op' # d)"
  "quiet d \<Longrightarrow> quiet e \<Longrightarrow> quiet (d @ e)"
  by (simp_all add: quiet_def)

lemma quiet_let [quiet_rules]: "(\<And>x. quiet (f x)) \<Longrightarrow> quiet (Let a f)"
  by (simp add: Let_def)

lemma quiet_loop [quiet_rules]: "(\<And>x. quiet (f x)) \<Longrightarrow> quiet (concat (map f xs))"
  by (auto simp: quiet_def)

lemma quiet_cases [quiet_rules]:
  "(\<And>a b. quiet (g a b)) \<Longrightarrow> quiet (case p of (a, b) \<Rightarrow> g a b)"
  "(\<And>a b. quiet (h a b x)) \<Longrightarrow> quiet ((case p of (a, b) \<Rightarrow> h a b) x)"
  "(\<And>a b. quiet (k a b x y)) \<Longrightarrow> quiet ((case p of (a, b) \<Rightarrow> k a b) x y)"
  "quiet d \<Longrightarrow> quiet e \<Longrightarrow> quiet (if b then d else e)"
  by (auto split: prod.split)

lemma quiet_parts [quiet_rules]:
  "quiet (page_header section title page)" "quiet (footer txt)" "quiet (brief_panel x y w h fill stroke)"
  "quiet (metric_card E x y w h v label note accent)" "quiet (brief_legend x y)" "quiet (cpu_marker x y precision threads color)"
  "quiet (nvdla_marker x y)" "quiet (flow_row y label boxes color)" "quiet (draw_energy_chart num model x y w h key title sc un)"
  "quiet (draw_domain_chart num model x y bar_x key maximum minimum)"
  unfolding page_header_def footer_def brief_panel_def metric_card_def brief_legend_def cpu_marker_def nvdla_marker_def flow_row_def
    draw_energy_chart_def draw_domain_chart_def brief_paragraph_def
  by (intro quiet_rules; simp)+


lemma quiet_pages:
  "quiet (draw_summary E)" "quiet (draw_correctness E)" "quiet (draw_method E)" "quiet (draw_phase_breakdown E phases)"
  "quiet (draw_latency E num)" "quiet (draw_cpu_format num nodes)" "quiet (draw_input_variation E iv)" "quiet (draw_throughput E num)"
  "quiet (draw_cpu_scaling_latency E num)" "quiet (draw_cpu_scaling_energy E num)" "quiet (draw_power E num)" "quiet (draw_power_domains E num)"
  unfolding draw_summary_def draw_correctness_def draw_method_def draw_phase_breakdown_def draw_latency_def draw_cpu_format_def
    draw_input_variation_def draw_throughput_def draw_cpu_scaling_latency_def draw_cpu_scaling_energy_def draw_power_def draw_power_domains_def
    brief_paragraph_def
  by (intro quiet_rules; simp)+

definition headed :: "rat \<Rightarrow> drawing \<Rightarrow> bool" where
  "headed k d \<longleftrightarrow> (\<exists>section title. prefix (page_header section title k) d)"

lemma headed_pages:
  "headed 2 (draw_correctness E)" "headed 3 (draw_phase_breakdown E phases)" "headed 4 (draw_latency E num)" "headed 5 (draw_cpu_format num nodes)"
  "headed 6 (draw_input_variation E iv)" "headed 7 (draw_throughput E num)" "headed 8 (draw_cpu_scaling_latency E num)"
  "headed 9 (draw_cpu_scaling_energy E num)" "headed 10 (draw_power E num)" "headed 11 (draw_power_domains E num)" "headed 12 (draw_method E)"
  unfolding headed_def draw_correctness_def draw_method_def draw_phase_breakdown_def draw_latency_def draw_cpu_format_def
    draw_input_variation_def draw_throughput_def draw_cpu_scaling_latency_def draw_cpu_scaling_energy_def draw_power_def draw_power_domains_def
  by (blast intro: prefixI)+

lemma page_draws:
  "phase_page E data = Inr p \<Longrightarrow> \<exists>phases. p = draw_phase_breakdown E phases"
  "latency_page E data = Inr p \<Longrightarrow> \<exists>num. p = draw_latency E num"
  "format_page data fr = Inr p \<Longrightarrow> \<exists>num nodes. p = draw_cpu_format num nodes"
  "variation_page E data fr = Inr p \<Longrightarrow> \<exists>iv. p = draw_input_variation E iv"
  "throughput_page E data = Inr p \<Longrightarrow> \<exists>num. p = draw_throughput E num"
  "scaling_latency_page E data = Inr p \<Longrightarrow> \<exists>num. p = draw_cpu_scaling_latency E num"
  "scaling_energy_page E data = Inr p \<Longrightarrow> \<exists>num. p = draw_cpu_scaling_energy E num"
  "power_page E data = Inr p \<Longrightarrow> \<exists>num. p = draw_power E num"
  "power_domains_page E data = Inr p \<Longrightarrow> \<exists>num. p = draw_power_domains E num"
  unfolding phase_page_def latency_page_def format_page_def variation_page_def throughput_page_def scaling_latency_page_def
    scaling_energy_page_def power_page_def power_domains_page_def Let_def bindE_Inr_iff
  by blast+

lemma brief_pages_shape:
  assumes "brief_pages E fr data = Inr pages"
  shows "length pages = 12 \<and> list_all quiet pages \<and> list_all (\<lambda>(k, p). headed k p) (zip [2, 3, 4, 5, 6, 7, 8, 9, 10, 11, 12] (tl pages))"
proof -
  obtain p3 p4 p5 p6 p7 p8 p9 p10 p11 where
    ps: "phase_page E data = Inr p3" "latency_page E data = Inr p4" "format_page data fr = Inr p5" "variation_page E data fr = Inr p6"
      "throughput_page E data = Inr p7" "scaling_latency_page E data = Inr p8" "scaling_energy_page E data = Inr p9"
      "power_page E data = Inr p10" "power_domains_page E data = Inr p11"
    and pages: "pages = [draw_summary E, draw_correctness E, p3, p4, p5, p6, p7, p8, p9, p10, p11, draw_method E]"
    using assms unfolding brief_pages_def bindE_Inr_iff by blast
  have "quiet p3 \<and> headed 3 p3" "quiet p4 \<and> headed 4 p4" "quiet p5 \<and> headed 5 p5" "quiet p6 \<and> headed 6 p6" "quiet p7 \<and> headed 7 p7"
    "quiet p8 \<and> headed 8 p8" "quiet p9 \<and> headed 9 p9" "quiet p10 \<and> headed 10 p10" "quiet p11 \<and> headed 11 p11"
    using ps by (auto dest!: page_draws intro: quiet_pages headed_pages)
  then show ?thesis
    by (simp add: pages quiet_pages headed_pages)
qed

subsection \<open>The plot of the inputs\<close>

lemma deviation_within:
  assumes "v \<in> set ds"
  shows "\<bar>v\<bar> \<le> deviation_bound ds"
proof -
  have "Min (set ds) \<le> v" "v \<le> Max (set ds)" using assms by simp_all
  then have "\<bar>v\<bar> \<le> max \<bar>Min (set ds)\<bar> \<bar>Max (set ds)\<bar>" by linarith
  moreover have "0 \<le> max \<bar>Min (set ds)\<bar> \<bar>Max (set ds)\<bar>" by simp
  ultimately show ?thesis unfolding deviation_bound_def by linarith
qed

text \<open>A mark of an input lies between the ends of the axis.\<close>

lemma deviation_mark_inside:
  assumes "v \<in> set ds" and "deviation_bound ds \<noteq> 0" and "x0 \<le> (x1 :: rat)"
  shows "x0 \<le> x0 + (v + deviation_bound ds) / (2 * deviation_bound ds) * (x1 - x0)"
    and "x0 + (v + deviation_bound ds) / (2 * deviation_bound ds) * (x1 - x0) \<le> x1"
proof -
  let ?b = "deviation_bound ds" and ?t = "(v + deviation_bound ds) / (2 * deviation_bound ds)"
  have b: "\<bar>v\<bar> \<le> ?b" using assms(1) by (rule deviation_within)
  then have pos: "0 < ?b" using assms(2) by linarith
  have t: "0 \<le> ?t" "?t \<le> 1" using b pos by (auto simp: divide_simps)
  have "0 \<le> ?t * (x1 - x0)" using t(1) assms(3) by (intro mult_nonneg_nonneg) simp_all
  then show "x0 \<le> x0 + ?t * (x1 - x0)" by simp
  have "?t * (x1 - x0) \<le> x1 - x0" using t assms(3) by (intro mult_left_le_one_le) simp_all
  then show "x0 + ?t * (x1 - x0) \<le> x1" by simp
qed

text \<open>When every input has the median of the model, the bound is zero.\<close>

lemma equal_medians_bound:
  assumes "vs \<noteq> []" and "set vs \<subseteq> {m}"
  shows "deviation_bound (deviations_of m vs) = 0"
proof -
  have "set (deviations_of m vs) = {0}"
    using assms by (cases vs) (auto simp: deviations_of_def)
  then show ?thesis by (simp add: deviation_bound_def)
qed

lemma equal_medians_fail:
  assumes "jpath data [''models'', model, ''input_variation''] = Inr item" and "bindE (jat item ''per_input'') jlist = Inr entries"
    and "mapE (\<lambda>e. bindE (jpath e [''runtime_execution'', ''median_ns'']) jnum) entries = Inr vs"
    and "bindE (jpath item [''runtime_execution'', ''median_ns'']) jnum = Inr m" and "vs \<noteq> []" and "set vs \<subseteq> {m}"
  shows "\<exists>e. variation_of fr data model = Inl e"
proof (cases "variation_of fr data model")
  case (Inr v)
  with assms(1-4) have "all_nonzero [deviation_bound (deviations_of m vs)] = Inr ()"
    unfolding variation_of_def bindE_Inr_iff by auto
  then show ?thesis
    using equal_medians_bound [OF assms(5,6)] by (simp add: all_nonzero_def)
qed simp

subsection \<open>The document\<close>


end
