(* ===== verification/FlatbufClient.thy ===== *)
theory FlatbufClient
  imports Files
begin

text \<open>
  The client that runs one flatbuffer on the board (tools/runtime/nvdla_flatbuf_client.py). A
  socket is the chunks the peer's bytes arrive in, in order, and the bytes sent so far; \<open>recv(n)\<close>
  takes at most \<open>n\<close> bytes from the first chunk, and returns nothing once no chunk is left (the peer
  closed). The printed progress is not modelled.
\<close>

record sock =
  sk_incoming :: "string list"
  sk_sent :: string

subsection \<open>Frames\<close>

text \<open>\<open>sock.recv(n)\<close> for positive \<open>n\<close>; an empty chunk is not a delivery.\<close>

fun recv :: "nat \<Rightarrow> string list \<Rightarrow> string \<times> string list" where
  "recv n [] = ([], [])"
| "recv n (c # cs) = (if c = [] then recv n cs
     else (take n c, if drop n c = [] then cs else drop n c # cs))"

definition frame :: "string \<Rightarrow> string" where
  "frame payload = show_nat (length payload) @ [NL] @ payload"

definition send_frame :: "string \<Rightarrow> sock \<Rightarrow> sock" where
  "send_frame payload s = s\<lparr>sk_sent := sk_sent s @ frame payload\<rparr>"

lemma recv_total: "0 < n \<Longrightarrow> recv n cs = (b, cs') \<Longrightarrow>
    b @ concat cs' = concat cs \<and> length b \<le> n \<and> (b = [] \<longleftrightarrow> concat cs = [])"
  by (induction cs) (auto split: if_splits)

lemma recv_shorter: "0 < n \<Longrightarrow> recv n cs = (b, cs') \<Longrightarrow> b \<noteq> [] \<Longrightarrow> length (concat cs') < length (concat cs)"
  using recv_total [of n cs b cs'] by (metis length_append length_greater_0_conv less_add_same_cancel2)

text \<open>The loop that reads the size, a byte at a time up to the line feed.\<close>

function read_size :: "string list \<Rightarrow> string \<Rightarrow> (string \<times> string list) res" where
  "read_size cs acc = (let (byte, cs') = recv 1 cs in
     if byte = [] then Inl (RuntimeError ''socket closed while reading frame size'')
     else if byte = [NL] then Inr (acc, cs')
     else read_size cs' (acc @ byte))"
  by pat_completeness auto
termination
  by (relation "measure (\<lambda>(cs, acc). length (concat cs))") (auto intro: recv_shorter [of "Suc 0", OF _ sym])

declare read_size.simps [simp del]

text \<open>The loop that reads the data: at most the missing bytes are asked for.\<close>

function read_data :: "int \<Rightarrow> string list \<Rightarrow> string \<Rightarrow> (string \<times> string list) res" where
  "read_data n cs data =
     (if n \<le> int (length data) then Inr (data, cs)
      else let (chunk, cs') = recv (nat (n - int (length data))) cs in
        if chunk = [] then Inl (RuntimeError ''socket closed while reading frame data'')
        else read_data n cs' (data @ chunk))"
  by pat_completeness auto
termination
proof (relation "measure (\<lambda>(n, cs, data). length (concat cs))")
  fix n and data :: string and cs cs' :: "string list" and x chunk
  assume a: "\<not> n \<le> int (length data)" and x: "x = recv (nat (n - int (length data))) cs" "(chunk, cs') = x"
    and c: "chunk \<noteq> []"
  from a have "0 < nat (n - int (length data))" by simp
  from recv_shorter [OF this _ c, of cs cs'] x
  show "((n, cs', data @ chunk), n, cs, data) \<in> measure (\<lambda>(n, cs, data). length (concat cs))" by simp
qed simp

declare read_data.simps [simp del]

definition is_ascii :: "string \<Rightarrow> bool" where
  "is_ascii s = list_all (\<lambda>c. code c < 128) s"

definition ascii_int :: "string \<Rightarrow> int option" where
  "ascii_int s = (if is_ascii s then py_int s else None)"

definition recv_frame :: "sock \<Rightarrow> (string \<times> sock) res" where
  "recv_frame s = bindE (read_size (sk_incoming s) []) (\<lambda>(size_bytes, cs).
     bindE (noneE (RuntimeError ''invalid frame size'') (ascii_int size_bytes)) (\<lambda>n.
     bindE (read_data n cs []) (\<lambda>(data, cs').
     Inr (data, s\<lparr>sk_incoming := cs'\<rparr>))))"

subsection \<open>The protocol\<close>

definition check_response :: "string \<Rightarrow> string \<Rightarrow> unit res" where
  "check_response command payload = guardE (\<not> contains ''ERR'' payload) (RuntimeError (command @ '' failed: '' @ payload))"

definition output_name :: "nat \<Rightarrow> string" where
  "output_name i = ''o_'' @ pad_left 6 (show_nat i) @ ''.dimg''"

definition fetch_output :: "path \<Rightarrow> nat \<Rightarrow> sock \<times> fs \<times> path list \<Rightarrow> (sock \<times> fs \<times> path list) res" where
  "fetch_output out_dir i = (\<lambda>(s, fs, outputs).
     bindE (recv_frame (send_frame (show_nat i) (send_frame ''GET_OUTPUT'' s))) (\<lambda>(output, s').
       let p = out_dir @ [output_name i] in Inr (s', write_file p output fs, outputs @ [p])))"

definition finish :: "bool \<Rightarrow> sock \<Rightarrow> sock res" where
  "finish shutdown s = (if shutdown
     then bindE (recv_frame (send_frame ''SHUTDOWN'' s)) (\<lambda>(ack, s').
       bindE (check_response ''SHUTDOWN'' ack) (\<lambda>_. Inr s'))
     else Inr s)"

definition run_protocol :: "path \<Rightarrow> path \<Rightarrow> bool \<Rightarrow> sock \<Rightarrow> fs \<Rightarrow> (path list \<times> sock \<times> fs) res" where
  "run_protocol flatbuf out_dir shutdown s0 fs =
     bindE (recv_frame (send_frame ''GET_WELCOME'' s0)) (\<lambda>(welcome, s1).
     bindE (check_response ''GET_WELCOME'' welcome) (\<lambda>_.
     bindE (read_text fs flatbuf) (\<lambda>flatbuf_data.
     let s2 = send_frame flatbuf_data (send_frame ''READ_FLATBUF'' s1) in
     bindE (recv_frame (send_frame ''RUN_FLATBUF'' s2)) (\<lambda>(run_result, s3).
     bindE (check_response ''RUN_FLATBUF'' run_result) (\<lambda>_.
     bindE (guardE (contains ''PASSED'' run_result) (RuntimeError ''RUN_FLATBUF did not report PASSED'')) (\<lambda>_.
     bindE (recv_frame (send_frame ''GET_NUMOUTPUTS'' s3)) (\<lambda>(num_payload, s4).
     bindE (check_response ''GET_NUMOUTPUTS'' num_payload) (\<lambda>_.
     bindE (noneE (ValueError ''invalid literal for int()'') (ascii_int (strip num_payload))) (\<lambda>num_outputs.
     bindE (foldE (fetch_output out_dir) [0..<nat num_outputs] (s4, fs, [])) (\<lambda>(s5, fs', outputs).
     bindE (finish shutdown s5) (\<lambda>s6. Inr (outputs, s6, fs'))))))))))))"

subsection \<open>Connecting\<close>

text \<open>Whether each attempt connects is given by \<open>attempts\<close>; the result is the number of the attempt
  that did, with the number of pauses made before.\<close>

fun connect_loop :: "(nat \<Rightarrow> bool) \<Rightarrow> nat \<Rightarrow> nat \<Rightarrow> nat \<Rightarrow> nat \<Rightarrow> (nat \<times> nat) res" where
  "connect_loop attempts retries attempt 0 pauses = Inl (RuntimeError ''could not connect'')"
| "connect_loop attempts retries attempt (Suc left) pauses =
     (if attempts attempt then Inr (attempt, pauses)
      else connect_loop attempts retries (Suc attempt) left (if attempt < retries then Suc pauses else pauses))"

definition connect_with_retry :: "(nat \<Rightarrow> bool) \<Rightarrow> nat \<Rightarrow> (nat \<times> nat) res" where
  "connect_with_retry attempts retries = connect_loop attempts retries 1 retries 0"

subsection \<open>Framing is independent of how the bytes arrive\<close>

lemma concat_split_byte:
  "concat cs = c # r \<Longrightarrow> \<exists>cs'. recv 1 cs = ([c], cs') \<and> concat cs' = r"
proof -
  assume c: "concat cs = c # r"
  obtain b cs' where b: "recv 1 cs = (b, cs')" by fastforce
  from recv_total [OF _ b] c have "b @ concat cs' = c # r" "length b \<le> 1" "b \<noteq> []" by auto
  then show ?thesis using b by (cases b) auto
qed

lemma read_size_frame:
  "concat cs = d @ NL # r \<Longrightarrow> NL \<notin> set d \<Longrightarrow> \<exists>cs'. read_size cs acc = Inr (acc @ d, cs') \<and> concat cs' = r"
proof (induction d arbitrary: cs acc)
  case Nil
  then obtain cs' where "recv 1 cs = ([NL], cs')" "concat cs' = r"
    using concat_split_byte [of cs NL r] by auto
  then show ?case by (subst read_size.simps) simp
next
  case (Cons c d)
  then obtain cs' where c: "recv 1 cs = ([c], cs')" "concat cs' = d @ NL # r"
    using concat_split_byte [of cs c "d @ NL # r"] by auto
  from Cons.IH [OF c(2), of "acc @ [c]"] Cons.prems(2) c(1) show ?case
    by (subst read_size.simps) auto
qed

lemma read_data_frame:
  "concat cs = p @ r \<Longrightarrow> n = int (length data + length p) \<Longrightarrow>
     \<exists>cs'. read_data n cs data = Inr (data @ p, cs') \<and> concat cs' = r"
proof (induction n cs data arbitrary: p rule: read_data.induct)
  case (1 n cs data)
  show ?case
  proof (cases "p = []")
    case True
    with "1.prems" show ?thesis by (subst read_data.simps) simp
  next
    case False
    with "1.prems" have less: "\<not> n \<le> int (length data)" and len: "nat (n - int (length data)) = length p" by auto
    obtain chunk cs' where rc: "recv (length p) cs = (chunk, cs')" by fastforce
    have "0 < length p" using False by simp
    from recv_total [OF this rc] "1.prems"(1) False have eq: "chunk @ concat cs' = p @ r"
      and ne: "chunk \<noteq> []" and le: "length chunk \<le> length p" by auto
    from eq le obtain p' where p: "p = chunk @ p'" and r: "concat cs' = p' @ r"
      by (auto simp: append_eq_append_conv2)
    have "\<exists>cs''. read_data n cs' (data @ chunk) = Inr ((data @ chunk) @ p', cs'') \<and> concat cs'' = r"
      using "1.IH" [of "(chunk, cs')" chunk cs' p', OF less _ refl ne r] rc len "1.prems"(2) p by simp
    then show ?thesis using less len rc ne p by (subst read_data.simps) simp
  qed
qed

lemma ascii_show_nat: "ascii_int (show_nat n) = Some (int n)"
proof -
  have "is_ascii (show_nat n)"
    using show_nat_dec [of n] by (auto simp: is_ascii_def list_all_iff is_dec_def Let_def)
  then show ?thesis by (simp add: ascii_int_def py_int_show_nat)
qed

lemma recv_frame_frame:
  assumes "concat (sk_incoming s) = frame p @ r"
  shows "\<exists>cs. recv_frame s = Inr (p, s\<lparr>sk_incoming := cs\<rparr>) \<and> concat cs = r"
proof -
  have "NL \<notin> set (show_nat (length p))"
    using show_nat_dec [of "length p"] is_dec_not [of NL] by (auto simp: list_all_iff)
  with assms read_size_frame [of "sk_incoming s" "show_nat (length p)" "p @ r" "[]"]
  obtain cs where "read_size (sk_incoming s) [] = Inr (show_nat (length p), cs)" "concat cs = p @ r"
    by (auto simp: frame_def)
  moreover from read_data_frame [OF this(2), of "int (length p)" "[]"]
  obtain cs' where "read_data (int (length p)) cs [] = Inr (p, cs')" "concat cs' = r" by auto
  ultimately show ?thesis by (auto simp: recv_frame_def ascii_show_nat)
qed

subsection \<open>The interface of a framed channel\<close>

locale frame_channel =
  fixes rcv :: "'s \<Rightarrow> (string \<times> 's) res"
    and snd_frame :: "string \<Rightarrow> 's \<Rightarrow> 's"
    and pending :: "'s \<Rightarrow> string"
    and sent :: "'s \<Rightarrow> string"
  assumes rcv_pending: "pending s = frame p @ r \<Longrightarrow> \<exists>s'. rcv s = Inr (p, s') \<and> pending s' = r \<and> sent s' = sent s"
    and pending_snd: "pending (snd_frame p s) = pending s"
    and sent_snd: "sent (snd_frame p s) = sent s @ frame p"
begin

text \<open>A request of several frames and its reply.\<close>

definition exchange :: "string list \<Rightarrow> 's \<Rightarrow> (string \<times> 's) res" where
  "exchange requests s = rcv (fold snd_frame requests s)"

lemma pending_fold: "pending (fold snd_frame requests s) = pending s"
  by (induction requests arbitrary: s) (simp_all add: pending_snd)

lemma sent_fold: "sent (fold snd_frame requests s) = sent s @ concat (map frame requests)"
  by (induction requests arbitrary: s) (simp_all add: sent_snd)

lemma exchange_reply:
  assumes "pending s = frame p @ r"
  shows "\<exists>s'. exchange requests s = Inr (p, s') \<and> pending s' = r \<and> sent s' = sent s @ concat (map frame requests)"
  using rcv_pending [of "fold snd_frame requests s" p r] assms
  by (simp add: exchange_def pending_fold sent_fold)

end

interpretation client: frame_channel recv_frame send_frame "\<lambda>s. concat (sk_incoming s)" sk_sent
proof unfold_locales
  fix s :: sock and p r
  assume "concat (sk_incoming s) = frame p @ r"
  from recv_frame_frame [OF this] show "\<exists>s'. recv_frame s = Inr (p, s') \<and> concat (sk_incoming s') = r \<and> sk_sent s' = sk_sent s"
    by fastforce
qed (simp_all add: send_frame_def)

subsection \<open>The whole protocol\<close>

lemma dec_nat_pad: "dec_nat (pad_left k s) = dec_nat s"
proof -
  have "dec_nat (replicate m (CHR ''0'') @ s) = dec_nat s" for m
  proof -
    have "foldl (\<lambda>a c. a * 10 + (code c - 48)) 0 (replicate m (CHR ''0'')) = 0"
      by (induction m) (simp_all add: code_def)
    then show ?thesis by (simp add: dec_nat_def)
  qed
  then show ?thesis by (simp add: pad_left_def)
qed

lemma output_name_inj: "output_name i = output_name j \<longleftrightarrow> i = j"
proof
  assume "output_name i = output_name j"
  then have "dec_nat (show_nat i) = dec_nat (show_nat j)"
    by (simp add: output_name_def) (metis dec_nat_pad)
  moreover have "dec_nat (show_nat n) = int n" for n
    using show_base10 [of "int n"] by (simp add: show_nat_def show_int_def)
  ultimately show "i = j" by simp
qed simp

lemma show_nat_no_error: "\<not> contains ''ERR'' (show_nat n)"
proof
  assume "contains ''ERR'' (show_nat n)"
  then have "CHR ''E'' \<in> set (show_nat n)" by (auto simp: contains_iff)
  then have "is_dec (CHR ''E'')" using show_nat_dec [of n] by (auto simp: list_all_iff)
  then show False by (simp add: is_dec_def code_def)
qed

lemma strip_show_nat: "strip (show_nat n) = show_nat n"
  using show_nat_dec [of n] by (intro strip_none) (auto simp: list_all_iff is_dec_not)

text \<open>One exchange of the client, from the interface.\<close>

lemma client_reply:
  assumes "concat (sk_incoming s) = frame p @ r"
  obtains s' where "recv_frame (fold send_frame requests s) = Inr (p, s')" "concat (sk_incoming s') = r"
    "sk_sent s' = sk_sent s @ concat (map frame requests)"
  using client.exchange_reply [OF assms, of requests] by (auto simp: client.exchange_def)

lemma fetch_outputs:
  assumes "concat (sk_incoming s) = concat (map frame outs) @ r"
  shows "\<exists>s' fs'. foldE (fetch_output out_dir) [k..<k + length outs] (s, fs, acc)
      = Inr (s', fs', acc @ map (\<lambda>i. out_dir @ [output_name i]) [k..<k + length outs]) \<and>
    concat (sk_incoming s') = r \<and>
    sk_sent s' = sk_sent s @ concat (map frame (concat (map (\<lambda>i. [''GET_OUTPUT'', show_nat i]) [k..<k + length outs]))) \<and>
    (\<forall>i < length outs. read_text fs' (out_dir @ [output_name (k + i)]) = Inr (outs ! i)) \<and>
    (\<forall>q. q \<notin> (\<lambda>i. out_dir @ [output_name i]) ` {k..<k + length outs} \<longrightarrow> read_text fs' q = read_text fs q)"
  using assms
proof (induction outs arbitrary: k s fs acc)
  case Nil
  then show ?case by simp
next
  case (Cons p outs)
  let ?f = "out_dir @ [output_name k]"
  from Cons.prems obtain s1 where s1: "recv_frame (fold send_frame [''GET_OUTPUT'', show_nat k] s) = Inr (p, s1)"
    "concat (sk_incoming s1) = concat (map frame outs) @ r"
    "sk_sent s1 = sk_sent s @ concat (map frame [''GET_OUTPUT'', show_nat k])"
    using client_reply [of s p "concat (map frame outs) @ r" "[''GET_OUTPUT'', show_nat k]"] by auto
  from Cons.IH [OF s1(2), of "Suc k" "write_file ?f p fs" "acc @ [?f]"]
  obtain s' fs' where IH: "foldE (fetch_output out_dir) [Suc k..<Suc k + length outs] (s1, write_file ?f p fs, acc @ [?f])
      = Inr (s', fs', (acc @ [?f]) @ map (\<lambda>i. out_dir @ [output_name i]) [Suc k..<Suc k + length outs])"
    "concat (sk_incoming s') = r"
    "sk_sent s' = sk_sent s1 @ concat (map frame (concat (map (\<lambda>i. [''GET_OUTPUT'', show_nat i]) [Suc k..<Suc k + length outs])))"
    "\<forall>i < length outs. read_text fs' (out_dir @ [output_name (Suc k + i)]) = Inr (outs ! i)"
    "\<forall>q. q \<notin> (\<lambda>i. out_dir @ [output_name i]) ` {Suc k..<Suc k + length outs} \<longrightarrow>
      read_text fs' q = read_text (write_file ?f p fs) q" by (elim exE conjE) (rule that)
  have range: "[k..<k + length (p # outs)] = k # [Suc k..<Suc k + length outs]"
    using upt_conv_Cons [of k "k + length (p # outs)"] by (simp del: upt_Suc)
  have "?f \<notin> (\<lambda>i. out_dir @ [output_name i]) ` {Suc k..<Suc k + length outs}"
    by (auto simp: output_name_inj)
  with IH(5) have "read_text fs' ?f = Inr p" by simp
  then have files: "\<forall>i < length (p # outs). read_text fs' (out_dir @ [output_name (k + i)]) = Inr ((p # outs) ! i)"
    using IH(4) by (auto simp: less_Suc_eq_0_disj)
  have others: "\<forall>q. q \<notin> (\<lambda>i. out_dir @ [output_name i]) ` {k..<k + length (p # outs)} \<longrightarrow> read_text fs' q = read_text fs q"
    using IH(5) by (auto simp: image_iff)
  have step: "fetch_output out_dir k (s, fs, acc) = Inr (s1, write_file ?f p fs, acc @ [?f])"
    using s1(1) by (simp add: fetch_output_def Let_def)
  show ?case using s1(3) IH(1-3) step unfolding range
    by (intro exI [of _ s'] exI [of _ fs'] conjI files others) (simp_all del: upt_Suc)
qed

text \<open>C27: Whatever is sent as a frame is received as that payload and nothing more, however the network
  cuts the bytes into chunks, and what follows the frame stays to be read.\<close>

theorem frame_roundtrip:
  assumes "concat chunks = sk_sent (send_frame payload \<lparr>sk_incoming = [], sk_sent = []\<rparr>) @ rest"
  shows "\<exists>chunks'. recv_frame \<lparr>sk_incoming = chunks, sk_sent = out\<rparr> = Inr (payload, \<lparr>sk_incoming = chunks', sk_sent = out\<rparr>) \<and>
    concat chunks' = rest"
  using recv_frame_frame [of "\<lparr>sk_incoming = chunks, sk_sent = out\<rparr>" payload rest] assms
  by (auto simp: send_frame_def)

lemma frame_roundtrip_witness:
  "\<exists>chunks'. recv_frame \<lparr>sk_incoming = [''1'', ''1'' @ [NL] @ ''hel'', ''lo worl'', ''d!x''], sk_sent = []\<rparr>
     = Inr (''hello world'', \<lparr>sk_incoming = chunks', sk_sent = []\<rparr>) \<and> concat chunks' = ''!x''"
proof -
  have "concat [''1'', ''1'' @ [NL] @ ''hel'', ''lo worl'', ''d!x'']
      = sk_sent (send_frame ''hello world'' \<lparr>sk_incoming = [], sk_sent = []\<rparr>) @ ''!x''" by code_simp
  from frame_roundtrip [OF this] show ?thesis .
qed

text \<open>C29: Against a server that answers the welcome without an error, the run as passed, the number of its
  outputs and each output, the client finishes whatever the chunks: it has sent exactly the protocol,
  consumed all replies, and stored every output under its index.\<close>

theorem protocol_run:
  assumes "concat (sk_incoming s) = frame welcome @ frame result @ frame (show_nat (length outs)) @
      concat (map frame outs) @ frame ack"
    and "\<not> contains ''ERR'' welcome" and "\<not> contains ''ERR'' result" and "contains ''PASSED'' result"
    and "\<not> contains ''ERR'' ack" and "read_text fs flatbuf = Inr data"
  shows "\<exists>s' fs'. run_protocol flatbuf out_dir True s fs
        = Inr (map (\<lambda>i. out_dir @ [output_name i]) [0..<length outs], s', fs') \<and>
      concat (sk_incoming s') = [] \<and>
      (\<forall>i < length outs. read_text fs' (out_dir @ [output_name i]) = Inr (outs ! i)) \<and>
      sk_sent s' = sk_sent s @ concat (map frame ([''GET_WELCOME'', ''READ_FLATBUF'', data, ''RUN_FLATBUF'', ''GET_NUMOUTPUTS''] @
        concat (map (\<lambda>i. [''GET_OUTPUT'', show_nat i]) [0..<length outs]) @ [''SHUTDOWN'']))"
proof -
  from client_reply [OF assms(1), of "[''GET_WELCOME'']"] obtain s1 where
    s1: "recv_frame (send_frame ''GET_WELCOME'' s) = Inr (welcome, s1)"
      "concat (sk_incoming s1) = frame result @ frame (show_nat (length outs)) @ concat (map frame outs) @ frame ack"
      "sk_sent s1 = sk_sent s @ frame ''GET_WELCOME''" by auto
  from client_reply [OF s1(2), of "[''READ_FLATBUF'', data, ''RUN_FLATBUF'']"] obtain s3 where
    s3: "recv_frame (send_frame ''RUN_FLATBUF'' (send_frame data (send_frame ''READ_FLATBUF'' s1))) = Inr (result, s3)"
      "concat (sk_incoming s3) = frame (show_nat (length outs)) @ concat (map frame outs) @ frame ack"
      "sk_sent s3 = sk_sent s1 @ concat (map frame [''READ_FLATBUF'', data, ''RUN_FLATBUF''])" by auto
  from client_reply [OF s3(2), of "[''GET_NUMOUTPUTS'']"] obtain s4 where
    s4: "recv_frame (send_frame ''GET_NUMOUTPUTS'' s3) = Inr (show_nat (length outs), s4)"
      "concat (sk_incoming s4) = concat (map frame outs) @ frame ack"
      "sk_sent s4 = sk_sent s3 @ frame ''GET_NUMOUTPUTS''" by auto
  from fetch_outputs [OF s4(2), of out_dir 0 fs "[]"] obtain s5 fs' where
    s5: "foldE (fetch_output out_dir) [0..<length outs] (s4, fs, [])
        = Inr (s5, fs', map (\<lambda>i. out_dir @ [output_name i]) [0..<length outs])"
      "concat (sk_incoming s5) = frame ack @ []"
      "sk_sent s5 = sk_sent s4 @ concat (map frame (concat (map (\<lambda>i. [''GET_OUTPUT'', show_nat i]) [0..<length outs])))"
      "\<forall>i < length outs. read_text fs' (out_dir @ [output_name i]) = Inr (outs ! i)" by auto
  from client_reply [OF s5(2), of "[''SHUTDOWN'']"] obtain s6 where
    s6: "recv_frame (send_frame ''SHUTDOWN'' s5) = Inr (ack, s6)" "concat (sk_incoming s6) = []"
      "sk_sent s6 = sk_sent s5 @ frame ''SHUTDOWN''" by auto
  have "run_protocol flatbuf out_dir True s fs = Inr (map (\<lambda>i. out_dir @ [output_name i]) [0..<length outs], s6, fs')"
    using s1(1) s3(1) s4(1) s5(1) s6(1) assms(2-6)
    by (simp add: run_protocol_def check_response_def show_nat_no_error strip_show_nat ascii_show_nat finish_def Let_def)
  with s6 s5 s4(3) s3(3) s1(3) show ?thesis by auto
qed

lemma protocol_run_witness:
  "\<exists>s' fs'. run_protocol [''a.fbuf''] [''out''] True
      \<lparr>sk_incoming = [frame ''OK'' @ ''6'', NL # ''PASSED'' @ frame ''1'' @ frame ''data'', frame ''bye''], sk_sent = []\<rparr>
      [([''a.fbuf''], ''FB'')] = Inr ([[''out'', ''o_000000.dimg'']], s', fs') \<and>
    read_text fs' [''out'', ''o_000000.dimg''] = Inr ''data''"
proof -
  let ?s = "\<lparr>sk_incoming = [frame ''OK'' @ ''6'', NL # ''PASSED'' @ frame ''1'' @ frame ''data'', frame ''bye''], sk_sent = []\<rparr>"
  have n: "output_name 0 = ''o_000000.dimg''" "\<not> contains ''ERR'' ''OK''" "\<not> contains ''ERR'' ''PASSED''"
    "contains ''PASSED'' ''PASSED''" "\<not> contains ''ERR'' ''bye''"
    "read_text [([''a.fbuf''], ''FB'')] [''a.fbuf''] = Inr ''FB''" by code_simp+
  have c: "concat (sk_incoming ?s) = frame ''OK'' @ frame ''PASSED'' @ frame (show_nat (length [''data''])) @
      concat (map frame [''data'']) @ frame ''bye''" by code_simp
  from protocol_run [OF c n(2-6), of "[''out'']"] n(1) show ?thesis by auto
qed

lemma connect_loop_iff:
  "a + m = Suc retries \<Longrightarrow> connect_loop attempts retries a m p = Inr (n, k) \<longleftrightarrow>
     a \<le> n \<and> n \<le> retries \<and> attempts n \<and> list_all (\<lambda>i. \<not> attempts i) [a..<n] \<and> k = p + (n - a)"
proof (induction m arbitrary: a p)
  case 0
  then show ?case by auto
next
  case (Suc m)
  show ?case
  proof (cases "attempts a")
    case True
    have "n = a" if "a \<le> n" "list_all (\<lambda>i. \<not> attempts i) [a..<n]"
      using that True by (auto simp: list_all_iff le_less)
    with True Suc.prems show ?thesis by auto
  next
    case False
    have "list_all (\<lambda>i. \<not> attempts i) [a..<n] \<longleftrightarrow> list_all (\<lambda>i. \<not> attempts i) [Suc a..<n]" if "a < n"
      using that False by (simp add: upt_conv_Cons)
    moreover have "a \<le> n \<and> attempts n \<longleftrightarrow> a < n \<and> attempts n" using False by (auto simp: le_less)
    ultimately show ?thesis using False Suc.prems Suc.IH [of "Suc a" "if a < retries then Suc p else p"]
      by auto
  qed
qed

text \<open>C40: Connecting succeeds exactly when one of the allowed attempts does: with the first such attempt,
  after one pause per failed attempt.\<close>

theorem connect_first_success:
  "connect_with_retry attempts retries = Inr (n, pauses) \<longleftrightarrow>
     1 \<le> n \<and> n \<le> retries \<and> attempts n \<and> list_all (\<lambda>i. \<not> attempts i) [1..<n] \<and> pauses = n - 1"
  by (simp add: connect_with_retry_def connect_loop_iff)

end
