(* ===== verification/InputVariation.thy ===== *)
theory InputVariation
  imports PerfSummary Csv
begin

text \<open>
  The import of benchmarks that run twenty different inputs
  (tools/nvdla_test_framework/input_variation.py): the evidence of each session, the balance of its
  measurements over the inputs, the comparison of the sessions, and the summary document with the table of rows.
  The Markdown report is in the theory InputReport. Facts: an accepted import is balanced over all inputs, comes from different
  boots, and the verdict on an input never changes between repeats.
\<close>

definition input_count :: nat where
  "input_count = 20"

definition value_summary :: "(rat \<Rightarrow> rat) \<Rightarrow> rat list \<Rightarrow> json res" where
  "value_summary rt vs =
     bindE (fmean vs) (\<lambda>m. bindE (median vs) (\<lambda>md.
     Inr (JDict [(''count'', JInt (int (length vs))), (''mean_ns'', JFloat m), (''median_ns'', JFloat md),
       (''stdev_ns'', JFloat (if 1 < length vs then rt (variance vs) else 0)), (''minimum_ns'', JFloat (Min (set vs))), (''maximum_ns'', JFloat (Max (set vs)))])))"

record iv_row =
  iv_session :: nat
  iv_boot :: string
  iv_model :: string
  iv_sample :: int
  iv_input :: int
  iv_expected :: int
  iv_predicted :: int
  iv_acceptance :: "string option"
  iv_match :: int
  iv_runtime :: int
  iv_source_read :: int
  iv_prepare :: int
  iv_queue_wait :: int
  iv_update :: int
  iv_extract :: int

record pipeline_session =
  pp_session :: nat
  pp_duration :: int
  pp_frames :: nat
  pp_rate :: rat

record iv_state =
  is_rows :: "iv_row list"
  is_provenance :: "(string \<times> json) list list"
  is_pipelines :: "pipeline_session list"
  is_boots :: "string list"

subsection \<open>A session\<close>

definition expected_classification :: "string option \<Rightarrow> string option" where
  "expected_classification input_set =
     (if input_set = Some ''multi20'' then Some ''output-stable-input-variation-pass''
      else if input_set = Some ''stream20'' then Some ''stream-pipeline-pass'' else None)"

definition read_ascii :: "fs \<Rightarrow> path \<Rightarrow> string res" where
  "read_ascii fs p = bindE (read_text fs p) (\<lambda>t.
     bindE (guardE (list_all (\<lambda>c. code c < 128) t) (ValueError ''ordinal not in range(128)'')) (\<lambda>_. Inr t))"

definition file_int :: "fs \<Rightarrow> path \<Rightarrow> int res" where
  "file_int fs p = bindE (read_text fs p) (\<lambda>t. noneE (ValueError ''invalid literal for int()'') (py_int (strip t)))"

text \<open>\<open>value in {None, '''', 0}\<close>, which needs a hashable value.\<close>

definition blank_value :: "json \<Rightarrow> bool res" where
  "blank_value v = (case v of JList _ \<Rightarrow> Inl TypeError | JDict _ \<Rightarrow> Inl TypeError
     | _ \<Rightarrow> Inr (jeq v JNull \<or> jeq v (JStr []) \<or> jeq v (JInt 0)))"

fun any_blank :: "json list \<Rightarrow> bool res" where
  "any_blank [] = Inr False"
| "any_blank (v # vs) = bindE (blank_value v) (\<lambda>b. if b then Inr True else any_blank vs)"

definition iv_provenance :: "env \<Rightarrow> fs \<Rightarrow> path \<Rightarrow> (string, string) dict \<Rightarrow> (string \<times> json) list res" where
  "iv_provenance e fs base env =
     (let software = hash_records fs (base @ [''software-hashes.txt'']); modules = hash_records fs (base @ [''module-hash.txt'']) in
      bindE (read_text fs (base @ [''uname.txt''])) (\<lambda>uname_text. let uname = split_ws uname_text in
      bindE (read_json fs (base @ [''workload-manifest.json''])) (\<lambda>workload.
      bindE (bindE (jget_or workload (JDict []) ''loadable'') (\<lambda>l. jget l ''sha256'')) (\<lambda>loadable_sha.
      bindE (sha_file e fs (base @ [''input-set-manifest.json''])) (\<lambda>set_sha.
      bindE (env_int env ''nvdla_clock_actual_hz'' ''0'') (\<lambda>clock.
      let current = [(''model'', opt_text (dict_get env ''model'')), (''input_set'', opt_text (dict_get env ''input_set'')), (''loadable_sha256'', loadable_sha),
           (''module_sha256'', case modules of [] \<Rightarrow> JNull | (k, v) # _ \<Rightarrow> JStr v), (''runtime_sha256'', opt_text (dict_get software ''nvdla_runtime'')),
           (''runtime_library_sha256'', opt_text (dict_get software ''libnvdla_runtime.so'')),
           (''kernel_release'', if 3 \<le> length uname then JStr (uname ! 2) else JNull), (''payload_sha256'', opt_text (dict_get software ''SHA256SUMS'')),
           (''input_set_manifest_sha256'', JStr set_sha), (''nvdla_clock_hz'', JInt clock), (''benchmark_cpu'', opt_text (dict_get env ''benchmark_cpu''))] in
      bindE (any_blank (map snd current)) (\<lambda>blank.
      bindE (guardE (\<not> blank) (ValueError ''incomplete provenance'')) (\<lambda>_. Inr current))))))))"

text \<open>The result table by input.\<close>

definition input_results :: "fs \<Rightarrow> path \<Rightarrow> (int, csv_dict) dict res" where
  "input_results fs run =
     bindE (read_ascii fs (run @ [''input-results.csv''])) (\<lambda>t. bindE (csv_dicts (open_lines t)) (\<lambda>(names, items).
     bindE (mapE (\<lambda>item. bindE (cell_number item ''input_index'') (\<lambda>i. Inr (i, item))) items) (\<lambda>kvs.
     let results = fold (\<lambda>(k, v). dict_set k v) kvs [] in
     bindE (guardE (set (dict_keys results) = set (map int [0..<input_count])) (ValueError ''incomplete input result table'')) (\<lambda>_. Inr results))))"

definition measured_samples :: "json \<Rightarrow> json list res" where
  "measured_samples profile =
     bindE (bindE (jat profile ''samples'') jlist) (\<lambda>samples.
     bindE (mapE (\<lambda>s. bindE (jat s ''warmup'') (\<lambda>w. Inr (if truthy w then [] else [s]))) samples) (\<lambda>sss. Inr (concat sss)))"

definition pipeline_of :: "nat \<Rightarrow> json \<Rightarrow> json list \<Rightarrow> pipeline_session res" where
  "pipeline_of index profile measured =
     bindE (bindE (jat profile ''phases_ns'') (\<lambda>phases. int_default phases ''stream_pipeline'' 0)) (\<lambda>pipeline_ns.
     bindE (guardE (0 < pipeline_ns) (ValueError ''missing streamed pipeline duration'')) (\<lambda>_.
     Inr \<lparr>pp_session = index, pp_duration = pipeline_ns, pp_frames = length measured,
          pp_rate = of_nat (length measured) * 1000000000 / of_int pipeline_ns\<rparr>))"

definition iv_row_of :: "nat \<Rightarrow> string \<Rightarrow> string \<Rightarrow> (int, csv_dict) dict \<Rightarrow> json \<Rightarrow> iv_row res" where
  "iv_row_of index boot_id model results sample =
     bindE (int_at sample ''input_index'') (\<lambda>i.
     bindE (guardE (0 \<le> i \<and> i < int input_count) (KeyError ''input_index'')) (\<lambda>_.
     bindE (noneE (KeyError ''input_index'') (dict_get results i)) (\<lambda>result.
     bindE (int_at sample ''index'') (\<lambda>sample_index. bindE (cell_number result ''expected_index'') (\<lambda>expected.
     bindE (cell_number result ''predicted_index'') (\<lambda>predicted. bindE (row_cell result ''acceptance'') (\<lambda>acceptance.
     bindE (cell_number result ''classification_match'') (\<lambda>matched. bindE (int_at sample ''runtime_execution_ns'') (\<lambda>runtime.
     bindE (int_default sample ''source_read_ns'' 0) (\<lambda>source_read. bindE (int_default sample ''input_prepare_ns'' 0) (\<lambda>prepare.
     bindE (int_default sample ''queue_wait_ns'' 0) (\<lambda>queue_wait. bindE (int_default sample ''input_update_ns'' 0) (\<lambda>update.
     bindE (int_at sample ''output_extract_ns'') (\<lambda>extract.
     Inr \<lparr>iv_session = index, iv_boot = boot_id, iv_model = model, iv_sample = sample_index, iv_input = i, iv_expected = expected,
          iv_predicted = predicted, iv_acceptance = acceptance, iv_match = matched, iv_runtime = runtime, iv_source_read = source_read,
          iv_prepare = prepare, iv_queue_wait = queue_wait, iv_update = update, iv_extract = extract\<rparr>))))))))))))))"

definition input_uses :: "iv_row list \<Rightarrow> nat list" where
  "input_uses rows = map (\<lambda>i. filter_count (\<lambda>r. iv_input r = int i) rows) [0..<input_count]"

definition balanced :: "nat list \<Rightarrow> bool" where
  "balanced counts = (case counts of [] \<Rightarrow> False | n # ns \<Rightarrow> list_all (\<lambda>m. m = n) ns \<and> n \<noteq> 0)"

definition iv_session_of :: "env \<Rightarrow> fs \<Rightarrow> path \<Rightarrow> nat \<Rightarrow> iv_state \<Rightarrow> iv_state res" where
  "iv_session_of e fs base index st =
     bindE (parse_env_file fs (base @ [''benchmark.env''])) (\<lambda>env.
     bindE (guardE (case expected_classification (dict_get env ''input_set'') of None \<Rightarrow> False
         | Some c \<Rightarrow> dict_get env ''status'' = Some ''0'' \<and> dict_get env ''classification'' = Some c) (ValueError ''not a passing 20-input benchmark'')) (\<lambda>_.
     bindE (read_text fs (base @ [''bad-kernel-patterns.txt''])) (\<lambda>bad.
     bindE (guardE (strip bad = []) (ValueError ''kernel errors were recorded'')) (\<lambda>_.
     bindE (file_int fs (base @ [''irq-delta.txt''])) (\<lambda>irq.
     bindE (guardE (0 < irq) (ValueError ''NVDLA IRQ count did not increase'')) (\<lambda>_.
     let boot_id = text_of env ''boot_id'' in
     bindE (guardE (boot_id \<noteq> [] \<and> boot_id \<notin> set (is_boots st)) (ValueError ''missing or reused Linux boot ID'')) (\<lambda>_.
     bindE (iv_provenance e fs base env) (\<lambda>current.
     let run = base @ [''steady-1''] in
     bindE (read_text fs (run @ [''verification.txt''])) (\<lambda>verification.
     bindE (guardE (strip verification = ''stable-output-pass'') (ValueError ''output qualification did not pass'')) (\<lambda>_.
     bindE (input_results fs run) (\<lambda>results.
     bindE (read_profile fs (run @ [''profile.json''])) (\<lambda>profile. bindE (int_default profile ''input_count'' 0) (\<lambda>n.
     bindE (guardE (n = int input_count) (ValueError ''profile does not contain 20 inputs'')) (\<lambda>_.
     bindE (measured_samples profile) (\<lambda>measured.
     bindE (if dict_get env ''input_set'' = Some ''stream20'' then bindE (pipeline_of index profile measured) (\<lambda>p. Inr [p]) else Inr []) (\<lambda>pipelines.
     bindE (mapE (iv_row_of index boot_id (text_of env ''model'') results) measured) (\<lambda>rows.
     bindE (guardE (balanced (input_uses rows)) (ValueError ''measured samples are not balanced across inputs'')) (\<lambda>_.
     Inr \<lparr>is_rows = is_rows st @ rows, is_provenance = is_provenance st @ [current], is_pipelines = is_pipelines st @ pipelines,
          is_boots = boot_id # is_boots st\<rparr>))))))))))))))))))"

subsection \<open>All sessions\<close>

text \<open>An archive here is its members; it is unpacked below its number, counted from one.\<close>

definition iv_sessions :: "env \<Rightarrow> member list list \<Rightarrow> iv_state res" where
  "iv_sessions e archives =
     bindE (guardE (archives \<noteq> []) (ValueError ''at least one input-variation archive is required'')) (\<lambda>_.
     foldE (\<lambda>(index, members) st. bindE (load_session_root members [show_nat index] []) (\<lambda>(base, fs). iv_session_of e fs base index st))
       (zip [1..<Suc (length archives)] archives) \<lparr>is_rows = [], is_provenance = [], is_pipelines = [], is_boots = []\<rparr>)"

record per_input =
  pi_index :: nat
  pi_expected :: int
  pi_acceptance :: "string option"
  pi_match :: int
  pi_runtimes :: "rat list"
  pi_updates :: "rat list"

definition per_input_of :: "iv_row list \<Rightarrow> nat \<Rightarrow> per_input res" where
  "per_input_of rows index =
     (let group = List.filter (\<lambda>r. iv_input r = int index) rows in
      bindE (guardE (length (remdups (map iv_match group)) = 1) (ValueError ''classification result changed between repeats'')) (\<lambda>_.
      Inr \<lparr>pi_index = index, pi_expected = iv_expected (hd group), pi_acceptance = iv_acceptance (hd group), pi_match = iv_match (hd group),
           pi_runtimes = map (\<lambda>r. of_int (iv_runtime r)) group, pi_updates = map (\<lambda>r. of_int (iv_update r)) group\<rparr>))"

definition per_input_json :: "(rat \<Rightarrow> rat) \<Rightarrow> per_input \<Rightarrow> json res" where
  "per_input_json rt p =
     bindE (value_summary rt (pi_runtimes p)) (\<lambda>a. bindE (value_summary rt (pi_updates p)) (\<lambda>b.
     Inr (JDict [(''input_index'', JInt (int (pi_index p))), (''expected_index'', JInt (pi_expected p)), (''acceptance'', opt_text (pi_acceptance p)),
       (''classification_match'', JInt (pi_match p)), (''runtime_execution'', a), (''input_update'', b)])))"

record iv_import =
  ii_state :: iv_state
  ii_baseline :: "(string \<times> json) list"
  ii_inputs :: "per_input list"

definition same_document :: "(string \<times> json) list \<Rightarrow> (string \<times> json) list \<Rightarrow> bool" where
  "same_document p q = jeq (JDict p) (JDict q)"

definition iv_import_of :: "env \<Rightarrow> member list list \<Rightarrow> iv_import res" where
  "iv_import_of e archives =
     bindE (iv_sessions e archives) (\<lambda>st.
     bindE (case is_provenance st of [] \<Rightarrow> Inl IndexError | baseline # others \<Rightarrow>
       bindE (guardE (list_all (\<lambda>p. same_document p baseline) others) (ValueError ''refusing to combine input-variation sessions with different provenance'')) (\<lambda>_.
       Inr baseline)) (\<lambda>baseline.
     bindE (mapE (per_input_of (is_rows st)) [0..<input_count]) (\<lambda>inputs.
     Inr \<lparr>ii_state = st, ii_baseline = baseline, ii_inputs = inputs\<rparr>)))"

definition row_values :: "(iv_row \<Rightarrow> int) \<Rightarrow> iv_row list \<Rightarrow> rat list" where
  "row_values f rows = map (\<lambda>r. of_int (f r)) rows"

definition pipeline_json :: "(rat \<Rightarrow> rat) \<Rightarrow> pipeline_session list \<Rightarrow> json res" where
  "pipeline_json rt ps =
     (if ps = [] then Inr (JDict [(''status'', JStr ''not-applicable'')])
      else bindE (value_summary rt (map pp_rate ps)) (\<lambda>s.
        Inr (JDict [(''sessions'', JList (map (\<lambda>p. JDict [(''session'', JInt (int (pp_session p))), (''duration_ns'', JInt (pp_duration p)),
           (''frames'', JInt (int (pp_frames p))), (''frames_per_second'', JFloat (pp_rate p))]) ps)), (''throughput_frames_per_second'', s)])))"

definition classification_json :: "iv_import \<Rightarrow> json res" where
  "classification_json im =
     (let rows = is_rows (ii_state im); distinct_matches = sum_list (map pi_match (ii_inputs im)); repeated_matches = sum_list (map iv_match rows) in
      bindE (percent (of_int distinct_matches) (of_nat (length (ii_inputs im)))) (\<lambda>p. bindE (percent (of_int repeated_matches) (of_nat (length rows))) (\<lambda>q.
      Inr (JDict [(''distinct_input_matches'', JInt distinct_matches), (''distinct_input_total'', JInt (int (length (ii_inputs im)))),
        (''distinct_input_accuracy_percent'', JFloat p), (''repeated_observation_matches'', JInt repeated_matches),
        (''repeated_observation_total'', JInt (int (length rows))), (''repeated_observation_accuracy_percent'', JFloat q),
        (''meaning'', JStr ''top-1 for LeNet and top-5 for ResNet-50''),
        (''note'', JStr ''Accuracy sample size is the number of distinct inputs; repeated observations test output stability.'')]))))"

definition iv_summary :: "(rat \<Rightarrow> rat) \<Rightarrow> nat \<Rightarrow> iv_import \<Rightarrow> json res" where
  "iv_summary rt sessions im =
     (let rows = is_rows (ii_state im) in
      bindE (mapE (per_input_json rt) (ii_inputs im)) (\<lambda>inputs. bindE (mapE (median \<circ> pi_runtimes) (ii_inputs im)) (\<lambda>medians.
      bindE (value_summary rt (row_values iv_runtime rows)) (\<lambda>overall. bindE (median (row_values iv_runtime rows)) (\<lambda>overall_median.
      let median_range = Max (set medians) - Min (set medians) in
      bindE (value_summary rt (row_values iv_update rows)) (\<lambda>update. bindE (value_summary rt (row_values iv_source_read rows)) (\<lambda>source_read.
      bindE (value_summary rt (row_values iv_prepare rows)) (\<lambda>prepare. bindE (value_summary rt (row_values iv_queue_wait rows)) (\<lambda>queue_wait.
      bindE (pipeline_json rt (is_pipelines (ii_state im))) (\<lambda>pipeline. bindE (classification_json im) (\<lambda>classification.
      bindE (percent median_range overall_median) (\<lambda>range_percent.
      Inr (JDict [(''schema_version'', JInt 2), (''status'', JStr ''pass''), (''sessions'', JInt (int sessions)), (''provenance'', JDict (ii_baseline im)),
        (''runtime_execution'', overall), (''input_update'', update), (''source_read'', source_read), (''input_prepare'', prepare), (''queue_wait'', queue_wait),
        (''stream_pipeline'', pipeline), (''classification'', classification), (''per_input'', JList inputs),
        (''between_input_median_range_ns'', JFloat median_range), (''between_input_median_range_percent'', JFloat range_percent)])))))))))))))"

definition iv_table_row :: "iv_row \<Rightarrow> table_row" where
  "iv_table_row r = [(''session'', JInt (int (iv_session r))), (''boot_id'', JStr (iv_boot r)), (''model'', JStr (iv_model r)), (''sample_index'', JInt (iv_sample r)),
     (''input_index'', JInt (iv_input r)), (''expected_index'', JInt (iv_expected r)), (''predicted_index'', JInt (iv_predicted r)),
     (''acceptance'', opt_text (iv_acceptance r)), (''classification_match'', JInt (iv_match r)), (''runtime_execution_ns'', JInt (iv_runtime r)),
     (''source_read_ns'', JInt (iv_source_read r)), (''input_prepare_ns'', JInt (iv_prepare r)), (''queue_wait_ns'', JInt (iv_queue_wait r)),
     (''input_update_ns'', JInt (iv_update r)), (''output_extract_ns'', JInt (iv_extract r))]"

definition iv_import_files :: "env \<Rightarrow> (rat \<Rightarrow> rat) \<Rightarrow> member list list \<Rightarrow> path \<Rightarrow> fs \<Rightarrow> ((iv_import \<times> json) \<times> fs) res" where
  "iv_import_files e rt archives out_dir fs =
     bindE (iv_import_of e archives) (\<lambda>im. bindE (iv_summary rt (length archives) im) (\<lambda>summary.
     bindE (write_csv e (out_dir @ [''input-variation-raw.csv'']) (map iv_table_row (is_rows (ii_state im))) fs) (\<lambda>fs1.
     Inr ((im, summary), write_json e (out_dir @ [''input-variation-summary.json'']) summary fs1))))"

subsection \<open>Facts\<close>

definition session_rows :: "nat \<Rightarrow> iv_row list \<Rightarrow> iv_row list" where
  "session_rows k rows = List.filter (\<lambda>r. iv_session r = k) rows"

definition iv_inv :: "nat \<Rightarrow> iv_state \<Rightarrow> bool" where
  "iv_inv n st \<longleftrightarrow> distinct (is_boots st) \<and> length (is_boots st) = n \<and> list_all (\<lambda>r. 1 \<le> iv_session r \<and> iv_session r \<le> n) (is_rows st) \<and>
     list_all (\<lambda>k. balanced (input_uses (session_rows k (is_rows st)))) [1..<Suc n]"

lemma row_session: "iv_row_of index boot model results s = Inr r \<Longrightarrow> iv_session r = index"
  unfolding iv_row_of_def bindE_Inr_iff guardE_Inr_iff sum.inject by (elim exE conjE) (hypsubst, simp)

lemma session_step:
  assumes "iv_session_of e fs base (Suc n) st = Inr st'" and "iv_inv n st"
  shows "iv_inv (Suc n) st'"
proof -
  from assms(1) obtain boot model results measured rows where boot: "boot \<noteq> [] \<and> boot \<notin> set (is_boots st)"
    and rows: "mapE (iv_row_of (Suc n) boot model results) measured = Inr rows" and bal: "balanced (input_uses rows)"
    and st': "is_rows st' = is_rows st @ rows" "is_boots st' = boot # is_boots st"
    unfolding iv_session_of_def Let_def bindE_Inr_iff guardE_Inr_iff sum.inject
    by (elim exE conjE) (rule that; (assumption | (hypsubst, simp)))
  have new: "\<forall>r \<in> set rows. iv_session r = Suc n" using mapE_member [OF rows] row_session by blast
  have old: "\<forall>r \<in> set (is_rows st). iv_session r \<le> n" using assms(2) by (simp add: iv_inv_def list_all_iff)
  have low: "session_rows k (is_rows st') = session_rows k (is_rows st)" if "k \<le> n" for k
    using new that by (auto simp: session_rows_def st' filter_empty_conv)
  have "session_rows (Suc n) (is_rows st) = []" "session_rows (Suc n) rows = rows"
    using old new by (auto simp: session_rows_def filter_empty_conv filter_id_conv)
  then have top: "session_rows (Suc n) (is_rows st') = rows" by (simp add: session_rows_def st')
  have "list_all (\<lambda>k. balanced (input_uses (session_rows k (is_rows st')))) ([1..<Suc n] @ [Suc n])"
    using assms(2) bal by (simp add: iv_inv_def list_all_iff low top del: upt_Suc)
  then show ?thesis using assms(2) boot new old by (auto simp: iv_inv_def st' list_all_iff)
qed

lemma sessions_inv:
  "foldE (\<lambda>(index, members) st. bindE (load_session_root members [show_nat index] []) (\<lambda>(base, fs). iv_session_of e fs base index st))
     (zip [Suc n..<Suc (n + length archives)] archives) st = Inr st' \<Longrightarrow> iv_inv n st \<Longrightarrow> iv_inv (n + length archives) st'"
proof (induction archives arbitrary: n st)
  case (Cons a archives)
  have z: "zip [Suc n..<Suc (n + length (a # archives))] (a # archives) = (Suc n, a) # zip [Suc (Suc n)..<Suc (Suc n + length archives)] archives"
    by (simp add: upt_conv_Cons del: upt_Suc)
  from Cons.prems(1) [unfolded z] obtain base fs st1 where s: "iv_session_of e fs base (Suc n) st = Inr st1"
    and rest: "foldE (\<lambda>(index, members) st. bindE (load_session_root members [show_nat index] []) (\<lambda>(base, fs). iv_session_of e fs base index st))
     (zip [Suc (Suc n)..<Suc (Suc n + length archives)] archives) st1 = Inr st'"
    by (auto simp: bindE_Inr_iff simp del: upt_Suc)
  from Cons.IH [OF rest session_step [OF s Cons.prems(2)]] show ?case by simp
qed simp

text \<open>An accepted input variation comes from as many different boots as archives; in every session each
  of the twenty inputs was measured equally often, and at least once; and on every input the recorded verdict is
  the same in all measurements.\<close>

theorem input_variation_balanced:
  "case iv_import_of e archives of
     Inl err \<Rightarrow> True
   | Inr im \<Rightarrow> (let rows = is_rows (ii_state im) in
       distinct (is_boots (ii_state im)) \<and> length (is_boots (ii_state im)) = length archives \<and>
       list_all (\<lambda>r. 1 \<le> iv_session r \<and> iv_session r \<le> length archives) rows \<and>
       list_all (\<lambda>k. balanced (input_uses (session_rows k rows))) [1..<Suc (length archives)] \<and>
       map pi_index (ii_inputs im) = [0..<20] \<and>
       list_all (\<lambda>p. list_all (\<lambda>r. iv_match r = pi_match p) (List.filter (\<lambda>r. iv_input r = int (pi_index p)) rows)) (ii_inputs im))"
proof (cases "iv_import_of e archives")
  case (Inr im)
  from Inr obtain st inputs where st: "iv_sessions e archives = Inr st" and inputs: "mapE (per_input_of (is_rows st)) [0..<input_count] = Inr inputs"
    and im: "ii_state im = st" "ii_inputs im = inputs"
    unfolding iv_import_of_def bindE_Inr_iff sum.inject by (elim exE conjE) (rule that; (assumption | (hypsubst, simp)))
  have "iv_inv 0 \<lparr>is_rows = [], is_provenance = [], is_pipelines = [], is_boots = []\<rparr>" by (simp add: iv_inv_def)
  from sessions_inv [OF _ this] st have inv: "iv_inv (length archives) st"
    by (auto simp: iv_sessions_def bindE_Inr_iff simp del: upt_Suc)
  have per: "pi_index p = i \<and> list_all (\<lambda>r. iv_match r = pi_match p) (List.filter (\<lambda>r. iv_input r = int i) (is_rows st))"
    if "per_input_of (is_rows st) i = Inr p" for i p
  proof -
    let ?g = "List.filter (\<lambda>r. iv_input r = int i) (is_rows st)"
    from that have one: "length (remdups (map iv_match ?g)) = 1" and p: "pi_index p = i" "pi_match p = iv_match (hd ?g)"
      unfolding per_input_of_def Let_def bindE_Inr_iff guardE_Inr_iff sum.inject by auto
    from one obtain m where "remdups (map iv_match ?g) = [m]" by (auto simp: length_Suc_conv)
    then have "set (map iv_match ?g) = {m}" by (metis set_remdups list.set(1) list.set(2))
    then have m: "\<forall>r \<in> set ?g. iv_match r = m" by auto
    have "list_all (\<lambda>r. iv_match r = iv_match (hd ?g)) ?g"
    proof (cases "?g = []")
      case False
      then have "iv_match (hd ?g) = m" using m hd_in_set by blast
      with m show ?thesis unfolding list_all_iff by metis
    qed (simp only: list.pred_inject)
    with p show ?thesis by simp
  qed
  have "list_all2 (\<lambda>i p. per_input_of (is_rows st) i = Inr p) [0..<input_count] inputs" using inputs by (simp add: mapE_Inr_iff)
  then have "list_all2 (\<lambda>i p. pi_index p = i \<and> list_all (\<lambda>r. iv_match r = pi_match p) (List.filter (\<lambda>r. iv_input r = int (pi_index p)) (is_rows st))) [0..<input_count] inputs"
    by (rule list_all2_mono) (use per in blast)
  then have "map pi_index inputs = [0..<input_count]" "list_all (\<lambda>p. list_all (\<lambda>r. iv_match r = pi_match p) (List.filter (\<lambda>r. iv_input r = int (pi_index p)) (is_rows st))) inputs"
    by (induction rule: list_all2_induct) simp_all
  with inv show ?thesis by (simp add: Inr im iv_inv_def Let_def input_count_def del: upt_Suc)
qed simp

end
