(* ===== verification/InputReport.thy ===== *)
theory InputReport
  imports InputVariation PerfReport
begin

text \<open>
  The Markdown report of an input variation (the end of \<open>import_input_variation_archives\<close> in
  tools/nvdla_test_framework/input_variation.py), written from its summary document, and the whole operation.
\<close>

text \<open>\<open>d[k][median_ns]\<close>, and \<open>d[classification][k]\<close>.\<close>

definition median_at :: "json \<Rightarrow> string \<Rightarrow> rat res" where
  "median_at summary k = bindE (jat summary k) (\<lambda>d. number_at d ''median_ns'')"

definition class_at :: "json \<Rightarrow> string \<Rightarrow> json res" where
  "class_at summary k = bindE (jat summary ''classification'') (\<lambda>d. jat d k)"

definition iv_report_lines :: "(rat \<Rightarrow> string) \<Rightarrow> nat \<Rightarrow> nat \<Rightarrow> (string \<times> json) list \<Rightarrow> json \<Rightarrow> string list res" where
  "iv_report_lines fr session_count row_count baseline summary =
     bindE (jat (JDict baseline) ''model'') (\<lambda>model. bindE (jat (JDict baseline) ''input_set'') (\<lambda>input_set.
     bindE (median_at summary ''runtime_execution'') (\<lambda>overall_median. bindE (number_at summary ''between_input_median_range_ns'') (\<lambda>median_range.
     bindE (number_at summary ''between_input_median_range_percent'') (\<lambda>range_percent. bindE (median_at summary ''input_update'') (\<lambda>update_median.
     bindE (bindE (class_at summary ''distinct_input_accuracy_percent'') jnum) (\<lambda>accuracy.
     bindE (class_at summary ''distinct_input_matches'') (\<lambda>distinct_input_matches. bindE (class_at summary ''distinct_input_total'') (\<lambda>distinct_input_total.
     bindE (class_at summary ''repeated_observation_matches'') (\<lambda>repeated_observation_matches. bindE (class_at summary ''repeated_observation_total'') (\<lambda>repeated_observation_total.
     Inr ([''# '' @ py_str fr model @ '' '' @ (if jeq input_set (JStr ''stream20'') then ''Stream Pipeline'' else ''Multi-Input Sensitivity''),
       [],
       ''- Sessions: '' @ show_nat session_count @ '' fresh boots'',
       ''- Inputs: 20, balanced within every session'',
       ''- Measured executions: '' @ show_nat row_count,
       ''- Overall median loaded-context execution: '' @ fixed 3 (overall_median / 1000000) @ '' ms'',
       ''- Range across per-input medians: '' @ fixed 3 (median_range / 1000000) @ '' ms ('' @ fixed 2 range_percent @ ''% of the overall median)'',
       ''- Median prepared-input buffer update: '' @ fixed 3 (update_median / 1000000) @ '' ms'',
       ''- Recorded classification accuracy across distinct inputs: '' @ fixed 1 accuracy @ ''% ('' @ py_str fr distinct_input_matches @ ''/'' @ py_str fr distinct_input_total @ '')'',
       ''- Stable repeated classification observations: '' @ py_str fr repeated_observation_matches @ ''/'' @ py_str fr repeated_observation_total,
       [],
       ''Every input produced an output that remained stable when repeated, IRQ activity increased, and no bad kernel pattern was recorded. Classification accuracy is reported separately and is not treated as a hardware execution criterion.'']))))))))))))"

text \<open>The lines of a stream pipeline, inserted before the ninth line.\<close>

definition pipeline_lines :: "rat list \<Rightarrow> json \<Rightarrow> string list res" where
  "pipeline_lines throughputs summary =
     bindE (median throughputs) (\<lambda>throughput. bindE (median_at summary ''source_read'') (\<lambda>read_median.
     bindE (median_at summary ''input_prepare'') (\<lambda>prepare_median. bindE (median_at summary ''queue_wait'') (\<lambda>wait_median.
     Inr ([''- Median sustained pipeline throughput: '' @ fixed 3 throughput @ '' frames/s'',
       ''- Median stream read/decode wait: '' @ fixed 3 (read_median / 1000000) @ '' ms'',
       ''- Median input conversion: '' @ fixed 3 (prepare_median / 1000000) @ '' ms'',
       ''- Median consumer queue wait: '' @ fixed 3 (wait_median / 1000000) @ '' ms''])))))"

definition iv_report :: "(rat \<Rightarrow> string) \<Rightarrow> nat \<Rightarrow> iv_import \<Rightarrow> json \<Rightarrow> string res" where
  "iv_report fr session_count im summary =
     bindE (iv_report_lines fr session_count (length (is_rows (ii_state im))) (ii_baseline im) summary) (\<lambda>lines.
     bindE (if is_pipelines (ii_state im) = [] then Inr lines
       else bindE (pipeline_lines (map pp_rate (is_pipelines (ii_state im))) summary) (\<lambda>ls. Inr (take 8 lines @ ls @ drop 8 lines))) (\<lambda>all_lines.
     Inr (join [NL] all_lines @ [NL])))"

definition import_input_variation_archives :: "env \<Rightarrow> (rat \<Rightarrow> rat) \<Rightarrow> member list list \<Rightarrow> path \<Rightarrow> fs \<Rightarrow> (iv_import \<times> fs) res" where
  "import_input_variation_archives e rt archives out_dir fs =
     bindE (iv_import_files e rt archives out_dir fs) (\<lambda>((im, summary), fs1).
     bindE (write_svg out_dir ''input-variation-report.md'' (iv_report (env_float e) (length archives) im summary) fs1) (\<lambda>fs2. Inr (im, fs2)))"

end
