(* ===== verification/InputSets.thy ===== *)
theory InputSets
  imports Resnet50 Stats
begin

text \<open>
  The input sets of twenty images (tools/nvdla_test_framework/input_sets.py): fetching the pinned
  archives, reading the MNIST files, the selection of two digits each and of two validation images of
  each class, the preprocessing, and the assembly of both sets in a staging directory. Decompression and
  the tar listing are parameters; an exception leaves the output as it was, because the staging directory
  is removed.
\<close>

definition MULTI_IMAGE :: string where
  "MULTI_IMAGE = ''multi_image_inputs''"

definition inputs_spec :: "fs \<Rightarrow> path \<Rightarrow> json res" where
  "inputs_spec fs lock_path = bindE (read_json fs lock_path) (workload_spec MULTI_IMAGE)"

definition check_input :: "env \<Rightarrow> fs \<Rightarrow> path \<Rightarrow> json \<Rightarrow> json res" where
  "check_input e fs p item = bindE (jat item ''sha256'') (verify_resnet e fs p)"

definition fetch_multi_image_sources :: "build_env \<Rightarrow> path \<Rightarrow> path \<Rightarrow> fs \<Rightarrow> fs res" where
  "fetch_multi_image_sources b lock_path sources_dir fs =
     bindE (inputs_spec fs lock_path) (\<lambda>spec.
     bindE (bindE (jat spec ''source_dir'') (path_at sources_dir)) (\<lambda>destination.
     bindE (bindE (jat spec ''files'') jlist) (\<lambda>items.
     bindE (foldE (fetch_item b (check_input (env.truncate b)) resnet_record destination) items ([], fs)) (\<lambda>(records, fs1).
     Inr (write_json (env.truncate b) (destination @ [''manifest.json'']) (JDict [(''schema_version'', JInt 1), (''name'', JStr MULTI_IMAGE),
       (''files'', JList records)]) fs1)))))"

subsection \<open>MNIST\<close>

record mnist =
  mn_pixels :: string
  mn_labels :: string
  mn_rows :: int
  mn_columns :: int

text \<open>A big-endian number of four bytes.\<close>

definition be32 :: "string \<Rightarrow> int" where
  "be32 s = foldl (\<lambda>a c. a * 256 + code c) 0 (take 4 s)"

definition read_mnist :: "(string \<Rightarrow> string option) \<Rightarrow> fs \<Rightarrow> path \<Rightarrow> path \<Rightarrow> mnist res" where
  "read_mnist gunzip fs images_path labels_path =
     bindE (read_text fs images_path) (\<lambda>zi. bindE (noneE OSError (gunzip zi)) (\<lambda>images.
     bindE (guardE (16 \<le> length images) (ValueError ''truncated MNIST image header'')) (\<lambda>_.
     let magic = be32 images; count = be32 (drop 4 images); rows = be32 (drop 8 images); columns = be32 (drop 12 images); pixels = drop 16 images in
     bindE (read_text fs labels_path) (\<lambda>zl. bindE (noneE OSError (gunzip zl)) (\<lambda>labels'.
     bindE (guardE (8 \<le> length labels') (ValueError ''truncated MNIST label header'')) (\<lambda>_.
     let label_magic = be32 labels'; label_count = be32 (drop 4 labels'); labels = drop 8 labels' in
     bindE (guardE (magic = 2051 \<and> label_magic = 2049) (ValueError ''unexpected MNIST IDX magic'')) (\<lambda>_.
     bindE (guardE (count = label_count \<and> int (length labels) = count) (ValueError ''inconsistent MNIST image and label counts'')) (\<lambda>_.
     bindE (guardE (int (length pixels) = count * rows * columns) (ValueError ''truncated MNIST image payload'')) (\<lambda>_.
     Inr \<lparr>mn_pixels = pixels, mn_labels = labels, mn_rows = rows, mn_columns = columns\<rparr>)))))))))"

subsection \<open>The LeNet set\<close>

fun index_of :: "json \<Rightarrow> int res" where
  "index_of (JInt n) = Inr n"
| "index_of (JBool b) = Inr (if b then 1 else 0)"
| "index_of _ = Inl TypeError"

definition default_indices :: "string \<Rightarrow> int \<Rightarrow> json" where
  "default_indices labels digit = JList (map (JInt \<circ> int) (take 2 (List.filter (\<lambda>i. code (labels ! i) = digit) [0..<length labels])))"

definition check_index :: "string \<Rightarrow> int \<Rightarrow> int \<Rightarrow> unit res" where
  "check_index labels digit index =
     bindE (guardE (index < int (length labels)) (ValueError ''pinned MNIST indices do not match the digit'')) (\<lambda>_.
     bindE (py_nth labels index) (\<lambda>c. guardE (code c = digit) (ValueError ''pinned MNIST indices do not match the digit'')))"

definition digit_selection :: "string \<Rightarrow> json \<Rightarrow> int \<Rightarrow> (int \<times> int) list res" where
  "digit_selection labels source_indices digit =
     bindE (jget_or source_indices (default_indices labels digit) (show_int digit)) (\<lambda>v.
     bindE (jlen v) (\<lambda>n. bindE (guardE (n = 2) (ValueError ''MNIST test set has fewer than two samples'')) (\<lambda>_.
     bindE (jlist v) (\<lambda>vs. bindE (mapE index_of vs) (\<lambda>indices.
     bindE (mapE (check_index labels digit) indices) (\<lambda>_. Inr (map (\<lambda>i. (digit, i)) indices)))))))"

definition lenet_selection :: "string \<Rightarrow> json \<Rightarrow> (int \<times> int) list res" where
  "lenet_selection labels source_indices = bindE (mapE (digit_selection labels source_indices) [0..9]) (\<lambda>ss. Inr (concat ss))"

text \<open>\<open>xs[a:b]\<close>.\<close>

definition py_slice :: "'a list \<Rightarrow> int \<Rightarrow> int \<Rightarrow> 'a list" where
  "py_slice xs a b = (let n = int (length xs); norm = (\<lambda>i. nat (if i < 0 then max 0 (i + n) else i)) in take (norm b - norm a) (drop (norm a) xs))"

definition pgm_name :: "nat \<Rightarrow> int \<Rightarrow> int \<Rightarrow> string" where
  "pgm_name sequence digit index = pad_left 2 (show_nat sequence) @ ''-digit-'' @ show_int digit @ ''-index-'' @ show_int index @ ''.pgm''"

definition invert :: "char \<Rightarrow> char" where
  "invert c = char_of (255 - code c)"

definition pgm_content :: "mnist \<Rightarrow> int \<Rightarrow> string" where
  "pgm_content m index = (let size = mn_rows m * mn_columns m; start = index * size in
     ''P5'' @ [NL] @ show_int (mn_columns m) @ '' '' @ show_int (mn_rows m) @ [NL] @ ''255'' @ [NL] @ map invert (py_slice (mn_pixels m) start (start + size)))"

record lenet_image =
  li_sequence :: nat
  li_label :: int
  li_index :: int
  li_name :: string
  li_sha :: string
  li_size :: nat

definition write_lenet_image :: "env \<Rightarrow> path \<Rightarrow> mnist \<Rightarrow> nat \<times> int \<times> int \<Rightarrow> lenet_image list \<times> fs \<Rightarrow> (lenet_image list \<times> fs) res" where
  "write_lenet_image e destination m = (\<lambda>(sequence, digit, index) (records, fs).
     let name = pgm_name sequence digit index; p = destination @ [''images'', name]; fs' = write_file p (pgm_content m index) fs in
     bindE (sha_file e fs' p) (\<lambda>h. bindE (file_size fs' p) (\<lambda>n.
     Inr (records @ [\<lparr>li_sequence = sequence, li_label = digit, li_index = index, li_name = name, li_sha = h, li_size = n\<rparr>], fs'))))"

definition build_lenet :: "env \<Rightarrow> (string \<Rightarrow> string option) \<Rightarrow> path \<Rightarrow> path \<Rightarrow> path \<Rightarrow> json \<Rightarrow> fs \<Rightarrow> (lenet_image list \<times> fs) res" where
  "build_lenet e gunzip images_path labels_path destination source_indices fs =
     bindE (read_mnist gunzip fs images_path labels_path) (\<lambda>m.
     bindE (lenet_selection (mn_labels m) source_indices) (\<lambda>selected.
     foldE (write_lenet_image e destination m) (zip [0..<length selected] selected) ([], fs)))"

definition digit_record :: "lenet_image \<Rightarrow> json" where
  "digit_record r = JDict [(''sequence'', JInt (int (li_sequence r))), (''label'', JInt (li_label r)), (''source_index'', JInt (li_index r)),
     (''path'', JStr (''images/'' @ li_name r)), (''sha256'', JStr (li_sha r)), (''size_bytes'', JInt (int (li_size r)))]"

subsection \<open>The ResNet-50 set\<close>

definition resize_and_crop_jpeg :: "build_env \<Rightarrow> string \<Rightarrow> path \<Rightarrow> json \<Rightarrow> fs \<Rightarrow> (json \<times> fs) res" where
  "resize_and_crop_jpeg b source destination settings fs =
     bindE (noneE (RuntimeError ''Pillow is required'') (env_pillow b)) (\<lambda>pillow.
     bindE (jat settings ''pillow_version'') (\<lambda>wanted.
     bindE (guardE (pillow = py_str (env_float b) wanted) (RuntimeError ''Pillow version is required'')) (\<lambda>_.
     bindE (noneE OSError (bd_image_size b source)) (\<lambda>(width, height).
     bindE (bindE (jat settings ''resize_short_side'') jint) (\<lambda>short_side.
     bindE (guardE (min width height \<noteq> 0) ZeroDivisionError) (\<lambda>_.
     bindE (bindE (jat settings ''crop_width'') jint) (\<lambda>crop_width.
     bindE (bindE (jat settings ''crop_height'') jint) (\<lambda>crop_height.
     bindE (preprocess_geometry width height short_side crop_width crop_height) (\<lambda>g.
     bindE (jat settings ''format'') (\<lambda>fmt.
     bindE (bindE (jat settings ''quality'') jint) (\<lambda>quality.
     bindE (bindE (jat settings ''subsampling'') jint) (\<lambda>subsampling.
     let (l, t, r, d) = ge_box g in
     Inr (JDict [(''source_size'', shape_json [width, height]), (''resized_size'', shape_json [fst (ge_resized g), snd (ge_resized g)]),
        (''crop_box'', shape_json [l, t, r, d]), (''output_size'', shape_json [crop_width, crop_height]), (''pillow_version'', JStr pillow)],
       write_file destination (bd_render b source (ge_resized g) (ge_box g) fmt quality subsampling) fs)))))))))))))"

definition regular_members :: "member list \<Rightarrow> (string \<times> string) list" where
  "regular_members ms = concat (map (\<lambda>m. case mb_kind m of Regular c \<Rightarrow> [(mb_name m, c)] | _ \<Rightarrow> []) ms)"

definition is_candidate :: "string \<Rightarrow> string \<Rightarrow> bool" where
  "is_candidate synset name \<longleftrightarrow> contains (''/val/'' @ synset @ ''/'') name \<and> (ends_with (lower name) ''.jpeg'' \<or> ends_with (lower name) ''.jpg'')"

definition class_candidates :: "(string \<times> string) list \<Rightarrow> string \<Rightarrow> (string \<times> string) list" where
  "class_candidates members synset = sort_key fst (List.filter (\<lambda>(n, c). is_candidate synset n) members)"

definition class_offsets :: "json \<Rightarrow> string \<Rightarrow> int list res" where
  "class_offsets candidate_offsets synset =
     bindE (jget_or candidate_offsets (JList [JInt 0, JInt 1]) synset) (\<lambda>v. bindE (jlen v) (\<lambda>n.
     bindE (guardE (n = 2) (ValueError ''Imagenette has fewer than two validation images'')) (\<lambda>_.
     bindE (jlist v) (mapE index_of))))"

record resnet_image =
  ri_sequence :: nat
  ri_synset :: string
  ri_class :: int
  ri_member :: string
  ri_name :: string
  ri_sha :: string
  ri_size :: nat
  ri_preprocess :: json

definition write_resnet_image ::
    "build_env \<Rightarrow> path \<Rightarrow> json \<Rightarrow> string \<Rightarrow> int \<Rightarrow> (string \<times> string) list \<Rightarrow> int \<Rightarrow> resnet_image list \<times> fs \<Rightarrow> (resnet_image list \<times> fs) res" where
  "write_resnet_image b destination settings synset class_index candidates offset = (\<lambda>(records, fs).
     bindE (py_nth candidates offset) (\<lambda>(member, content).
     let sequence = length records; name = pad_left 2 (show_nat sequence) @ ''-'' @ synset @ ''-'' @ path_stem member @ ''.jpg''; p = destination @ [''images'', name] in
     bindE (resize_and_crop_jpeg b content p settings fs) (\<lambda>(preprocess, fs').
     bindE (sha_file (env.truncate b) fs' p) (\<lambda>h. bindE (file_size fs' p) (\<lambda>n.
     Inr (records @ [\<lparr>ri_sequence = sequence, ri_synset = synset, ri_class = class_index, ri_member = member, ri_name = name, ri_sha = h, ri_size = n,
        ri_preprocess = preprocess\<rparr>], fs'))))))"

definition build_class ::
    "build_env \<Rightarrow> (string \<times> string) list \<Rightarrow> path \<Rightarrow> json \<Rightarrow> json \<Rightarrow> string \<times> int \<Rightarrow> resnet_image list \<times> fs \<Rightarrow> (resnet_image list \<times> fs) res" where
  "build_class b members destination settings candidate_offsets = (\<lambda>(synset, class_index) s.
     bindE (class_offsets candidate_offsets synset) (\<lambda>offsets.
     let candidates = class_candidates members synset in
     bindE (guardE (Max (set offsets) < int (length candidates)) (ValueError ''Imagenette has fewer than two validation images'')) (\<lambda>_.
     foldE (write_resnet_image b destination settings synset class_index candidates) offsets s)))"

definition build_resnet ::
    "build_env \<Rightarrow> (string \<Rightarrow> member list option) \<Rightarrow> path \<Rightarrow> path \<Rightarrow> json \<Rightarrow> json \<Rightarrow> json \<Rightarrow> fs \<Rightarrow> (resnet_image list \<times> fs) res" where
  "build_resnet b open_tar archive_path destination classes settings candidate_offsets fs =
     bindE (read_text fs archive_path) (\<lambda>content. bindE (noneE OSError (open_tar content)) (\<lambda>ms.
     bindE (jitems classes) (\<lambda>items. bindE (mapE (\<lambda>(k, v). bindE (index_of v) (\<lambda>i. Inr (k, i))) items) (\<lambda>cs.
     foldE (build_class b (regular_members ms) destination settings candidate_offsets) (sort_key snd cs) ([], fs)))))"

definition resnet_image_record :: "resnet_image \<Rightarrow> json" where
  "resnet_image_record r = JDict [(''sequence'', JInt (int (ri_sequence r))), (''synset'', JStr (ri_synset r)), (''class_index'', JInt (ri_class r)),
     (''source_member'', JStr (ri_member r)), (''path'', JStr (''images/'' @ ri_name r)), (''sha256'', JStr (ri_sha r)), (''size_bytes'', JInt (int (ri_size r))),
     (''preprocess'', ri_preprocess r)]"

subsection \<open>The sets\<close>

text \<open>A record of either set, as the writer of a set uses it: its path below the set, its expected index and
  its document.\<close>

record set_image =
  si_path :: string
  si_expected :: int
  si_document :: json

definition lenet_set :: "lenet_image list \<Rightarrow> set_image list" where
  "lenet_set = map (\<lambda>r. \<lparr>si_path = ''images/'' @ li_name r, si_expected = li_label r, si_document = digit_record r\<rparr>)"

definition resnet_set :: "resnet_image list \<Rightarrow> set_image list" where
  "resnet_set = map (\<lambda>r. \<lparr>si_path = ''images/'' @ ri_name r, si_expected = ri_class r, si_document = resnet_image_record r\<rparr>)"

definition lines_text :: "string list \<Rightarrow> string" where
  "lines_text ls = concat (map (\<lambda>l. l @ [NL]) ls)"

definition set_manifest :: "string \<Rightarrow> set_image list \<Rightarrow> string \<Rightarrow> string \<Rightarrow> string \<Rightarrow> json" where
  "set_manifest model records list_sha expected_name expected_sha = JDict [(''schema_version'', JInt 1), (''name'', JStr ''multi20''),
     (''model'', JStr model), (''count'', JInt (int (length records))), (''selection_order'', JStr ''manifest order; cycles modulo 20''),
     (''preprocessing'', JStr (if model = ''lenet'' then ''invert MNIST pixels (255 - source) to the pinned LeNet convention''
        else ''pinned resize, center crop, and JPEG encoding recorded per image'')),
     (''images'', JList (map si_document records)), (''image_list_sha256'', JStr list_sha),
     (''expected_indices'', JDict [(''path'', JStr expected_name), (''sha256'', JStr expected_sha),
        (''meaning'', JStr (if model = ''lenet'' then ''MNIST digit label'' else ''ImageNet class index''))])]"

definition write_set :: "env \<Rightarrow> path \<Rightarrow> string \<Rightarrow> set_image list \<Rightarrow> fs \<Rightarrow> fs res" where
  "write_set e destination model records fs =
     bindE (guardE (length records = 20) (ValueError (model @ '' input set contains '' @ show_nat (length records) @ '' images, expected 20''))) (\<lambda>_.
     let fs1 = write_file (destination @ [''images.txt'']) (lines_text (map si_path records)) fs;
         expected_name = (if model = ''lenet'' then ''expected-labels.txt'' else ''expected-classes.txt'');
         fs2 = write_file (destination @ [expected_name]) (lines_text (map (show_int \<circ> si_expected) records)) fs1 in
     bindE (sha_file e fs2 (destination @ [''images.txt''])) (\<lambda>list_sha.
     bindE (sha_file e fs2 (destination @ [expected_name])) (\<lambda>expected_sha.
     Inr (write_json e (destination @ [''manifest.json'']) (set_manifest model records list_sha expected_name expected_sha) fs2))))"

subsection \<open>The build\<close>

definition remove_tree :: "path \<Rightarrow> fs \<Rightarrow> fs" where
  "remove_tree d fs = List.filter (\<lambda>(q, c). \<not> prefix d q) fs"

definition rename_tree :: "path \<Rightarrow> path \<Rightarrow> fs \<Rightarrow> fs" where
  "rename_tree d d' fs = map (\<lambda>(q, c). (if prefix d q then d' @ drop (length d) q else q, c)) fs"

definition role_path :: "path \<Rightarrow> json \<Rightarrow> (string \<times> path) res" where
  "role_path source item = bindE (bindE (jat item ''role'') jstr) (\<lambda>role. bindE (bindE (jat item ''name'') (path_at source)) (\<lambda>p. Inr (role, p)))"

definition role_of :: "(string \<times> path) list \<Rightarrow> string \<Rightarrow> path res" where
  "role_of roles role = noneE (KeyError role) (map_of (rev roles) role)"

definition staging_dir :: "path \<Rightarrow> path" where
  "staging_dir out_dir = butlast out_dir @ [''.'' @ path_name out_dir @ ''.staging'']"

definition lower_text :: "json \<Rightarrow> json res" where
  "lower_text v = (case v of JStr s \<Rightarrow> Inr (JStr (lower s)) | _ \<Rightarrow> Inl AttributeError)"

definition source_file_record :: "json \<Rightarrow> json res" where
  "source_file_record item = bindE (jat item ''name'') (\<lambda>n. bindE (bindE (jat item ''sha256'') lower_text) (\<lambda>h.
     Inr (JDict [(''name'', n), (''sha256'', h)])))"

text \<open>What is built in the staging directory.\<close>

definition build_staged ::
    "build_env \<Rightarrow> (string \<Rightarrow> string option) \<Rightarrow> (string \<Rightarrow> member list option) \<Rightarrow> json \<Rightarrow> json \<Rightarrow> json list \<Rightarrow> (string \<times> path) list \<Rightarrow> path \<Rightarrow> fs \<Rightarrow> fs res" where
  "build_staged b gunzip open_tar lock spec files roles stage fs =
     (let e = env.truncate b; lenet_dir = stage @ [''lenet'', ''multi20'']; resnet_dir = stage @ [''resnet50'', ''multi20''] in
      bindE (role_of roles ''mnist_images'') (\<lambda>mi. bindE (role_of roles ''mnist_labels'') (\<lambda>ml.
      bindE (jget_or spec (JDict []) ''lenet_source_indices'') (\<lambda>indices.
      bindE (build_lenet e gunzip mi ml lenet_dir indices fs) (\<lambda>(lenet, fs1).
      bindE (role_of roles ''imagenette_archive'') (\<lambda>ia. bindE (jat spec ''resnet50_class_indices'') (\<lambda>classes.
      bindE (jpath lock [''workloads'', RESNET50_WORKLOAD, ''preprocess'']) (\<lambda>settings.
      bindE (jget_or spec (JDict []) ''resnet50_candidate_offsets'') (\<lambda>offsets.
      bindE (build_resnet b open_tar ia resnet_dir classes settings offsets fs1) (\<lambda>(resnet, fs2).
      bindE (write_set e lenet_dir ''lenet'' (lenet_set lenet) fs2) (\<lambda>fs3.
      bindE (write_set e resnet_dir ''resnet50'' (resnet_set resnet) fs3) (\<lambda>fs4.
      bindE (mapE source_file_record files) (\<lambda>sources. bindE (jget_or spec (JDict []) ''selection'') (\<lambda>selection.
      Inr (write_json e (stage @ [''manifest.json'']) (JDict [(''schema_version'', JInt 1), (''status'', JStr ''pass''), (''source_files'', JList sources),
        (''selection'', selection), (''sets'', JDict [(''lenet'', JDict [(''path'', JStr ''lenet/multi20''), (''count'', JInt 20)]),
          (''resnet50'', JDict [(''path'', JStr ''resnet50/multi20''), (''count'', JInt 20)])])]) fs4)))))))))))))))"

definition verify_input :: "env \<Rightarrow> path \<Rightarrow> fs \<Rightarrow> json \<Rightarrow> unit res" where
  "verify_input e source fs item = bindE (bindE (jat item ''name'') (path_at source)) (\<lambda>p. bindE (check_input e fs p item) (\<lambda>_. Inr ()))"

definition build_multi_image_workloads ::
    "build_env \<Rightarrow> (string \<Rightarrow> string option) \<Rightarrow> (string \<Rightarrow> member list option) \<Rightarrow> path \<Rightarrow> path \<Rightarrow> path \<Rightarrow> fs \<Rightarrow> fs res" where
  "build_multi_image_workloads b gunzip open_tar lock_path sources_dir out_dir fs =
     bindE (read_json fs lock_path) (\<lambda>lock. bindE (inputs_spec fs lock_path) (\<lambda>spec.
     bindE (bindE (jat spec ''source_dir'') (path_at sources_dir)) (\<lambda>source.
     bindE (bindE (jat spec ''files'') jlist) (\<lambda>files.
     bindE (mapE (role_path source) files) (\<lambda>roles.
     bindE (mapE (verify_input (env.truncate b) source fs) files) (\<lambda>_.
     let stage = staging_dir out_dir in
     bindE (build_staged b gunzip open_tar lock spec files roles stage (remove_tree stage fs)) (\<lambda>fs1.
     Inr (rename_tree stage out_dir (remove_tree out_dir fs1)))))))))"

subsection \<open>Facts\<close>

lemma default_indices_correct:
  "list_all (\<lambda>v. \<exists>i. v = JInt (int i) \<and> i < length labels \<and> code (labels ! i) = digit)
     (take 2 (map (JInt \<circ> int) (List.filter (\<lambda>i. code (labels ! i) = digit) [0..<length labels])))"
  by (auto simp: list_all_iff dest!: in_set_takeD)

lemma digit_selection_facts:
  assumes "digit_selection labels source_indices digit = Inr ss"
  shows "map fst ss = [digit, digit] \<and> list_all (\<lambda>(d, i). d = digit \<and> i < int (length labels) \<and> (\<exists>c. py_nth labels i = Inr c \<and> code c = d)) ss"
proof -
  from assms obtain v vs indices us where len: "jlen v = Inr 2" and vs: "jlist v = Inr vs" and ix: "mapE index_of vs = Inr indices"
    and ok: "mapE (check_index labels digit) indices = Inr us" and ss: "ss = map (\<lambda>i. (digit, i)) indices"
    by (auto simp: digit_selection_def bindE_Inr_iff guardE_Inr_iff)
  have "length vs = 2" using len vs by (cases v) auto
  then have "length indices = 2" using mapE_length [OF ix] by simp
  then obtain i j where ij: "indices = [i, j]" by (auto simp: numeral_2_eq_2 length_Suc_conv)
  from ok show ?thesis by (auto simp: ss ij check_index_def bindE_Inr_iff guardE_Inr_iff)
qed

definition digits_twice :: "int list" where
  "digits_twice = [0, 0, 1, 1, 2, 2, 3, 3, 4, 4, 5, 5, 6, 6, 7, 7, 8, 8, 9, 9]"

lemma lenet_selection_facts:
  assumes "lenet_selection labels source_indices = Inr sel"
  shows "map fst sel = digits_twice" and "list_all (\<lambda>(d, i). i < int (length labels) \<and> (\<exists>c. py_nth labels i = Inr c \<and> code c = d)) sel"
proof -
  from assms obtain ss where ss: "mapE (digit_selection labels source_indices) [0..9] = Inr ss" and sel: "sel = concat ss"
    by (auto simp: lenet_selection_def bindE_Inr_iff)
  have two: "list_all2 (\<lambda>d s. map fst s = [d, d] \<and> list_all (\<lambda>(d, i). i < int (length labels) \<and> (\<exists>c. py_nth labels i = Inr c \<and> code c = d)) s) [0..9] ss"
    using ss unfolding mapE_Inr_iff by (rule list_all2_mono) (use digit_selection_facts in \<open>fastforce simp: list_all_iff\<close>)
  then have "map fst (concat ss) = concat (map (\<lambda>d. [d, d]) [0..9]) \<and>
      list_all (\<lambda>(d, i). i < int (length labels) \<and> (\<exists>c. py_nth labels i = Inr c \<and> code c = d)) (concat ss)"
    by (induction rule: list_all2_induct) auto
  moreover have "concat (map (\<lambda>d. [d, d]) [0..9]) = digits_twice" by code_simp
  ultimately show "map fst sel = digits_twice" "list_all (\<lambda>(d, i). i < int (length labels) \<and> (\<exists>c. py_nth labels i = Inr c \<and> code c = d)) sel"
    by (simp_all add: sel)
qed

lemma write_lenet_images:
  "foldE (write_lenet_image e d m) xs (rs, fs) = Inr (rs', fs') \<Longrightarrow>
     map (\<lambda>r. (li_sequence r, li_label r, li_index r)) rs' = map (\<lambda>r. (li_sequence r, li_label r, li_index r)) rs @ xs \<and>
     fs' = fold (\<lambda>(p, c). dict_set p c) (map (\<lambda>(k, g, i). (d @ [''images'', pgm_name k g i], pgm_content m i)) xs) fs"
proof (induction xs arbitrary: rs fs)
  case (Cons x xs)
  obtain k g i where x: "x = (k, g, i)" by (cases x)
  from Cons.prems obtain rs1 fs1 where s: "write_lenet_image e d m (k, g, i) (rs, fs) = Inr (rs1, fs1)"
    and rest: "foldE (write_lenet_image e d m) xs (rs1, fs1) = Inr (rs', fs')"
    unfolding x foldE.simps bindE_Inr_iff split_paired_Ex by blast
  from s have "map (\<lambda>r. (li_sequence r, li_label r, li_index r)) rs1 = map (\<lambda>r. (li_sequence r, li_label r, li_index r)) rs @ [(k, g, i)]"
    and "fs1 = dict_set (d @ [''images'', pgm_name k g i]) (pgm_content m i) fs"
    by (auto simp: write_lenet_image_def Let_def bindE_Inr_iff write_file_def)
  with Cons.IH [OF rest] x show ?case by simp
qed simp

lemma sequence_names: "k < 20 \<Longrightarrow> k' < 20 \<Longrightarrow> pgm_name k g i = pgm_name k' g' i' \<Longrightarrow> k = k'"
proof -
  have w: "list_all (\<lambda>k. length (pad_left 2 (show_nat k)) = 2) [0..<20]" by code_simp
  have d: "distinct (map (\<lambda>k. pad_left 2 (show_nat k)) [0..<20])" by code_simp
  assume k: "k < 20" "k' < 20" and eq: "pgm_name k g i = pgm_name k' g' i'"
  from eq have "take 2 (pgm_name k g i) = take 2 (pgm_name k' g' i')" by simp
  moreover have "take 2 (pgm_name k g i) = pad_left 2 (show_nat k)" if "k < 20" for k g i using w that by (simp add: list_all_iff pgm_name_def)
  ultimately have "pad_left 2 (show_nat k) = pad_left 2 (show_nat k')" using k by simp
  with d k show "k = k'" by (auto simp: distinct_map inj_on_def)
qed


text \<open>A pinned position of \<open>-1\<close> passes the check against the labels, but its image has no pixels.\<close>

lemma negative_index_empty:
  assumes "0 < mn_rows m * mn_columns m"
  shows "py_slice (mn_pixels m) (- 1 * (mn_rows m * mn_columns m)) (- 1 * (mn_rows m * mn_columns m) + mn_rows m * mn_columns m) = []"
  using assms by (simp add: py_slice_def Let_def)

lemma negative_index_accepted: "labels \<noteq> [] \<Longrightarrow> code (last labels) = digit \<Longrightarrow> check_index labels digit (- 1) = Inr ()"
  by (cases labels rule: rev_cases) (simp_all add: check_index_def py_nth_def guardE_def nth_append)

text \<open>After fetching, every file of the lock is present with its pinned hash.\<close>

lemma inputs_fetched:
  assumes "foldE (fetch_item b (check_input (env.truncate b)) resnet_record destination) items (rs, fs) = Inr (rs', fs')"
    and "distinct (map (item_path destination) items)" and "item \<in> set items"
  shows "\<exists>p. item_path destination item = Inr p \<and> is_ok (check_input (env.truncate b) fs' p item)"
proof -
  have "check_input (env.truncate b) fs1 p i = check_input (env.truncate b) fs2 p i" if same: "read_text fs1 p = read_text fs2 p" for fs1 fs2 p i
  proof -
    have sha: "sha_file (env.truncate b) fs1 p = sha_file (env.truncate b) fs2 p" unfolding sha_file_def sha256_file_def same ..
    have "verify_resnet (env.truncate b) fs1 p x = verify_resnet (env.truncate b) fs2 p x" for x
      unfolding verify_resnet_def verify_local [OF same] sha ..
    then show ?thesis unfolding check_input_def by (rule arg_cong [OF ext])
  qed
  then have "local_check (check_input (env.truncate b))" unfolding local_check_def by blast
  from fetch_items_pinned [OF this assms] show ?thesis .
qed

end
