(* ===== verification/VpLog.thy ===== *)
theory VpLog
  imports Env Regex
begin

text \<open>
  What the virtual-platform runner reads from its environment and from the logs
  (tools/nvdla_test_framework/vp.py): paths and numbers from environment variables, the bad kernel
  patterns, the sections and statuses the guest script prints on the serial console, the check of the
  probed configuration, and the files of a workload. \<open>getenv\<close> is the environment, \<open>home\<close> the
  password database (the empty name is the current user).
\<close>

subsection \<open>Bad kernel messages\<close>

definition KERNEL_BAD_PATTERNS :: "(string \<times> rx) list" where
  "KERNEL_BAD_PATTERNS = [
     ([BS] @ ''bOops'' @ [BS] @ ''b'', seq [WordB, ilit ''Oops'', WordB]),
     ([BS] @ ''bBUG:'', seq [WordB, ilit ''BUG:'']),
     ([BS] @ ''bWARNING:'', seq [WordB, ilit ''WARNING:'']),
     (''DMA-API'', ilit ''DMA-API''),
     (''scheduler timeout'', ilit ''scheduler timeout''),
     (''interrupt timeout'', ilit ''interrupt timeout''),
     (''TLM_ADDRESS_ERROR_RESPONSE'', ilit ''TLM_ADDRESS_ERROR_RESPONSE''),
     (''sc_signal<.*cannot have more than one driver'',
        seq [ilit ''sc_signal<'', Star dot, ilit ''cannot have more than one driver'']),
     (''Error: '' @ [BS] @ ''(E[0-9]+'' @ [BS] @ '')'',
        seq [ilit ''Error: ('', ilit ''E'', plus (Sym is_dec), lit '')''])]"

definition bad_patterns :: "string \<Rightarrow> string list" where
  "bad_patterns txt = map fst (List.filter (\<lambda>(p, r). re_search r txt \<noteq> None) KERNEL_BAD_PATTERNS)"

subsection \<open>Environment variables\<close>

function expand_vars :: "(string \<Rightarrow> string option) \<Rightarrow> string \<Rightarrow> string" where
  "expand_vars getenv [] = []"
| "expand_vars getenv (c # s) =
     (if c \<noteq> CHR ''$'' then c # expand_vars getenv s
      else let w = takeWhile (\<lambda>x. is_word x \<and> code x < 128) s in
        if w \<noteq> [] then
          (case getenv w of None \<Rightarrow> c # w | Some v \<Rightarrow> v) @ expand_vars getenv (drop (length w) s)
        else if take 1 s = ''{'' \<and> CHR ''}'' \<in> set s then
          (let n = takeWhile (\<lambda>x. x \<noteq> CHR ''}'') (tl s) in
           (case getenv n of None \<Rightarrow> c # ''{'' @ n @ ''}'' | Some v \<Rightarrow> v) @ expand_vars getenv (drop (length n + 2) s))
        else c # expand_vars getenv s)"
  by pat_completeness auto
termination by (relation "measure (\<lambda>(g, s). length s)") auto

definition expand_user :: "(string \<Rightarrow> string option) \<Rightarrow> (string \<Rightarrow> string option) \<Rightarrow> string \<Rightarrow> string" where
  "expand_user getenv home s =
     (if \<not> starts_with s ''~'' then s
      else let user = takeWhile (\<lambda>c. c \<noteq> CHR ''/'') (tl s); rest = drop (Suc (length user)) s in
        case (if user = [] then (case getenv ''HOME'' of None \<Rightarrow> home [] | Some h \<Rightarrow> Some h) else home user) of
          None \<Rightarrow> s
        | Some h \<Rightarrow> (let p = rev (dropWhile (\<lambda>c. c = CHR ''/'') (rev h)) @ rest in if p = [] then ''/'' else p))"

definition expand_path :: "(string \<Rightarrow> string option) \<Rightarrow> (string \<Rightarrow> string option) \<Rightarrow> string \<Rightarrow> path" where
  "expand_path getenv home s = rel_path (expand_vars getenv (expand_user getenv home s))"

definition path_from_env :: "(string \<Rightarrow> string option) \<Rightarrow> (string \<Rightarrow> string option) \<Rightarrow> string \<Rightarrow> path \<Rightarrow> path" where
  "path_from_env getenv home name dflt = (case getenv name of
       None \<Rightarrow> dflt | Some v \<Rightarrow> if v = [] then dflt else expand_path getenv home v)"

definition int_from_env :: "(string \<Rightarrow> string option) \<Rightarrow> string \<Rightarrow> int \<Rightarrow> int \<Rightarrow> int res" where
  "int_from_env getenv name dflt minimum = (case getenv name of
       None \<Rightarrow> Inr dflt
     | Some v \<Rightarrow> bindE (noneE (ValueError (name @ '' must be an integer'')) (py_int v)) (\<lambda>n. Inr (max minimum n)))"

definition path_from_env_or_first ::
    "(string \<Rightarrow> string option) \<Rightarrow> (string \<Rightarrow> string option) \<Rightarrow> fs \<Rightarrow> string \<Rightarrow> path list \<Rightarrow> path res" where
  "path_from_env_or_first getenv home fs name candidates = (case getenv name of
       Some (c # v) \<Rightarrow> Inr (expand_path getenv home (c # v))
     | _ \<Rightarrow> (case find_first (path_exists fs) candidates of
         Some p \<Rightarrow> Inr p
       | None \<Rightarrow> (case candidates of [] \<Rightarrow> Inl IndexError | p # _ \<Rightarrow> Inr p)))"

subsection \<open>The serial log\<close>

text \<open>Reading a file as text: every line ending becomes a line feed.\<close>

fun newlines_from :: "bool \<Rightarrow> string \<Rightarrow> string" where
  "newlines_from after_cr [] = []"
| "newlines_from after_cr (c # s) =
     (if c = CR then NL # newlines_from True s
      else if after_cr \<and> c = NL then newlines_from False s
      else c # newlines_from False s)"

definition universal_newlines :: "string \<Rightarrow> string" where
  "universal_newlines s = newlines_from False s"

definition read_universal :: "fs \<Rightarrow> path \<Rightarrow> string res" where
  "read_universal fs p = bindE (read_text fs p) (\<lambda>t. Inr (universal_newlines t))"

definition section_begin :: "string \<Rightarrow> string" where
  "section_begin name = ''__NVDLA_SECTION_'' @ name @ ''_BEGIN__''"

definition section_end :: "string \<Rightarrow> string" where
  "section_end name = ''__NVDLA_SECTION_'' @ name @ ''_END__''"

definition section_re :: "string \<Rightarrow> rx" where
  "section_re name = seq [lit (section_begin name), Opt (ch NL), Cap 1 (LStar dot_all), Opt (ch NL), lit (section_end name)]"

definition extract_section :: "string \<Rightarrow> string \<Rightarrow> string" where
  "extract_section txt name = (case re_search (section_re name) (crlf_to_lf txt) of
       None \<Rightarrow> [] | Some k \<Rightarrow> strip (group 1 k) @ [NL])"

definition int_group :: "rx \<Rightarrow> string \<Rightarrow> int option" where
  "int_group r txt = (case re_search r txt of None \<Rightarrow> None | Some k \<Rightarrow> py_int (group 1 k))"

definition extract_status :: "string \<Rightarrow> string \<Rightarrow> int option" where
  "extract_status txt name = int_group (Cat (lit (''__NVDLA_STATUS_'' @ name @ ''='')) (Cap 1 (plus (Sym is_dec)))) txt"

definition EXIT_MARKER :: string where
  "EXIT_MARKER = ''__NVDLA_SCRIPT_EXIT__=''"

definition extract_script_exit :: "string \<Rightarrow> int option" where
  "extract_script_exit txt = int_group (Cat (lit EXIT_MARKER) (Cap 1 (plus (Sym is_dec)))) txt"

definition extract_render_node :: "string \<Rightarrow> string option" where
  "extract_render_node txt =
     (case re_search (Cat (lit ''__NVDLA_RENDER_NODE__='') (Cap 1 (Star (Sym (\<lambda>c. c \<noteq> CR \<and> c \<noteq> NL))))) txt of
        None \<Rightarrow> None
      | Some k \<Rightarrow> (let v = strip (group 1 k) in if v = [] then None else Some v))"

definition extract_probe_config :: "string \<Rightarrow> string option" where
  "extract_probe_config txt =
     (case re_search (seq [lit ''Probe NVDLA config'', plus (Sym is_space), Cap 1 (plus (Sym (\<lambda>c. \<not> is_space c)))]) txt of
        None \<Rightarrow> None | Some k \<Rightarrow> Some (strip (group 1 k)))"

subsection \<open>The workload\<close>

definition jopt :: "string option \<Rightarrow> json" where
  "jopt v = (case v of None \<Rightarrow> JNull | Some s \<Rightarrow> JStr s)"

text \<open>\<open>probe in compatible\<close> for a list, and for a string made a list of one.\<close>

definition workload_config_check :: "json \<Rightarrow> string option \<Rightarrow> json res" where
  "workload_config_check manifest probe_config =
     bindE (jget manifest ''target'') (\<lambda>t. let target = jor t (JDict []) in
     bindE (jget target ''compatible'') (\<lambda>c. let c' = jor c (JList []); compatible = (if is_jstr c' then JList [c'] else c') in
     if \<not> truthy compatible then
       Inr (JDict [(''status'', JStr ''unknown''), (''reason'', JStr ''workload manifest has no target compatible metadata'')])
     else case probe_config of
       None \<Rightarrow> Inr (JDict [(''status'', JStr ''fail''), (''reason'', JStr ''driver probe config was not found in logs''), (''target'', target)])
     | Some [] \<Rightarrow> Inr (JDict [(''status'', JStr ''fail''), (''reason'', JStr ''driver probe config was not found in logs''), (''target'', target)])
     | Some p \<Rightarrow>
         bindE (jlist compatible) (\<lambda>cs.
         if list_ex (jeq (JStr p)) cs then
           Inr (JDict [(''status'', JStr ''pass''), (''probe_config'', JStr p), (''target'', target), (''compatible'', compatible)])
         else bindE (mapE jstr cs) (\<lambda>names.
           Inr (JDict [(''status'', JStr ''fail''), (''probe_config'', JStr p), (''target'', target), (''compatible'', compatible),
             (''reason'', JStr (''VP probed '' @ p @ '', workload expects one of '' @ join '', '' names))])))))"

record vp_workload =
  vw_name :: string
  vw_manifest_path :: path
  vw_manifest :: json
  vw_loadable :: path
  vw_golden :: path
  vw_output_name :: json

definition resolve_workload :: "fs \<Rightarrow> path \<Rightarrow> string \<Rightarrow> vp_workload res" where
  "resolve_workload fs workloads_dir name =
     (let dir = path_div workloads_dir name; manifest_path = dir @ [''generated-manifest.json''] in
     bindE (guardE (is_file fs manifest_path) (FileNotFoundError ''missing workload manifest'')) (\<lambda>_.
     bindE (read_json fs manifest_path) (\<lambda>manifest.
     bindE (bindE (jpath manifest [''loadable'', ''path'']) (path_at dir)) (\<lambda>loadable.
     bindE (jget manifest ''golden_outputs'') (\<lambda>g. let outputs = jor g (JList []) in
     bindE (guardE (truthy outputs) (FileNotFoundError ''workload manifest has no golden_outputs'')) (\<lambda>_.
     bindE (case outputs of JList (o' # _) \<Rightarrow> Inr o' | JDict kvs \<Rightarrow> Inl (KeyError ''0'') | _ \<Rightarrow> Inl TypeError) (\<lambda>first.
     bindE (bindE (jat first ''path'') (path_at dir)) (\<lambda>golden.
     bindE (guardE (is_file fs loadable \<and> is_file fs golden) (FileNotFoundError ''missing workload files'')) (\<lambda>_.
     bindE (jget_or first (JStr ''o_000000.dimg'') ''name'') (\<lambda>output_name.
     Inr \<lparr>vw_name = name, vw_manifest_path = manifest_path, vw_manifest = manifest, vw_loadable = loadable,
          vw_golden = golden, vw_output_name = output_name\<rparr>))))))))))"

subsection \<open>The first section of a log\<close>

lemma lazy_dots: "lazy_iter (length s) (rmatch dot_all) (pr, s, k) = map (\<lambda>i. (last_char pr (take i s), drop i s, k)) [0..<Suc (length s)]"
proof (induction s arbitrary: pr)
  case (Cons c s)
  have "[0..<Suc (length (c # s))] = 0 # map Suc [0..<Suc (length s)]" by (simp add: map_Suc_upt upt_conv_Cons del: upt_Suc)
  with Cons show ?case by (simp add: dot_all_def comp_def del: upt_Suc)
qed simp

lemma concat_first: "(\<And>i. i < m \<Longrightarrow> g (xs ! i) = []) \<Longrightarrow> m < length xs \<Longrightarrow> g (xs ! m) = y # ys \<Longrightarrow> \<exists>zs. concat (map g xs) = y # zs"
proof (induction xs arbitrary: m)
  case (Cons x xs)
  show ?case
  proof (cases m)
    case (Suc n)
    have "g x = []" using Cons.prems(1) [of 0] Suc by simp
    moreover have "g (xs ! i) = []" if "i < n" for i using Cons.prems(1) [of "Suc i"] Suc that by simp
    then have "\<exists>zs. concat (map g xs) = y # zs" using Cons.prems(2,3) Suc by (intro Cons.IH [of n]) auto
    ultimately show ?thesis by simp
  qed (use Cons.prems in simp)
qed simp

lemma search_skip:
  "(\<And>pr i. i < length u \<Longrightarrow> rmatch r (pr, drop i (u @ s), []) = []) \<Longrightarrow> rmatch r (last_char pr u, s, []) = y # ys \<Longrightarrow> search_from r pr (u @ s) = Some y"
proof (induction u arbitrary: pr)
  case Nil
  then show ?case by (cases s) auto
next
  case (Cons c u)
  have "rmatch r (pr, c # u @ s, []) = []" using Cons.prems(1) [of 0 pr] by simp
  moreover have "rmatch r (pr', drop i (u @ s), []) = []" if "i < length u" for pr' i using Cons.prems(1) [of "Suc i" pr'] that by simp
  ultimately show ?case using Cons.IH [of "Some c"] Cons.prems(2) by simp
qed

lemma section_match:
  assumes "v \<noteq> []" and "hd v \<noteq> NL" and "last v \<noteq> NL" and "\<And>i. i < length v \<Longrightarrow> \<not> prefix (section_end name) (drop i (v @ section_end name @ w))"
  shows "\<exists>pr' zs. rmatch (section_re name) (pr, section_begin name @ v @ section_end name @ w, []) = (pr', w, [(1, v)]) # zs"
proof -
  let ?E = "section_end name" and ?T = "v @ section_end name @ w"
  define p where "p = last_char pr (section_begin name)"
  define g where "g = (\<lambda>st. concat (map (rmatch (lit ?E)) (rmatch (Opt (ch NL)) st)))"
  have E: "?E = CHR ''_'' # tl ?E" by (simp add: section_end_def)
  have "rmatch (ch NL) (p, ?T, []) = []" using assms(1,2) by (cases v) auto
  then have step: "rmatch (section_re name) (pr, section_begin name @ ?T, []) = concat (map g (rmatch (Cap 1 (LStar dot_all)) (p, ?T, [])))"
    by (simp add: section_re_def rmatch_lit p_def g_def)
  let ?xs = "map (\<lambda>i. (last_char p (take i ?T), drop i ?T, [(1, take i ?T)])) [0..<Suc (length ?T)]"
  have xs: "rmatch (Cap 1 (LStar dot_all)) (p, ?T, []) = ?xs"
    by (simp add: lazy_dots comp_def del: upt_Suc)
  have early: "g (q, drop i ?T, k) = []" if i: "i < length v" for i q k
  proof -
    obtain c t where d: "drop i v = c # t" using i by (cases "drop i v") auto
    have no: "\<not> prefix ?E (c # t @ ?E @ w)" using assms(4) [OF i] d i by simp
    have "\<not> prefix ?E (t @ ?E @ w)" if "c = NL"
    proof (cases "Suc i < length v")
      case True
      then show ?thesis using assms(4) [OF True] d i by (simp add: drop_Suc tl_drop [symmetric])
    next
      case False
      then have "drop i v = [last v]" using i by (metis Cons_nth_drop_Suc Suc_lessI append_butlast_last_id assms(1) butlast_snoc d diff_Suc_1 drop_all last_conv_nth length_0_conv not_less)
      then show ?thesis using d that assms(3) by simp
    qed
    then show ?thesis using no d i by (auto simp: g_def rmatch_lit_iff)
  qed
  have "g (q, ?E @ w, k) = [(last_char q ?E, w, k)]" for q k
  proof -
    have "rmatch (ch NL) (q, ?E @ w, k) = []" by (subst E) (simp add: NL_def)
    then show ?thesis by (simp add: g_def rmatch_lit)
  qed
  then have "g (?xs ! length v) = [(last_char (last_char p v) ?E, w, [(1, v)])]" by (simp del: upt_Suc add: nth_append)
  moreover have "g (?xs ! i) = []" if "i < length v" for i using early [OF that] that by (simp del: upt_Suc)
  moreover have "length v < length ?xs" by simp
  ultimately show ?thesis using concat_first [of "length v" g ?xs] unfolding step xs by blast
qed

end
