(* ===== verification/Lenet.thy ===== *)
theory Lenet
  imports Resnet50 VpLog
begin

text \<open>
  The LeNet workload (tools/nvdla_test_framework/lenet.py): fetching the pinned sources, compiling the
  workload and its manifest, the analysis of a run on the modern platform, and the comparison of a
  modern run with a stock one.
\<close>

definition LENET_WORKLOAD :: string where
  "LENET_WORKLOAD = ''lenet_mnist''"

definition LENET_SMALL_OUTPUT :: string where
  "LENET_SMALL_OUTPUT = ''0 2 0 0 0 0 0 124 0 0''"

subsection \<open>Sources\<close>

definition lenet_spec :: "fs \<Rightarrow> path \<Rightarrow> json res" where
  "lenet_spec fs lock_path = bindE (read_json fs lock_path) (workload_spec LENET_WORKLOAD)"

definition lenet_source_dir :: "fs \<Rightarrow> path \<Rightarrow> path \<Rightarrow> path res" where
  "lenet_source_dir fs lock_path sources_dir = bindE (lenet_spec fs lock_path) (\<lambda>spec.
     bindE (jget_or spec (JStr ''lenet-mnist'') ''source_dir'') (path_at sources_dir))"

definition check_lenet :: "build_env \<Rightarrow> fs \<Rightarrow> path \<Rightarrow> json \<Rightarrow> json res" where
  "check_lenet b fs p item = bindE (jat item ''sha256'') (verify_resnet (env.truncate b) fs p)"

definition lenet_record :: "json \<Rightarrow> json \<Rightarrow> string \<Rightarrow> json res" where
  "lenet_record item actual status = bindE (jat item ''name'') (\<lambda>n. bindE (jat item ''url'') (\<lambda>u.
     Inr (JDict [(''name'', n), (''url'', u), (''sha256'', actual), (''status'', JStr status)])))"

definition fetch_lenet_item :: "build_env \<Rightarrow> path \<Rightarrow> json \<Rightarrow> json list \<times> fs \<Rightarrow> (json list \<times> fs) res" where
  "fetch_lenet_item b destination item s =
     bindE (bindE (jat item ''name'') (path_at destination)) (\<lambda>_. bindE (jat item ''sha256'') (\<lambda>_.
     fetch_item b (check_lenet b) lenet_record destination item s))"

definition fetch_lenet_sources :: "build_env \<Rightarrow> path \<Rightarrow> path \<Rightarrow> fs \<Rightarrow> fs res" where
  "fetch_lenet_sources b lock_path sources_dir fs =
     bindE (lenet_spec fs lock_path) (\<lambda>spec.
     bindE (lenet_source_dir fs lock_path sources_dir) (\<lambda>out.
     bindE (bindE (jat spec ''files'') jlist) (\<lambda>items.
     bindE (foldE (fetch_lenet_item b out) items ([], fs)) (\<lambda>(records, fs1).
     Inr (write_json (env.truncate b) (out @ [''manifest.json'']) (JDict [(''schema_version'', JInt 1),
       (''name'', JStr LENET_WORKLOAD), (''source_dir'', JStr (path_str out)), (''files'', JList records)]) fs1)))))"

subsection \<open>The build\<close>

definition lenet_candidates :: "string list" where
  "lenet_candidates = COMPILER_CANDIDATES @ [''/usr/local/nvdla/sw/outdir/ubuntu/nvdla_compiler'',
     ''/usr/local/nvdla/sw/outdir/x86_64-linux/nvdla_compiler'']"

definition lenet_command :: "compiler_options \<Rightarrow> string" where
  "lenet_command o' = ''set -eu; rm -rf /work/wisdom.dir /work/fast-math.nvdla /work/output.protobuf; ''
     @ ''cp /src/lenet_mnist.prototxt /src/lenet_mnist.caffemodel /src/lenet_mnist.json /src/seven.pgm /work/; cd /work; compiler_bin=''
     @ [SQ, SQ] @ ''; for candidate in '' @ join '' '' lenet_candidates @ ''; do if [ -x '' @ [DQ] @ ''$candidate'' @ [DQ]
     @ '' ]; then compiler_bin='' @ [DQ] @ ''$candidate'' @ [DQ] @ ''; break; fi; done; if [ -z '' @ [DQ] @ ''$compiler_bin'' @ [DQ]
     @ '' ]; then compiler_bin=$(find /usr/local/nvdla -type f -name nvdla_compiler -print -quit 2>/dev/null || true); fi; if [ -z ''
     @ [DQ] @ ''$compiler_bin'' @ [DQ] @ '' ] || [ ! -x '' @ [DQ] @ ''$compiler_bin'' @ [DQ] @ '' ]; then echo '' @ [SQ]
     @ ''nvdla_compiler not found in Docker image'' @ [SQ] @ '' >&2; exit 127; fi; compiler_dir=$(dirname '' @ [DQ] @ ''$compiler_bin'' @ [DQ]
     @ ''); export LD_LIBRARY_PATH=$compiler_dir:/usr/local/nvdla:/usr/local/nvdla/sw/prebuilt/linux:${LD_LIBRARY_PATH:-}; echo ''
     @ [DQ] @ ''__NVDLA_COMPILER__=$compiler_bin'' @ [DQ] @ ''; '' @ [DQ] @ ''$compiler_bin'' @ [DQ]
     @ '' --prototxt lenet_mnist.prototxt --caffemodel lenet_mnist.caffemodel -o . ''
     @ co_profile o' @ '' '' @ co_cprecision o' @ '' '' @ co_configtarget o' @ '' --calibtable lenet_mnist.json ''
     @ co_quantization o' @ '' '' @ co_informat o' @ ''; mv fast-math.nvdla lenet_mnist.nv_small.nvdla''"

text \<open>Every source of the lock, copied to a directory.\<close>

definition copy_sources :: "path \<Rightarrow> path \<Rightarrow> json list \<Rightarrow> fs \<Rightarrow> fs res" where
  "copy_sources source destination items fs = foldE (\<lambda>item fs.
     bindE (jat item ''name'') (\<lambda>n. bindE (path_at source n) (\<lambda>s. bindE (path_at destination n) (\<lambda>d. copy_file s d fs)))) items fs"

text \<open>The names of the sources that are missing.\<close>

definition missing_sources :: "fs \<Rightarrow> path \<Rightarrow> json list \<Rightarrow> json list res" where
  "missing_sources fs source items = bindE (mapE (\<lambda>item. bindE (jat item ''name'') (\<lambda>n. bindE (path_at source n) (\<lambda>p.
     Inr (n, is_file fs p)))) items) (\<lambda>ns. Inr (map fst (List.filter (\<lambda>(n, present). \<not> present) ns)))"

definition compile_lenet :: "build_env \<Rightarrow> json \<Rightarrow> json \<Rightarrow> path \<Rightarrow> json list \<Rightarrow> path \<Rightarrow> fs \<Rightarrow> (compiled \<times> fs) res" where
  "compile_lenet b lock spec source items out_dir fs =
     (let stage = bd_root b @ [''.work'', ''lenet-compiler-input''] in
     bindE (jpath lock [''docker'', ''vp_latest'', ''image'']) (\<lambda>img.
     bindE (jstr img) (\<lambda>img_name.
     bindE (docker_backend b img_name fs) (\<lambda>(pre, backend, image_id).
     bindE (copy_sources source stage items fs) (\<lambda>fs1.
     bindE (jat spec ''compiler'') (\<lambda>compiler.
     bindE (compiler_options b compiler) (\<lambda>options.
     bindE (docker_mount_path b stage backend fs1) (\<lambda>stage_mount.
     bindE (docker_mount_path b out_dir backend fs1) (\<lambda>out_mount.
     bindE (case run_compiler b out_dir (docker_compile pre stage_mount out_mount img_name (lenet_command options)) fs1 of
         Inl OSError \<Rightarrow> Inl (RuntimeError ''LeNet compiler Docker command could not start'') | r \<Rightarrow> r) (\<lambda>(out, fs2).
     Inr (\<lparr>cp_image = img, cp_backend = backend, cp_image_id = image_id, cp_command = lenet_command options, cp_out = out\<rparr>, fs2)))))))))))"

definition lenet_document :: "build_env \<Rightarrow> json \<Rightarrow> path \<Rightarrow> path \<Rightarrow> json list \<Rightarrow> compiled \<Rightarrow> string \<Rightarrow> json \<Rightarrow> fs \<Rightarrow> json res" where
  "lenet_document b spec source out_dir items c loadable_sha expected fs =
     (let env = env.truncate b; loadable = out_dir @ [''lenet_mnist.nv_small.nvdla''] in
     bindE (mapE (\<lambda>item. source_record env source item fs) items) (\<lambda>files.
     bindE (bindE (bindE (jat spec ''compiler'') jitems) (jmerge (JDict [(''docker_image'', cp_image c), (''docker_image_id'', JStr (cp_image_id c)),
       (''docker_backend'', JStr (cp_backend c)), (''path'', compiler_path (cp_out c)), (''discovery_candidates'', JList (map JStr lenet_candidates)),
       (''command'', JStr (cp_command c))]))) (\<lambda>compiler.
     bindE (file_size fs loadable) (\<lambda>size_l.
     bindE (sha_file env fs (out_dir @ [''output.protobuf''])) (\<lambda>psha.
     bindE (file_size fs (out_dir @ [''output.protobuf''])) (\<lambda>psize.
     bindE (sha_file env fs (out_dir @ [''seven.pgm''])) (\<lambda>isha.
     bindE (jat spec ''target'') (\<lambda>target.
     Inr (JDict [(''schema_version'', JInt 1), (''name'', JStr ''lenet_small''), (''kind'', JStr ''compiled_caffe_lenet_mnist''),
       (''source'', JDict [(''source_dir'', JStr (path_str source)), (''files'', JList files)]), (''compiler'', compiler),
       (''loadable'', JDict [(''path'', JStr ''lenet_mnist.nv_small.nvdla''), (''sha256'', JStr loadable_sha), (''size_bytes'', JInt (int size_l))]),
       (''complexity'', JDict [(''loadable_size_bytes'', JInt (int size_l)), (''input_shape_nchw'', shape_json [1, 1, 28, 28]),
          (''output_elements'', JInt 10), (''hwl_count'', JInt 10),
          (''operation_counts'', JDict [(''Convolution'', JInt 4), (''SDP'', JInt 4), (''PDP'', JInt 2), (''CDP'', JInt 0), (''Rubik'', JInt 0), (''BDMA'', JInt 0)])]),
       (''output_protobuf'', JDict [(''path'', JStr ''output.protobuf''), (''sha256'', JStr psha), (''size_bytes'', JInt (int psize))]),
       (''image'', JDict [(''path'', JStr ''seven.pgm''), (''sha256'', JStr isha)]), (''expected_output'', expected),
       (''tolerance'', JDict [(''type'', JStr ''exact'')]), (''target'', target)])))))))))"

definition build_lenet_small_workload :: "build_env \<Rightarrow> path \<Rightarrow> path \<Rightarrow> path \<Rightarrow> fs \<Rightarrow> (json \<times> fs) res" where
  "build_lenet_small_workload b lock_path sources_dir out_dir fs =
     (let env = env.truncate b in
     bindE (lenet_spec fs lock_path) (\<lambda>spec.
     bindE (lenet_source_dir fs lock_path sources_dir) (\<lambda>source.
     bindE (bindE (jat spec ''files'') jlist) (\<lambda>items.
     bindE (missing_sources fs source items) (\<lambda>missing.
     bindE (guardE (missing = []) (FileNotFoundError ''missing LeNet source files'')) (\<lambda>_.
     bindE (mapE (\<lambda>item. bindE (bindE (jat item ''name'') (path_at source)) (\<lambda>p. check_lenet b fs p item)) items) (\<lambda>_.
     bindE (read_json fs lock_path) (\<lambda>lock.
     bindE (compile_lenet b lock spec source items out_dir fs) (\<lambda>(c, fs1).
     bindE (jget spec ''expected_loadable_sha256'') (\<lambda>wanted.
     bindE (sha_file env fs1 (out_dir @ [''lenet_mnist.nv_small.nvdla''])) (\<lambda>loadable_sha.
     bindE (if truthy wanted then bindE (jlower wanted) (\<lambda>w. guardE (upper loadable_sha = upper w) (ValueError ''compiled loadable hash mismatch''))
       else Inr ()) (\<lambda>_.
     bindE (copy_sources source out_dir items fs1) (\<lambda>fs2.
     bindE (jat spec ''expected_output'') (\<lambda>expected. bindE (jstr expected) (\<lambda>expected_text.
     let fs3 = write_file (out_dir @ [''expected-output.txt'']) (expected_text @ [NL]) fs2 in
     bindE (lenet_document b spec source out_dir items c loadable_sha expected fs3) (\<lambda>generated.
     Inr (generated, write_json env (out_dir @ [''generated-manifest.json'']) generated fs3)))))))))))))))))"

subsection \<open>What a log shows\<close>

record layer =
  ly_processor :: string
  ly_index :: int
  ly_roi :: int

definition layer_re :: rx where
  "layer_re = seq [lit ''Completed'', plus (Sym is_space), Cap 1 (plus (Sym is_word)), plus (Sym is_space), lit ''operation index'',
     plus (Sym is_space), Cap 2 (plus (Sym is_dec)), plus (Sym is_space), lit ''ROI'', plus (Sym is_space), Cap 3 (plus (Sym is_dec))]"

definition completed_layers :: "string \<Rightarrow> layer list" where
  "completed_layers tx = map (\<lambda>k. \<lparr>ly_processor = group 1 k, ly_index = dec_value (group 2 k), ly_roi = dec_value (group 3 k)\<rparr>)
     (re_finditer layer_re tx)"

definition layer_json :: "layer \<Rightarrow> json" where
  "layer_json l = JDict [(''processor'', JStr (ly_processor l)), (''index'', JInt (ly_index l)), (''roi'', JInt (ly_roi l))]"

definition progress_json :: "(int \<times> int) option \<Rightarrow> json" where
  "progress_json p = (case p of None \<Rightarrow> JDict [(''done'', JNull), (''total'', JNull)]
     | Some (d, t) \<Rightarrow> JDict [(''done'', JInt d), (''total'', JInt t)])"

definition hwl_pass_count :: "string \<Rightarrow> nat" where
  "hwl_pass_count tx = length (re_finditer (seq [WordB, lit ''10'', plus (Sym is_space), lit ''HWLs done,'', plus (Sym is_space),
     lit ''totally'', plus (Sym is_space), lit ''10'', plus (Sym is_space), lit ''layers'']) tx)"

text \<open>The text before the first occurrence of a marker.\<close>

fun text_before :: "string \<Rightarrow> string \<Rightarrow> string" where
  "text_before m [] = []"
| "text_before m (c # s) = (if prefix m (c # s) then [] else c # text_before m s)"

definition pre_dmesg_text :: "string \<Rightarrow> string" where
  "pre_dmesg_text tx = text_before ''__NVDLA_SECTION_dmesg_BEGIN__'' tx"

definition repeat_dir_re :: rx where
  "repeat_dir_re = seq [lit ''repeat-'', Cap 1 (plus (Sym is_dec)), Eol]"

definition repeat_output_paths :: "fs \<Rightarrow> path \<Rightarrow> (int \<times> path) list" where
  "repeat_output_paths fs artifact =
     (let base = artifact @ [''runtime-output''];
          names = List.filter (\<lambda>n. starts_with n ''repeat-'' \<and> path_exists fs (base @ [n, ''output.txt''])) (child_dirs fs base);
          paths = concat (map (\<lambda>n. case re_search repeat_dir_re n of None \<Rightarrow> [] | Some k \<Rightarrow> [(dec_value (group 1 k), base @ [n, ''output.txt''])]) names)
      in if paths = [] then [(1, base @ [''output.txt''])] else sort paths)"

record trace_hash =
  th_tag :: string
  th_index :: int
  th_fd :: int
  th_hash :: string
  th_first :: string

definition trace_hash_re :: rx where
  "trace_hash_re = seq [lit ''nvdla-trace'', plus (Sym is_space), Cap 1 (plus (Sym (\<lambda>c. \<not> is_space c))), plus (Sym is_space), lit ''index='',
     Cap 2 (plus (Sym is_dec)), plus (Sym is_space), lit ''fd='', Cap 3 (plus (Sym is_dec)), LStar dot, lit ''hash=0x'', Cap 4 (plus (Sym is_hex)),
     plus (Sym is_space), lit ''first='', Cap 5 (Star (Sym is_hex))]"

definition trace_hashes :: "string \<Rightarrow> trace_hash list" where
  "trace_hashes tx = map (\<lambda>k. \<lparr>th_tag = group 1 k, th_index = dec_value (group 2 k), th_fd = dec_value (group 3 k),
     th_hash = lower (group 4 k), th_first = lower (group 5 k)\<rparr>) (re_finditer trace_hash_re tx)"

definition count_tag :: "trace_hash \<Rightarrow> (string, nat) dict \<Rightarrow> (string, nat) dict" where
  "count_tag h tags = dict_set (th_tag h) (dict_get_or tags (th_tag h) 0 + 1) tags"

definition trace_tags :: "trace_hash list \<Rightarrow> (string, nat) dict" where
  "trace_tags hs = fold count_tag hs []"

definition lenet_trace_summary :: "string \<Rightarrow> json" where
  "lenet_trace_summary tx = (let hs = trace_hashes tx; tags = trace_tags hs in
     JDict [(''line_count'', JInt (int (sum_list (map snd tags)))), (''tags'', JDict (map (\<lambda>(t, n). (t, JInt (int n))) tags)),
       (''hashes'', JList (map (\<lambda>h. JDict [(''tag'', JStr (th_tag h)), (''index'', JInt (th_index h)), (''fd'', JInt (th_fd h)),
          (''hash'', JStr (th_hash h)), (''first'', JStr (th_first h))]) hs))])"

definition bad_pattern_lines :: "fs \<Rightarrow> path \<Rightarrow> string list" where
  "bad_pattern_lines fs p = List.filter (\<lambda>l. l \<noteq> []) (map strip (splitlines (read_opt fs p)))"

subsection \<open>The analysis of a run\<close>

record repeat_check =
  rc_index :: int
  rc_ok :: bool
  rc_actual :: string
  rc_sha :: "string option"
  rc_path :: string

text \<open>\<open>str(path.relative_to(artifact))\<close> for a path that exists.\<close>

definition output_path_text :: "fs \<Rightarrow> path \<Rightarrow> path \<Rightarrow> string" where
  "output_path_text fs artifact p = path_str (if path_exists fs p \<and> prefix artifact p then drop (length artifact) p else p)"

definition repeat_check :: "env \<Rightarrow> fs \<Rightarrow> path \<Rightarrow> string \<Rightarrow> int \<times> path \<Rightarrow> repeat_check" where
  "repeat_check env fs artifact expected = (\<lambda>(index, p).
     let actual = normal_output (read_opt fs p);
         sha = (case dict_get fs p of None \<Rightarrow> None | Some c \<Rightarrow> Some (upper (env_sha env c)))
     in \<lparr>rc_index = index, rc_ok = (actual = expected \<and> (case sha of None \<Rightarrow> False | Some h \<Rightarrow> h \<noteq> [])), rc_actual = actual, rc_sha = sha,
          rc_path = output_path_text fs artifact p\<rparr>)"

definition repeat_json :: "string \<Rightarrow> repeat_check \<Rightarrow> json" where
  "repeat_json expected r = JDict ([(''index'', JInt (rc_index r)), (''status'', JStr (if rc_ok r then ''pass'' else ''fail'')),
     (''expected_output'', JStr expected), (''actual_output'', JStr (rc_actual r)), (''output_sha256'', jopt (rc_sha r)), (''output_path'', JStr (rc_path r))]
     @ (if rc_ok r then [] else [(''reason'', JStr (if rc_actual r = [] then ''missing output'' else ''output mismatch''))]))"

text \<open>\<open>((manifest.get('inputs') or {}).get(name) or {}).get(key)\<close>.\<close>

definition input_field :: "json \<Rightarrow> string \<Rightarrow> string \<Rightarrow> json res" where
  "input_field manifest name key = bindE (jget manifest ''inputs'') (\<lambda>i. bindE (jget (jor i (JDict [])) name) (\<lambda>d. jget (jor d (JDict [])) key))"

record lenet_evidence =
  le_repeats :: "repeat_check list"
  le_requested :: int
  le_markers :: nat
  le_operations :: nat
  le_progress :: "(int \<times> int) option"
  le_bad :: "string list"
  le_hw :: json
  le_runner :: json
  le_probe :: "string option"
  le_render :: "string option"
  le_loadable :: json
  le_ram :: json

definition pass_count :: "lenet_evidence \<Rightarrow> nat" where
  "pass_count e = filter_count rc_ok (le_repeats e)"

definition lenet_classification :: "lenet_evidence \<Rightarrow> string" where
  "lenet_classification e =
     (if le_bad e \<noteq> [] then ''kernel_or_vp_bad_pattern''
      else if \<not> jeq (le_hw e) (JStr ''small'') \<or> le_probe e \<noteq> Some ''nvidia,nv_small'' \<or> \<not> jeq (le_loadable e) (JStr ''nv_small'') then ''config_mismatch''
      else if int (pass_count e) \<noteq> le_requested e \<or> pass_count e \<noteq> length (le_repeats e) then ''output_mismatch_or_missing''
      else if int (le_markers e) < le_requested e then ''incomplete_layer_execution''
      else ''pass'')"

definition lenet_manifest :: "fs \<Rightarrow> path \<Rightarrow> json res" where
  "lenet_manifest fs p = (if is_file fs p then read_json fs p else Inr (JDict []))"

text \<open>\<open>int(manifest.get('repeat_count') or manifest.get('repeat') or len(results) or 1)\<close>.\<close>

definition requested_repeat :: "json \<Rightarrow> nat \<Rightarrow> int res" where
  "requested_repeat manifest n = bindE (jget manifest ''repeat_count'') (\<lambda>a. bindE (jget manifest ''repeat'') (\<lambda>b.
     jint (jor a (jor b (if n = 0 then JInt 1 else JInt (int n))))))"

definition sorted_set :: "string list \<Rightarrow> string list" where
  "sorted_set xs = sort (remdups xs)"

text \<open>The expected output and the evidence of an artifact.\<close>

definition lenet_expected :: "json \<Rightarrow> string option \<Rightarrow> string res" where
  "lenet_expected manifest expected_output = (case expected_output of
       Some (c # s) \<Rightarrow> Inr (normal_output (c # s))
     | _ \<Rightarrow> bindE (jget manifest ''expected_output'') (\<lambda>v. bindE (jlower (jor v (JStr LENET_SMALL_OUTPUT))) (\<lambda>s. Inr (normal_output s))))"

definition lenet_evidence_of :: "env \<Rightarrow> fs \<Rightarrow> path \<Rightarrow> json \<Rightarrow> string \<Rightarrow> lenet_evidence res" where
  "lenet_evidence_of env fs artifact manifest expected =
     (let serial = read_opt fs (artifact @ [''serial.log'']);
          dmesg = read_opt fs (artifact @ [''dmesg.log'']);
          pre = pre_dmesg_text serial;
          analysis_text = (if pre = [] then dmesg else pre);
          bad = sorted_set (bad_patterns (serial @ [NL] @ dmesg) @ bad_pattern_lines fs (artifact @ [''bad-patterns.log'']));
          repeats = map (repeat_check env fs artifact expected) (repeat_output_paths fs artifact) in
      bindE (requested_repeat manifest (length repeats)) (\<lambda>requested.
      bindE (input_field manifest ''loadable'' ''config'') (\<lambda>loadable.
      bindE (jget manifest ''vp_hw_config'') (\<lambda>hw. bindE (jget manifest ''vp_runner'') (\<lambda>runner. bindE (jget manifest ''vp_ram'') (\<lambda>ram.
      Inr \<lparr>le_repeats = repeats, le_requested = requested, le_markers = hwl_pass_count analysis_text,
           le_operations = length (completed_layers analysis_text), le_progress = parse_hwl_progress analysis_text, le_bad = bad,
           le_hw = hw, le_runner = runner, le_probe = extract_probe_config (serial @ [NL] @ dmesg), le_render = extract_render_node serial,
           le_loadable = loadable, le_ram = ram\<rparr>))))))"

definition layer_summary :: "lenet_evidence \<Rightarrow> json" where
  "layer_summary e = JDict [(''completed_operations'', JInt (int (le_operations e))), (''hwl_pass_markers'', JInt (int (le_markers e))),
     (''expected_hwl_pass_markers'', JInt (le_requested e)), (''hwl_progress'', progress_json (le_progress e))]"

definition first_failure :: "string \<Rightarrow> lenet_evidence \<Rightarrow> json" where
  "first_failure expected e = (case find_first (\<lambda>r. \<not> rc_ok r) (le_repeats e) of None \<Rightarrow> JNull | Some r \<Rightarrow> repeat_json expected r)"

definition lenet_status :: "lenet_evidence \<Rightarrow> string" where
  "lenet_status e = (if lenet_classification e = ''pass'' then ''pass'' else ''fail'')"

definition lenet_analysis_json :: "path \<Rightarrow> string \<Rightarrow> lenet_evidence \<Rightarrow> json" where
  "lenet_analysis_json artifact expected e =
     JDict [(''schema_version'', JInt 1), (''artifact'', JStr (path_str artifact)), (''status'', JStr (lenet_status e)),
       (''classification'', JStr (lenet_classification e)), (''repeat_count'', JInt (le_requested e)), (''pass_count'', JInt (int (pass_count e))),
       (''first_failure'', first_failure expected e), (''repeat_results'', JList (map (repeat_json expected) (le_repeats e))),
       (''layer_summary'', layer_summary e), (''bad_patterns'', JList (map JStr (le_bad e))),
       (''config_proof'', JDict [(''vp_hw_config'', le_hw e), (''vp_runner'', le_runner e), (''probe_config'', jopt (le_probe e)),
          (''render_node'', jopt (le_render e)), (''loadable_config'', le_loadable e), (''vp_ram'', le_ram e)])]"

definition analyze_lenet_artifact :: "env \<Rightarrow> path \<Rightarrow> string option \<Rightarrow> path option \<Rightarrow> fs \<Rightarrow> (int \<times> lenet_evidence \<times> fs) res" where
  "analyze_lenet_artifact env artifact expected_output out fs =
     (let manifest_path = artifact @ [''manifest.json'']; out_path = (case out of Some p \<Rightarrow> p | None \<Rightarrow> artifact @ [''lenet-analysis.json'']) in
     bindE (lenet_manifest fs manifest_path) (\<lambda>manifest.
     bindE (lenet_expected manifest expected_output) (\<lambda>expected.
     bindE (lenet_evidence_of env fs artifact manifest expected) (\<lambda>e.
     let fs1 = write_json env out_path (lenet_analysis_json artifact expected e) fs;
         status = lenet_status e in
     bindE (if is_file fs1 manifest_path then
         bindE (jitems manifest) (\<lambda>kvs.
         Inr (write_json env manifest_path (JDict (fold (\<lambda>(k, v). dict_set k v)
           [(''status'', JStr status), (''reason'', if status = ''pass'' then JNull else JStr (lenet_classification e)),
            (''repeat_count'', JInt (le_requested e)), (''pass_count'', JInt (int (pass_count e))), (''first_failure'', first_failure expected e),
            (''repeat_results'', JList (map (repeat_json expected) (le_repeats e))), (''probe_config'', jopt (le_probe e)),
            (''render_node'', jopt (le_render e)), (''layer_summary'', layer_summary e),
            (''analysis'', JStr (path_str (if butlast out_path = artifact then drop (length artifact) out_path else out_path)))] kvs)) fs1))
       else Inr fs1) (\<lambda>fs2.
     Inr (if status = ''pass'' then 0 else 1, e, fs2))))))"

subsection \<open>Comparison with a stock run\<close>

definition latest_modern_artifact :: "fs \<Rightarrow> path \<Rightarrow> path res" where
  "latest_modern_artifact fs base =
     (case last_opt (sort (List.filter (\<lambda>n. ends_with n ''-vp-modern-lenet-full'') (child_dirs fs base))) of
        None \<Rightarrow> Inl (FileNotFoundError ''no modern LeNet artifacts'') | Some n \<Rightarrow> Inr (base @ [n]))"

definition sha_or_null :: "env \<Rightarrow> fs \<Rightarrow> path \<Rightarrow> json" where
  "sha_or_null env fs p = (case dict_get fs p of None \<Rightarrow> JNull | Some c \<Rightarrow> JStr (upper (env_sha env c)))"

record lenet_run =
  lr_output :: string
  lr_layers :: "layer list"
  lr_progress :: "(int \<times> int) option"
  lr_bad :: "string list"
  lr_document :: "(string \<times> json) list"

definition stock_summary :: "env \<Rightarrow> fs \<Rightarrow> path \<Rightarrow> lenet_run" where
  "stock_summary env fs d =
     (let output = d @ [''output-nvfull-visible.txt'']; dmesg = d @ [''dmesg-nvfull-visible.log'']; tx = read_opt fs dmesg;
          run = \<lparr>lr_output = normal_output (read_opt fs output), lr_layers = completed_layers tx, lr_progress = parse_hwl_progress tx,
            lr_bad = bad_patterns tx, lr_document = []\<rparr> in
      run\<lparr>lr_document := [(''dir'', JStr (path_str d)), (''output'', JStr (lr_output run)), (''output_sha256'', sha_or_null env fs output),
        (''completed_layers'', JList (map layer_json (lr_layers run))), (''hwl_progress'', progress_json (lr_progress run)),
        (''bad_patterns'', JList (map JStr (lr_bad run))), (''trace'', lenet_trace_summary tx), (''log'', JStr (path_str dmesg))]\<rparr>)"

definition modern_summary :: "env \<Rightarrow> fs \<Rightarrow> path \<Rightarrow> lenet_run res" where
  "modern_summary env fs d =
     (let manifest_path = d @ [''manifest.json'']; output_path = d @ [''runtime-output'', ''output.txt''];
          serial = read_opt fs (d @ [''serial.log'']); dmesg = read_opt fs (d @ [''dmesg.log'']);
          tx = (if dmesg = [] then serial else dmesg) in
     bindE (lenet_manifest fs manifest_path) (\<lambda>manifest.
     bindE (bindE (jget manifest ''actual_output'') (\<lambda>v. jlower (jor v (JStr (normal_output (read_opt fs output_path)))))) (\<lambda>output.
     bindE (jget manifest ''expected_output'') (\<lambda>expected. bindE (jget manifest ''status'') (\<lambda>status.
     bindE (input_field manifest ''module'' ''sha256'') (\<lambda>m. bindE (input_field manifest ''runtime'' ''sha256'') (\<lambda>r.
     bindE (input_field manifest ''loadable'' ''sha256'') (\<lambda>l. bindE (jget manifest ''vp_ram'') (\<lambda>ram.
     let run = \<lparr>lr_output = normal_output output, lr_layers = completed_layers tx, lr_progress = parse_hwl_progress tx,
           lr_bad = sorted_set (bad_patterns tx @ bad_pattern_lines fs (d @ [''bad-patterns.log''])), lr_document = []\<rparr> in
     Inr (run\<lparr>lr_document := [(''dir'', JStr (path_str d)), (''status'', status), (''expected_output'', expected), (''actual_output'', JStr (lr_output run)),
        (''output_sha256'', sha_or_null env fs output_path), (''completed_layers'', JList (map layer_json (lr_layers run))),
        (''hwl_progress'', progress_json (lr_progress run)), (''bad_patterns'', JList (map JStr (lr_bad run))), (''trace'', lenet_trace_summary tx),
        (''manifest'', JStr (path_str manifest_path)), (''module_sha256'', m), (''runtime_sha256'', r), (''loadable_sha256'', l), (''vp_ram'', ram)]\<rparr>))))))))))"

definition classify_control :: "lenet_run \<Rightarrow> lenet_run \<Rightarrow> string" where
  "classify_control stock modern =
     (if lr_bad modern \<noteq> [] then ''kernel_log_bad_pattern''
      else if lr_output modern = [] then ''missing_modern_output''
      else if lr_output modern = lr_output stock then ''pass''
      else if (case lr_progress modern of None \<Rightarrow> False | Some (d, t) \<Rightarrow> d = t \<and> d \<noteq> 0) then ''runtime_clean_output_mismatch''
      else if lr_layers modern \<noteq> [] then ''partial_execution_output_mismatch''
      else ''inconclusive_output_mismatch'')"

definition control_status :: "lenet_run \<Rightarrow> lenet_run \<Rightarrow> bool" where
  "control_status stock modern = (lr_output stock \<noteq> [] \<and> lr_output stock = lr_output modern \<and> lr_bad modern = [])"

definition compare_lenet_control :: "env \<Rightarrow> path \<Rightarrow> path option \<Rightarrow> path option \<Rightarrow> fs \<Rightarrow> (int \<times> fs) res" where
  "compare_lenet_control env stock_dir modern_dir out fs =
     bindE (case modern_dir of Some d \<Rightarrow> Inr d | None \<Rightarrow> latest_modern_artifact fs [''artifacts'']) (\<lambda>md.
     let stock = stock_summary env fs stock_dir in
     bindE (modern_summary env fs md) (\<lambda>modern.
     let output_match = (lr_output stock \<noteq> [] \<and> lr_output stock = lr_output modern);
         ok = control_status stock modern;
         result = JDict [(''schema_version'', JInt 1), (''status'', JStr (if ok then ''pass'' else ''fail'')),
           (''classification'', JStr (classify_control stock modern)), (''stock'', JDict (lr_document stock)), (''modern'', JDict (lr_document modern)),
           (''comparisons'', JDict [(''output_match'', JBool output_match), (''layer_sequence_match'', JBool (lr_layers stock = lr_layers modern)),
              (''stock_layer_count'', JInt (int (length (lr_layers stock)))), (''modern_layer_count'', JInt (int (length (lr_layers modern))))])];
         out_path = (case out of Some p \<Rightarrow> p | None \<Rightarrow> md @ [''lenet-compare.json''])
     in Inr (if ok then 0 else 1, write_json env out_path result fs)))"

subsection \<open>Facts\<close>

lemma lenet_status_pass:
  "lenet_status e = ''pass'' \<longleftrightarrow> le_bad e = [] \<and> jeq (le_hw e) (JStr ''small'') \<and> le_probe e = Some ''nvidia,nv_small'' \<and>
     jeq (le_loadable e) (JStr ''nv_small'') \<and> list_all rc_ok (le_repeats e) \<and> int (length (le_repeats e)) = le_requested e \<and>
     le_requested e \<le> int (le_markers e)"
proof -
  have "pass_count e = length (le_repeats e) \<longleftrightarrow> list_all rc_ok (le_repeats e)"
    by (simp add: pass_count_def filter_count_all list_all_iff)
  then show ?thesis by (auto simp: lenet_status_def lenet_classification_def)
qed

lemma repeat_check_ok:
  "rc_ok (repeat_check env fs artifact expected (i, p)) \<longleftrightarrow>
     (\<exists>c. read_text fs p = Inr c \<and> normal_output c = expected \<and> env_sha env c \<noteq> [])"
  by (auto simp: repeat_check_def Let_def read_opt_def read_text_def noneE_def upper_def split: option.splits)


text \<open>The comparison with a stock run reports \<open>pass\<close> exactly when its classification is \<open>pass\<close>.\<close>

theorem control_consistent:
  "control_status stock modern \<longleftrightarrow> classify_control stock modern = ''pass''"
  by (auto simp: control_status_def classify_control_def)

lemma fold_tags:
  "dict_get_or (fold count_tag hs d) t 0 = dict_get_or d t 0 + length (List.filter (\<lambda>h. th_tag h = t) hs)"
  by (induction hs arbitrary: d) (auto simp: count_tag_def dict_get_or_def split: option.splits)

lemma sum_dict_set:
  "distinct (dict_keys d) \<Longrightarrow> sum_list (map snd (dict_set k (Suc (dict_get_or d k 0)) d)) = Suc (sum_list (map snd d))"
proof (induction d)
  case (Cons a d)
  obtain j n where a: "a = (j, n)" by (cases a)
  show ?case
  proof (cases "j = k")
    case False
    then have "dict_get_or (a # d) k 0 = dict_get_or d k 0" by (simp add: a dict_get_or_def dict_get_def)
    with Cons False show ?thesis by (simp add: a dict_keys_def)
  qed (simp add: a dict_get_or_def dict_get_def)
qed (simp add: dict_get_or_def)

lemma fold_tags_sum:
  "distinct (dict_keys d) \<Longrightarrow> sum_list (map snd (fold count_tag hs d)) = sum_list (map snd d) + length hs"
proof (induction hs arbitrary: d)
  case (Cons h hs)
  have "distinct (dict_keys (count_tag h d))" using Cons.prems by (simp add: count_tag_def dict_set_distinct)
  with Cons show ?case by (simp add: count_tag_def sum_dict_set)
qed simp

text \<open>The tag counters of a trace summary count the trace lines of each tag, and their sum, the reported
  line count, is the number of trace lines.\<close>

theorem trace_tag_counts:
  "dict_get_or (trace_tags hs) t 0 = length (List.filter (\<lambda>h. th_tag h = t) hs) \<and>
   sum_list (map snd (trace_tags hs)) = length hs"
  using fold_tags [of hs "[]" t] fold_tags_sum [of "[]" hs] by (simp add: trace_tags_def dict_get_or_def dict_keys_def)

end
