(* ===== verification/Milestone.thy ===== *)
theory Milestone
  imports VpLog
begin

text \<open>
  The typesetting of the milestone report (tools/render_milestone_report_pdf.py): the fonts and styles,
  the inline subset of Markdown, the parser of the report into blocks, and the story a document is built
  from. The classes of reportlab are data here: a flowable is a value of \<open>flow\<close> with the arguments of its
  constructor, page lengths in millimetres, colours and constants by their names; laying a story out is
  reportlab's. A loop over \<open>lines[index:]\<close> is a recursion on the lines that are left. In the templates a
  back quote stands for a double quote. Facts: the parser keeps every letter of the report, the columns
  of a table fill the width, and the parts of the report are its lines.
\<close>

subsection \<open>Fonts and styles\<close>

definition font_files :: "(string, string) dict" where
  "font_files = [(''ReportSerif'', ''LiberationSerif-Regular.ttf''), (''ReportSerif-Bold'', ''LiberationSerif-Bold.ttf''),
     (''ReportSerif-Italic'', ''LiberationSerif-Italic.ttf''), (''ReportMono'', ''LiberationMono-Regular.ttf'')]"

definition font_dirs :: "path list" where
  "font_dirs = [rel_path ''C:/Windows/Fonts'', rel_path ''/usr/share/fonts/truetype/liberation2'']"

definition fonts_found :: "fs \<Rightarrow> (string, path) dict" where
  "fonts_found fs = fold (\<lambda>d. fold (\<lambda>(name, file) found.
     if path_exists fs (d @ [file]) \<and> dict_get found name = None then dict_set name (d @ [file]) found else found) font_files) font_dirs []"

text \<open>The fonts that are registered: all four or none.\<close>

definition register_fonts :: "fs \<Rightarrow> (string, path) dict" where
  "register_fonts fs = (let found = fonts_found fs in if length found = length font_files then found else [])"

definition font_name :: "bool \<Rightarrow> string \<Rightarrow> string" where
  "font_name reg role =
     (if role = ''regular'' then if reg then ''ReportSerif'' else ''Times-Roman''
      else if role = ''bold'' then if reg then ''ReportSerif-Bold'' else ''Times-Bold''
      else if role = ''italic'' then if reg then ''ReportSerif-Italic'' else ''Times-Italic''
      else if reg then ''ReportMono'' else ''Courier'')"

record para_style =
  ps_name :: string
  ps_parent :: "string option"
  ps_attributes :: "(string \<times> json) list"

definition body_style :: "bool \<Rightarrow> para_style" where
  "body_style reg = \<lparr>ps_name = ''ReportBody'', ps_parent = Some ''BodyText'', ps_attributes = [
         (''fontName'', JStr (font_name reg ''regular'')), (''fontSize'', JFloat (103 / 10)),
         (''leading'', JFloat (141 / 10)), (''alignment'', JStr ''TA_JUSTIFY''), (''textColor'', JStr ''#171717''),
         (''spaceAfter'', JInt 7), (''splitLongWords'', JBool True), (''allowWidows'', JInt 0), (''allowOrphans'', JInt 0)]\<rparr>"

definition build_styles :: "bool \<Rightarrow> (string, para_style) dict" where
  "build_styles reg = [
     (''body'', body_style reg),
     (''body_left'', \<lparr>ps_name = ''ReportBodyLeft'', ps_parent = Some ''ReportBody'', ps_attributes = [
         (''alignment'', JStr ''TA_LEFT'')]\<rparr>),
     (''heading1'', \<lparr>ps_name = ''ReportHeading1'', ps_parent = Some ''ReportBody'', ps_attributes = [
         (''fontName'', JStr (font_name reg ''bold'')), (''fontSize'', JInt 20), (''leading'', JInt 24),
         (''alignment'', JStr ''TA_LEFT''), (''spaceBefore'', JInt 0), (''spaceAfter'', JInt 16),
         (''keepWithNext'', JBool True)]\<rparr>),
     (''heading2'', \<lparr>ps_name = ''ReportHeading2'', ps_parent = Some ''ReportBody'', ps_attributes = [
         (''fontName'', JStr (font_name reg ''bold'')), (''fontSize'', JFloat (27 / 2)), (''leading'', JInt 17),
         (''alignment'', JStr ''TA_LEFT''), (''spaceBefore'', JInt 12), (''spaceAfter'', JInt 7),
         (''keepWithNext'', JBool True)]\<rparr>),
     (''caption'', \<lparr>ps_name = ''ReportCaption'', ps_parent = Some ''ReportBody'', ps_attributes = [
         (''fontName'', JStr (font_name reg ''italic'')), (''fontSize'', JInt 9), (''leading'', JFloat (23 / 2)),
         (''alignment'', JStr ''TA_CENTER''), (''spaceBefore'', JInt 3), (''spaceAfter'', JInt 10)]\<rparr>),
     (''list'', \<lparr>ps_name = ''ReportList'', ps_parent = Some ''ReportBody'', ps_attributes = [
         (''alignment'', JStr ''TA_LEFT''), (''leftIndent'', JInt 0), (''firstLineIndent'', JInt 0),
         (''spaceAfter'', JInt 2)]\<rparr>),
     (''code'', \<lparr>ps_name = ''ReportCode'', ps_parent = Some ''ReportBody'', ps_attributes = [
         (''fontName'', JStr (font_name reg ''mono'')), (''fontSize'', JFloat (37 / 5)), (''leading'', JFloat (47 / 5)),
         (''alignment'', JStr ''TA_LEFT''), (''leftIndent'', JInt 7), (''rightIndent'', JInt 7),
         (''borderColor'', JStr ''#b8b8b8''), (''borderWidth'', JFloat (1 / 2)), (''borderPadding'', JInt 7),
         (''backColor'', JStr ''#f5f5f2''), (''spaceBefore'', JInt 4), (''spaceAfter'', JInt 10)]\<rparr>),
     (''table'', \<lparr>ps_name = ''ReportTableCell'', ps_parent = Some ''ReportBody'', ps_attributes = [
         (''fontSize'', JFloat (38 / 5)), (''leading'', JFloat (47 / 5)), (''alignment'', JStr ''TA_LEFT''),
         (''spaceAfter'', JInt 0)]\<rparr>),
     (''table_header'', \<lparr>ps_name = ''ReportTableHeader'', ps_parent = Some ''ReportBody'', ps_attributes = [
         (''fontName'', JStr (font_name reg ''bold'')), (''fontSize'', JFloat (39 / 5)), (''leading'', JFloat (19 / 2)),
         (''alignment'', JStr ''TA_LEFT''), (''textColor'', JStr ''colors.white''), (''spaceAfter'', JInt 0)]\<rparr>),
     (''toc_title'', \<lparr>ps_name = ''TOCTitle'', ps_parent = Some ''ReportBody'', ps_attributes = [
         (''fontName'', JStr (font_name reg ''bold'')), (''fontSize'', JInt 21), (''leading'', JInt 25),
         (''alignment'', JStr ''TA_LEFT''), (''spaceAfter'', JInt 20)]\<rparr>),
     (''title_kicker'', \<lparr>ps_name = ''TitleKicker'', ps_parent = Some ''ReportBody'', ps_attributes = [
         (''fontName'', JStr (font_name reg ''bold'')), (''fontSize'', JInt 12), (''leading'', JInt 16),
         (''alignment'', JStr ''TA_CENTER''), (''textColor'', JStr ''#333333''), (''spaceAfter'', JInt 5)]\<rparr>),
     (''title'', \<lparr>ps_name = ''Title'', ps_parent = Some ''ReportBody'', ps_attributes = [
         (''fontName'', JStr (font_name reg ''bold'')), (''fontSize'', JInt 25), (''leading'', JInt 31),
         (''alignment'', JStr ''TA_CENTER''), (''textColor'', JStr ''#111111''), (''spaceAfter'', JInt 16)]\<rparr>),
     (''title_meta'', \<lparr>ps_name = ''TitleMeta'', ps_parent = Some ''ReportBody'', ps_attributes = [
         (''fontSize'', JInt 11), (''leading'', JInt 16), (''alignment'', JStr ''TA_CENTER''),
         (''textColor'', JStr ''#333333'')]\<rparr>)]"

definition toc_level_styles :: "bool \<Rightarrow> para_style list" where
  "toc_level_styles reg = [
     \<lparr>ps_name = ''TOCLevel1'', ps_parent = None, ps_attributes = [
         (''fontName'', JStr (font_name reg ''bold'')), (''fontSize'', JFloat (21 / 2)), (''leading'', JInt 15),
         (''leftIndent'', JInt 0), (''firstLineIndent'', JInt 0), (''spaceBefore'', JInt 4)]\<rparr>,
     \<lparr>ps_name = ''TOCLevel2'', ps_parent = None, ps_attributes = [
         (''fontName'', JStr (font_name reg ''regular'')), (''fontSize'', JFloat (19 / 2)), (''leading'', JInt 13),
         (''leftIndent'', JInt 13), (''firstLineIndent'', JInt 0), (''spaceBefore'', JInt 1)]\<rparr>]"


subsection \<open>The inline subset\<close>

definition markup_char :: "char \<Rightarrow> string" where
  "markup_char c = (if c = CHR ''&'' then ''&amp;'' else if c = CHR ''<'' then ''&lt;'' else if c = CHR ''>'' then ''&gt;'' else [c])"

text \<open>\<open>html.escape(text, quote=False)\<close>, and with the quotes.\<close>

definition markup_escape :: "string \<Rightarrow> string" where
  "markup_escape s = concat (map markup_char s)"

definition markup_quote :: "char \<Rightarrow> string" where
  "markup_quote c = (if c = DQ then ''&quot;'' else if c = SQ then ''&#x27;'' else markup_char c)"

definition markup_escape_quoted :: "string \<Rightarrow> string" where
  "markup_escape_quoted s = concat (map markup_quote s)"

text \<open>\<open>s.replace(old, new)\<close> for a non-empty \<open>old\<close>.\<close>

function replace_all :: "string \<Rightarrow> string \<Rightarrow> string \<Rightarrow> string" where
  "replace_all old new [] = []"
| "replace_all old new (c # s) =
     (if old \<noteq> [] \<and> prefix old (c # s) then new @ replace_all old new (drop (length old) (c # s)) else c # replace_all old new s)"
  by pat_completeness auto
termination by (relation "measure (\<lambda>(old, new, s). length s)") auto

definition code_re :: rx where
  "code_re = seq [ch (CHR 0x60), Cap 1 (plus (Sym (\<lambda>c. c \<noteq> CHR 0x60))), ch (CHR 0x60)]"

definition link_re :: rx where
  "link_re = seq [ch (CHR ''[''), Cap 1 (plus (Sym (\<lambda>c. c \<noteq> CHR '']''))), lit ''](''
     , Cap 2 (plus (Sym (\<lambda>c. c \<noteq> CHR '')''))), ch (CHR '')'')]"

definition bold_re :: rx where
  "bold_re = seq [lit ''**'', Cap 1 (plus (Sym (\<lambda>c. c \<noteq> CHR ''*''))), lit ''**'']"

definition italic_re :: rx where
  "italic_re = seq [NotBehind (\<lambda>c. c = CHR ''*''), ch (CHR ''*''), Cap 1 (plus (Sym (\<lambda>c. c \<noteq> CHR ''*''))), ch (CHR ''*''),
     NotAhead (\<lambda>c. c = CHR ''*'')]"

definition code_mark :: "nat \<Rightarrow> string" where
  "code_mark i = ''@@CODE'' @ show_nat i @ ''@@''"

definition code_tag :: "bool \<Rightarrow> string option \<Rightarrow> string \<Rightarrow> string" where
  "code_tag reg sz v = dq (''<font name=`'' @ font_name reg ''mono'' @ ''`'' @
     (case sz of None \<Rightarrow> [] | Some s \<Rightarrow> '' size=`'' @ s @ ''`'') @ ''>'') @ v @ ''</font>''"

text \<open>The code spans are held out while links, bold and italic text are marked.\<close>

definition hold_code :: "string \<Rightarrow> string \<times> string list" where
  "hold_code s = (let (ps, u) = sub_pieces code_re None [] s in
     (concat (map (\<lambda>(i, (t, k)). t @ code_mark i) (enumerate 0 ps)) @ u, map (\<lambda>(t, k). group 1 k) ps))"

definition inline_markup :: "bool \<Rightarrow> string option \<Rightarrow> string \<Rightarrow> string" where
  "inline_markup reg sz txt =
     (let (held, spans) = hold_code (markup_escape txt);
          linked = re_sub link_re (\<lambda>k. dq ''<link href=`'' @ group 2 k @ dq ''` color=`#1f4e79`>'' @ group 1 k @ ''</link>'') held;
          bold = re_sub bold_re (\<lambda>k. ''<b>'' @ group 1 k @ ''</b>'') linked;
          italic = re_sub italic_re (\<lambda>k. ''<i>'' @ group 1 k @ ''</i>'') bold
      in fold (\<lambda>(i, v). replace_all (code_mark i) (code_tag reg sz v)) (enumerate 0 spans) italic)"

subsection \<open>Tables\<close>

definition drop_bars :: "string \<Rightarrow> string" where
  "drop_bars s = (let t = (if starts_with s ''|'' then tl s else s) in if ends_with t ''|'' then butlast t else t)"

fun row_cells :: "bool \<Rightarrow> string \<Rightarrow> string \<Rightarrow> string list" where
  "row_cells in_code current [] = [strip (rev current)]"
| "row_cells in_code current (c # s) =
     (let in_code' = (if c = CHR 0x60 then \<not> in_code else in_code) in
      if c = CHR ''|'' \<and> \<not> in_code' then strip (rev current) # row_cells in_code' [] s
      else row_cells in_code' (c # current) s)"

definition split_table_row :: "string \<Rightarrow> string list" where
  "split_table_row line = row_cells False [] (drop_bars (strip line))"

definition separator_re :: rx where
  "separator_re = seq [Opt (ch (CHR '':'')), lit ''---'', Star (ch (CHR ''-'')), Opt (ch (CHR '':''))]"

definition is_table_separator :: "string \<Rightarrow> bool" where
  "is_table_separator line = (let cells = split_table_row line in
     cells \<noteq> [] \<and> list_all (\<lambda>c. re_fullmatch separator_re c \<noteq> None) cells)"

definition CONTENT_WIDTH :: rat where
  "CONTENT_WIDTH = 210 - 25 - 25"

definition column_ratios :: "(string list, rat list) dict" where
  "column_ratios = [
     ([''abbreviation'', ''meaning''], [25 / 100, 75 / 100]),
     ([''criterion'', ''required evidence''], [27 / 100, 73 / 100]),
     ([''component'', ''tested version or revision''], [25 / 100, 75 / 100]),
     ([''patch'', ''change'', ''reason''], [12 / 100, 34 / 100, 54 / 100]),
     ([''stage'', ''test'', ''faults isolated''], [10 / 100, 29 / 100, 61 / 100]),
     ([''layer'', ''recorded value'', ''result''], [27 / 100, 53 / 100, 20 / 100]),
     ([''metric'', ''result''], [37 / 100, 63 / 100]),
     ([''criterion'', ''evaluation''], [25 / 100, 75 / 100]),
     ([''evidence'', ''run or tracked source'', ''purpose''], [11 / 100, 39 / 100, 50 / 100])]"

definition table_widths :: "string list \<Rightarrow> nat \<Rightarrow> rat list" where
  "table_widths headers column_count =
     (let selected = (case dict_get column_ratios (map lower headers) of
          Some r \<Rightarrow> r | None \<Rightarrow> replicate column_count (1 / rat_of_nat column_count))
      in map (\<lambda>r. CONTENT_WIDTH * r) selected)"

subsection \<open>Blocks and flowables\<close>

datatype list_kind = Numbered | Bulleted

datatype block =
    Break
  | Heading nat string
  | Code "string list"
  | Table "string list" "string list list"
  | Items "(list_kind \<times> string) list"
  | Caption string
  | Para string

datatype flow =
    FSpacer rat
  | FParagraph string string
  | FHeading string string nat
  | FBreak
  | FPreformatted string nat
  | FTable "(string \<times> string) list list" "rat list" "(string \<times> json) list" "(string \<times> json list) list"
  | FList "(string \<times> string) list" "(string \<times> json) list"
  | FKeep "flow list"
  | FContents "para_style list"

definition cell_range :: "int \<Rightarrow> int \<Rightarrow> int \<Rightarrow> int \<Rightarrow> json list" where
  "cell_range a b c d = [JList [JInt a, JInt b], JList [JInt c, JInt d]]"

definition table_commands :: "nat \<Rightarrow> (string \<times> json list) list" where
  "table_commands n = [(''BACKGROUND'', cell_range 0 0 (- 1) 0 @ [JStr ''#343a40'']),
      (''TEXTCOLOR'', cell_range 0 0 (- 1) 0 @ [JStr ''colors.white'']), (''VALIGN'', cell_range 0 0 (- 1) (- 1) @ [JStr ''TOP'']),
      (''GRID'', cell_range 0 0 (- 1) (- 1) @ [JFloat (35 / 100), JStr ''#9c9c9c'']),
      (''LEFTPADDING'', cell_range 0 0 (- 1) (- 1) @ [JInt 5]), (''RIGHTPADDING'', cell_range 0 0 (- 1) (- 1) @ [JInt 5]),
      (''TOPPADDING'', cell_range 0 0 (- 1) (- 1) @ [JInt 4]), (''BOTTOMPADDING'', cell_range 0 0 (- 1) (- 1) @ [JInt 4])]
    @ map (\<lambda>i. (''BACKGROUND'', cell_range 0 (int i) (- 1) (int i) @ [JStr ''#f2f2ef''])) (List.filter (\<lambda>i. even i) [1..<n])"

text \<open>A row made as long as the header: short rows are filled up, long ones are cut.\<close>

definition fit_row :: "nat \<Rightarrow> string list \<Rightarrow> string list" where
  "fit_row n row = take n (row @ replicate (n - length row) [])"

definition make_table :: "bool \<Rightarrow> string list \<Rightarrow> string list list \<Rightarrow> flow" where
  "make_table reg header rows =
     (let n = length header; cells = (\<lambda>style row. map (\<lambda>cell. (style, inline_markup reg (Some ''6.8'') cell)) (fit_row n row)) in
      FTable (cells ''table_header'' header # map (cells ''table'') rows) (table_widths header n)
        [(''repeatRows'', JInt 1), (''hAlign'', JStr ''LEFT''), (''splitByRow'', JBool True), (''spaceBefore'', JInt 5), (''spaceAfter'', JInt 12)]
        (table_commands (Suc (length rows))))"

definition make_list :: "bool \<Rightarrow> (list_kind \<times> string) list \<Rightarrow> flow" where
  "make_list reg items = (let numbered = (fst (hd items) = Numbered) in
     FList (map (\<lambda>(_, v). (''list'', inline_markup reg (Some ''8.3'') v)) items)
       [(''bulletType'', JStr (if numbered then ''1'' else ''bullet'')), (''start'', JStr (if numbered then ''1'' else ''-'')),
        (''leftIndent'', JInt 22), (''bulletFontName'', JStr (font_name reg ''regular'')), (''bulletFontSize'', JFloat (19 / 2)),
        (''bulletOffsetY'', JInt 1), (''spaceBefore'', JInt 2), (''spaceAfter'', JInt 8)])"

definition heading_flow :: "bool \<Rightarrow> string \<Rightarrow> nat \<Rightarrow> flow" where
  "heading_flow reg txt level = FHeading (inline_markup reg None txt) (if level = 1 then ''heading1'' else ''heading2'') (level - 1)"

definition long_code_re :: rx where
  "long_code_re = seq [ch (CHR 0x60), repeat 18 (Sym (\<lambda>c. c \<noteq> CHR 0x60)), Star (Sym (\<lambda>c. c \<noteq> CHR 0x60)), ch (CHR 0x60)]"

definition reference_re :: rx where
  "reference_re = seq [Bol, ch (CHR ''[''), plus (Sym is_dec), ch (CHR '']'')]"

definition paragraph_flow :: "bool \<Rightarrow> string \<Rightarrow> flow" where
  "paragraph_flow reg txt = FParagraph (if re_search long_code_re txt \<noteq> None \<or> re_match reference_re txt \<noteq> None then ''body_left'' else ''body'')
     (inline_markup reg (Some ''8.3'') txt)"

fun flow_of :: "bool \<Rightarrow> block \<Rightarrow> flow" where
  "flow_of reg Break = FBreak"
| "flow_of reg (Heading level txt) = heading_flow reg txt level"
| "flow_of reg (Code ls) = FPreformatted (join [NL] ls) 96"
| "flow_of reg (Table header rows) = make_table reg header rows"
| "flow_of reg (Items items) = make_list reg items"
| "flow_of reg (Caption txt) = FParagraph ''caption'' (inline_markup reg (Some ''8.3'') txt)"
| "flow_of reg (Para txt) = paragraph_flow reg txt"

subsection \<open>Lists\<close>

definition marker_re :: rx where
  "marker_re = Cat Bol (Cat (Star (Sym is_space)) (Cat (Alt (Cat (Cap 1 (plus (Sym is_dec))) (ch (CHR ''.''))) (Cap 2 (ch (CHR ''-''))))
     (plus (Sym is_space))))"

definition item_re :: rx where
  "item_re = Cat marker_re (Cat (Cap 3 (Star dot)) Eol)"

definition kind_of :: "(nat \<times> string) list \<Rightarrow> list_kind" where
  "kind_of k = (if group 1 k \<noteq> [] then Numbered else Bulleted)"

definition is_item :: "string \<Rightarrow> bool" where
  "is_item line = (re_match marker_re line \<noteq> None)"

definition blank :: "string \<Rightarrow> bool" where
  "blank line = (strip line = [])"

fun continuation :: "string list \<Rightarrow> string list \<times> string list" where
  "continuation [] = ([], [])"
| "continuation (line # ls) =
     (if blank line \<or> is_item line \<or> \<not> starts_with line ''  '' then ([], line # ls)
      else let (cont, rest) = continuation ls in (strip line # cont, rest))"

lemma continuation_length: "length (snd (continuation ls)) \<le> length ls"
  by (induction ls) (auto simp: case_prod_beta)

definition item_value :: "(nat \<times> string) list \<Rightarrow> string list \<Rightarrow> string" where
  "item_value k cont = (if cont = [] then strip (group 3 k) else join '' '' (strip (group 3 k) # cont))"

text \<open>Where a list may go on: at the next line or, after blank lines, at an item of the same kind.\<close>

definition after_item :: "list_kind \<Rightarrow> string list \<Rightarrow> string list option" where
  "after_item kind rest = (case rest of [] \<Rightarrow> Some [] | line # _ \<Rightarrow>
     if \<not> blank line then Some rest
     else (let after = dropWhile blank rest in case after of [] \<Rightarrow> None
       | line' # _ \<Rightarrow> (case re_match marker_re line' of None \<Rightarrow> None | Some k \<Rightarrow> if kind_of k = kind then Some after else None)))"

lemma after_item_cases: "after_item kind rest = Some after \<Longrightarrow> after = rest \<or> after = dropWhile blank rest"
  by (simp add: after_item_def Let_def split: list.splits option.splits if_splits)

lemma after_item_length: "after_item kind rest = Some after \<Longrightarrow> length after \<le> length rest"
  using after_item_cases [of kind rest after] dropWhile_length_le [of blank rest] by auto

function consume_items :: "list_kind \<Rightarrow> string list \<Rightarrow> (list_kind \<times> string) list \<times> string list" where
  "consume_items kind [] = ([], [])"
| "consume_items kind (line # ls) = (case re_match item_re line of
       None \<Rightarrow> ([], line # ls)
     | Some k \<Rightarrow>
         if kind_of k \<noteq> kind then ([], line # ls)
         else (let cont = continuation ls; item = (kind, item_value k (fst cont)) in
           case after_item kind (snd cont) of
             None \<Rightarrow> ([item], snd cont)
           | Some nxt \<Rightarrow> (let r = consume_items kind nxt in (item # fst r, snd r))))"
  by pat_completeness auto
termination
proof (relation "measure (\<lambda>(kind, ls). length ls)")
  fix kind line ls k cont item nxt
  assume "cont = continuation ls" "after_item kind (snd cont) = Some nxt"
  then have "length nxt \<le> length ls"
    using continuation_length [of ls] after_item_length [of kind "snd cont" nxt] by simp
  then show "((kind, nxt), kind, line # ls) \<in> measure (\<lambda>(kind, ls). length ls)" by simp
qed simp

definition consume_list :: "string list \<Rightarrow> (list_kind \<times> string) list \<times> string list" where
  "consume_list ls = (case ls of [] \<Rightarrow> ([], []) | line # _ \<Rightarrow> (case re_match item_re line of
       None \<Rightarrow> ([], ls) | Some k \<Rightarrow> consume_items (kind_of k) ls))"

subsection \<open>The parser\<close>

definition heading_start_re :: rx where
  "heading_start_re = Cat Bol (Cat (Cap 1 (Cat (lit ''##'') (Opt (ch (CHR ''#''))))) (plus (Sym is_space)))"

definition heading_re :: rx where
  "heading_re = Cat heading_start_re (Cat (Cap 2 (plus dot)) Eol)"

definition caption_re :: rx where
  "caption_re = seq [lit ''*Figure '', plus dot, ch (CHR ''*'')]"

definition FENCE :: string where
  "FENCE = replicate 3 (CHR 0x60)"

definition is_fence :: "string \<Rightarrow> bool" where
  "is_fence line = starts_with line FENCE"

definition bar_start :: "string \<Rightarrow> bool" where
  "bar_start line = starts_with (lstrip line) ''|''"

definition table_start :: "string list \<Rightarrow> bool" where
  "table_start ls = (case ls of line # sep # _ \<Rightarrow> bar_start line \<and> is_table_separator sep | _ \<Rightarrow> False)"

fun take_table :: "string list \<Rightarrow> string list list \<times> string list" where
  "take_table [] = ([], [])"
| "take_table (line # ls) = (if bar_start line then (let (rows, rest) = take_table ls in (split_table_row line # rows, rest)) else ([], line # ls))"

fun take_paragraph :: "string list \<Rightarrow> string list \<times> string list" where
  "take_paragraph [] = ([], [])"
| "take_paragraph (line # ls) =
     (if blank line \<or> re_match heading_start_re line \<noteq> None \<or> is_fence line \<or> table_start (line # ls) \<or> is_item line
      then ([], line # ls)
      else let (cont, rest) = take_paragraph ls in (strip line # cont, rest))"

lemma take_table_length: "length (snd (take_table ls)) \<le> length ls"
  by (induction ls) (auto simp: case_prod_beta)

lemma take_paragraph_length: "length (snd (take_paragraph ls)) \<le> length ls"
  by (induction ls) (auto simp: case_prod_beta)

lemma consume_items_length: "length (snd (consume_items kind ls)) \<le> length ls"
proof (induction kind ls rule: consume_items.induct)
  case (2 kind line ls)
  show ?case
  proof (cases "re_match item_re line")
    case (Some k)
    note IH = "2.IH" [OF Some _ refl refl]
    have c: "length (snd (continuation ls)) \<le> length ls" by (rule continuation_length)
    show ?thesis
    proof (cases "after_item kind (snd (continuation ls))")
      case None
      then show ?thesis using Some c by (simp add: Let_def)
    next
      case (Some nxt)
      then show ?thesis using \<open>re_match item_re line = Some k\<close> c IH [OF _ Some] after_item_length [OF Some]
        by (cases "kind_of k = kind") (simp_all add: Let_def)
    qed
  qed simp
qed simp

text \<open>A list takes at least the line it starts at.\<close>

lemma consume_list_progress: "length (snd (consume_list (line # ls))) < length (line # ls) \<or> fst (consume_list (line # ls)) = []"
proof (cases "re_match item_re line")
  case (Some k)
  have c: "length (snd (continuation ls)) \<le> length ls" by (rule continuation_length)
  show ?thesis
  proof (cases "after_item (kind_of k) (snd (continuation ls))")
    case None
    then show ?thesis using Some c by (simp add: consume_list_def Let_def)
  next
    case (Some nxt)
    then show ?thesis using \<open>re_match item_re line = Some k\<close> c after_item_length [OF Some] consume_items_length [of "kind_of k" nxt]
      by (simp add: consume_list_def Let_def)
  qed
qed (simp add: consume_list_def)

text \<open>One turn of the parser's loop: the blocks it adds, whether a heading has been seen, and the lines left.
  A list without items raises an error where its first item is read.\<close>

definition heading_level :: "(nat \<times> string) list \<Rightarrow> nat" where
  "heading_level k = (if length (group 1 k) = 2 then 1 else 2)"

definition next_block :: "bool \<Rightarrow> bool \<Rightarrow> string \<Rightarrow> string list \<Rightarrow> (block list \<times> bool \<times> string list) res" where
  "next_block page_breaks unseen line ls =
     (if blank line then Inr ([], unseen, ls)
      else case re_match heading_re line of
        Some k \<Rightarrow> (let level = heading_level k in
            Inr ((if level = 1 \<and> page_breaks \<and> \<not> unseen then [Break] else []) @ [Heading level (strip (group 2 k))], False, ls))
      | None \<Rightarrow>
        if is_fence line then Inr ([Code (takeWhile (Not \<circ> is_fence) ls)], unseen, drop 1 (dropWhile (Not \<circ> is_fence) ls))
        else if table_start (line # ls) then
          (let t = take_table (drop 1 ls) in Inr ([Table (split_table_row line) (fst t)], unseen, snd t))
        else if is_item line then
          (let l = consume_list (line # ls) in if fst l = [] then Inl IndexError else Inr ([Items (fst l)], unseen, snd l))
        else if re_fullmatch caption_re (strip line) \<noteq> None then Inr ([Caption (butlast (tl (strip line)))], unseen, ls)
        else (let p = take_paragraph ls in Inr ([Para (join '' '' (strip line # fst p))], unseen, snd p)))"

lemma next_block_length:
  assumes "next_block pb unseen line ls = Inr (bs, unseen', rest)"
  shows "length rest \<le> length ls"
proof -
  have "length (drop 1 (dropWhile (Not \<circ> is_fence) ls)) \<le> length ls"
    using dropWhile_length_le [of "Not \<circ> is_fence" ls] by simp
  moreover have "length (snd (take_table (drop 1 ls))) \<le> length ls" using take_table_length [of "drop 1 ls"] by simp
  ultimately show ?thesis
    using assms take_paragraph_length [of ls] consume_list_progress [of line ls]
    by (auto simp: next_block_def Let_def split: if_splits option.splits)
qed

function block_loop :: "bool \<Rightarrow> bool \<Rightarrow> string list \<Rightarrow> block list res" where
  "block_loop page_breaks unseen [] = Inr []"
| "block_loop page_breaks unseen (line # ls) = (case next_block page_breaks unseen line ls of
       Inl e \<Rightarrow> Inl e
     | Inr (bs, unseen', rest) \<Rightarrow> bindE (block_loop page_breaks unseen' rest) (\<lambda>more_bs. Inr (bs @ more_bs)))"
  by pat_completeness auto
termination by (relation "measure (\<lambda>(pb, u, ls). length ls)") (auto dest: next_block_length)

definition parse_blocks :: "bool \<Rightarrow> bool \<Rightarrow> string list \<Rightarrow> flow list res" where
  "parse_blocks reg page_breaks ls = bindE (block_loop page_breaks True ls) (\<lambda>bs. Inr (map (flow_of reg) bs))"

subsection \<open>The parts of the report\<close>

fun list_index :: "string \<Rightarrow> string list \<Rightarrow> nat option" where
  "list_index x [] = None"
| "list_index x (y # ys) = (if y = x then Some 0 else map_option Suc (list_index x ys))"

record report_parts =
  rp_title :: string
  rp_abstract :: "string list"
  rp_abbreviations :: "string list"
  rp_body :: "string list"

definition split_report :: "string \<Rightarrow> report_parts res" where
  "split_report markdown =
     (let ls = splitlines markdown in
      if ls = [] \<or> \<not> starts_with (hd ls) ''# '' then Inl (ValueError ''report must start with a level-one title'')
      else bindE (noneE (ValueError ''not in list'') (list_index ''## Abstract'' ls)) (\<lambda>a.
        bindE (noneE (ValueError ''not in list'') (list_index ''## Abbreviations'' ls)) (\<lambda>b.
        bindE (noneE StopIteration (find_first (\<lambda>i. starts_with (ls ! i) ''## 1 '') [b + 1..<length ls])) (\<lambda>c.
        Inr \<lparr>rp_title = strip (drop 2 (hd ls)), rp_abstract = take (b - (a + 1)) (drop (a + 1) ls),
             rp_abbreviations = take (c - (b + 1)) (drop (b + 1) ls), rp_body = drop c ls\<rparr>))))"

subsection \<open>The document\<close>

text \<open>\<open>title.partition(colon)\<close>.\<close>

definition title_parts :: "string \<Rightarrow> string \<times> string" where
  "title_parts t = split_first (CHR '':'') t"

definition title_page :: "bool \<Rightarrow> string \<Rightarrow> string \<Rightarrow> string \<Rightarrow> flow list" where
  "title_page reg title author report_date =
     (let (milestone, report_title) = title_parts title in
      [FSpacer 23, FParagraph ''title_kicker'' ''The University of Manchester'', FParagraph ''title_kicker'' ''Department of Computer Science'',
       FSpacer 18, FParagraph ''title_kicker'' ''Project Report'', FSpacer 8, FParagraph ''title_kicker'' (inline_markup reg None milestone),
       FParagraph ''title'' (inline_markup reg None (strip report_title)), FSpacer 10,
       FKeep [FParagraph ''title_meta'' (''<b>Author:</b> '' @ markup_escape_quoted author), FParagraph ''title_meta'' (''<b>Date:</b> '' @ markup_escape_quoted report_date)],
       FSpacer 38, FParagraph ''title_meta'' ''Modern Linux KMD/UMD implementation and virtual-platform correctness validation'', FBreak])"

definition contents_page :: "bool \<Rightarrow> flow list" where
  "contents_page reg = [FParagraph ''toc_title'' ''Contents'', FContents (toc_level_styles reg), FBreak]"

record report_document =
  rd_output :: path
  rd_title :: string
  rd_author :: string
  rd_fonts :: "(string, path) dict"
  rd_styles :: "(string, para_style) dict"
  rd_story :: "flow list"

definition PAGE_SIZE :: "rat \<times> rat" where
  "PAGE_SIZE = (210, 297)"

text \<open>The arguments of the document template and of its only frame, in millimetres.\<close>

definition document_template :: "report_document \<Rightarrow> (string \<times> json) list \<times> json list" where
  "document_template d =
     ([(''filename'', JStr (path_str (rd_output d))), (''pagesize'', JStr ''A4''), (''leftMargin'', JFloat 25), (''rightMargin'', JFloat 25),
       (''topMargin'', JFloat 23), (''bottomMargin'', JFloat 21), (''title'', JStr (rd_title d)), (''author'', JStr (rd_author d)),
       (''subject'', JStr ''Modern Linux NVDLA KMD and UMD milestone report'')],
      [JFloat 25, JFloat 21, JFloat CONTENT_WIDTH, JFloat (snd PAGE_SIZE - 23 - 21), JStr ''report-frame''])"

text \<open>What \<open>render\<close> hands to reportlab.\<close>

definition ascii_text :: "string \<Rightarrow> string res" where
  "ascii_text s = (if list_all (\<lambda>c. code c < 128) s then Inr s else Inl (ValueError ''ascii''))"

definition render :: "fs \<Rightarrow> path \<Rightarrow> path \<Rightarrow> string \<Rightarrow> string \<Rightarrow> report_document res" where
  "render fs input output author report_date =
     (let fonts = register_fonts fs; reg = (fonts \<noteq> []) in
      bindE (bindE (read_universal fs input) ascii_text) (\<lambda>markdown. bindE (split_report markdown) (\<lambda>parts.
      bindE (parse_blocks reg False (rp_abstract parts)) (\<lambda>abstract. bindE (parse_blocks reg False (rp_abbreviations parts)) (\<lambda>abbreviations.
      bindE (parse_blocks reg True (rp_body parts)) (\<lambda>body.
      Inr \<lparr>rd_output = output, rd_title = rp_title parts, rd_author = author, rd_fonts = fonts, rd_styles = build_styles reg,
        rd_story = title_page reg (rp_title parts) author report_date @ [heading_flow reg ''Abstract'' 1] @ abstract @ [FBreak]
          @ [heading_flow reg ''Abbreviations'' 1] @ abbreviations @ [FBreak] @ contents_page reg @ body\<rparr>))))))"

text \<open>The running head of a page: the calls on the canvas.\<close>

definition draw_page :: "bool \<Rightarrow> report_document \<Rightarrow> int \<Rightarrow> (string \<times> json list) list" where
  "draw_page reg d page = [(''saveState'', []), (''setTitle'', [JStr (rd_title d)]), (''setAuthor'', [JStr (rd_author d)])]
     @ (if page > 1 then [(''setStrokeColor'', [JStr ''#b0b0b0'']), (''setLineWidth'', [JFloat (4 / 10)]),
          (''line'', [JFloat 25, JFloat (snd PAGE_SIZE - 15), JFloat (fst PAGE_SIZE - 25), JFloat (snd PAGE_SIZE - 15)]), (''setFont'', [JStr (font_name reg ''regular''), JInt 8]),
          (''setFillColor'', [JStr ''#555555'']), (''drawString'', [JFloat 25, JFloat (snd PAGE_SIZE - 12), JStr ''Milestone 1 - NVDLA Software Stack'']),
          (''drawCentredString'', [JFloat (fst PAGE_SIZE / 2), JFloat 10, JStr (show_int (page - 1))])] else [])
     @ [(''restoreState'', [])]"

text \<open>The bookmarks of the headings. A document is laid out several times over the same flowables, here
  numbered; a heading keeps the name it was given first.\<close>

record toc_state =
  ts_index :: nat
  ts_names :: "(nat, string) dict"
  ts_entries :: "(nat \<times> string \<times> int \<times> string) list"

definition after_flowable :: "int \<Rightarrow> nat \<times> string \<times> nat option \<Rightarrow> toc_state \<Rightarrow> toc_state" where
  "after_flowable page f s = (case f of (i, txt, None) \<Rightarrow> s
     | (i, txt, Some level) \<Rightarrow> (case dict_get (ts_names s) i of
          Some key \<Rightarrow> s\<lparr>ts_entries := ts_entries s @ [(level, txt, page - 1, key)]\<rparr>
        | None \<Rightarrow> (let key = ''heading-'' @ show_nat (ts_index s) in
            s\<lparr>ts_index := Suc (ts_index s), ts_names := dict_set i key (ts_names s), ts_entries := ts_entries s @ [(level, txt, page - 1, key)]\<rparr>)))"

subsection \<open>The text of a report is kept\<close>

definition letters :: "string \<Rightarrow> string" where
  "letters s = List.filter is_alpha s"

fun block_text :: "block \<Rightarrow> string list" where
  "block_text Break = []"
| "block_text (Heading level txt) = [txt]"
| "block_text (Code ls) = ls"
| "block_text (Table header rows) = header @ concat rows"
| "block_text (Items items) = map snd items"
| "block_text (Caption txt) = [txt]"
| "block_text (Para txt) = [txt]"

definition text_letters :: "string list \<Rightarrow> string" where
  "text_letters ls = concat (map letters ls)"

named_theorems letter_simps "letters of composed texts"

lemma letters_append [letter_simps]: "letters (a @ b) = letters a @ letters b"
  and letters_Nil [letter_simps]: "letters [] = []"
  and letters_Cons: "letters (c # s) = (if is_alpha c then c # letters s else letters s)"
  and letters_rev: "letters (rev s) = rev (letters s)"
  by (simp_all add: letters_def rev_filter)

lemma text_letters_simps [letter_simps]: "text_letters [] = []" "text_letters (x # xs) = letters x @ text_letters xs"
  "text_letters (xs @ ys) = text_letters xs @ text_letters ys"
  by (simp_all add: text_letters_def)

lemma space_no_letter: "is_space c \<Longrightarrow> \<not> is_alpha c"
  by (auto simp: char_classes)

lemma dec_no_letter: "is_dec c \<Longrightarrow> \<not> is_alpha c"
  by (auto simp: char_classes)

lemma letters_lstrip [letter_simps]: "letters (lstrip s) = letters s"
  unfolding lstrip_def by (induction s) (auto simp: letters_Cons space_no_letter)

lemma letters_strip [letter_simps]: "letters (strip s) = letters s"
proof -
  have "letters (rstrip s) = letters s"
    using letters_lstrip [of "rev s"] by (simp add: rstrip_def letters_rev lstrip_def)
  then show ?thesis by (simp add: strip_def letter_simps)
qed

lemma letters_blank: "blank l \<Longrightarrow> letters l = []"
  using letters_strip [of l] by (simp add: blank_def letters_Nil)

lemma letters_join: "letters (join '' '' xs) = text_letters xs"
proof (induction "'' ''::string" xs rule: join.induct)
  case (3 x y xs)
  have "\<not> is_alpha (CHR '' '')" by (simp add: char_classes)
  with 3 show ?case by (simp add: letter_simps letters_Cons)
qed (simp_all add: letter_simps)

lemma letters_drop_blank: "text_letters (dropWhile blank ls) = text_letters ls"
  by (induction ls) (auto simp: letter_simps letters_blank)

subsubsection \<open>What expressions consume\<close>

abbreviation silent :: "rx \<Rightarrow> bool" where
  "silent r \<equiv> avoids is_alpha r"

lemma silent_ch: "silent (ch c) \<longleftrightarrow> \<not> is_alpha c"
  by (simp add: ch_def)

lemma silent_marker: "silent marker_re" and silent_heading: "silent heading_start_re" and silent_separator: "silent separator_re"
  by (simp_all add: marker_re_def heading_start_re_def separator_re_def plus_def silent_ch space_no_letter dec_no_letter) (simp_all add: char_classes)

lemma re_match_Some: "re_match r s = Some k \<Longrightarrow> \<exists>pr t. (pr, t, k) \<in> set (rmatch r (None, s, []))"
  unfolding re_match_def by (cases "rmatch r (None, s, [])") (auto split: prod.splits)

text \<open>An expression that ends in a captured rest of the line captures every letter after its silent part.\<close>

lemma rest_captured:
  assumes "silent a" and "re_match (Cat a (Cat (Cap n r) Eol)) line = Some k"
  shows "letters (group n k) = letters line"
proof -
  from assms(2) obtain pr t where m: "(pr, t, k) \<in> set (rmatch (Cat a (Cat (Cap n r) Eol)) (None, line, []))"
    using re_match_Some by blast
  then obtain pr1 s1 k1 pr2 s2 k2 where a: "(pr1, s1, k1) \<in> set (rmatch a (None, line, []))"
    and r: "(pr2, s2, k2) \<in> set (rmatch r (pr1, s1, k1))"
    and e: "(pr, t, k) \<in> set (rmatch Eol (pr2, s2, (n, take (length s1 - length s2) s1) # k2))" by auto
  from e have k: "group n k = take (length s1 - length s2) s1" and s2: "letters s2 = []"
    by (auto simp: group_def letters_def NL_def char_classes split: if_splits)
  have suf: "suffix s2 s1" using match_suffix [OF r] by simp
  have "letters s1 = letters line" using match_filter [OF assms(1) a] by (simp add: letters_def)
  moreover from suf obtain u where "s1 = u @ s2" by (auto simp: suffix_def)
  ultimately show ?thesis using k s2 by (simp add: letter_simps)
qed

lemma item_letters: "re_match item_re line = Some k \<Longrightarrow> letters (group 3 k) = letters line"
  unfolding item_re_def by (rule rest_captured [OF silent_marker])

lemma heading_letters: "re_match heading_re line = Some k \<Longrightarrow> letters (group 2 k) = letters line"
  unfolding heading_re_def by (rule rest_captured [OF silent_heading])

subsubsection \<open>Tables and captions\<close>

lemma row_cells_letters: "text_letters (row_cells ic current s) = letters (rev current) @ letters s"
proof (induction ic current s rule: row_cells.induct)
  case (2 ic current c s)
  have "\<not> is_alpha (CHR ''|'')" by (simp add: char_classes)
  with 2 show ?case by (auto simp: Let_def letter_simps letters_Cons)
qed (simp add: letter_simps)

lemma drop_bars_letters: "letters (drop_bars s) = letters s"
proof -
  have no: "\<not> is_alpha (CHR ''|'')" by (simp add: char_classes)
  have front: "letters (if starts_with s ''|'' then tl s else s) = letters s" for s
    using no by (cases s) (auto simp: starts_with_def letters_Cons)
  have rear: "letters (if ends_with s ''|'' then butlast s else s) = letters s" for s
    using no by (auto simp: ends_with_def suffix_def letter_simps letters_Cons)
  show ?thesis by (simp only: drop_bars_def Let_def front rear)
qed

lemma table_row_letters [letter_simps]: "text_letters (split_table_row line) = letters line"
  by (simp add: split_table_row_def row_cells_letters drop_bars_letters letter_simps)

lemma separator_letters:
  assumes "is_table_separator line"
  shows "letters line = []"
proof -
  have "letters c = []" if full: "re_fullmatch separator_re c \<noteq> None" for c
  proof -
    from full obtain pr t k where "(pr, t, k) \<in> set (rmatch separator_re (None, c, []))" and "t = []"
      by (auto simp: re_fullmatch_def dest!: find_first_Some)
    then show ?thesis using match_filter [OF silent_separator] by (fastforce simp: letters_def)
  qed
  with assms have "text_letters (split_table_row line) = []"
    by (auto simp: is_table_separator_def Let_def list_all_iff text_letters_def)
  then show ?thesis by (simp add: table_row_letters)
qed

lemma take_table_letters: "text_letters (concat (fst (take_table ls))) @ text_letters (snd (take_table ls)) = text_letters ls"
  by (induction ls) (auto simp: case_prod_beta letter_simps)

lemma caption_letters:
  assumes "re_fullmatch caption_re s \<noteq> None"
  shows "letters (butlast (tl s)) = letters s"
proof -
  have no: "\<not> is_alpha (CHR ''*'')" by (simp add: char_classes)
  from assms obtain pr k where "(pr, [], k) \<in> set (rmatch caption_re (None, s, []))"
    by (auto simp: re_fullmatch_def dest!: find_first_Some)
  then obtain u pr1 s1 k1 where s: "s = ''*Figure '' @ u" and p: "(pr1, s1, k1) \<in> set (rmatch (plus dot) (last_char None ''*Figure '', u, []))"
    and e: "(pr, [], k) \<in> set (rmatch (ch (CHR ''*'')) (pr1, s1, k1))"
    by (auto simp: caption_re_def rmatch_lit_iff prefix_def simp del: lit.simps split: if_splits)
  from e have "s1 = ''*''" by (cases s1) (auto split: if_splits)
  with match_suffix [OF p] obtain v where "u = v @ ''*''" by (auto simp: suffix_def)
  with s no show ?thesis by (simp add: letter_simps letters_Cons butlast_append)
qed

subsubsection \<open>Lists and paragraphs\<close>

lemma continuation_letters: "text_letters (fst (continuation ls)) @ text_letters (snd (continuation ls)) = text_letters ls"
  by (induction ls) (auto simp: case_prod_beta letter_simps)

lemma take_paragraph_letters: "text_letters (fst (take_paragraph ls)) @ text_letters (snd (take_paragraph ls)) = text_letters ls"
  by (induction ls) (auto simp: case_prod_beta letter_simps)

lemma item_value_letters: "re_match item_re line = Some k \<Longrightarrow> letters (item_value k cont) = letters line @ text_letters cont"
  by (simp add: item_value_def letters_join letter_simps item_letters)

lemma after_item_letters: "after_item kind rest = Some after \<Longrightarrow> text_letters after = text_letters rest"
  using after_item_cases [of kind rest after] letters_drop_blank [of rest] by auto

lemma consume_items_letters:
  "text_letters (map snd (fst (consume_items kind ls))) @ text_letters (snd (consume_items kind ls)) = text_letters ls"
proof (induction kind ls rule: consume_items.induct)
  case (2 kind line ls)
  show ?case
  proof (cases "re_match item_re line")
    case (Some k)
    show ?thesis
    proof (cases "kind_of k = kind")
      case True
      note c = continuation_letters [of ls] and v = item_value_letters [OF Some, of "fst (continuation ls)"]
      show ?thesis
      proof (cases "after_item kind (snd (continuation ls))")
        case None
        then show ?thesis using Some True c v by (simp add: Let_def letter_simps)
      next
        case (Some nxt)
        then show ?thesis using \<open>re_match item_re line = Some k\<close> True c v "2.IH" [OF _ _ refl refl Some] after_item_letters [OF Some]
          by (simp add: Let_def letter_simps)
      qed
    qed (simp add: Some letter_simps)
  qed (simp add: letter_simps)
qed (simp add: letter_simps)

lemma consume_list_letters:
  "text_letters (map snd (fst (consume_list ls))) @ text_letters (snd (consume_list ls)) = text_letters ls"
  by (cases ls) (auto simp: consume_list_def consume_items_letters letter_simps simp del: consume_items.simps split: option.splits)

subsubsection \<open>The parser\<close>

text \<open>On a line without a line feed an item marker is always followed by an item.\<close>

lemma greedy_dots:
  assumes "NL \<notin> set s" and "length s \<le> n"
  shows "\<exists>pr' k'. (pr', [], k') \<in> set (greedy_iter n (rmatch dot) (pr, s, k))"
  using assms
proof (induction s arbitrary: n pr)
  case Nil
  then show ?case by (cases n) auto
next
  case (Cons c s)
  then obtain m where n: "n = Suc m" and "length s \<le> m" by (cases n) auto
  with Cons.IH [of m "Some c"] Cons.prems(1) show ?case by (auto simp: dot_def n)
qed

lemma item_of_marker:
  assumes "is_item line" and "NL \<notin> set line"
  shows "re_match item_re line \<noteq> None"
proof -
  from assms(1) obtain pr s k where m: "(pr, s, k) \<in> set (rmatch marker_re (None, line, []))"
    using re_match_Some [of marker_re line] unfolding is_item_def by blast
  then have "NL \<notin> set s" using match_suffix [OF m] assms(2) by (auto simp: suffix_def)
  from greedy_dots [OF this order.refl, of pr k] obtain pr' k' where
    g: "(pr', [], k') \<in> set (greedy_iter (length s) (rmatch dot) (pr, s, k))" by blast
  have "(pr', [], (3, s) # k') \<in> set (rmatch (Cap 3 (Star dot)) (pr, s, k))" using g by force
  then have "(pr', [], (3, s) # k') \<in> set (rmatch item_re (None, line, []))"
    unfolding item_re_def using m by (simp del: rmatch.simps(6,8)) blast
  then show ?thesis by (cases "rmatch item_re (None, line, [])") (auto simp: re_match_def)
qed

lemma consume_list_items: "re_match item_re line \<noteq> None \<Longrightarrow> fst (consume_list (line # ls)) \<noteq> []"
  by (auto simp: consume_list_def Let_def split: option.splits)

text \<open>One turn of the loop keeps the letters, and its rest is made of lines that were there.\<close>

definition plain_line :: "string \<Rightarrow> bool" where
  "plain_line l = (NL \<notin> set l \<and> (is_fence l \<longrightarrow> letters l = []))"

lemma code_letters:
  assumes "list_all plain_line ls"
  shows "text_letters (takeWhile (Not \<circ> is_fence) ls) @ text_letters (drop 1 (dropWhile (Not \<circ> is_fence) ls)) = text_letters ls"
  using assms by (induction ls) (auto simp: letter_simps plain_line_def)

lemma next_block_letters:
  assumes "next_block pb unseen line ls = Inr (bs, unseen', rest)" and "list_all plain_line (line # ls)"
  shows "text_letters (concat (map block_text bs)) @ text_letters rest = text_letters (line # ls)"
proof -
  note rows = take_table_letters [of "drop 1 ls"] and items = consume_list_letters [of "line # ls"] and para = take_paragraph_letters [of ls]
    and code = code_letters [of ls] and fence = assms(2)
  have sep: "letters line @ text_letters (drop 1 ls) = text_letters (line # ls)" if "table_start (line # ls)"
    using that separator_letters by (auto simp: table_start_def letter_simps split: list.splits)
  show ?thesis
    using assms rows items para code sep
    by (auto simp: next_block_def Let_def letter_simps letters_blank heading_letters caption_letters letters_join plain_line_def
        split: if_splits option.splits)
qed

text \<open>The lines a turn leaves are lines it was given.\<close>

lemma rest_lines: "set (snd (continuation ls)) \<subseteq> set ls" "set (snd (take_table ls)) \<subseteq> set ls" "set (snd (take_paragraph ls)) \<subseteq> set ls"
  by (induction ls) (auto simp: case_prod_beta)

lemma after_item_lines: "after_item kind rest = Some after \<Longrightarrow> set after \<subseteq> set rest"
  using after_item_cases [of kind rest after] by (auto dest: set_dropWhileD)

lemma consume_items_lines: "set (snd (consume_items kind ls)) \<subseteq> set ls"
proof (induction kind ls rule: consume_items.induct)
  case (2 kind line ls)
  show ?case
  proof (cases "re_match item_re line")
    case (Some k)
    note IH = "2.IH" [OF Some _ refl refl] and c = rest_lines(1) [of ls]
    show ?thesis
    proof (cases "after_item kind (snd (continuation ls))")
      case None
      then show ?thesis using Some c by (auto simp: Let_def)
    next
      case (Some nxt)
      then show ?thesis using \<open>re_match item_re line = Some k\<close> c IH [OF _ Some] after_item_lines [OF Some]
        by (cases "kind_of k = kind") (auto simp: Let_def)
    qed
  qed simp
qed simp

lemma next_block_lines: "next_block pb unseen line ls = Inr (bs, unseen', rest) \<Longrightarrow> set rest \<subseteq> set (line # ls)"
proof -
  assume n: "next_block pb unseen line ls = Inr (bs, unseen', rest)"
  have code: "set (drop 1 (dropWhile (Not \<circ> is_fence) ls)) \<subseteq> set ls" by (auto dest!: in_set_dropD set_dropWhileD)
  have table: "set (snd (take_table (drop 1 ls))) \<subseteq> set ls" using rest_lines(2) [of "drop 1 ls"] set_drop_subset [of 1 ls] by blast
  have list: "set (snd (consume_list (line # ls))) \<subseteq> set (line # ls)"
    using consume_items_lines [of _ "line # ls"] by (auto simp: consume_list_def simp del: consume_items.simps split: option.splits)
  show ?thesis using n code table list rest_lines(3) [of ls]
    by (simp add: next_block_def Let_def split: if_splits option.splits) blast+
qed

lemma next_block_total: "NL \<notin> set line \<Longrightarrow> \<exists>r. next_block pb unseen line ls = Inr r"
  using consume_list_items [OF item_of_marker, of line ls] by (auto simp: next_block_def Let_def split: option.splits)


definition sample_report :: "string list" where
  "sample_report = [''## 1 Scope'', [], ''The driver'', ''runs.'', [], ''1. first'', ''   more'', ''2. second'', [], ''| Metric | Result |'', ''| --- | --- |'',
     ''| a | b |'', FENCE, ''code'', FENCE]"


subsection \<open>Tables fill the page\<close>

lemma ratios_of: "dict_get column_ratios key = Some r \<Longrightarrow> length r = length key \<and> sum_list r = 1 \<and> list_all (\<lambda>x. 0 < x) r"
  by (auto simp: column_ratios_def dict_get_def split: if_splits)

lemma table_widths_fill:
  assumes "headers \<noteq> []"
  shows "length (table_widths headers (length headers)) = length headers \<and>
    sum_list (table_widths headers (length headers)) = CONTENT_WIDTH \<and> list_all (\<lambda>w. 0 < w) (table_widths headers (length headers))"
proof (cases "dict_get column_ratios (map lower headers)")
  case None
  then show ?thesis using assms by (simp add: table_widths_def CONTENT_WIDTH_def sum_list_replicate list_all_iff)
next
  case (Some r)
  from ratios_of [OF this] have "length r = length headers" "sum_list r = 1" "list_all (\<lambda>x. 0 < x) r" by auto
  with Some show ?thesis by (auto simp: table_widths_def sum_list_const_mult list_all_iff CONTENT_WIDTH_def)
qed

lemma fit_row_length: "length (fit_row n row) = n"
  by (simp add: fit_row_def)

lemma fit_row_text: "length row \<le> n \<Longrightarrow> text_letters (fit_row n row) = text_letters row"
  by (auto simp: fit_row_def text_letters_def letter_simps concat_replicate_trivial)

subsection \<open>The parts of a report are its lines\<close>

lemma list_index_Some: "list_index x xs = Some i \<Longrightarrow> i < length xs \<and> xs ! i = x \<and> x \<notin> set (take i xs)"
  by (induction xs arbitrary: i) (auto split: if_splits)

lemma split_report_parts:
  assumes "split_report md = Inr p"
  shows "\<exists>pre. splitlines md = pre @ [''## Abbreviations''] @ rp_abbreviations p @ rp_body p \<and> starts_with (hd (rp_body p)) ''## 1 '' \<and>
    (rp_abstract p = [] \<or> (\<exists>pre'. pre = pre' @ [''## Abstract''] @ rp_abstract p))"
proof -
  let ?ls = "splitlines md"
  from assms obtain a b c where a: "list_index ''## Abstract'' ?ls = Some a" and b: "list_index ''## Abbreviations'' ?ls = Some b"
    and c: "find_first (\<lambda>i. starts_with (?ls ! i) ''## 1 '') [b + 1..<length ?ls] = Some c"
    and p: "p = \<lparr>rp_title = strip (drop 2 (hd ?ls)), rp_abstract = take (b - (a + 1)) (drop (a + 1) ?ls),
             rp_abbreviations = take (c - (b + 1)) (drop (b + 1) ?ls), rp_body = drop c ?ls\<rparr>"
    unfolding split_report_def Let_def by (auto simp: bindE_Inr_iff noneE_Inr_iff split: if_splits)
  from find_first_Some [OF c] have c: "b + 1 \<le> c" "c < length ?ls" "starts_with (?ls ! c) ''## 1 ''" by auto
  note a = list_index_Some [OF a] and b = list_index_Some [OF b]
  have "?ls = take b ?ls @ [?ls ! b] @ drop (b + 1) ?ls" using b id_take_nth_drop [of b ?ls] by simp
  moreover have "drop (b + 1) ?ls = take (c - (b + 1)) (drop (b + 1) ?ls) @ drop c ?ls"
    using c(1) by (metis append_take_drop_id drop_drop le_add_diff_inverse2)
  ultimately have ls: "?ls = take b ?ls @ [''## Abbreviations''] @ rp_abbreviations p @ rp_body p" using b p by simp
  have "take b ?ls = take a ?ls @ [''## Abstract''] @ rp_abstract p" if "rp_abstract p \<noteq> []"
  proof -
    from that p have ab: "a + 1 < b" by (cases "a + 1 < b") auto
    have "take b ?ls = take a (take b ?ls) @ [take b ?ls ! a] @ drop (a + 1) (take b ?ls)"
      using ab b by (subst id_take_nth_drop [of a]) auto
    then show ?thesis using ab a p by (simp add: drop_take)
  qed
  then show ?thesis using ls c p by (intro exI [of _ "take b ?ls"]) (auto simp: hd_drop_conv_nth)
qed

text \<open>Headings get different bookmarks, and keep theirs when the document is laid out again.\<close>

definition toc_ok :: "toc_state \<Rightarrow> bool" where
  "toc_ok s \<longleftrightarrow> (\<forall>i key. dict_get (ts_names s) i = Some key \<longrightarrow> (\<exists>n < ts_index s. key = ''heading-'' @ show_nat n)) \<and>
     (\<forall>i j key. dict_get (ts_names s) i = Some key \<longrightarrow> dict_get (ts_names s) j = Some key \<longrightarrow> i = j)"

lemma show_nat_eq [simp]: "show_nat m = show_nat n \<longleftrightarrow> m = n"
  using py_int_show_nat [of m] py_int_show_nat [of n] by (metis of_nat_eq_iff option.inject)

lemma after_flowable_ok:
  assumes "toc_ok s"
  shows "toc_ok (after_flowable page f s)" and "dict_get (ts_names s) i = Some key \<Longrightarrow> dict_get (ts_names (after_flowable page f s)) i = Some key"
proof -
  obtain j tx l where f: "f = (j, tx, l)" by (cases f) auto
  show "toc_ok (after_flowable page f s)"
  proof (cases l)
    case (Some level)
    show ?thesis
    proof (cases "dict_get (ts_names s) j")
      case None
      have new: "\<forall>i. dict_get (ts_names s) i \<noteq> Some (''heading-'' @ show_nat (ts_index s))"
      proof (intro allI notI)
        fix i
        assume "dict_get (ts_names s) i = Some (''heading-'' @ show_nat (ts_index s))"
        with assms obtain n where "n < ts_index s" "''heading-'' @ show_nat (ts_index s) = ''heading-'' @ show_nat n"
          unfolding toc_ok_def by blast
        then show False by simp
      qed
      let ?key = "''heading-'' @ show_nat (ts_index s)"
      have names: "dict_get (ts_names (after_flowable page f s)) i = (if i = j then Some ?key else dict_get (ts_names s) i)" for i
        by (simp add: after_flowable_def f Some None Let_def)
      have "ts_index (after_flowable page f s) = Suc (ts_index s)" by (simp add: after_flowable_def f Some None Let_def)
      with assms new show ?thesis unfolding toc_ok_def names by (metis less_Suc_eq option.inject)
    qed (use assms f Some in \<open>simp add: after_flowable_def toc_ok_def\<close>)
  qed (use assms f in \<open>simp add: after_flowable_def\<close>)
  show "dict_get (ts_names s) i = Some key \<Longrightarrow> dict_get (ts_names (after_flowable page f s)) i = Some key"
    by (auto simp: after_flowable_def f Let_def split: option.splits)
qed

lemma bookmarks_distinct:
  "toc_ok s \<Longrightarrow> toc_ok (fold (\<lambda>(page, f). after_flowable page f) fs s)"
  by (induction fs arbitrary: s) (auto simp: after_flowable_ok(1))

end
