(* ===== verification/Platform.thy ===== *)
theory Platform
  imports Files Regex
begin

text \<open>
  The checks of the hardware platform in tools/nvdla_test_framework: the version lock
  (lockcheck.py), the ioctl headers (abi.py), the audit of the hardware archive (xsa_audit.py) and
  the device tree fragment (petalinux.py). The parsed XML of the archive is a tree; zip reading, the
  Docker daemon and the hash are parameters. Error texts are constructors with their values.
\<close>

subsection \<open>The version lock\<close>

fun strip_chars :: "string \<Rightarrow> string \<Rightarrow> string" where
  "strip_chars cs s = rev (lstrip_chars cs (rev (lstrip_chars cs s)))"

definition metadata_line :: "string \<Rightarrow> (string, string) dict \<Rightarrow> (string, string) dict" where
  "metadata_line line data =
     (if CHR '':'' \<in> set line then (let (k, v) = split_first (CHR '':'') line in dict_set (strip k) (strip v) data)
      else if CHR ''='' \<in> set line then
        (let (k, v) = split_first (CHR ''='') line in dict_set (strip k) (strip_chars [DQ] (strip v)) data)
      else data)"

definition petalinux_metadata :: "fs \<Rightarrow> path \<Rightarrow> (string, string) dict" where
  "petalinux_metadata fs install_dir = (case dict_get fs (install_dir @ [''.version-history'']) of
       None \<Rightarrow> []
     | Some text \<Rightarrow> fold metadata_line (splitlines text) [])"

datatype lock_error =
    XsaHash json string
  | ImageMissing json
  | ImageDiffers json json string
  | InstallMissing string
  | RevisionDiffers json string

record lock_result =
  lk_errors :: "lock_error list"
  lk_warning :: bool
  lk_xsa :: string
  lk_metadata :: "(string, string) dict"

text \<open>One entry of \<open>lock["docker"]\<close>; the id the daemon reports for an image, if it knows it.\<close>

definition check_image :: "(json \<Rightarrow> string option) \<Rightarrow> string \<times> json \<Rightarrow> lock_error list res" where
  "check_image image_id = (\<lambda>(name, item).
     bindE (jat item ''image'') (\<lambda>image.
     bindE (jat item ''image_id'') (\<lambda>expected.
     Inr (case image_id image of
         None \<Rightarrow> [ImageMissing image]
       | Some actual \<Rightarrow> if \<not> jeq (JStr actual) expected then [ImageDiffers image expected actual] else []))))"

definition check_install :: "fs \<Rightarrow> json \<Rightarrow> (lock_error list \<times> bool \<times> (string, string) dict) res" where
  "check_install fs lock =
     bindE (bindE (jpath lock [''petalinux'', ''install_dir'']) jstr) (\<lambda>dir.
     let install = path_div [] dir in
     if \<not> path_exists fs install then Inr ([InstallMissing dir], False, [])
     else let meta = petalinux_metadata fs install in
       bindE (jpath lock [''petalinux'', ''metadata_revision'']) (\<lambda>expected.
         case dict_get meta ''Metadata Revision'' of
           None \<Rightarrow> Inr ([], True, meta)
         | Some actual \<Rightarrow>
             if actual = [] then Inr ([], True, meta)
             else if \<not> jeq (JStr actual) expected then Inr ([RevisionDiffers expected actual], False, meta)
             else Inr ([], False, meta)))"

definition check_lock :: "(string \<Rightarrow> string) \<Rightarrow> (json \<Rightarrow> string option) \<Rightarrow> fs \<Rightarrow> path \<Rightarrow> path \<Rightarrow> lock_result res" where
  "check_lock sha image_id fs lock_path xsa_path =
     bindE (read_json fs lock_path) (\<lambda>lock.
     bindE (sha256_file sha fs xsa_path) (\<lambda>actual_sha.
     bindE (jpath lock [''hardware'', ''xsa'', ''sha256'']) (\<lambda>expected_sha.
     bindE (bindE (jget_or lock (JDict []) ''docker'') jitems) (\<lambda>images.
     bindE (mapE (check_image image_id) images) (\<lambda>image_errors.
     bindE (check_install fs lock) (\<lambda>(install_errors, warning, meta).
     Inr \<lparr>lk_errors = (if jeq (JStr actual_sha) expected_sha then [] else [XsaHash expected_sha actual_sha])
              @ concat image_errors @ install_errors,
          lk_warning = warning, lk_xsa = actual_sha, lk_metadata = meta\<rparr>))))))"

definition run_lock_check :: "(string \<Rightarrow> string) \<Rightarrow> (json \<Rightarrow> string option) \<Rightarrow> fs \<Rightarrow> path \<Rightarrow> path \<Rightarrow> int" where
  "run_lock_check sha image_id fs lock_path xsa_path = (case check_lock sha image_id fs lock_path xsa_path of
       Inl e \<Rightarrow> 1 | Inr r \<Rightarrow> if lk_errors r = [] then 0 else 1)"

subsection \<open>The ioctl headers\<close>

definition ident_char :: "char \<Rightarrow> bool" where
  "ident_char c = (is_alpha c \<or> is_dec c \<or> c = CHR ''_'')"

definition define_re :: rx where
  "define_re = seq [Bol, Star (Sym is_space), lit ''#'', Star (Sym is_space), lit ''define'', plus (Sym is_space),
     Cap 1 (seq [lit ''DRM_'', Alt (lit ''COMMAND'') (lit ''IOCTL''), lit ''_NVDLA_'', plus (Sym ident_char)]),
     WordB, Cap 2 (Star dot), Eol]"

definition struct_re :: rx where
  "struct_re = seq [Bol, Star (Sym is_space), lit ''struct'', plus (Sym is_space),
     Cap 1 (seq [Opt (lit ''drm_''), lit ''nvdla_'', plus (Sym ident_char)]), Star (Sym is_space), lit ''{'']"

record header_facts =
  hf_sha :: string
  hf_defines :: "(string, string) dict"
  hf_structs :: "string list"

definition define_line :: "string \<Rightarrow> (string, string) dict \<Rightarrow> (string, string) dict" where
  "define_line line d = (case re_match define_re line of
       None \<Rightarrow> d | Some k \<Rightarrow> dict_set (group 1 k) (join '' '' (split_ws (group 2 k))) d)"

definition struct_names :: "string \<Rightarrow> string list" where
  "struct_names line = (case re_match struct_re line of None \<Rightarrow> [] | Some k \<Rightarrow> [group 1 k])"

definition header_facts :: "(string \<Rightarrow> string) \<Rightarrow> string \<Rightarrow> header_facts" where
  "header_facts sha text = \<lparr>hf_sha = upper (sha text), hf_defines = fold define_line (splitlines text) [],
     hf_structs = sort (concat (map struct_names (splitlines text)))\<rparr>"

datatype abi_error = KmdMissing | UmdMissing | DefinesDiffer | StructsDiffer

record abi_result =
  ab_errors :: "abi_error list"
  ab_warning :: bool

definition same_dict :: "('k, 'v) dict \<Rightarrow> ('k, 'v) dict \<Rightarrow> bool" where
  "same_dict a b = (set (dict_keys a) = set (dict_keys b) \<and> list_all (\<lambda>k. dict_get a k = dict_get b k) (dict_keys a))"

definition check_abi :: "(string \<Rightarrow> string) \<Rightarrow> fs \<Rightarrow> path \<Rightarrow> abi_result" where
  "check_abi sha fs source =
     (case (dict_get fs (source @ [''kmd'', ''port'', ''linux'', ''include'', ''nvdla_ioctl.h'']),
            dict_get fs (source @ [''umd'', ''port'', ''linux'', ''include'', ''nvdla_ioctl.h''])) of
        (Some k, Some u) \<Rightarrow> (let kf = header_facts sha k; uf = header_facts sha u in
          \<lparr>ab_errors = (if same_dict (hf_defines kf) (hf_defines uf) then [] else [DefinesDiffer])
                      @ (if hf_structs kf = hf_structs uf then [] else [StructsDiffer]),
           ab_warning = (hf_sha kf \<noteq> hf_sha uf)\<rparr>)
      | (k, u) \<Rightarrow> \<lparr>ab_errors = (if k = None then [KmdMissing] else []) @ (if u = None then [UmdMissing] else []),
                    ab_warning = False\<rparr>)"

definition run_abi_check :: "(string \<Rightarrow> string) \<Rightarrow> fs \<Rightarrow> path \<Rightarrow> int" where
  "run_abi_check sha fs source = (if ab_errors (check_abi sha fs source) = [] then 0 else 1)"

subsection \<open>The hardware archive\<close>

datatype xml = Elem (tag: string) (attrib: "(string \<times> string) list") (children: "xml list")

fun xml_iter :: "xml \<Rightarrow> xml list" where
  "xml_iter (Elem t as cs) = Elem t as cs # concat (map xml_iter cs)"

definition iter_named :: "xml \<Rightarrow> string \<Rightarrow> xml list" where
  "iter_named e t = List.filter (\<lambda>c. last (split_on (CHR ''}'') (tag c)) = t) (xml_iter e)"

definition attr :: "xml \<Rightarrow> string \<Rightarrow> string option" where
  "attr e k = map_of (attrib e) k"

definition opt_str :: "string option \<Rightarrow> json" where
  "opt_str v = (case v of None \<Rightarrow> JNull | Some s \<Rightarrow> JStr s)"

definition attr_int :: "string option \<Rightarrow> json res" where
  "attr_int v = (case v of None \<Rightarrow> Inr JNull
     | Some s \<Rightarrow> bindE (noneE (ValueError ''invalid literal for int()'') (py_int0 s)) (\<lambda>n. Inr (JInt n)))"

definition find_module :: "xml \<Rightarrow> string \<Rightarrow> xml res" where
  "find_module r instance_name = noneE (RuntimeError ''module instance not found'')
     (find_first (\<lambda>m. attr m ''INSTANCE'' = Some instance_name) (iter_named r ''MODULE''))"

definition add_parameter :: "xml \<Rightarrow> (string, string) dict \<Rightarrow> (string, string) dict" where
  "add_parameter p out = (case (attr p ''NAME'', attr p ''VALUE'') of
       (Some name, Some v) \<Rightarrow> if name = [] then out else dict_set name v out
     | _ \<Rightarrow> out)"

definition parameters :: "xml \<Rightarrow> (string, string) dict" where
  "parameters e = fold add_parameter (iter_named e ''PARAMETER'') []"

definition interrupt_of :: "xml \<Rightarrow> json" where
  "interrupt_of port = JDict [(''name'', JStr ''dla_intr''), (''direction'', opt_str (attr port ''DIR'')),
     (''sensitivity'', opt_str (attr port ''SENSITIVITY'')), (''signame'', opt_str (attr port ''SIGNAME'')),
     (''connections'', JList (map (\<lambda>c. JDict [(''instance'', opt_str (attr c ''INSTANCE'')),
        (''port'', opt_str (attr c ''PORT''))]) (iter_named port ''CONNECTION'')))]"

text \<open>The loop over the ports of the wrapper: the interrupt and the clocks.\<close>

definition audit_port :: "xml \<Rightarrow> json \<times> (string, json) dict \<Rightarrow> (json \<times> (string, json) dict) res" where
  "audit_port port = (\<lambda>(interrupt, clocks).
     let interrupt' = (if attr port ''NAME'' = Some ''dla_intr'' then interrupt_of port else interrupt) in
     if attr port ''SIGIS'' = Some ''clk'' then
       (case attr port ''NAME'' of
          None \<Rightarrow> Inr (interrupt', clocks)
        | Some name \<Rightarrow> if name = [] then Inr (interrupt', clocks)
            else bindE (attr_int (attr port ''CLKFREQUENCY'')) (\<lambda>f.
              Inr (interrupt', dict_set name (JDict [(''frequency_hz'', f), (''signame'', opt_str (attr port ''SIGNAME''))]) clocks)))
     else Inr (interrupt', clocks))"

definition audit_bus :: "xml \<Rightarrow> json res" where
  "audit_bus bus = bindE (attr_int (attr bus ''DATAWIDTH'')) (\<lambda>w.
     Inr (JDict [(''name'', opt_str (attr bus ''NAME'')), (''type'', opt_str (attr bus ''TYPE'')),
                 (''busname'', opt_str (attr bus ''BUSNAME'')), (''datawidth'', w)]))"

definition range_size :: "(string, string) dict \<Rightarrow> json res" where
  "range_size ps = (case (dict_get ps ''C_BASEADDR'', dict_get ps ''C_HIGHADDR'') of
       (Some b, Some h) \<Rightarrow> if b = [] \<or> h = [] then Inr JNull
         else bindE (noneE (ValueError ''invalid literal for int()'') (py_int0 h)) (\<lambda>hi.
              bindE (noneE (ValueError ''invalid literal for int()'') (py_int0 b)) (\<lambda>lo. Inr (JInt (hi - lo + 1))))
     | _ \<Rightarrow> Inr JNull)"

definition memranges :: "xml \<Rightarrow> xml list" where
  "memranges r = List.filter (\<lambda>m. attr m ''MASTERBUSINTERFACE'' = Some ''m_axi'' \<or>
     attr m ''INSTANCE'' = Some ''xilNvDlaWrapper_0'') (iter_named r ''MEMRANGE'')"

definition dbb_slaves :: "xml \<Rightarrow> string list" where
  "dbb_slaves r = sort (remdups (concat (map (\<lambda>m. case attr m ''SLAVEBUSINTERFACE'' of
       Some s \<Rightarrow> if attr m ''MASTERBUSINTERFACE'' = Some ''m_axi'' \<and> s \<noteq> [] then [s] else [] | None \<Rightarrow> [])
     (memranges r))))"

definition coherency_params :: "xml \<Rightarrow> (string, string) dict" where
  "coherency_params r = List.filter (\<lambda>(name, v). contains ''COHERENCY'' (upper name)) (parameters r)"

definition nonzero_params :: "(string, string) dict \<Rightarrow> (string, string) dict" where
  "nonzero_params d = List.filter (\<lambda>(name, v). v \<notin> {''0'', ''0x0'', ''false'', ''False''}) d"

definition str_dict :: "(string, string) dict \<Rightarrow> json" where
  "str_dict d = JDict (map (\<lambda>(k, v). (k, JStr v)) d)"

text \<open>The audit of an archive whose members are \<open>names\<close> and whose block design is \<open>design\<close>.\<close>

definition audit_xsa :: "(string \<Rightarrow> string) \<Rightarrow> string list \<Rightarrow> xml \<Rightarrow> fs \<Rightarrow> path \<Rightarrow> json res" where
  "audit_xsa sha names design fs xsa_path =
     bindE (guardE (path_exists fs xsa_path) (RuntimeError ''XSA not found'')) (\<lambda>_.
     bindE (guardE (''NVDLA_FPGA.hwh'' \<in> set names) (RuntimeError ''NVDLA_FPGA.hwh not found in XSA'')) (\<lambda>_.
     bindE (find_module design ''xilNvDlaWrapper_0'') (\<lambda>wrapper.
     let ps = parameters wrapper in
     bindE (foldE audit_port (iter_named wrapper ''PORT'') (JDict [], [])) (\<lambda>(interrupt, clocks).
     bindE (mapE audit_bus (iter_named wrapper ''BUSINTERFACE'')) (\<lambda>buses.
     bindE (sha256_file sha fs xsa_path) (\<lambda>h.
     bindE (range_size ps) (\<lambda>range_len.
     let coherency = coherency_params design in
     Inr (JDict [
       (''xsa'', JDict [(''path'', JStr (path_str xsa_path)), (''sha256'', JStr h), (''members'', JList (map JStr (sort names)))]),
       (''wrapper'', JDict [(''instance'', JStr ''xilNvDlaWrapper_0''),
          (''base'', opt_str (dict_get ps ''C_BASEADDR'')), (''high'', opt_str (dict_get ps ''C_HIGHADDR'')),
          (''range_size'', range_len), (''interrupt'', interrupt), (''clocks'', JDict clocks),
          (''bus_interfaces'', JList buses)]),
       (''memory'', JDict [(''ranges'', JList (map (\<lambda>m. str_dict (attrib m)) (memranges design))),
          (''dbb_slave_interfaces'', JList (map JStr (dbb_slaves design)))]),
       (''coherency'', JDict [(''parameters'', str_dict coherency), (''nonzero'', str_dict (nonzero_params coherency))])]))))))))"

datatype audit_error =
    Expected string json json
  | NotConnected json "json list"
  | NoWidth json "json list"
  | NoSlave json "json list"
  | Coherent json json

definition expect :: "string \<Rightarrow> json \<Rightarrow> json \<Rightarrow> audit_error list" where
  "expect label actual wanted = (if jeq actual wanted then [] else [Expected label wanted actual])"

definition jmem :: "json \<Rightarrow> json list \<Rightarrow> bool" where
  "jmem v xs = list_ex (jeq v) xs"

text \<open>The elements of a set, sorted for an error text: Python cannot order None among strings.\<close>

definition sorted_set :: "json list \<Rightarrow> json list res" where
  "sorted_set xs = (let ys = remdups xs in
     if length ys \<le> 1 \<or> list_all is_jstr ys \<or> list_all is_jint ys then Inr ys else Inl TypeError)"

definition member_error :: "(json \<Rightarrow> json list \<Rightarrow> audit_error) \<Rightarrow> json \<Rightarrow> json list \<Rightarrow> audit_error list res" where
  "member_error mk v xs = (if jmem v xs then Inr [] else bindE (sorted_set xs) (\<lambda>ys. Inr [mk v ys]))"

definition clock_error :: "json \<Rightarrow> json \<Rightarrow> json \<Rightarrow> audit_error list res" where
  "clock_error clocks hz port =
     bindE (jstr port) (\<lambda>p.
     bindE (jget_or clocks (JDict []) p) (\<lambda>c.
     bindE (jget c ''frequency_hz'') (\<lambda>f.
     Inr (expect (p @ '' frequency'') f hz))))"

definition master_width :: "json \<Rightarrow> json list res" where
  "master_width b =
     bindE (jget b ''name'') (\<lambda>n. if \<not> jeq n (JStr ''m_axi'') then Inr []
       else bindE (jget b ''type'') (\<lambda>t. if \<not> jeq t (JStr ''MASTER'') then Inr []
       else bindE (jget b ''datawidth'') (\<lambda>w. Inr [w])))"

definition validate_audit :: "json \<Rightarrow> json \<Rightarrow> audit_error list res" where
  "validate_audit audit lock =
     bindE (jpath lock [''hardware'', ''xsa'', ''expected'']) (\<lambda>expected.
     bindE (jpath audit [''xsa'', ''sha256'']) (\<lambda>sha_a. bindE (jpath lock [''hardware'', ''xsa'', ''sha256'']) (\<lambda>sha_w.
     bindE (jpath audit [''wrapper'', ''instance'']) (\<lambda>inst_a. bindE (jat expected ''wrapper_instance'') (\<lambda>inst_w.
     bindE (jpath audit [''wrapper'', ''base'']) (\<lambda>base_a. bindE (jat expected ''csb_base'') (\<lambda>base_w.
     bindE (jpath audit [''wrapper'', ''high'']) (\<lambda>high_a. bindE (jat expected ''csb_high'') (\<lambda>high_w.
     bindE (jpath audit [''wrapper'', ''interrupt'']) (\<lambda>intr.
     bindE (jget intr ''name'') (\<lambda>name_a. bindE (jat expected ''interrupt_output'') (\<lambda>name_w.
     bindE (jget intr ''sensitivity'') (\<lambda>sens_a. bindE (jat expected ''interrupt_sensitivity'') (\<lambda>sens_w.
     bindE (bindE (jget_or intr (JList []) ''connections'') jlist) (\<lambda>conns.
     bindE (mapE (\<lambda>c. jget c ''port'') conns) (\<lambda>ports.
     bindE (jat expected ''interrupt_ps_port'') (\<lambda>port_w.
     bindE (member_error NotConnected port_w ports) (\<lambda>e_port.
     bindE (bindE (jat expected ''clock_ports'') jlist) (\<lambda>clock_ports.
     bindE (if clock_ports = [] then Inr JNull else jpath audit [''wrapper'', ''clocks'']) (\<lambda>clocks.
     bindE (if clock_ports = [] then Inr JNull else jat expected ''clock_hz'') (\<lambda>hz.
     bindE (mapE (clock_error clocks hz) clock_ports) (\<lambda>e_clocks.
     bindE (bindE (jpath audit [''wrapper'', ''bus_interfaces'']) jlist) (\<lambda>buses.
     bindE (mapE master_width buses) (\<lambda>widths.
     bindE (jat expected ''dbb_axi_data_width'') (\<lambda>width_w.
     bindE (member_error NoWidth width_w (concat widths)) (\<lambda>e_width.
     bindE (bindE (jpath audit [''memory'', ''dbb_slave_interfaces'']) jlist) (\<lambda>slaves.
     bindE (jat expected ''dbb_memory_slave'') (\<lambda>slave_w.
     bindE (member_error NoSlave slave_w slaves) (\<lambda>e_slave.
     bindE (jpath audit [''coherency'', ''nonzero'']) (\<lambda>nonzero.
     bindE (jat expected ''coherent_dma'') (\<lambda>coherent_w.
     Inr (expect ''XSA SHA256'' sha_a sha_w @ expect ''wrapper instance'' inst_a inst_w
          @ expect ''CSB base'' base_a base_w @ expect ''CSB high'' high_a high_w
          @ expect ''interrupt name'' name_a name_w @ expect ''interrupt sensitivity'' sens_a sens_w
          @ e_port @ concat e_clocks @ e_width @ e_slave
          @ (if jeq (JBool (truthy nonzero)) coherent_w then [] else [Coherent coherent_w nonzero])))))))))))))))))))))))))))))))))"

subsection \<open>The device tree fragment\<close>

definition cell :: "int \<Rightarrow> string" where
  "cell v = (if v = 0 then ''0x0'' else hex8 v)"

definition u64_cells :: "int \<Rightarrow> string \<times> string" where
  "u64_cells v = (cell ((v div 2 ^ 32) mod 2 ^ 32), cell (v mod 2 ^ 32))"

definition pl_ps_irq_re :: rx where
  "pl_ps_irq_re = seq [lit ''pl_ps_irq'', Cap 1 (plus (Sym is_dec))]"

definition ZYNQMP_PL_PS_IRQ0_DT_HIRQ :: int where
  "ZYNQMP_PL_PS_IRQ0_DT_HIRQ = 89"

text \<open>The first port only: \<open>next\<close> takes the first result, also when that is no match.\<close>

definition interrupt_cells :: "json \<Rightarrow> (int \<times> int \<times> int \<times> string) res" where
  "interrupt_cells audit =
     bindE (jpath audit [''wrapper'', ''interrupt'']) (\<lambda>interrupt.
     bindE (bindE (jget_or interrupt (JList []) ''connections'') jlist) (\<lambda>conns.
     bindE (mapE (\<lambda>c. jget c ''port'') conns) (\<lambda>ps.
     let ports = List.filter truthy ps in
     bindE (case ports of [] \<Rightarrow> Inr None | p # _ \<Rightarrow> bindE (jstr p) (\<lambda>s. Inr (re_fullmatch pl_ps_irq_re s))) (\<lambda>m.
     bindE (noneE (ValueError ''cannot derive ZynqMP PL interrupt'') m) (\<lambda>k.
     bindE (noneE (ValueError ''invalid literal for int()'') (py_int (group 1 k))) (\<lambda>index.
     bindE (guardE (0 \<le> index \<and> index \<le> 15) (ValueError ''unsupported ZynqMP PL interrupt index'')) (\<lambda>_.
     bindE (jget interrupt ''sensitivity'') (\<lambda>sensitivity.
     bindE (if jeq sensitivity (JStr ''EDGE_RISING'') then Inr 1
            else if jeq sensitivity (JStr ''LEVEL_HIGH'') then Inr 4
            else Inl (ValueError ''unsupported interrupt sensitivity'')) (\<lambda>flags.
     Inr (0, ZYNQMP_PL_PS_IRQ0_DT_HIRQ + index, flags, ''pl_ps_irq'' @ show_int index))))))))))"

record dts_node =
  dn_reg :: "string list"
  dn_size :: int
  dn_interrupts :: "int list"
  dn_port :: string
  dn_label :: string
  dn_dbb :: json

definition json_int :: "json \<Rightarrow> int res" where
  "json_int v = (case v of JInt n \<Rightarrow> Inr n | JBool b \<Rightarrow> Inr (if b then 1 else 0) | JFloat r \<Rightarrow> Inr (trunc_rat r)
     | JStr s \<Rightarrow> noneE (ValueError ''invalid literal for int()'') (py_int s) | _ \<Rightarrow> Inl TypeError)"

definition generate_nvdla_dtsi :: "json \<Rightarrow> json \<Rightarrow> dts_node res" where
  "generate_nvdla_dtsi lock audit =
     bindE (validate_audit audit lock) (\<lambda>errors.
     bindE (guardE (errors = []) (ValueError ''XSA audit failed'')) (\<lambda>_.
     bindE (bindE (jpath audit [''wrapper'', ''base'']) jstr) (\<lambda>base_text.
     bindE (noneE (ValueError ''invalid literal for int()'') (py_int0 base_text)) (\<lambda>base.
     bindE (bindE (jpath audit [''wrapper'', ''range_size'']) json_int) (\<lambda>size_bytes.
     bindE (interrupt_cells audit) (\<lambda>(irq_type, irq_hwirq, irq_flags, irq_port).
     bindE (jpath audit [''coherency'', ''nonzero'']) (\<lambda>nonzero.
     bindE (guardE (\<not> truthy nonzero) (ValueError ''XSA reports nonzero coherency parameters'')) (\<lambda>_.
     bindE (bindE (jpath audit [''wrapper'', ''instance'']) jstr) (\<lambda>label.
     bindE (jpath audit [''memory'', ''dbb_slave_interfaces'']) (\<lambda>dbb.
     bindE (bindE (jlist dbb) (\<lambda>xs. guardE (xs \<noteq> []) IndexError)) (\<lambda>_.
     Inr \<lparr>dn_reg = [fst (u64_cells base), snd (u64_cells base), fst (u64_cells size_bytes), snd (u64_cells size_bytes)],
          dn_size = size_bytes, dn_interrupts = [irq_type, irq_hwirq, irq_flags], dn_port = irq_port,
          dn_label = label, dn_dbb = dbb\<rparr>)))))))))))"

text \<open>The pair of cells generated for a 64-bit address reads back, by \<open>int(text, 16)\<close>, as the high and
  low half of the address.\<close>

theorem u64_cells_decode:
  assumes "0 \<le> v" and "v < 2 ^ 64"
  shows "\<exists>hi lo. py_int16 (fst (u64_cells v)) = Some hi \<and> py_int16 (snd (u64_cells v)) = Some lo \<and>
    hi * 2 ^ 32 + lo = v \<and> 0 \<le> hi \<and> hi < 2 ^ 32 \<and> 0 \<le> lo \<and> lo < 2 ^ 32"
proof -
  have z: "py_int16 (cell n) = Some n" if "0 \<le> n" for n
  proof (cases "n = 0")
    case True
    have "py_int16 ''0x0'' = Some 0" by code_simp
    with True show ?thesis by (simp add: cell_def)
  qed (use that in \<open>simp add: cell_def py_int16_hex8\<close>)
  have h: "v div 2 ^ 32 mod 2 ^ 32 = v div 2 ^ 32" using assms by (intro mod_pos_pos_trivial) auto
  have "0 \<le> v div 2 ^ 32" "v div 2 ^ 32 < 2 ^ 32" using assms by auto
  moreover have "v div 2 ^ 32 * 2 ^ 32 + v mod 2 ^ 32 = v" by (rule div_mult_mod_eq)
  moreover have "py_int16 (fst (u64_cells v)) = Some (v div 2 ^ 32)"
    unfolding u64_cells_def fst_conv h using calculation(1) by (rule z)
  moreover have "py_int16 (snd (u64_cells v)) = Some (v mod 2 ^ 32)"
    unfolding u64_cells_def snd_conv by (rule z) simp
  moreover have "0 \<le> v mod 2 ^ 32" "v mod 2 ^ 32 < 2 ^ 32" by simp_all
  ultimately show ?thesis by blast
qed

lemma u64_cells_decode_witness:
  "u64_cells 0xA000000040 = (''0x000000a0'', ''0x00000040'') \<and>
   (\<exists>hi lo. py_int16 ''0x000000a0'' = Some hi \<and> py_int16 ''0x00000040'' = Some lo \<and> hi * 2 ^ 32 + lo = 0xA000000040)"
proof -
  have c: "u64_cells 0xA000000040 = (''0x000000a0'', ''0x00000040'')" by code_simp
  have "0 \<le> (0xA000000040 :: int)" "(0xA000000040 :: int) < 2 ^ 64" by simp_all
  from u64_cells_decode [OF this] c show ?thesis by auto
qed

lemma interrupt_cells_bounds:
  "interrupt_cells audit = Inr (t, n, f, p) \<Longrightarrow> t = 0 \<and> (\<exists>i. 0 \<le> i \<and> i \<le> 15 \<and> n = 89 + i \<and> p = ''pl_ps_irq'' @ show_int i) \<and> f \<in> {1, 4}"
  by (auto simp: interrupt_cells_def bindE_Inr_iff noneE_Inr_iff guardE_Inr_iff Let_def ZYNQMP_PL_PS_IRQ0_DT_HIRQ_def split: if_splits)



definition wit_lock :: json where
  "wit_lock = JDict [(''hardware'', JDict [(''xsa'', JDict [(''sha256'', JStr ''AB''),
     (''expected'', JDict [(''wrapper_instance'', JStr ''xilNvDlaWrapper_0''), (''csb_base'', JStr ''0xA0000000''),
       (''csb_high'', JStr ''0xA003FFFF''), (''interrupt_output'', JStr ''dla_intr''),
       (''interrupt_sensitivity'', JStr ''LEVEL_HIGH''), (''interrupt_ps_port'', JStr ''pl_ps_irq0''),
       (''clock_ports'', JList [JStr ''core_clk'']), (''clock_hz'', JInt 100000000),
       (''dbb_axi_data_width'', JInt 64), (''dbb_memory_slave'', JStr ''S_AXI_HP0_FPD''), (''coherent_dma'', JBool False)])])])]"

definition wit_design :: xml where
  "wit_design = Elem ''EDKSYSTEM'' [] [Elem ''MODULES'' [] [Elem ''MODULE'' [(''INSTANCE'', ''xilNvDlaWrapper_0'')] [
     Elem ''PARAMETER'' [(''NAME'', ''C_BASEADDR''), (''VALUE'', ''0xA0000000'')] [],
     Elem ''PARAMETER'' [(''NAME'', ''C_HIGHADDR''), (''VALUE'', ''0xA003FFFF'')] [],
     Elem ''PORT'' [(''NAME'', ''dla_intr''), (''SENSITIVITY'', ''LEVEL_HIGH'')]
       [Elem ''CONNECTION'' [(''INSTANCE'', ''ps''), (''PORT'', ''pl_ps_irq0'')] []],
     Elem ''PORT'' [(''NAME'', ''core_clk''), (''SIGIS'', ''clk''), (''CLKFREQUENCY'', ''100000000'')] [],
     Elem ''BUSINTERFACE'' [(''NAME'', ''m_axi''), (''TYPE'', ''MASTER''), (''DATAWIDTH'', ''64'')] [],
     Elem ''MEMRANGE'' [(''MASTERBUSINTERFACE'', ''m_axi''), (''SLAVEBUSINTERFACE'', ''S_AXI_HP0_FPD'')] []]]]"


lemma mapE_no_errors:
  "(\<exists>ess. mapE f xs = Inr ess \<and> concat ess = []) \<longleftrightarrow> list_all (\<lambda>x. f x = Inr []) xs"
  by (induction xs) (auto simp: bindE_Inr_iff)

lemma check_image_clean:
  "(\<lambda>x. check_image image_id x = Inr []) =
     (\<lambda>(name, d). \<exists>image expected actual. jat d ''image'' = Inr image \<and> jat d ''image_id'' = Inr expected \<and>
        image_id image = Some actual \<and> jeq (JStr actual) expected)"
proof (rule ext)
  fix x :: "string \<times> json"
  show "(check_image image_id x = Inr []) = (case x of (name, d) \<Rightarrow> \<exists>image expected actual.
      jat d ''image'' = Inr image \<and> jat d ''image_id'' = Inr expected \<and>
      image_id image = Some actual \<and> jeq (JStr actual) expected)"
    by (cases x; cases "jat (snd x) ''image''"; cases "jat (snd x) ''image_id''")
       (auto simp: check_image_def split: option.splits)
qed

text \<open>The lock check exits with 0 exactly when the lock loads, the archive has the locked hash, every
  locked Docker image is present with its locked id, and the PetaLinux installation exists and records
  no other metadata revision.\<close>

theorem lock_check_exit:
  "run_lock_check sha image_id fs lock_path xsa_path = 0 \<longleftrightarrow>
     (\<exists>lock h w images meta warning.
        read_json fs lock_path = Inr lock \<and> sha256_file sha fs xsa_path = Inr h \<and>
        jpath lock [''hardware'', ''xsa'', ''sha256''] = Inr w \<and> jeq (JStr h) w \<and>
        bindE (jget_or lock (JDict []) ''docker'') jitems = Inr images \<and>
        list_all (\<lambda>(name, d). \<exists>image expected actual. jat d ''image'' = Inr image \<and> jat d ''image_id'' = Inr expected \<and>
          image_id image = Some actual \<and> jeq (JStr actual) expected) images \<and>
        check_install fs lock = Inr ([], warning, meta))"
proof -
  have "run_lock_check sha image_id fs lock_path xsa_path = 0 \<longleftrightarrow>
      (\<exists>r. check_lock sha image_id fs lock_path xsa_path = Inr r \<and> lk_errors r = [])"
    by (auto simp: run_lock_check_def split: sum.splits)
  also have "\<dots> \<longleftrightarrow> (\<exists>lock h w images meta warning.
        read_json fs lock_path = Inr lock \<and> sha256_file sha fs xsa_path = Inr h \<and>
        jpath lock [''hardware'', ''xsa'', ''sha256''] = Inr w \<and> jeq (JStr h) w \<and>
        bindE (jget_or lock (JDict []) ''docker'') jitems = Inr images \<and>
        (\<exists>ess. mapE (check_image image_id) images = Inr ess \<and> concat ess = []) \<and>
        check_install fs lock = Inr ([], warning, meta))"
    unfolding check_lock_def bindE_Inr_iff [where m = "read_json fs lock_path"] bindE_Inr_iff [where m = "sha256_file sha fs xsa_path"]
      bindE_Inr_iff [where m = "mapE f xs" for f xs] bindE_Inr_iff [where m = "jpath l ks" for l ks]
      bindE_Inr_iff [where m = "check_install a b" for a b] bindE_Inr_iff [where m = "bindE (jget_or a b c) jitems" for a b c]
    by (auto simp del: jpath.simps split: if_splits)
      (rule exI, rule conjI, rule exI, rule conjI, rule impI, rule conjI, rule refl, rule refl, simp, simp)
  finally show ?thesis unfolding mapE_no_errors check_image_clean .
qed

end
