(* ===== verification/PlatformCommands.thy ===== *)
theory PlatformCommands
  imports Platform Builders
begin

text \<open>
  The commands over the hardware platform: what the version lock check, the ioctl check, the archive audit and the
  device tree generator write and print (lockcheck.py, abi.py, xsa_audit.py, petalinux.py), on top of the
  decisions of Platform. Opening the archive is a parameter: the names of its members and the parsed block design.
  A command returns its exit status, the lines it prints on standard output, and the files. Facts: the exit
  statuses agree with the decisions, and a fragment is written only when the command succeeds.
\<close>

record hw_env = env +
  hw_open :: "string \<Rightarrow> (string list \<times> xml) option"
  hw_image_id :: "json \<Rightarrow> string option"

abbreviation hw_base :: "hw_env \<Rightarrow> env" where
  "hw_base h \<equiv> env.truncate h"

definition write_opt :: "hw_env \<Rightarrow> path option \<Rightarrow> json \<Rightarrow> fs \<Rightarrow> fs" where
  "write_opt h out v fs = (case out of None \<Rightarrow> fs | Some p \<Rightarrow> write_json (hw_base h) p v fs)"

definition status_of :: "'a list \<Rightarrow> json" where
  "status_of errors = JStr (if errors = [] then ''pass'' else ''fail'')"

subsection \<open>The archive\<close>

definition sort_values :: "json list \<Rightarrow> json list" where
  "sort_values xs = (if list_all is_jstr xs then map JStr (sort (concat (map (\<lambda>x. case x of JStr s \<Rightarrow> [s] | _ \<Rightarrow> []) xs)))
     else sort_key (\<lambda>x. case x of JInt n \<Rightarrow> n | JBool b \<Rightarrow> (if b then 1 else 0) | _ \<Rightarrow> 0) xs)"

fun audit_message :: "hw_env \<Rightarrow> audit_error \<Rightarrow> string" where
  "audit_message h (Expected label wanted actual) = label @ '': expected '' @ py_repr (env_float h) wanted @ '', got '' @ py_repr (env_float h) actual"
| "audit_message h (NotConnected port ports) = ''interrupt connection: expected port '' @ py_repr (env_float h) port @ '', got ''
     @ py_repr (env_float h) (JList (sort_values ports))"
| "audit_message h (NoWidth w ws) = ''DBB AXI data width: expected '' @ py_str (env_float h) w @ '', got '' @ py_repr (env_float h) (JList (sort_values ws))"
| "audit_message h (NoSlave s ss) = ''DBB memory slave: expected '' @ py_repr (env_float h) s @ '', got '' @ py_repr (env_float h) (JList (sort_values ss))"
| "audit_message h (Coherent c nz) = ''coherent DMA expectation: expected '' @ py_str (env_float h) c @ '', got nonzero coherency params ''
     @ py_repr (env_float h) nz"

definition audit_archive :: "hw_env \<Rightarrow> path \<Rightarrow> fs \<Rightarrow> json res" where
  "audit_archive h p fs = (case read_text fs p of
       Inl _ \<Rightarrow> Inl (RuntimeError (''XSA not found: '' @ path_str p))
     | Inr c \<Rightarrow> bindE (noneE (ValueError ''BadZipFile'') (hw_open h c)) (\<lambda>(names, design). audit_xsa (env_sha h) names design fs p))"

definition clock_text :: "hw_env \<Rightarrow> string \<times> json \<Rightarrow> string res" where
  "clock_text h = (\<lambda>(name, clock). bindE (jat clock ''frequency_hz'') (\<lambda>hz. Inr (name @ ''='' @ py_str (env_float h) hz @ '' Hz'')))"

definition audit_lines :: "hw_env \<Rightarrow> json \<Rightarrow> json \<Rightarrow> string list res" where
  "audit_lines h audit lock =
     bindE (jpath audit [''wrapper'', ''base'']) (\<lambda>base. bindE (jpath audit [''wrapper'', ''high'']) (\<lambda>high.
     bindE (jpath lock [''hardware'', ''xsa'', ''expected'', ''interrupt_ps_port'']) (\<lambda>port.
     bindE (bindE (bindE (jpath audit [''memory'', ''dbb_slave_interfaces'']) jlist) (mapE jstr)) (\<lambda>slaves.
     bindE (bindE (jpath audit [''wrapper'', ''clocks'']) jitems) (\<lambda>clocks. bindE (mapE (clock_text h) (sort_key fst clocks)) (\<lambda>texts.
     Inr [''XSA audit passed'', ''  CSB: '' @ py_str (env_float h) base @ ''..'' @ py_str (env_float h) high,
       ''  IRQ: dla_intr -> '' @ py_str (env_float h) port, ''  DBB: '' @ join '', '' slaves, ''  clocks: '' @ join '', '' texts]))))))"

definition run_xsa_audit :: "hw_env \<Rightarrow> path \<Rightarrow> path \<Rightarrow> path option \<Rightarrow> fs \<Rightarrow> int \<times> string list \<times> fs" where
  "run_xsa_audit h xsa_path lock_path out fs =
     (case bindE (read_json fs lock_path) (\<lambda>lock. bindE (audit_archive h xsa_path fs) (\<lambda>audit.
        bindE (validate_audit audit lock) (\<lambda>errors. Inr (lock, audit, errors)))) of
        Inl _ \<Rightarrow> (1, [], fs)
      | Inr (lock, audit, errors) \<Rightarrow>
          (let fs' = write_opt h out (JDict [(''status'', status_of errors), (''errors'', JList (map (\<lambda>e. JStr (audit_message h e)) errors)), (''audit'', audit)]) fs in
           if errors \<noteq> [] then (1, [], fs')
           else case audit_lines h audit lock of Inl _ \<Rightarrow> (1, [], fs') | Inr ls \<Rightarrow> (0, ls, fs')))"

subsection \<open>The device tree fragment\<close>

definition dtsi_text :: "string \<Rightarrow> string \<Rightarrow> string list" where
  "dtsi_text label slave = map dq [
     ''/*'', '' * Refine the XSA-generated node rather than duplicating its register range.'',
     '' * This preserves its clocks, clock names, interrupt, and register properties.'', '' */'']
     @ [''&'' @ label @ '' {''] @ map dq [
     ''    compatible = `nvidia,nv_small`;'', ''    status = `okay`;'', ''    /*'',
     ''     * No coherent-DMA property: the audited XSA routes DBB through'']
     @ [''     * '' @ slave @ '' with coherency disabled.''] @ [''     */'', ''};'']"

definition dts_result :: "path \<Rightarrow> path \<Rightarrow> path \<Rightarrow> json \<Rightarrow> dts_node \<Rightarrow> json res" where
  "dts_result lock_path xsa_path out audit n =
     bindE (jpath audit [''xsa'', ''sha256'']) (\<lambda>h. bindE (jpath audit [''wrapper'', ''base'']) (\<lambda>base.
     Inr (JDict [(''status'', JStr ''pass''), (''source'', JDict [(''lock'', JStr (path_str lock_path)), (''xsa'', JStr (path_str xsa_path)), (''xsa_sha256'', h)]),
       (''node'', JDict [(''compatible'', JList [JStr ''nvidia,nv_small'']), (''reg'', JList (map JStr (dn_reg n))), (''base'', base), (''size'', JInt (dn_size n)),
          (''interrupt_parent'', JStr ''gic''), (''interrupts'', JList (map JInt (dn_interrupts n))), (''interrupt_source_port'', JStr (dn_port n)),
          (''dma_coherent'', JBool False), (''dbb_slave_interfaces'', dn_dbb n), (''generated_node_label'', JStr (dn_label n)),
          (''preserved_properties'', JList (map JStr [''reg'', ''interrupt-parent'', ''interrupts'', ''clock-names'', ''clocks'']))]),
       (''output'', JStr (path_str out))])))"

definition write_dtsi :: "hw_env \<Rightarrow> path \<Rightarrow> path \<Rightarrow> path \<Rightarrow> path option \<Rightarrow> fs \<Rightarrow> (dts_node \<times> fs) res" where
  "write_dtsi h lock_path xsa_path out audit_path fs =
     bindE (read_json fs lock_path) (\<lambda>lock. bindE (audit_archive h xsa_path fs) (\<lambda>audit.
     bindE (generate_nvdla_dtsi lock audit) (\<lambda>n.
     bindE (bindE (jlist (dn_dbb n)) (\<lambda>ss. Inr (py_str (env_float h) (hd ss)))) (\<lambda>slave.
     let fs1 = write_file out (lines_of (dtsi_text (dn_label n) slave)) fs in
     bindE (dts_result lock_path xsa_path out audit n) (\<lambda>result. Inr (n, write_opt h audit_path result fs1))))))"

definition run_petalinux_dts :: "hw_env \<Rightarrow> path \<Rightarrow> path \<Rightarrow> path \<Rightarrow> path option \<Rightarrow> fs \<Rightarrow> int \<times> string list \<times> fs" where
  "run_petalinux_dts h lock_path xsa_path out audit_path fs = (case write_dtsi h lock_path xsa_path out audit_path fs of
       Inl _ \<Rightarrow> (1, [], fs)
     | Inr (n, fs') \<Rightarrow> (0, [''PetaLinux DTS fragment generated'', ''  output: '' @ path_str out, ''  override: &'' @ dn_label n,
         ''  reg: <'' @ join '' '' (dn_reg n) @ ''>'', ''  interrupts: <'' @ join '' '' (map show_int (dn_interrupts n)) @ ''>''], fs'))"

subsection \<open>Facts\<close>

lemma write_dtsi_fragment:
  assumes "write_dtsi h lock_path xsa_path out audit_path fs = Inr (n, fs')" and "audit_path \<noteq> Some out"
  shows "\<exists>slave. read_text fs' out = Inr (lines_of (dtsi_text (dn_label n) slave))"
proof -
  have keep: "read_text (write_opt h audit_path v fs1) out = read_text fs1 out" for v fs1
    using assms(2) by (auto simp: write_opt_def write_json_def split: option.splits)
  from assms(1) show ?thesis by (auto simp: write_dtsi_def Let_def bindE_Inr_iff keep)
qed

lemma xsa_audit_exit:
  "fst (run_xsa_audit h xsa_path lock_path out fs) = 0 \<longleftrightarrow>
     (\<exists>lock audit ls. read_json fs lock_path = Inr lock \<and> audit_archive h xsa_path fs = Inr audit \<and> validate_audit audit lock = Inr [] \<and>
        audit_lines h audit lock = Inr ls)"
proof (cases "bindE (read_json fs lock_path) (\<lambda>lock. bindE (audit_archive h xsa_path fs) (\<lambda>audit.
        bindE (validate_audit audit lock) (\<lambda>errors. Inr (lock, audit, errors))))")
  case (Inl e)
  then show ?thesis by (cases "read_json fs lock_path"; cases "audit_archive h xsa_path fs") (auto simp: run_xsa_audit_def)
next
  case (Inr r)
  then show ?thesis by (auto simp: run_xsa_audit_def bindE_Inr_iff Let_def split: sum.splits)
qed

subsection \<open>The version lock\<close>

fun lock_message :: "hw_env \<Rightarrow> lock_error \<Rightarrow> string" where
  "lock_message h (XsaHash expected actual) = ''XSA sha256 expected '' @ py_str (env_float h) expected @ '', got '' @ actual"
| "lock_message h (ImageMissing img) = ''Docker image '' @ py_str (env_float h) img @ '' is not available''"
| "lock_message h (ImageDiffers img expected actual) = ''Docker image '' @ py_str (env_float h) img @ '' expected '' @ py_str (env_float h) expected
     @ '', got '' @ actual"
| "lock_message h (InstallMissing d) = ''PetaLinux install dir not found: '' @ path_str (path_div [] d)"
| "lock_message h (RevisionDiffers expected actual) = ''PetaLinux metadata expected '' @ py_str (env_float h) expected @ '', got '' @ actual"

definition docker_entry :: "hw_env \<Rightarrow> string \<times> json \<Rightarrow> (string \<times> json) res" where
  "docker_entry h = (\<lambda>(name, item). bindE (jat item ''image'') (\<lambda>img. bindE (jat item ''image_id'') (\<lambda>expected.
     Inr (name, JDict [(''image'', img), (''expected'', expected), (''actual'', opt_str (hw_image_id h img))]))))"

definition lock_document :: "hw_env \<Rightarrow> path \<Rightarrow> path \<Rightarrow> fs \<Rightarrow> (lock_result \<times> json) res" where
  "lock_document h lock_path xsa_path fs =
     bindE (check_lock (env_sha h) (hw_image_id h) fs lock_path xsa_path) (\<lambda>r.
     bindE (read_json fs lock_path) (\<lambda>lock. bindE (bindE (jget_or lock (JDict []) ''docker'') jitems) (\<lambda>images.
     bindE (mapE (docker_entry h) images) (\<lambda>docker. bindE (bindE (jpath lock [''petalinux'', ''install_dir'']) jstr) (\<lambda>install.
     Inr (r, JDict [(''status'', status_of (lk_errors r)), (''errors'', JList (map (\<lambda>e. JStr (lock_message h e)) (lk_errors r))),
       (''warnings'', JList (if lk_warning r then [JStr ''PetaLinux metadata revision not found in .version-history''] else [])),
       (''xsa'', JDict [(''path'', JStr (path_str xsa_path)), (''sha256'', JStr (lk_xsa r))]), (''docker'', JDict docker),
       (''petalinux'', JDict [(''install_dir'', JStr (path_str (path_div [] install))), (''metadata'', str_dict (lk_metadata r))])]))))))"

definition lock_command :: "hw_env \<Rightarrow> path \<Rightarrow> path \<Rightarrow> path option \<Rightarrow> fs \<Rightarrow> int \<times> string list \<times> fs" where
  "lock_command h lock_path xsa_path out fs = (case lock_document h lock_path xsa_path fs of
       Inl _ \<Rightarrow> (1, [], fs)
     | Inr (r, d) \<Rightarrow> (if lk_errors r \<noteq> [] then (1, [], write_opt h out d fs) else (0, [''Lock check passed''], write_opt h out d fs)))"

subsection \<open>The ioctl headers\<close>

definition kmd_header :: "path \<Rightarrow> path" where
  "kmd_header source = source @ [''kmd'', ''port'', ''linux'', ''include'', ''nvdla_ioctl.h'']"

definition umd_header :: "path \<Rightarrow> path" where
  "umd_header source = source @ [''umd'', ''port'', ''linux'', ''include'', ''nvdla_ioctl.h'']"

fun abi_message :: "path \<Rightarrow> abi_error \<Rightarrow> string" where
  "abi_message source KmdMissing = ''KMD ioctl header missing: '' @ path_str (kmd_header source)"
| "abi_message source UmdMissing = ''UMD ioctl header missing: '' @ path_str (umd_header source)"
| "abi_message source DefinesDiffer = ''KMD and UMD DRM ioctl define sets differ''"
| "abi_message source StructsDiffer = ''KMD and UMD drm_nvdla struct sets differ''"

definition facts_json :: "path \<Rightarrow> header_facts \<Rightarrow> json" where
  "facts_json p f = JDict [(''path'', JStr (path_str p)), (''sha256'', JStr (hf_sha f)), (''defines'', str_dict (hf_defines f)),
     (''structs'', JList (map JStr (hf_structs f)))]"

definition abi_document :: "hw_env \<Rightarrow> path \<Rightarrow> fs \<Rightarrow> json" where
  "abi_document h source fs = (let r = check_abi (env_sha h) fs source; errors = JList (map (\<lambda>e. JStr (abi_message source e)) (ab_errors r)) in
     case (dict_get fs (kmd_header source), dict_get fs (umd_header source)) of
       (Some k, Some u) \<Rightarrow> JDict [(''status'', status_of (ab_errors r)), (''errors'', errors),
         (''warnings'', JList (if ab_warning r then [JStr ''KMD and UMD nvdla_ioctl.h hashes differ; semantic ABI facts still match''] else [])),
         (''kmd'', facts_json (kmd_header source) (header_facts (env_sha h) k)), (''umd'', facts_json (umd_header source) (header_facts (env_sha h) u))]
     | _ \<Rightarrow> JDict [(''status'', JStr ''fail''), (''errors'', errors)])"

definition abi_command :: "hw_env \<Rightarrow> path \<Rightarrow> path option \<Rightarrow> fs \<Rightarrow> int \<times> string list \<times> fs" where
  "abi_command h source out fs = (let fs' = write_opt h out (abi_document h source fs) fs in
     if ab_errors (check_abi (env_sha h) fs source) \<noteq> [] then (1, [], fs')
     else (0, [''ABI check passed'', ''  header: '' @ path_str (kmd_header source)], fs'))"

text \<open>The commands exit as the checks decide.\<close>

lemma check_image_entry: "is_ok (check_image (hw_image_id h) x) \<Longrightarrow> is_ok (docker_entry h x)"
  by (cases x) (auto simp: check_image_def docker_entry_def bindE_Inr_iff is_ok_iff)

lemma check_images_entries: "mapE (check_image (hw_image_id h)) xs = Inr es \<Longrightarrow> \<exists>ds. mapE (docker_entry h) xs = Inr ds"
  using mapE_is_ok [of "check_image (hw_image_id h)" xs] mapE_is_ok [of "docker_entry h" xs] check_image_entry [of h]
  by (metis is_ok_iff)

lemma check_install_dir: "check_install fs lock = Inr r \<Longrightarrow> \<exists>install. bindE (jpath lock [''petalinux'', ''install_dir'']) jstr = Inr install"
  unfolding check_install_def bindE_Inr_iff by blast

lemma lock_document_ok:
  assumes "check_lock (env_sha h) (hw_image_id h) fs lock_path xsa_path = Inr r"
  shows "\<exists>d. lock_document h lock_path xsa_path fs = Inr (r, d)"
proof -
  from assms obtain lock images es ir where l: "read_json fs lock_path = Inr lock"
    and i: "bindE (jget_or lock (JDict []) ''docker'') jitems = Inr images" and es: "mapE (check_image (hw_image_id h)) images = Inr es"
    and p: "check_install fs lock = Inr ir"
    unfolding check_lock_def bindE_Inr_iff by blast
  from check_images_entries [OF es] check_install_dir [OF p] obtain ds install
    where ds: "mapE (docker_entry h) images = Inr ds" and d: "bindE (jpath lock [''petalinux'', ''install_dir'']) jstr = Inr install" by blast
  show ?thesis unfolding lock_document_def assms l i ds d bindE.simps by blast
qed

lemma lock_exit: "fst (lock_command h lock_path xsa_path out fs) = run_lock_check (env_sha h) (hw_image_id h) fs lock_path xsa_path"
proof (cases "check_lock (env_sha h) (hw_image_id h) fs lock_path xsa_path")
  case (Inl e)
  then show ?thesis by (simp add: lock_command_def lock_document_def run_lock_check_def)
next
  case (Inr r)
  from lock_document_ok [OF Inr] show ?thesis by (auto simp: lock_command_def run_lock_check_def Inr)
qed

lemma abi_exit: "fst (abi_command h source out fs) = run_abi_check (env_sha h) fs source"
  by (simp add: abi_command_def run_abi_check_def Let_def)

end
