(* ===== verification/VpSerial.thy ===== *)
theory VpSerial
  imports VpLog
begin

text \<open>
  The driver of the serial console of the virtual platform (\<open>_drain_until\<close> and
  \<open>_run_modern_serial\<close> of tools/nvdla_test_framework/vp.py). What the process does is a list of
  polls, one per iteration of the draining loop before its deadline: the character the reader thread
  has queued, if any, and whether the process has exited with an empty queue. The polls of the phases
  of a session are given; what the driver types between them is a result.
\<close>

record poll =
  pl_chunk :: "string option"
  pl_exited :: bool

fun drain_until :: "(string \<Rightarrow> bool) option \<Rightarrow> poll list \<Rightarrow> string \<Rightarrow> bool \<times> string" where
  "drain_until pred [] out = (False, out)"
| "drain_until pred (p # ps) out =
     (let txt = out @ (case pl_chunk p of None \<Rightarrow> [] | Some c \<Rightarrow> c);
          met = (case pred of None \<Rightarrow> False | Some f \<Rightarrow> f txt) in
      if met then (True, txt)
      else if pl_exited p then (met, txt)
      else drain_until pred ps txt)"

definition ends_hash :: "string \<Rightarrow> bool" where
  "ends_hash txt = ends_with (rstrip txt) ''#''"

definition at_prompt :: "string \<Rightarrow> bool" where
  "at_prompt txt = (contains ''login:'' txt \<or> ends_hash txt \<or> contains EXIT_MARKER txt)"

definition script_exited :: "string \<Rightarrow> bool" where
  "script_exited txt = contains EXIT_MARKER txt"

text \<open>The command typed at the shell.\<close>

definition guest_command :: string where
  "guest_command = ''mkdir -p /mnt/r; mount -t 9p -o trans=virtio,version=9p2000.L r /mnt/r || mount -t 9p -o trans=virtio r /mnt/r; ''
     @ ''sh /mnt/r/run-modern-smoke.sh; '' @ ''echo __NVDLA_SCRIPT_EXIT__=$?; '' @ ''poweroff -f'' @ [CR]"

text \<open>The polls of the phases: until a prompt, after the user name, until the script has ended, the
  twenty seconds after it, what the queue still holds when the process is gone, and the last two
  seconds; and the status of the process.\<close>

record session =
  ss_boot :: "poll list"
  ss_user :: "poll list"
  ss_script :: "poll list"
  ss_tail :: "poll list"
  ss_queue :: "string list"
  ss_last :: "poll list"
  ss_returncode :: "int option"

record serial_result =
  sr_returncode :: "int option"
  sr_login_seen :: bool
  sr_autorun_seen :: bool
  sr_userspace_seen :: bool
  sr_script_completed :: bool

text \<open>What the driver types, the result, and the log.\<close>

definition run_modern_serial :: "session \<Rightarrow> string list \<times> serial_result \<times> string" where
  "run_modern_serial s =
     (let initial = snd (drain_until (Some at_prompt) (ss_boot s) []);
          login_seen = (contains ''login:'' initial \<or> ends_hash initial);
          has_login = contains ''login:'' initial;
          typed = (if login_seen then (if has_login then [''root'' @ [CR]] else []) @ [guest_command] else []);
          shell = (if login_seen \<and> has_login then snd (drain_until (Some ends_hash) (ss_user s) initial) else initial);
          (seen, out) = drain_until (Some script_exited) (ss_script s) shell;
          after = (if seen then snd (drain_until None (ss_tail s) out) else out);
          drained = after @ concat (ss_queue s);
          log' = snd (drain_until None (ss_last s) drained);
          completed = (seen \<or> contains EXIT_MARKER log');
          autorun = contains ''__NVDLA_AUTORUN_BEGIN__'' log'
      in (typed, \<lparr>sr_returncode = ss_returncode s, sr_login_seen = login_seen, sr_autorun_seen = autorun,
            sr_userspace_seen = (login_seen \<or> autorun \<or> completed), sr_script_completed = completed\<rparr>, log'))"

subsection \<open>Facts\<close>

lemma drain_extends: "\<exists>u. snd (drain_until pred ps out) = out @ u"
proof (induction ps arbitrary: out)
  case (Cons p ps)
  let ?txt = "out @ (case pl_chunk p of None \<Rightarrow> [] | Some c \<Rightarrow> c)"
  from Cons [of ?txt] obtain u where "snd (drain_until pred ps ?txt) = ?txt @ u" by blast
  then show ?case by (auto simp: Let_def)
qed simp

lemma drain_met: "fst (drain_until (Some f) ps out) \<Longrightarrow> f (snd (drain_until (Some f) ps out))"
  by (induction ps arbitrary: out) (auto simp: Let_def split: if_splits)

lemma drain_None: "\<not> fst (drain_until None ps out)"
  by (induction ps arbitrary: out) (auto simp: Let_def)

lemma contains_extend: "contains p s \<Longrightarrow> contains p (s @ u)"
  using contains_append [of p s "[]" u] by simp

definition chars_of :: "string \<Rightarrow> poll list" where
  "chars_of s = map (\<lambda>c. \<lparr>pl_chunk = Some [c], pl_exited = False\<rparr>) s"

lemma drain_prefix:
  "u \<noteq> [] \<Longrightarrow> f (out @ u) \<Longrightarrow>
     drain_until (Some f) (chars_of u @ rest) out = drain_until (Some f) (chars_of u) out \<and>
     fst (drain_until (Some f) (chars_of u) out)"
proof (induction u arbitrary: out)
  case (Cons c u)
  show ?case
  proof (cases "f (out @ [c])")
    case False
    with Cons.prems have "u \<noteq> []" by auto
    with Cons.IH [of "out @ [c]"] Cons.prems False show ?thesis by (simp add: chars_of_def Let_def)
  qed (simp add: chars_of_def Let_def)
qed simp

text \<open>C16: The driver reports a completed script exactly when the exit marker occurs in the log it
  returns, whichever phase of the session it arrived in.\<close>

theorem completed_iff_marker:
  "let (typed, r, txt) = run_modern_serial s in
     sr_script_completed r \<longleftrightarrow> contains EXIT_MARKER txt"
proof -
  define shell where "shell = (let initial = snd (drain_until (Some at_prompt) (ss_boot s) []) in
    if (contains ''login:'' initial \<or> ends_hash initial) \<and> contains ''login:'' initial
    then snd (drain_until (Some ends_hash) (ss_user s) initial) else initial)"
  obtain seen out where d: "drain_until (Some script_exited) (ss_script s) shell = (seen, out)" by fastforce
  have "contains EXIT_MARKER (snd (drain_until None (ss_last s) ((if seen then snd (drain_until None (ss_tail s) out) else out) @ concat (ss_queue s))))"
    if seen
  proof -
    from drain_met [of script_exited "ss_script s" shell] d that have "contains EXIT_MARKER out" by (simp add: script_exited_def)
    moreover obtain u v where "snd (drain_until None (ss_tail s) out) = out @ u"
      and "snd (drain_until None (ss_last s) ((out @ u) @ concat (ss_queue s))) = ((out @ u) @ concat (ss_queue s)) @ v"
      using drain_extends by metis
    ultimately show ?thesis using that by (simp add: contains_extend)
  qed
  then show ?thesis using d by (auto simp: run_modern_serial_def Let_def shell_def)
qed

text \<open>C18: The echo of the typed command already contains the exit marker: once the terminal has echoed
  it, the script phase ends as completed, and nothing the guest prints afterwards in that phase (the
  script's own output and its exit status) has an effect on the session.\<close>

theorem echo_ends_script_phase:
  "let s' = s\<lparr>ss_script := chars_of guest_command @ rest\<rparr> in
     run_modern_serial s' = run_modern_serial (s'\<lparr>ss_script := chars_of guest_command\<rparr>) \<and>
     sr_script_completed (fst (snd (run_modern_serial s')))"
proof -
  have "contains EXIT_MARKER guest_command" "guest_command \<noteq> []" by code_simp+
  then have "script_exited (out @ guest_command)" for out
    using contains_append [of EXIT_MARKER guest_command out "[]"] by (simp add: script_exited_def)
  then have "drain_until (Some script_exited) (chars_of guest_command @ rest) out =
      drain_until (Some script_exited) (chars_of guest_command) out \<and>
      fst (drain_until (Some script_exited) (chars_of guest_command) out)" for out
    by (intro drain_prefix \<open>guest_command \<noteq> []\<close>)
  note d = this
  define t where "t = (\<lambda>out. snd (drain_until (Some script_exited) (chars_of guest_command) out))"
  have "drain_until (Some script_exited) (chars_of guest_command) out = (True, t out)"
    and "drain_until (Some script_exited) (chars_of guest_command @ rest) out = (True, t out)" for out
    using d [of out] by (simp_all add: t_def prod_eq_iff)
  then show ?thesis by (simp add: run_modern_serial_def Let_def)
qed

text \<open>A session in which the marker was echoed, the script's status never arrived, and the driver still
  reports completion.\<close>

lemma echo_without_status:
  "\<exists>s. case run_modern_serial s of (typed, r, txt) \<Rightarrow> sr_script_completed r \<and> extract_script_exit txt = None"
proof -
  have "case run_modern_serial \<lparr>ss_boot = chars_of ''x #'', ss_user = [], ss_script = chars_of guest_command, ss_tail = [], ss_queue = [],
      ss_last = [], ss_returncode = Some 0\<rparr> of (typed, r, txt) \<Rightarrow> sr_script_completed r \<and> extract_script_exit txt = None"
    by code_simp
  then show ?thesis by (rule exI)
qed

end
