(* ===== verification/GuestScript.thy ===== *)
theory GuestScript
  imports PyStr
begin

text \<open>
  The shell scripts the modern lane gives the guest (tools/nvdla_test_framework/vp.py, the two templates
  of \<open>_write_payload\<close>): their texts, with the repeat count and the timeouts of the run. A back quote
  stands for a double quote. Python joins a line that ends in a backslash with the next one, so the
  files hold those commands on one line.
\<close>

text \<open>The pieces both scripts share.\<close>

definition cat_section_text :: "string list" where
  "cat_section_text = [
     ''cat_section() {'', ''    name=`$1`'', ''    file=`$2`'', ''    echo `__NVDLA_SECTION_${name}_BEGIN__`'',
     ''    if [ -f `$file` ]; then'', ''        cat `$file`'', ''    fi'', ''    echo `__NVDLA_SECTION_${name}_END__`'',
     ''}'', []]"

definition module_text :: "string list" where
  "module_text = [
     ''if command -v modinfo >/dev/null 2>&1; then'',
     ''    modinfo -F vermagic /mnt/r/opendla.ko >/tmp/module-vermagic.txt 2>&1'', ''else'',
     ''    strings /mnt/r/opendla.ko | sed -n '' @ [SQ] @ ''s/^vermagic=//p'' @ [SQ] @ '' | head -n 1 >/tmp/module-vermagic.txt 2>&1'',
     ''fi'', ''VERMAGIC_STATUS=$?'', ''cat_section module_vermagic /tmp/module-vermagic.txt'',
     ''echo `__NVDLA_STATUS_module_vermagic=$VERMAGIC_STATUS`'', [],
     ''insmod /mnt/r/opendla.ko firmware_log=1 >/tmp/module-load.log 2>&1'', ''MODULE_STATUS=$?'',
     ''cat_section module_load /tmp/module-load.log'', ''echo `__NVDLA_STATUS_module_load=$MODULE_STATUS`'', [],
     ''sleep 1'', ''ls -l /dev/dri >/tmp/dev-dri.txt 2>&1'', ''DRI_STATUS=$?'', ''cat_section dev_dri /tmp/dev-dri.txt'',
     ''echo `__NVDLA_STATUS_dev_dri=$DRI_STATUS`'', [], ''NODE=`${NVDLA_DEVICE_NODE:-}`'', ''if [ -z `$NODE` ]; then'',
     ''    NODE=`$(ls /dev/dri/renderD* 2>/dev/null | head -n 1)`'', ''fi'', ''echo `__NVDLA_RENDER_NODE__=$NODE`'', []]"

definition kernel_log_text :: "string list" where
  "kernel_log_text = [
     [], ''dmesg 2>&1 | tail -n 200 >/tmp/dmesg.log'', ''cat_section dmesg /tmp/dmesg.log'', []]"

text \<open>The script of the runtime mode.\<close>

definition runtime_head_text :: "int \<Rightarrow> int \<Rightarrow> int \<Rightarrow> string list" where
  "runtime_head_text repeat' runtime_timeout server_start_timeout = [
     ''#!/bin/sh'', ''set +e'', [], ''repeat='' @ show_int (max 1 repeat'),
     ''runtime_timeout=`'' @ show_int runtime_timeout @ ''`'',
     ''server_start_timeout=`'' @ show_int server_start_timeout @ ''`'', []]"

definition runtime_mount_text :: "string list" where
  "runtime_mount_text = [
     ''echo `__NVDLA_RUNTIME_BEGIN__`'', ''echo `__NVDLA_SECTION_uname_BEGIN__`'', ''uname -a'',
     ''echo `__NVDLA_SECTION_uname_END__`'', [], ''mkdir -p /mnt/w'',
     ''mount -t 9p -o trans=virtio,version=9p2000.L w /mnt/w || mount -t 9p -o trans=virtio w /mnt/w'', ''WRITE_STATUS=$?'',
     ''echo `__NVDLA_STATUS_writable_mount=$WRITE_STATUS`'', ''if [ `$WRITE_STATUS` -eq 0 ]; then'',
     ''    mkdir -p /mnt/w/runtime-output'', ''fi'', []]"

definition runtime_server_text :: "string list" where
  "runtime_server_text = [
     ''RUNTIME_STATUS=97'', ''CLIENT_STATUS=97'', ''COMPARE_STATUS=97'', ''SERVER_READY=1'', ''i=1'',
     ''while [ `$i` -le `$repeat` ]; do'', ''    rm -rf /tmp/nvdla-runtime'', ''    mkdir -p /tmp/nvdla-runtime/outputs'',
     ''    : >/tmp/runtime-server.log'', ''    : >/tmp/runtime-client.log'', ''    : >/tmp/runtime-compare.log'', [],
     ''    if [ `$MODULE_STATUS` -eq 0 ] && [ `$DRI_STATUS` -eq 0 ] && [ -n `$NODE` ]; then'',
     ''        NVDLA_DEVICE_NODE=`$NODE` LD_LIBRARY_PATH=/mnt/r /mnt/r/nvdla_runtime -s             >/tmp/runtime-server.log 2>&1 &'',
     ''        SERVER_PID=$!'', ''        elapsed=0'', ''        SERVER_READY=1'',
     ''        while [ `$elapsed` -lt `$server_start_timeout` ]; do'',
     ''            if grep -q `Ready for Client Connection` /tmp/runtime-server.log; then'',
     ''                SERVER_READY=0'', ''                break'', ''            fi'',
     ''            if ! kill -0 `$SERVER_PID` 2>/dev/null; then'', ''                break'', ''            fi'',
     ''            sleep 1'', ''            elapsed=$((elapsed + 1))'', ''        done'',
     ''        echo `__NVDLA_STATUS_runtime_server_ready_$i=$SERVER_READY`'', []]"

definition runtime_client_text :: "string list" where
  "runtime_client_text = [
     ''        if [ `$SERVER_READY` -eq 0 ]; then'',
     ''            LD_LIBRARY_PATH=/mnt/r python3 /mnt/r/nvdla_flatbuf_client.py                 --flatbuf /mnt/r/loadable.fbuf                 --out-dir /tmp/nvdla-runtime/outputs                 --timeout `$runtime_timeout`                 >/tmp/runtime-client.log 2>&1'',
     ''            CLIENT_STATUS=$?'', ''        else'',
     ''            echo `runtime server did not become ready` >>/tmp/runtime-client.log'',
     ''            CLIENT_STATUS=125'', ''        fi'', [], ''        elapsed=0'',
     ''        while kill -0 `$SERVER_PID` 2>/dev/null && [ `$elapsed` -lt 10 ]; do'', ''            sleep 1'',
     ''            elapsed=$((elapsed + 1))'', ''        done'', ''        if kill -0 `$SERVER_PID` 2>/dev/null; then'',
     ''            kill `$SERVER_PID` 2>/dev/null'', ''        fi'', ''        wait `$SERVER_PID` 2>/dev/null'', []]"

definition runtime_compare_text :: "string list" where
  "runtime_compare_text = [
     ''        if [ `$CLIENT_STATUS` -eq 0 ]; then'',
     ''            cmp -s /mnt/r/golden/o_000000.dimg /tmp/nvdla-runtime/outputs/o_000000.dimg'',
     ''            COMPARE_STATUS=$?'', ''            if [ `$COMPARE_STATUS` -ne 0 ]; then'',
     ''                cmp -l /mnt/r/golden/o_000000.dimg /tmp/nvdla-runtime/outputs/o_000000.dimg                     | head -n 20 >/tmp/runtime-compare.log 2>&1'',
     ''            else'', ''                echo `exact match` >/tmp/runtime-compare.log'', ''            fi'',
     ''        else'', ''            COMPARE_STATUS=126'',
     ''            echo `client failed with status $CLIENT_STATUS` >/tmp/runtime-compare.log'', ''        fi'',
     ''    else'',
     ''        echo `module_status=$MODULE_STATUS dri_status=$DRI_STATUS node=$NODE` >/tmp/runtime-client.log'',
     ''        CLIENT_STATUS=98'', ''        COMPARE_STATUS=98'', ''    fi'', []]"

definition runtime_copy_text :: "string list" where
  "runtime_copy_text = [
     ''    if [ `$WRITE_STATUS` -eq 0 ]; then'',
     ''        cp /tmp/runtime-server.log /mnt/w/runtime-output/runtime-server.log 2>/dev/null'',
     ''        cp /tmp/runtime-client.log /mnt/w/runtime-output/runtime-client.log 2>/dev/null'',
     ''        cp /tmp/runtime-compare.log /mnt/w/runtime-output/runtime-compare.log 2>/dev/null'',
     ''        cp /tmp/nvdla-runtime/outputs/o_000000.dimg /mnt/w/runtime-output/o_000000.dimg 2>/dev/null'', ''    fi'',
     [], ''    echo `__NVDLA_STATUS_runtime_client_$i=$CLIENT_STATUS`'',
     ''    echo `__NVDLA_STATUS_runtime_compare_$i=$COMPARE_STATUS`'',
     ''    if [ `$CLIENT_STATUS` -eq 0 ] && [ `$COMPARE_STATUS` -eq 0 ]; then'', ''        RUNTIME_STATUS=0'', ''    else'',
     ''        RUNTIME_STATUS=1'', ''        break'', ''    fi'', ''    i=$((i + 1))'', ''done'', []]"

definition runtime_report_text :: "string list" where
  "runtime_report_text = [
     ''cat_section runtime_server /tmp/runtime-server.log'', ''cat_section runtime_client /tmp/runtime-client.log'',
     ''cat_section runtime_compare /tmp/runtime-compare.log'', ''echo `__NVDLA_STATUS_runtime_server_ready=$SERVER_READY`'',
     ''echo `__NVDLA_STATUS_runtime_client=$CLIENT_STATUS`'', ''echo `__NVDLA_STATUS_runtime_compare=$COMPARE_STATUS`'',
     ''echo `__NVDLA_STATUS_runtime=$RUNTIME_STATUS`'']"

definition runtime_end_text :: "string list" where
  "runtime_end_text = [
     ''echo `__NVDLA_RESULT__ module=$MODULE_STATUS dri=$DRI_STATUS runtime=$RUNTIME_STATUS repeat=$repeat`'',
     ''echo `__NVDLA_RUNTIME_END__`'', [],
     ''if [ `$MODULE_STATUS` -eq 0 ] && [ `$DRI_STATUS` -eq 0 ] && [ `$RUNTIME_STATUS` -eq 0 ]; then'', ''    exit 0'',
     ''fi'', ''exit 1'']"

definition runtime_script :: "int \<Rightarrow> int \<Rightarrow> int \<Rightarrow> string" where
  "runtime_script repeat' runtime_timeout server_start_timeout = lines_of (map dq (
     runtime_head_text repeat' runtime_timeout server_start_timeout @ cat_section_text @ runtime_mount_text @ module_text @
     runtime_server_text @ runtime_client_text @ runtime_compare_text @ runtime_copy_text @ runtime_report_text @
     kernel_log_text @ runtime_end_text))"

text \<open>The script of the smoke mode.\<close>

definition smoke_head_text :: "int \<Rightarrow> string list" where
  "smoke_head_text repeat' = [
     ''#!/bin/sh'', ''set +e'', [], ''repeat='' @ show_int (max 1 repeat'), ''smoke_timeout=`${NVDLA_SMOKE_TIMEOUT:-30}`'',
     []]"

definition smoke_begin_text :: "string list" where
  "smoke_begin_text = [
     ''echo `__NVDLA_SMOKE_BEGIN__`'', ''echo `__NVDLA_SECTION_uname_BEGIN__`'', ''uname -a'',
     ''echo `__NVDLA_SECTION_uname_END__`'', []]"

definition smoke_run_text :: "string list" where
  "smoke_run_text = [
     ''SMOKE_STATUS=97'', ''i=1'', ''while [ `$i` -le `$repeat` ]; do'',
     ''    if [ `$MODULE_STATUS` -eq 0 ] && [ `$DRI_STATUS` -eq 0 ] && [ -n `$NODE` ]; then'',
     ''        rm -f /tmp/runtime.status'', ''        ('',
     ''            NVDLA_DEVICE_NODE=`$NODE` /mnt/r/nvdla-kmd-smoke                 >/tmp/runtime.stdout.log 2>/tmp/runtime.stderr.log'',
     ''            echo `$?` >/tmp/runtime.status'', ''        ) &'', ''        SMOKE_PID=$!'', ''        elapsed=0'',
     ''        while [ ! -f /tmp/runtime.status ] && [ `$elapsed` -lt `$smoke_timeout` ]; do'', ''            sleep 1'',
     ''            elapsed=$((elapsed + 1))'', ''        done'', ''        if [ -f /tmp/runtime.status ]; then'',
     ''            SMOKE_STATUS=`$(cat /tmp/runtime.status)`'', ''        else'', ''            SMOKE_STATUS=124'',
     ''            kill `$SMOKE_PID` 2>/dev/null'',
     ''            echo `nvdla-kmd-smoke timed out after ${smoke_timeout}s`                 >>/tmp/runtime.stderr.log'',
     ''        fi'', ''    else'',
     ''        echo `module_status=$MODULE_STATUS dri_status=$DRI_STATUS node=$NODE`             >/tmp/runtime.stdout.log'',
     ''        : >/tmp/runtime.stderr.log'', ''        SMOKE_STATUS=98'', ''    fi'']"

definition smoke_report_text :: "string list" where
  "smoke_report_text = [
     ''    echo `__NVDLA_STATUS_smoke_run_${i}=$SMOKE_STATUS`'', ''    if [ `$SMOKE_STATUS` -ne 0 ]; then'',
     ''        break'', ''    fi'', ''    i=$((i + 1))'', ''done'', [],
     ''cat_section smoke_stdout /tmp/runtime.stdout.log'', ''cat_section smoke_stderr /tmp/runtime.stderr.log'',
     ''echo `__NVDLA_STATUS_smoke=$SMOKE_STATUS`'']"

definition smoke_end_text :: "string list" where
  "smoke_end_text = [
     ''echo `__NVDLA_RESULT__ module=$MODULE_STATUS dri=$DRI_STATUS smoke=$SMOKE_STATUS repeat=$repeat`'',
     ''echo `__NVDLA_SMOKE_END__`'', [],
     ''if [ `$MODULE_STATUS` -eq 0 ] && [ `$DRI_STATUS` -eq 0 ] && [ `$SMOKE_STATUS` -eq 0 ]; then'', ''    exit 0'',
     ''fi'', ''exit 1'']"

definition smoke_script :: "int \<Rightarrow> string" where
  "smoke_script repeat' = lines_of (map dq (
     smoke_head_text repeat' @ cat_section_text @ smoke_begin_text @ module_text @ smoke_run_text @ smoke_report_text @
     kernel_log_text @ smoke_end_text))"
end
