(* ===== verification/VpRun.thy ===== *)
theory VpRun
  imports VpSerial Builders Workloads GuestScript
begin

text \<open>
  The virtual-platform lanes (tools/nvdla_test_framework/vp.py): the stock reference lane, the paths
  and the payload of the modern lane, the configuration and the command of the platform, and the
  verdict over its logs. \<open>vp_env\<close> adds to the commands of \<open>build_env\<close> the environment variables, the
  search path, git, and the session with the platform: what its console does and the files it leaves, or \<open>None\<close> when the
  command cannot be found. File modes are not modelled.
\<close>

record vp_env = build_env +
  ve_getenv :: "string \<Rightarrow> string option"
  ve_home :: "string \<Rightarrow> string option"
  ve_which :: "string \<Rightarrow> string option"
  ve_git :: "path \<Rightarrow> string option"
  ve_session :: "string list \<Rightarrow> fs \<Rightarrow> (session \<times> fs) option"

abbreviation the_env :: "vp_env \<Rightarrow> env" where
  "the_env v \<equiv> env.truncate v"

subsection \<open>The reference lane\<close>

definition stock_vp_boot :: "vp_env \<Rightarrow> string list \<Rightarrow> string \<Rightarrow> int \<Rightarrow> path \<Rightarrow> fs \<Rightarrow> (json \<times> fs) res" where
  "stock_vp_boot v docker_prefix img timeout out_dir fs =
     bindE (noneE OSError (bd_run v (docker_prefix @ [''run'', ''--rm'', img, ''bash'', ''-lc'',
       ''cd /usr/local/nvdla && timeout '' @ show_int timeout @ ''s aarch64_toplevel -c aarch64_nvdla.lua'']) fs)) (\<lambda>(status, out, fs1).
     let reached_login = (contains ''Welcome to Buildroot'' out \<and> contains ''nvdla login:'' out);
         bad = bad_patterns out;
         ok = (reached_login \<and> bad = [] \<and> (status = 0 \<or> status = 124))
     in Inr (JDict [(''status'', JStr (if ok then ''pass'' else ''fail'')), (''returncode'', JInt status),
          (''reached_login'', JBool reached_login), (''bad_patterns'', JList (map JStr bad)), (''serial_log'', JStr ''serial.log'')],
        write_file (out_dir @ [''serial.log'']) out fs1))"

definition compiler_smoke :: "vp_env \<Rightarrow> string list \<Rightarrow> string \<Rightarrow> path \<Rightarrow> fs \<Rightarrow> (json \<times> fs) res" where
  "compiler_smoke v docker_prefix img out_dir fs =
     bindE (noneE OSError (bd_run v (docker_prefix @ [''run'', ''--rm'', img, ''bash'', ''-lc'',
       ''LD_LIBRARY_PATH=/usr/local/nvdla /usr/local/nvdla/nvdla_compiler -h'']) fs)) (\<lambda>(status, out, fs1).
     let ok = (status = 0 \<and> contains ''--configtarget <nv_full|nv_large|nv_small>'' out)
     in Inr (JDict [(''status'', JStr (if ok then ''pass'' else ''fail'')), (''returncode'', JInt status), (''log'', JStr ''compiler.stdout.log'')],
        write_file (out_dir @ [''compiler.stdout.log'']) out fs1))"

subsection \<open>Toolchain and paths\<close>

definition existing_command :: "vp_env \<Rightarrow> fs \<Rightarrow> string \<Rightarrow> string option" where
  "existing_command v fs name = (if is_file fs (rel_path name) then Some (path_str (rel_path name)) else ve_which v name)"

definition cross_candidates :: "vp_env \<Rightarrow> path \<Rightarrow> (string \<times> string) list" where
  "cross_candidates v work_dir = (case ve_getenv v ''CROSS_COMPILE'' of Some (c # s) \<Rightarrow> [(''user'', c # s)] | _ \<Rightarrow> [])
     @ [(''buildroot'', path_str (work_dir @ [''buildroot'', ''host'', ''bin'', ''aarch64-buildroot-linux-gnu-''])),
        (''apt'', ''aarch64-linux-gnu-'')]"

definition toolchain_json :: "json \<Rightarrow> json \<Rightarrow> json \<Rightarrow> json \<Rightarrow> json \<Rightarrow> json" where
  "toolchain_json source cross gcc machine version = JDict [(''source'', source), (''cross_compile'', cross), (''gcc'', gcc),
     (''machine'', machine), (''version'', version)]"

text \<open>The compiler and the record of the first candidate that has one.\<close>

fun try_toolchains :: "vp_env \<Rightarrow> fs \<Rightarrow> (string \<times> string) list \<Rightarrow> (string option \<times> json) res" where
  "try_toolchains v fs [] = Inr (None, toolchain_json JNull JNull JNull JNull JNull)"
| "try_toolchains v fs ((source, pre) # cs) = (case existing_command v fs (pre @ ''gcc'') of
       None \<Rightarrow> try_toolchains v fs cs
     | Some gcc \<Rightarrow> (if gcc = [] then try_toolchains v fs cs else
         bindE (noneE OSError (bd_run v [gcc, ''-dumpmachine''] fs)) (\<lambda>(_, machine, _).
         bindE (noneE OSError (bd_run v [gcc, ''--version''] fs)) (\<lambda>(_, version, _).
         Inr (Some gcc, toolchain_json (JStr source) (JStr pre) (JStr gcc) (JStr (strip machine))
           (case splitlines version of [] \<Rightarrow> JNull | l # _ \<Rightarrow> JStr l))))))"

definition resolve_cross_compile :: "vp_env \<Rightarrow> fs \<Rightarrow> path \<Rightarrow> (string option \<times> json) res" where
  "resolve_cross_compile v fs work_dir = try_toolchains v fs (cross_candidates v work_dir)"

type_synonym vp_paths = "(string, path option) dict"

definition env_or :: "vp_env \<Rightarrow> string \<Rightarrow> string \<Rightarrow> string" where
  "env_or v name dflt = (case ve_getenv v name of Some (c # s) \<Rightarrow> c # s | _ \<Rightarrow> dflt)"

definition env_get :: "vp_env \<Rightarrow> string \<Rightarrow> string \<Rightarrow> string" where
  "env_get v name dflt = (case ve_getenv v name of None \<Rightarrow> dflt | Some s \<Rightarrow> s)"

definition hw_config :: "vp_env \<Rightarrow> string" where
  "hw_config v = env_get v ''VP_HW_CONFIG'' ''full''"

definition vp_runner :: "vp_env \<Rightarrow> string" where
  "vp_runner v = env_or v ''VP_RUNNER'' (if hw_config v = ''small'' then ''source-docker'' else ''docker'')"

definition env_path :: "vp_env \<Rightarrow> string \<Rightarrow> path \<Rightarrow> path" where
  "env_path v name dflt = path_from_env (ve_getenv v) (ve_home v) name dflt"

definition modern_paths :: "vp_env \<Rightarrow> path option \<Rightarrow> path option \<Rightarrow> fs \<Rightarrow> vp_paths res" where
  "modern_paths v work_dir sources_dir fs =
     (let root' = bd_root v;
          work = (case work_dir of Some w \<Rightarrow> w | None \<Rightarrow> env_path v ''WORK_DIR'' (root' @ [''.work'', ''vp-modern'']));
          sources = (case sources_dir of Some d \<Rightarrow> d | None \<Rightarrow> env_path v ''SOURCES_DIR'' (root' @ [''.external'', ''sources'']));
          patched = env_path v ''PATCHED_NVDLA_SW'' (root' @ [''.work'', ''nvdla-sw-patched'']);
          vp_small = work @ [''vp-small''];
          dts = work @ [''kernel'', ''arch'', ''arm64'', ''boot'', ''dts''];
          default_dtb = (if hw_config v = ''small'' then work @ [''dtb'', ''nvdla-vp-modern-small-extmem-pool.dtb'']
            else dts @ [''nvdla-vp-modern.dtb'']);
          dtb = find_first (path_exists fs) [env_path v ''VP_MODERN_DTB'' default_dtb, dts @ [''qemu'', ''nvdla-vp-modern.dtb''],
            dts @ [''xilinx'', ''nvdla-vp-modern.dtb'']];
          systemc = expand_path (ve_getenv v) (ve_home v) (env_get v ''SYSTEMC_PREFIX'' ''/usr/local/systemc-2.3.0'') in
     bindE (path_from_env_or_first (ve_getenv v) (ve_home v) fs ''VP_MODERN_KERNEL''
       [work @ [''kernel'', ''arch'', ''arm64'', ''boot'', ''Image.vp2m''], work @ [''kernel'', ''arch'', ''arm64'', ''boot'', ''Image'']]) (\<lambda>kernel.
     bindE (path_from_env_or_first (ve_getenv v) (ve_home v) fs ''VP_MODERN_ROOTFS''
       [work @ [''buildroot'', ''images'', ''rootfs-smoke.ext4''], work @ [''buildroot'', ''images'', ''rootfs.ext4'']]) (\<lambda>rootfs.
     Inr [(''work_dir'', Some work), (''sources_dir'', Some sources), (''linux'', Some (sources @ [''linux-xlnx''])),
       (''buildroot'', Some (sources @ [''buildroot''])), (''nvdla_vp'', Some (sources @ [''nvdla-vp''])),
       (''nvdla_hw'', Some (sources @ [''nvdla-hw''])), (''patched_nvdla_sw'', Some patched), (''kernel'', Some kernel),
       (''rootfs'', Some rootfs), (''module'', Some (env_path v ''VP_MODERN_KO'' (work @ [''modules'', ''opendla.ko'']))),
       (''runtime_binary'', Some (env_path v ''VP_RUNTIME_BIN'' (work @ [''runtime'', ''nvdla_runtime'']))),
       (''runtime_library'', Some (env_path v ''VP_RUNTIME_LIB'' (work @ [''runtime'', ''libnvdla_runtime.so'']))),
       (''workloads_dir'', Some (env_path v ''WORKLOADS_DIR'' (root' @ [''artifacts'', ''workloads'']))), (''dtb'', dtb),
       (''vp_binary'', Some (env_path v ''VP_BINARY'' (vp_small @ [''install'', ''bin'', ''aarch64_toplevel'']))),
       (''vp_library_dir'', Some (env_path v ''VP_LIB_DIR'' (vp_small @ [''install'', ''lib'']))),
       (''vp_cmod_library_dir'', Some (env_path v ''VP_CMOD_LIB_DIR''
          (vp_small @ [''hw'', ''outdir'', ''nv_small'', ''cmod'', ''release'', ''lib'']))),
       (''systemc_lib_dir'', Some (env_path v ''SYSTEMC_LIB_DIR'' (systemc @ [''lib-linux64''])))])))"

definition path_of :: "vp_paths \<Rightarrow> string \<Rightarrow> path option" where
  "path_of paths name = (case dict_get paths name of None \<Rightarrow> None | Some p \<Rightarrow> p)"

definition need_path :: "vp_paths \<Rightarrow> string \<Rightarrow> path res" where
  "need_path paths name = noneE (KeyError name) (path_of paths name)"

definition path_hash :: "vp_env \<Rightarrow> fs \<Rightarrow> path option \<Rightarrow> json" where
  "path_hash v fs p = (case p of None \<Rightarrow> JNull
     | Some q \<Rightarrow> (case dict_get fs q of None \<Rightarrow> JNull | Some c \<Rightarrow> JStr (upper (env_sha v c))))"

definition show_path :: "path option \<Rightarrow> string" where
  "show_path p = (case p of None \<Rightarrow> ''None'' | Some q \<Rightarrow> path_str q)"

definition check_required_paths :: "fs \<Rightarrow> vp_paths \<Rightarrow> string list \<Rightarrow> string list" where
  "check_required_paths fs paths required = map (\<lambda>n. n @ '': '' @ show_path (path_of paths n))
     (List.filter (\<lambda>n. case path_of paths n of None \<Rightarrow> True | Some p \<Rightarrow> \<not> path_exists fs p) required)"

definition paths_json :: "vp_paths \<Rightarrow> json" where
  "paths_json paths = JDict (map (\<lambda>(n, p). (n, case p of None \<Rightarrow> JNull | Some q \<Rightarrow> JStr (path_str q))) paths)"

subsection \<open>The smoke utility and the payload\<close>

definition smoke_source :: "vp_env \<Rightarrow> path" where
  "smoke_source v = bd_root v @ [''tools'', ''smoke'', ''nvdla-kmd-smoke.c'']"

definition runtime_client :: "vp_env \<Rightarrow> path" where
  "runtime_client v = bd_root v @ [''tools'', ''runtime'', ''nvdla_flatbuf_client.py'']"

definition build_smoke_binary :: "vp_env \<Rightarrow> vp_paths \<Rightarrow> path \<Rightarrow> fs \<Rightarrow> (json \<times> fs) res" where
  "build_smoke_binary v paths out_dir fs =
     bindE (need_path paths ''work_dir'') (\<lambda>work_dir. bindE (need_path paths ''patched_nvdla_sw'') (\<lambda>patched.
     bindE (resolve_cross_compile v fs work_dir) (\<lambda>(gcc, toolchain).
     let include_dir = patched @ [''kmd'', ''port'', ''linux'', ''include''];
         output = out_dir @ [''payload'', ''nvdla-kmd-smoke''];
         result = (\<lambda>status rest. JDict ((''status'', JStr status) # rest @ [(''toolchain'', toolchain), (''log'', JStr ''smoke-build.log'')])) in
     case gcc of
       None \<Rightarrow> Inr (result ''blocked'' [(''reason'', JStr ''no ARM64 cross compiler found for smoke utility'')], fs)
     | Some g \<Rightarrow>
         if \<not> path_exists fs include_dir then
           Inr (result ''blocked'' [(''reason'', JStr (''NVDLA KMD include directory not found: '' @ path_str include_dir))], fs)
         else let command = [g, ''-std=c11'', ''-Wall'', ''-Wextra'', ''-Werror'', ''-O2'', ''-I'', path_str include_dir, ''-o'',
             path_str output, path_str (smoke_source v)] in
           bindE (noneE OSError (bd_run v command fs)) (\<lambda>(status, out, fs1).
           let fs2 = write_file (out_dir @ [''smoke-build.log'']) (''+'' @ join '' '' command @ [NL] @ out) fs1 in
           if status \<noteq> 0 then
             Inr (result ''fail'' [(''reason'', JStr ''nvdla-kmd-smoke build failed''), (''returncode'', JInt status)], fs2)
           else bindE (sha_file (the_env v) fs2 output) (\<lambda>h.
             Inr (result ''pass'' [(''path'', JStr (path_str output)), (''sha256'', JStr h)], fs2))))))"

definition copy_all :: "(path \<times> path) list \<Rightarrow> fs \<Rightarrow> fs res" where
  "copy_all ps fs = foldE (\<lambda>(s, d). copy_file s d) ps fs"

definition write_payload :: "vp_env \<Rightarrow> vp_paths \<Rightarrow> path \<Rightarrow> int \<Rightarrow> string \<Rightarrow> vp_workload option \<Rightarrow> fs \<Rightarrow> (json \<times> fs) res" where
  "write_payload v paths out_dir repeat' mode workload fs =
     (let payload = out_dir @ [''payload'']; script = payload @ [''run-modern-smoke.sh'']; inp = (\<lambda>n. JStr (path_str (payload @ [n]))) in
     bindE (need_path paths ''module'') (\<lambda>module.
     bindE (copy_file module (payload @ [''opendla.ko'']) fs) (\<lambda>fs1.
     if mode = ''runtime'' then
       bindE (int_from_env (ve_getenv v) ''NVDLA_RUNTIME_TIMEOUT'' 180 1) (\<lambda>runtime_timeout.
       bindE (int_from_env (ve_getenv v) ''NVDLA_SERVER_START_TIMEOUT'' 45 1) (\<lambda>server_start_timeout.
       bindE (need_path paths ''runtime_binary'') (\<lambda>binary. bindE (need_path paths ''runtime_library'') (\<lambda>library.
       bindE (noneE AttributeError workload) (\<lambda>w.
       bindE (copy_all [(binary, payload @ [''nvdla_runtime'']), (library, payload @ [''libnvdla_runtime.so'']),
         (runtime_client v, payload @ [''nvdla_flatbuf_client.py'']), (vw_loadable w, payload @ [''loadable.fbuf'']),
         (vw_golden w, payload @ [''golden'', ''o_000000.dimg''])] fs1) (\<lambda>fs2.
       Inr (JDict [(''path'', JStr (path_str payload)), (''mode'', JStr mode), (''module'', inp ''opendla.ko''),
           (''runtime_binary'', inp ''nvdla_runtime''), (''runtime_library'', inp ''libnvdla_runtime.so''),
           (''client'', inp ''nvdla_flatbuf_client.py''), (''loadable'', inp ''loadable.fbuf''),
           (''golden'', JStr (path_str (payload @ [''golden'', ''o_000000.dimg'']))), (''script'', JStr (path_str script)),
           (''runtime_timeout_seconds'', JInt runtime_timeout), (''server_start_timeout_seconds'', JInt server_start_timeout)],
         write_file script (runtime_script repeat' runtime_timeout server_start_timeout) fs2)))))))
     else Inr (JDict [(''path'', JStr (path_str payload)), (''mode'', JStr mode), (''module'', inp ''opendla.ko''),
           (''script'', JStr (path_str script))], write_file script (smoke_script repeat') fs1))))"

subsection \<open>The platform\<close>

definition lua_lines :: "string \<Rightarrow> string \<Rightarrow> string \<Rightarrow> string list" where
  "lua_lines arguments ram_base ram_high =
     [''CPU = {'', ''    library = '' @ [DQ] @ ''libqbox-nvdla.so'' @ [DQ] @ '','', ''    extra_arguments = '' @ repr_string arguments, ''}'', [],
      ''ram = {'', ''    size = 1048576,'', ''    target_port = {'', ''        base_addr = '' @ ram_base @ '','',
      ''        high_addr = '' @ ram_high, ''    }'', ''}'', [],
      ''nvdla = {'', ''    irq_number = 176,'', ''    csb_port = {'', ''        base_addr = 0x10200000,'',
      ''        high_addr = 0x1021ffff'', ''    }'', ''}'']"

definition DOCKER_PATH_RUNNERS :: "string list" where
  "DOCKER_PATH_RUNNERS = [''docker'', ''source-docker'']"

definition SOURCE_VP_RUNNERS :: "string list" where
  "SOURCE_VP_RUNNERS = [''host'', ''source-docker'']"

definition SUPPORTED_MODERN_RUNNERS :: "string list" where
  "SUPPORTED_MODERN_RUNNERS = [''docker'', ''host'', ''source-docker'']"

definition qemu_arguments :: "string \<Rightarrow> string \<Rightarrow> string \<Rightarrow> string \<Rightarrow> string \<Rightarrow> string" where
  "qemu_arguments kern dtb rootfs payload run =
     ''-machine virt -cpu cortex-a57 -machine type=virt -nographic -smp 1 -m 1024 -kernel '' @ kern @ dtb
     @ '' --append '' @ [DQ] @ ''root=/dev/vda'' @ [DQ] @ '' -drive file='' @ rootfs
     @ '',if=none,format=raw,id=hd0,snapshot=on -device virtio-blk-device,drive=hd0 -fsdev local,id=r,path='' @ payload
     @ '',security_model=none -device virtio-9p-device,fsdev=r,mount_tag=r -fsdev local,id=w,path='' @ run
     @ '',security_model=none -device virtio-9p-device,fsdev=w,mount_tag=w -netdev user,id=user0,hostfwd=tcp::6666-:6666,hostfwd=tcp::6667-:22 -device virtio-net-device,netdev=user0''"

definition write_modern_lua :: "vp_env \<Rightarrow> vp_paths \<Rightarrow> path \<Rightarrow> fs \<Rightarrow> (path \<times> fs) res" where
  "write_modern_lua v paths out_dir fs =
     bindE (need_path paths ''kernel'') (\<lambda>kernel. bindE (need_path paths ''rootfs'') (\<lambda>rootfs.
     let dtb = path_of paths ''dtb''; small = (hw_config v = ''small''); docker_paths = (vp_runner v \<in> set DOCKER_PATH_RUNNERS);
         ram_base = env_or v ''VP_RAM_BASE'' (if small then ''0xc0000000'' else ''0x40000000'');
         ram_high = env_or v ''VP_RAM_HIGH'' (if small then ''0xffffffff'' else ''0x7fffffff'');
         dtb_arg = (case dtb of None \<Rightarrow> []
           | Some d \<Rightarrow> if docker_paths then '' -dtb /vp-dtb/'' @ path_name d else '' -dtb '' @ path_str d);
         arguments = (if docker_paths
           then qemu_arguments (''/vp-kernel/'' @ path_name kernel) dtb_arg (''/vp-rootfs/'' @ path_name rootfs) ''/payload'' ''/vp-run''
           else qemu_arguments (path_str kernel) dtb_arg (path_str rootfs) (path_str (out_dir @ [''payload''])) (path_str out_dir));
         lua = out_dir @ [''modern-vp.lua'']
     in Inr (lua, write_file lua (concat (map (\<lambda>l. l @ [NL]) (lua_lines arguments ram_base ram_high))) fs)))"

definition docker_mount :: "path \<Rightarrow> string \<Rightarrow> bool \<Rightarrow> string" where
  "docker_mount p target readonly = path_str p @ '':'' @ target @ (if readonly then '':ro'' else [])"

definition path_parent :: "path \<Rightarrow> path" where
  "path_parent p = butlast p"

text \<open>The mounts of both container runners, then those of the source-built platform and of the device tree.\<close>

definition container_command :: "path \<Rightarrow> path \<Rightarrow> path \<Rightarrow> path option \<Rightarrow> (path \<times> string) list \<Rightarrow> string \<Rightarrow> string \<Rightarrow> string list" where
  "container_command out_dir kern rootfs dtb extra img shell =
     [''docker'', ''run'', ''--rm'', ''-i'', ''-e'', ''SC_SIGNAL_WRITE_CHECK=DISABLE'', ''-v'', docker_mount out_dir ''/vp-run'' False,
      ''-v'', docker_mount (path_parent kern) ''/vp-kernel'' True, ''-v'', docker_mount (path_parent rootfs) ''/vp-rootfs'' True,
      ''-v'', docker_mount (out_dir @ [''payload'']) ''/payload'' True]
     @ concat (map (\<lambda>(p, t). [''-v'', docker_mount p t True]) extra)
     @ (case dtb of None \<Rightarrow> [] | Some d \<Rightarrow> [''-v'', docker_mount (path_parent d) ''/vp-dtb'' True])
     @ [''-w'', ''/vp-run'', img, ''bash'', ''-lc'', shell]"

definition vp_command :: "vp_env \<Rightarrow> vp_paths \<Rightarrow> path \<Rightarrow> path \<Rightarrow> string \<Rightarrow> string list res" where
  "vp_command v paths out_dir lua img =
     bindE (need_path paths ''kernel'') (\<lambda>kernel. bindE (need_path paths ''rootfs'') (\<lambda>rootfs.
     let dtb = path_of paths ''dtb'' in
     if vp_runner v = ''docker'' then
       Inr (container_command out_dir kernel rootfs dtb [] img ''cd /vp-run && aarch64_toplevel -c /vp-run/modern-vp.lua'')
     else bindE (need_path paths ''vp_binary'') (\<lambda>binary. bindE (need_path paths ''vp_library_dir'') (\<lambda>lib.
       bindE (need_path paths ''vp_cmod_library_dir'') (\<lambda>cmod.
       if vp_runner v = ''source-docker'' then
         Inr (container_command out_dir kernel rootfs dtb
           [(path_parent binary, ''/vp-small-bin''), (lib, ''/vp-small-lib''), (cmod, ''/vp-small-cmod'')] img
           (''export LD_LIBRARY_PATH=/vp-small-lib:/vp-small-cmod:/usr/local/systemc-2.3.0/lib-linux64:${LD_LIBRARY_PATH:-}; cd /vp-run && /vp-small-bin/''
            @ path_name binary @ '' -c /vp-run/modern-vp.lua''))
       else
         (let parts = [lib, cmod] @ (case path_of paths ''systemc_lib_dir'' of None \<Rightarrow> [] | Some d \<Rightarrow> [d]);
              ld = join '':'' (map path_str parts) @ (case ve_getenv v ''LD_LIBRARY_PATH'' of Some (c # s) \<Rightarrow> '':'' @ c # s | _ \<Rightarrow> [])
          in Inr [''env'', ''SC_SIGNAL_WRITE_CHECK=DISABLE'', ''LD_LIBRARY_PATH='' @ ld, path_str binary, ''-c'', path_str lua]))))))"

subsection \<open>The logs and the verdict\<close>

definition MODERN_LOGS :: "(string \<times> string \<times> string) list" where
  "MODERN_LOGS = [(''module_vermagic'', ''module-vermagic.txt'', ''module_vermagic''), (''module_load'', ''module-load.log'', ''module_load''),
     (''dev_dri'', ''dev-dri.txt'', ''dev_dri''), (''runtime_stdout'', ''runtime.stdout.log'', ''smoke_stdout''),
     (''runtime_stderr'', ''runtime.stderr.log'', ''smoke_stderr''), (''runtime_server'', ''runtime-server.log'', ''runtime_server''),
     (''runtime_client'', ''runtime-client.log'', ''runtime_client''), (''runtime_compare'', ''runtime-compare.log'', ''runtime_compare''),
     (''dmesg'', ''dmesg.log'', ''dmesg'')]"

definition write_modern_logs :: "path \<Rightarrow> fs \<Rightarrow> (json \<times> fs) res" where
  "write_modern_logs out_dir fs =
     bindE (read_universal fs (out_dir @ [''serial.log''])) (\<lambda>serial.
     Inr (JDict (map (\<lambda>(key, file, section). (key, JStr file)) MODERN_LOGS),
       fold (\<lambda>(key, file, section). write_file (out_dir @ [file]) (extract_section serial section)) MODERN_LOGS fs))"

definition status_names :: "string list" where
  "status_names = [''module_vermagic'', ''module_load'', ''dev_dri'', ''smoke'', ''runtime_server_ready'', ''runtime_client'',
     ''runtime_compare'', ''runtime'', ''writable_mount'']"

definition read_statuses :: "string \<Rightarrow> (string, int option) dict" where
  "read_statuses serial = map (\<lambda>n. (n, extract_status serial n)) status_names @ [(''script_exit'', extract_script_exit serial)]"

definition status_ok :: "(string, int option) dict \<Rightarrow> string \<Rightarrow> bool" where
  "status_ok statuses n = (dict_get statuses n = Some (Some 0))"

text \<open>\<open>all(pass_conditions)\<close>: the run, the statuses, the host's comparison, the check of the probed
  configuration (both \<open>None\<close> outside the runtime mode) and the bad patterns.\<close>

definition pass_conditions :: "string \<Rightarrow> serial_result \<Rightarrow> (string, int option) dict \<Rightarrow> comparison option \<Rightarrow> string option \<Rightarrow> string list \<Rightarrow> bool list" where
  "pass_conditions mode run statuses host_compare config_status bad =
     (if mode = ''runtime'' then
        [sr_userspace_seen run, sr_script_completed run]
        @ map (status_ok statuses) [''module_load'', ''dev_dri'', ''runtime_server_ready'', ''runtime_client'', ''runtime_compare'', ''runtime'', ''script_exit'']
        @ [(case host_compare of None \<Rightarrow> False | Some c \<Rightarrow> cm_status c = ''pass''), config_status \<noteq> Some ''fail'', bad = []]
      else
        [sr_userspace_seen run, sr_script_completed run] @ map (status_ok statuses) [''module_load'', ''dev_dri'', ''smoke'', ''script_exit''] @ [bad = []])"

definition comparison_json :: "path \<Rightarrow> path \<Rightarrow> comparison \<Rightarrow> json" where
  "comparison_json expected actual c =
     (let num = (\<lambda>n. case n of None \<Rightarrow> JNull | Some k \<Rightarrow> JInt (int k));
          missing = (cm_expected_sha c = None \<or> cm_actual_sha c = None) in
      JDict ([(''tolerance'', exact_tolerance), (''expected_path'', JStr (path_str expected)), (''actual_path'', JStr (path_str actual)),
        (''expected_sha256'', jopt (cm_expected_sha c)), (''actual_sha256'', jopt (cm_actual_sha c)),
        (''expected_size_bytes'', num (cm_expected_size c)), (''actual_size_bytes'', num (cm_actual_size c)), (''status'', JStr (cm_status c))]
        @ (if missing then [(''reason'', jopt (cm_reason c))]
           else (''first_mismatch_offset'', num (cm_first_mismatch c)) # (case cm_reason c of None \<Rightarrow> [] | Some r \<Rightarrow> [(''reason'', JStr r)]))))"

definition statuses_json :: "(string, int option) dict \<Rightarrow> json" where
  "statuses_json statuses = JDict (map (\<lambda>(n, s). (n, case s of None \<Rightarrow> JNull | Some i \<Rightarrow> JInt i)) statuses)"

definition serial_json :: "serial_result \<Rightarrow> json" where
  "serial_json r = JDict [(''returncode'', case sr_returncode r of None \<Rightarrow> JNull | Some i \<Rightarrow> JInt i), (''login_seen'', JBool (sr_login_seen r)),
     (''autorun_seen'', JBool (sr_autorun_seen r)), (''userspace_seen'', JBool (sr_userspace_seen r)),
     (''script_completed'', JBool (sr_script_completed r)), (''serial_log'', JStr ''serial.log'')]"

subsection \<open>The modern lane\<close>

record modern_args =
  ma_repeat :: int
  ma_mode :: string
  ma_workload :: string
  ma_work_dir :: "path option"
  ma_sources_dir :: "path option"
  ma_docker_image :: "string option"

text \<open>What is missing before a run, and the workload where it resolves.\<close>

definition required_missing :: "vp_env \<Rightarrow> modern_args \<Rightarrow> vp_paths \<Rightarrow> fs \<Rightarrow> (string list \<times> vp_workload option) res" where
  "required_missing v a paths fs =
     (let small = (hw_config v = ''small'');
          base = check_required_paths fs paths [''kernel'', ''rootfs'', ''module'']
            @ (if vp_runner v \<notin> set SUPPORTED_MODERN_RUNNERS
               then [''runner: unsupported VP_RUNNER='' @ vp_runner v @ ''; expected docker, host, or source-docker''] else [])
            @ (if small \<and> path_of paths ''dtb'' = None
               then [''dtb: build with VP_HW_CONFIG=small make vp-small-dtb or set VP_MODERN_DTB''] else [])
            @ (if vp_runner v \<in> set SOURCE_VP_RUNNERS
               then check_required_paths fs paths [''vp_binary'', ''vp_library_dir'', ''vp_cmod_library_dir''] else [])
            @ (if ma_mode a = ''smoke'' \<and> \<not> path_exists fs (smoke_source v) then [''smoke_source: '' @ path_str (smoke_source v)] else [])
      in if ma_mode a \<noteq> ''runtime'' then Inr (base, None)
         else let base' = base @ check_required_paths fs paths [''runtime_binary'', ''runtime_library'']
             @ (if is_file fs (runtime_client v) then [] else [''runtime_client: '' @ path_str (runtime_client v)])
           in bindE (need_path paths ''workloads_dir'') (\<lambda>d.
             case resolve_workload fs d (ma_workload a) of
               Inr w \<Rightarrow> Inr (base', Some w)
             | Inl (FileNotFoundError s) \<Rightarrow> Inr (base' @ [s], None)
             | Inl e \<Rightarrow> Inl e))"

definition blocked_json :: "string \<Rightarrow> (string \<times> json) list \<Rightarrow> vp_paths \<Rightarrow> string \<Rightarrow> json" where
  "blocked_json reason rest paths mode = JDict ([(''status'', JStr ''blocked''), (''reason'', JStr reason), (''paths'', paths_json paths),
     (''mode'', JStr mode)] @ rest)"

text \<open>The evidence of a finished run.\<close>

record evidence =
  ev_run :: serial_result
  ev_statuses :: "(string, int option) dict"
  ev_compare :: "comparison option"
  ev_config :: "json option"
  ev_probe :: "string option"
  ev_render :: "string option"
  ev_bad :: "string list"

definition config_status :: "json option \<Rightarrow> string option res" where
  "config_status c = (case c of None \<Rightarrow> Inr None | Some d \<Rightarrow> bindE (bindE (jat d ''status'') jstr) (\<lambda>s. Inr (Some s)))"

definition verdict_ok :: "string \<Rightarrow> evidence \<Rightarrow> bool res" where
  "verdict_ok mode e = bindE (config_status (ev_config e)) (\<lambda>c.
     Inr (list_all (\<lambda>b. b) (pass_conditions mode (ev_run e) (ev_statuses e) (ev_compare e) c (ev_bad e))))"

definition runtime_output :: "path \<Rightarrow> path" where
  "runtime_output out_dir = out_dir @ [''runtime-output'', ''o_000000.dimg'']"

definition collect_evidence :: "vp_env \<Rightarrow> modern_args \<Rightarrow> vp_workload option \<Rightarrow> serial_result \<Rightarrow> path \<Rightarrow> fs \<Rightarrow> (evidence \<times> fs) res" where
  "collect_evidence v a workload run out_dir fs =
     bindE (read_universal fs (out_dir @ [''serial.log''])) (\<lambda>serial. bindE (read_universal fs (out_dir @ [''dmesg.log''])) (\<lambda>dmesg.
     let bad = sort (remdups (bad_patterns serial @ bad_patterns dmesg));
         probe = extract_probe_config (serial @ [NL] @ dmesg);
         statuses = read_statuses serial; render = extract_render_node serial in
     case (if ma_mode a = ''runtime'' then workload else None) of
       None \<Rightarrow> Inr (\<lparr>ev_run = run, ev_statuses = statuses, ev_compare = None, ev_config = None, ev_probe = probe, ev_render = render, ev_bad = bad\<rparr>, fs)
     | Some w \<Rightarrow>
         bindE (workload_config_check (vw_manifest w) probe) (\<lambda>check.
         let c = compare_exact_files (env_sha v) fs (vw_golden w) (runtime_output out_dir);
             fs1 = write_json (the_env v) (out_dir @ [''runtime-output-compare.json'']) (comparison_json (vw_golden w) (runtime_output out_dir) c) fs in
         Inr (\<lparr>ev_run = run, ev_statuses = statuses, ev_compare = Some c, ev_config = Some check, ev_probe = probe, ev_render = render,
              ev_bad = bad\<rparr>, fs1))))"

definition workload_record :: "vp_env \<Rightarrow> modern_args \<Rightarrow> vp_workload \<Rightarrow> evidence \<Rightarrow> path \<Rightarrow> fs \<Rightarrow> json res" where
  "workload_record v a w e out_dir fs =
     bindE (sha_file (the_env v) fs (vw_loadable w)) (\<lambda>lh. bindE (sha_file (the_env v) fs (vw_golden w)) (\<lambda>gh.
     bindE (jget_or (vw_manifest w) exact_tolerance ''tolerance'') (\<lambda>tolerance. bindE (jget (vw_manifest w) ''target'') (\<lambda>target.
     bindE (config_status (ev_config e)) (\<lambda>cs.
     Inr (JDict [(''name'', JStr (vw_name w)), (''manifest'', JStr (path_str (vw_manifest_path w))), (''loadable_sha256'', JStr lh),
       (''golden_sha256'', JStr gh), (''output_path'', JStr (path_str (runtime_output out_dir))),
       (''output_sha256'', path_hash v fs (Some (runtime_output out_dir))), (''tolerance'', tolerance), (''target'', target),
       (''config_check'', case ev_config e of None \<Rightarrow> JNull | Some c \<Rightarrow> c), (''repeat'', JInt (max 1 (ma_repeat a))),
       (''compare'', case ev_compare e of None \<Rightarrow> JNull | Some c \<Rightarrow> comparison_json (vw_golden w) (runtime_output out_dir) c),
       (''status'', JStr (if (case ev_compare e of None \<Rightarrow> False | Some c \<Rightarrow> cm_status c = ''pass'') \<and> cs \<noteq> Some ''fail'' then ''pass'' else ''fail''))]))))))"

text \<open>The reason of a failed run.\<close>

definition modern_reason :: "string \<Rightarrow> evidence \<Rightarrow> bool \<Rightarrow> json res" where
  "modern_reason mode e ok =
     (if ok then Inr JNull
      else bindE (config_status (ev_config e)) (\<lambda>c. case ev_config e of
          Some d \<Rightarrow> if truthy d \<and> c = Some ''fail'' then jget d ''reason'' else Inr (JStr (''modern VP '' @ mode @ '' did not satisfy all pass criteria''))
        | None \<Rightarrow> Inr (JStr (''modern VP '' @ mode @ '' did not satisfy all pass criteria''))))"

text \<open>The fingerprint of the patch series (patches.py).\<close>

definition patch_files :: "fs \<Rightarrow> path \<Rightarrow> (string \<times> string) list" where
  "patch_files fs d = map (\<lambda>(q, c). (path_name q, c)) (List.filter (\<lambda>(q, c). length q = 1 \<and> ends_with (path_name q) ''.patch'') (tree_files fs d))"

definition patch_series_fingerprint :: "env \<Rightarrow> fs \<Rightarrow> path \<Rightarrow> json" where
  "patch_series_fingerprint env fs d = (let ps = patch_files fs d in
     JDict [(''directory'', JStr (path_str d)), (''count'', JInt (int (length ps))), (''patches'', JList (map (\<lambda>(n, c). JStr n) ps)),
       (''sha256'', JStr (upper (env_sha env (concat (map (\<lambda>(n, c). n @ [CHR 0x00] @ c @ [CHR 0x00]) ps)))))])"

definition artifact_hashes :: "vp_env \<Rightarrow> vp_paths \<Rightarrow> vp_workload option \<Rightarrow> json \<Rightarrow> path \<Rightarrow> fs \<Rightarrow> json" where
  "artifact_hashes v paths w smoke_sha out_dir fs =
     (let h = (\<lambda>n. path_hash v fs (path_of paths n)) in
      JDict [(''kernel'', h ''kernel''), (''rootfs'', h ''rootfs''), (''module'', h ''module''), (''dtb'', h ''dtb''), (''vp_binary'', h ''vp_binary''),
        (''vp_cmod'', path_hash v fs (map_option (\<lambda>d. d @ [''libnvdla_cmod.so'']) (path_of paths ''vp_cmod_library_dir''))),
        (''smoke'', smoke_sha), (''runtime_binary'', h ''runtime_binary''), (''runtime_library'', h ''runtime_library''),
        (''runtime_client'', path_hash v fs (Some (runtime_client v))), (''loadable'', path_hash v fs (map_option vw_loadable w)),
        (''golden'', path_hash v fs (map_option vw_golden w)), (''output'', path_hash v fs (Some (runtime_output out_dir)))])"

definition modern_result ::
    "vp_env \<Rightarrow> modern_args \<Rightarrow> vp_paths \<Rightarrow> vp_workload option \<Rightarrow> evidence \<Rightarrow> bool \<Rightarrow> json \<Rightarrow> json \<Rightarrow> json \<Rightarrow> json \<Rightarrow> json \<Rightarrow> json list \<Rightarrow> path \<Rightarrow> path \<Rightarrow> fs \<Rightarrow> json res" where
  "modern_result v a paths w e ok smoke_build payload docker reason logs records lua out_dir fs =
     bindE (if truthy smoke_build then jget smoke_build ''sha256'' else Inr JNull) (\<lambda>smoke_sha.
     let h = (\<lambda>n. path_hash v fs (path_of paths n)) in
     Inr (JDict [(''status'', JStr (if ok then ''pass'' else ''fail'')), (''reason'', reason), (''mode'', JStr (ma_mode a)),
       (''vp_hw_config'', JStr (hw_config v)), (''vp_runner'', JStr (vp_runner v)), (''paths'', paths_json paths),
       (''artifact_hashes'', artifact_hashes v paths w smoke_sha out_dir fs),
       (''runtime'', JDict [(''binary_sha256'', h ''runtime_binary''), (''library_sha256'', h ''runtime_library''),
          (''server_log'', JStr ''runtime-server.log''), (''client_log'', JStr ''runtime-client.log''), (''compare_log'', JStr ''runtime-compare.log''),
          (''host_compare'', if ev_compare e = None then JNull else JStr ''runtime-output-compare.json''),
          (''workload_config_check'', case ev_config e of None \<Rightarrow> JNull | Some c \<Rightarrow> c)]),
       (''docker'', docker), (''run'', serial_json (ev_run e)), (''statuses'', statuses_json (ev_statuses e)),
       (''render_node'', jopt (ev_render e)), (''probe_config'', jopt (ev_probe e)), (''bad_patterns'', JList (map JStr (ev_bad e))),
       (''logs'', logs), (''smoke_build'', smoke_build), (''payload'', payload), (''lua'', JStr (path_str lua)),
       (''repeat'', JInt (max 1 (ma_repeat a))), (''workloads'', JList records)]))"

text \<open>The run proper: payload, platform, session, logs, verdict.\<close>

definition run_session ::
    "vp_env \<Rightarrow> modern_args \<Rightarrow> json \<Rightarrow> vp_paths \<Rightarrow> vp_workload option \<Rightarrow> json \<Rightarrow> path \<Rightarrow> fs \<Rightarrow> (json \<times> fs) res" where
  "run_session v a lock paths w smoke_build out_dir fs =
     bindE (write_payload v paths out_dir (ma_repeat a) (ma_mode a) w fs) (\<lambda>(payload, fs1).
     bindE (write_modern_lua v paths out_dir fs1) (\<lambda>(lua, fs2).
     bindE (case ma_docker_image a of Some (c # s) \<Rightarrow> Inr (JStr (c # s)) | _ \<Rightarrow> jpath lock [''docker'', ''vp_latest'', ''image'']) (\<lambda>img.
     bindE (jstr img) (\<lambda>img_name.
     bindE (vp_command v paths out_dir lua img_name) (\<lambda>command.
     case ve_session v command fs2 of
       None \<Rightarrow> Inr (blocked_json ''VP runner command not available'' [(''smoke_build'', smoke_build), (''payload'', payload), (''lua'', JStr (path_str lua))]
           paths (ma_mode a), fs2)
     | Some (s, fs3) \<Rightarrow>
         (let (typed, run, txt) = run_modern_serial s; fs4 = write_file (out_dir @ [''serial.log'']) txt fs3 in
         bindE (write_modern_logs out_dir fs4) (\<lambda>(logs, fs5).
         bindE (collect_evidence v a w run out_dir fs5) (\<lambda>(e, fs6).
         bindE (case (if ma_mode a = ''runtime'' then w else None) of None \<Rightarrow> Inr []
           | Some wl \<Rightarrow> bindE (workload_record v a wl e out_dir fs6) (\<lambda>r. Inr [r])) (\<lambda>records.
         bindE (verdict_ok (ma_mode a) e) (\<lambda>ok.
         bindE (modern_reason (ma_mode a) e ok) (\<lambda>reason.
         bindE (bindE (jat lock ''docker'') (\<lambda>d. jget_or d (JDict []) ''vp_latest'')) (\<lambda>locked.
         bindE (modern_result v a paths w e ok smoke_build payload
             (JDict [(''image'', img), (''locked'', locked), (''command'', JList (map JStr command))]) reason logs records lua out_dir fs6) (\<lambda>result.
         Inr (result, fs6))))))))))))))"

definition run_modern_vp :: "vp_env \<Rightarrow> modern_args \<Rightarrow> json \<Rightarrow> path \<Rightarrow> fs \<Rightarrow> (json \<times> fs) res" where
  "run_modern_vp v a lock out_dir fs =
     bindE (modern_paths v (ma_work_dir a) (ma_sources_dir a) fs) (\<lambda>paths.
     bindE (required_missing v a paths fs) (\<lambda>(missing, w).
     if missing \<noteq> [] then
       Inr (blocked_json ''missing required modern VP artifacts'' [(''missing'', JList (map JStr missing))] paths (ma_mode a),
         write_file (out_dir @ [''modern-lane.blocked.txt'']) (''Missing required modern VP artifacts:'' @ [NL] @ join [NL] missing @ [NL]) fs)
     else if ma_mode a = ''smoke'' then
       bindE (build_smoke_binary v paths out_dir fs) (\<lambda>(smoke_build, fs1).
       bindE (jat smoke_build ''status'') (\<lambda>st.
       if jeq st (JStr ''pass'') then run_session v a lock paths w smoke_build out_dir fs1
       else bindE (jat smoke_build ''reason'') (\<lambda>reason.
         Inr (JDict [(''status'', st), (''reason'', reason), (''paths'', paths_json paths), (''smoke_build'', smoke_build), (''mode'', JStr (ma_mode a))], fs1))))
     else run_session v a lock paths w JNull out_dir fs))"

text \<open>The command: the manifest of the lane and the exit status.\<close>

definition reference_manifest :: "vp_env \<Rightarrow> json \<Rightarrow> string \<Rightarrow> int \<Rightarrow> path \<Rightarrow> fs \<Rightarrow> (json \<times> fs) res" where
  "reference_manifest v lock run_id timeout out fs =
     bindE (jpath lock [''docker'', ''vp_latest'', ''image'']) (\<lambda>img. bindE (jstr img) (\<lambda>name.
     bindE (docker_backend (build_env.truncate v) name fs) (\<lambda>(pre, backend, image_id).
     bindE (stock_vp_boot v pre name timeout out fs) (\<lambda>(boot, fs1).
     bindE (compiler_smoke v pre name out fs1) (\<lambda>(compiler, fs2).
     bindE (jat boot ''status'') (\<lambda>bs. bindE (jat compiler ''status'') (\<lambda>cs.
     bindE (jpath lock [''sources'', ''nvdla_sw'', ''commit'']) (\<lambda>commit.
     bindE (bindE (jpath lock [''docker'', ''vp_latest'']) (\<lambda>d. jmerge d [(''backend'', JStr backend), (''actual_image_id'', JStr image_id)])) (\<lambda>docker.
     Inr (JDict [(''schema_version'', JInt 1), (''run_id'', JStr run_id), (''lane'', JStr ''vp-reference''),
       (''status'', JStr (if jeq bs (JStr ''pass'') \<and> jeq cs (JStr ''pass'') then ''pass'' else ''fail'')), (''boot'', boot), (''compiler'', compiler),
       (''sources'', JDict [(''nvdla_sw'', commit)]), (''patch_series'', patch_series_fingerprint (the_env v) fs [''patches'', ''nvdla-sw'']), (''docker'', docker), (''workloads'', JList [])], fs2))))))))))"

definition source_commit :: "vp_env \<Rightarrow> json \<Rightarrow> json \<Rightarrow> string \<Rightarrow> json res \<Rightarrow> json res" where
  "source_commit v lock paths name fallback = bindE (jget paths name) (\<lambda>p.
     if truthy p then bindE (jstr p) (\<lambda>s. Inr (jopt (ve_git v (rel_path s)))) else fallback)"

definition modern_manifest :: "vp_env \<Rightarrow> modern_args \<Rightarrow> json \<Rightarrow> string \<Rightarrow> path \<Rightarrow> fs \<Rightarrow> (json \<times> fs) res" where
  "modern_manifest v a lock run_id out fs =
     bindE (run_modern_vp v a lock out fs) (\<lambda>(modern, fs1).
     bindE (jget_or modern (JDict []) ''paths'') (\<lambda>paths.
     bindE (jat modern ''status'') (\<lambda>status. bindE (jget modern ''reason'') (\<lambda>reason.
     bindE (jpath lock [''sources'', ''nvdla_sw'', ''commit'']) (\<lambda>sw.
     bindE (source_commit v lock paths ''patched_nvdla_sw'' (Inr JNull)) (\<lambda>patched.
     bindE (source_commit v lock paths ''linux'' (jpath lock [''sources'', ''linux_xlnx'', ''commit''])) (\<lambda>linux.
     bindE (source_commit v lock paths ''buildroot'' (jpath lock [''sources'', ''buildroot'', ''commit''])) (\<lambda>buildroot.
     bindE (source_commit v lock paths ''nvdla_vp'' (bindE (jat lock ''sources'') (\<lambda>s. jchain s [''nvdla_vp'', ''commit'']))) (\<lambda>vp.
     bindE (source_commit v lock paths ''nvdla_hw'' (bindE (jat lock ''sources'') (\<lambda>s. jchain s [''nvdla_hw'', ''commit'']))) (\<lambda>hw.
     bindE (jget_or modern (JList []) ''workloads'') (\<lambda>workloads.
     Inr (JDict [(''schema_version'', JInt 1), (''run_id'', JStr run_id), (''lane'', JStr ''vp-modern''), (''status'', status), (''reason'', reason),
       (''modern'', modern), (''sources'', JDict [(''nvdla_sw'', sw), (''nvdla_sw_patched'', patched), (''linux_xlnx'', linux), (''buildroot'', buildroot),
          (''nvdla_vp'', vp), (''nvdla_hw'', hw)]), (''patch_series'', patch_series_fingerprint (the_env v) fs [''patches'', ''nvdla-sw'']), (''workloads'', workloads)], fs1))))))))))))"

definition run_vp_test :: "vp_env \<Rightarrow> string \<Rightarrow> path \<Rightarrow> int \<Rightarrow> path option \<Rightarrow> modern_args \<Rightarrow> fs \<Rightarrow> (int \<times> fs) res" where
  "run_vp_test v lane lock_path timeout out_dir a fs =
     bindE (read_json fs lock_path) (\<lambda>lock.
     let run_id = env_now v @ ''-'' @ (if lane = ''reference'' then ''vp-'' @ lane else ''vp-'' @ lane @ ''-'' @ ma_mode a);
         out = (case out_dir of Some d \<Rightarrow> d | None \<Rightarrow> [''artifacts'', run_id]) in
     bindE (if lane = ''reference'' then reference_manifest v lock run_id timeout out fs else modern_manifest v a lock run_id out fs) (\<lambda>(manifest, fs1).
     bindE (jat manifest ''status'') (\<lambda>status.
     Inr (if jeq status (JStr ''pass'') then 0 else 1, write_json (the_env v) (out @ [''manifest.json'']) manifest fs1))))"

subsection \<open>Facts\<close>

lemma compare_pass:
  "cm_status (compare_exact_files sha fs p q) = ''pass'' \<Longrightarrow> is_file fs p \<and> read_text fs p = read_text fs q"
  by (auto simp: compare_exact_files_def Let_def is_file_def read_text_def first_mismatch_spec noneE_def
      split: option.splits if_splits)

lemma read_statuses_get:
  "n \<in> set status_names \<Longrightarrow> dict_get (read_statuses serial) n = Some (extract_status serial n)"
  by (auto simp: read_statuses_def status_names_def dict_get_def)

lemma read_statuses_exit: "dict_get (read_statuses serial) ''script_exit'' = Some (extract_script_exit serial)"
  by (simp add: read_statuses_def status_names_def dict_get_def)

lemma read_write_json: "q \<noteq> p \<Longrightarrow> read_text (write_json env p v fs) q = read_text fs q"
  by (simp add: write_json_def)

lemma read_universal_write [simp]:
  "read_universal (write_file p c fs) q = (if q = p then Inr (universal_newlines c) else read_universal fs q)"
  by (simp add: read_universal_def)

lemma bad_sorted_empty: "sort (remdups xs) = [] \<longleftrightarrow> xs = []"
  by (metis remdups_eq_nil_iff set_empty set_sort)

text \<open>What the evidence of a passing run in the runtime mode says.\<close>

lemma runtime_verdict:
  assumes "collect_evidence v a (Some w) run out fs = Inr (e, fs')" and "verdict_ok (ma_mode a) e = Inr True"
    and "ma_mode a = ''runtime''"
  shows "\<exists>serial check. read_universal fs (out @ [''serial.log'']) = Inr serial \<and> bad_patterns serial = [] \<and>
    list_all (\<lambda>n. extract_status serial n = Some 0) [''module_load'', ''dev_dri'', ''runtime_server_ready'', ''runtime_client'', ''runtime_compare'', ''runtime''] \<and>
    extract_script_exit serial = Some 0 \<and> sr_script_completed run \<and>
    is_file fs (vw_golden w) \<and> read_text fs (vw_golden w) = read_text fs (runtime_output out) \<and>
    ev_config e = Some check \<and> jat check ''status'' \<noteq> Inr (JStr ''fail'')"
proof -
  from assms(1,3) obtain serial dmesg check where s: "read_universal fs (out @ [''serial.log'']) = Inr serial"
    and e: "e = \<lparr>ev_run = run, ev_statuses = read_statuses serial,
        ev_compare = Some (compare_exact_files (env_sha v) fs (vw_golden w) (runtime_output out)), ev_config = Some check,
        ev_probe = extract_probe_config (serial @ [NL] @ dmesg), ev_render = extract_render_node serial,
        ev_bad = sort (remdups (bad_patterns serial @ bad_patterns dmesg))\<rparr>"
    unfolding collect_evidence_def Let_def bindE_Inr_iff by (auto simp: bindE_Inr_iff)
  from assms(2) e obtain c where c: "bindE (jat check ''status'') jstr = Inr c"
    and conds: "list_all (\<lambda>b. b) (pass_conditions ''runtime'' run (read_statuses serial)
      (Some (compare_exact_files (env_sha v) fs (vw_golden w) (runtime_output out))) (Some c)
      (sort (remdups (bad_patterns serial @ bad_patterns dmesg))))"
    unfolding verdict_ok_def config_status_def assms(3) by (auto simp: bindE_Inr_iff)
  have names: "''module_load'' \<in> set status_names" "''dev_dri'' \<in> set status_names" "''runtime_server_ready'' \<in> set status_names"
    "''runtime_client'' \<in> set status_names" "''runtime_compare'' \<in> set status_names" "''runtime'' \<in> set status_names"
    by (simp_all add: status_names_def)
  from conds have "sr_script_completed run" "bad_patterns serial = []" "c \<noteq> ''fail''" "extract_script_exit serial = Some 0"
    and st: "list_all (\<lambda>n. extract_status serial n = Some 0) [''module_load'', ''dev_dri'', ''runtime_server_ready'', ''runtime_client'', ''runtime_compare'', ''runtime'']"
    and cmp: "cm_status (compare_exact_files (env_sha v) fs (vw_golden w) (runtime_output out)) = ''pass''"
    unfolding pass_conditions_def
    by (simp_all add: status_ok_def read_statuses_get [OF names(1)] read_statuses_get [OF names(2)] read_statuses_get [OF names(3)]
        read_statuses_get [OF names(4)] read_statuses_get [OF names(5)] read_statuses_get [OF names(6)] read_statuses_exit bad_sorted_empty)
  moreover have "jat check ''status'' \<noteq> Inr (JStr ''fail'')" using c \<open>c \<noteq> ''fail''\<close> by auto
  ultimately show ?thesis using s e compare_pass [OF cmp] by auto
qed

lemma write_modern_logs_serial:
  assumes "write_modern_logs out fs = Inr (logs, fs')"
  shows "read_universal fs' (out @ [''serial.log'']) = read_universal fs (out @ [''serial.log''])"
proof -
  have "read_universal (fold (\<lambda>(key, file, section). write_file (out @ [file]) (g section)) ls fs) (out @ [''serial.log'']) =
      read_universal fs (out @ [''serial.log''])"
    if "\<forall>(key, file, section) \<in> set ls. file \<noteq> ''serial.log''" for ls g and fs :: fs
    using that by (induction ls arbitrary: fs) auto
  from this [of MODERN_LOGS] assms show ?thesis
    by (auto simp: write_modern_logs_def bindE_Inr_iff MODERN_LOGS_def)
qed

text \<open>The evidence behind a passing session in the runtime mode.\<close>

lemma session_evidence:
  assumes "run_session v a lock paths (Some w) smoke_build out fs = Inr (m, fs')"
    and "ma_mode a = ''runtime''" and "jget m ''status'' = Inr (JStr ''pass'')"
  shows "\<exists>tx fs3 logs fs5 e run. write_modern_logs out (write_file (out @ [''serial.log'']) tx fs3) = Inr (logs, fs5) \<and>
    collect_evidence v a (Some w) run out fs5 = Inr (e, fs') \<and> verdict_ok (ma_mode a) e = Inr True"
proof -
  from assms(1) obtain payload fs1 lua fs2 img name command where
      ok: "(case ve_session v command fs2 of
       None \<Rightarrow> Inr (blocked_json ''VP runner command not available'' [(''smoke_build'', smoke_build), (''payload'', payload), (''lua'', JStr (path_str lua))]
           paths (ma_mode a), fs2)
     | Some (s, fs3) \<Rightarrow>
         (let (typed, run, txt) = run_modern_serial s; fs4 = write_file (out @ [''serial.log'']) txt fs3 in
         bindE (write_modern_logs out fs4) (\<lambda>(logs, fs5).
         bindE (collect_evidence v a (Some w) run out fs5) (\<lambda>(e, fs6).
         bindE (case (if ma_mode a = ''runtime'' then Some w else None) of None \<Rightarrow> Inr []
           | Some wl \<Rightarrow> bindE (workload_record v a wl e out fs6) (\<lambda>r. Inr [r])) (\<lambda>records.
         bindE (verdict_ok (ma_mode a) e) (\<lambda>ok.
         bindE (modern_reason (ma_mode a) e ok) (\<lambda>reason.
         bindE (bindE (jat lock ''docker'') (\<lambda>d. jget_or d (JDict []) ''vp_latest'')) (\<lambda>locked.
         bindE (modern_result v a paths (Some w) e ok smoke_build payload
             (JDict [(''image'', img), (''locked'', locked), (''command'', JList (map JStr command))]) reason logs records lua out fs6) (\<lambda>result.
         Inr (result, fs6)))))))))) = Inr (m, fs')"
      unfolding run_session_def bindE_Inr_iff split_paired_Ex prod.case by blast
  obtain s fs3 where s: "ve_session v command fs2 = Some (s, fs3)"
    using ok assms(3) by (auto simp: blocked_json_def jget_def split: option.splits)
  obtain typed run tx where t: "run_modern_serial s = (typed, run, tx)" by (metis prod_cases3)
  from ok [unfolded s option.case prod.case t Let_def bindE_Inr_iff split_paired_Ex sum.inject prod.inject]
  obtain logs fs5 e records okb reason locked result fs6 where
    l: "write_modern_logs out (write_file (out @ [''serial.log'']) tx fs3) = Inr (logs, fs5)"
    and e: "collect_evidence v a (Some w) run out fs5 = Inr (e, fs6)" and vd: "verdict_ok (ma_mode a) e = Inr okb"
    and m: "modern_result v a paths (Some w) e okb smoke_build payload
           (JDict [(''image'', img), (''locked'', locked), (''command'', JList (map JStr command))]) reason logs records lua out fs6 = Inr result"
    and eq: "result = m" "fs6 = fs'"
    by (elim exE conjE) (rule that; assumption)
  from m eq assms(3) have "okb"
    by (auto simp: modern_result_def bindE_Inr_iff jget_def Let_def split: if_splits)
  with vd have "verdict_ok (ma_mode a) e = Inr True" by simp
  with l e eq show ?thesis by blast
qed

lemma session_passes:
  assumes "run_session v a lock paths (Some w) smoke_build out fs = Inr (m, fs')"
    and "ma_mode a = ''runtime''" and "jget m ''status'' = Inr (JStr ''pass'')"
  shows "\<exists>serial fs5. read_universal fs' (out @ [''serial.log'']) = Inr serial \<and> extract_script_exit serial = Some 0 \<and>
    list_all (\<lambda>n. extract_status serial n = Some 0)
      [''module_load'', ''dev_dri'', ''runtime_server_ready'', ''runtime_client'', ''runtime_compare'', ''runtime''] \<and>
    bad_patterns serial = [] \<and> is_file fs5 (vw_golden w) \<and> read_text fs5 (vw_golden w) = read_text fs5 (runtime_output out) \<and>
    (\<exists>c. fs' = write_file (out @ [''runtime-output-compare.json'']) c fs5)"
proof -
  from session_evidence [OF assms] obtain tx fs3 logs fs5 e run where
    l: "write_modern_logs out (write_file (out @ [''serial.log'']) tx fs3) = Inr (logs, fs5)"
    and e: "collect_evidence v a (Some w) run out fs5 = Inr (e, fs')" and vd: "verdict_ok (ma_mode a) e = Inr True" by blast
  from runtime_verdict [OF e vd assms(2)] obtain serial where
    s: "read_universal fs5 (out @ [''serial.log'']) = Inr serial" "bad_patterns serial = []"
      "list_all (\<lambda>n. extract_status serial n = Some 0) [''module_load'', ''dev_dri'', ''runtime_server_ready'', ''runtime_client'', ''runtime_compare'', ''runtime'']"
      "extract_script_exit serial = Some 0" "is_file fs5 (vw_golden w)" "read_text fs5 (vw_golden w) = read_text fs5 (runtime_output out)"
    by (elim exE conjE) (rule that; assumption)
  have c: "\<exists>c. fs' = write_file (out @ [''runtime-output-compare.json'']) c fs5"
    using e assms(2) by (auto simp: collect_evidence_def Let_def bindE_Inr_iff write_json_def)
  then have "read_universal fs' (out @ [''serial.log'']) = Inr serial" using s(1) by auto
  with s c show ?thesis by - (rule exI [of _ serial], rule exI [of _ fs5], intro conjI; assumption)
qed


end
