(* ===== verification/VpAudit.thy ===== *)
theory VpAudit
  imports VpRun
begin

text \<open>
  The audit of the configuration of the small virtual platform (tools/nvdla_test_framework/vp_audit.py):
  the paths a source build leaves, the libraries the platform binary resolves in its container, the
  configuration of the hardware build, and the configuration the latest run probed. The name of the run
  and the text of an exception are parameters; a command that cannot start gives no output.
\<close>

definition file_hash :: "env \<Rightarrow> fs \<Rightarrow> path \<Rightarrow> string option" where
  "file_hash e fs p = (case dict_get fs p of None \<Rightarrow> None | Some c \<Rightarrow> Some (upper (env_sha e c)))"

definition cache_line :: "string \<Rightarrow> (string, string) dict \<Rightarrow> (string, string) dict" where
  "cache_line line d = (if starts_with line ''#'' \<or> CHR ''='' \<notin> set line then d
     else let (key, v) = split_first (CHR ''='') line in dict_set (takeWhile (\<lambda>c. c \<noteq> CHR '':'') key) v d)"

definition parse_cmake_cache :: "fs \<Rightarrow> path \<Rightarrow> (string, string) dict" where
  "parse_cmake_cache fs p = (case dict_get fs p of None \<Rightarrow> [] | Some c \<Rightarrow> fold cache_line (splitlines (universal_newlines c)) [])"

subsection \<open>The probed configuration\<close>

text \<open>\<open>sorted(artifacts.glob("*/manifest.json"))\<close>.\<close>

definition manifest_paths :: "fs \<Rightarrow> path \<Rightarrow> path list" where
  "manifest_paths fs artifacts = sort (List.filter (\<lambda>p. strict_prefix artifacts p \<and> length p = length artifacts + 2 \<and> path_name p = ''manifest.json'') (dict_keys fs))"

definition probe_part :: "json \<Rightarrow> json res" where
  "probe_part manifest = bindE (jget manifest ''modern'') (\<lambda>m. Inr (if is_jdict m then m else manifest))"

definition SMALL_CONFIG :: string where
  "SMALL_CONFIG = ''nvidia,nv_small''"

record probe =
  pb_config :: json
  pb_manifest :: path
  pb_run_id :: json
  pb_status :: json

definition probe_candidate :: "fs \<Rightarrow> path \<Rightarrow> probe list \<Rightarrow> probe list res" where
  "probe_candidate fs p candidates = (case read_json fs p of
       Inl e \<Rightarrow> Inr candidates
     | Inr manifest \<Rightarrow>
         bindE (probe_part manifest) (\<lambda>modern.
         bindE (jget modern ''probe_config'') (\<lambda>a. bindE (jget manifest ''probe_config'') (\<lambda>b.
         if \<not> truthy (jor a b) then Inr candidates
         else bindE (jget manifest ''run_id'') (\<lambda>r. bindE (jget modern ''run_id'') (\<lambda>r'.
           bindE (jget manifest ''status'') (\<lambda>s. bindE (jget modern ''status'') (\<lambda>s'.
           Inr (candidates @ [\<lparr>pb_config = jor a b, pb_manifest = p, pb_run_id = jor r r', pb_status = jor s s'\<rparr>])))))))))"

definition latest_probe_config :: "fs \<Rightarrow> path \<Rightarrow> probe option res" where
  "latest_probe_config fs artifacts =
     bindE (foldE (probe_candidate fs) (manifest_paths fs artifacts) []) (\<lambda>candidates.
     let small = List.filter (\<lambda>c. jeq (pb_config c) (JStr SMALL_CONFIG)) candidates in
     Inr (last_opt (if small \<noteq> [] then small else candidates)))"

definition probe_json :: "probe option \<Rightarrow> json" where
  "probe_json p = (case p of None \<Rightarrow> JDict [(''probe_config'', JNull)]
     | Some c \<Rightarrow> JDict [(''probe_config'', pb_config c), (''manifest'', JStr (path_str (pb_manifest c))), (''run_id'', pb_run_id c), (''status'', pb_status c)])"

subsection \<open>The audit\<close>

text \<open>The paths of a build below the work directory, under the names of the manifest.\<close>

record vp_build =
  vb_binary :: path
  vb_lib :: path
  vb_cmod_lib :: path
  vb_cmod :: path
  vb_installed :: path
  vb_cache :: path
  vb_dtb :: path
  vb_module :: path

definition vp_build :: "path \<Rightarrow> vp_build" where
  "vp_build work = (let root' = work @ [''vp-small'']; lib = root' @ [''install'', ''lib''];
       cmod_lib = root' @ [''hw'', ''outdir'', ''nv_small'', ''cmod'', ''release'', ''lib''] in
     \<lparr>vb_binary = root' @ [''install'', ''bin'', ''aarch64_toplevel''], vb_lib = lib, vb_cmod_lib = cmod_lib, vb_cmod = cmod_lib @ [''libnvdla_cmod.so''],
      vb_installed = lib @ [''libnvdla_cmod.so''], vb_cache = root' @ [''vp-build'', ''CMakeCache.txt''],
      vb_dtb = work @ [''dtb'', ''nvdla-vp-modern-small-extmem-pool.dtb''], vb_module = work @ [''modules'', ''opendla.ko'']\<rparr>)"

definition required_paths :: "vp_build \<Rightarrow> path list" where
  "required_paths b = [vb_binary b, vb_lib b, vb_cmod_lib b, vb_cmod b, vb_installed b, vb_cache b, vb_dtb b, vb_module b]"

definition ldd_command :: "vp_build \<Rightarrow> string \<Rightarrow> string list" where
  "ldd_command b img = [''docker'', ''run'', ''--rm'', ''-v'', path_str (butlast (vb_binary b)) @ '':/vp-small-bin:ro'',
     ''-v'', path_str (vb_lib b) @ '':/vp-small-lib:ro'', ''-v'', path_str (vb_cmod_lib b) @ '':/vp-small-cmod:ro'', img, ''bash'', ''-lc'',
     ''export LD_LIBRARY_PATH=/vp-small-lib:/vp-small-cmod:/usr/local/systemc-2.3.0/lib-linux64:${LD_LIBRARY_PATH:-}; ldd /vp-small-bin/aarch64_toplevel'']"

definition cmod_re :: rx where
  "cmod_re = seq [lit ''libnvdla_cmod.so'', plus (Sym is_space), lit ''=>'', plus (Sym is_space), lit ''/'',
     Alt (lit ''vp-small-cmod'') (lit ''vp-small-lib''), lit ''/'']"

text \<open>What \<open>ldd\<close> gave: its status, its output, and the error of a command that could not start.\<close>

record ldd =
  ld_status :: "int option"
  ld_text :: string
  ld_error :: "string option"

definition run_ldd :: "build_env \<Rightarrow> (py_error \<Rightarrow> string) \<Rightarrow> string list \<Rightarrow> path \<Rightarrow> fs \<Rightarrow> ldd \<times> fs" where
  "run_ldd b msg command ldd_log fs = (case bd_run b command fs of
       None \<Rightarrow> (\<lparr>ld_status = Some 127, ld_text = msg OSError, ld_error = Some (msg OSError)\<rparr>, write_file ldd_log (msg OSError) fs)
     | Some (status, out, fs1) \<Rightarrow> (\<lparr>ld_status = Some status, ld_text = out, ld_error = None\<rparr>, write_file ldd_log out fs1))"

record vp_audit =
  va_checks :: "(string \<times> bool) list"
  va_missing :: "path list"
  va_ldd :: ldd
  va_match :: bool
  va_probe :: "probe option"
  va_project :: "string option"

definition audit_checks :: "string option \<Rightarrow> bool \<Rightarrow> string option \<Rightarrow> string option \<Rightarrow> probe option \<Rightarrow> path list \<Rightarrow> (string \<times> bool) list" where
  "audit_checks project cmod_match installed raw probe missing =
     [(''cmake_hw_project_is_nv_small'', project = Some ''nv_small''), (''ldd_uses_mounted_nv_small_cmod'', cmod_match),
      (''installed_cmod_matches_nv_small_build'', installed = raw),
      (''probe_config_is_nv_small'', case probe of None \<Rightarrow> False | Some c \<Rightarrow> jeq (pb_config c) (JStr SMALL_CONFIG)),
      (''required_paths_exist'', missing = [])]"

definition audit_status :: "vp_audit \<Rightarrow> string" where
  "audit_status a = (if list_all snd (va_checks a) \<and> ld_status (va_ldd a) = Some 0 then ''pass''
     else if va_missing a \<noteq> [] then ''blocked'' else ''fail'')"

definition audit_reason :: "vp_audit \<Rightarrow> string option" where
  "audit_reason a = (if audit_status a = ''pass'' then None
     else let failed = map fst (List.filter (\<lambda>(n, v). \<not> v) (va_checks a)) in
       Some (if failed \<noteq> [] then join '', '' failed
         else ''ldd failed with status '' @ (case ld_status (va_ldd a) of None \<Rightarrow> ''None'' | Some s \<Rightarrow> show_int s)))"

definition vp_small_audit :: "build_env \<Rightarrow> (py_error \<Rightarrow> string) \<Rightarrow> path \<Rightarrow> path \<Rightarrow> path \<Rightarrow> path \<Rightarrow> fs \<Rightarrow> (vp_audit \<times> fs) res" where
  "vp_small_audit b msg lock_path work_dir artifacts out_dir fs =
     bindE (read_json fs lock_path) (\<lambda>lock. bindE (bindE (jpath lock [''docker'', ''vp_latest'', ''image'']) jstr) (\<lambda>img.
     let vb = vp_build work_dir; e = env.truncate b; cache = parse_cmake_cache fs (vb_cache vb);
         missing = List.filter (\<lambda>p. \<not> path_exists fs p) (required_paths vb);
         (ldd, fs1) = (if missing = [] then run_ldd b msg (ldd_command vb img) (out_dir @ [''ldd-aarch64_toplevel.log'']) fs
           else (\<lparr>ld_status = None, ld_text = [], ld_error = None\<rparr>, fs)) in
     bindE (latest_probe_config fs1 artifacts) (\<lambda>probe.
     let cmod_match = (re_search cmod_re (ld_text ldd) \<noteq> None); project = dict_get cache ''NVDLA_HW_PROJECT'' in
     Inr (\<lparr>va_checks = audit_checks project cmod_match (file_hash e fs1 (vb_installed vb)) (file_hash e fs1 (vb_cmod vb)) probe missing,
       va_missing = missing, va_ldd = ldd, va_match = cmod_match, va_probe = probe, va_project = project\<rparr>, fs1))))"

definition audit_manifest :: "env \<Rightarrow> string \<Rightarrow> path \<Rightarrow> path \<Rightarrow> vp_audit \<Rightarrow> fs \<Rightarrow> json" where
  "audit_manifest e run_id work_dir out_dir a fs =
     (let vb = vp_build work_dir; h = (\<lambda>p. jopt (file_hash e fs p)); s = (\<lambda>p. JStr (path_str p)) in
      JDict [(''schema_version'', JInt 1), (''run_id'', JStr run_id), (''lane'', JStr ''vp-small''), (''mode'', JStr ''config_audit''),
       (''status'', JStr (audit_status a)), (''reason'', jopt (audit_reason a)), (''checks'', JDict (map (\<lambda>(n, v). (n, JBool v)) (va_checks a))),
       (''paths'', JDict [(''work_dir'', s work_dir), (''vp_binary'', s (vb_binary vb)), (''vp_library_dir'', s (vb_lib vb)),
          (''vp_cmod_library_dir'', s (vb_cmod_lib vb)), (''vp_installed_cmod'', s (vb_installed vb)), (''cmake_cache'', s (vb_cache vb)),
          (''dtb'', s (vb_dtb vb)), (''module'', s (vb_module vb))]),
       (''hashes'', JDict [(''vp_binary'', h (vb_binary vb)), (''vp_cmod'', h (vb_cmod vb)), (''cmake_cache'', h (vb_cache vb)), (''dtb'', h (vb_dtb vb)),
          (''module'', h (vb_module vb)), (''vp_installed_cmod'', h (vb_installed vb))]),
       (''cmake'', JDict [(''NVDLA_HW_PROJECT'', jopt (va_project a))]),
       (''ldd'', JDict [(''status'', case ld_status (va_ldd a) of None \<Rightarrow> JNull | Some i \<Rightarrow> JInt i),
          (''log'', if is_file fs (out_dir @ [''ldd-aarch64_toplevel.log'']) then JStr ''ldd-aarch64_toplevel.log'' else JNull),
          (''cmod_match'', JBool (va_match a)), (''error'', jopt (ld_error (va_ldd a)))]),
       (''probe'', probe_json (va_probe a)), (''missing'', JList (map s (va_missing a)))])"

definition run_vp_small_config_audit :: "build_env \<Rightarrow> (py_error \<Rightarrow> string) \<Rightarrow> string \<Rightarrow> path \<Rightarrow> path \<Rightarrow> path \<Rightarrow> fs \<Rightarrow> (int \<times> fs) res" where
  "run_vp_small_config_audit b msg run_id lock_path work_dir artifacts fs =
     (let out_dir = artifacts @ [run_id] in
      bindE (vp_small_audit b msg lock_path work_dir artifacts out_dir fs) (\<lambda>(a, fs1).
      Inr (if audit_status a = ''pass'' then 0 else 1,
        write_json (env.truncate b) (out_dir @ [''manifest.json'']) (audit_manifest (env.truncate b) run_id work_dir out_dir a fs1) fs1)))"

subsection \<open>Facts\<close>

text \<open>A run with a small configuration, once there is one, is preferred to any later other run.\<close>

lemma latest_probe_small:
  assumes "latest_probe_config fs artifacts = Inr (Some c)" and "foldE (probe_candidate fs) (manifest_paths fs artifacts) [] = Inr cs"
    and "c' \<in> set cs" and "jeq (pb_config c') (JStr SMALL_CONFIG)"
  shows "jeq (pb_config c) (JStr SMALL_CONFIG)"
proof -
  let ?small = "List.filter (\<lambda>c. jeq (pb_config c) (JStr SMALL_CONFIG)) cs"
  have ne: "?small \<noteq> []" using assms(3,4) by (auto simp: filter_empty_conv)
  then have "c = last ?small" using assms(1,2) by (simp add: latest_probe_config_def Let_def last_opt_def)
  then have "c \<in> set ?small" using last_in_set [OF ne] by simp
  then show ?thesis by simp
qed

text \<open>The audit exits with 0 exactly when all required paths exist, \<open>ldd\<close> succeeded and resolved the model
  library to a mounted build, the cache names the small project, the installed library has the hash of the
  built one, and the chosen run probed the small configuration; when a path is missing it is blocked and
  the container is not started.\<close>

theorem vp_audit_exit:
  "case run_vp_small_config_audit b msg run_id lock_path work_dir artifacts fs of
     Inl e \<Rightarrow> True
   | Inr (status, fs') \<Rightarrow> (\<exists>a fs1. vp_small_audit b msg lock_path work_dir artifacts (artifacts @ [run_id]) fs = Inr (a, fs1) \<and>
       va_missing a = List.filter (\<lambda>p. \<not> path_exists fs p) (required_paths (vp_build work_dir)) \<and>
       (if va_missing a \<noteq> [] then status = 1 \<and> audit_status a = ''blocked'' \<and> fs1 = fs
        else status = 0 \<longleftrightarrow> ld_status (va_ldd a) = Some 0 \<and> re_search cmod_re (ld_text (va_ldd a)) \<noteq> None \<and>
          dict_get (parse_cmake_cache fs (vb_cache (vp_build work_dir))) ''NVDLA_HW_PROJECT'' = Some ''nv_small'' \<and>
          file_hash (env.truncate b) fs1 (vb_installed (vp_build work_dir)) = file_hash (env.truncate b) fs1 (vb_cmod (vp_build work_dir)) \<and>
          (\<exists>c. latest_probe_config fs1 artifacts = Inr (Some c) \<and> jeq (pb_config c) (JStr SMALL_CONFIG))))"
proof (cases "vp_small_audit b msg lock_path work_dir artifacts (artifacts @ [run_id]) fs")
  case (Inl e)
  then show ?thesis by (simp add: run_vp_small_config_audit_def Let_def)
next
  case (Inr r)
  obtain a fs1 where r: "r = (a, fs1)" by (cases r)
  let ?vb = "vp_build work_dir" and ?e = "env.truncate b"
  let ?missing = "List.filter (\<lambda>p. \<not> path_exists fs p) (required_paths ?vb)"
  let ?project = "dict_get (parse_cmake_cache fs (vb_cache ?vb)) ''NVDLA_HW_PROJECT''"
  from Inr obtain lock img where lock: "read_json fs lock_path = Inr lock" "bindE (jpath lock [''docker'', ''vp_latest'', ''image'']) jstr = Inr img"
    unfolding vp_small_audit_def bindE_Inr_iff by blast
  obtain ldd fs2 where ldd: "(if ?missing = [] then run_ldd b msg (ldd_command ?vb img) ((artifacts @ [run_id]) @ [''ldd-aarch64_toplevel.log'']) fs
      else (\<lparr>ld_status = None, ld_text = [], ld_error = None\<rparr>, fs)) = (ldd, fs2)" by fastforce
  from Inr obtain probe where p: "latest_probe_config fs1 artifacts = Inr probe" and fs2: "fs2 = fs1"
    and a: "a = \<lparr>va_checks = audit_checks ?project (re_search cmod_re (ld_text ldd) \<noteq> None) (file_hash ?e fs1 (vb_installed ?vb)) (file_hash ?e fs1 (vb_cmod ?vb)) probe ?missing,
        va_missing = ?missing, va_ldd = ldd, va_match = (re_search cmod_re (ld_text ldd) \<noteq> None), va_probe = probe, va_project = ?project\<rparr>"
    unfolding vp_small_audit_def lock bindE.simps Let_def ldd prod.case r by (auto simp: bindE_Inr_iff)
  have l: "?missing \<noteq> [] \<Longrightarrow> ldd = \<lparr>ld_status = None, ld_text = [], ld_error = None\<rparr> \<and> fs1 = fs" using ldd fs2 by (simp split: if_splits)
  have run: "run_vp_small_config_audit b msg run_id lock_path work_dir artifacts fs = Inr (if audit_status a = ''pass'' then 0 else 1,
      write_json (env.truncate b) ((artifacts @ [run_id]) @ [''manifest.json'']) (audit_manifest (env.truncate b) run_id work_dir (artifacts @ [run_id]) a fs1) fs1)"
    by (simp add: run_vp_small_config_audit_def Let_def Inr r)
  have pass: "audit_status a = ''pass'' \<longleftrightarrow> ?missing = [] \<and> ld_status ldd = Some 0 \<and> re_search cmod_re (ld_text ldd) \<noteq> None \<and> ?project = Some ''nv_small'' \<and>
      file_hash ?e fs1 (vb_installed ?vb) = file_hash ?e fs1 (vb_cmod ?vb) \<and> (\<exists>c. probe = Some c \<and> jeq (pb_config c) (JStr SMALL_CONFIG))"
    by (auto simp: a audit_status_def audit_checks_def split: option.splits)
  have blocked: "?missing \<noteq> [] \<Longrightarrow> audit_status a = ''blocked''" using l by (auto simp: a audit_status_def)
  have parts: "va_missing a = ?missing" "va_ldd a = ldd" by (simp_all add: a)
  show ?thesis unfolding run sum.case prod.case
  proof (intro exI conjI)
    show "vp_small_audit b msg lock_path work_dir artifacts (artifacts @ [run_id]) fs = Inr (a, fs1)" using Inr r by simp
  qed (use blocked l in \<open>simp_all add: parts pass p\<close>)
qed

end
