(* ===== verification/Report.thy ===== *)
theory Report
  imports VpAudit
begin

text \<open>
  The report over the artifacts of all runs (tools/nvdla_test_framework/report.py): every manifest is
  loaded, an unreadable one is kept as such, the latest run of each kind is highlighted with what its
  diagnostic files say, and every manifest gets a row. The text of an exception is a parameter.
\<close>

text \<open>A loaded manifest: always a dictionary with its path under \<open>_path\<close>.\<close>

record manifest =
  mf_path :: path
  mf_data :: "(string \<times> json) list"

definition load_manifest :: "(py_error \<Rightarrow> string) \<Rightarrow> fs \<Rightarrow> path \<Rightarrow> manifest" where
  "load_manifest msg fs p =
     (let unreadable = (\<lambda>e. \<lparr>mf_path = p, mf_data = [(''status'', JStr ''unreadable''), (''_path'', JStr (path_str p)), (''error'', JStr (msg e))]\<rparr>) in
      case read_json fs p of
        Inl e \<Rightarrow> unreadable e
      | Inr (JDict kvs) \<Rightarrow> \<lparr>mf_path = p, mf_data = dict_set ''_path'' (JStr (path_str p)) kvs\<rparr>
      | Inr v \<Rightarrow> unreadable TypeError)"

definition load_manifests :: "(py_error \<Rightarrow> string) \<Rightarrow> fs \<Rightarrow> path \<Rightarrow> manifest list" where
  "load_manifests msg fs artifacts = map (load_manifest msg fs) (manifest_paths fs artifacts)"

definition field :: "(string \<times> json) list \<Rightarrow> string \<Rightarrow> json" where
  "field d k = (case dict_get d k of None \<Rightarrow> JNull | Some v \<Rightarrow> v)"

definition field_or :: "(string \<times> json) list \<Rightarrow> json \<Rightarrow> string \<Rightarrow> json" where
  "field_or d dflt k = (case dict_get d k of None \<Rightarrow> dflt | Some v \<Rightarrow> v)"

definition modern :: "(string \<times> json) list \<Rightarrow> (string \<times> json) list" where
  "modern d = (case field d ''modern'' of JDict m \<Rightarrow> m | _ \<Rightarrow> d)"

fun filterE :: "('a \<Rightarrow> bool res) \<Rightarrow> 'a list \<Rightarrow> 'a list res" where
  "filterE p [] = Inr []"
| "filterE p (x # xs) = bindE (p x) (\<lambda>b. bindE (filterE p xs) (\<lambda>ys. Inr (if b then x # ys else ys)))"

definition latest_matching :: "manifest list \<Rightarrow> ((string \<times> json) list \<Rightarrow> bool res) \<Rightarrow> manifest option res" where
  "latest_matching ms p = bindE (filterE (p \<circ> mf_data) ms) (\<lambda>found. Inr (last_opt found))"

subsection \<open>The kinds of runs\<close>

definition has_text :: "(string \<times> json) list \<Rightarrow> string \<Rightarrow> string \<Rightarrow> bool" where
  "has_text d k v = jeq (field d k) (JStr v)"

definition is_smoke :: "(string \<times> json) list \<Rightarrow> bool res" where
  "is_smoke d = Inr (has_text (modern d) ''vp_hw_config'' ''small'' \<and> has_text (modern d) ''mode'' ''smoke'')"

definition lenet_control :: "(string \<times> json) list \<Rightarrow> bool" where
  "lenet_control d = (has_text d ''mode'' ''lenet_small_control'' \<or> has_text (modern d) ''mode'' ''lenet_small_control'')"

definition repeat_count :: "(string \<times> json) list \<Rightarrow> json" where
  "repeat_count d = jor (jor (field d ''repeat_count'') (field (modern d) ''repeat_count'')) (JInt 1)"

definition is_stability :: "(string \<times> json) list \<Rightarrow> bool res" where
  "is_stability d = (if lenet_control d then bindE (jint (repeat_count d)) (\<lambda>n. Inr (100 \<le> n)) else Inr False)"

fun any_workload :: "string \<Rightarrow> json list \<Rightarrow> bool res" where
  "any_workload name [] = Inr False"
| "any_workload name (w # ws) = bindE (jget w ''name'') (\<lambda>n. if jeq n (JStr name) then Inr True else any_workload name ws)"

definition is_sdp :: "(string \<times> json) list \<Rightarrow> bool res" where
  "is_sdp d = (if \<not> has_text (modern d) ''mode'' ''runtime'' then Inr False
     else bindE (jlist (jor (field (modern d) ''workloads'') (JList []))) (any_workload ''sdp_regression_small''))"

definition is_lane :: "string \<Rightarrow> (string \<times> json) list \<Rightarrow> bool res" where
  "is_lane lane d = Inr (has_text d ''lane'' lane \<and> has_text d ''mode'' ''trace_lenet_small'')"

definition SMALL_KINDS :: "(string \<times> ((string \<times> json) list \<Rightarrow> bool res)) list" where
  "SMALL_KINDS = [(''Smoke'', is_smoke), (''LeNet Gate'', \<lambda>d. Inr (lenet_control d)), (''LeNet Stability'', is_stability), (''SDP Diagnostic'', is_sdp),
     (''Trace Reference'', is_lane ''vp-reference''), (''Trace Candidate'', is_lane ''vp-modern''), (''Trace Differential'', is_lane ''vp-trace-differential'')]"

subsection \<open>Lines\<close>

definition sibling :: "manifest \<Rightarrow> string \<Rightarrow> path" where
  "sibling m name = butlast (mf_path m) @ [name]"

text \<open>What a \<open>try\<close> over a document adds: \<open>fallback\<close> when it cannot be read or a field access fails.\<close>

definition or_else :: "string \<Rightarrow> string res \<Rightarrow> string" where
  "or_else fallback r = (case r of Inl e \<Rightarrow> fallback | Inr s \<Rightarrow> s)"

definition sdp_extra :: "(rat \<Rightarrow> string) \<Rightarrow> json \<Rightarrow> string res" where
  "sdp_extra fr d = bindE (jget d ''status'') (\<lambda>s. bindE (jget d ''classification'') (\<lambda>c.
     Inr ('', diagnostic='' @ py_str fr s @ '', classification='' @ py_str fr c)))"

definition trace_extra :: "(rat \<Rightarrow> string) \<Rightarrow> json \<Rightarrow> string res" where
  "trace_extra fr d = bindE (jget d ''csb_event_count'') (\<lambda>s. bindE (jget d ''dbb_event_count'') (\<lambda>c.
     Inr ('', csb='' @ py_str fr s @ '', dbb='' @ py_str fr c)))"

definition diff_extra :: "(rat \<Rightarrow> string) \<Rightarrow> json \<Rightarrow> string res" where
  "diff_extra fr d = bindE (bindE (jget_or d (JDict []) ''trace'') (\<lambda>t. jget_or t (JDict []) ''counts'')) (\<lambda>counts.
     bindE (jget d ''classification'') (\<lambda>c. bindE (jget counts ''reference'') (\<lambda>r. bindE (jget counts ''candidate'') (\<lambda>k.
     Inr ('', classification='' @ py_str fr c @ '', events='' @ py_str fr r @ ''/'' @ py_str fr k)))))"

text \<open>The status and the extra text of a highlighted run.\<close>

definition small_details :: "(rat \<Rightarrow> string) \<Rightarrow> fs \<Rightarrow> string \<Rightarrow> manifest \<Rightarrow> string \<times> string" where
  "small_details fr fs label m =
     (let status = py_str fr (jor (field (mf_data m) ''status'') (field (modern (mf_data m)) ''status''));
          document = (\<lambda>name. if is_file fs (sibling m name) then Some (read_json fs (sibling m name)) else None) in
      if starts_with label ''LeNet'' then (status, '', repeat='' @ py_str fr (repeat_count (mf_data m)))
      else if label = ''SDP Diagnostic'' then
        (case document ''sdp-small-diagnostic.json'' of
           None \<Rightarrow> (status, [])
         | Some (Inl e) \<Rightarrow> (status, '', classification=unreadable'')
         | Some (Inr d) \<Rightarrow> (''manifest='' @ status, or_else '', classification=unreadable'' (sdp_extra fr d)))
      else if label = ''Trace Reference'' \<or> label = ''Trace Candidate'' then
        (status, case document ''trace-summary.json'' of None \<Rightarrow> [] | Some r \<Rightarrow> or_else '', trace-summary=unreadable'' (bindE r (trace_extra fr)))
      else if label = ''Trace Differential'' then
        (status, case document ''trace-diff.json'' of None \<Rightarrow> [] | Some r \<Rightarrow> or_else '', trace-diff=unreadable'' (bindE r (diff_extra fr)))
      else (status, []))"

definition small_line :: "(rat \<Rightarrow> string) \<Rightarrow> fs \<Rightarrow> string \<Rightarrow> manifest option \<Rightarrow> string" where
  "small_line fr fs label m = (case m of
       None \<Rightarrow> ''- '' @ label @ '': not found''
     | Some item \<Rightarrow> (let (status, extra) = small_details fr fs label item in
         ''- '' @ label @ '': '' @ status @ extra @ '' (`'' @ path_str (mf_path item) @ ''`)''))"

definition small_highlights :: "(rat \<Rightarrow> string) \<Rightarrow> fs \<Rightarrow> manifest list \<Rightarrow> string list res" where
  "small_highlights fr fs ms =
     bindE (mapE (\<lambda>(label, p). bindE (latest_matching ms p) (\<lambda>m. Inr (label, m))) SMALL_KINDS) (\<lambda>found.
     Inr ([''## nv_small Highlights'', []] @ map (\<lambda>(label, m). small_line fr fs label m) found @ [[]]))"

definition PETALINUX_PHASES :: "string list" where
  "PETALINUX_PHASES = [''project'', ''dts'', ''kmod'', ''runtime'', ''image'', ''rootfs-audit'', ''package'']"

definition phase_run :: "manifest list \<Rightarrow> string \<Rightarrow> manifest option" where
  "phase_run ms phase = last_opt (List.filter (\<lambda>m. has_text (mf_data m) ''lane'' (''petalinux-'' @ phase)) ms)"

definition phase_line :: "(rat \<Rightarrow> string) \<Rightarrow> string \<Rightarrow> manifest option \<Rightarrow> string" where
  "phase_line fr phase m = (case m of
       None \<Rightarrow> ''- '' @ phase @ '': not found''
     | Some item \<Rightarrow> ''- '' @ phase @ '': '' @ py_str fr (field_or (mf_data item) (JStr ''unknown'') ''status'')
         @ (if truthy (field (mf_data item) ''reason'') then '', reason='' @ py_str fr (field (mf_data item) ''reason'') else [])
         @ '' (`'' @ py_str fr (field_or (mf_data item) (JStr []) ''_path'') @ ''`)'')"

definition petalinux_highlights :: "(rat \<Rightarrow> string) \<Rightarrow> manifest list \<Rightarrow> string list" where
  "petalinux_highlights fr ms =
     (if list_all (\<lambda>p. phase_run ms p = None) PETALINUX_PHASES then []
      else [''## PetaLinux Highlights'', []] @ map (\<lambda>p. phase_line fr p (phase_run ms p)) PETALINUX_PHASES @ [[]])"

definition table_line :: "(rat \<Rightarrow> string) \<Rightarrow> manifest \<Rightarrow> string" where
  "table_line fr m = (let f = (\<lambda>k. py_str fr (field_or (mf_data m) (JStr ''unknown'') k)) in
     ''| '' @ f ''run_id'' @ '' | '' @ f ''lane'' @ '' | '' @ f ''status'' @ '' | `'' @ py_str fr (field (mf_data m) ''_path'') @ ''` |'')"

definition report_lines :: "(rat \<Rightarrow> string) \<Rightarrow> fs \<Rightarrow> manifest list \<Rightarrow> string list res" where
  "report_lines fr fs ms =
     (if ms = [] then Inr [''# NVDLA Test Artifact Report'', [], ''No artifact manifests found.'', []]
      else bindE (small_highlights fr fs ms) (\<lambda>small.
        Inr ([''# NVDLA Test Artifact Report'', []] @ small @ petalinux_highlights fr ms
          @ [''| Run ID | Lane | Status | Manifest |'', ''| --- | --- | --- | --- |''] @ map (table_line fr) ms @ [[]])))"

text \<open>The report, its exit status, and the warning it prints when a run failed.\<close>

definition write_report :: "env \<Rightarrow> (py_error \<Rightarrow> string) \<Rightarrow> path \<Rightarrow> path \<Rightarrow> fs \<Rightarrow> (int \<times> bool \<times> fs) res" where
  "write_report e msg artifacts out_path fs =
     (let ms = load_manifests msg fs artifacts in
      bindE (report_lines (env_float e) fs ms) (\<lambda>ls.
      Inr (0, list_ex (\<lambda>m. has_text (mf_data m) ''status'' ''fail'') ms, write_file out_path (join [NL] ls) fs)))"

subsection \<open>Facts\<close>

lemma filterE_Inr: "filterE p xs = Inr ys \<Longrightarrow> ys = List.filter (\<lambda>x. p x = Inr True) xs \<and> list_all (\<lambda>x. is_ok (p x)) xs"
  by (induction xs arbitrary: ys) (auto simp: bindE_Inr_iff)

lemma load_manifest_path: "mf_path (load_manifest msg fs p) = p \<and> dict_get (mf_data (load_manifest msg fs p)) ''_path'' = Some (JStr (path_str p))"
  by (auto simp: load_manifest_def Let_def dict_get_def [symmetric] split: sum.splits json.splits) (simp_all add: dict_get_def)

text \<open>The run that is highlighted is the latest of its kind.\<close>

lemma latest_matching_last:
  assumes "latest_matching ms p = Inr (Some m)"
  shows "\<exists>us vs. ms = us @ m # vs \<and> p (mf_data m) = Inr True \<and> list_all (\<lambda>v. p (mf_data v) = Inr False) vs"
proof -
  from assms obtain found where f: "filterE (p \<circ> mf_data) ms = Inr found" and l: "last_opt found = Some m"
    by (auto simp: latest_matching_def bindE_Inr_iff)
  note facts = filterE_Inr [OF f]
  let ?q = "\<lambda>x. p (mf_data x) = Inr True"
  from l have ne: "found \<noteq> []" and m: "m = last found" by (auto simp: last_opt_def split: if_splits)
  have aux: "\<exists>us vs. xs = us @ last (List.filter ?q xs) # vs \<and> ?q (last (List.filter ?q xs)) \<and> list_all (\<lambda>v. \<not> ?q v) vs" if "List.filter ?q xs \<noteq> []" for xs
    using that
  proof (induction xs)
    case (Cons x xs)
    show ?case
    proof (cases "List.filter ?q xs = []")
      case True
      with Cons.prems show ?thesis by (intro exI [of _ "[]"] exI [of _ xs]) (auto simp: filter_empty_conv list_all_iff split: if_splits)
    next
      case False
      from Cons.IH [OF this] obtain us vs where "xs = us @ last (List.filter ?q xs) # vs" "?q (last (List.filter ?q xs))" "list_all (\<lambda>v. \<not> ?q v) vs" by blast
      with False show ?thesis by (intro exI [of _ "x # us"] exI [of _ vs]) auto
    qed
  qed simp
  have flt: "List.filter ?q ms = found" using facts by (simp add: comp_def)
  from aux [of ms, unfolded flt, OF ne] obtain us vs where ms: "ms = us @ m # vs" "?q m" "list_all (\<lambda>v. \<not> ?q v) vs"
    unfolding m by blast
  from facts ms(1) have ok: "list_all (\<lambda>v. is_ok (p (mf_data v))) vs" by (simp add: comp_def)
  have "p (mf_data v) = Inr False" if v: "v \<in> set vs" for v
  proof -
    from ok v obtain b where "p (mf_data v) = Inr b" by (auto simp: list_all_iff is_ok_iff)
    with ms(3) v show ?thesis by (cases b) (auto simp: list_all_iff)
  qed
  with ms show ?thesis unfolding list_all_iff by blast
qed

end
