(* ===== verification/Rootfs.thy ===== *)
theory Rootfs imports Builders VpLog begin

text \<open>
  The audit of a PetaLinux root file system (tools/nvdla_test_framework/petalinux_rootfs.py): the
  members the board needs are taken from the tar listing, extracted and checked, the ELF files among
  them are inspected, and their dynamic dependencies are looked up in the archive. Reading the tar
  container is a parameter from a content to its entries, as is the text of an exception; \<open>readelf\<close> and
  \<open>strings\<close> run as commands of \<open>build_env\<close>. A text is its content with every line end a line feed. The
  audit passes exactly when the declarative specification \<open>rootfs_ok\<close> holds.
\<close>

unbundle bit_operations_syntax

subsection \<open>Members\<close>

datatype entry_kind = FileEntry string | LinkEntry string | OtherEntry

record tar_entry =
  te_name :: string
  te_mode :: nat
  te_kind :: entry_kind

definition RUNTIME_MEMBER :: string where
  "RUNTIME_MEMBER = ''usr/bin/nvdla_runtime''"

definition TIMESYNCD_ENABLE_MEMBER :: string where
  "TIMESYNCD_ENABLE_MEMBER = ''etc/systemd/system/sysinit.target.wants/systemd-timesyncd.service''"

definition TEST_ROOT_PASSWORD_HASH :: string where
  "TEST_ROOT_PASSWORD_HASH = ''$6$nvdlatest$Bt1voKTDGyA6E/Kr.2BRpnPder7XkMw6TzrTWhHAl7ZT/4QwePA2i05NlLe.XMHjw/oVBFznvoIPxc9eF1rBN0''"

definition MODULE_PREFIX :: string where
  "MODULE_PREFIX = ''lib/modules/''"

definition MODULE_SUFFIX :: string where
  "MODULE_SUFFIX = ''/extra/opendla.ko''"

definition FORBIDDEN_HOST_PREFIXES :: "string list" where
  "FORBIDDEN_HOST_PREFIXES = [''/home/'', ''/mnt/'', ''/tmp/work/'', ''/build/tmp/'']"

definition CPU_ELF_LABELS :: "string list" where
  "CPU_ELF_LABELS = [''cpu_test_runner'', ''cpu_perf_test'', ''cpu_library'']"

definition SELECTED_MEMBERS :: "(string \<times> string) list" where
  "SELECTED_MEMBERS = [(''runtime'', RUNTIME_MEMBER), (''library'', ''usr/lib/libnvdla_runtime.so''), (''smoke'', ''usr/bin/nvdla-kmd-smoke''),
     (''flatbuf_client'', ''usr/bin/nvdla-flatbuf-client''), (''collector'', ''usr/bin/nvdla-board-check''),
     (''workload_runner'', ''usr/bin/nvdla-board-workload''), (''benchmark_runner'', ''usr/bin/nvdla-board-benchmark''),
     (''cpu_benchmark_runner'', ''usr/bin/nvdla-board-cpu-benchmark''), (''benchmark_launcher'', ''usr/bin/nvdla-benchmark-launch''),
     (''power_sampler'', ''usr/bin/nvdla-power-sampler''), (''gst_launch'', ''usr/bin/gst-launch-1.0''), (''gst_inspect'', ''usr/bin/gst-inspect-1.0''),
     (''gst_jpeg'', ''usr/lib/gstreamer-1.0/libgstjpeg.so''), (''gst_jpeg_parse'', ''usr/lib/gstreamer-1.0/libgstjpegformat.so''),
     (''gst_video_convert'', ''usr/lib/gstreamer-1.0/libgstvideoconvert.so''), (''cpu_test_runner'', ''usr/bin/onnx_test_runner''),
     (''cpu_perf_test'', ''usr/bin/onnxruntime_perf_test''), (''cpu_library'', ''usr/lib/libonnxruntime.so.1.18.1''),
     (''serial_autologin'', ''etc/systemd/system/serial-getty@ttyPS0.service.d/autologin.conf''),
     (''network_profile'', ''etc/systemd/network/20-nvdla-direct.network''), (''timesync_profile'', ''etc/systemd/timesyncd.conf.d/nvdla-host.conf''),
     (''ssh_policy'', ''etc/ssh/sshd_config.d/60-nvdla-test.conf''), (''shadow'', ''etc/shadow'')]"

fun normal_member :: "string \<Rightarrow> string" where
  "normal_member (c # d # s) = (if c = CHR ''.'' \<and> d = CHR ''/'' then normal_member s else c # d # s)"
| "normal_member s = s"

type_synonym members = "(string, tar_entry) dict"

definition members_of :: "tar_entry list \<Rightarrow> members" where
  "members_of es = fold (\<lambda>e. dict_set (normal_member (te_name e)) e) es []"

definition module_members :: "members \<Rightarrow> string list" where
  "module_members ms = sort (List.filter (\<lambda>n. starts_with n MODULE_PREFIX \<and> ends_with n MODULE_SUFFIX) (dict_keys ms))"

definition selected_members :: "members \<Rightarrow> (string \<times> string option) list" where
  "selected_members ms = map (\<lambda>(l, n). (l, Some n)) SELECTED_MEMBERS
     @ [(''module'', case module_members ms of [] \<Rightarrow> None | n # _ \<Rightarrow> Some n)]"

subsection \<open>Errors\<close>

datatype rootfs_error =
    TimesyncNotEnabled
  | TimesyncInvalid
  | MissingMember string
  | NotRegular string string
  | NotExecutable string
  | WrongInterpreter string
  | NoAutologin
  | NetworkLines "string list"
  | TimesyncLines "string list"
  | SshLines "string list"
  | RootPassword
  | NotInspected string py_error
  | WrongMachine string string
  | RpathEntries string "string list"
  | HostPaths string
  | MissingDependencies "string list"

definition repr_list :: "string list \<Rightarrow> string" where
  "repr_list xs = ''['' @ join '', '' (map repr_string xs) @ '']''"

fun rootfs_message :: "(py_error \<Rightarrow> string) \<Rightarrow> rootfs_error \<Rightarrow> string" where
  "rootfs_message msg TimesyncNotEnabled = ''systemd-timesyncd is not enabled at boot''"
| "rootfs_message msg TimesyncInvalid = ''systemd-timesyncd boot enablement is invalid''"
| "rootfs_message msg (MissingMember l) = ''missing '' @ l @ '' from rootfs''"
| "rootfs_message msg (NotRegular l n) = l @ '' is not a regular file: '' @ n"
| "rootfs_message msg (NotExecutable l) = l @ '' is not executable''"
| "rootfs_message msg (WrongInterpreter l) = l @ '' does not use the expected /bin/sh interpreter''"
| "rootfs_message msg NoAutologin = ''serial autologin override does not select root''"
| "rootfs_message msg (NetworkLines ls) = ''network profile is missing required settings: '' @ join '', '' ls"
| "rootfs_message msg (TimesyncLines ls) = ''timesync profile is missing required settings: '' @ join '', '' ls"
| "rootfs_message msg (SshLines ls) = ''test SSH policy is missing required settings: '' @ join '', '' ls"
| "rootfs_message msg RootPassword = ''test root password hash is missing or unexpected''"
| "rootfs_message msg (NotInspected l e) = ''could not inspect '' @ l @ '': '' @ msg e"
| "rootfs_message msg (WrongMachine l m) = l @ '' has unexpected ELF machine '' @ repr_string m"
| "rootfs_message msg (RpathEntries l ps) = l @ '' contains RPATH/RUNPATH entries: '' @ repr_list ps"
| "rootfs_message msg (HostPaths l) = l @ '' contains host build paths''"
| "rootfs_message msg (MissingDependencies ds) = ''missing dynamic dependencies: '' @ join '', '' ds"

subsection \<open>Checking the members\<close>

definition RUNNER_LABELS :: "string list" where
  "RUNNER_LABELS = [''collector'', ''workload_runner'', ''benchmark_runner'', ''cpu_benchmark_runner'']"

definition NETWORK_LINES :: "string list" where
  "NETWORK_LINES = [''Name=eth0'', ''MACAddress=02:00:00:50:10:02'', ''Address=192.168.50.2/24'', ''DHCP=no'']"

definition TIMESYNC_LINES :: "string list" where
  "TIMESYNC_LINES = [''NTP=192.168.50.1'', ''FallbackNTP='', ''RootDistanceMaxSec=30'']"

definition SSH_LINES :: "string list" where
  "SSH_LINES = [''PermitRootLogin yes'', ''PasswordAuthentication yes'', ''PermitEmptyPasswords no'']"

definition missing_lines :: "string list \<Rightarrow> string \<Rightarrow> string list" where
  "missing_lines required content = sort (List.filter (\<lambda>l. l \<notin> set (splitlines (universal_newlines content))) required)"

definition line_errors :: "(string list \<Rightarrow> rootfs_error) \<Rightarrow> string list \<Rightarrow> string \<Rightarrow> rootfs_error list" where
  "line_errors err required content = (let m = missing_lines required content in if m = [] then [] else [err m])"

definition root_entry :: "string \<Rightarrow> string" where
  "root_entry content = (case find_first (\<lambda>l. starts_with l ''root:'') (splitlines (universal_newlines content)) of None \<Rightarrow> [] | Some l \<Rightarrow> l)"

definition root_password_ok :: "string \<Rightarrow> bool" where
  "root_password_ok content = (case split_on (CHR '':'') (root_entry content) of _ # h # _ \<Rightarrow> h = TEST_ROOT_PASSWORD_HASH | _ \<Rightarrow> False)"

definition content_errors :: "string \<Rightarrow> nat \<Rightarrow> string \<Rightarrow> rootfs_error list" where
  "content_errors label mode content =
     (if label \<in> set RUNNER_LABELS then
        (if mode AND 73 = 0 then [NotExecutable label] else [])
        @ (if starts_with content (''#!/bin/sh'' @ [NL]) then [] else [WrongInterpreter label]) else [])
     @ (if label = ''serial_autologin'' \<and> \<not> contains ''agetty --autologin root'' (universal_newlines content) then [NoAutologin] else [])
     @ (if label = ''network_profile'' then line_errors NetworkLines NETWORK_LINES content else [])
     @ (if label = ''timesync_profile'' then line_errors TimesyncLines TIMESYNC_LINES content else [])
     @ (if label = ''ssh_policy'' then line_errors SshLines SSH_LINES content else [])
     @ (if label = ''shadow'' \<and> \<not> root_password_ok content then [RootPassword] else [])"

text \<open>The loop over the selected members: the errors, the extracted files, and the disk.\<close>

record rootfs_state =
  rs_errors :: "rootfs_error list"
  rs_extracted :: "(string \<times> path) list"
  rs_fs :: fs

definition lookup_member :: "members \<Rightarrow> string option \<Rightarrow> (string \<times> tar_entry) option" where
  "lookup_member ms name = (case name of None \<Rightarrow> None
     | Some n \<Rightarrow> if n = [] then None else map_option (\<lambda>e. (n, e)) (dict_get ms n))"

definition check_member :: "members \<Rightarrow> path \<Rightarrow> string \<times> string option \<Rightarrow> rootfs_state \<Rightarrow> rootfs_state" where
  "check_member ms extract_dir = (\<lambda>(label, name) s.
     case lookup_member ms name of
       None \<Rightarrow> s\<lparr>rs_errors := rs_errors s @ [MissingMember label]\<rparr>
     | Some (n, entry) \<Rightarrow> (case te_kind entry of
         FileEntry content \<Rightarrow>
           s\<lparr>rs_errors := rs_errors s @ content_errors label (te_mode entry) content,
             rs_extracted := rs_extracted s @ [(label, path_div extract_dir n)],
             rs_fs := write_file (path_div extract_dir n) content (rs_fs s)\<rparr>
       | _ \<Rightarrow> s\<lparr>rs_errors := rs_errors s @ [NotRegular label n]\<rparr>))"

definition timesync_errors :: "members \<Rightarrow> rootfs_error list" where
  "timesync_errors ms = (case dict_get ms TIMESYNCD_ENABLE_MEMBER of
       None \<Rightarrow> [TimesyncNotEnabled]
     | Some e \<Rightarrow> (case te_kind e of LinkEntry target \<Rightarrow> if ends_with target ''/systemd-timesyncd.service'' then [] else [TimesyncInvalid]
        | _ \<Rightarrow> [TimesyncInvalid]))"

definition check_members :: "members \<Rightarrow> path \<Rightarrow> fs \<Rightarrow> rootfs_state" where
  "check_members ms extract_dir fs = fold (check_member ms extract_dir) (selected_members ms)
     \<lparr>rs_errors = timesync_errors ms, rs_extracted = [], rs_fs = fs\<rparr>"

text \<open>The names of the archive by their last component.\<close>

definition available_by_name :: "members \<Rightarrow> (string, string list) dict" where
  "available_by_name ms = fold (\<lambda>n d. let k = path_name (rel_path n) in
     dict_set k (dict_get_or d k [] @ [n]) d) (dict_keys ms) []"

subsection \<open>Inspecting the ELF files\<close>

record elf_info =
  ei_machine :: string
  ei_needed :: "string list"
  ei_rpaths :: "string list"
  ei_host_paths :: "string list"

definition machine_re :: rx where
  "machine_re = seq [MBol, Star (Sym is_space), lit ''Machine:'', Star (Sym is_space), Cap 1 (lplus dot), Star (Sym is_space), MEol]"

definition needed_re :: rx where
  "needed_re = seq [lit ''(NEEDED)'', LStar dot, lit ''['', Cap 1 (lplus dot), lit '']'']"

definition rpath_re :: rx where
  "rpath_re = seq [lit ''('', Alt (lit ''RPATH'') (lit ''RUNPATH''), lit '')'', LStar dot, lit ''['', Cap 1 (LStar dot), lit '']'']"

definition find_all :: "rx \<Rightarrow> string \<Rightarrow> string list" where
  "find_all r txt = sort (remdups (map (group 1) (re_finditer r txt)))"

definition tool_output :: "build_env \<Rightarrow> string list \<Rightarrow> fs \<Rightarrow> (int \<times> string) res" where
  "tool_output b command fs = bindE (noneE OSError (bd_run b command fs)) (\<lambda>(status, out, _). Inr (status, out))"

definition inspect_elf :: "build_env \<Rightarrow> fs \<Rightarrow> path \<Rightarrow> elf_info res" where
  "inspect_elf b fs p =
     bindE (tool_output b [''readelf'', ''-h'', path_str p] fs) (\<lambda>(hs, header).
     bindE (guardE (hs = 0) (ValueError (''readelf -h failed for '' @ path_str p @ '': '' @ strip header))) (\<lambda>_.
     bindE (noneE (ValueError (''readelf did not report a machine for '' @ path_str p)) (re_search machine_re header)) (\<lambda>k.
     bindE (tool_output b [''readelf'', ''-d'', path_str p] fs) (\<lambda>(ds, dynamic).
     bindE (guardE (ds = 0) (ValueError (''readelf -d failed for '' @ path_str p @ '': '' @ strip dynamic))) (\<lambda>_.
     bindE (tool_output b [''strings'', ''-a'', path_str p] fs) (\<lambda>(ss, strs).
     Inr \<lparr>ei_machine = group 1 k, ei_needed = find_all needed_re dynamic, ei_rpaths = find_all rpath_re dynamic,
       ei_host_paths = (if ss = 0 then sort (remdups (List.filter (\<lambda>l. list_ex (\<lambda>pre. contains pre l) FORBIDDEN_HOST_PREFIXES) (splitlines strs)))
         else [])\<rparr>))))))"

definition NOT_INSPECTED :: "string list" where
  "NOT_INSPECTED = [''collector'', ''workload_runner'', ''benchmark_runner'', ''cpu_benchmark_runner'', ''serial_autologin'', ''network_profile'',
     ''timesync_profile'', ''ssh_policy'', ''shadow'', ''gst_launch'', ''gst_inspect'', ''gst_jpeg'', ''gst_jpeg_parse'', ''gst_video_convert'']"

definition elf_errors :: "string \<Rightarrow> elf_info \<Rightarrow> rootfs_error list" where
  "elf_errors label info =
     (if ei_machine info \<noteq> ''AArch64'' then [WrongMachine label (ei_machine info)] else [])
     @ (let cpu_origin_only = (label \<in> set CPU_ELF_LABELS \<and> set (ei_rpaths info) = {''$ORIGIN''}) in
        if ei_rpaths info \<noteq> [] \<and> \<not> cpu_origin_only then [RpathEntries label (ei_rpaths info)] else [])
     @ (if ei_host_paths info \<noteq> [] then [HostPaths label] else [])"

type_synonym elf_state = "rootfs_error list \<times> (string, elf_info) dict"

definition inspect_member :: "(path \<Rightarrow> elf_info res) \<Rightarrow> string \<times> path \<Rightarrow> elf_state \<Rightarrow> elf_state" where
  "inspect_member inspector = (\<lambda>(label, p) (errors, elf).
     if label \<in> set NOT_INSPECTED then (errors, elf)
     else case inspector p of
       Inl e \<Rightarrow> (errors @ [NotInspected label e], elf)
     | Inr info \<Rightarrow> (errors @ elf_errors label info, dict_set label info elf))"

definition needed_names :: "(string, elf_info) dict \<Rightarrow> string list" where
  "needed_names elf = sort (remdups (concat (map (ei_needed \<circ> snd) elf)))"

definition resolved_names :: "(string, string list) dict \<Rightarrow> string list \<Rightarrow> (string \<times> string) list" where
  "resolved_names available needed = concat (map (\<lambda>d. case dict_get available d of None \<Rightarrow> [] | Some ns \<Rightarrow> [(d, hd (sort ns))]) needed)"

record rootfs_audit =
  ra_selected :: "(string \<times> string option) list"
  ra_elf :: "(string, elf_info) dict"
  ra_needed :: "string list"
  ra_resolved :: "(string \<times> string) list"
  ra_missing :: "string list"
  ra_errors :: "rootfs_error list"
  ra_fs :: fs

definition audit_members :: "(fs \<Rightarrow> path \<Rightarrow> elf_info res) \<Rightarrow> members \<Rightarrow> path \<Rightarrow> fs \<Rightarrow> rootfs_audit" where
  "audit_members inspector ms extract_dir fs =
     (let s = check_members ms extract_dir fs;
          available = available_by_name ms;
          (errors, elf) = fold (inspect_member (inspector (rs_fs s))) (rs_extracted s) (rs_errors s, []);
          needed = needed_names elf;
          missing = List.filter (\<lambda>d. dict_get available d = None) needed
      in \<lparr>ra_selected = selected_members ms, ra_elf = elf, ra_needed = needed, ra_resolved = resolved_names available needed, ra_missing = missing,
          ra_errors = errors @ (if missing = [] then [] else [MissingDependencies missing]), ra_fs = rs_fs s\<rparr>)"

definition strs_json :: "string list \<Rightarrow> json" where
  "strs_json xs = JList (map JStr xs)"

definition elf_json :: "elf_info \<Rightarrow> json" where
  "elf_json i = JDict [(''machine'', JStr (ei_machine i)), (''needed'', strs_json (ei_needed i)), (''rpaths'', strs_json (ei_rpaths i)),
     (''host_paths'', strs_json (ei_host_paths i))]"

definition audit_document :: "(py_error \<Rightarrow> string) \<Rightarrow> path \<Rightarrow> string \<Rightarrow> rootfs_audit \<Rightarrow> json" where
  "audit_document msg rootfs sha a = JDict [(''status'', JStr (if ra_errors a = [] then ''pass'' else ''fail'')),
     (''rootfs'', JDict [(''path'', JStr (path_str rootfs)), (''sha256'', JStr sha)]),
     (''members'', JDict (map (\<lambda>(l, n). (l, jopt n)) (ra_selected a))), (''elf'', JDict (map (\<lambda>(l, i). (l, elf_json i)) (ra_elf a))),
     (''dependency_closure'', JDict [(''needed'', strs_json (ra_needed a)), (''resolved'', JDict (map (\<lambda>(d, n). (d, JStr n)) (ra_resolved a))),
        (''missing'', strs_json (ra_missing a))]),
     (''errors'', strs_json (map (rootfs_message msg) (ra_errors a)))]"

text \<open>The audit: the container's reader is \<open>open_tar\<close>.\<close>

definition audit_petalinux_rootfs ::
    "env \<Rightarrow> (string \<Rightarrow> tar_entry list option) \<Rightarrow> (fs \<Rightarrow> path \<Rightarrow> elf_info res) \<Rightarrow> path \<Rightarrow> path \<Rightarrow> fs \<Rightarrow> (rootfs_audit \<times> string) res" where
  "audit_petalinux_rootfs e open_tar inspector rootfs extract_dir fs =
     bindE (read_text fs rootfs) (\<lambda>content. bindE (noneE OSError (open_tar content)) (\<lambda>entries.
     let a = audit_members inspector (members_of entries) extract_dir fs in
     bindE (sha_file e (ra_fs a) rootfs) (\<lambda>sha. Inr (a, sha))))"

definition failed_audit :: "path \<Rightarrow> string \<Rightarrow> json" where
  "failed_audit rootfs message = JDict [(''status'', JStr ''fail''), (''rootfs'', JDict [(''path'', JStr (path_str rootfs))]), (''members'', JDict []),
     (''elf'', JDict []), (''dependency_closure'', JDict [(''needed'', JList []), (''resolved'', JDict []), (''missing'', JList [])]),
     (''errors'', strs_json [message])]"

definition run_petalinux_rootfs_audit ::
    "build_env \<Rightarrow> (py_error \<Rightarrow> string) \<Rightarrow> (string \<Rightarrow> tar_entry list option) \<Rightarrow> path \<Rightarrow> path \<Rightarrow> path \<Rightarrow> fs \<Rightarrow> int \<times> fs" where
  "run_petalinux_rootfs_audit b msg open_tar rootfs extract_dir out_path fs =
     (let e = env.truncate b in
      case audit_petalinux_rootfs e open_tar (inspect_elf b) rootfs extract_dir fs of
        Inl x \<Rightarrow> (1, write_json e out_path (failed_audit rootfs (msg x)) fs)
      | Inr (a, sha) \<Rightarrow> (if ra_errors a = [] then 0 else 1, write_json e out_path (audit_document msg rootfs sha a) (ra_fs a)))"

subsection \<open>What a passing audit means\<close>

text \<open>The specification of the checked members and of the inspected ELF files.\<close>

definition content_ok :: "string \<Rightarrow> nat \<Rightarrow> string \<Rightarrow> bool" where
  "content_ok label mode content \<longleftrightarrow>
     (label \<in> set RUNNER_LABELS \<longrightarrow> mode AND 73 \<noteq> 0 \<and> prefix (''#!/bin/sh'' @ [NL]) content) \<and>
     (label = ''serial_autologin'' \<longrightarrow> contains ''agetty --autologin root'' (universal_newlines content)) \<and>
     (label = ''network_profile'' \<longrightarrow> set NETWORK_LINES \<subseteq> set (splitlines (universal_newlines content))) \<and>
     (label = ''timesync_profile'' \<longrightarrow> set TIMESYNC_LINES \<subseteq> set (splitlines (universal_newlines content))) \<and>
     (label = ''ssh_policy'' \<longrightarrow> set SSH_LINES \<subseteq> set (splitlines (universal_newlines content))) \<and>
     (label = ''shadow'' \<longrightarrow> root_password_ok content)"

definition member_ok :: "members \<Rightarrow> string \<times> string option \<Rightarrow> bool" where
  "member_ok ms = (\<lambda>(label, name). case lookup_member ms name of None \<Rightarrow> False
     | Some (n, e) \<Rightarrow> (case te_kind e of FileEntry content \<Rightarrow> content_ok label (te_mode e) content | _ \<Rightarrow> False))"

definition elf_ok :: "members \<Rightarrow> string \<Rightarrow> elf_info \<Rightarrow> bool" where
  "elf_ok ms label i \<longleftrightarrow> ei_machine i = ''AArch64'' \<and> ei_host_paths i = [] \<and>
     (ei_rpaths i = [] \<or> (label \<in> set CPU_ELF_LABELS \<and> set (ei_rpaths i) = {''$ORIGIN''})) \<and>
     list_all (\<lambda>d. list_ex (\<lambda>n. path_name (rel_path n) = d) (dict_keys ms)) (ei_needed i)"

definition timesync_ok :: "members \<Rightarrow> bool" where
  "timesync_ok ms \<longleftrightarrow> (case dict_get ms TIMESYNCD_ENABLE_MEMBER of None \<Rightarrow> False
     | Some e \<Rightarrow> (case te_kind e of LinkEntry target \<Rightarrow> suffix ''/systemd-timesyncd.service'' target | _ \<Rightarrow> False))"

definition rootfs_ok :: "(fs \<Rightarrow> path \<Rightarrow> elf_info res) \<Rightarrow> members \<Rightarrow> path \<Rightarrow> fs \<Rightarrow> bool" where
  "rootfs_ok inspector ms extract_dir fs \<longleftrightarrow> timesync_ok ms \<and> list_all (member_ok ms) (selected_members ms) \<and>
     list_all (\<lambda>(label, name). label \<in> set NOT_INSPECTED \<or>
       (case inspector (ra_fs (audit_members inspector ms extract_dir fs)) (path_div extract_dir (the name)) of
          Inl e \<Rightarrow> False | Inr i \<Rightarrow> elf_ok ms label i)) (selected_members ms)"

definition member_errors :: "members \<Rightarrow> string \<times> string option \<Rightarrow> rootfs_error list" where
  "member_errors ms = (\<lambda>(label, name). case lookup_member ms name of None \<Rightarrow> [MissingMember label]
     | Some (n, e) \<Rightarrow> (case te_kind e of FileEntry content \<Rightarrow> content_errors label (te_mode e) content | _ \<Rightarrow> [NotRegular label n]))"

definition extracted_member :: "members \<Rightarrow> path \<Rightarrow> string \<times> string option \<Rightarrow> (string \<times> path) list" where
  "extracted_member ms d = (\<lambda>(label, name). case lookup_member ms name of None \<Rightarrow> []
     | Some (n, e) \<Rightarrow> (case te_kind e of FileEntry content \<Rightarrow> [(label, path_div d n)] | _ \<Rightarrow> []))"

lemma check_members_fold:
  "rs_errors (fold (check_member ms d) xs s) = rs_errors s @ concat (map (member_errors ms) xs) \<and>
   rs_extracted (fold (check_member ms d) xs s) = rs_extracted s @ concat (map (extracted_member ms d) xs)"
proof (induction xs arbitrary: s)
  case (Cons x xs)
  have "rs_errors (check_member ms d x s) = rs_errors s @ member_errors ms x \<and>
      rs_extracted (check_member ms d x s) = rs_extracted s @ extracted_member ms d x"
    by (auto simp: check_member_def member_errors_def extracted_member_def split: prod.splits option.splits entry_kind.splits)
  with Cons [of "check_member ms d x s"] show ?case by simp
qed simp

definition inspect_errors :: "(path \<Rightarrow> elf_info res) \<Rightarrow> string \<times> path \<Rightarrow> rootfs_error list" where
  "inspect_errors f = (\<lambda>(l, p). if l \<in> set NOT_INSPECTED then [] else case f p of Inl e \<Rightarrow> [NotInspected l e] | Inr i \<Rightarrow> elf_errors l i)"

definition elf_entries :: "(path \<Rightarrow> elf_info res) \<Rightarrow> string \<times> path \<Rightarrow> (string \<times> elf_info) list" where
  "elf_entries f = (\<lambda>(l, p). if l \<in> set NOT_INSPECTED then [] else case f p of Inl e \<Rightarrow> [] | Inr i \<Rightarrow> [(l, i)])"

lemma inspect_fold:
  "distinct (map fst elf @ map fst ps) \<Longrightarrow>
     fold (inspect_member f) ps (errors, elf) = (errors @ concat (map (inspect_errors f) ps), elf @ concat (map (elf_entries f) ps))"
proof (induction ps arbitrary: errors elf)
  case (Cons q ps)
  obtain l p where q: "q = (l, p)" by (cases q)
  have "inspect_member f q (errors, elf) = (errors @ inspect_errors f q, elf @ elf_entries f q)"
    using Cons.prems q by (auto simp: inspect_member_def inspect_errors_def elf_entries_def dict_set_new split: sum.splits)
  moreover have "distinct (map fst (elf @ elf_entries f q) @ map fst ps)"
    using Cons.prems q by (auto simp: elf_entries_def split: sum.splits)
  note Cons.IH [OF this, of "errors @ inspect_errors f q"]
  ultimately show ?case by simp
qed simp

lemma available_iff: "dict_get (available_by_name ms) d = None \<longleftrightarrow> \<not> list_ex (\<lambda>n. path_name (rel_path n) = d) (dict_keys ms)"
proof -
  have "dict_get (fold (\<lambda>n d. let k = path_name (rel_path n) in dict_set k (dict_get_or d k [] @ [n]) d) ns a) d = None \<longleftrightarrow>
      dict_get a d = None \<and> \<not> list_ex (\<lambda>n. path_name (rel_path n) = d) ns" for ns a
    by (induction ns arbitrary: a) (auto simp: Let_def)
  then show ?thesis by (simp add: available_by_name_def)
qed

lemma missing_lines_Nil: "missing_lines required content = [] \<longleftrightarrow> set required \<subseteq> set (splitlines (universal_newlines content))"
proof -
  have "missing_lines required content = [] \<longleftrightarrow> List.filter (\<lambda>l. l \<notin> set (splitlines (universal_newlines content))) required = []"
    unfolding missing_lines_def by (metis length_0_conv length_sort)
  then show ?thesis by (auto simp: filter_empty_conv)
qed

lemma content_errors_Nil: "content_errors label mode content = [] \<longleftrightarrow> content_ok label mode content"
  by (auto simp: content_errors_def content_ok_def line_errors_def Let_def missing_lines_Nil starts_with_def)

lemma member_errors_Nil: "member_errors ms x = [] \<longleftrightarrow> member_ok ms x"
  by (auto simp: member_errors_def member_ok_def content_errors_Nil split: prod.splits option.splits entry_kind.splits)

lemma timesync_errors_Nil: "timesync_errors ms = [] \<longleftrightarrow> timesync_ok ms"
  by (auto simp: timesync_errors_def timesync_ok_def ends_with_def split: option.splits entry_kind.splits)

lemma selected_distinct: "distinct (map fst (selected_members ms))"
  by (simp add: selected_members_def SELECTED_MEMBERS_def)

lemma member_ok_extracted:
  assumes "member_ok ms x"
  shows "extracted_member ms d x = [(fst x, path_div d (the (snd x)))]"
proof -
  obtain l name where x: "x = (l, name)" by (cases x)
  with assms obtain n e where look: "lookup_member ms name = Some (n, e)" by (auto simp: member_ok_def split: option.splits)
  then have "name = Some n" by (auto simp: lookup_member_def split: option.splits if_splits)
  with assms x look show ?thesis by (auto simp: member_ok_def extracted_member_def split: entry_kind.splits)
qed

lemma elf_errors_Nil: "elf_errors l i = [] \<longleftrightarrow> ei_machine i = ''AArch64'' \<and> ei_host_paths i = [] \<and>
     (ei_rpaths i = [] \<or> (l \<in> set CPU_ELF_LABELS \<and> set (ei_rpaths i) = {''$ORIGIN''}))"
  by (auto simp: elf_errors_def Let_def)

lemma audit_members_ok: "ra_errors (audit_members inspector ms d fs) = [] \<longleftrightarrow> rootfs_ok inspector ms d fs"
proof -
  define a where "a = audit_members inspector ms d fs"
  define s where "s = check_members ms d fs"
  define f where "f = inspector (rs_fs s)"
  have s: "rs_errors s = timesync_errors ms @ concat (map (member_errors ms) (selected_members ms))"
    "rs_extracted s = concat (map (extracted_member ms d) (selected_members ms))"
    unfolding s_def check_members_def using check_members_fold by simp_all
  let ?ext = "map (\<lambda>(l, n). (l, path_div d (the n))) (selected_members ms)"
  have sub: "distinct (map fst (concat (map (extracted_member ms d) xs))) \<and> fst ` set (concat (map (extracted_member ms d) xs)) \<subseteq> fst ` set xs"
    if "distinct (map fst xs)" for xs
    using that by (induction xs) (auto simp: extracted_member_def split: prod.splits option.splits entry_kind.splits, force+)
  have dist: "distinct (map fst ([] :: (string \<times> elf_info) list) @ map fst (rs_extracted s))" using sub [OF selected_distinct] s by simp
  let ?elf = "concat (map (elf_entries f) (rs_extracted s))"
  have fold: "fold (inspect_member f) (rs_extracted s) (rs_errors s, []) = (rs_errors s @ concat (map (inspect_errors f) (rs_extracted s)), ?elf)"
    using inspect_fold [OF dist] by simp
  have a: "ra_fs a = rs_fs s" "ra_errors a = [] \<longleftrightarrow> rs_errors s = [] \<and> concat (map (inspect_errors f) (rs_extracted s)) = [] \<and>
      List.filter (\<lambda>d. dict_get (available_by_name ms) d = None) (needed_names ?elf) = []"
    using fold by (auto simp: a_def audit_members_def s_def [symmetric] f_def [symmetric] Let_def)
  have needed: "List.filter (\<lambda>d. dict_get (available_by_name ms) d = None) (needed_names ?elf) = [] \<longleftrightarrow>
      (\<forall>(l, i) \<in> set ?elf. list_all (\<lambda>d. list_ex (\<lambda>n. path_name (rel_path n) = d) (dict_keys ms)) (ei_needed i))"
    by (auto simp: filter_empty_conv needed_names_def available_iff list_all_iff split_def)
  show ?thesis
  proof (cases "timesync_ok ms \<and> list_all (member_ok ms) (selected_members ms)")
    case True
    then have err: "rs_errors s = []" by (auto simp: s timesync_errors_Nil member_errors_Nil list_all_iff)
    have "concat (map (extracted_member ms d) xs) = map (\<lambda>(l, n). (l, path_div d (the n))) xs" if "list_all (member_ok ms) xs" for xs
      using that by (induction xs) (simp_all add: member_ok_extracted split_def)
    with True s have ext: "rs_extracted s = ?ext" by simp
    have one: "inspect_errors f (l, p) = [] \<and> (\<forall>(l, i) \<in> set (elf_entries f (l, p)).
        list_all (\<lambda>d. list_ex (\<lambda>n. path_name (rel_path n) = d) (dict_keys ms)) (ei_needed i)) \<longleftrightarrow>
        l \<in> set NOT_INSPECTED \<or> (case f p of Inl e \<Rightarrow> False | Inr i \<Rightarrow> elf_ok ms l i)" for l p
      by (auto simp: inspect_errors_def elf_entries_def elf_ok_def elf_errors_Nil split: sum.splits)
    have all: "concat (map (inspect_errors f) ps) = [] \<and> (\<forall>(l, i) \<in> set (concat (map (elf_entries f) ps)).
        list_all (\<lambda>d. list_ex (\<lambda>n. path_name (rel_path n) = d) (dict_keys ms)) (ei_needed i)) \<longleftrightarrow>
        list_all (\<lambda>(l, p). l \<in> set NOT_INSPECTED \<or> (case f p of Inl e \<Rightarrow> False | Inr i \<Rightarrow> elf_ok ms l i)) ps" for ps
    proof (induction ps)
      case (Cons q ps)
      then show ?case using one [of "fst q" "snd q"] by (simp add: split_def ball_Un) blast
    qed simp
    have "ra_errors a = [] \<longleftrightarrow> list_all (\<lambda>(l, p). l \<in> set NOT_INSPECTED \<or> (case f p of Inl e \<Rightarrow> False | Inr i \<Rightarrow> elf_ok ms l i)) ?ext"
      unfolding a(2) needed unfolding ext using err by (simp only: all simp_thms)
    then show ?thesis using True by (simp add: rootfs_ok_def a_def [symmetric] a(1) f_def list.pred_map comp_def split_def cong: sum.case_cong)
  next
    case False
    then have "rs_errors s \<noteq> []" by (auto simp: s timesync_errors_Nil member_errors_Nil list_all_iff)
    with False show ?thesis by (auto simp: a_def [symmetric] a rootfs_ok_def)
  qed
qed

text \<open>C34: the audit exits with 0 exactly when the archive can be read and meets the specification: every
  selected member is a regular file with the required content and mode, the clock service is enabled, and
  every inspected ELF file is for AArch64, free of host paths and foreign search paths, with all the
  libraries it needs in the archive.\<close>

theorem rootfs_audit_exit:
  "fst (run_petalinux_rootfs_audit b msg open_tar rootfs extract_dir out_path fs) = 0 \<longleftrightarrow>
     (case bindE (read_text fs rootfs) (\<lambda>content. noneE OSError (open_tar content)) of
        Inl e \<Rightarrow> False
      | Inr entries \<Rightarrow> rootfs_ok (inspect_elf b) (members_of entries) extract_dir fs)"
proof (cases "bindE (read_text fs rootfs) (\<lambda>content. noneE OSError (open_tar content))")
  case (Inl e)
  then have "\<exists>e'. audit_petalinux_rootfs (env.truncate b) open_tar (inspect_elf b) rootfs extract_dir fs = Inl e'"
    unfolding audit_petalinux_rootfs_def by (cases "read_text fs rootfs"; cases "open_tar (projr (read_text fs rootfs))") (auto simp: noneE_def)
  then show ?thesis using Inl by (auto simp: run_petalinux_rootfs_audit_def Let_def)
next
  case (Inr entries)
  then obtain content where c: "read_text fs rootfs = Inr content" "open_tar content = Some entries"
    by (auto simp: bindE_Inr_iff noneE_Inr_iff)
  let ?a = "audit_members (inspect_elf b) (members_of entries) extract_dir fs"
  have keep: "is_file fs p \<Longrightarrow> is_file (rs_fs (fold (check_member ms d) xs s)) p" if "rs_fs s = fs \<or> is_file (rs_fs s) p" for p ms d xs s
    using that by (induction xs arbitrary: s) (auto simp: check_member_def split: prod.splits option.splits entry_kind.splits)
  have "is_file fs rootfs" using c by (simp add: is_file_read)
  from keep [OF _ this] have "is_file (ra_fs ?a) rootfs"
    by (simp add: audit_members_def Let_def check_members_def split_def)
  then obtain c' where "read_text (ra_fs ?a) rootfs = Inr c'" by (auto simp: is_file_read)
  then have "audit_petalinux_rootfs (env.truncate b) open_tar (inspect_elf b) rootfs extract_dir fs = Inr (?a, upper (env_sha (env.truncate b) c'))"
    by (simp add: audit_petalinux_rootfs_def c Let_def sha_file_def sha256_file_def)
  then show ?thesis by (simp add: run_petalinux_rootfs_audit_def Let_def Inr audit_members_ok)
qed

text \<open>An archive that meets the specification.\<close>

definition wit_rootfs :: "tar_entry list" where
  "wit_rootfs = \<lparr>te_name = ''./'' @ TIMESYNCD_ENABLE_MEMBER, te_mode = 511, te_kind = LinkEntry ''/lib/systemd/system/systemd-timesyncd.service''\<rparr>
     # map (\<lambda>(l, n). \<lparr>te_name = ''./'' @ n, te_mode = 493, te_kind = FileEntry (
         if l \<in> set RUNNER_LABELS then ''#!/bin/sh'' @ [NL] else if l = ''serial_autologin'' then ''agetty --autologin root''
         else if l = ''network_profile'' then join [NL] NETWORK_LINES else if l = ''timesync_profile'' then join [NL] TIMESYNC_LINES
         else if l = ''ssh_policy'' then join [NL] SSH_LINES else if l = ''shadow'' then ''root:'' @ TEST_ROOT_PASSWORD_HASH @ '':0'' else [])\<rparr>)
       (SELECTED_MEMBERS @ [(''module'', ''lib/modules/6.1/extra/opendla.ko'')])"

lemma wit_rootfs_ok:
  "rootfs_ok (\<lambda>_ _. Inr \<lparr>ei_machine = ''AArch64'', ei_needed = [''libnvdla_runtime.so''], ei_rpaths = [], ei_host_paths = []\<rparr>) (members_of wit_rootfs) [''out''] []"
  by code_simp

end
