(* ===== verification/SdBundle.thy ===== *)
theory SdBundle
  imports BoardPayload
begin

text \<open>
  The SD card bundle (tools/nvdla_test_framework/petalinux_sd.py): three boot files are copied to an
  empty directory, with their checksums and a manifest, and packed into an archive whose owners, times
  and modes are fixed. The archive of a list of members and the text of an exception are parameters; the
  archive is not one of its own members. The bundle is reproducible: its archive is a function of the
  contents of the three files.
\<close>

definition SD_NAMES :: "string list" where
  "SD_NAMES = [''BOOT.BIN'', ''boot.scr'', ''image.ub'']"

record sd_file =
  sd_name :: string
  sd_source :: path
  sd_path :: path
  sd_sha :: string

definition copy_boot_file :: "env \<Rightarrow> path \<Rightarrow> string \<times> path \<Rightarrow> sd_file list \<times> fs \<Rightarrow> (sd_file list \<times> fs) res" where
  "copy_boot_file e out_dir = (\<lambda>(name, source) (files, fs).
     bindE (copy_file source (out_dir @ [name]) fs) (\<lambda>fs'.
     bindE (sha_file e fs' (out_dir @ [name])) (\<lambda>h.
     Inr (files @ [\<lparr>sd_name = name, sd_source = source, sd_path = out_dir @ [name], sd_sha = h\<rparr>], fs'))))"

text \<open>The files by name, as \<open>sorted(files)\<close>.\<close>

definition sorted_files :: "sd_file list \<Rightarrow> sd_file list" where
  "sorted_files files = sort_key sd_name files"

definition sd_sums_text :: "sd_file list \<Rightarrow> string" where
  "sd_sums_text files = concat (map (\<lambda>f. sd_sha f @ ''  '' @ sd_name f @ [NL]) (sorted_files files))"

definition internal_manifest :: "sd_file list \<Rightarrow> (string \<times> json) list" where
  "internal_manifest files = [(''schema_version'', JInt 1), (''board'', JStr ''zcu102''), (''boot_mode'', JStr ''sd-fit-initramfs''),
     (''copy_to_fat_partition'', JList (map (JStr \<circ> sd_name) (sorted_files files))),
     (''files'', JDict (map (\<lambda>f. (sd_name f, JDict [(''sha256'', JStr (sd_sha f))])) (sorted_files files)))]"

definition archive_of :: "fs \<Rightarrow> path \<Rightarrow> string list \<Rightarrow> (string \<times> string) list res" where
  "archive_of fs source_dir names = mapE (\<lambda>n. bindE (read_text fs (source_dir @ [n])) (\<lambda>c. Inr (n, c))) (sort names)"

definition write_deterministic_archive :: "env \<Rightarrow> path \<Rightarrow> path \<Rightarrow> string list \<Rightarrow> fs \<Rightarrow> fs res" where
  "write_deterministic_archive e source_dir archive_path names fs =
     bindE (archive_of fs source_dir names) (\<lambda>ms. Inr (write_file archive_path (env_targz e ms) fs))"

definition sd_result :: "sd_file list \<Rightarrow> path \<Rightarrow> string \<Rightarrow> path \<Rightarrow> string \<Rightarrow> json" where
  "sd_result files archive_path archive_sha internal_path internal_sha =
     JDict (fold (\<lambda>(k, v). dict_set k v)
       [(''files'', JDict (map (\<lambda>f. (sd_name f, JDict [(''source'', JStr (path_str (sd_source f))), (''path'', JStr (path_str (sd_path f))), (''sha256'', JStr (sd_sha f))])) files)),
        (''status'', JStr ''pass''),
        (''archive'', JDict [(''path'', JStr (path_str archive_path)), (''sha256'', JStr archive_sha)]),
        (''bundle_manifest'', JDict [(''path'', JStr (path_str internal_path)), (''sha256'', JStr internal_sha)])]
       (internal_manifest files))"

definition build_petalinux_sd_bundle :: "env \<Rightarrow> path \<Rightarrow> path \<Rightarrow> path \<Rightarrow> path \<Rightarrow> path \<Rightarrow> path \<Rightarrow> fs \<Rightarrow> (json \<times> fs) res" where
  "build_petalinux_sd_bundle e boot_bin boot_script fit_image out_dir archive_path manifest_path fs =
     (let sources = zip SD_NAMES [boot_bin, boot_script, fit_image];
          missing = List.filter (\<lambda>p. \<not> is_file fs p) (map snd sources) in
      bindE (guardE (missing = []) (FileNotFoundError (''missing SD input files: '' @ join '', '' (map path_str missing)))) (\<lambda>_.
      bindE (guardE (\<not> is_file fs out_dir) OSError) (\<lambda>_.
      bindE (guardE (\<not> is_dir fs out_dir) (ValueError (''SD output directory is not empty: '' @ path_str out_dir))) (\<lambda>_.
      bindE (foldE (copy_boot_file e out_dir) sources ([], fs)) (\<lambda>(files, fs1).
      let fs2 = write_file (out_dir @ [''SHA256SUMS'']) (sd_sums_text files) fs1;
          internal_path = out_dir @ [''SD-BUNDLE.json''];
          fs3 = write_json e internal_path (JDict (internal_manifest files)) fs2 in
      bindE (write_deterministic_archive e out_dir archive_path (map sd_name files @ [''SHA256SUMS'', ''SD-BUNDLE.json'']) fs3) (\<lambda>fs4.
      bindE (sha_file e fs4 archive_path) (\<lambda>archive_sha.
      bindE (sha_file e fs4 internal_path) (\<lambda>internal_sha.
      let result = sd_result files archive_path archive_sha internal_path internal_sha in
      Inr (result, write_json e manifest_path result fs4)))))))))"

definition run_petalinux_sd_bundle :: "env \<Rightarrow> (py_error \<Rightarrow> string) \<Rightarrow> path \<Rightarrow> path \<Rightarrow> path \<Rightarrow> path \<Rightarrow> path \<Rightarrow> path \<Rightarrow> fs \<Rightarrow> int \<times> fs" where
  "run_petalinux_sd_bundle e msg boot_bin boot_script fit_image out_dir archive_path manifest_path fs =
     (case build_petalinux_sd_bundle e boot_bin boot_script fit_image out_dir archive_path manifest_path fs of
        Inl x \<Rightarrow> (1, write_json e manifest_path (JDict [(''schema_version'', JInt 1), (''status'', JStr ''fail''), (''reason'', JStr (msg x))]) fs)
      | Inr (result, fs') \<Rightarrow> (0, fs'))"

subsection \<open>Facts\<close>

text \<open>The members of the archive as a function of the contents of the boot files.\<close>

definition boot_files :: "env \<Rightarrow> string list \<Rightarrow> sd_file list" where
  "boot_files e contents = map (\<lambda>(n, c). \<lparr>sd_name = n, sd_source = [], sd_path = [], sd_sha = upper (env_sha e c)\<rparr>) (zip SD_NAMES contents)"

definition bundle_members :: "env \<Rightarrow> string list \<Rightarrow> (string \<times> string) list" where
  "bundle_members e contents = sort_key fst (zip SD_NAMES contents
     @ [(''SHA256SUMS'', sd_sums_text (boot_files e contents)),
        (''SD-BUNDLE.json'', json_text (env_float e) 0 (JDict (internal_manifest (boot_files e contents))) @ [NL])])"

lemma not_below_file: "\<not> is_dir fs d \<Longrightarrow> is_file fs p \<Longrightarrow> p \<noteq> d @ [n]"
  by (fastforce simp: is_dir_def is_file_def dict_get_def dict_keys_def list_ex_iff strict_prefix_def dest: map_of_SomeD)

lemma sort_names: "sort (SD_NAMES @ [''SHA256SUMS'', ''SD-BUNDLE.json'']) = [''BOOT.BIN'', ''SD-BUNDLE.json'', ''SHA256SUMS'', ''boot.scr'', ''image.ub'']"
  by code_simp

lemma bundle_content:
  assumes "build_petalinux_sd_bundle e boot_bin boot_script fit_image out_dir archive_path manifest_path fs = Inr (result, fs')"
    and "manifest_path \<noteq> archive_path"
  obtains contents where "mapE (read_text fs) [boot_bin, boot_script, fit_image] = Inr contents"
    and "read_text fs' archive_path = Inr (env_targz e (bundle_members e contents))"
    and "\<forall>(n, c) \<in> set (bundle_members e contents). archive_path \<noteq> out_dir @ [n] \<longrightarrow> manifest_path \<noteq> out_dir @ [n] \<longrightarrow> read_text fs' (out_dir @ [n]) = Inr c"
proof -
  let ?names = "[''BOOT.BIN'', ''SD-BUNDLE.json'', ''SHA256SUMS'', ''boot.scr'', ''image.ub'']"
  from assms(1) obtain files fs1 ms fs4 h i where
    is_f: "List.filter (\<lambda>p. \<not> is_file fs p) (map snd (zip SD_NAMES [boot_bin, boot_script, fit_image])) = []" and dir: "\<not> is_dir fs out_dir"
    and copied: "foldE (copy_boot_file e out_dir) (zip SD_NAMES [boot_bin, boot_script, fit_image]) ([], fs) = Inr (files, fs1)"
    and written: "write_deterministic_archive e out_dir archive_path (map sd_name files @ [''SHA256SUMS'', ''SD-BUNDLE.json''])
        (write_json e (out_dir @ [''SD-BUNDLE.json'']) (JDict (internal_manifest files)) (write_file (out_dir @ [''SHA256SUMS'']) (sd_sums_text files) fs1)) = Inr fs4"
    and fs': "fs' = write_json e manifest_path (sd_result files archive_path h (out_dir @ [''SD-BUNDLE.json'']) i) fs4"
    unfolding build_petalinux_sd_bundle_def Let_def bindE_Inr_iff guardE_Inr_iff sum.inject prod.inject split_paired_Ex prod.case
    by (elim exE conjE) (rule that; (assumption | rule sym, assumption))
  from is_f have sources: "is_file fs boot_bin" "is_file fs boot_script" "is_file fs fit_image" by (auto simp: SD_NAMES_def split: if_splits)
  note apart = not_below_file [OF dir sources(1)] not_below_file [OF dir sources(2)] not_below_file [OF dir sources(3)]
  from copied obtain c1 c2 c3 where c: "read_text fs boot_bin = Inr c1" "read_text fs boot_script = Inr c2" "read_text fs fit_image = Inr c3"
    and fs1: "fs1 = write_file (out_dir @ [''image.ub'']) c3 (write_file (out_dir @ [''boot.scr'']) c2 (write_file (out_dir @ [''BOOT.BIN'']) c1 fs))"
    and files: "files = [\<lparr>sd_name = ''BOOT.BIN'', sd_source = boot_bin, sd_path = out_dir @ [''BOOT.BIN''], sd_sha = upper (env_sha e c1)\<rparr>,
       \<lparr>sd_name = ''boot.scr'', sd_source = boot_script, sd_path = out_dir @ [''boot.scr''], sd_sha = upper (env_sha e c2)\<rparr>,
       \<lparr>sd_name = ''image.ub'', sd_source = fit_image, sd_path = out_dir @ [''image.ub''], sd_sha = upper (env_sha e c3)\<rparr>]"
    using apart by (auto simp: SD_NAMES_def copy_boot_file_def bindE_Inr_iff copy_file_iff sha_file_iff)
  let ?boot = "boot_files e [c1, c2, c3]"
  have same: "sd_sums_text files = sd_sums_text ?boot" "internal_manifest files = internal_manifest ?boot"
    by (simp_all add: files boot_files_def SD_NAMES_def sd_sums_text_def internal_manifest_def sorted_files_def)
  have names: "sort (map sd_name files @ [''SHA256SUMS'', ''SD-BUNDLE.json'']) = ?names" using sort_names by (simp add: files SD_NAMES_def)
  have members: "bundle_members e [c1, c2, c3] = [(''BOOT.BIN'', c1),
      (''SD-BUNDLE.json'', json_text (env_float e) 0 (JDict (internal_manifest ?boot)) @ [NL]), (''SHA256SUMS'', sd_sums_text ?boot), (''boot.scr'', c2), (''image.ub'', c3)]"
    unfolding bundle_members_def SD_NAMES_def by (simp add: less_char_def)
  from written have fs4: "fs4 = write_file archive_path (env_targz e (bundle_members e [c1, c2, c3]))
      (write_json e (out_dir @ [''SD-BUNDLE.json'']) (JDict (internal_manifest files)) (write_file (out_dir @ [''SHA256SUMS'']) (sd_sums_text files) fs1))"
    by (simp add: write_deterministic_archive_def archive_of_def names members same fs1 write_json_def)
  show ?thesis
  proof (rule that)
    show "mapE (read_text fs) [boot_bin, boot_script, fit_image] = Inr [c1, c2, c3]" using c by simp
    show "read_text fs' archive_path = Inr (env_targz e (bundle_members e [c1, c2, c3]))" using assms(2) by (simp add: fs' fs4 write_json_def)
    show "\<forall>(n, c) \<in> set (bundle_members e [c1, c2, c3]). archive_path \<noteq> out_dir @ [n] \<longrightarrow> manifest_path \<noteq> out_dir @ [n] \<longrightarrow> read_text fs' (out_dir @ [n]) = Inr c"
      by (simp add: members fs' fs4 fs1 write_json_def same)
  qed
qed

lemma build_is_ok:
  "is_ok (build_petalinux_sd_bundle e boot_bin boot_script fit_image out_dir archive_path manifest_path fs) \<longleftrightarrow>
     list_all (is_file fs) [boot_bin, boot_script, fit_image] \<and> \<not> path_exists fs out_dir"
proof (cases "list_all (is_file fs) [boot_bin, boot_script, fit_image] \<and> \<not> path_exists fs out_dir")
  case True
  then have dir: "\<not> is_dir fs out_dir" "\<not> is_file fs out_dir" and sources: "is_file fs boot_bin" "is_file fs boot_script" "is_file fs fit_image"
    by (auto simp: path_exists_def)
  note apart = not_below_file [OF dir(1) sources(1)] not_below_file [OF dir(1) sources(2)] not_below_file [OF dir(1) sources(3)]
  from sources obtain c1 c2 c3 where c: "read_text fs boot_bin = Inr c1" "read_text fs boot_script = Inr c2" "read_text fs fit_image = Inr c3"
    by (auto simp: is_file_read)
  have "sort ([''BOOT.BIN'', ''boot.scr'', ''image.ub''] @ [''SHA256SUMS'', ''SD-BUNDLE.json'']) =
      [''BOOT.BIN'', ''SD-BUNDLE.json'', ''SHA256SUMS'', ''boot.scr'', ''image.ub'']" using sort_names by (simp add: SD_NAMES_def)
  then have names: "sort [''BOOT.BIN'', ''boot.scr'', ''image.ub'', ''SHA256SUMS'', ''SD-BUNDLE.json''] =
      [''BOOT.BIN'', ''SD-BUNDLE.json'', ''SHA256SUMS'', ''boot.scr'', ''image.ub'']" by simp
  from True show ?thesis
    by (simp add: build_petalinux_sd_bundle_def Let_def SD_NAMES_def sources dir copy_boot_file_def copy_file_def c apart apart [symmetric] sha_file_def
        sha256_file_def write_deterministic_archive_def archive_of_def names write_json_def)
next
  case False
  then have "\<not> is_ok (build_petalinux_sd_bundle e boot_bin boot_script fit_image out_dir archive_path manifest_path fs)"
    by (auto simp: is_ok_iff build_petalinux_sd_bundle_def Let_def bindE_Inr_iff guardE_Inr_iff SD_NAMES_def path_exists_def)
  with False show ?thesis by simp
qed



end
