(* ===== verification/Stock.thy ===== *)
theory Stock
  imports VpRun
begin

text \<open>
  The control run of the SDP workload on the stock platform image (tools/nvdla_test_framework/stock.py): the
  files it writes for the platform and for the client inside the container, the serial session, the
  logs it keeps, and the verdict. The session is given as in VpSerial: the polls of each phase, what the
  client command gave, and the files both leave; the texts of the generated files are those of the
  source. The name of the run is a parameter.
\<close>

subsection \<open>Generated files\<close>

definition ssh_client_control :: "string \<Rightarrow> int \<Rightarrow> int \<Rightarrow> string list" where
  "ssh_client_control loadable host_port timeout = [
     ''#!/usr/bin/env python'',
     ''from __future__ import print_function'',
     [],
     ''import os'',
     ''import subprocess'',
     ''import sys'',
     ''import time'',
     [],
     ''import pexpect'',
     [],
     [],
     ''out_dir = '' @ [DQ] @ ''/vp-run'' @ [DQ],
     ''runtime_output = os.path.join(out_dir, '' @ [DQ] @ ''runtime-output'' @ [DQ] @ '')'',
     ''runtime_results = os.path.join(runtime_output, '' @ [DQ] @ ''results'' @ [DQ] @ '')'',
     ''server_log = os.path.join(out_dir, '' @ [DQ] @ ''runtime-server.log'' @ [DQ] @ '')'',
     ''client_log = os.path.join(out_dir, '' @ [DQ] @ ''runtime-client.log'' @ [DQ] @ '')'',
     ''if not os.path.isdir(runtime_output):'',
     ''    os.makedirs(runtime_output)'',
     ''if not os.path.isdir(runtime_results):'',
     ''    os.makedirs(runtime_results)'',
     [],
     [],
     ''def append(path, data):'',
     ''    with open(path, '' @ [DQ] @ ''ab'' @ [DQ] @ '') as f:'',
     ''        if isinstance(data, unicode):'',
     ''            data = data.encode('' @ [DQ] @ ''utf-8'' @ [DQ] @ '', '' @ [DQ] @ ''replace'' @ [DQ] @ '')'',
     ''        f.write(data)'',
     [],
     [],
     ''ssh_cmd = ('',
     ''    '' @ [DQ] @ ''ssh -o StrictHostKeyChecking=no -o UserKnownHostsFile=/dev/null '' @ [DQ],
     ''    '' @ [DQ] @ ''-o LogLevel=ERROR root@127.0.0.1 -p 6667 '' @ [DQ],
     ''    + '' @ [DQ, SQ] @ ''export LD_LIBRARY_PATH=/mnt && /mnt/nvdla_runtime -s'' @ [SQ, DQ],
     '')'',
     ''server = pexpect.spawn(ssh_cmd, timeout=30, ignore_sighup=False)'',
     ''try:'',
     ''    while True:'',
     ''        idx = server.expect(['',
     ''            '' @ [DQ] @ ''Are you sure you want to continue connecting'' @ [DQ] @ '','',
     ''            '' @ [DQ] @ ''password:'' @ [DQ] @ '','',
     ''            '' @ [DQ] @ ''Ready for Client Connection'' @ [DQ] @ '','',
     ''            pexpect.EOF,'',
     ''            pexpect.TIMEOUT,'',
     ''        ])'',
     ''        append(server_log, server.before)'',
     ''        if idx == 0:'',
     ''            server.sendline('' @ [DQ] @ ''yes'' @ [DQ] @ '')'',
     ''        elif idx == 1:'',
     ''            server.sendline('' @ [DQ] @ ''nvdla'' @ [DQ] @ '')'',
     ''        elif idx == 2:'',
     ''            append(server_log, server.after + '' @ [DQ, BS] @ ''n'' @ [DQ] @ '')'',
     ''            break'',
     ''        else:'',
     ''            append(server_log, '' @ [DQ, BS] @ ''nserver did not become ready'' @ [BS] @ ''n'' @ [DQ] @ '')'',
     ''            sys.exit(2)'',
     [],
     ''    client_cmd = ['',
     ''        '' @ [DQ] @ ''python'' @ [DQ] @ '','',
     ''        '' @ [DQ] @ ''/repo/.work/nvdla-sw-patched/regression/scripts/dla_client.py'' @ [DQ] @ '','',
     ''        '' @ [DQ] @ ''-i'' @ [DQ] @ '','',
     ''        '' @ repr_string loadable @ '','',
     ''        '' @ [DQ] @ ''-o'' @ [DQ] @ '','',
     ''        runtime_output,'',
     ''        '' @ [DQ] @ ''-p'' @ [DQ] @ '','',
     ''        '' @ repr_string (show_int host_port) @ '','',
     ''        '' @ [DQ] @ ''-d'' @ [DQ] @ '','',
     ''    ]'',
     ''    append(client_log, '' @ [DQ] @ '' '' @ [DQ] @ ''.join(client_cmd) + '' @ [DQ, BS] @ ''n'' @ [DQ] @ '')'',
     ''    client = subprocess.Popen(client_cmd, stdout=subprocess.PIPE, stderr=subprocess.STDOUT)'',
     ''    client_deadline = time.time() + '' @ show_int (max 30 (timeout - 20)),
     ''    while client.poll() is None:'',
     ''        try:'',
     ''            chunk = server.read_nonblocking(size=4096, timeout=0.1)'',
     ''            if chunk:'',
     ''                append(server_log, chunk)'',
     ''        except pexpect.TIMEOUT:'',
     ''            pass'',
     ''        except pexpect.EOF:'',
     ''            break'',
     ''        if time.time() > client_deadline:'',
     ''            append(client_log, '' @ [DQ, BS] @ ''nclient timed out waiting for upstream dla_client.py'' @ [BS] @ ''n'' @ [DQ] @ '')'',
     ''            try:'',
     ''                client.kill()'',
     ''            except Exception:'',
     ''                pass'',
     ''            stdout, _ = client.communicate()'',
     ''            if stdout:'',
     ''                append(client_log, stdout)'',
     ''            sys.exit(124)'',
     ''        time.sleep(0.1)'',
     [],
     ''    stdout, _ = client.communicate()'',
     ''    if stdout:'',
     ''        append(client_log, stdout)'',
     [],
     ''    for _ in range(20):'',
     ''        try:'',
     ''            chunk = server.read_nonblocking(size=4096, timeout=0.1)'',
     ''            if chunk:'',
     ''                append(server_log, chunk)'',
     ''        except pexpect.TIMEOUT:'',
     ''            break'',
     ''        except pexpect.EOF:'',
     ''            break'',
     [],
     ''    sys.exit(client.returncode)'',
     ''finally:'',
     ''    try:'',
     ''        server.close(force=True)'',
     ''    except Exception:'',
     ''        pass'']"

definition stock_lua :: "int \<Rightarrow> string list" where
  "stock_lua host_port = [
     ''CPU = {'',
     ''    library = '' @ [DQ] @ ''libqbox-nvdla.so'' @ [DQ] @ '','',
     ''    extra_arguments = '' @ [SQ] @ ''-machine virt -cpu cortex-a57 -machine type=virt -nographic -smp 1 -m 1024 -kernel /usr/local/nvdla/Image --append '' @ [DQ] @ ''root=/dev/vda'' @ [DQ] @ '' -drive file=/usr/local/nvdla/rootfs.ext4,if=none,format=raw,id=hd0 -device virtio-blk-device,drive=hd0 -fsdev local,id=r,path=/usr/local/nvdla,security_model=none -device virtio-9p-device,fsdev=r,mount_tag=r -netdev user,id=user0,hostfwd=tcp::'' @ show_int host_port @ ''-:6666,hostfwd=tcp::6667-:22 -device virtio-net-device,netdev=user0'' @ [SQ],
     ''}'',
     [],
     ''ram = {'',
     ''    size = 1048576,'',
     ''    target_port = {'',
     ''        base_addr = 0xc0000000,'',
     ''        high_addr = 0xffffffff'',
     ''    }'',
     ''}'',
     [],
     ''nvdla = {'',
     ''    irq_number = 176,'',
     ''    csb_port = {'',
     ''        base_addr = 0x10200000,'',
     ''        high_addr = 0x1021ffff'',
     ''    }'',
     ''}'']"


text \<open>The loadable as the container sees it: below \<open>/repo\<close> when it lies in the repository.\<close>

definition loadable_in_container :: "path \<Rightarrow> path \<Rightarrow> string" where
  "loadable_in_container root' loadable = (if prefix root' loadable then join ''/'' (''/repo'' # drop (length root') loadable) else path_str loadable)"

definition write_ssh_client_control :: "path \<Rightarrow> path \<Rightarrow> int \<Rightarrow> path \<Rightarrow> int \<Rightarrow> fs \<Rightarrow> path \<times> fs" where
  "write_ssh_client_control root' out_dir host_port loadable timeout fs =
     (let script = out_dir @ [''stock-ssh-client-control.py''] in
      (script, write_file script (lines_of (ssh_client_control (loadable_in_container root' loadable) host_port timeout)) fs))"

subsection \<open>The workload and its output\<close>

record stock_workload =
  sw_manifest_path :: path
  sw_loadable :: path
  sw_golden :: path

definition first_output :: "json \<Rightarrow> json res" where
  "first_output v = (case v of JList [] \<Rightarrow> Inl IndexError | JList (x # _) \<Rightarrow> Inr x | JDict _ \<Rightarrow> Inl (KeyError ''0'')
     | JStr (c # _) \<Rightarrow> Inr (JStr [c]) | JStr [] \<Rightarrow> Inl IndexError | _ \<Rightarrow> Inl TypeError)"

definition workload_paths :: "fs \<Rightarrow> path \<Rightarrow> string \<Rightarrow> stock_workload res" where
  "workload_paths fs workloads_dir name =
     (let dir = path_div workloads_dir name; manifest_path = dir @ [''generated-manifest.json''] in
      bindE (guardE (is_file fs manifest_path) (FileNotFoundError (''missing workload manifest: '' @ path_str manifest_path @ ''; run make workloads''))) (\<lambda>_.
      bindE (read_json fs manifest_path) (\<lambda>manifest.
      bindE (bindE (jpath manifest [''loadable'', ''path'']) (path_at dir)) (\<lambda>loadable.
      bindE (bindE (bindE (bindE (jat manifest ''golden_outputs'') first_output) (\<lambda>o'. jat o' ''path'')) (path_at dir)) (\<lambda>golden.
      bindE (guardE (is_file fs loadable) (FileNotFoundError (''missing workload loadable: '' @ path_str loadable))) (\<lambda>_.
      bindE (guardE (is_file fs golden) (FileNotFoundError (''missing workload golden: '' @ path_str golden))) (\<lambda>_.
      Inr \<lparr>sw_manifest_path = manifest_path, sw_loadable = loadable, sw_golden = golden\<rparr>)))))))"

definition HEADER_BYTES :: nat where
  "HEADER_BYTES = 40"

definition nonzero_bytes :: "string \<Rightarrow> nat" where
  "nonzero_bytes s = filter_count (\<lambda>c. code c \<noteq> 0) s"

record stock_dimg =
  dg_size :: nat
  dg_nonzero :: nat
  dg_payload_nonzero :: nat
  dg_all_zero :: bool

definition stock_dimg_payload :: "fs \<Rightarrow> path \<Rightarrow> stock_dimg option" where
  "stock_dimg_payload fs p = (case dict_get fs p of None \<Rightarrow> None
     | Some d \<Rightarrow> (let payload = drop (min HEADER_BYTES (length d)) d in
         Some \<lparr>dg_size = length d, dg_nonzero = nonzero_bytes d, dg_payload_nonzero = nonzero_bytes payload,
           dg_all_zero = list_all (\<lambda>c. code c = 0) payload\<rparr>))"

definition stock_dimg_json :: "path \<Rightarrow> stock_dimg option \<Rightarrow> json" where
  "stock_dimg_json p s = (case s of None \<Rightarrow> JDict [(''path'', JStr (path_str p)), (''exists'', JBool False)]
     | Some d \<Rightarrow> JDict [(''path'', JStr (path_str p)), (''exists'', JBool True), (''size_bytes'', JInt (int (dg_size d))),
         (''header_bytes'', JInt (int HEADER_BYTES)), (''nonzero_bytes'', JInt (int (dg_nonzero d))),
         (''payload_nonzero_bytes'', JInt (int (dg_payload_nonzero d))), (''payload_is_all_zero'', JBool (dg_all_zero d))])"

subsection \<open>The session\<close>

definition setup_command :: string where
  "setup_command = ''mkdir -p /mnt; ''
     @ ''mount -t 9p -o trans=virtio r /mnt; ''
     @ ''echo __NVDLA_SECTION_module_load_BEGIN__; ''
     @ ''insmod /mnt/drm.ko; ''
     @ ''echo __NVDLA_STATUS_drm_load=$?; ''
     @ ''insmod /mnt/opendla_1.ko; ''
     @ ''echo __NVDLA_STATUS_module_load=$?; ''
     @ ''echo __NVDLA_SECTION_module_load_END__; ''
     @ ''echo __NVDLA_SECTION_dev_dri_BEGIN__; ''
     @ ''ls -l /dev/dri; ''
     @ ''echo __NVDLA_SECTION_dev_dri_END__; ''
     @ ''if [ -f /etc/ssh/sshd_config ]; ''
     @ ''then sed -i '' @ [SQ] @ ''s/^#*PermitRootLogin.*/PermitRootLogin yes/'' @ [SQ] @ '' /etc/ssh/sshd_config; ''
     @ ''sed -i '' @ [SQ] @ ''s/^#*PasswordAuthentication.*/PasswordAuthentication yes/'' @ [SQ] @ '' /etc/ssh/sshd_config; ''
     @ ''grep -q '' @ [SQ] @ ''^PermitRootLogin yes'' @ [SQ] @ '' /etc/ssh/sshd_config || echo '' @ [SQ] @ ''PermitRootLogin yes'' @ [SQ] @ '' >> /etc/ssh/sshd_config; ''
     @ ''grep -q '' @ [SQ] @ ''^PasswordAuthentication yes'' @ [SQ] @ '' /etc/ssh/sshd_config || echo '' @ [SQ] @ ''PasswordAuthentication yes'' @ [SQ] @ '' >> /etc/ssh/sshd_config; ''
     @ ''fi; ''
     @ ''mkdir -p /var/run/sshd; ''
     @ ''if [ -x /etc/init.d/S50sshd ]; ''
     @ ''then /etc/init.d/S50sshd restart; ''
     @ ''elif [ -x /etc/init.d/sshd ]; ''
     @ ''then /etc/init.d/sshd restart; ''
     @ ''elif command -v sshd >/dev/null 2>&1; ''
     @ ''then sshd; ''
     @ ''else false; ''
     @ ''fi; ''
     @ ''echo __NVDLA_STATUS_sshd_start=$?''"

definition teardown_command :: string where
  "teardown_command = ''echo __NVDLA_SECTION_runtime_server_BEGIN__; ''
     @ ''if [ -f /tmp/runtime-server.log ]; ''
     @ ''then cat /tmp/runtime-server.log; ''
     @ ''fi; ''
     @ ''echo __NVDLA_SECTION_runtime_server_END__; ''
     @ ''echo __NVDLA_SECTION_dmesg_BEGIN__; ''
     @ ''dmesg | tail -n 200; ''
     @ ''echo __NVDLA_SECTION_dmesg_END__; ''
     @ ''echo __NVDLA_SCRIPT_EXIT__=0; ''
     @ ''poweroff -f''"

datatype client_run = ClientDone int string | ClientTimeout string

text \<open>The polls until the login prompt, after the user name, after the password, after the setup command and
  after the teardown command; what is left in the queue; and what the client command gave.\<close>

record stock_session =
  st_login :: "poll list"
  st_user :: "poll list"
  st_password :: "poll list"
  st_setup :: "poll list"
  st_teardown :: "poll list"
  st_queue :: "string list"
  st_client :: client_run

definition at_login :: "string \<Rightarrow> bool" where
  "at_login txt = contains ''login:'' txt"

definition shell_or_password :: "string \<Rightarrow> bool" where
  "shell_or_password txt = (ends_hash txt \<or> contains ''Password:'' txt)"

definition sshd_started :: "string \<Rightarrow> bool" where
  "sshd_started txt = contains ''__NVDLA_STATUS_sshd_start='' txt"

definition guest_done :: "string \<Rightarrow> bool" where
  "guest_done txt = contains ''__NVDLA_SCRIPT_EXIT__=0'' txt"

record stock_serial =
  sl_login_seen :: bool
  sl_shell_seen :: bool
  sl_typed :: "string list"
  sl_log :: string

text \<open>The login: what is seen and typed until the shell, and the console so far.\<close>

definition stock_login :: "stock_session \<Rightarrow> stock_serial" where
  "stock_login s =
     (let (login_seen, out) = drain_until (Some at_login) (st_login s) [] in
      if \<not> login_seen then \<lparr>sl_login_seen = False, sl_shell_seen = False, sl_typed = [], sl_log = out\<rparr>
      else let (seen, out1) = drain_until (Some shell_or_password) (st_user s) out in
        if contains ''Password:'' out1 \<and> \<not> ends_hash out1 then
          (let (seen', out2) = drain_until (Some ends_hash) (st_password s) out1 in
           \<lparr>sl_login_seen = True, sl_shell_seen = seen', sl_typed = [''root'' @ [CR], ''nvdla'' @ [CR]], sl_log = out2\<rparr>)
        else \<lparr>sl_login_seen = True, sl_shell_seen = seen, sl_typed = [''root'' @ [CR]], sl_log = out1\<rparr>)"

definition run_stock_serial :: "stock_session \<Rightarrow> stock_serial" where
  "run_stock_serial s =
     (let r = stock_login s in
      if \<not> sl_shell_seen r then r\<lparr>sl_log := sl_log r @ concat (st_queue s)\<rparr>
      else let out = snd (drain_until (Some sshd_started) (st_setup s) (sl_log r));
               out1 = snd (drain_until (Some guest_done) (st_teardown s) out) in
        r\<lparr>sl_typed := sl_typed r @ [setup_command @ [CR], teardown_command @ [CR]], sl_log := out1 @ concat (st_queue s)\<rparr>)"

definition client_outcome :: "int \<Rightarrow> client_run \<Rightarrow> int \<times> string" where
  "client_outcome timeout c = (case c of
       ClientDone status out \<Rightarrow> (status, out)
     | ClientTimeout out \<Rightarrow> (124, ''docker exec stock SSH client control timed out after '' @ show_int (timeout + 30) @ '' seconds'' @ [NL] @ out))"

text \<open>The log of the client: what its control script wrote, then what the command printed and the logger's file.\<close>

definition client_log :: "path \<Rightarrow> string \<Rightarrow> fs \<Rightarrow> fs" where
  "client_log out_dir out fs =
     (let logger = (case dict_get fs (out_dir @ [''runtime-output'', ''DLAClientLogger.log'']) of None \<Rightarrow> []
            | Some c \<Rightarrow> [NL] @ ''--- DLAClientLogger.log ---'' @ [NL] @ universal_newlines c);
          txt = out @ logger; p = out_dir @ [''runtime-client.log''] in
      if txt \<noteq> [] \<or> \<not> is_file fs p then write_file p ((case dict_get fs p of None \<Rightarrow> [] | Some c \<Rightarrow> universal_newlines c) @ txt) fs else fs)"

definition STOCK_LOGS :: "(string \<times> string) list" where
  "STOCK_LOGS = [(''module_load'', ''module-load.log''), (''dev_dri'', ''dev-dri.txt''), (''runtime_server'', ''runtime-server.log''),
     (''runtime_server_serial'', ''runtime-server-serial.log''), (''dmesg'', ''dmesg.log''), (''runtime_client'', ''runtime-client.log'')]"

definition write_stock_logs :: "path \<Rightarrow> string \<Rightarrow> fs \<Rightarrow> fs" where
  "write_stock_logs out_dir serial fs =
     (let fs1 = write_file (out_dir @ [''dev-dri.txt'']) (extract_section serial ''dev_dri'')
            (write_file (out_dir @ [''module-load.log'']) (extract_section serial ''module_load'') (write_file (out_dir @ [''serial.log'']) serial fs));
          server = out_dir @ [''runtime-server.log'']; section' = extract_section serial ''runtime_server'';
          serial_log = write_file (out_dir @ [''runtime-server-serial.log'']);
          fs2 = (if is_file fs1 server then serial_log section' fs1
            else if strip section' \<noteq> [] then serial_log section' (write_file server section' fs1)
            else serial_log [] (write_file server [] fs1)) in
      write_file (out_dir @ [''dmesg.log'']) (extract_section serial ''dmesg'') fs2)"

subsection \<open>The verdict\<close>

record stock_evidence =
  se_serial :: stock_serial
  se_drm_load :: "int option"
  se_module_load :: "int option"
  se_sshd_start :: "int option"
  se_client :: int
  se_compare :: comparison
  se_bad :: "string list"
  se_output :: "stock_dimg option"

definition stock_status :: "stock_evidence \<Rightarrow> string" where
  "stock_status e = (if sl_shell_seen (se_serial e) \<and> se_sshd_start e = Some 0 \<and> se_client e = 0 \<and> cm_status (se_compare e) = ''pass'' \<and> se_bad e = []
     then ''pass'' else ''fail'')"

definition ZERO_OUTPUT :: string where
  "ZERO_OUTPUT = ''runtime_pass_zero_output_golden_mismatch''"

definition stock_classification :: "stock_evidence \<Rightarrow> string option" where
  "stock_classification e =
     (if stock_status e = ''pass'' then Some ''pass''
      else if se_drm_load e = Some 0 \<and> se_module_load e = Some 0 \<and> se_sshd_start e = Some 0 \<and> se_client e = 0 \<and>
        cm_status (se_compare e) = ''fail'' \<and> cm_reason (se_compare e) = Some ''files differ'' \<and>
        (case se_output e of None \<Rightarrow> False | Some d \<Rightarrow> dg_all_zero d) \<and> se_bad e = [] then Some ZERO_OUTPUT
      else None)"

definition stock_reason :: "stock_evidence \<Rightarrow> string option" where
  "stock_reason e =
     (if stock_classification e = Some ZERO_OUTPUT
      then Some ''stock runtime reported pass and returned a zero-payload output that differs from the selected golden''
      else if stock_status e = ''pass'' then None else Some ''stock SDP control did not satisfy all pass criteria'')"

definition stock_output :: "path \<Rightarrow> path" where
  "stock_output out_dir = out_dir @ [''runtime-output'', ''results'', ''o_000000.dimg'']"

definition stock_evidence :: "env \<Rightarrow> stock_workload \<Rightarrow> stock_serial \<Rightarrow> int \<Rightarrow> path \<Rightarrow> fs \<Rightarrow> stock_evidence" where
  "stock_evidence e w serial client_status out_dir fs =
     (let txt = sl_log serial in
      \<lparr>se_serial = serial, se_drm_load = extract_status txt ''drm_load'', se_module_load = extract_status txt ''module_load'',
       se_sshd_start = extract_status txt ''sshd_start'', se_client = client_status,
       se_compare = compare_exact_files (env_sha e) fs (sw_golden w) (stock_output out_dir),
       se_bad = sort (remdups (bad_patterns txt @ bad_patterns (extract_section txt ''dmesg''))), se_output = stock_dimg_payload fs (stock_output out_dir)\<rparr>)"

definition opt_int :: "int option \<Rightarrow> json" where
  "opt_int v = (case v of None \<Rightarrow> JNull | Some i \<Rightarrow> JInt i)"

definition container_name :: "string \<Rightarrow> string" where
  "container_name run_id = map (\<lambda>c. if (is_alpha c \<or> is_dec c \<or> c \<in> set ''_.-'') then c else CHR ''-'') run_id"

definition stock_command :: "path \<Rightarrow> path \<Rightarrow> string \<Rightarrow> string \<Rightarrow> string list" where
  "stock_command root' out_dir run_id img = [''docker'', ''run'', ''--rm'', ''-i'', ''--name'', container_name run_id, ''-e'', ''SC_SIGNAL_WRITE_CHECK=DISABLE'',
     ''-v'', path_str out_dir @ '':/vp-run'', ''-v'', path_str root' @ '':/repo:ro'', img, ''bash'', ''-lc'',
     ''cd /usr/local/nvdla && aarch64_toplevel -c /vp-run/stock-control.lua'']"

definition stock_manifest ::
    "env \<Rightarrow> string \<Rightarrow> json \<Rightarrow> string option \<Rightarrow> string list \<Rightarrow> int \<Rightarrow> path \<Rightarrow> string \<Rightarrow> stock_workload \<Rightarrow> stock_evidence \<Rightarrow> path \<Rightarrow> fs \<Rightarrow> json res" where
  "stock_manifest e run_id img image_id command host_port script workload_name w ev out_dir fs =
     bindE (sha_file e fs (sw_loadable w)) (\<lambda>lh. bindE (sha_file e fs (sw_golden w)) (\<lambda>gh.
     Inr (JDict [(''schema_version'', JInt 1), (''run_id'', JStr run_id), (''lane'', JStr ''vp-stock''), (''mode'', JStr ''sdp_runtime_control''),
       (''status'', JStr (stock_status ev)), (''classification'', jopt (stock_classification ev)), (''reason'', jopt (stock_reason ev)),
       (''docker'', JDict [(''image'', img), (''image_id'', jopt image_id), (''command'', JList (map JStr command)), (''host_port'', JInt host_port),
          (''lua'', JStr ''stock-control.lua''), (''client_location'', JStr ''docker exec upstream client, server via guest SSH''),
          (''ssh_client_control'', JStr (path_name script))]),
       (''workload'', JDict [(''name'', JStr workload_name), (''manifest'', JStr (path_str (sw_manifest_path w))), (''loadable_sha256'', JStr lh),
          (''golden_sha256'', JStr gh), (''output_sha256'', case dict_get fs (stock_output out_dir) of None \<Rightarrow> JNull | Some c \<Rightarrow> JStr (upper (env_sha e c))),
          (''compare'', comparison_json (sw_golden w) (stock_output out_dir) (se_compare ev)), (''output_summary'', stock_dimg_json (stock_output out_dir) (se_output ev))]),
       (''stock'', JDict [(''kernel'', JStr ''stock image /usr/local/nvdla/Image''), (''rootfs'', JStr ''stock image /usr/local/nvdla/rootfs.ext4''),
          (''kmd'', JStr ''stock image /usr/local/nvdla/opendla_1.ko''), (''runtime'', JStr ''stock image /usr/local/nvdla/nvdla_runtime'')]),
       (''statuses'', JDict [(''drm_load'', opt_int (se_drm_load ev)), (''module_load'', opt_int (se_module_load ev)),
          (''sshd_start'', opt_int (se_sshd_start ev)), (''client'', JInt (se_client ev))]),
       (''bad_patterns'', JList (map JStr (se_bad ev))), (''logs'', JDict (map (\<lambda>(k, f). (k, JStr f)) STOCK_LOGS)), (''serial_log'', JStr ''serial.log''),
       (''login_seen'', JBool (sl_login_seen (se_serial ev))), (''shell_seen'', JBool (sl_shell_seen (se_serial ev)))])))"

text \<open>The run: \<open>session\<close> starts the platform in its container and drives client and guest; it is \<open>None\<close> when a
  command cannot start.\<close>

definition stock_run ::
    "build_env \<Rightarrow> (string list \<Rightarrow> fs \<Rightarrow> (stock_session \<times> fs) option) \<Rightarrow> stock_workload \<Rightarrow> int \<Rightarrow> path \<Rightarrow> string list \<Rightarrow> fs \<Rightarrow> (stock_evidence \<times> fs) res" where
  "stock_run b session w timeout out_dir command fs =
     bindE (noneE OSError (session command fs)) (\<lambda>(s, fs1).
     let serial = run_stock_serial s;
         (client_status, out) = (if sl_shell_seen serial then client_outcome timeout (st_client s) else (125, []));
         fs2 = (if sl_shell_seen serial then client_log out_dir out fs1 else fs1);
         fs3 = write_stock_logs out_dir (sl_log serial) fs2;
         ev = stock_evidence (env.truncate b) w serial client_status out_dir fs3 in
     Inr (ev, write_json (env.truncate b) (out_dir @ [''runtime-output-compare.json'']) (comparison_json (sw_golden w) (stock_output out_dir) (se_compare ev)) fs3))"

definition image_id_of :: "int \<times> string \<Rightarrow> string option" where
  "image_id_of = (\<lambda>(status, out). if status = 0 then Some (strip out) else None)"

definition run_stock_sdp_control ::
    "build_env \<Rightarrow> (string list \<Rightarrow> fs \<Rightarrow> (stock_session \<times> fs) option) \<Rightarrow> string \<Rightarrow> path \<Rightarrow> path \<Rightarrow> path \<Rightarrow> int \<Rightarrow> int \<Rightarrow> string \<Rightarrow> fs \<Rightarrow> (int \<times> fs) res" where
  "run_stock_sdp_control b session run_id lock_path artifacts workloads_dir timeout host_port workload_name fs =
     bindE (read_json fs lock_path) (\<lambda>lock. bindE (jpath lock [''docker'', ''vp_latest'', ''image'']) (\<lambda>img. bindE (jstr img) (\<lambda>img_name.
     bindE (workload_paths fs workloads_dir workload_name) (\<lambda>w.
     let out_dir = artifacts @ [run_id]; root' = bd_root b;
         (script, fs1) = write_ssh_client_control root' out_dir host_port (sw_loadable w) timeout fs;
         fs2 = write_file (out_dir @ [''stock-control.lua'']) (lines_of (stock_lua host_port)) fs1 in
     bindE (noneE OSError (bd_run b [''docker'', ''image'', ''inspect'', img_name, ''--format'', ''{{.Id}}''] fs2)) (\<lambda>(is, io, _).
     let command = stock_command root' out_dir run_id img_name in
     bindE (stock_run b session w timeout out_dir command fs2) (\<lambda>(ev, fs3).
     bindE (stock_manifest (env.truncate b) run_id img (image_id_of (is, io)) command host_port script workload_name w ev out_dir fs3) (\<lambda>manifest.
     Inr (if stock_status ev = ''pass'' then 0 else 1, write_json (env.truncate b) (out_dir @ [''manifest.json'']) manifest fs3))))))))"

subsection \<open>Facts\<close>

lemma compare_fails_differ:
  "cm_reason (compare_exact_files sha fs p q) = Some ''files differ'' \<Longrightarrow> is_file fs p \<and> is_file fs q \<and> read_text fs p \<noteq> read_text fs q"
  by (auto simp: compare_exact_files_def Let_def is_file_def read_text_def first_mismatch_spec noneE_def split: option.splits if_splits)

lemma compare_same: "is_file fs p \<Longrightarrow> read_text fs p = read_text fs q \<Longrightarrow> cm_status (compare_exact_files sha fs p q) = ''pass''"
  by (auto simp: compare_exact_files_def Let_def is_file_def read_text_def first_mismatch_spec noneE_def split: option.splits if_splits)

lemma other_files:
  "\<not> prefix d q \<Longrightarrow> read_text (write_stock_logs d txt fs) q = read_text fs q"
  "\<not> prefix d q \<Longrightarrow> read_text (client_log d out fs) q = read_text fs q"
  by (auto simp: write_stock_logs_def client_log_def Let_def prefix_def)

lemma output_kept:
  "read_text (write_stock_logs d txt fs) (stock_output d) = read_text fs (stock_output d)"
  "read_text (client_log d out fs) (stock_output d) = read_text fs (stock_output d)"
  by (simp_all add: write_stock_logs_def client_log_def Let_def stock_output_def)

lemma is_file_eq: "read_text fs p = read_text fs' p \<Longrightarrow> is_file fs p = is_file fs' p"
  by (simp add: is_file_read)

lemma stock_status_fail: "stock_status e \<noteq> ''pass'' \<Longrightarrow> stock_status e = ''fail''"
  by (auto simp: stock_status_def split: if_splits)

text \<open>C37: a stock run passes exactly when the shell was reached, the guest reported that its SSH server started, the
  client returned 0, the output the session left equals the golden file, and no bad kernel message is in
  the log; a run classified as a zero output is a failed run whose output differs from the golden file.\<close>

theorem stock_verdict:
  assumes "\<not> prefix out_dir (sw_golden w)"
  shows "case stock_run b session w timeout out_dir command fs of
      Inl e \<Rightarrow> session command fs = None
    | Inr (ev, fs') \<Rightarrow> (case session command fs of None \<Rightarrow> False | Some (s, fs1) \<Rightarrow>
        (stock_status ev = ''pass'' \<longleftrightarrow> sl_shell_seen (run_stock_serial s) \<and> extract_status (sl_log (run_stock_serial s)) ''sshd_start'' = Some 0 \<and>
           fst (client_outcome timeout (st_client s)) = 0 \<and> is_file fs1 (sw_golden w) \<and> read_text fs1 (sw_golden w) = read_text fs1 (stock_output out_dir) \<and>
           bad_patterns (sl_log (run_stock_serial s)) = [] \<and> bad_patterns (extract_section (sl_log (run_stock_serial s)) ''dmesg'') = []) \<and>
        (stock_classification ev = Some ZERO_OUTPUT \<longrightarrow> stock_status ev = ''fail'' \<and> read_text fs1 (sw_golden w) \<noteq> read_text fs1 (stock_output out_dir)))"
proof (cases "session command fs")
  case (Some r)
  obtain s fs1 where r: "r = (s, fs1)" by (cases r)
  let ?serial = "run_stock_serial s"
  obtain status out where c: "(if sl_shell_seen ?serial then client_outcome timeout (st_client s) else (125, [])) = (status, out)" by fastforce
  define fs2 where "fs2 = (if sl_shell_seen ?serial then client_log out_dir out fs1 else fs1)"
  define fs3 where "fs3 = write_stock_logs out_dir (sl_log ?serial) fs2"
  define ev where "ev = stock_evidence (env.truncate b) w ?serial status out_dir fs3"
  have run: "stock_run b session w timeout out_dir command fs =
      Inr (ev, write_json (env.truncate b) (out_dir @ [''runtime-output-compare.json'']) (comparison_json (sw_golden w) (stock_output out_dir) (se_compare ev)) fs3)"
    by (simp only: stock_run_def Some r noneE_simps bindE.simps prod.case Let_def c fs2_def [symmetric] fs3_def [symmetric] ev_def [symmetric])
  have golden: "read_text fs3 (sw_golden w) = read_text fs1 (sw_golden w)" using assms by (simp add: fs3_def fs2_def other_files)
  have outp: "read_text fs3 (stock_output out_dir) = read_text fs1 (stock_output out_dir)" by (simp add: fs3_def fs2_def output_kept)
  have cmp: "cm_status (se_compare ev) = ''pass'' \<longleftrightarrow> is_file fs1 (sw_golden w) \<and> read_text fs1 (sw_golden w) = read_text fs1 (stock_output out_dir)"
    using compare_pass [of "env_sha (env.truncate b)" fs3 "sw_golden w" "stock_output out_dir"] compare_same [of fs3 "sw_golden w" "stock_output out_dir"]
    by (auto simp: ev_def stock_evidence_def Let_def golden outp is_file_eq [OF golden])
  have client: "sl_shell_seen ?serial \<Longrightarrow> status = fst (client_outcome timeout (st_client s))" using c by simp
  have parts: "se_serial ev = ?serial" "se_sshd_start ev = extract_status (sl_log ?serial) ''sshd_start''" "se_client ev = status"
    "se_bad ev = [] \<longleftrightarrow> bad_patterns (sl_log ?serial) = [] \<and> bad_patterns (extract_section (sl_log ?serial) ''dmesg'') = []"
    by (simp_all add: ev_def stock_evidence_def Let_def bad_sorted_empty)
  have pass: "stock_status ev = ''pass'' \<longleftrightarrow> sl_shell_seen ?serial \<and> extract_status (sl_log ?serial) ''sshd_start'' = Some 0 \<and>
      fst (client_outcome timeout (st_client s)) = 0 \<and> is_file fs1 (sw_golden w) \<and> read_text fs1 (sw_golden w) = read_text fs1 (stock_output out_dir) \<and>
      bad_patterns (sl_log ?serial) = [] \<and> bad_patterns (extract_section (sl_log ?serial) ''dmesg'') = []"
    using client by (auto simp: stock_status_def parts cmp)
  have zero: "stock_status ev = ''fail'' \<and> read_text fs1 (sw_golden w) \<noteq> read_text fs1 (stock_output out_dir)" if "stock_classification ev = Some ZERO_OUTPUT"
  proof -
    from that have "stock_status ev \<noteq> ''pass''" and "cm_reason (se_compare ev) = Some ''files differ''"
      by (auto simp: stock_classification_def ZERO_OUTPUT_def split: if_splits)
    then have "is_file fs3 (sw_golden w) \<and> is_file fs3 (stock_output out_dir) \<and> read_text fs3 (sw_golden w) \<noteq> read_text fs3 (stock_output out_dir)"
      by (intro compare_fails_differ) (simp add: ev_def stock_evidence_def Let_def)
    with \<open>stock_status ev \<noteq> ''pass''\<close> show ?thesis using stock_status_fail by (simp add: golden outp)
  qed
  show ?thesis unfolding run Some r sum.case prod.case option.case using pass zero by blast
qed (simp add: stock_run_def)

text \<open>A stock run that passes.\<close>

definition wit_session :: stock_session where
  "wit_session = \<lparr>st_login = chars_of ''login:'', st_user = chars_of ''#'', st_password = [], st_setup = chars_of ''__NVDLA_STATUS_sshd_start='',
     st_teardown = [], st_queue = [''0 ''], st_client = ClientDone 0 []\<rparr>"

definition wit_build :: build_env where
  "wit_build = \<lparr>env_sha = id, env_float = (\<lambda>_. []), env_pillow = None, env_jpeg = id, env_targz = (\<lambda>ms. concat (map snd ms)), env_now = [],
     bd_sha1 = id, bd_url = (\<lambda>_. None), bd_run = (\<lambda>_ _. None), bd_wsl = False, bd_root = [], bd_image_size = (\<lambda>_. None),
     bd_render = (\<lambda>_ _ _ _ _ _. []), bd_opencv = None, bd_forward = (\<lambda>_ _ _. None), bd_argsort = (\<lambda>_. [])\<rparr>"

lemma wit_serial: "sl_shell_seen (run_stock_serial wit_session) \<and> extract_status (sl_log (run_stock_serial wit_session)) ''sshd_start'' = Some 0 \<and>
    bad_patterns (sl_log (run_stock_serial wit_session)) = [] \<and> bad_patterns (extract_section (sl_log (run_stock_serial wit_session)) ''dmesg'') = []"
  by code_simp

lemma stock_verdict_witness:
  "\<exists>ev fs'. stock_run wit_build (\<lambda>_ fs. Some (wit_session, write_file (stock_output [''run'']) ''x'' fs))
     \<lparr>sw_manifest_path = [''m''], sw_loadable = [''l''], sw_golden = [''g'']\<rparr> 60 [''run''] [] [([''g''], ''x'')] = Inr (ev, fs') \<and> stock_status ev = ''pass''"
proof -
  let ?w = "\<lparr>sw_manifest_path = [''m''], sw_loadable = [''l''], sw_golden = [''g'']\<rparr>"
  let ?session = "\<lambda>_ fs. Some (wit_session, write_file (stock_output [''run'']) ''x'' fs)"
  have "\<not> prefix [''run''] (sw_golden ?w)" by simp
  note v = stock_verdict [OF this, where b = wit_build and session = ?session and timeout = 60 and command = "[]" and fs = "[([''g''], ''x'')]"]
  obtain ev fs' where r: "stock_run wit_build ?session ?w 60 [''run''] [] [([''g''], ''x'')] = Inr (ev, fs')"
    by (cases "stock_run wit_build ?session ?w 60 [''run''] [] [([''g''], ''x'')]") (use v in auto)
  have files: "is_file (write_file (stock_output [''run'']) ''x'' [([''g''], ''x'')]) [''g''] \<and>
      read_text (write_file (stock_output [''run'']) ''x'' [([''g''], ''x'')]) [''g''] = read_text (write_file (stock_output [''run'']) ''x'' [([''g''], ''x'')]) (stock_output [''run''])"
    by code_simp
  have client: "fst (client_outcome 60 (st_client wit_session)) = 0" by code_simp
  from v files client wit_serial have "stock_status ev = ''pass''" unfolding r by simp
  with r show ?thesis by blast
qed

subsection \<open>The echo of the typed commands\<close>

lemma crlf_before: "c \<noteq> NL \<Longrightarrow> crlf_to_lf (p @ c # s) = crlf_to_lf p @ crlf_to_lf (c # s)"
proof (induction p rule: crlf_to_lf.induct)
  case (2 d)
  then show ?case by (cases s) auto
qed auto

lemma crlf_plain: "CR \<notin> set x \<Longrightarrow> crlf_to_lf (x @ r) = x @ crlf_to_lf r"
proof (induction x)
  case (Cons c x)
  show ?case
  proof (cases "x @ r")
    case Nil
    then show ?thesis by simp
  next
    case (Cons d y)
    then have "crlf_to_lf ((c # x) @ r) = c # crlf_to_lf (x @ r)" using Cons.prems by auto
    with Cons.IH Cons.prems show ?thesis by simp
  qed
qed simp

lemma prefix_take: "length p \<le> length x \<Longrightarrow> prefix p (x @ y) \<longleftrightarrow> prefix p x"
  by (auto simp: prefix_def append_eq_append_conv2)

text \<open>A marker that is not in the text before and does not hold the first character of what follows does not start in it.\<close>

lemma no_early_marker:
  assumes "\<not> contains p u" and "c \<notin> set p" and "p \<noteq> []" and "i < length u"
  shows "\<not> prefix p (drop i (u @ c # s))"
proof
  assume "prefix p (drop i (u @ c # s))"
  then have pre: "prefix p (drop i u @ c # s)" using assms(4) by simp
  show False
  proof (cases "length p \<le> length (drop i u)")
    case True
    with pre have "prefix p (drop i u)" by (simp only: prefix_take)
    then have "contains p u" unfolding contains_iff prefix_def by (metis append_take_drop_id)
    with assms(1) show ?thesis by simp
  next
    case False
    then have "\<not> prefix p (drop i u)" by (auto dest: prefix_length_le)
    with pre obtain us where us: "p = drop i u @ us" "prefix us (c # s)" unfolding prefix_append by blast
    with False have "us \<noteq> []" by auto
    with us have "c \<in> set p" by (cases us) auto
    with assms(2) show ?thesis by simp
  qed
qed

lemma echoed_section:
  assumes "\<not> contains ''__NVDLA_SECTION_'' (crlf_to_lf pre)" and cmd: "cmd = front @ section_begin name @ v @ section_end name @ after"
    and front: "front = c # front'" "c \<notin> set ''__NVDLA_SECTION_''" "c \<noteq> NL" and cr: "CR \<notin> set cmd"
    and begins: "\<forall>i<length front. \<not> prefix (section_begin name) (drop i cmd)"
    and v: "v \<noteq> []" "hd v \<noteq> NL" "last v \<noteq> NL" and ends: "\<forall>i<length v. \<not> prefix (section_end name) (drop i (v @ section_end name @ after))"
  shows "extract_section (pre @ cmd @ rest) name = strip v @ [NL]"
proof -
  let ?B = "section_begin name" and ?E = "section_end name"
  define w where "w = after @ crlf_to_lf rest"
  define u where "u = crlf_to_lf pre @ front"
  let ?s = "?B @ v @ ?E @ w"
  have "crlf_to_lf (pre @ cmd @ rest) = crlf_to_lf pre @ crlf_to_lf (cmd @ rest)"
    using crlf_before [OF front(3), of pre] by (simp add: cmd front(1))
  then have whole: "crlf_to_lf (pre @ cmd @ rest) = u @ ?s" using crlf_plain [OF cr, of rest] by (simp add: cmd u_def w_def)
  have B: "prefix ''__NVDLA_SECTION_'' ?B" by (simp add: section_begin_def)
  have skip: "rmatch (section_re name) (pr, drop i (u @ ?s), []) = []" if i: "i < length u" for pr i
  proof -
    have "\<not> prefix ?B (drop i (u @ ?s))"
    proof (cases "i < length (crlf_to_lf pre)")
      case True
      from no_early_marker [OF assms(1) front(2) list.distinct(2) True, of "front' @ ?s"]
      have "\<not> prefix ''__NVDLA_SECTION_'' (drop i (u @ ?s))" by (simp add: u_def front(1))
      with B show ?thesis using prefix_order.trans by blast
    next
      case False
      define j where "j = i - length (crlf_to_lf pre)"
      have j: "j < length front" "drop i (u @ ?s) = (drop j front @ ?B) @ v @ ?E @ w" using False i by (simp_all add: j_def u_def)
      have "drop j cmd = (drop j front @ ?B) @ v @ ?E @ after" using j(1) by (simp add: cmd)
      with begins j(1) have "\<not> prefix ?B (drop j front @ ?B)" by (metis prefix_prefix)
      moreover have "length ?B \<le> length (drop j front @ ?B)" by simp
      ultimately show ?thesis unfolding j(2) using prefix_take by blast
    qed
    then show ?thesis by (simp add: section_re_def rmatch_lit_no)
  qed
  have "\<not> prefix ?E (drop i (v @ ?E @ w))" if i: "i < length v" for i
  proof -
    have d: "drop i (v @ ?E @ w) = (drop i v @ ?E) @ w" using i by simp
    have "drop i (v @ ?E @ after) = (drop i v @ ?E) @ after" using i by simp
    with ends i have "\<not> prefix ?E (drop i v @ ?E)" by (metis prefix_prefix)
    moreover have "length ?E \<le> length (drop i v @ ?E)" by simp
    ultimately show ?thesis unfolding d using prefix_take by blast
  qed
  from section_match [where pr = "last_char None u" and w = w, OF v this] obtain pr' zs where
    "rmatch (section_re name) (last_char None u, ?s, []) = (pr', w, [(1, v)]) # zs" by blast
  from search_skip [OF skip this] have "search_from (section_re name) None (u @ ?s) = Some (pr', w, [(1, v)])" .
  then show ?thesis by (simp add: extract_section_def re_search_def whole group_def)
qed

text \<open>The text before the first occurrence of a marker, and the text after it.\<close>

fun cut_at :: "string \<Rightarrow> string \<Rightarrow> (string \<times> string) option" where
  "cut_at p [] = None"
| "cut_at p (c # s) = (if prefix p (c # s) then Some ([], drop (length p) (c # s)) else map_option (\<lambda>(a, r). (c # a, r)) (cut_at p s))"

lemma cut_at_first: "cut_at p s = Some (a, r) \<Longrightarrow> s = a @ p @ r \<and> (\<forall>i<length a. \<not> prefix p (drop i s))"
proof (induction s arbitrary: a)
  case (Cons c s)
  show ?case
  proof (cases "prefix p (c # s)")
    case True
    then have "p @ drop (length p) (c # s) = c # s" by (auto simp: prefix_def)
    with Cons.prems True show ?thesis by auto
  next
    case False
    with Cons.prems obtain b where b: "a = c # b" "cut_at p s = Some (b, r)" by auto
    have "\<not> prefix p (drop i (c # s))" if "i < length a" for i using that False Cons.IH [OF b(2)] b(1) by (cases i) auto
    with Cons.IH [OF b(2)] b(1) show ?thesis by simp
  qed
qed simp

definition echoes :: "string \<Rightarrow> string \<Rightarrow> string \<Rightarrow> bool" where
  "echoes cmd name w = (CR \<notin> set cmd \<and> (case cut_at (section_begin name) cmd of None \<Rightarrow> False
     | Some (front, r) \<Rightarrow> front \<noteq> [] \<and> hd front \<notin> set ''__NVDLA_SECTION_'' \<and> hd front \<noteq> NL \<and>
         (case cut_at (section_end name) r of None \<Rightarrow> False | Some (v, _) \<Rightarrow> v \<noteq> [] \<and> hd v \<noteq> NL \<and> last v \<noteq> NL \<and> strip v = w)))"

lemma echoes_section:
  assumes "\<not> contains ''__NVDLA_SECTION_'' (crlf_to_lf pre)" and "echoes cmd name w"
  shows "extract_section (pre @ cmd @ rest) name = w @ [NL]"
proof -
  from assms(2) obtain front r v after where cut: "cut_at (section_begin name) cmd = Some (front, r)" "cut_at (section_end name) r = Some (v, after)"
    by (auto simp: echoes_def split: option.splits)
  with assms(2) have e: "CR \<notin> set cmd" "front \<noteq> []" "hd front \<notin> set ''__NVDLA_SECTION_''" "hd front \<noteq> NL"
    and v: "v \<noteq> []" "hd v \<noteq> NL" "last v \<noteq> NL" "strip v = w" unfolding echoes_def by simp_all
  note c = cut_at_first [OF cut(1)] and d = cut_at_first [OF cut(2)]
  have cmd: "cmd = front @ section_begin name @ v @ section_end name @ after" using c d by simp
  have front: "front = hd front # tl front" using e(2) by simp
  have ends: "\<forall>i<length v. \<not> prefix (section_end name) (drop i (v @ section_end name @ after))" using d by metis
  from echoed_section [OF assms(1) cmd front e(3,4,1) conjunct2 [OF c] v(1-3) ends] v(4) show ?thesis by simp
qed

text \<open>C38: on a console that echoes what is typed, the section logs of a stock run hold the command that was typed
  between their markers and not what the guest printed: whatever follows the echo of the setup command, the
  log of the devices is the text of its \<open>ls\<close> command, and the log of the modules that of its \<open>insmod\<close>
  commands.\<close>

theorem section_log_is_echo:
  assumes "\<not> contains ''__NVDLA_SECTION_'' (crlf_to_lf pre)"
  shows "extract_section (pre @ setup_command @ rest) ''dev_dri'' = ''; ls -l /dev/dri; echo'' @ [NL] \<and>
    extract_section (pre @ setup_command @ rest) ''module_load'' =
      ''; insmod /mnt/drm.ko; echo __NVDLA_STATUS_drm_load=$?; insmod /mnt/opendla_1.ko; echo __NVDLA_STATUS_module_load=$?; echo'' @ [NL]"
proof
  have "echoes setup_command ''dev_dri'' ''; ls -l /dev/dri; echo''" by code_simp
  from echoes_section [OF assms this] show "extract_section (pre @ setup_command @ rest) ''dev_dri'' = ''; ls -l /dev/dri; echo'' @ [NL]" .
next
  have "echoes setup_command ''module_load''
      ''; insmod /mnt/drm.ko; echo __NVDLA_STATUS_drm_load=$?; insmod /mnt/opendla_1.ko; echo __NVDLA_STATUS_module_load=$?; echo''" by code_simp
  from echoes_section [OF assms this] show "extract_section (pre @ setup_command @ rest) ''module_load'' =
      ''; insmod /mnt/drm.ko; echo __NVDLA_STATUS_drm_load=$?; insmod /mnt/opendla_1.ko; echo __NVDLA_STATUS_module_load=$?; echo'' @ [NL]" .
qed

lemma section_log_is_echo_witness: "extract_section (''# '' @ setup_command @ CR # NL # ''total 0'') ''dev_dri'' = ''; ls -l /dev/dri; echo'' @ [NL]"
proof -
  have "\<not> contains ''__NVDLA_SECTION_'' (crlf_to_lf ''# '')" by code_simp
  from section_log_is_echo [OF this, of "CR # NL # ''total 0''"] show ?thesis by blast
qed

end
