(* ===== verification/TraceCompare.thy ===== *)
theory TraceCompare
  imports Trace
begin

text \<open>
  The differential comparison of tools/nvdla_test_framework/trace.py, lines 241 to 533:
  normalisation of the events of one run (repeated state reads collapsed, DMA addresses
  checked and masked), the exact comparison of the programming stream, the comparison of
  the interrupt service stream by acknowledged bits, and their combination. Events read
  back from the JSON lines file are the records of theory Trace.
\<close>

record item =
  it_operation :: string
  it_offset :: string
  it_length :: int
  it_data :: string
  it_response :: string
  it_register :: "string option"

definition is_dma_address_register :: "string option \<Rightarrow> bool" where
  "is_dma_address_register register = (case register of None \<Rightarrow> False
    | Some r \<Rightarrow> if r = [] \<or> \<not> contains ''ADDR'' r then False
        else list_ex (\<lambda>token. contains token r) [''BASE_ADDR'', ''DAIN_ADDR'', ''WEIGHT_ADDR'', ''DATAOUT_ADDR''])"

definition is_state_read :: "event \<Rightarrow> bool" where
  "is_state_read e = (if ev_operation e \<noteq> ''read'' then False
     else list_ex (\<lambda>token. contains token (or_string (ev_register e) []))
       [''_S_STATUS'', ''_S_POINTER'', ''INTR_STATUS'', ''INTR_MASK''])"

definition validate_dma_value :: "event \<Rightarrow> int \<Rightarrow> int \<Rightarrow> string option res" where
  "validate_dma_value e extmem_base extmem_high =
     (let register = or_string (ev_register e) [] in
      bindE (noneE bad_int (py_int16 (ev_data e))) (\<lambda>value.
        if contains ''HIGH'' register then
          (if value \<noteq> 0 then Inr (Some (register @ '' has unsupported non-zero high address '' @ hex8 value)) else Inr None)
        else if value = 0 \<and> contains ''DATAOUT_ADDR'' register then Inr None
        else if \<not> (extmem_base \<le> value \<and> value \<le> extmem_high) then
          Inr (Some (register @ '' address '' @ hex8 value @ '' is outside extmem''))
        else if value mod 4 \<noteq> 0 then
          Inr (Some (register @ '' address '' @ hex8 value @ '' is not 4-byte aligned''))
        else Inr None))"

subsection \<open>Normalisation\<close>

record norm_state =
  ns_items :: "item list"
  ns_last :: "(string, string) dict"
  ns_masked :: nat
  ns_collapsed :: nat
  ns_errors :: "string list"

definition norm_init :: norm_state where
  "norm_init = \<lparr>ns_items = [], ns_last = [], ns_masked = 0, ns_collapsed = 0, ns_errors = []\<rparr>"

definition item_of :: "event \<Rightarrow> item" where
  "item_of e = \<lparr>it_operation = ev_operation e, it_offset = ev_offset e, it_length = ev_length e,
     it_data = ev_data e, it_response = ev_response e, it_register = ev_register e\<rparr>"

definition DMA_MASK :: string where
  "DMA_MASK = ''<dma-address>''"

definition sequence_error :: "event \<Rightarrow> string \<Rightarrow> string" where
  "sequence_error e m = ''sequence '' @ show_nat (ev_sequence e) @ '': '' @ m"

definition note_response :: "event \<Rightarrow> norm_state \<Rightarrow> norm_state" where
  "note_response e st = (if ev_response e \<noteq> ''ok''
     then st\<lparr>ns_errors := ns_errors st @ [sequence_error e (''non-OK response '' @ ev_response e)]\<rparr> else st)"

definition append_item :: "int \<Rightarrow> int \<Rightarrow> event \<Rightarrow> norm_state \<Rightarrow> norm_state res" where
  "append_item extmem_base extmem_high e st =
     (if ev_operation e = ''write'' \<and> is_dma_address_register (ev_register e) then
        bindE (validate_dma_value e extmem_base extmem_high) (\<lambda>error.
          let st' = (case error of None \<Rightarrow> st
                     | Some m \<Rightarrow> st\<lparr>ns_errors := ns_errors st @ [sequence_error e m]\<rparr>)
          in Inr (st'\<lparr>ns_items := ns_items st @ [(item_of e)\<lparr>it_data := DMA_MASK\<rparr>],
                      ns_masked := ns_masked st + 1\<rparr>))
      else Inr (st\<lparr>ns_items := ns_items st @ [item_of e]\<rparr>))"

definition norm_event :: "int \<Rightarrow> int \<Rightarrow> event \<Rightarrow> norm_state \<Rightarrow> norm_state res" where
  "norm_event extmem_base extmem_high e st0 =
     (if ev_interface e \<noteq> ''csb'' then Inr st0
      else let st = note_response e st0 in
        if is_state_read e then
          (let state_key = or_string (ev_register e) (ev_offset e) in
           if dict_get (ns_last st) state_key = Some (ev_data e)
           then Inr (st\<lparr>ns_collapsed := ns_collapsed st + 1\<rparr>)
           else append_item extmem_base extmem_high e
                  (st\<lparr>ns_last := dict_set state_key (ev_data e) (ns_last st)\<rparr>))
        else append_item extmem_base extmem_high e st)"

record norm_policy =
  np_input_count :: nat
  np_normalized_count :: nat
  np_masked_address_count :: nat
  np_collapsed_read_count :: nat
  np_errors :: "string list"

definition normalize_csb_events :: "event list \<Rightarrow> int \<Rightarrow> int \<Rightarrow> (item list \<times> norm_policy) res" where
  "normalize_csb_events events extmem_base extmem_high =
     bindE (foldE (norm_event extmem_base extmem_high) events norm_init) (\<lambda>st.
       Inr (ns_items st,
            \<lparr>np_input_count = length events, np_normalized_count = length (ns_items st),
             np_masked_address_count = ns_masked st, np_collapsed_read_count = ns_collapsed st,
             np_errors = ns_errors st\<rparr>))"

subsection \<open>The programming stream\<close>

type_synonym signature = "string \<times> string \<times> int \<times> string \<times> string"

definition event_signature :: "item \<Rightarrow> signature" where
  "event_signature i = (it_operation i, it_offset i, it_length i, it_data i, it_response i)"

definition event_context :: "item list \<Rightarrow> nat \<Rightarrow> nat \<Rightarrow> (nat \<times> item) list" where
  "event_context events index radius =
     (let start = index - radius; stop = min (length events) (index + radius + 1)
      in map (\<lambda>current. (current, events ! current)) [start..<stop])"

record compare_counts =
  cc_reference :: nat
  cc_candidate :: nat
  cc_missing :: nat
  cc_unexpected :: nat
  cc_reordered :: nat
  cc_value_mismatched :: nat

definition value_mismatch :: "item \<Rightarrow> item \<Rightarrow> bool" where
  "value_mismatch expected actual = (event_signature expected \<noteq> event_signature actual \<and>
     it_operation expected = it_operation actual \<and> it_offset expected = it_offset actual \<and>
     it_data expected \<noteq> it_data actual)"

definition is_reordered :: "item list \<Rightarrow> item list \<Rightarrow> item \<Rightarrow> item \<Rightarrow> bool" where
  "is_reordered reference candidate expected actual =
     (event_signature expected \<noteq> event_signature actual \<and> \<not> value_mismatch expected actual \<and>
      event_signature expected \<in> event_signature ` set candidate \<and>
      event_signature actual \<in> event_signature ` set reference)"

record mismatch =
  mm_index :: nat
  mm_reference_context :: "(nat \<times> item) list"
  mm_candidate_context :: "(nat \<times> item) list"

record channel_result =
  ch_match :: bool
  ch_counts :: compare_counts
  ch_first_mismatch :: "mismatch option"

definition sequence_first_index :: "item list \<Rightarrow> item list \<Rightarrow> nat option" where
  "sequence_first_index reference candidate =
     (case first_difference (map event_signature reference) (map event_signature candidate) 0 of
        Some i \<Rightarrow> Some i
      | None \<Rightarrow> if length reference \<noteq> length candidate
                then Some (min (length reference) (length candidate)) else None)"

definition compare_sequence :: "item list \<Rightarrow> item list \<Rightarrow> channel_result" where
  "compare_sequence reference candidate =
     (let rs = map event_signature reference; cs = map event_signature candidate;
          pairs = zip reference candidate
      in \<lparr>ch_match = (rs = cs),
          ch_counts = \<lparr>cc_reference = length reference, cc_candidate = length candidate,
            cc_missing = counter_missing rs cs, cc_unexpected = counter_missing cs rs,
            cc_reordered = filter_count (\<lambda>(x, y). is_reordered reference candidate x y) pairs,
            cc_value_mismatched = filter_count (\<lambda>(x, y). value_mismatch x y) pairs\<rparr>,
          ch_first_mismatch = map_option (\<lambda>i.
            \<lparr>mm_index = i,
             mm_reference_context = (if reference = [] then [] else event_context reference (min i (length reference - 1)) 2),
             mm_candidate_context = (if candidate = [] then [] else event_context candidate (min i (length candidate - 1)) 2)\<rparr>)
            (sequence_first_index reference candidate)\<rparr>)"

definition engine_name :: "string \<Rightarrow> string" where
  "engine_name register = takeWhile (\<lambda>c. c \<noteq> CHR ''_'') register"

record transaction_summary =
  tr_event_count :: nat
  tr_operations :: "(string \<times> nat) list"
  tr_engines :: "(string \<times> nat) list"
  tr_registers :: "(string \<times> nat) list"

definition item_register :: "item \<Rightarrow> string" where
  "item_register i = or_string (it_register i) (it_offset i)"

definition transaction_summary :: "item list \<Rightarrow> transaction_summary" where
  "transaction_summary events = \<lparr>tr_event_count = length events,
     tr_operations = counter_items (mset (map it_operation events)),
     tr_engines = counter_items (mset (map (\<lambda>i. engine_name (item_register i)) events)),
     tr_registers = counter_items (mset (map item_register events))\<rparr>"

subsection \<open>The interrupt service stream\<close>

datatype channel = Programming | Interrupt

definition comparison_channel :: "item \<Rightarrow> channel" where
  "comparison_channel i = (if or_string (it_register i) [] = ''GLB_S_INTR_STATUS_0'' then Interrupt else Programming)"

text \<open>The inner loop of \<open>_interrupt_bit_counts\<close>: the positions of the set bits of one value.
  Python's \<open>while value\<close> ends for the non-negative values the parser yields.\<close>

function value_bits :: "int \<Rightarrow> nat \<Rightarrow> nat list" where
  "value_bits value pos = (if value \<le> 0 then []
     else (if odd value then [pos] else []) @ value_bits (value div 2) (Suc pos))"
  by pat_completeness auto
termination
  by (relation "measure (\<lambda>(v, b). nat v)") auto

declare value_bits.simps [simp del]

definition interrupt_bit_counts :: "int list \<Rightarrow> nat multiset" where
  "interrupt_bit_counts values = mset (concat (map (\<lambda>v. value_bits v 0) values))"

datatype service_error =
    ExpectedNonzeroStatusRead nat item
  | MissingInterruptAcknowledge nat item
  | InterruptAcknowledgeMismatch nat item item
  | MissingInterruptClearConfirmation nat item
  | InterruptNotCleared nat item item

definition data_value :: "item \<Rightarrow> int res" where
  "data_value i = noneE bad_int (py_int16 (it_data i))"

text \<open>The service loop, on the events that remain and their index.\<close>

fun service_loop :: "nat \<Rightarrow> item list \<Rightarrow> int list \<Rightarrow> service_error list \<Rightarrow> (int list \<times> service_error list) res" where
  "service_loop index [] acks errors = Inr (acks, errors)"
| "service_loop index (event # rest) acks errors =
     bindE (data_value event) (\<lambda>value.
       if it_operation event = ''read'' \<and> value = 0 then service_loop (Suc index) rest acks errors
       else if it_operation event \<noteq> ''read'' then
         service_loop (Suc index) rest acks (errors @ [ExpectedNonzeroStatusRead index event])
       else (case rest of
           [] \<Rightarrow> Inr (acks, errors @ [MissingInterruptAcknowledge index event])
         | acknowledge # rest2 \<Rightarrow>
             if it_operation acknowledge \<noteq> ''write'' \<or> it_data acknowledge \<noteq> it_data event then
               service_loop (Suc index) rest acks
                 (errors @ [InterruptAcknowledgeMismatch (Suc index) event acknowledge])
             else (case rest2 of
                 [] \<Rightarrow> Inr (acks, errors @ [MissingInterruptClearConfirmation (Suc index) acknowledge])
               | confirmation # rest3 \<Rightarrow>
                   if it_operation confirmation \<noteq> ''read'' then
                     service_loop (index + 2) rest2 acks
                       (errors @ [InterruptNotCleared (index + 2) acknowledge confirmation])
                   else bindE (data_value confirmation) (\<lambda>cleared.
                     if cleared \<noteq> 0 then
                       service_loop (index + 2) rest2 acks
                         (errors @ [InterruptNotCleared (index + 2) acknowledge confirmation])
                     else service_loop (index + 3) rest3 (acks @ [value]) errors))))"

record service_summary =
  sv_valid :: bool
  sv_batch_count :: nat
  sv_acknowledged :: "string list"
  sv_bit_counts :: "(nat \<times> nat) list"
  sv_errors :: "service_error list"
  sv_bits :: "nat multiset"

definition summarize_interrupt_service :: "item list \<Rightarrow> service_summary res" where
  "summarize_interrupt_service events =
     bindE (service_loop 0 events [] []) (\<lambda>(acks, errors).
       let bits = interrupt_bit_counts acks in
       Inr \<lparr>sv_valid = (errors = []), sv_batch_count = length acks, sv_acknowledged = map hex8 acks,
            sv_bit_counts = counter_items bits, sv_errors = errors, sv_bits = bits\<rparr>)"

definition compare_interrupt_service :: "item list \<Rightarrow> item list \<Rightarrow> channel_result res" where
  "compare_interrupt_service reference candidate =
     bindE (summarize_interrupt_service reference) (\<lambda>rs.
     bindE (summarize_interrupt_service candidate) (\<lambda>cs.
       let missing = size (sv_bits rs - sv_bits cs);
           unexpected = size (sv_bits cs - sv_bits rs);
           same = (sv_valid rs \<and> sv_valid cs \<and> sv_bits rs = sv_bits cs)
       in Inr \<lparr>ch_match = same,
            ch_counts = \<lparr>cc_reference = length reference, cc_candidate = length candidate,
              cc_missing = missing, cc_unexpected = unexpected, cc_reordered = 0,
              cc_value_mismatched = (if sv_bits rs = sv_bits cs then 0 else missing + unexpected)\<rparr>,
            ch_first_mismatch = (if same then None else Some
              \<lparr>mm_index = 0,
               mm_reference_context = (if reference = [] then [] else event_context reference 0 2),
               mm_candidate_context = (if candidate = [] then [] else event_context candidate 0 2)\<rparr>)\<rparr>))"

subsection \<open>Both streams\<close>

record trace_comparison =
  tc_match :: bool
  tc_counts :: compare_counts
  tc_first_mismatch :: "(channel \<times> mismatch) option"
  tc_programming :: channel_result
  tc_interrupt :: channel_result
  tc_reference_summary :: transaction_summary
  tc_candidate_summary :: transaction_summary

definition add_counts :: "compare_counts \<Rightarrow> compare_counts \<Rightarrow> compare_counts" where
  "add_counts a b = \<lparr>cc_reference = cc_reference a + cc_reference b,
     cc_candidate = cc_candidate a + cc_candidate b, cc_missing = cc_missing a + cc_missing b,
     cc_unexpected = cc_unexpected a + cc_unexpected b, cc_reordered = cc_reordered a + cc_reordered b,
     cc_value_mismatched = cc_value_mismatched a + cc_value_mismatched b\<rparr>"

definition on_channel :: "channel \<Rightarrow> item list \<Rightarrow> item list" where
  "on_channel c events = List.filter (\<lambda>i. comparison_channel i = c) events"

definition compare_normalized_traces :: "item list \<Rightarrow> item list \<Rightarrow> trace_comparison res" where
  "compare_normalized_traces reference candidate =
     (let p = compare_sequence (on_channel Programming reference) (on_channel Programming candidate) in
      bindE (compare_interrupt_service (on_channel Interrupt reference) (on_channel Interrupt candidate)) (\<lambda>i.
        Inr \<lparr>tc_match = (ch_match p \<and> ch_match i),
             tc_counts = add_counts (ch_counts p) (ch_counts i),
             tc_first_mismatch = (case ch_first_mismatch p of Some m \<Rightarrow> Some (Programming, m)
                | None \<Rightarrow> map_option (\<lambda>m. (Interrupt, m)) (ch_first_mismatch i)),
             tc_programming = p, tc_interrupt = i,
             tc_reference_summary = transaction_summary reference,
             tc_candidate_summary = transaction_summary candidate\<rparr>))"

subsection \<open>Facts about the exact comparison\<close>

lemma first_index_None_iff:
  "sequence_first_index reference candidate = None \<longleftrightarrow>
     map event_signature reference = map event_signature candidate"
proof -
  let ?r = "map event_signature reference" and ?c = "map event_signature candidate"
  have "sequence_first_index reference candidate = None \<longleftrightarrow>
      first_difference ?r ?c 0 = None \<and> length ?r = length ?c"
    by (auto simp: sequence_first_index_def split: option.splits)
  also have "\<dots> \<longleftrightarrow> ?r = ?c"
    by (auto simp: first_difference_None_iff list_eq_iff_nth_eq)
  finally show ?thesis .
qed

lemma zip_differs:
  "length xs = length ys \<Longrightarrow> map f xs \<noteq> map f ys \<Longrightarrow> \<exists>(x, y) \<in> set (zip xs ys). f x \<noteq> f y"
  by (induction xs ys rule: list_induct2) auto

lemma filter_count_0: "filter_count p xs = 0 \<longleftrightarrow> (\<forall>x \<in> set xs. \<not> p x)"
  by (simp add: filter_count_def filter_empty_conv)

lemma counter_missing_0: "counter_missing xs ys = 0 \<longleftrightarrow> mset xs \<subseteq># mset ys"
  by (simp add: counter_missing_def Diff_eq_empty_iff_mset)

lemma compare_sequence_simps:
  "ch_match (compare_sequence rs cs) \<longleftrightarrow> map event_signature rs = map event_signature cs"
  "cc_missing (ch_counts (compare_sequence rs cs)) = counter_missing (map event_signature rs) (map event_signature cs)"
  "cc_unexpected (ch_counts (compare_sequence rs cs)) = counter_missing (map event_signature cs) (map event_signature rs)"
  "cc_reordered (ch_counts (compare_sequence rs cs)) = filter_count (\<lambda>(x, y). is_reordered rs cs x y) (zip rs cs)"
  "cc_value_mismatched (ch_counts (compare_sequence rs cs)) = filter_count (\<lambda>(x, y). value_mismatch x y) (zip rs cs)"
  "cc_reference (ch_counts (compare_sequence rs cs)) = length rs"
  "cc_candidate (ch_counts (compare_sequence rs cs)) = length cs"
  "ch_first_mismatch (compare_sequence rs cs) = None \<longleftrightarrow> sequence_first_index rs cs = None"
  by (simp_all add: compare_sequence_def Let_def)

lemma zip_same:
  "map f xs = map f ys \<Longrightarrow> (x, y) \<in> set (zip xs ys) \<Longrightarrow> f x = f y"
  by (metis in_set_zip length_map nth_map prod.sel)

lemma no_counts_same:
  assumes "mset (map event_signature rs) = mset (map event_signature cs)"
    and "\<forall>(x, y) \<in> set (zip rs cs). \<not> is_reordered rs cs x y \<and> \<not> value_mismatch x y"
  shows "map event_signature rs = map event_signature cs"
proof (rule ccontr)
  assume ne: "map event_signature rs \<noteq> map event_signature cs"
  from assms(1) have "length rs = length cs" by (metis length_map size_mset)
  from zip_differs [OF this ne] obtain x y where xy: "(x, y) \<in> set (zip rs cs)"
    and d: "event_signature x \<noteq> event_signature y" by auto
  from xy have "event_signature x \<in> event_signature ` set rs" "event_signature y \<in> event_signature ` set cs"
    by (auto dest: set_zip_leftD set_zip_rightD)
  moreover from assms(1) have "event_signature ` set rs = event_signature ` set cs"
    by (metis list.set_map set_mset_mset)
  ultimately show False using d xy assms(2) by (auto simp: is_reordered_def)
qed

text \<open>C2: Two programming streams match exactly when the comparison counts nothing: no event is
  missing or unexpected, none is out of order and none differs in its value only.\<close>

theorem sequence_match_iff_counts:
  "ch_match (compare_sequence reference candidate) \<longleftrightarrow>
     (let c = ch_counts (compare_sequence reference candidate) in
      cc_missing c = 0 \<and> cc_unexpected c = 0 \<and> cc_reordered c = 0 \<and> cc_value_mismatched c = 0)"
  (is "?m \<longleftrightarrow> ?z")
proof
  assume ?m
  then have eq: "map event_signature reference = map event_signature candidate"
    by (simp add: compare_sequence_simps)
  have "\<not> is_reordered reference candidate x y \<and> \<not> value_mismatch x y"
    if "(x, y) \<in> set (zip reference candidate)" for x y
    using zip_same [OF eq that] by (simp add: is_reordered_def value_mismatch_def)
  then show ?z
    by (auto simp: Let_def compare_sequence_simps filter_count_0 counter_missing_0 eq simp del: mset_map)
next
  assume ?z
  then have "counter_missing (map event_signature reference) (map event_signature candidate) = 0"
    and "counter_missing (map event_signature candidate) (map event_signature reference) = 0"
    and none: "\<forall>(x, y) \<in> set (zip reference candidate).
      \<not> is_reordered reference candidate x y \<and> \<not> value_mismatch x y"
    by (auto simp: Let_def compare_sequence_simps filter_count_0)
  then have "mset (map event_signature reference) = mset (map event_signature candidate)"
    unfolding counter_missing_0 by (intro subset_mset.antisym)
  then show ?m unfolding compare_sequence_simps using none by (rule no_counts_same)
qed

subsection \<open>The interrupt service protocol\<close>

inductive service_trace :: "item list \<Rightarrow> int list \<Rightarrow> bool" where
  srv_done: "service_trace [] []"
| srv_idle: "it_operation e = ''read'' \<Longrightarrow> data_value e = Inr 0 \<Longrightarrow> service_trace es vs \<Longrightarrow>
     service_trace (e # es) vs"
| srv_served: "it_operation e = ''read'' \<Longrightarrow> data_value e = Inr v \<Longrightarrow> v \<noteq> 0 \<Longrightarrow>
     it_operation a = ''write'' \<Longrightarrow> it_data a = it_data e \<Longrightarrow>
     it_operation c = ''read'' \<Longrightarrow> data_value c = Inr 0 \<Longrightarrow> service_trace es vs \<Longrightarrow>
     service_trace (e # a # c # es) (v # vs)"

declare service_loop.simps [simp del]

lemma service_loop_complete:
  "service_trace es vs \<Longrightarrow> service_loop n es acks errors = Inr (acks @ vs, errors)"
  by (induction arbitrary: n acks rule: service_trace.induct) (simp_all add: service_loop.simps)

lemma service_loop_errors_grow:
  "service_loop n es acks errors = Inr (acks', errors') \<Longrightarrow> prefix errors errors'"
proof (induction es arbitrary: n acks errors rule: length_induct)
  case (1 es)
  have IH: "prefix er errors'" if "service_loop m xs ak er = Inr (acks', errors')"
    and "length xs < length es" for m xs ak er
    using 1 that by blast
  have IH1: "prefix er errors'" if "service_loop m xs ak (er @ [x]) = Inr (acks', errors')"
    and "length xs < length es" for m xs ak er x
    using IH [OF that] by (rule append_prefixD)
  show ?case
  proof (cases es)
    case Nil
    with "1.prems" show ?thesis by (simp add: service_loop.simps)
  next
    case (Cons e rest)
    note step = "1.prems" [unfolded Cons service_loop.simps(2)]
    then obtain w where "data_value e = Inr w" by (auto simp: bindE_Inr_iff)
    with Cons step show ?thesis
      by (auto simp: bindE_Inr_iff split: if_splits list.splits intro: IH IH1)
  qed
qed

lemma service_loop_no_error: "service_loop m xs ak (er @ [x]) \<noteq> Inr (acks', [])"
  using service_loop_errors_grow [of m xs ak "er @ [x]" acks' "[]"] by auto

lemma service_loop_sound:
  "service_loop n es acks errors = Inr (acks', []) \<Longrightarrow> \<exists>vs. acks' = acks @ vs \<and> service_trace es vs"
proof (induction es arbitrary: n acks errors rule: length_induct)
  case (1 es)
  have IH: "\<exists>vs. acks' = ak @ vs \<and> service_trace xs vs"
    if "service_loop m xs ak er = Inr (acks', [])" and "length xs < length es" for m xs ak er
    using 1 that by blast
  show ?case
  proof (cases es)
    case Nil
    with "1.prems" show ?thesis by (simp add: service_loop.simps service_trace.srv_done)
  next
    case (Cons e rest)
    note step = "1.prems" [unfolded Cons service_loop.simps(2)]
    then obtain w where v: "data_value e = Inr w" by (auto simp: bindE_Inr_iff)
    show ?thesis
    proof (cases "it_operation e = ''read'' \<and> w = 0")
      case True
      with step v have "service_loop (Suc n) rest acks errors = Inr (acks', [])" by simp
      from IH [OF this] Cons obtain vs where "acks' = acks @ vs" "service_trace rest vs" by auto
      with True v Cons show ?thesis by (auto intro: service_trace.srv_idle)
    next
      case False
      with step v have rd: "it_operation e = ''read''" "w \<noteq> 0"
        by (auto simp: service_loop_no_error split: if_splits)
      with step v obtain a c rest3 where r: "rest = a # c # rest3"
        and a: "it_operation a = ''write''" "it_data a = it_data e"
        and c: "it_operation c = ''read''" "data_value c = Inr 0"
        and next_step: "service_loop (n + 3) rest3 (acks @ [w]) errors = Inr (acks', [])"
        by (auto simp: service_loop_no_error bindE_Inr_iff split: if_splits list.splits)
      from IH [OF next_step] Cons r obtain vs
        where "acks' = (acks @ [w]) @ vs" "service_trace rest3 vs" by auto
      with v rd r a c Cons show ?thesis by (auto intro: service_trace.srv_served)
    qed
  qed
qed

lemma service_loop_iff:
  "service_loop n es [] [] = Inr (acks, []) \<longleftrightarrow> service_trace es acks"
  using service_loop_complete [of es acks n "[]" "[]"] service_loop_sound [of n es "[]" "[]" acks] by auto

subsection \<open>Bits\<close>

lemma value_bits_count: "0 \<le> v \<Longrightarrow> count_list (value_bits v p) b = (if p \<le> b \<and> bit v (b - p) then 1 else 0)"
proof (induction v p rule: value_bits.induct)
  case (1 v p)
  show ?case
  proof (cases "v \<le> 0")
    case True
    with 1 show ?thesis by (simp add: value_bits.simps)
  next
    case False
    have "bit v (b - p) \<longleftrightarrow> (if b = p then odd v else bit (v div 2) (b - Suc p))" if "p \<le> b"
    proof (cases "b = p")
      case True
      then show ?thesis by (simp add: bit_0)
    next
      case False
      with that have "b - p = Suc (b - Suc p)" by simp
      with False show ?thesis by (simp add: bit_Suc)
    qed
    with False 1 show ?thesis
      by (subst value_bits.simps) (auto simp: not_less_eq_eq le_Suc_eq)
  qed
qed

lemma count_interrupt_bits:
  assumes "\<forall>v \<in> set vs. 0 \<le> v"
  shows "count (interrupt_bit_counts vs) b = filter_count (\<lambda>v. bit v b) vs"
  using assms
proof (induction vs)
  case (Cons v vs)
  then show ?case
    using value_bits_count [of v 0 b] by (simp add: interrupt_bit_counts_def flip: count_mset)
qed (simp add: interrupt_bit_counts_def)


subsection \<open>Facts about normalisation\<close>

definition csb_event :: "event \<Rightarrow> bool" where
  "csb_event e = (ev_interface e = ''csb'')"

definition dma_write :: "event \<Rightarrow> bool" where
  "dma_write e = (ev_operation e = ''write'' \<and> is_dma_address_register (ev_register e))"

definition state_key :: "event \<Rightarrow> string" where
  "state_key e = or_string (ev_register e) (ev_offset e)"

definition norm_item :: "event \<Rightarrow> item" where
  "norm_item e = (if dma_write e then (item_of e)\<lparr>it_data := DMA_MASK\<rparr> else item_of e)"

definition dma_error :: "int \<Rightarrow> int \<Rightarrow> event \<Rightarrow> string option res" where
  "dma_error b h e = (if dma_write e then validate_dma_value e b h else Inr None)"

definition repeated_state :: "event \<Rightarrow> norm_state \<Rightarrow> bool" where
  "repeated_state e st = (is_state_read e \<and> dict_get (ns_last st) (state_key e) = Some (ev_data e))"

definition response_errors :: "event \<Rightarrow> string list" where
  "response_errors e = (if ev_response e = ''ok'' then [] else [sequence_error e (''non-OK response '' @ ev_response e)])"

definition next_last :: "event \<Rightarrow> norm_state \<Rightarrow> (string, string) dict" where
  "next_last e st = (if is_state_read e then dict_set (state_key e) (ev_data e) (ns_last st) else ns_last st)"

lemma norm_event_iff:
  "norm_event b h e st = Inr st' \<longleftrightarrow>
     (if \<not> csb_event e then st' = st
      else if repeated_state e st then
        st' = st\<lparr>ns_collapsed := ns_collapsed st + 1, ns_errors := ns_errors st @ response_errors e\<rparr>
      else (\<exists>m. dma_error b h e = Inr m \<and>
        st' = \<lparr>ns_items = ns_items st @ [norm_item e], ns_last = next_last e st,
               ns_masked = ns_masked st + (if dma_write e then 1 else 0), ns_collapsed = ns_collapsed st,
               ns_errors = ns_errors st @ response_errors e @
                 (case m of None \<Rightarrow> [] | Some t \<Rightarrow> [sequence_error e t])\<rparr>))"
proof -
  have "note_response e st = st\<lparr>ns_errors := ns_errors st @ response_errors e\<rparr>"
    by (simp add: note_response_def response_errors_def)
  then show ?thesis
    by (cases st) (auto simp: norm_event_def csb_event_def repeated_state_def state_key_def Let_def
        append_item_def dma_error_def dma_write_def norm_item_def next_last_def bindE_Inr_iff
        split: option.splits)
qed

lemma foldE_snoc: "foldE f (xs @ [x]) s = Inr t \<longleftrightarrow> (\<exists>u. foldE f xs s = Inr u \<and> f x u = Inr t)"
  by (simp add: foldE_append bindE_Inr_iff)

lemma state_read_not_dma: "is_state_read e \<Longrightarrow> \<not> dma_write e"
  by (auto simp: is_state_read_def dma_write_def split: if_splits)

definition state_item :: "string \<Rightarrow> item \<Rightarrow> bool" where
  "state_item k i = (it_operation i = ''read'' \<and> item_register i = k \<and>
     list_ex (\<lambda>token. contains token (or_string (it_register i) []))
       [''_S_STATUS'', ''_S_POINTER'', ''INTR_STATUS'', ''INTR_MASK''])"

definition state_event :: "string \<Rightarrow> event \<Rightarrow> bool" where
  "state_event k e = (csb_event e \<and> is_state_read e \<and> state_key e = k)"

lemma state_item_norm: "state_item k (norm_item e) \<longleftrightarrow> is_state_read e \<and> state_key e = k"
  by (auto simp: state_item_def norm_item_def item_of_def is_state_read_def state_key_def
      item_register_def dma_write_def)

text \<open>What holds of the state after every prefix of the trace.\<close>

lemma norm_accounting:
  "foldE (norm_event b h) es norm_init = Inr st \<Longrightarrow>
     length (ns_items st) + ns_collapsed st = filter_count csb_event es \<and>
     ns_masked st = filter_count (\<lambda>e. csb_event e \<and> dma_write e) es"
proof (induction es arbitrary: st rule: rev_induct)
  case Nil
  then show ?case by (auto simp: norm_init_def)
next
  case (snoc e es)
  then obtain u where u: "foldE (norm_event b h) es norm_init = Inr u"
    and e: "norm_event b h e u = Inr st" by (auto simp: foldE_snoc)
  have rd: "repeated_state e u \<Longrightarrow> \<not> dma_write e"
    by (auto simp: repeated_state_def state_read_not_dma)
  from e snoc.IH [OF u] rd show ?case
    by (auto simp: norm_event_iff split: if_splits option.splits)
qed

definition dma_ok :: "int \<Rightarrow> int \<Rightarrow> event \<Rightarrow> bool" where
  "dma_ok b h e = (dma_write e \<longrightarrow> validate_dma_value e b h = Inr None)"

lemma norm_errors:
  "foldE (norm_event b h) es norm_init = Inr st \<Longrightarrow>
     ns_errors st = [] \<longleftrightarrow> (\<forall>e \<in> set es. csb_event e \<longrightarrow> ev_response e = ''ok'' \<and> dma_ok b h e)"
proof (induction es arbitrary: st rule: rev_induct)
  case Nil
  then show ?case by (auto simp: norm_init_def)
next
  case (snoc e es)
  then obtain u where u: "foldE (norm_event b h) es norm_init = Inr u"
    and e: "norm_event b h e u = Inr st" by (auto simp: foldE_snoc)
  have rd: "repeated_state e u \<Longrightarrow> \<not> dma_write e"
    by (auto simp: repeated_state_def state_read_not_dma)
  from e snoc.IH [OF u] rd show ?case
    by (auto simp: norm_event_iff response_errors_def dma_ok_def dma_error_def
        split: if_splits option.splits)
qed

lemma norm_others:
  "foldE (norm_event b h) es norm_init = Inr st \<Longrightarrow>
     List.filter (\<lambda>i. it_operation i \<noteq> ''read'') (ns_items st)
       = map norm_item (List.filter (\<lambda>e. csb_event e \<and> ev_operation e \<noteq> ''read'') es)"
proof (induction es arbitrary: st rule: rev_induct)
  case Nil
  then show ?case by (auto simp: norm_init_def)
next
  case (snoc e es)
  then obtain u where u: "foldE (norm_event b h) es norm_init = Inr u"
    and e: "norm_event b h e u = Inr st" by (auto simp: foldE_snoc)
  have op: "it_operation (norm_item e) = ev_operation e" by (simp add: norm_item_def item_of_def)
  have rd: "repeated_state e u \<Longrightarrow> ev_operation e = ''read''"
    by (auto simp: repeated_state_def is_state_read_def split: if_splits)
  from e snoc.IH [OF u] op rd show ?case by (auto simp: norm_event_iff split: if_splits)
qed

lemma remdups_adj_snoc:
  "remdups_adj (xs @ [x]) = (if last_opt (remdups_adj xs) = Some x then remdups_adj xs else remdups_adj xs @ [x])"
proof (cases "xs = []")
  case False
  then show ?thesis by (simp add: remdups_adj_append'' last_opt_def)
qed (simp add: last_opt_def)

lemma norm_state_reads:
  "foldE (norm_event b h) es norm_init = Inr st \<Longrightarrow>
     map it_data (List.filter (state_item k) (ns_items st))
       = remdups_adj (map ev_data (List.filter (state_event k) es)) \<and>
     dict_get (ns_last st) k = last_opt (remdups_adj (map ev_data (List.filter (state_event k) es)))"
proof (induction es arbitrary: st rule: rev_induct)
  case Nil
  then show ?case by (auto simp: norm_init_def last_opt_def)
next
  case (snoc e es)
  then obtain u where u: "foldE (norm_event b h) es norm_init = Inr u"
    and e: "norm_event b h e u = Inr st" by (auto simp: foldE_snoc)
  note IH = snoc.IH [OF u]
  show ?case
  proof (cases "state_event k e")
    case True
    then have "\<not> dma_write e" by (simp add: state_event_def state_read_not_dma)
    then have d: "it_data (norm_item e) = ev_data e" by (simp add: norm_item_def item_of_def)
    from True e IH d show ?thesis
      by (auto simp: norm_event_iff state_event_def repeated_state_def remdups_adj_snoc state_item_norm
          next_last_def last_opt_def split: if_splits)
  next
    case False
    with e IH show ?thesis
      by (auto simp: norm_event_iff state_event_def state_item_norm next_last_def split: if_splits)
  qed
qed

definition relocated :: "event \<Rightarrow> event \<Rightarrow> bool" where
  "relocated e e' = (if csb_event e \<and> dma_write e then e' = e\<lparr>ev_data := ev_data e'\<rparr> else e' = e)"

lemma norm_event_relocated:
  assumes "relocated e e'" and "norm_event b h e u = Inr st" and "norm_event b h e' u' = Inr st'"
    and "ns_items u' = ns_items u" and "ns_last u' = ns_last u"
  shows "ns_items st' = ns_items st \<and> ns_last st' = ns_last st"
proof (cases "csb_event e \<and> dma_write e")
  case True
  with assms(1) obtain d where e': "e' = e\<lparr>ev_data := d\<rparr>" by (auto simp: relocated_def)
  with True have "csb_event e'" "dma_write e'" by (simp_all add: csb_event_def dma_write_def)
  moreover have "norm_item e' = norm_item e" using True e'
    by (simp add: norm_item_def dma_write_def item_of_def)
  moreover have "\<not> is_state_read e" "\<not> is_state_read e'"
    using True \<open>dma_write e'\<close> state_read_not_dma by blast+
  ultimately show ?thesis using assms(2-5) True
    by (auto simp: norm_event_iff repeated_state_def next_last_def)
next
  case False
  with assms show ?thesis
    by (auto simp: relocated_def norm_event_iff repeated_state_def next_last_def split: if_splits)
qed

lemma norm_relocated:
  assumes "list_all2 relocated es es'"
    and "foldE (norm_event b h) es norm_init = Inr st"
    and "foldE (norm_event b h) es' norm_init = Inr st'"
  shows "ns_items st' = ns_items st \<and> ns_last st' = ns_last st"
  using assms
proof (induction es arbitrary: es' st st' rule: rev_induct)
  case (snoc e es)
  then obtain e' fs where "es' = fs @ [e']" "list_all2 relocated es fs" "relocated e e'"
    by (auto simp: list_all2_append1 list_all2_Cons1)
  moreover from this snoc.prems obtain u u' where
    "foldE (norm_event b h) es norm_init = Inr u" "norm_event b h e u = Inr st"
    "foldE (norm_event b h) fs norm_init = Inr u'" "norm_event b h e' u' = Inr st'"
    by (auto simp: foldE_snoc)
  ultimately show ?case using snoc.IH norm_event_relocated by blast
qed simp

text \<open>C3: The first mismatch the exact comparison reports is at the end of the longest common prefix
  of the two signature sequences, and none is reported exactly when the sequences are equal.\<close>

theorem sequence_first_mismatch:
  "(case ch_first_mismatch (compare_sequence reference candidate) of
      None \<Rightarrow> map event_signature reference = map event_signature candidate
    | Some m \<Rightarrow> map event_signature reference \<noteq> map event_signature candidate \<and>
        mm_index m = length (longest_common_prefix (map event_signature reference) (map event_signature candidate)))"
proof -
  let ?r = "map event_signature reference" and ?c = "map event_signature candidate"
  have "sequence_first_index reference candidate =
      (if ?r = ?c then None else Some (length (longest_common_prefix ?r ?c)))"
  proof (cases "?r = ?c")
    case True
    then show ?thesis by (simp add: first_index_None_iff)
  next
    case False
    show ?thesis using first_index_lcp [OF False, of 0] False
      by (auto simp: sequence_first_index_def split: option.splits)
  qed
  then show ?thesis by (auto simp: compare_sequence_def Let_def)
qed


text \<open>C5: The interrupt stream of one run is summarised as valid exactly when it is a sequence of zero
  status reads and complete service cycles (a non-zero status read, a write of the same value, a
  read of zero), and then the acknowledged values are those of the cycles, in order.\<close>

theorem interrupt_service_valid:
  "(summarize_interrupt_service events = Inr s \<and> sv_valid s) \<longleftrightarrow>
   (\<exists>vs. service_trace events vs \<and>
      s = \<lparr>sv_valid = True, sv_batch_count = length vs, sv_acknowledged = map hex8 vs,
           sv_bit_counts = counter_items (interrupt_bit_counts vs), sv_errors = [],
           sv_bits = interrupt_bit_counts vs\<rparr>)"
proof -
  have "summarize_interrupt_service events = Inr s \<and> sv_valid s \<longleftrightarrow>
     (\<exists>vs. service_loop 0 events [] [] = Inr (vs, []) \<and>
      s = \<lparr>sv_valid = True, sv_batch_count = length vs, sv_acknowledged = map hex8 vs,
           sv_bit_counts = counter_items (interrupt_bit_counts vs), sv_errors = [],
           sv_bits = interrupt_bit_counts vs\<rparr>)"
    by (auto simp: summarize_interrupt_service_def bindE_Inr_iff Let_def)
  then show ?thesis by (simp add: service_loop_iff)
qed

lemma service_summary: "service_trace events vs \<Longrightarrow>
    summarize_interrupt_service events = Inr \<lparr>sv_valid = True, sv_batch_count = length vs,
      sv_acknowledged = map hex8 vs, sv_bit_counts = counter_items (interrupt_bit_counts vs),
      sv_errors = [], sv_bits = interrupt_bit_counts vs\<rparr>"
  by (simp add: summarize_interrupt_service_def service_loop_iff [THEN iffD2] Let_def)


definition wit_item :: "string \<Rightarrow> string \<Rightarrow> item" where
  "wit_item operation data = \<lparr>it_operation = operation, it_offset = ''0x0000000c'', it_length = 4,
     it_data = data, it_response = ''ok'', it_register = Some ''GLB_S_INTR_STATUS_0''\<rparr>"

definition wit_cycle :: "string \<Rightarrow> item list" where
  "wit_cycle data = [wit_item ''read'' data, wit_item ''write'' data, wit_item ''read'' ''0x00000000'']"

lemma wit_cycle_trace:
  "py_int16 d = Some v \<Longrightarrow> v \<noteq> 0 \<Longrightarrow> service_trace es vs \<Longrightarrow> service_trace (wit_cycle d @ es) (v # vs)"
proof -
  have "py_int16 ''0x00000000'' = Some 0" by code_simp
  then show "py_int16 d = Some v \<Longrightarrow> v \<noteq> 0 \<Longrightarrow> service_trace es vs \<Longrightarrow> service_trace (wit_cycle d @ es) (v # vs)"
    using srv_served [of "wit_item ''read'' d" v "wit_item ''write'' d" "wit_item ''read'' ''0x00000000''" es vs]
    by (simp add: wit_cycle_def wit_item_def data_value_def)
qed


subsection \<open>What normalisation keeps\<close>

lemma normalize_iff:
  "normalize_csb_events es b h = Inr (items, p) \<longleftrightarrow>
     (\<exists>st. foldE (norm_event b h) es norm_init = Inr st \<and> items = ns_items st \<and>
        p = \<lparr>np_input_count = length es, np_normalized_count = length (ns_items st),
             np_masked_address_count = ns_masked st, np_collapsed_read_count = ns_collapsed st,
             np_errors = ns_errors st\<rparr>)"
  by (auto simp: normalize_csb_events_def bindE_Inr_iff)

text \<open>Normalisation accounts for every CSB event of a run: the items kept and the repeated reads
  collapsed add up to the CSB events, and one address is masked per DMA address write.\<close>

theorem normalize_accounting:
  assumes "normalize_csb_events events b h = Inr (items, policy)"
  shows "np_normalized_count policy + np_collapsed_read_count policy = filter_count csb_event events \<and>
    np_masked_address_count policy = filter_count (\<lambda>e. csb_event e \<and> dma_write e) events \<and>
    np_normalized_count policy = length items"
  using assms norm_accounting by (auto simp: normalize_iff)


text \<open>Normalisation keeps the programming order: the items that are not reads are the CSB events
  that are not reads, in order, changed only in the value of a DMA address write, and per register
  the state reads keep exactly their transitions.\<close>

theorem normalize_keeps:
  assumes "normalize_csb_events events b h = Inr (items, policy)"
  shows "List.filter (\<lambda>i. it_operation i \<noteq> ''read'') items
      = map norm_item (List.filter (\<lambda>e. csb_event e \<and> ev_operation e \<noteq> ''read'') events) \<and>
    map it_data (List.filter (state_item k) items)
      = remdups_adj (map ev_data (List.filter (state_event k) events))"
  using assms norm_others norm_state_reads by (auto simp: normalize_iff)

text \<open>C9: Where the run placed its buffers does not matter: two runs whose events differ only in the
  values of DMA address writes have the same normalised items, so the comparison of the two runs
  with any third one is the same.\<close>

theorem normalize_relocated:
  assumes "list_all2 relocated events events'"
    and "normalize_csb_events events b h = Inr (items, policy)"
    and "normalize_csb_events events' b h = Inr (items', policy')"
  shows "items' = items \<and> compare_normalized_traces reference items' = compare_normalized_traces reference items"
proof -
  from assms(2) obtain st where st: "foldE (norm_event b h) events norm_init = Inr st" "items = ns_items st"
    unfolding normalize_iff by (elim exE conjE)
  from assms(3) obtain st' where st': "foldE (norm_event b h) events' norm_init = Inr st'" "items' = ns_items st'"
    unfolding normalize_iff by (elim exE conjE)
  have "items' = items" using norm_relocated [OF assms(1) st(1) st'(1)] st(2) st'(2) by (elim conjE) (simp only:)
  then show ?thesis by (simp only: simp_thms)
qed

definition wit_event :: "string \<Rightarrow> string \<Rightarrow> string \<Rightarrow> event" where
  "wit_event operation data register = \<lparr>ev_sequence = 0, ev_source = ''vp'', ev_interface = ''csb'',
     ev_operation = operation, ev_offset = ''0x00005008'', ev_length = 4, ev_data = data,
     ev_response = ''ok'', ev_register = Some register\<rparr>"

definition wit_events :: "string \<Rightarrow> event list" where
  "wit_events address = [wit_event ''read'' ''0x0'' ''CDMA_S_STATUS_0'', wit_event ''read'' ''0x0'' ''CDMA_S_STATUS_0'',
     wit_event ''write'' address ''CDMA_D_DAIN_ADDR_LOW_0_0'', wit_event ''read'' ''0x1'' ''CDMA_S_STATUS_0'']"

definition wit_items :: "item list" where
  "wit_items = map norm_item [wit_event ''read'' ''0x0'' ''CDMA_S_STATUS_0'',
     wit_event ''write'' [] ''CDMA_D_DAIN_ADDR_LOW_0_0'', wit_event ''read'' ''0x1'' ''CDMA_S_STATUS_0'']"

definition wit_policy :: norm_policy where
  "wit_policy = \<lparr>np_input_count = 4, np_normalized_count = 3, np_masked_address_count = 1,
     np_collapsed_read_count = 1, np_errors = []\<rparr>"

lemma wit_normalize:
  "normalize_csb_events (wit_events ''0xc0001000'') DEFAULT_EXTMEM_BASE DEFAULT_EXTMEM_HIGH = Inr (wit_items, wit_policy)"
  "normalize_csb_events (wit_events ''0xd0000040'') DEFAULT_EXTMEM_BASE DEFAULT_EXTMEM_HIGH = Inr (wit_items, wit_policy)"
  by code_simp+

lemma normalize_accounting_witness:
  "np_collapsed_read_count wit_policy = 1 \<and>
   np_normalized_count wit_policy + np_collapsed_read_count wit_policy = filter_count csb_event (wit_events ''0xc0001000'')"
  using normalize_accounting [OF wit_normalize(1)] by (simp add: wit_policy_def)


lemma normalize_keeps_witness:
  "map it_data (List.filter (state_item ''CDMA_S_STATUS_0'') wit_items)
      = remdups_adj (map ev_data (List.filter (state_event ''CDMA_S_STATUS_0'') (wit_events ''0xc0001000'')))"
  using normalize_keeps [OF wit_normalize(1)] by blast

lemma normalize_relocated_witness:
  "\<exists>items policy. normalize_csb_events (wit_events ''0xd0000040'') DEFAULT_EXTMEM_BASE DEFAULT_EXTMEM_HIGH
      = Inr (items, policy) \<and> items = wit_items"
proof -
  have "list_all2 relocated (wit_events ''0xc0001000'') (wit_events ''0xd0000040'')" by code_simp
  from normalize_relocated [OF this wit_normalize] wit_normalize(2) show ?thesis by blast
qed

end
