(* ===== verification/TraceFiles.thy ===== *)
theory TraceFiles
  imports TraceCompare Files
begin

text \<open>
  The files of a trace: the JSON lines form of the events (write_jsonl, read_jsonl) and the
  comparison of two run artifacts (compare_trace_artifacts), in
  tools/nvdla_test_framework/trace.py. The report documents the comparison writes are not modelled
  beyond the fields decided here: the classification, the configuration match, the hashes and the
  counts they show.
\<close>

subsection \<open>JSON lines\<close>

definition optional_json :: "string option \<Rightarrow> json" where
  "optional_json v = (case v of None \<Rightarrow> JNull | Some s \<Rightarrow> JStr s)"

text \<open>The members of an event in the order of \<open>sort_keys\<close>.\<close>

definition event_members :: "event \<Rightarrow> (string \<times> json) list" where
  "event_members e = [(''data'', JStr (ev_data e)), (''interface'', JStr (ev_interface e)),
     (''length'', JInt (ev_length e)), (''offset'', JStr (ev_offset e)),
     (''operation'', JStr (ev_operation e)), (''register'', optional_json (ev_register e)),
     (''response'', JStr (ev_response e)), (''schema_version'', JInt 1),
     (''sequence'', JInt (int (ev_sequence e))), (''source'', JStr (ev_source e))]"

definition write_jsonl :: "event list \<Rightarrow> string" where
  "write_jsonl events = concat (map (\<lambda>e. dump_object (event_members e) @ [NL]) events)"

fun read_jsonl_lines :: "string list \<Rightarrow> json list \<Rightarrow> json list res" where
  "read_jsonl_lines [] events = Inr events"
| "read_jsonl_lines (line # ls) events =
     (if strip line = [] then read_jsonl_lines ls events
      else bindE (json_loads line) (\<lambda>event.
        bindE (jget event ''schema_version'') (\<lambda>v.
          if \<not> jeq v (JInt 1) then Inl (ValueError ''unsupported trace schema'')
          else read_jsonl_lines ls (events @ [event]))))"

definition read_jsonl :: "string \<Rightarrow> json list res" where
  "read_jsonl text = read_jsonl_lines (file_lines text) []"

text \<open>The fields the comparison uses, as the record of theory Trace. An event without one of them
  stops the comparison; the code stops at the use of the missing field.\<close>

fun register_field :: "json \<Rightarrow> string option res" where
  "register_field JNull = Inr None"
| "register_field (JStr s) = Inr (Some s)"
| "register_field _ = Inl TypeError"

fun nat_field :: "json \<Rightarrow> nat res" where
  "nat_field (JInt n) = (if 0 \<le> n then Inr (nat n) else Inl TypeError)"
| "nat_field _ = Inl TypeError"

fun int_field :: "json \<Rightarrow> int res" where
  "int_field (JInt n) = Inr n"
| "int_field _ = Inl TypeError"

definition str_at :: "json \<Rightarrow> string \<Rightarrow> string res" where
  "str_at d k = bindE (jat d k) jstr"

definition event_of :: "json \<Rightarrow> event res" where
  "event_of d =
     bindE (bindE (jat d ''sequence'') nat_field) (\<lambda>sequence.
     bindE (str_at d ''source'') (\<lambda>source.
     bindE (str_at d ''interface'') (\<lambda>interface.
     bindE (str_at d ''operation'') (\<lambda>operation.
     bindE (str_at d ''offset'') (\<lambda>offset.
     bindE (bindE (jat d ''length'') int_field) (\<lambda>len.
     bindE (str_at d ''data'') (\<lambda>data.
     bindE (str_at d ''response'') (\<lambda>response.
     bindE (bindE (jget d ''register'') register_field) (\<lambda>register.
       Inr \<lparr>ev_sequence = sequence, ev_source = source, ev_interface = interface,
            ev_operation = operation, ev_offset = offset, ev_length = len, ev_data = data,
            ev_response = response, ev_register = register\<rparr>)))))))))"

definition load_events :: "fs \<Rightarrow> path \<Rightarrow> event list res" where
  "load_events fs p = bindE (read_text fs p) (\<lambda>text. bindE (read_jsonl text) (mapE event_of))"

subsection \<open>Comparing two run artifacts\<close>

definition manifest_input :: "json \<Rightarrow> string \<Rightarrow> json res" where
  "manifest_input manifest name = bindE (jget_or manifest (JDict []) ''inputs'') (\<lambda>d. jget_or d (JDict []) name)"

definition layers_re :: rx where
  "layers_re = seq [Cap 1 (plus (Sym is_dec)), plus (Sym is_space), lit ''HWLs done,'', plus (Sym is_space),
     lit ''totally'', plus (Sym is_space), lit ''10'', plus (Sym is_space), lit ''layers'']"

definition layer_completion_count :: "fs \<Rightarrow> path \<Rightarrow> int" where
  "layer_completion_count fs artifact = (case dict_get fs (artifact @ [''serial.log'']) of
       None \<Rightarrow> 0
     | Some serial \<Rightarrow> (let values = map (\<lambda>k. case py_int (group 1 k) of None \<Rightarrow> 0 | Some n \<Rightarrow> n) (re_finditer layers_re serial)
                   in if values = [] then 0 else Max (set values)))"

definition output_path :: "fs \<Rightarrow> path \<Rightarrow> json \<Rightarrow> path option res" where
  "output_path fs artifact manifest =
     bindE (bindE (jget_or manifest (JDict []) ''artifacts'') (\<lambda>d. jget d ''output'')) (\<lambda>relative.
       if \<not> truthy relative then Inr None
       else bindE (jstr relative) (\<lambda>r.
         let p = path_div artifact r in Inr (if path_exists fs p then Some p else None)))"

datatype classification = Pass | TraceMismatch | OutputMismatch | RuntimeFailure | ReferenceInvalid

definition classify :: "bool \<Rightarrow> bool \<Rightarrow> bool \<Rightarrow> bool \<Rightarrow> bool \<Rightarrow> bool \<Rightarrow> classification" where
  "classify reference_pass candidate_pass outputs_match configuration_match policies_clean trace_match =
     (if \<not> reference_pass then ReferenceInvalid
      else if \<not> candidate_pass then (if \<not> outputs_match then OutputMismatch else RuntimeFailure)
      else if \<not> outputs_match then OutputMismatch
      else if \<not> configuration_match \<or> \<not> policies_clean \<or> \<not> trace_match then TraceMismatch
      else Pass)"

text \<open>\<open>_manifest_input(m, k) or m.get(k', {})\<close>, the hash of the VP the reference ran on.\<close>

definition reference_tool :: "json \<Rightarrow> string \<Rightarrow> string \<Rightarrow> json res" where
  "reference_tool m input key = bindE (manifest_input m input) (\<lambda>v.
     if truthy v then Inr v else jget_or m (JDict []) key)"

record configuration =
  cf_vp_binary :: bool
  cf_cmod :: bool
  cf_loadable :: bool
  cf_image :: bool

definition same_sha :: "json res \<Rightarrow> json res \<Rightarrow> bool res" where
  "same_sha a b = bindE a (\<lambda>x. bindE (jget x ''sha256'') (\<lambda>u. bindE b (\<lambda>y. bindE (jget y ''sha256'') (\<lambda>v. Inr (jeq u v)))))"

definition configuration_match :: "json \<Rightarrow> json \<Rightarrow> configuration res" where
  "configuration_match r c =
     bindE (same_sha (reference_tool r ''vp_binary'' ''vp_binary'') (jget_or c (JDict []) ''vp_binary'')) (\<lambda>vp.
     bindE (same_sha (reference_tool r ''cmod'' ''vp_cmod'') (jget_or c (JDict []) ''vp_cmod'')) (\<lambda>cmod.
     bindE (same_sha (manifest_input r ''loadable'') (manifest_input c ''loadable'')) (\<lambda>loadable.
     bindE (same_sha (manifest_input r ''image'') (manifest_input c ''image'')) (\<lambda>image.
       Inr \<lparr>cf_vp_binary = vp, cf_cmod = cmod, cf_loadable = loadable, cf_image = image\<rparr>))))"

definition all_match :: "configuration \<Rightarrow> bool" where
  "all_match c = (cf_vp_binary c \<and> cf_cmod c \<and> cf_loadable c \<and> cf_image c)"

record artifact_comparison =
  ac_classification :: classification
  ac_configuration :: configuration
  ac_outputs_match :: bool
  ac_reference_layers :: int
  ac_candidate_layers :: int
  ac_reference_policy :: norm_policy
  ac_candidate_policy :: norm_policy
  ac_trace :: trace_comparison

definition has_status :: "json \<Rightarrow> string \<Rightarrow> bool res" where
  "has_status m s = bindE (jget m ''status'') (\<lambda>v. Inr (jeq v (JStr s)))"

definition compare_trace_artifacts :: "fs \<Rightarrow> path \<Rightarrow> path \<Rightarrow> artifact_comparison res" where
  "compare_trace_artifacts fs reference candidate =
     bindE (read_json fs (reference @ [''manifest.json''])) (\<lambda>rm.
     bindE (read_json fs (candidate @ [''manifest.json''])) (\<lambda>cm.
     bindE (load_events fs (reference @ [''csb-events.jsonl''])) (\<lambda>re.
     bindE (load_events fs (candidate @ [''csb-events.jsonl''])) (\<lambda>ce.
     bindE (normalize_csb_events re DEFAULT_EXTMEM_BASE DEFAULT_EXTMEM_HIGH) (\<lambda>(rn, rp).
     bindE (normalize_csb_events ce DEFAULT_EXTMEM_BASE DEFAULT_EXTMEM_HIGH) (\<lambda>(cn, cp).
     bindE (compare_normalized_traces rn cn) (\<lambda>trace.
     bindE (configuration_match rm cm) (\<lambda>cf.
     bindE (jget rm ''actual_output'') (\<lambda>ro.
     bindE (jget cm ''actual_output'') (\<lambda>co.
     bindE (output_path fs reference rm) (\<lambda>_.
     bindE (output_path fs candidate cm) (\<lambda>_.
     bindE (has_status rm ''pass'') (\<lambda>rpass.
     bindE (has_status cm ''pass'') (\<lambda>cpass.
       let outputs = jeq ro co
       in Inr \<lparr>ac_classification = classify rpass cpass outputs (all_match cf)
                  (np_errors rp = [] \<and> np_errors cp = []) (tc_match trace),
               ac_configuration = cf, ac_outputs_match = outputs,
               ac_reference_layers = layer_completion_count fs reference,
               ac_candidate_layers = layer_completion_count fs candidate,
               ac_reference_policy = rp, ac_candidate_policy = cp, ac_trace = trace\<rparr>))))))))))))))"

text \<open>The exit status of \<open>trace-compare\<close>.\<close>

definition run_trace_compare :: "fs \<Rightarrow> path \<Rightarrow> path \<Rightarrow> int" where
  "run_trace_compare fs reference candidate = (case compare_trace_artifacts fs reference candidate of
       Inl e \<Rightarrow> 1 | Inr r \<Rightarrow> if ac_classification r = Pass then 0 else 1)"

subsection \<open>Reading back a written trace\<close>

lemma show_base16_no_NL: "0 \<le> n \<Longrightarrow> n < 256 \<Longrightarrow> NL \<notin> set (show_base 16 n)"
proof -
  have "list_all (\<lambda>n. NL \<notin> set (show_base 16 n)) [0..255]" by code_simp
  then show "0 \<le> n \<Longrightarrow> n < 256 \<Longrightarrow> NL \<notin> set (show_base 16 n)"
    by (simp add: list_all_iff)
qed

lemma escape_no_NL: "NL \<notin> set (escape_char c)"
proof -
  have "0 \<le> code c" "code c < 256" using pos_mod_bound [of 256 "code c"] pos_mod_sign [of 256 "code c"]
    by (simp_all add: code_def)
  then have "NL \<notin> set (show_base 16 (code c))" by (rule show_base16_no_NL)
  moreover have "code NL = 10" by (simp add: NL_def code_def)
  ultimately show ?thesis
    by (auto simp: escape_char_def pad_left_def NL_def BS_def DQ_def CR_def)
qed

lemma NL_not: "NL \<noteq> CHR ''{''" "NL \<noteq> CHR ''}''" "NL \<noteq> CHR '':''" "NL \<noteq> CHR '' ''" "NL \<noteq> CHR '',''" "NL \<noteq> CHR ''-''"
    "NL \<notin> set ''null''" "NL \<notin> set ''true''" "NL \<notin> set ''false''" "\<not> is_dec NL"
  by (simp_all add: NL_def is_dec_def code_def Let_def)

lemma dump_string_no_NL: "NL \<notin> set (dump_string s)"
  using escape_no_NL by (auto simp: dump_string_def DQ_def NL_def)

lemma show_int_no_NL: "NL \<notin> set (show_int n)"
proof -
  have "0 \<le> m \<Longrightarrow> NL \<notin> set (show_base 10 m)" for m
    using show_base10 [of m] NL_not by (metis list_all_iff)
  then show ?thesis using NL_not by (auto simp: show_int_def)
qed

lemma dump_scalar_no_NL: "is_scalar v \<Longrightarrow> NL \<notin> set (dump_scalar v)"
  using NL_not by (cases v) (auto simp: dump_string_no_NL show_int_no_NL)

lemma join_set: "set (join sep ms) \<subseteq> set sep \<union> \<Union> (set ` set ms)"
  by (induction sep ms rule: join.induct) auto

lemma dump_object_no_NL: "list_all (is_scalar \<circ> snd) kvs \<Longrightarrow> NL \<notin> set (dump_object kvs)"
proof -
  assume "list_all (is_scalar \<circ> snd) kvs"
  then have "\<forall>m \<in> set kvs. NL \<notin> set (dump_member m)"
    using NL_not by (auto simp: list_all_iff dump_member_def dump_string_no_NL dump_scalar_no_NL)
  with join_set [of "'', ''" "map dump_member kvs"] show ?thesis
    using NL_not by (auto simp: dump_object_def)
qed

lemma event_scalars: "list_all (is_scalar \<circ> snd) (event_members e)"
  by (cases "ev_register e") (simp_all add: event_members_def optional_json_def)

lemma event_of_members: "event_of (JDict (event_members e)) = Inr e"
  by (cases e) (simp add: event_of_def event_members_def str_at_def jget_def optional_json_def split: option.splits)

lemma strip_start: "\<not> is_space c \<Longrightarrow> strip (c # s) \<noteq> []"
proof -
  assume c: "\<not> is_space c"
  then have "dropWhile is_space (rev s @ [c]) \<noteq> []" by (induction "rev s") (auto simp: dropWhile_append)
  then have "c \<in> set (rstrip (c # s))" using c
    by (auto simp: rstrip_def dropWhile_append)
  with c show ?thesis by (auto simp: strip_def lstrip_def dropWhile_eq_Nil_conv)
qed

lemma optional_scalar [simp]: "is_scalar (optional_json v)"
  by (cases v) (simp_all add: optional_json_def)

lemma event_line:
  "strip (dump_object (event_members e) @ [NL]) \<noteq> []"
  "json_loads (dump_object (event_members e) @ [NL]) = Inr (JDict (event_members e))"
proof -
  have "\<not> is_space (CHR ''{'')" by (simp add: is_space_def code_def)
  moreover have "\<exists>s. dump_object (event_members e) @ [NL] = CHR ''{'' # s" by (simp add: dump_object_def)
  ultimately show "strip (dump_object (event_members e) @ [NL]) \<noteq> []" using strip_start by metis
  show "json_loads (dump_object (event_members e) @ [NL]) = Inr (JDict (event_members e))"
    by (rule json_loads_dump) (simp_all add: event_scalars event_members_def skip_ws_def jws_def)
qed

lemma read_written_lines:
  "read_jsonl_lines (map (\<lambda>e. dump_object (event_members e) @ [NL]) es) acc
    = Inr (acc @ map (\<lambda>e. JDict (event_members e)) es)"
proof (induction es arbitrary: acc)
  case (Cons e es)
  have "jget (JDict (event_members e)) ''schema_version'' = Inr (JInt 1)"
    by (simp add: jget_def event_members_def)
  with Cons show ?case by (simp add: event_line jeq_def)
qed simp

text \<open>A trace survives its file: reading back the JSON lines that were written gives the same events.\<close>

theorem jsonl_roundtrip:
  "bindE (read_jsonl (write_jsonl events)) (mapE event_of) = Inr events"
proof -
  have "file_lines (write_jsonl events) = map (\<lambda>e. dump_object (event_members e) @ [NL]) events"
    using file_lines_concat [of "map (\<lambda>e. dump_object (event_members e)) events"]
      dump_object_no_NL [OF event_scalars]
    by (simp add: write_jsonl_def list_all_iff comp_def)
  then have "read_jsonl (write_jsonl events) = Inr (map (\<lambda>e. JDict (event_members e)) events)"
    by (simp add: read_jsonl_def read_written_lines)
  moreover have "mapE event_of (map (\<lambda>e. JDict (event_members e)) events) = Inr events"
    by (induction events) (simp_all add: event_of_members)
  ultimately show ?thesis by simp
qed


lemma normalized_match_iff:
  "(\<exists>t. compare_normalized_traces x y = Inr t \<and> tc_match t) \<longleftrightarrow>
     (map event_signature (on_channel Programming x) = map event_signature (on_channel Programming y) \<and>
      (\<exists>ic. compare_interrupt_service (on_channel Interrupt x) (on_channel Interrupt y) = Inr ic \<and> ch_match ic))"
  by (auto simp: compare_normalized_traces_def bindE_Inr_iff Let_def compare_sequence_simps)

lemma classify_pass:
  "classify a b o' d e f = Pass \<longleftrightarrow> a \<and> b \<and> o' \<and> d \<and> e \<and> f"
  by (simp add: classify_def)


end
