(* ===== verification/Spec2Isabelle.thy ===== *)
theory Spec2Isabelle
  imports BenchRunner CampaignReport CpuModels CpuReport Diagnostics EvaluationBrief FlatbufClient InputReport InputSets Lenet Milestone PlatformCommands Report Rootfs SdBundle Stock TraceFiles
begin

text \<open>
  A model of the Python test framework of the NVDLA port (src/tools): the programs that build pinned
  workloads, run them on the virtual platform and on the board, and decide from the logs and files
  they leave whether a run is good.

  \<^bold>\<open>The parts and how they interact.\<close> The workload builders fetch and verify pinned sources, compile
  them in a container and write a workload directory with its manifest. A virtual-platform run copies a
  workload to the guest, drives its serial console and judges the logs; its output can be promoted to
  the golden output of ResNet-50. The payload builder gates and copies the workloads for the SD card; the
  artifact import unpacks a run of the board and classifies it. The trace tools parse the register
  traces of two platforms and compare them. The performance tools import archives of benchmark sessions,
  check that they are qualified and come from different boots, and reduce them to statistics of latency,
  power and accuracy, for the accelerator and for the CPU; the campaign report compares both, and the
  evaluation brief shows the results on twelve pages. The campaign runner starts the benchmarks on the board
  one fresh boot after another. All of them read and write JSON documents and report an exit status or raise
  an exception; the command line (cli.py) reads the arguments and calls them.

  \<^bold>\<open>Foundations.\<close> Prelude: exceptions as \<open>Inl\<close> of a sum (\<open>'a res\<close>), sequencing (\<open>bindE\<close>, \<open>mapE\<close>,
  \<open>foldE\<close>), generic list facts. PyStr: strings, \<open>split\<close>, \<open>strip\<close>, \<open>splitlines\<close>, \<open>int(text, base)\<close>,
  number texts. Regex: the regular expressions the tools compile, with the backtracking order of
  Python's \<open>re\<close>. PyDict: dictionaries in insertion order, with the locale \<open>assoc_store\<close> (interpreted
  on the dictionary model). PyVal: loaded JSON values and Python's access, truth and equality on them.
  Json: \<open>json.loads\<close> and \<open>json.dumps\<close>. Files: a file system of paths and contents, with the locale
  \<open>file_store\<close> (interpreted on it). Env: what comes from outside (hashes, time, Pillow, tar), as a record
  of functions, and \<open>write_json\<close>.

  \<^bold>\<open>Components.\<close>
  Trace, TraceCompare, TraceFiles: tools/nvdla_test_framework/trace.py (register map, SystemC log lines,
  one-pass canonicalisation; normalisation, comparison of programming and interrupt service streams;
  JSON lines and the artifact comparison). Lemmas: the one pass is the batch parser with summary; a
  comparison matches exactly when its counters are zero; the interrupt service is valid exactly for
  status/acknowledge/clear triples; normalisation is invariant under relocation of DMA buffers.
  FlatbufClient: tools/runtime/nvdla_flatbuf_client.py (frames over a socket in chunks, the request
  protocol, connection retry), with the locale \<open>frame_channel\<close> interpreted on the model.
  Workloads: workloads.py (generated workloads, the chunked exact comparison).
  Platform: lockcheck.py, abi.py, xsa_audit.py, petalinux.py (version lock, ioctl numbers, audit of the
  hardware archive, device tree fragment). PlatformCommands: their commands, with what they write and print.
  Builders, Resnet50, Lenet: the Docker selection of common.py, resnet50.py and lenet.py (fetching,
  preprocessing geometry, compilation, manifests, promotion of the golden output; analysis of LeNet
  runs). Lemmas: after fetching every file has its pinned hash; a rebuild keeps a golden output only for
  equal hashes; a promoted manifest passes the payload gate exactly when every engine is known.
  VpLog, VpSerial, VpRun: vp.py and patches.py (logs and environment, the serial session as lists of
  polls, both lanes and the verdict). Lemmas: a passing run has a zero script status, no bad pattern and
  the golden output; the session completes exactly when the marker is in its log; the echo of the typed
  command already completes it.
  GuestScript: the two shell scripts vp.py writes for the guest, as texts.
  Diagnostics: diagnostics.py. BoardPayload, BoardArtifact: board_payload.py and board_artifact.py (verified
  copies, complexity gate, assembly of the payload; parsing, classification, confined extraction and
  the verdict of an import).
  Csv, Stats: what performance.py uses of \<open>csv\<close> (the reader's state machine, \<open>DictReader\<close>, the writer) and
  of \<open>statistics\<close> (percentiles, summaries, the bootstrap of session medians). Lemmas: a written table is read
  back; percentiles and intervals are ordered and within the data.
  PerfEvidence, PowerTrace, PerfSummary, PerfImport: performance.py (extraction, provenance and profile rows;
  sweeps, series, clipping and integration of power; latency phases, scheduling and overhead; the import,
  its summary and its tables). Lemmas: every accepted row is of a qualified run; energy is additive over
  adjacent intervals; mean powers lie within the samples; the phases of the latency add up; the sessions of
  an import are of different boots and of equal, complete provenance.
  InputVariation: input_variation.py (sessions over twenty inputs). CpuPerformance: cpu_performance.py, with
  its own clipping and integration, proved to agree with the ones of PowerTrace. Campaign: campaign.py
  (eight cohorts of five sessions, the selection of forty archives, ratios of latencies and power).
  Format: the number formats of the reports, rounding half to even. Figures, PerfReport: the SVG figures and the
  Markdown text of an import (performance.py). CpuReport, InputReport, CampaignReport: those of
  cpu_performance.py, input_variation.py and campaign.py, each with the whole command. Lemmas: axes cover
  their data and marks lie in their frames; an average energy that is not positive stops the campaign report.
  BriefData, BriefCanvas, BriefPages, EvaluationBrief: tools/create_evaluation_brief.py (the cohorts with their
  checks; the calls on the canvas of every page; what each page reads, the document and the program). Lemmas: a
  brief is written only from qualified cohorts, with twelve numbered pages; equal medians of all inputs end
  the program with a division by zero.
  Milestone: tools/render_milestone_report_pdf.py (styles, inline Markdown, the block parser, the story).
  Lemmas: the parser keeps every letter of the report, and the columns of a table fill the width.
  CpuModels: tools/onnx/prepare_cpu_models.py (conversion, quantisation, calibration inputs, the gates of a
  prepared model). Lemmas: a prepared model has passed every gate; adjusted pixels stay pixels.
  BenchRunner: scripts/run_benchmark_campaign.py (the questions on the terminal, the queue of fresh-boot sessions
  and the loop that runs them, as a trace of events). Lemmas: sessions run in the order of the queue, until
  the first that fails.
  Cli: tools/nvdla_test_framework/cli.py (the subcommands, their options, and the reading of the arguments as
  argparse does it). Lemmas: every attribute the dispatch reads exists with the type its option promises;
  written flags are read back.

  Rootfs, SdBundle: petalinux_rootfs.py and petalinux_sd.py (the members, scripts, settings, ELF files and
  dependency closure of a root file system; the SD card bundle). Lemmas: the audit exits with 0 exactly when the archive
  meets a declarative specification; the bundle's archive is a function of the three contents.
  InputSets: input_sets.py (decoding MNIST, selecting digits and photographs, the staged directory). VpAudit:
  vp_audit.py. Report: report.py (the latest run of each kind). Stock: stock.py (the session with the stock driver,
  on the console model of VpSerial, with its verdict). Lemmas: the input set is labelled and converted as
  its source says; the audits and the verdict as equivalences; the section logs of an echoing console are the
  typed command.

  \<^bold>\<open>State and effects.\<close> A function that writes files takes the file system and returns it updated. An
  exception ends the operation; what it had written by then is not part of the result. Documents are
  \<open>json\<close> values, written as files with the text \<open>json.dump\<close> gives them. Paths are lists of components and
  taken as resolved. Commands that run outside (Docker, compilers, git) are parameters from a command
  and a file system to a status, an output and a file system.

  \<^bold>\<open>Bounds.\<close> Every iteration of a modelled repetition in Regex consumes a character, so the length of the
  text bounds it; the JSON reader descends with fuel one more than the length of the text, and each
  nested value consumes a character. Loops over chunks are \<open>function\<close>s with a measure. Floats are
  rational numbers: rounding is not modelled. A square root and the positions the bootstrap draws are
  parameters, as is the text of a float.

  \<^bold>\<open>Parameters.\<close> \<open>env\<close> and its extensions hold what comes from outside: in \<open>hw_env\<close> opening the hardware
  archive, in \<open>cpu_env\<close> ONNX, ONNX Runtime and OpenCV, in \<open>brief_view\<close> the heights of wrapped paragraphs, the
  widths of texts and the logarithm, in the figures the logarithm of a scale. The processes of the campaign
  runner are a function of a command and the files, its terminal a list of typed lines. The command line follows argparse as
  in Python 3.11.

  \<^bold>\<open>Not modelled.\<close> Reading zip and tar containers, XML parsing, image codecs, OpenCV, NumPy, ONNX and the
  network are parameters. Of the shell scripts for the virtual platform's guest the texts are modelled and not
  what a shell does with them. The layout of pages and the bytes of PDF documents are reportlab's. Printed progress and
  help texts, file modes and times are left out, and so are the probing of Docker through WSL (common.py), the
  argument parsing of the small tools that have their own, some documents of trace.py, and the
  shell and C tools of the repository.
\<close>

end
